(* ===== verification/Prelude.thy ===== *)
theory Prelude
  imports Main "HOL-Library.Word"
begin

text \<open>Shared ground of the development: names for the machine types of the code, the bit test
  that a C++ flag test compiles to, errors as values, decimal output of an unsigned integer, and
  the generic lemmas on lists and maps that several components use. The collections declared here
  gather the definitions a proof about one component unfolds.\<close>

unbundle bit_operations_syntax

named_theorems node_bits \<open>the flag constants of the node types\<close>
named_theorems node_preds \<open>the classification predicates of a node\<close>
named_theorems graph_ops \<open>the definitions of the graph operations\<close>
named_theorems stream_ops \<open>the definitions of the stream operations\<close>

text \<open>An updated map is evaluated at an argument only, so that a state keeps the values it has been given.\<close>

declare fun_upd_def [code del]
declare fun_upd_apply [code]

section \<open>Machine types\<close>

type_synonym u32 = "32 word"
type_synonym u64 = "64 word"

abbreviation UINT64_MAX :: u64 where "UINT64_MAX \<equiv> - 1"
abbreviation UINT32_MAX :: u32 where "UINT32_MAX \<equiv> - 1"

text \<open>A flag test such as \<^verbatim>\<open>nodeType & OFLD_WAIT\<close> in a condition.\<close>

definition has_flag :: "u32 \<Rightarrow> u32 \<Rightarrow> bool" where
  "has_flag t m \<longleftrightarrow> t AND m \<noteq> 0"

lemma has_flag_0 [simp]: "\<not> has_flag 0 m" "\<not> has_flag t 0"
  by (simp_all add: has_flag_def)

lemma has_flag_or [simp]: "has_flag (t OR u) m \<longleftrightarrow> has_flag t m \<or> has_flag u m"
  by (auto simp: has_flag_def bit_eq_iff bit_and_iff bit_or_iff)

lemma has_flag_or_right: "has_flag t (m OR k) \<longleftrightarrow> has_flag t m \<or> has_flag t k"
  by (auto simp: has_flag_def bit_eq_iff bit_and_iff bit_or_iff)

lemma unat_UINT64_MAX: "unat UINT64_MAX = 2 ^ 64 - 1"
  by (simp add: unsigned_minus_1_eq_mask mask_eq_exp_minus_1)

lemma unat_UINT32_MAX: "unat UINT32_MAX = 2 ^ 32 - 1"
  by (simp add: unsigned_minus_1_eq_mask mask_eq_exp_minus_1)

lemma uint_diff: "(y :: 'w::len word) \<le> x \<Longrightarrow> uint (x - y) = uint x - uint y"
  by (metis of_nat_diff uint_nat unat_sub word_le_nat_alt)

section \<open>Errors as values\<close>

datatype error = Runtime_Error string | Assertion_Failed string | Out_Of_Bounds | Null_Dereference | Division_By_Zero

type_synonym 'a result = "error + 'a"

definition bind_res :: "'a result \<Rightarrow> ('a \<Rightarrow> 'b result) \<Rightarrow> 'b result" where
  "bind_res r f = (case r of Inl e \<Rightarrow> Inl e | Inr x \<Rightarrow> f x)"

lemma bind_res_simps [simp]: "bind_res (Inl e) f = Inl e" "bind_res (Inr x) f = f x"
  by (simp_all add: bind_res_def)

lemma bind_res_Inr: "bind_res r f = Inr y \<longleftrightarrow> (\<exists>x. r = Inr x \<and> f x = Inr y)"
  by (cases r) auto

text \<open>A computation that may run out of fuel: \<^term>\<open>None\<close> is not returning.\<close>

definition bind_fuel :: "'a result option \<Rightarrow> ('a \<Rightarrow> 'b result option) \<Rightarrow> 'b result option" where
  "bind_fuel r f = (case r of None \<Rightarrow> None | Some (Inl e) \<Rightarrow> Some (Inl e) | Some (Inr x) \<Rightarrow> f x)"

lemma bind_fuel_simps [simp]:
  "bind_fuel None f = None" "bind_fuel (Some (Inl e)) f = Some (Inl e)" "bind_fuel (Some (Inr x)) f = f x"
  by (simp_all add: bind_fuel_def)

lemma bind_fuel_Inr: "bind_fuel r f = Some (Inr y) \<longleftrightarrow> (\<exists>x. r = Some (Inr x) \<and> f x = Some (Inr y))"
  by (auto simp: bind_fuel_def split: option.splits sum.splits)

lemma bind_fuel_Some: "bind_fuel (Some r) f = (case r of Inl e \<Rightarrow> Some (Inl e) | Inr x \<Rightarrow> f x)"
  by (cases r) simp_all

section \<open>Decimal output of an unsigned integer\<close>

definition digit_char :: "nat \<Rightarrow> char" where
  "digit_char d = ''0123456789'' ! (d mod 10)"

fun dec_string :: "nat \<Rightarrow> string" where
  "dec_string n = (if n < 10 then [digit_char n] else dec_string (n div 10) @ [digit_char (n mod 10)])"

declare dec_string.simps [simp del]

definition is_digit :: "char \<Rightarrow> bool" where
  "is_digit c \<longleftrightarrow> c \<in> set ''0123456789''"

lemma digit_char_digit: "is_digit (digit_char d)"
proof -
  have "''0123456789'' ! (d mod 10) \<in> set ''0123456789''"
    by (rule nth_mem) simp
  then show ?thesis
    by (simp only: is_digit_def digit_char_def)
qed

lemma digit_char_inj: "digit_char a = digit_char b \<Longrightarrow> a mod 10 = b mod 10"
proof -
  have d: "distinct ''0123456789''"
    by simp
  assume "digit_char a = digit_char b"
  then show ?thesis
    using nth_eq_iff_index_eq [OF d, of "a mod 10" "b mod 10"]
    by (simp add: digit_char_def)
qed

lemma dec_string_digits: "c \<in> set (dec_string n) \<Longrightarrow> is_digit c"
proof (induction n rule: dec_string.induct)
  case (1 n)
  then show ?case
    by (subst (asm) (2) dec_string.simps) (auto split: if_splits simp: digit_char_digit)
qed

lemma dec_string_nonempty [simp]: "dec_string n \<noteq> []"
  by (subst dec_string.simps) simp

lemma dec_string_inj: "dec_string m = dec_string n \<Longrightarrow> m = n"
proof (induction m arbitrary: n rule: dec_string.induct)
  case (1 m)
  show ?case
  proof (cases "m < 10"; cases "n < 10")
    assume "m < 10" "n < 10"
    then show ?thesis
      using 1(2) digit_char_inj [of m n] by (simp add: dec_string.simps [of m] dec_string.simps [of n])
  next
    assume a: "\<not> m < 10" "\<not> n < 10"
    then have e: "dec_string (m div 10) = dec_string (n div 10)" "digit_char (m mod 10) = digit_char (n mod 10)"
      using 1(2) by (simp_all add: dec_string.simps [of m] dec_string.simps [of n])
    have "m div 10 = n div 10" "m mod 10 = n mod 10"
      using 1(1) [OF a(1) e(1)] digit_char_inj [OF e(2)] by simp_all
    then show ?thesis
      by (metis div_mult_mod_eq)
  qed (use 1(2) dec_string_nonempty [of "m div 10"] dec_string_nonempty [of "n div 10"] in
    \<open>auto simp del: dec_string_nonempty simp: dec_string.simps [of m] dec_string.simps [of n]\<close>)
qed

text \<open>Two texts that end in digits after a character that is no digit agree on those digits.\<close>

lemma digit_suffix_eq:
  "us @ c # ds = vs @ d # es \<Longrightarrow> \<not> is_digit c \<Longrightarrow> \<not> is_digit d \<Longrightarrow>
   (\<And>x. x \<in> set ds \<Longrightarrow> is_digit x) \<Longrightarrow> (\<And>x. x \<in> set es \<Longrightarrow> is_digit x) \<Longrightarrow>
   us = vs \<and> c = d \<and> ds = es"
  by (auto simp: append_eq_append_conv2 append_eq_Cons_conv Cons_eq_append_conv)

section \<open>Lists\<close>

lemma sorted_wrt_nth_less_iff:
  assumes "sorted_wrt R xs" "\<And>x. \<not> R x x" "\<And>x y. R x y \<Longrightarrow> \<not> R y x" "i < length xs" "j < length xs"
  shows "R (xs ! i) (xs ! j) \<longleftrightarrow> i < j"
  using assms by (metis sorted_wrt_nth_less linorder_neqE_nat)

lemma remove1_subset_set: "x \<in> set (remove1 a xs) \<Longrightarrow> x \<in> set xs"
  by (meson notin_set_remove1)

lemma find_Some_mem: "List.find P xs = Some x \<Longrightarrow> x \<in> set xs \<and> P x"
  by (induction xs) (auto split: if_splits)

lemma find_None: "List.find P xs = None \<longleftrightarrow> (\<forall>x\<in>set xs. \<not> P x)"
  by (induction xs) auto

end
