(* ===== verification/MetricModel.thy ===== *)
theory MetricModel
  imports Prelude
begin

text \<open>The metrics of \<^verbatim>\<open>backend/include/AnalysisMetric.hpp\<close>: the internal metric types, the table
  that describes them, the reasons of blame, and the allocation of OTF2 identifiers for attributes
  and metric classes.\<close>

section \<open>Enumerations and tables\<close>

datatype metric_type = BLAME | WAITING_TIME | CRITICAL_PATH | NUM_OUTPUT_METRICS | BLAME4IDLE
  | OMPT_REGION_ID | OMP_IGNORE_BARRIER | OMP_FIRST_OFFLOAD_EVT

fun metric_index :: "metric_type \<Rightarrow> nat" where
  "metric_index BLAME = 0"
| "metric_index WAITING_TIME = 1"
| "metric_index CRITICAL_PATH = 2"
| "metric_index NUM_OUTPUT_METRICS = 3"
| "metric_index BLAME4IDLE = 4"
| "metric_index OMPT_REGION_ID = 5"
| "metric_index OMP_IGNORE_BARRIER = 6"
| "metric_index OMP_FIRST_OFFLOAD_EVT = 7"

datatype blame_reason = REASON_OFLD_DEVICE_IDLE | REASON_OFLD_WAIT4DEVICE
  | REASON_OFLD_BLOCKING_TRANSFER | REASON_MPI_COLLECTIVE | REASON_MPI_LATE_SENDER
  | REASON_MPI_LATE_RECEIVER | REASON_MPI_LATE_SENDRECV | REASON_OMP_BARRIER | REASON_UNCLASSIFIED

fun reason_index :: "blame_reason \<Rightarrow> nat" where
  "reason_index REASON_OFLD_DEVICE_IDLE = 0"
| "reason_index REASON_OFLD_WAIT4DEVICE = 1"
| "reason_index REASON_OFLD_BLOCKING_TRANSFER = 2"
| "reason_index REASON_MPI_COLLECTIVE = 3"
| "reason_index REASON_MPI_LATE_SENDER = 4"
| "reason_index REASON_MPI_LATE_RECEIVER = 5"
| "reason_index REASON_MPI_LATE_SENDRECV = 6"
| "reason_index REASON_OMP_BARRIER = 7"
| "reason_index REASON_UNCLASSIFIED = 8"

definition REASON_NUMBER :: nat where "REASON_NUMBER = 9"

lemma metric_index_inj: "metric_index a = metric_index b \<longleftrightarrow> a = b"
  by (cases a; cases b; simp)

lemma reason_index_inj: "reason_index a = reason_index b \<longleftrightarrow> a = b"
  by (cases a; cases b; simp)

lemma reason_index_bound: "reason_index a < REASON_NUMBER"
  by (cases a; simp add: REASON_NUMBER_def)

text \<open>The order of the enumerators is the order in which a \<^verbatim>\<open>std::map\<close> keyed by them is walked.\<close>

instantiation metric_type :: linorder
begin
definition less_eq_metric_type :: "metric_type \<Rightarrow> metric_type \<Rightarrow> bool" where
  "less_eq_metric_type a b \<longleftrightarrow> metric_index a \<le> metric_index b"
definition less_metric_type :: "metric_type \<Rightarrow> metric_type \<Rightarrow> bool" where
  "less_metric_type a b \<longleftrightarrow> metric_index a < metric_index b"
instance
  by standard (auto simp: less_eq_metric_type_def less_metric_type_def metric_index_inj)
end

instantiation blame_reason :: linorder
begin
definition less_eq_blame_reason :: "blame_reason \<Rightarrow> blame_reason \<Rightarrow> bool" where
  "less_eq_blame_reason a b \<longleftrightarrow> reason_index a \<le> reason_index b"
definition less_blame_reason :: "blame_reason \<Rightarrow> blame_reason \<Rightarrow> bool" where
  "less_blame_reason a b \<longleftrightarrow> reason_index a < reason_index b"
instance
  by standard (auto simp: less_eq_blame_reason_def less_blame_reason_def reason_index_inj)
end

definition typeStrTableBlameReason :: "(blame_reason \<times> string) list" where
  "typeStrTableBlameReason =
    [(REASON_OFLD_DEVICE_IDLE, ''device idle''),
     (REASON_OFLD_WAIT4DEVICE, ''host wait''),
     (REASON_OFLD_BLOCKING_TRANSFER, ''blocking transfer''),
     (REASON_MPI_COLLECTIVE, ''MPI collective''),
     (REASON_MPI_LATE_SENDER, ''MPI late sender''),
     (REASON_MPI_LATE_RECEIVER, ''MPI late receiver''),
     (REASON_MPI_LATE_SENDRECV, ''MPI sendrecv''),
     (REASON_OMP_BARRIER, ''OpenMP barrier''),
     (REASON_UNCLASSIFIED, ''unclassified reason'')]"

lemma blame_reason_table_aligned:
  "typeStrTableBlameReason ! reason_index r = (r, snd (typeStrTableBlameReason ! reason_index r))"
  by (cases r) (simp_all add: typeStrTableBlameReason_def)

datatype metric_mode = ATTRIBUTE | COUNTER_ABSOLUT_NEXT | COUNTER_ABSOLUT_LAST | METRIC_MODE_UNKNOWN

datatype otf2_type = OTF2_TYPE_DOUBLE | OTF2_TYPE_UINT64 | OTF2_TYPE_UINT8

record metric_entry =
  me_type :: metric_type
  me_name :: string
  me_description :: string
  me_metricMode :: metric_mode
  me_valueType :: otf2_type
  me_unit :: string
  me_isInternal :: bool

definition METRIC_TABLE :: "metric_entry list" where
  "METRIC_TABLE =
    [\<lparr>me_type = BLAME, me_name = ''Blame'', me_description = ''Amount of caused waiting time'',
      me_metricMode = COUNTER_ABSOLUT_LAST, me_valueType = OTF2_TYPE_DOUBLE,
      me_unit = ''seconds'', me_isInternal = False\<rparr>,
     \<lparr>me_type = WAITING_TIME, me_name = ''Waiting Time'', me_description = ''Time in a wait state'',
      me_metricMode = ATTRIBUTE, me_valueType = OTF2_TYPE_DOUBLE,
      me_unit = ''seconds'', me_isInternal = False\<rparr>,
     \<lparr>me_type = CRITICAL_PATH, me_name = ''Critical Path'', me_description = ''On the critical path boolean'',
      me_metricMode = COUNTER_ABSOLUT_NEXT, me_valueType = OTF2_TYPE_UINT64,
      me_unit = ''boolean'', me_isInternal = False\<rparr>,
     \<lparr>me_type = BLAME4IDLE, me_name = ''Blame4DeviceIdle'',
      me_description = ''Amount of caused idle time on the device'',
      me_metricMode = COUNTER_ABSOLUT_LAST, me_valueType = OTF2_TYPE_DOUBLE,
      me_unit = ''seconds'', me_isInternal = False\<rparr>,
     \<lparr>me_type = OMPT_REGION_ID, me_name = ''OMPT Region ID'', me_description = '''',
      me_metricMode = METRIC_MODE_UNKNOWN, me_valueType = OTF2_TYPE_UINT64,
      me_unit = '''', me_isInternal = True\<rparr>,
     \<lparr>me_type = OMP_IGNORE_BARRIER, me_name = ''OpenMP Target Collapsed Barrier'', me_description = '''',
      me_metricMode = METRIC_MODE_UNKNOWN, me_valueType = OTF2_TYPE_UINT8,
      me_unit = '''', me_isInternal = True\<rparr>]"

section \<open>The identifier registry\<close>

record analysis_metric =
  maxMetricClassId :: u32
  maxMetricMemberId :: u32
  maxAttrId :: u32
  otf2Ids :: "metric_type \<rightharpoonup> u32"
  ctrIDs :: "metric_type set"
  metricIds :: "metric_type set"

definition AnalysisMetric_init :: analysis_metric where
  "AnalysisMetric_init = \<lparr>maxMetricClassId = 0, maxMetricMemberId = 0, maxAttrId = 0,
     otf2Ids = Map.empty, ctrIDs = {}, metricIds = {}\<rparr>"

text \<open>The code indexes the C array with the enumerator; an index past its end is an error value here.\<close>

definition getMetric :: "metric_type \<Rightarrow> metric_entry result" where
  "getMetric m = (if metric_index m < length METRIC_TABLE
     then Inr (METRIC_TABLE ! metric_index m) else Inl Out_Of_Bounds)"

definition getMetricName :: "metric_type \<Rightarrow> string result" where
  "getMetricName m = bind_res (getMetric m) (\<lambda>e. Inr (me_name e))"

definition getMetricDescription :: "metric_type \<Rightarrow> string result" where
  "getMetricDescription m = bind_res (getMetric m) (\<lambda>e. Inr (me_description e))"

definition getMetricValueType :: "metric_type \<Rightarrow> otf2_type result" where
  "getMetricValueType m = bind_res (getMetric m) (\<lambda>e. Inr (me_valueType e))"

text \<open>\<^verbatim>\<open>otf2Ids[metric]\<close> of a \<^verbatim>\<open>std::map\<close> inserts 0 for an absent key.\<close>

definition getMetricId :: "metric_type \<Rightarrow> analysis_metric \<Rightarrow> u32 \<times> analysis_metric" where
  "getMetricId m s = (case otf2Ids s m of Some i \<Rightarrow> (i, s)
     | None \<Rightarrow> (0, s\<lparr>otf2Ids := (otf2Ids s)(m \<mapsto> 0)\<rparr>))"

definition getNewMetricMemberId :: "analysis_metric \<Rightarrow> u32 \<times> analysis_metric" where
  "getNewMetricMemberId s = (let i = maxMetricMemberId s + 1 in (i, s\<lparr>maxMetricMemberId := i\<rparr>))"

definition addMetricMemberId :: "u32 \<Rightarrow> analysis_metric \<Rightarrow> analysis_metric" where
  "addMetricMemberId i s = s\<lparr>maxMetricMemberId := max (maxMetricMemberId s) i\<rparr>"

definition addMetricClassId :: "u32 \<Rightarrow> analysis_metric \<Rightarrow> analysis_metric" where
  "addMetricClassId i s = s\<lparr>maxMetricClassId := max (maxMetricClassId s) i\<rparr>"

definition addAttributeId :: "u32 \<Rightarrow> analysis_metric \<Rightarrow> analysis_metric" where
  "addAttributeId i s = s\<lparr>maxAttrId := max (maxAttrId s) i\<rparr>"

definition newOtf2Id :: "metric_type \<Rightarrow> analysis_metric \<Rightarrow> (u32 \<times> analysis_metric) result" where
  "newOtf2Id m s = bind_res (getMetric m) (\<lambda>entry.
     if me_metricMode entry = ATTRIBUTE then
       (let i = maxAttrId s + 1 in
        Inr (i, s\<lparr>maxAttrId := i, otf2Ids := (otf2Ids s)(m \<mapsto> i), metricIds := insert m (metricIds s)\<rparr>))
     else if me_metricMode entry \<noteq> METRIC_MODE_UNKNOWN then
       (let i = maxMetricClassId s + 1 in
        Inr (i, s\<lparr>maxMetricClassId := i, otf2Ids := (otf2Ids s)(m \<mapsto> i),
                  ctrIDs := insert m (ctrIDs s), metricIds := insert m (metricIds s)\<rparr>))
     else Inr (UINT32_MAX, s))"

end
