(* ===== verification/NodeModel.thy ===== *)
theory NodeModel
  imports MetricModel
begin

text \<open>The event nodes of \<^verbatim>\<open>backend/include/graph/Node.hpp\<close> and \<^verbatim>\<open>GraphNode.hpp\<close>: flag constants,
  the node record, the classification predicates, the order \<^verbatim>\<open>compareLess\<close> and the operations on
  one node. A pointer to a node is a reference of type \<^typ>\<open>nat\<close>; the null pointer is
  \<^term>\<open>None\<close>.\<close>

section \<open>Flags\<close>

text \<open>enum \<^verbatim>\<open>Paradigm\<close>\<close>

definition PARADIGM_CUDA :: u32 where [node_bits]: "PARADIGM_CUDA = push_bit 0 1"
definition PARADIGM_OCL :: u32 where [node_bits]: "PARADIGM_OCL = push_bit 1 1"
definition PARADIGM_MPI :: u32 where [node_bits]: "PARADIGM_MPI = push_bit 2 1"
definition PARADIGM_OMP :: u32 where [node_bits]: "PARADIGM_OMP = push_bit 3 1"
definition PARADIGM_OMPT :: u32 where [node_bits]: "PARADIGM_OMPT = push_bit 4 1"
definition PARADIGM_OMP_TARGET :: u32 where [node_bits]: "PARADIGM_OMP_TARGET = push_bit 5 1"
definition PARADIGM_CPU :: u32 where [node_bits]: "PARADIGM_CPU = PARADIGM_OMP_TARGET + 1"
definition PARADIGM_OFFLOAD :: u32 where [node_bits]: "PARADIGM_OFFLOAD = (PARADIGM_CUDA OR PARADIGM_OCL)"
definition PARADIGM_COMPUTE_LOCAL :: u32 where [node_bits]:
  "PARADIGM_COMPUTE_LOCAL = (PARADIGM_CUDA OR PARADIGM_OCL OR PARADIGM_OMP OR PARADIGM_OMPT)"
definition PARADIGM_ALL :: u32 where [node_bits]:
  "PARADIGM_ALL = (PARADIGM_CUDA OR PARADIGM_OCL OR PARADIGM_MPI OR PARADIGM_OMP OR PARADIGM_OMPT OR PARADIGM_OMP_TARGET)"
definition NODE_PARADIGM_COUNT :: nat where "NODE_PARADIGM_COUNT = 4"
definition NODE_PARADIGM_INVALID :: nat where "NODE_PARADIGM_INVALID = push_bit NODE_PARADIGM_COUNT 1"

text \<open>enum \<^verbatim>\<open>NodeTypeMisc\<close>\<close>

definition MISC_CPU :: u32 where [node_bits]: "MISC_CPU = push_bit 30 1"
definition MISC_PROCESS :: u32 where [node_bits]: "MISC_PROCESS = push_bit 31 1"
text \<open>enum \<^verbatim>\<open>NodeTypeOFLD\<close>\<close>

definition OFLD_WAIT :: u32 where [node_bits]: "OFLD_WAIT = push_bit 1 1"
definition OFLD_WAIT_QUEUE :: u32 where [node_bits]: "OFLD_WAIT_QUEUE = push_bit 2 1"
definition OFLD_WAIT_ALL :: u32 where [node_bits]: "OFLD_WAIT_ALL = push_bit 3 1"
definition OFLD_WAIT_EVT :: u32 where [node_bits]: "OFLD_WAIT_EVT = push_bit 4 1"
definition OFLD_WAITSTATE :: u32 where [node_bits]: "OFLD_WAITSTATE = push_bit 5 1"
definition OFLD_TASK_KERNEL :: u32 where [node_bits]: "OFLD_TASK_KERNEL = push_bit 6 1"
definition OFLD_TASK_DATA :: u32 where [node_bits]: "OFLD_TASK_DATA = push_bit 7 1"
definition OFLD_ENQUEUE_KERNEL :: u32 where [node_bits]: "OFLD_ENQUEUE_KERNEL = push_bit 8 1"
definition OFLD_ENQUEUE_DATA :: u32 where [node_bits]: "OFLD_ENQUEUE_DATA = push_bit 9 1"
definition OFLD_ENQUEUE_EVT :: u32 where [node_bits]: "OFLD_ENQUEUE_EVT = push_bit 10 1"
definition OFLD_ENQUEUE_WAIT :: u32 where [node_bits]: "OFLD_ENQUEUE_WAIT = push_bit 11 1"
definition OFLD_QUERY :: u32 where [node_bits]: "OFLD_QUERY = push_bit 12 1"
definition OFLD_QUERY_EVT :: u32 where [node_bits]: "OFLD_QUERY_EVT = push_bit 13 1"
definition OFLD_BLOCKING_DATA :: u32 where [node_bits]: "OFLD_BLOCKING_DATA = push_bit 14 1"
definition OFLD_ASYNC_DATA :: u32 where [node_bits]: "OFLD_ASYNC_DATA = push_bit 15 1"
text \<open>enum \<^verbatim>\<open>NodeTypeMPI\<close>\<close>

definition MPI_SEND :: u32 where [node_bits]: "MPI_SEND = push_bit 1 1"
definition MPI_RECV :: u32 where [node_bits]: "MPI_RECV = push_bit 2 1"
definition MPI_WAIT :: u32 where [node_bits]: "MPI_WAIT = push_bit 3 1"
definition MPI_COLLECTIVE :: u32 where [node_bits]: "MPI_COLLECTIVE = push_bit 4 1"
definition MPI_SENDRECV :: u32 where [node_bits]: "MPI_SENDRECV = push_bit 5 1"
definition MPI_MISC :: u32 where [node_bits]: "MPI_MISC = push_bit 6 1"
definition MPI_EXIT :: u32 where [node_bits]: "MPI_EXIT = push_bit 7 1"
definition MPI_WAITSTATE :: u32 where [node_bits]: "MPI_WAITSTATE = push_bit 8 1"
definition MPI_ONETOALL :: u32 where [node_bits]: "MPI_ONETOALL = push_bit 9 1"
definition MPI_ALLTOONE :: u32 where [node_bits]: "MPI_ALLTOONE = push_bit 10 1"
definition MPI_ISEND :: u32 where [node_bits]: "MPI_ISEND = push_bit 11 1"
definition MPI_IRECV :: u32 where [node_bits]: "MPI_IRECV = push_bit 12 1"
definition MPI_WAITALL :: u32 where [node_bits]: "MPI_WAITALL = push_bit 13 1"
definition MPI_TEST :: u32 where [node_bits]: "MPI_TEST = push_bit 14 1"
definition MPI_TESTALL :: u32 where [node_bits]: "MPI_TESTALL = push_bit 15 1"
definition MPI_INIT :: u32 where [node_bits]: "MPI_INIT = push_bit 16 1"
definition MPI_FINALIZE :: u32 where [node_bits]: "MPI_FINALIZE = push_bit 17 1"
definition MPI_ALLRANKS :: u32 where [node_bits]: "MPI_ALLRANKS = push_bit 18 1"
definition MPI_BLOCKING :: u32 where [node_bits]: "MPI_BLOCKING = push_bit 19 1"
definition MPI_COMM :: u32 where [node_bits]: "MPI_COMM = push_bit 20 1"
text \<open>enum \<^verbatim>\<open>NodeTypeOMP\<close>\<close>

definition OMP_SYNC :: u32 where [node_bits]: "OMP_SYNC = push_bit 1 1"
definition OMP_FORKJOIN :: u32 where [node_bits]: "OMP_FORKJOIN = push_bit 2 1"
definition OMP_PARALLEL :: u32 where [node_bits]: "OMP_PARALLEL = push_bit 3 1"
definition OMP_IMPLICIT_TASK :: u32 where [node_bits]: "OMP_IMPLICIT_TASK = push_bit 4 1"
definition OMP_MISC :: u32 where [node_bits]: "OMP_MISC = push_bit 5 1"
definition OMP_WAITSTATE :: u32 where [node_bits]: "OMP_WAITSTATE = push_bit 6 1"
definition OMP_TARGET :: u32 where [node_bits]: "OMP_TARGET = push_bit 7 1"
definition OMP_TARGET_FLUSH :: u32 where [node_bits]: "OMP_TARGET_FLUSH = push_bit 8 1"
section \<open>The node record\<close>

datatype record_type = RECORD_ATOMIC | RECORD_ENTER | RECORD_LEAVE | RECORD_SINGLE

type_synonym node_ref = nat

record node =
  nd_id :: u64
  nd_time :: u64
  nd_streamId :: u64
  nd_functionId :: u64
  nd_name :: string
  nd_recordType :: record_type
  nd_paradigm :: u32
  nd_nodeType :: u32
  nd_link :: "node_ref option"
  nd_referencedStream :: u64
  nd_counters :: "metric_type \<rightharpoonup> u64"

definition NAME_WAITSTATE :: string where "NAME_WAITSTATE = ''WaitState''"

section \<open>Classification\<close>

definition isEnter :: "'a node_scheme \<Rightarrow> bool" where [node_preds]:
  "isEnter n \<longleftrightarrow> nd_recordType n = RECORD_ENTER"

definition isLeave :: "'a node_scheme \<Rightarrow> bool" where [node_preds]:
  "isLeave n \<longleftrightarrow> nd_recordType n = RECORD_LEAVE"

definition isAtomic :: "'a node_scheme \<Rightarrow> bool" where [node_preds]:
  "isAtomic n \<longleftrightarrow> nd_recordType n = RECORD_ATOMIC"

definition isCUDA :: "'a node_scheme \<Rightarrow> bool" where [node_preds]:
  "isCUDA n \<longleftrightarrow> has_flag (nd_paradigm n) PARADIGM_CUDA"

definition isOpenCL :: "'a node_scheme \<Rightarrow> bool" where [node_preds]:
  "isOpenCL n \<longleftrightarrow> has_flag (nd_paradigm n) PARADIGM_OCL"

definition isOfld :: "'a node_scheme \<Rightarrow> bool" where [node_preds]:
  "isOfld n \<longleftrightarrow> has_flag (nd_paradigm n) PARADIGM_OFFLOAD"

definition isMPI :: "'a node_scheme \<Rightarrow> bool" where [node_preds]:
  "isMPI n \<longleftrightarrow> has_flag (nd_paradigm n) PARADIGM_MPI"

definition isOMP :: "'a node_scheme \<Rightarrow> bool" where [node_preds]:
  "isOMP n \<longleftrightarrow> has_flag (nd_paradigm n) PARADIGM_OMP"

definition isOffloadWait :: "'a node_scheme \<Rightarrow> bool" where [node_preds]:
  "isOffloadWait n \<longleftrightarrow> isOfld n \<and> (has_flag (nd_nodeType n) OFLD_WAIT)"

definition isOffloadWaitAll :: "'a node_scheme \<Rightarrow> bool" where [node_preds]:
  "isOffloadWaitAll n \<longleftrightarrow> isOfld n \<and> (has_flag (nd_nodeType n) OFLD_WAIT_ALL)"

definition isOffloadEnqueueKernel :: "'a node_scheme \<Rightarrow> bool" where [node_preds]:
  "isOffloadEnqueueKernel n \<longleftrightarrow> isOfld n \<and> (has_flag (nd_nodeType n) OFLD_ENQUEUE_KERNEL)"

definition isOffloadKernel :: "'a node_scheme \<Rightarrow> bool" where [node_preds]:
  "isOffloadKernel n \<longleftrightarrow> isOfld n \<and> (has_flag (nd_nodeType n) OFLD_TASK_KERNEL)"

definition isOffloadWaitEvent :: "'a node_scheme \<Rightarrow> bool" where [node_preds]:
  "isOffloadWaitEvent n \<longleftrightarrow> isOfld n \<and> (has_flag (nd_nodeType n) OFLD_WAIT_EVT)"

definition isOffloadEnqueueTransfer :: "'a node_scheme \<Rightarrow> bool" where [node_preds]:
  "isOffloadEnqueueTransfer n \<longleftrightarrow> isOfld n \<and> (has_flag (nd_nodeType n) OFLD_ENQUEUE_DATA)"

definition isWaitstate :: "'a node_scheme \<Rightarrow> bool" where [node_preds]:
  "isWaitstate n \<longleftrightarrow> (isOMP n \<and> (has_flag (nd_nodeType n) OMP_WAITSTATE)) \<or> (isOfld n \<and> (has_flag (nd_nodeType n) OFLD_WAITSTATE)) \<or> (isMPI n \<and> (has_flag (nd_nodeType n) MPI_WAITSTATE))"

definition isPureWaitstate :: "'a node_scheme \<Rightarrow> bool" where [node_preds]:
  "isPureWaitstate n \<longleftrightarrow> isWaitstate n \<and> nd_name n = NAME_WAITSTATE"

definition isProcess :: "'a node_scheme \<Rightarrow> bool" where [node_preds]:
  "isProcess n \<longleftrightarrow> isAtomic n \<and> (has_flag (nd_nodeType n) MISC_PROCESS)"

definition isCUDAKernel :: "'a node_scheme \<Rightarrow> bool" where [node_preds]:
  "isCUDAKernel n \<longleftrightarrow> isCUDA n \<and> (has_flag (nd_nodeType n) OFLD_TASK_KERNEL)"

definition isCUDAKernelLaunch :: "'a node_scheme \<Rightarrow> bool" where [node_preds]:
  "isCUDAKernelLaunch n \<longleftrightarrow> isCUDA n \<and> (has_flag (nd_nodeType n) OFLD_ENQUEUE_KERNEL)"

definition isCUDASync :: "'a node_scheme \<Rightarrow> bool" where [node_preds]:
  "isCUDASync n \<longleftrightarrow> isCUDA n \<and> (has_flag (nd_nodeType n) OFLD_WAIT)"

definition isCUDACollSync :: "'a node_scheme \<Rightarrow> bool" where [node_preds]:
  "isCUDACollSync n \<longleftrightarrow> isCUDA n \<and> (has_flag (nd_nodeType n) OFLD_WAIT_ALL)"

definition isCUDAEventSync :: "'a node_scheme \<Rightarrow> bool" where [node_preds]:
  "isCUDAEventSync n \<longleftrightarrow> isCUDA n \<and> (has_flag (nd_nodeType n) OFLD_WAIT_EVT)"

definition isCUDAEventLaunch :: "'a node_scheme \<Rightarrow> bool" where [node_preds]:
  "isCUDAEventLaunch n \<longleftrightarrow> isCUDA n \<and> (has_flag (nd_nodeType n) OFLD_ENQUEUE_EVT)"

definition isCUDAQuery :: "'a node_scheme \<Rightarrow> bool" where [node_preds]:
  "isCUDAQuery n \<longleftrightarrow> isCUDA n \<and> (has_flag (nd_nodeType n) OFLD_QUERY)"

definition isCUDAEventQuery :: "'a node_scheme \<Rightarrow> bool" where [node_preds]:
  "isCUDAEventQuery n \<longleftrightarrow> isCUDA n \<and> (has_flag (nd_nodeType n) OFLD_QUERY_EVT)"

definition isCUDAStreamWaitEvent :: "'a node_scheme \<Rightarrow> bool" where [node_preds]:
  "isCUDAStreamWaitEvent n \<longleftrightarrow> isCUDA n \<and> (has_flag (nd_nodeType n) OFLD_ENQUEUE_WAIT)"

definition isOpenCLKernel :: "'a node_scheme \<Rightarrow> bool" where [node_preds]:
  "isOpenCLKernel n \<longleftrightarrow> isOpenCL n \<and> (has_flag (nd_nodeType n) OFLD_TASK_KERNEL)"

definition isOpenCLKernelEnqueue :: "'a node_scheme \<Rightarrow> bool" where [node_preds]:
  "isOpenCLKernelEnqueue n \<longleftrightarrow> isOpenCL n \<and> (has_flag (nd_nodeType n) OFLD_ENQUEUE_KERNEL)"

definition isMPIRecv :: "'a node_scheme \<Rightarrow> bool" where [node_preds]:
  "isMPIRecv n \<longleftrightarrow> isMPI n \<and> (has_flag (nd_nodeType n) MPI_RECV)"

definition isMPISend :: "'a node_scheme \<Rightarrow> bool" where [node_preds]:
  "isMPISend n \<longleftrightarrow> isMPI n \<and> (has_flag (nd_nodeType n) MPI_SEND)"

definition isMPI_Irecv :: "'a node_scheme \<Rightarrow> bool" where [node_preds]:
  "isMPI_Irecv n \<longleftrightarrow> isMPI n \<and> (has_flag (nd_nodeType n) MPI_IRECV)"

definition isMPI_Isend :: "'a node_scheme \<Rightarrow> bool" where [node_preds]:
  "isMPI_Isend n \<longleftrightarrow> isMPI n \<and> (has_flag (nd_nodeType n) MPI_ISEND)"

definition isMPI_Test :: "'a node_scheme \<Rightarrow> bool" where [node_preds]:
  "isMPI_Test n \<longleftrightarrow> isMPI n \<and> (has_flag (nd_nodeType n) MPI_TEST)"

definition isMPI_Testall :: "'a node_scheme \<Rightarrow> bool" where [node_preds]:
  "isMPI_Testall n \<longleftrightarrow> isMPI n \<and> (has_flag (nd_nodeType n) MPI_TESTALL)"

definition isMPIWait :: "'a node_scheme \<Rightarrow> bool" where [node_preds]:
  "isMPIWait n \<longleftrightarrow> isMPI n \<and> (has_flag (nd_nodeType n) MPI_WAIT)"

definition isMPIWaitall :: "'a node_scheme \<Rightarrow> bool" where [node_preds]:
  "isMPIWaitall n \<longleftrightarrow> isMPI n \<and> (has_flag (nd_nodeType n) MPI_WAITALL)"

definition isMPIInit :: "'a node_scheme \<Rightarrow> bool" where [node_preds]:
  "isMPIInit n \<longleftrightarrow> isMPI n \<and> (has_flag (nd_nodeType n) MPI_INIT)"

definition isMPICollective :: "'a node_scheme \<Rightarrow> bool" where [node_preds]:
  "isMPICollective n \<longleftrightarrow> isMPI n \<and> (has_flag (nd_nodeType n) MPI_COLLECTIVE)"

definition isMPIallRanks :: "'a node_scheme \<Rightarrow> bool" where [node_preds]:
  "isMPIallRanks n \<longleftrightarrow> isMPI n \<and> (has_flag (nd_nodeType n) MPI_ALLRANKS)"

definition isMPIOneToAll :: "'a node_scheme \<Rightarrow> bool" where [node_preds]:
  "isMPIOneToAll n \<longleftrightarrow> isMPI n \<and> (has_flag (nd_nodeType n) MPI_ONETOALL)"

definition isMPIAllToOne :: "'a node_scheme \<Rightarrow> bool" where [node_preds]:
  "isMPIAllToOne n \<longleftrightarrow> isMPI n \<and> (has_flag (nd_nodeType n) MPI_ALLTOONE)"

definition isMPISendRecv :: "'a node_scheme \<Rightarrow> bool" where [node_preds]:
  "isMPISendRecv n \<longleftrightarrow> isMPI n \<and> (has_flag (nd_nodeType n) MPI_SENDRECV)"

definition isMPIFinalize :: "'a node_scheme \<Rightarrow> bool" where [node_preds]:
  "isMPIFinalize n \<longleftrightarrow> isMPI n \<and> (has_flag (nd_nodeType n) MPI_FINALIZE)"

definition isMPIBlocking :: "'a node_scheme \<Rightarrow> bool" where [node_preds]:
  "isMPIBlocking n \<longleftrightarrow> isMPI n \<and> (has_flag (nd_nodeType n) MPI_BLOCKING)"

definition isOMPSync :: "'a node_scheme \<Rightarrow> bool" where [node_preds]:
  "isOMPSync n \<longleftrightarrow> isOMP n \<and> (has_flag (nd_nodeType n) OMP_SYNC)"

definition isOMPForkJoin :: "'a node_scheme \<Rightarrow> bool" where [node_preds]:
  "isOMPForkJoin n \<longleftrightarrow> isOMP n \<and> (has_flag (nd_nodeType n) OMP_FORKJOIN)"

definition isOMPParallel :: "'a node_scheme \<Rightarrow> bool" where [node_preds]:
  "isOMPParallel n \<longleftrightarrow> isOMP n \<and> (has_flag (nd_nodeType n) OMP_PARALLEL)"

definition isOMPImplicitTask :: "'a node_scheme \<Rightarrow> bool" where [node_preds]:
  "isOMPImplicitTask n \<longleftrightarrow> isOMP n \<and> (has_flag (nd_nodeType n) OMP_IMPLICIT_TASK)"

definition isOMPTarget :: "'a node_scheme \<Rightarrow> bool" where [node_preds]:
  "isOMPTarget n \<longleftrightarrow> isOMP n \<and> (has_flag (nd_nodeType n) OMP_TARGET)"

definition isOMPTargetFlush :: "'a node_scheme \<Rightarrow> bool" where [node_preds]:
  "isOMPTargetFlush n \<longleftrightarrow> isOMP n \<and> (has_flag (nd_nodeType n) OMP_TARGET_FLUSH)"

definition isCUDAEventType :: "u32 \<Rightarrow> u32 \<Rightarrow> bool" where [node_preds]:
  "isCUDAEventType paradigm t \<longleftrightarrow> has_flag paradigm PARADIGM_CUDA \<and>
     (has_flag t OFLD_ENQUEUE_EVT \<or> has_flag t OFLD_WAIT_EVT \<or> has_flag t OFLD_QUERY_EVT
      \<or> has_flag t OFLD_ENQUEUE_WAIT)"

section \<open>Type names\<close>

definition typeStrTableOFLD :: "(u32 \<times> string) list" where
  "typeStrTableOFLD =
    [(OFLD_WAIT, ''offload_wait''), (OFLD_WAIT_QUEUE, ''offload_wait_queue''),
     (OFLD_WAIT_ALL, ''offload_wait_collective''), (OFLD_WAIT_EVT, ''offload_wait_event''),
     (OFLD_WAITSTATE, ''offload_waitstate''), (OFLD_TASK_KERNEL, ''offload_task_kernel''),
     (OFLD_TASK_DATA, ''offload_task_data_movement''), (OFLD_ENQUEUE_KERNEL, ''offload_enqueue_kernel''),
     (OFLD_ENQUEUE_DATA, ''offload_enqueue_data_movement''), (OFLD_ENQUEUE_EVT, ''offload_enqueue_event''),
     (OFLD_ENQUEUE_WAIT, ''offload_enqueue_wait''), (OFLD_QUERY, ''offload_query''),
     (OFLD_QUERY_EVT, ''offload_query_event''), (OFLD_BLOCKING_DATA, ''offload_blocking_data_movement_call''),
     (OFLD_ASYNC_DATA, ''offload_async_data_movement_call'')]"

definition typeStrTableMPI :: "(u32 \<times> string) list" where
  "typeStrTableMPI =
    [(MPI_RECV, ''mpi_recv''), (MPI_SEND, ''mpi_send''), (MPI_ISEND, ''mpi_isend''),
     (MPI_WAIT, ''mpi_wait''), (MPI_COLLECTIVE, ''mpi_coll''), (MPI_ONETOALL, ''mpi_one_to_all''),
     (MPI_ALLTOONE, ''mpi_all_to_one''), (MPI_SENDRECV, ''mpi_sendrecv''), (MPI_MISC, ''mpi_misc''),
     (MPI_EXIT, ''mpi_exit''), (MPI_WAITSTATE, ''mpi_waitstate'')]"

definition typeStrTableOMP :: "(u32 \<times> string) list" where
  "typeStrTableOMP =
    [(OMP_SYNC, ''omp_sync''), (OMP_FORKJOIN, ''omp_forkjoin''), (OMP_MISC, ''omp_compute''),
     (OMP_TARGET, ''omp_target''), (OMP_TARGET_FLUSH, ''omp_target_flush'')]"

definition type_names :: "(u32 \<times> string) list \<Rightarrow> u32 \<Rightarrow> string" where
  "type_names table t = concat (map (\<lambda>(f, s). s @ '','') (filter (\<lambda>(f, s). has_flag f t) table))"

definition typeToStr :: "u32 \<Rightarrow> u32 \<Rightarrow> string" where
  "typeToStr paradigm t =
    (if paradigm = PARADIGM_OFFLOAD then type_names typeStrTableOFLD t
     else if paradigm = PARADIGM_MPI then type_names typeStrTableMPI t
     else if paradigm = PARADIGM_OMP then type_names typeStrTableOMP t
     else if paradigm = PARADIGM_CPU then ''cpu''
     else ''<unknown>'')"

section \<open>The order of nodes\<close>

definition compareLess :: "'a node_scheme \<Rightarrow> 'b node_scheme \<Rightarrow> bool" where
  "compareLess n1 n2 =
    (if nd_time n1 \<noteq> nd_time n2 then nd_time n1 < nd_time n2
     else if nd_recordType n1 = RECORD_ATOMIC \<and> nd_recordType n2 \<noteq> RECORD_ATOMIC then True
     else if nd_recordType n1 \<noteq> RECORD_ATOMIC \<and> nd_recordType n2 = RECORD_ATOMIC then False
     else if nd_paradigm n1 \<noteq> nd_paradigm n2 then nd_paradigm n1 < nd_paradigm n2
     else if nd_streamId n1 = nd_streamId n2 then nd_id n1 < nd_id n2
     else if has_flag (nd_paradigm n1) PARADIGM_OFFLOAD
             \<and> has_flag (nd_nodeType n1) OFLD_TASK_KERNEL \<and> has_flag (nd_nodeType n2) OFLD_WAIT then True
     else if has_flag (nd_paradigm n1) PARADIGM_OFFLOAD
             \<and> has_flag (nd_nodeType n2) OFLD_TASK_KERNEL \<and> has_flag (nd_nodeType n1) OFLD_WAIT then False
     else if has_flag (nd_paradigm n1) PARADIGM_MPI \<and> has_flag (nd_nodeType n1) MPI_EXIT then False
     else if has_flag (nd_paradigm n1) PARADIGM_MPI \<and> has_flag (nd_nodeType n2) MPI_EXIT then True
     else nd_streamId n1 > nd_streamId n2)"

section \<open>Operations\<close>

text \<open>The constructor draws the identifier from the global counter \<^verbatim>\<open>globalNodeId\<close>, which is an
  argument and part of the result.\<close>

definition Node_new :: "u64 \<Rightarrow> u64 \<Rightarrow> u64 \<Rightarrow> string \<Rightarrow> u32 \<Rightarrow> record_type \<Rightarrow> u32 \<Rightarrow> node \<times> u64" where
  "Node_new globalNodeId time streamId name paradigm recordType nodeType =
    (let i = globalNodeId + 1 in
     (\<lparr>nd_id = i, nd_time = time, nd_streamId = streamId, nd_functionId = 0, nd_name = name,
       nd_recordType = recordType, nd_paradigm = paradigm, nd_nodeType = nodeType,
       nd_link = None, nd_referencedStream = 0, nd_counters = Map.empty\<rparr>, i))"

definition getUniqueName :: "'a node_scheme \<Rightarrow> string" where
  "getUniqueName n =
    dec_string (unat (nd_streamId n)) @ '':'' @ nd_name n @ ''.'' @
    (if nd_recordType n = RECORD_ENTER then ''enter:'' else []) @
    (if nd_recordType n = RECORD_LEAVE then ''leave:'' else []) @
    dec_string (unat (nd_id n)) @ '':'' @ dec_string (unat (nd_time n))"

definition hasParadigm :: "'a node_scheme \<Rightarrow> u32 \<Rightarrow> bool" where
  "hasParadigm n p \<longleftrightarrow> has_flag (nd_paradigm n) p"

definition addType :: "u32 \<Rightarrow> 'a node_scheme \<Rightarrow> 'a node_scheme" where
  "addType t n = n\<lparr>nd_nodeType := nd_nodeType n OR t\<rparr>"

definition setReferencedStreamId :: "u64 \<Rightarrow> 'a node_scheme \<Rightarrow> 'a node_scheme" where
  "setReferencedStreamId s n = n\<lparr>nd_referencedStream := s\<rparr>"

definition referencesStream :: "'a node_scheme \<Rightarrow> u64 \<Rightarrow> bool" where
  "referencesStream n s =
    (if s = nd_streamId n then False
     else if isCUDACollSync n \<or> nd_referencedStream n = s then True else False)"

text \<open>\<^verbatim>\<open>setLink\<close> reports a link that is already there and asserts.\<close>

definition setLink :: "node_ref option \<Rightarrow> 'a node_scheme \<Rightarrow> 'a node_scheme result" where
  "setLink l n = (if nd_link n \<noteq> None then Inl (Assertion_Failed ''already has a link'')
                  else Inr (n\<lparr>nd_link := l\<rparr>))"

definition setCounter :: "metric_type \<Rightarrow> u64 \<Rightarrow> 'a node_scheme \<Rightarrow> 'a node_scheme" where
  "setCounter m v n = n\<lparr>nd_counters := (nd_counters n)(m \<mapsto> v)\<rparr>"

definition incCounter :: "metric_type \<Rightarrow> u64 \<Rightarrow> 'a node_scheme \<Rightarrow> 'a node_scheme" where
  "incCounter m v n = (case nd_counters n m of
      Some c \<Rightarrow> n\<lparr>nd_counters := (nd_counters n)(m \<mapsto> c + v)\<rparr>
    | None \<Rightarrow> n\<lparr>nd_counters := (nd_counters n)(m \<mapsto> v)\<rparr>)"

text \<open>The value and the flag that the code writes through the pointer \<^verbatim>\<open>valid\<close>.\<close>

definition getCounter_valid :: "metric_type \<Rightarrow> 'a node_scheme \<Rightarrow> u64 \<times> bool" where
  "getCounter_valid m n = (case nd_counters n m of None \<Rightarrow> (0, False) | Some v \<Rightarrow> (v, True))"

definition getCounter :: "metric_type \<Rightarrow> 'a node_scheme \<Rightarrow> u64" where
  "getCounter m n = fst (getCounter_valid m n)"

definition removeCounter :: "metric_type \<Rightarrow> 'a node_scheme \<Rightarrow> 'a node_scheme" where
  "removeCounter m n = n\<lparr>nd_counters := (nd_counters n)(m := None)\<rparr>"

definition removeCounters :: "'a node_scheme \<Rightarrow> 'a node_scheme" where
  "removeCounters n = n\<lparr>nd_counters := Map.empty\<rparr>"

end
