(* ===== verification/NodeOrder.thy ===== *)
theory NodeOrder
  imports NodeModel "HOL-Library.Product_Lexorder"
begin

text \<open>What the order \<^verbatim>\<open>Node::compareLess\<close> promises. On the nodes of one stream it is the
  lexicographic order of time, atomic before other records, paradigm number and identifier, so a
  strict linear order on distinct identifiers; across streams it is asymmetric but not transitive.
  The interface \<^verbatim>\<open>stream_order\<close> collects what the sorted node lists rely on.\<close>

section \<open>The interface of a strict order on comparable elements\<close>

locale stream_order =
  fixes lt :: "'a \<Rightarrow> 'a \<Rightarrow> bool" and same :: "'a \<Rightarrow> 'a \<Rightarrow> bool"
  assumes lt_irrefl: "\<not> lt x x"
    and lt_asym: "same x y \<Longrightarrow> lt x y \<Longrightarrow> \<not> lt y x"
    and lt_trans: "same x y \<Longrightarrow> same y z \<Longrightarrow> lt x y \<Longrightarrow> lt y z \<Longrightarrow> lt x z"
    and same_refl: "same x x"
    and same_sym: "same x y \<Longrightarrow> same y x"
    and same_trans: "same x y \<Longrightarrow> same y z \<Longrightarrow> same x z"
begin

definition ordered :: "'a list \<Rightarrow> bool" where
  "ordered xs \<longleftrightarrow> sorted_wrt lt xs \<and> (\<forall>x\<in>set xs. \<forall>y\<in>set xs. same x y)"

lemma ordered_nth_less:
  assumes "ordered xs" "i < length xs" "j < length xs"
  shows "lt (xs ! i) (xs ! j) \<longleftrightarrow> i < j"
proof -
  have s: "sorted_wrt lt xs" and m: "same (xs ! j) (xs ! i)"
    using assms by (auto simp: ordered_def)
  show ?thesis
  proof (cases i j rule: linorder_cases)
    case less
    then show ?thesis
      using s assms(3) by (simp add: sorted_wrt_nth_less)
  next
    case equal
    then show ?thesis
      by (simp add: lt_irrefl)
  next
    case greater
    then have "lt (xs ! j) (xs ! i)"
      using s assms(2) by (simp add: sorted_wrt_nth_less)
    then show ?thesis
      using lt_asym [OF m] greater by simp
  qed
qed

lemma ordered_nth_eq:
  assumes "ordered xs" "i < length xs" "j < length xs" "xs ! i = xs ! j"
  shows "i = j"
  using ordered_nth_less [OF assms(1,2,3)] ordered_nth_less [OF assms(1,3,2)] assms(4) lt_irrefl
  by (metis linorder_neqE_nat)

lemma ordered_distinct: "ordered xs \<Longrightarrow> distinct xs"
  by (auto simp: distinct_conv_nth dest: ordered_nth_eq)

lemma ordered_Nil [simp]: "ordered []"
  by (simp add: ordered_def)

lemma ordered_snoc:
  assumes "ordered xs" "xs \<noteq> [] \<Longrightarrow> lt (last xs) y \<and> same (last xs) y"
  shows "ordered (xs @ [y])"
proof (cases xs rule: rev_cases)
  case Nil
  then show ?thesis
    by (simp add: ordered_def same_refl)
next
  case (snoc zs z)
  have o: "sorted_wrt lt xs" and m: "same x w" if "x \<in> set xs" "w \<in> set xs" for x w
    using assms(1) that by (auto simp: ordered_def)
  have z: "lt z y" "same z y" "z \<in> set xs"
    using assms(2) snoc by auto
  have s: "same x y" if "x \<in> set xs" for x
    using same_trans [OF m [OF that z(3)] z(2)] .
  have l: "lt x y" if "x \<in> set xs" for x
  proof (cases "x = z")
    case True
    then show ?thesis using z by simp
  next
    case False
    then have "lt x z"
      using assms(1) that snoc by (auto simp: ordered_def sorted_wrt_append)
    then show ?thesis
      using lt_trans [OF m [OF that z(3)] z(2)] z(1) by blast
  qed
  show ?thesis
    using assms(1) s l same_refl same_sym by (auto simp: ordered_def sorted_wrt_append)
qed

end

section \<open>compareLess on one stream\<close>

text \<open>The key of a node on its stream.\<close>

definition node_key :: "'a node_scheme \<Rightarrow> nat \<times> nat \<times> nat \<times> nat" where
  "node_key n = (unat (nd_time n), (if nd_recordType n = RECORD_ATOMIC then 0 else 1),
                 unat (nd_paradigm n), unat (nd_id n))"

lemma node_key_iff:
  assumes "nd_streamId a = nd_streamId b"
  shows "compareLess a b \<longleftrightarrow> node_key a < node_key b"
  using assms by (auto simp: compareLess_def node_key_def less_prod_def word_less_nat_alt word_unat_eq_iff)

lemma compareLess_irrefl [simp]: "\<not> compareLess n n"
  by (simp add: compareLess_def)

text \<open>C31. On the nodes of one stream, \<^verbatim>\<open>Node::compareLess\<close> is the lexicographic order of the time
  stamp, atomic records first, the number of the paradigm, and the identifier.\<close>
theorem compareLess_same_stream:
  "nd_streamId a = nd_streamId b \<Longrightarrow> compareLess a b \<longleftrightarrow> node_key a < node_key b"
  by (rule node_key_iff)

theorem compareLess_same_stream_witness:
  "let mk = (\<lambda>t r i. fst (Node_new i t 3 ''MPI_Send'' PARADIGM_MPI r MPI_SEND))
   in nd_streamId (mk 7 RECORD_ENTER 4) = nd_streamId (mk 7 RECORD_LEAVE 5) \<and>
      compareLess (mk 7 RECORD_ENTER 4) (mk 7 RECORD_LEAVE 5) = True"
  by (simp add: Let_def compareLess_same_stream Node_new_def node_key_def)

text \<open>Across streams, \<^verbatim>\<open>Node::compareLess\<close> never orders two nodes both ways, unless both are
  marked at once as device kernel and as host wait.\<close>
lemma compareLess_asym:
  assumes "\<not> (has_flag (nd_nodeType a) OFLD_TASK_KERNEL \<and> has_flag (nd_nodeType a) OFLD_WAIT)"
    and "compareLess a b"
  shows "\<not> compareLess b a"
proof (cases "nd_time a = nd_time b \<and> nd_paradigm a = nd_paradigm b \<and> nd_streamId a \<noteq> nd_streamId b")
  case True
  then have same: "nd_time b = nd_time a" "nd_paradigm b = nd_paradigm a" "nd_streamId b \<noteq> nd_streamId a"
    by auto
  show ?thesis
    using assms same unfolding compareLess_def by (simp split: if_split_asm) (blast dest: order.asym)+
next
  case False
  then show ?thesis
    using assms(2) unfolding compareLess_def by (simp split: if_split_asm) (metis order.asym)+
qed

text \<open>The rule that puts a kernel before a wait of another stream makes \<^verbatim>\<open>Node::compareLess\<close>
  cyclic: a kernel, a wait and an enqueue of three streams at one time are each less than the
  next, so the relation is no strict weak order.\<close>
lemma compareLess_cyclic:
  "let k = fst (Node_new 0 7 1 ''kernel'' PARADIGM_CUDA RECORD_LEAVE OFLD_TASK_KERNEL);
       w = fst (Node_new 1 7 3 ''cuStreamSynchronize'' PARADIGM_CUDA RECORD_LEAVE OFLD_WAIT);
       e = fst (Node_new 2 7 2 ''cuLaunchKernel'' PARADIGM_CUDA RECORD_LEAVE OFLD_ENQUEUE_KERNEL)
   in compareLess k w \<and> compareLess w e \<and> compareLess e k"
  by (simp add: Let_def Node_new_def compareLess_def has_flag_def node_bits)

section \<open>Unique names\<close>

lemma unique_name_split:
  "\<exists>us c. getUniqueName n = us @ c # dec_string (unat (nd_id n)) @ CHR '':'' # dec_string (unat (nd_time n))
          \<and> \<not> is_digit c"
proof (cases "nd_recordType n = RECORD_ENTER \<or> nd_recordType n = RECORD_LEAVE")
  case True
  then obtain s where "s = (if nd_recordType n = RECORD_ENTER then ''.enter'' else ''.leave'')" by simp
  then show ?thesis
    using True by (intro exI [of _ "dec_string (unat (nd_streamId n)) @ '':'' @ nd_name n @ s"] exI [of _ "CHR '':''"])
      (auto simp: getUniqueName_def is_digit_def)
next
  case False
  then show ?thesis
    by (intro exI [of _ "dec_string (unat (nd_streamId n)) @ '':'' @ nd_name n"] exI [of _ "CHR ''.''"])
      (auto simp: getUniqueName_def is_digit_def)
qed

text \<open>Two nodes with the same unique name have the same identifier and time stamp: the printed
  name determines the node.\<close>
lemma getUniqueName_inj:
  assumes "getUniqueName a = getUniqueName b"
  shows "nd_id a = nd_id b \<and> nd_time a = nd_time b"
proof -
  obtain us c vs d where ab:
      "getUniqueName a = us @ c # dec_string (unat (nd_id a)) @ CHR '':'' # dec_string (unat (nd_time a))"
      "getUniqueName b = vs @ d # dec_string (unat (nd_id b)) @ CHR '':'' # dec_string (unat (nd_time b))"
      "\<not> is_digit c" "\<not> is_digit d"
    using unique_name_split [of a] unique_name_split [of b] by blast
  have nd: "\<not> is_digit CHR '':''"
    by (simp add: is_digit_def)
  have "us @ c # dec_string (unat (nd_id a)) = vs @ d # dec_string (unat (nd_id b)) \<and>
        dec_string (unat (nd_time a)) = dec_string (unat (nd_time b))"
    using digit_suffix_eq [of "us @ c # dec_string (unat (nd_id a))" "CHR '':''" "dec_string (unat (nd_time a))"
        "vs @ d # dec_string (unat (nd_id b))" "CHR '':''" "dec_string (unat (nd_time b))"] assms ab nd
    by (simp add: dec_string_digits)
  moreover from this have "dec_string (unat (nd_id a)) = dec_string (unat (nd_id b))"
    using digit_suffix_eq [of us c _ vs d] ab dec_string_digits by blast
  ultimately show ?thesis
    by (auto dest!: dec_string_inj simp: word_unat_eq_iff)
qed

end
