(* ===== verification/GraphNodeModel.thy ===== *)
theory GraphNodeModel
  imports NodeOrder
begin

text \<open>The graph nodes of \<^verbatim>\<open>backend/include/graph/GraphNode.hpp\<close>: the fields a graph node adds to
  a node, partner links, and the searches in the sorted node vectors of a stream. A heap maps a
  reference to the node it points to; the searches take the heap and a list of references.\<close>

section \<open>The record\<close>

text \<open>What the void pointer \<^verbatim>\<open>data\<close> of a node refers to: the record of a non-blocking communication
  of the stream, by its request identifier; a copied list of request identifiers; an array of numbers
  made for a blocking communication; another node; or another object.\<close>

datatype node_data = Icomm_Ref u64 | Request_List "u64 list" | Array_Data "u32 list" | Node_Data node_ref | Other_Data nat

record graph_node = node +
  gn_first :: "node_ref option"
  gn_second :: "node_ref option"
  gn_linkLeft :: "node_ref option"
  gn_linkRight :: "node_ref option"
  gn_caller :: "node_ref option"
  gn_data :: "node_data option"

type_synonym heap = "node_ref \<Rightarrow> graph_node"

text \<open>The two orders of a node vector meet the interface of \<^verbatim>\<open>stream_order\<close>.\<close>

interpretation co: stream_order "\<lambda>a b. compareLess (h a) (h b)" "\<lambda>a b. nd_streamId (h a) = nd_streamId (h b)"
  for h :: heap
  by unfold_locales (auto simp: node_key_iff)

interpretation ido: stream_order "\<lambda>a b. nd_id (h a) < nd_id (h b)" "\<lambda>a b. True"
  for h :: heap
  by unfold_locales auto

definition GraphNode_new ::
  "node_ref \<Rightarrow> u64 \<Rightarrow> u64 \<Rightarrow> u64 \<Rightarrow> string \<Rightarrow> u32 \<Rightarrow> record_type \<Rightarrow> u32 \<Rightarrow> graph_node \<times> u64" where
  "GraphNode_new this globalNodeId time streamId name paradigm recordType nodeType =
    (let (n, g) = Node_new globalNodeId time streamId name paradigm recordType nodeType in
     (node.extend n (graph_node.fields (Some this) None None None None None), g))"

section \<open>Partners\<close>

text \<open>\<^verbatim>\<open>setPartner\<close> reads the time of the partner, and asserts after the update that the record
  types differ; with a null partner the assertion dereferences null.\<close>

definition setPartner :: "node_ref \<Rightarrow> node_ref option \<Rightarrow> heap \<Rightarrow> heap result" where
  "setPartner this partner h = (case partner of
      None \<Rightarrow> Inl Null_Dereference
    | Some p \<Rightarrow>
        let n = h this;
            n' = (if nd_time n < nd_time (h p) then n\<lparr>gn_first := Some this, gn_second := Some p\<rparr>
                  else n\<lparr>gn_first := Some p, gn_second := Some this\<rparr>)
        in if nd_recordType (h p) \<noteq> nd_recordType n then Inr (h(this := n'))
           else Inl (Assertion_Failed ''partner->getRecordType() != this->getRecordType()''))"

definition hasPartner :: "graph_node \<Rightarrow> bool" where
  "hasPartner n \<longleftrightarrow> gn_first n \<noteq> None \<and> gn_second n \<noteq> None"

definition getPartner :: "graph_node \<Rightarrow> node_ref option" where
  "getPartner n = (if isEnter n then gn_second n else gn_first n)"

definition setData :: "node_data option \<Rightarrow> graph_node \<Rightarrow> graph_node" where
  "setData d n = n\<lparr>gn_data := d\<rparr>"

definition isOnCriticalPath :: "graph_node \<Rightarrow> bool" where
  "isOnCriticalPath n \<longleftrightarrow> getCounter CRITICAL_PATH n \<noteq> 0"

definition getWaitingTime :: "graph_node \<Rightarrow> u64" where
  "getWaitingTime n = getCounter WAITING_TIME n"

section \<open>Searching a vector\<close>

text \<open>The index the code probes: for an even number of elements the upper one of the two middle
  elements.\<close>

definition probe :: "nat \<Rightarrow> nat \<Rightarrow> nat" where
  "probe indexMin indexMax = indexMax - (indexMax - indexMin) div 2"

lemma probe_bounds: "lo \<le> hi \<Longrightarrow> lo \<le> probe lo hi \<and> probe lo hi \<le> hi"
  unfolding probe_def by linarith

lemma probe_upper: "lo < hi \<Longrightarrow> lo < probe lo hi"
  unfolding probe_def by linarith

lemma probe_inside: "lo + 1 < hi \<Longrightarrow> lo < probe lo hi \<and> probe lo hi < hi"
  unfolding probe_def by linarith

lemma probe_crossed: "hi < lo \<Longrightarrow> probe lo hi = hi"
  unfolding probe_def by simp

lemma probe_left_decreases:
  "lo \<noteq> hi \<Longrightarrow> lo \<le> probe lo hi - 1 \<Longrightarrow> Suc (probe lo hi - 1) - lo < Suc hi - lo"
  unfolding probe_def by linarith

lemma probe_right_decreases:
  "probe lo hi + 1 \<le> hi \<Longrightarrow> Suc hi - (probe lo hi + 1) < Suc hi - lo"
  unfolding probe_def by linarith

text \<open>The width of a search interval, one for bounds that have crossed.\<close>

definition width :: "nat \<Rightarrow> nat \<Rightarrow> nat" where
  "width lo hi = (if hi < lo then 1 else hi - lo)"

lemma width_left: "lo + 1 \<noteq> hi \<Longrightarrow> lo \<noteq> hi \<Longrightarrow> lo \<le> probe lo hi \<Longrightarrow> width lo (probe lo hi) < width lo hi"
  unfolding probe_def width_def by (simp split: if_split) linarith

lemma width_right: "lo + 1 \<noteq> hi \<Longrightarrow> lo \<noteq> hi \<Longrightarrow> probe lo hi \<le> hi \<Longrightarrow> width (probe lo hi) hi < width lo hi"
  unfolding probe_def width_def by (simp split: if_split) linarith

text \<open>When the last candidate does not match, the code prints the elements from \<^verbatim>\<open>index - 3\<close> to
  \<^verbatim>\<open>index + 3\<close>. For an index below 3 the unsigned start wraps around and nothing is printed;
  otherwise the loop reads past the end of the vector when fewer than three elements follow.\<close>

definition print_sequence :: "nat \<Rightarrow> nat \<Rightarrow> unit result" where
  "print_sequence index len =
     (if 3 \<le> index \<and> len \<le> index + 3 then Inl Out_Of_Bounds else Inr ())"

function findNode_loop :: "heap \<Rightarrow> node_ref \<Rightarrow> node_ref list \<Rightarrow> nat \<Rightarrow> nat \<Rightarrow> nat option result" where
  "findNode_loop h node nodes indexMin indexMax =
    (let index = probe indexMin indexMax in
     if nodes ! index = node then Inr (Some index)
     else if indexMin = indexMax then
       bind_res (print_sequence index (length nodes)) (\<lambda>_. Inr None)
     else if compareLess (h node) (h (nodes ! index)) then
       (if indexMin > index - 1 then Inr None else findNode_loop h node nodes indexMin (index - 1))
     else
       (if index + 1 > indexMax then Inr None else findNode_loop h node nodes (index + 1) indexMax))"
  by pat_completeness auto
termination
  by (relation "measure (\<lambda>(h, node, nodes, lo, hi). Suc hi - lo)")
    (use probe_left_decreases probe_right_decreases in \<open>simp_all add: not_less\<close>)

declare findNode_loop.simps [simp del]

text \<open>The reverse iterator of the code is given by the index of the element it refers to;
  \<^verbatim>\<open>rend\<close> is \<^term>\<open>None\<close>.\<close>

definition findNode :: "heap \<Rightarrow> node_ref \<Rightarrow> node_ref list \<Rightarrow> nat option result" where
  "findNode h node nodes =
    (if length nodes = 0 then Inr None
     else if length nodes = 1 then Inr (Some 0)
     else findNode_loop h node nodes 0 (length nodes - 1))"

function findNodeId_loop :: "heap \<Rightarrow> u64 \<Rightarrow> node_ref list \<Rightarrow> nat \<Rightarrow> nat \<Rightarrow> node_ref result" where
  "findNodeId_loop h nodeId nodes indexMin indexMax =
    (let index = probe indexMin indexMax in
     if nd_id (h (nodes ! index)) = nodeId then Inr (nodes ! index)
     else if indexMin = indexMax then
       bind_res (print_sequence index (length nodes)) (\<lambda>_. Inr (nodes ! 0))
     else if nodeId < nd_id (h (nodes ! index)) then
       (if indexMin > index - 1 then Inr (nodes ! 0) else findNodeId_loop h nodeId nodes indexMin (index - 1))
     else
       (if index + 1 > indexMax then Inr (nodes ! 0) else findNodeId_loop h nodeId nodes (index + 1) indexMax))"
  by pat_completeness auto
termination
  by (relation "measure (\<lambda>(h, i, nodes, lo, hi). Suc hi - lo)")
    (use probe_left_decreases probe_right_decreases in \<open>simp_all add: not_less\<close>)

declare findNodeId_loop.simps [simp del]

definition findNodeId :: "heap \<Rightarrow> u64 \<Rightarrow> node_ref list \<Rightarrow> node_ref option result" where
  "findNodeId h nodeId nodes =
    (if length nodes = 0 then Inr None
     else if length nodes = 1 then Inr (Some (nodes ! 0))
     else bind_res (findNodeId_loop h nodeId nodes 0 (length nodes - 1)) (\<lambda>p. Inr (Some p)))"

definition hasNode :: "node_ref \<Rightarrow> node_ref list \<Rightarrow> bool" where
  "hasNode node nodes \<longleftrightarrow> List.find (\<lambda>p. p = node) nodes \<noteq> None"

fun findInFirst_loop :: "heap \<Rightarrow> u64 \<Rightarrow> node_ref list \<Rightarrow> int \<Rightarrow> int \<Rightarrow> bool" where
  "findInFirst_loop h i [] num count = False"
| "findInFirst_loop h i (p # ps) num count =
    (if count = num then False
     else if nd_id (h p) = i then True
     else findInFirst_loop h i ps num (count + 1))"

definition findInFirst :: "heap \<Rightarrow> node_ref \<Rightarrow> node_ref list \<Rightarrow> int \<Rightarrow> bool" where
  "findInFirst h node nodes num = findInFirst_loop h (nd_id (h node)) nodes num 0"

section \<open>Searching by time\<close>

text \<open>The binary search of \<^verbatim>\<open>findLastNodeBefore\<close>; the result is the value of \<^verbatim>\<open>index\<close> when a node
  was found.\<close>

function lastBefore_loop :: "heap \<Rightarrow> u64 \<Rightarrow> node_ref list \<Rightarrow> nat \<Rightarrow> nat \<Rightarrow> nat option" where
  "lastBefore_loop h time nodes indexMin indexMax =
    (let index = probe indexMin indexMax in
     if indexMin + 1 = indexMax then
       (if nd_time (h (nodes ! indexMax)) \<le> time then Some indexMax else Some indexMin)
     else if indexMin = indexMax then
       (if nd_time (h (nodes ! indexMax)) \<le> time then Some indexMax else None)
     else if time < nd_time (h (nodes ! index)) then
       (if indexMin > index then None else lastBefore_loop h time nodes indexMin index)
     else
       (if index > indexMax then None else lastBefore_loop h time nodes index indexMax))"
  by pat_completeness auto
termination
  by (relation "measure (\<lambda>(h, t, nodes, lo, hi). width lo hi)")
    (use width_left width_right in \<open>simp_all add: not_less\<close>)

declare lastBefore_loop.simps [simp del]

text \<open>The backward walk both searches by time fall back to.\<close>

fun walk_back :: "heap \<Rightarrow> u64 \<Rightarrow> node_ref list \<Rightarrow> nat \<Rightarrow> node_ref" where
  "walk_back h time nodes 0 = nodes ! 0"
| "walk_back h time nodes (Suc i) =
    (if nd_time (h (nodes ! Suc i)) \<le> time then nodes ! Suc i else walk_back h time nodes i)"

definition findLastNodeBefore :: "heap \<Rightarrow> u64 \<Rightarrow> node_ref list \<Rightarrow> node_ref option" where
  "findLastNodeBefore h time nodes =
    (if length nodes = 0 then None
     else if length nodes = 1 then Some (nodes ! 0)
     else case lastBefore_loop h time nodes 0 (length nodes - 1) of
       Some index \<Rightarrow>
         if nd_time (h (nodes ! index)) > time then Some (walk_back h time nodes index)
         else Some (nodes ! index)
     | None \<Rightarrow> Some (nodes ! 0))"

function firstAfter_loop :: "heap \<Rightarrow> u64 \<Rightarrow> node_ref list \<Rightarrow> nat \<Rightarrow> nat \<Rightarrow> nat option" where
  "firstAfter_loop h time nodes indexMin indexMax =
    (let index = probe indexMin indexMax in
     if indexMin + 1 = indexMax then
       (if time \<le> nd_time (h (nodes ! indexMin)) then Some indexMin else Some indexMax)
     else if indexMin = indexMax then
       (if time \<le> nd_time (h (nodes ! indexMax)) then Some indexMax else None)
     else if nd_time (h (nodes ! index)) < time then
       (if index > indexMax then None else firstAfter_loop h time nodes index indexMax)
     else
       (if indexMin > index then None else firstAfter_loop h time nodes indexMin index))"
  by pat_completeness auto
termination
  by (relation "measure (\<lambda>(h, t, nodes, lo, hi). width lo hi)")
    (use width_left width_right in \<open>simp_all add: not_less\<close>)

declare firstAfter_loop.simps [simp del]

definition findFirstNodeAfter :: "heap \<Rightarrow> u64 \<Rightarrow> node_ref list \<Rightarrow> node_ref option" where
  "findFirstNodeAfter h time nodes =
    (if length nodes = 0 then None
     else if length nodes = 1 then Some (nodes ! 0)
     else case firstAfter_loop h time nodes 0 (length nodes - 1) of
       Some index \<Rightarrow>
         if nd_time (h (nodes ! index)) < time then Some (walk_back h time nodes index)
         else Some (nodes ! index)
     | None \<Rightarrow> Some (nodes ! 0))"

end
