(* ===== verification/NodeSearch.thy ===== *)
theory NodeSearch
  imports GraphNodeModel
begin

text \<open>Correctness of the searches of \<^verbatim>\<open>GraphNode.hpp\<close>: on a vector in stream order the binary
  search by pointer finds exactly the elements of the vector, the search by identifier finds the
  node with it, and the two searches by time equal their linear references.\<close>

section \<open>Sorted vectors\<close>

definition stream_sorted :: "heap \<Rightarrow> node_ref list \<Rightarrow> bool" where
  "stream_sorted h nodes \<longleftrightarrow> sorted_wrt (\<lambda>a b. compareLess (h a) (h b)) nodes \<and>
     (\<forall>a\<in>set nodes. \<forall>b\<in>set nodes. nd_streamId (h a) = nd_streamId (h b))"

lemma stream_sorted_ordered: "stream_sorted h nodes \<longleftrightarrow> co.ordered h nodes"
  by (simp add: stream_sorted_def co.ordered_def)

definition id_sorted :: "heap \<Rightarrow> node_ref list \<Rightarrow> bool" where
  "id_sorted h nodes \<longleftrightarrow> sorted_wrt (\<lambda>a b. nd_id (h a) < nd_id (h b)) nodes"

lemma id_sorted_ordered: "id_sorted h nodes \<longleftrightarrow> ido.ordered h nodes"
  by (simp add: id_sorted_def ido.ordered_def)

definition time_sorted :: "heap \<Rightarrow> node_ref list \<Rightarrow> bool" where
  "time_sorted h nodes \<longleftrightarrow> sorted_wrt (\<lambda>a b. nd_time (h a) \<le> nd_time (h b)) nodes"

lemma time_sorted_nth:
  "time_sorted h nodes \<Longrightarrow> i \<le> j \<Longrightarrow> j < length nodes \<Longrightarrow> nd_time (h (nodes ! i)) \<le> nd_time (h (nodes ! j))"
  using sorted_wrt_nth_less [of "\<lambda>a b. nd_time (h a) \<le> nd_time (h b)" nodes i j]
  by (cases "i = j") (auto simp: time_sorted_def)

lemma compareLess_time: "compareLess a b \<Longrightarrow> nd_time a \<le> nd_time b"
  by (auto simp: compareLess_def split: if_split_asm)

lemma stream_sorted_time: "stream_sorted h nodes \<Longrightarrow> time_sorted h nodes"
  by (auto simp: stream_sorted_def time_sorted_def intro: sorted_wrt_mono_rel [rotated] compareLess_time)

lemma stream_sorted_snoc:
  assumes "stream_sorted h nodes"
    and "nodes \<noteq> [] \<Longrightarrow> compareLess (h (last nodes)) (h p) \<and> nd_streamId (h (last nodes)) = nd_streamId (h p)"
  shows "stream_sorted h (nodes @ [p])"
  using co.ordered_snoc [of h nodes p] assms by (simp add: stream_sorted_ordered)

text \<open>What the binary search needs: \<^verbatim>\<open>compareLess\<close> is the order of the positions. It holds on one
  stream, and on a vector of several streams whenever the order is total on it.\<close>

definition indexed_order :: "heap \<Rightarrow> node_ref list \<Rightarrow> bool" where
  "indexed_order h nodes \<longleftrightarrow>
    (\<forall>i<length nodes. \<forall>j<length nodes. compareLess (h (nodes ! i)) (h (nodes ! j)) \<longleftrightarrow> i < j)"

lemma stream_sorted_indexed: "stream_sorted h nodes \<Longrightarrow> indexed_order h nodes"
  unfolding stream_sorted_ordered indexed_order_def using co.ordered_nth_less by blast

lemma indexed_order_less:
  "indexed_order h nodes \<Longrightarrow> i < length nodes \<Longrightarrow> j < length nodes \<Longrightarrow>
   compareLess (h (nodes ! i)) (h (nodes ! j)) \<longleftrightarrow> i < j"
  by (simp add: indexed_order_def)

lemma indexed_order_eq:
  "indexed_order h nodes \<Longrightarrow> i < length nodes \<Longrightarrow> j < length nodes \<Longrightarrow> nodes ! i = nodes ! j \<longleftrightarrow> i = j"
  by (metis compareLess_irrefl indexed_order_less linorder_neqE_nat)

lemma indexed_order_distinct: "indexed_order h nodes \<Longrightarrow> distinct nodes"
  by (simp add: distinct_conv_nth indexed_order_eq)

section \<open>The search by pointer\<close>

lemma findNode_loop_hit:
  assumes "indexed_order h nodes" "lo \<le> k" "k \<le> hi" "hi < length nodes" "nodes ! k = p"
  shows "findNode_loop h p nodes lo hi = Inr (Some k)"
  using assms
proof (induction h p nodes lo hi rule: findNode_loop.induct)
  case (1 h p nodes lo hi)
  define i where "i = probe lo hi"
  have b: "lo \<le> i" "i \<le> hi"
    using probe_bounds [of lo hi] 1(4,5) by (auto simp: i_def)
  have less: "compareLess (h p) (h (nodes ! i)) \<longleftrightarrow> k < i"
    using indexed_order_less [OF 1(3), of k i] b 1(4-7) by simp
  have eq: "nodes ! i = p \<longleftrightarrow> i = k"
    using indexed_order_eq [OF 1(3), of i k] b 1(4-7) by auto
  show ?case
  proof (cases i k rule: linorder_cases)
    case equal
    then show ?thesis
      using eq by (simp add: findNode_loop.simps [of h p nodes lo hi] Let_def i_def)
  next
    case less': less
    then have "lo \<noteq> hi" "\<not> i + 1 > hi"
      using b 1(4,5) by auto
    then show ?thesis
      using 1(2) [OF refl] less' eq less 1(3-7)
      by (simp add: findNode_loop.simps [of h p nodes lo hi] Let_def flip: i_def)
  next
    case greater
    then have "lo \<noteq> hi" "\<not> lo > i - 1"
      using b 1(4,5) by auto
    then show ?thesis
      using 1(1) [OF refl] greater eq less b 1(3-7)
      by (simp add: findNode_loop.simps [of h p nodes lo hi] Let_def flip: i_def)
  qed
qed

lemma findNode_loop_sound:
  "findNode_loop h p nodes lo hi = Inr (Some i) \<Longrightarrow> nodes ! i = p \<and> i \<le> hi"
proof (induction h p nodes lo hi rule: findNode_loop.induct)
  case (1 h p nodes lo hi)
  show ?case
    using 1(1) [OF refl] 1(2) [OF refl] 1(3)
    by (simp add: findNode_loop.simps [of h p nodes lo hi] Let_def bind_res_Inr split: if_split_asm)
       (auto simp: probe_def)
qed

lemma findNode_indexed:
  assumes "indexed_order h nodes" "k < length nodes"
  shows "findNode h (nodes ! k) nodes = Inr (Some k)"
  using findNode_loop_hit [OF assms(1), of 0 k "length nodes - 1" "nodes ! k"] assms(2)
  by (cases "length nodes = 1") (auto simp: findNode_def)

text \<open>In a vector in stream order \<^verbatim>\<open>GraphNode::findNode\<close> finds every node of it: it returns the
  one index that holds the pointer.\<close>
lemma findNode_complete:
  assumes "stream_sorted h nodes" "k < length nodes"
  shows "findNode h (nodes ! k) nodes = Inr (Some k)"
  using findNode_indexed [OF stream_sorted_indexed] assms by blast

definition demo_heap :: heap where
  "demo_heap p = fst (GraphNode_new p (of_nat p) (of_nat (10 * p)) 2 ''f'' PARADIGM_MPI RECORD_ENTER MPI_MISC)"

lemma demo_heap_simps [simp]:
  "nd_id (demo_heap p) = of_nat p + 1" "nd_time (demo_heap p) = of_nat (10 * p)"
  "nd_streamId (demo_heap p) = 2" "nd_recordType (demo_heap p) = RECORD_ENTER"
  "nd_paradigm (demo_heap p) = PARADIGM_MPI" "nd_nodeType (demo_heap p) = MPI_MISC"
  by (simp_all add: demo_heap_def GraphNode_new_def Node_new_def node.defs graph_node.defs Let_def)

text \<open>Whatever the vector holds, an index that \<^verbatim>\<open>GraphNode::findNode\<close> returns for a vector of
  more than one node is the index of the node that was asked for.\<close>
lemma findNode_sound:
  assumes "findNode h p nodes = Inr (Some i)" "length nodes \<noteq> 1"
  shows "i < length nodes \<and> nodes ! i = p"
  using assms findNode_loop_sound [of h p nodes 0 "length nodes - 1" i]
  by (cases nodes) (auto simp: findNode_def split: if_split_asm)

text \<open>A search for a node that is after the last of four nodes makes the diagnostic output of
  \<^verbatim>\<open>GraphNode::findNode\<close> read past the end of the vector.\<close>
lemma findNode_diagnostics_out_of_bounds:
  "findNode demo_heap 9 [1, 3, 5, 6] = Inl Out_Of_Bounds"
  by (simp add: findNode_def findNode_loop.simps probe_def Let_def compareLess_def print_sequence_def)

section \<open>The searches by time\<close>

lemma filter_prefix:
  assumes "n \<le> length xs" "\<And>j. j < n \<Longrightarrow> P (xs ! j)" "\<And>j. n \<le> j \<Longrightarrow> j < length xs \<Longrightarrow> \<not> P (xs ! j)"
  shows "filter P xs = take n xs"
proof -
  have t: "filter P (take n xs) = take n xs"
    using assms(1,2) by (auto simp: filter_id_conv in_set_conv_nth)
  have "filter P (drop n xs) = []"
    using assms(3) by (auto simp: filter_empty_conv in_set_conv_nth)
  then show ?thesis
    using t by (metis append_Nil2 append_take_drop_id filter_append)
qed

lemma lastBefore_loop_spec:
  assumes "time_sorted h nodes" "lo < hi" "hi < length nodes"
    and "\<And>j. hi < j \<Longrightarrow> j < length nodes \<Longrightarrow> t < nd_time (h (nodes ! j))"
    and "lo = 0 \<or> nd_time (h (nodes ! lo)) \<le> t"
  shows "\<exists>i<length nodes. lastBefore_loop h t nodes lo hi = Some i \<and>
           (\<forall>j. i < j \<longrightarrow> j < length nodes \<longrightarrow> t < nd_time (h (nodes ! j))) \<and>
           (i = 0 \<or> nd_time (h (nodes ! i)) \<le> t)"
  using assms
proof (induction h t nodes lo hi rule: lastBefore_loop.induct)
  case (1 h t nodes lo hi)
  define i where "i = probe lo hi"
  show ?case
  proof (cases "lo + 1 = hi")
    case True
    show ?thesis
    proof (cases "nd_time (h (nodes ! hi)) \<le> t")
      case True': True
      then show ?thesis
        using True 1(5,6) by (simp add: lastBefore_loop.simps [of h t nodes lo hi])
    next
      case False
      then have "\<forall>j. lo < j \<longrightarrow> j < length nodes \<longrightarrow> t < nd_time (h (nodes ! j))"
        using True 1(6) by (metis Suc_eq_plus1 linorder_not_le not_less_eq order_le_less)
      then show ?thesis
        using True False 1(4,5,7) by (simp add: lastBefore_loop.simps [of h t nodes lo hi])
    qed
  next
    case False
    then have b: "lo < i" "i < hi"
      using probe_inside [of lo hi] 1(4) by (auto simp: i_def)
    show ?thesis
    proof (cases "t < nd_time (h (nodes ! i))")
      case True
      then have "t < nd_time (h (nodes ! j))" if "i < j" "j < length nodes" for j
        using time_sorted_nth [OF 1(3), of i j] that by (simp add: order_less_le_trans)
      then show ?thesis
        using 1(1) [OF i_def False] True False b 1(3-7)
        by (simp add: lastBefore_loop.simps [of h t nodes lo hi] Let_def flip: i_def)
    next
      case le: False
      then have "nd_time (h (nodes ! i)) \<le> t"
        by simp
      then show ?thesis
        using 1(2) [OF i_def False] le False b 1(3-7)
        by (simp add: lastBefore_loop.simps [of h t nodes lo hi] Let_def flip: i_def)
    qed
  qed
qed

lemma lastBefore_filter:
  assumes "time_sorted h nodes" "i < length nodes"
    and "\<forall>j. i < j \<longrightarrow> j < length nodes \<longrightarrow> t < nd_time (h (nodes ! j))"
    and "nd_time (h (nodes ! i)) \<le> t"
  shows "filter (\<lambda>p. nd_time (h p) \<le> t) nodes = take (Suc i) nodes"
proof (rule filter_prefix)
  show "Suc i \<le> length nodes"
    using assms(2) by simp
  show "nd_time (h (nodes ! j)) \<le> t" if "j < Suc i" for j
    using time_sorted_nth [OF assms(1), of j i] that assms(2,4) by force
  show "\<not> nd_time (h (nodes ! j)) \<le> t" if "Suc i \<le> j" "j < length nodes" for j
    using assms(3) that by (simp add: Suc_le_eq not_le)
qed

text \<open>C32. On a non-empty vector sorted by time, \<^verbatim>\<open>GraphNode::findLastNodeBefore\<close> returns the last
  node whose time is not after the given one, and the first node of the vector when all are after
  it.\<close>
theorem findLastNodeBefore_spec:
  assumes "time_sorted h nodes" "nodes \<noteq> []"
  shows "findLastNodeBefore h t nodes =
    Some (let before = filter (\<lambda>p. nd_time (h p) \<le> t) nodes in if before = [] then hd nodes else last before)"
proof (cases "length nodes = 1")
  case True
  then obtain p where "nodes = [p]"
    by (auto simp: length_Suc_conv)
  then show ?thesis
    by (simp add: findLastNodeBefore_def)
next
  case False
  then have "0 < length nodes - 1" "length nodes - 1 < length nodes"
    using assms(2) by (auto simp: neq_Nil_conv)
  then have ex: "\<exists>i<length nodes. lastBefore_loop h t nodes 0 (length nodes - 1) = Some i \<and>
      (\<forall>j. i < j \<longrightarrow> j < length nodes \<longrightarrow> t < nd_time (h (nodes ! j))) \<and> (i = 0 \<or> nd_time (h (nodes ! i)) \<le> t)"
    by (intro lastBefore_loop_spec [OF assms(1)]) auto
  then obtain i where i: "i < length nodes" "lastBefore_loop h t nodes 0 (length nodes - 1) = Some i"
      "\<forall>j. i < j \<longrightarrow> j < length nodes \<longrightarrow> t < nd_time (h (nodes ! j))" "i = 0 \<or> nd_time (h (nodes ! i)) \<le> t"
    by auto
  show ?thesis
  proof (cases "nd_time (h (nodes ! i)) \<le> t")
    case True
    moreover from True have "\<not> t < nd_time (h (nodes ! i))"
      by simp
    ultimately show ?thesis
      using lastBefore_filter [OF assms(1) i(1,3)] i False assms(2)
      by (simp add: findLastNodeBefore_def Let_def take_Suc_conv_app_nth)
  next
    case after: False
    then have "filter (\<lambda>p. nd_time (h p) \<le> t) nodes = []"
      using filter_prefix [of 0 nodes "\<lambda>p. nd_time (h p) \<le> t"] i(3,4)
      by (metis gr0I le0 linorder_not_le not_less0 take_0)
    moreover have "walk_back h t nodes i = nodes ! 0"
      using i(4) after by auto
    ultimately show ?thesis
      using after i(1,2) False assms(2) by (simp add: findLastNodeBefore_def not_le hd_conv_nth)
  qed
qed

theorem findLastNodeBefore_spec_witness: "findLastNodeBefore demo_heap 55 [1, 3, 5, 6, 9] = Some 5"
  by (subst findLastNodeBefore_spec) (simp_all add: time_sorted_def Let_def)

lemma firstAfter_loop_spec:
  assumes "time_sorted h nodes" "lo < hi" "hi < length nodes"
    and "\<And>j. j < lo \<Longrightarrow> nd_time (h (nodes ! j)) < t"
    and "hi = length nodes - 1 \<or> t \<le> nd_time (h (nodes ! hi))"
  shows "\<exists>i<length nodes. firstAfter_loop h t nodes lo hi = Some i \<and>
           (\<forall>j<i. nd_time (h (nodes ! j)) < t) \<and> (i = length nodes - 1 \<or> t \<le> nd_time (h (nodes ! i)))"
  using assms
proof (induction h t nodes lo hi rule: firstAfter_loop.induct)
  case (1 h t nodes lo hi)
  define i where "i = probe lo hi"
  show ?case
  proof (cases "lo + 1 = hi")
    case True
    show ?thesis
    proof (cases "t \<le> nd_time (h (nodes ! lo))")
      case True': True
      then show ?thesis
        using True 1(5,6) by (auto simp: firstAfter_loop.simps [of h t nodes lo hi])
    next
      case False
      then have "\<forall>j<hi. nd_time (h (nodes ! j)) < t"
        using True 1(6) by (metis Suc_eq_plus1 less_Suc_eq linorder_not_le)
      then show ?thesis
        using True False 1(4,5,7) by (simp add: firstAfter_loop.simps [of h t nodes lo hi])
    qed
  next
    case False
    then have b: "lo < i" "i < hi"
      using probe_inside [of lo hi] 1(4) by (auto simp: i_def)
    show ?thesis
    proof (cases "nd_time (h (nodes ! i)) < t")
      case True
      then have "nd_time (h (nodes ! j)) < t" if "j < i" for j
        using time_sorted_nth [OF 1(3), of j i] that b 1(5) by (simp add: order_le_less_trans)
      then show ?thesis
        using 1(1) [OF i_def False] True False b 1(3-7)
        by (simp add: firstAfter_loop.simps [of h t nodes lo hi] Let_def flip: i_def)
    next
      case le: False
      then have "t \<le> nd_time (h (nodes ! i))"
        by simp
      then show ?thesis
        using 1(2) [OF i_def False] le False b 1(3-7)
        by (simp add: firstAfter_loop.simps [of h t nodes lo hi] Let_def flip: i_def)
    qed
  qed
qed

text \<open>On a non-empty vector sorted by time, \<^verbatim>\<open>GraphNode::findFirstNodeAfter\<close> returns the first
  node whose time is not before the given one, and the last node of the vector when all are before
  it.\<close>
lemma findFirstNodeAfter_spec:
  assumes "time_sorted h nodes" "nodes \<noteq> []"
  shows "findFirstNodeAfter h t nodes =
    Some (case List.find (\<lambda>p. t \<le> nd_time (h p)) nodes of Some p \<Rightarrow> p | None \<Rightarrow> last nodes)"
proof (cases "length nodes = 1")
  case True
  then obtain p where "nodes = [p]"
    by (auto simp: length_Suc_conv)
  then show ?thesis
    by (simp add: findFirstNodeAfter_def)
next
  case False
  then have "0 < length nodes - 1" "length nodes - 1 < length nodes"
    using assms(2) by (auto simp: neq_Nil_conv)
  then obtain i where i: "i < length nodes" "firstAfter_loop h t nodes 0 (length nodes - 1) = Some i"
      "\<forall>j<i. nd_time (h (nodes ! j)) < t" "i = length nodes - 1 \<or> t \<le> nd_time (h (nodes ! i))"
    using firstAfter_loop_spec [OF assms(1), of 0 "length nodes - 1" t] by auto
  show ?thesis
  proof (cases "t \<le> nd_time (h (nodes ! i))")
    case True
    then have "List.find (\<lambda>p. t \<le> nd_time (h p)) nodes = Some (nodes ! i)"
      using i(1,3) by (auto simp: find_Some_iff not_le intro!: exI [of _ i])
    moreover have "\<not> nd_time (h (nodes ! i)) < t"
      using True by simp
    ultimately show ?thesis
      using i False assms(2) by (simp add: findFirstNodeAfter_def)
  next
    case before: False
    then have l: "i = length nodes - 1"
      using i(4) by simp
    then obtain k where k: "i = Suc k"
      using False assms(2) by (cases i) (auto simp: neq_Nil_conv)
    have "\<forall>j\<le>i. nd_time (h (nodes ! j)) < t"
      using i(3) before by (auto simp: order_le_less not_le)
    then have "List.find (\<lambda>p. t \<le> nd_time (h p)) nodes = None"
      using l by (auto simp: find_None_iff in_set_conv_nth not_le)
    moreover from before have "nd_time (h (nodes ! i)) \<le> t"
      by simp
    then have "walk_back h t nodes i = nodes ! i"
      using k by simp
    ultimately show ?thesis
      using before i l False assms(2)
      by (simp add: findFirstNodeAfter_def not_le last_conv_nth less_imp_le)
  qed
qed

end
