(* ===== verification/EdgeModel.thy ===== *)
theory EdgeModel
  imports Complex_Main NodeSearch
begin

text \<open>The edges of \<^verbatim>\<open>backend/include/graph/Edge.hpp\<close>. The end points are references into the node
  heap. Blame is a \<^verbatim>\<open>double\<close> in the code and an exact rational here: rounding is not modelled.\<close>

section \<open>The record and its operations\<close>

type_synonym edge_ref = nat

type_synonym blame_map = "blame_reason \<rightharpoonup> rat"

record edge =
  e_start :: node_ref
  e_end :: node_ref
  e_duration :: u64
  e_blocking :: bool
  e_paradigm :: u32
  e_blame :: blame_map

type_synonym edge_heap = "edge_ref \<Rightarrow> edge"

definition isReverseEdge :: "heap \<Rightarrow> edge \<Rightarrow> bool" where
  "isReverseEdge h e \<longleftrightarrow> nd_time (h (e_start e)) > nd_time (h (e_end e))"

definition isIntraStreamEdge :: "heap \<Rightarrow> edge \<Rightarrow> bool" where
  "isIntraStreamEdge h e \<longleftrightarrow> nd_streamId (h (e_start e)) = nd_streamId (h (e_end e))"

definition isInterStreamEdge :: "heap \<Rightarrow> edge \<Rightarrow> bool" where
  "isInterStreamEdge h e \<longleftrightarrow> nd_streamId (h (e_start e)) \<noteq> nd_streamId (h (e_end e))"

text \<open>In the body of the constructor the name \<^verbatim>\<open>blocking\<close> is the parameter, which hides the member
  of that name: the assignment for a reverse edge changes the parameter only. The member keeps the
  value the initialiser list gave it. The name \<^verbatim>\<open>duration\<close> is the parameter too, and is stored.\<close>

definition Edge_new :: "heap \<Rightarrow> node_ref \<Rightarrow> node_ref \<Rightarrow> u64 \<Rightarrow> bool \<Rightarrow> u32 \<Rightarrow> edge" where
  "Edge_new h start end duration blocking edgeParadigm =
    (let e = \<lparr>e_start = start, e_end = end, e_duration = 0, e_blocking = blocking,
              e_paradigm = edgeParadigm, e_blame = Map.empty\<rparr>;
         (blocking, duration) = (if isReverseEdge h e then (True, 0) else (blocking, duration))
     in e\<lparr>e_duration := duration\<rparr>)"

definition hasEdgeType :: "edge \<Rightarrow> u32 \<Rightarrow> bool" where
  "hasEdgeType e p \<longleftrightarrow> has_flag p (e_paradigm e)"

definition computeWeight :: "u64 \<Rightarrow> bool \<Rightarrow> u64" where
  "computeWeight duration blocking =
    (if \<not> blocking then
       (let tmpDuration = (if duration = 0 then 1 else duration) in UINT64_MAX - tmpDuration)
     else UINT64_MAX)"

definition getWeight :: "edge \<Rightarrow> u64" where
  "getWeight e = computeWeight (e_duration e) (e_blocking e)"

definition makeBlocking :: "edge \<Rightarrow> edge" where
  "makeBlocking e = e\<lparr>e_blocking := True\<rparr>"

definition unblock :: "heap \<Rightarrow> edge \<Rightarrow> edge" where
  "unblock h e = (let e = e\<lparr>e_blocking := False\<rparr> in
    if e_duration e = 0 then
      (if nd_time (h (e_start e)) > nd_time (h (e_end e))
       then e\<lparr>e_duration := nd_time (h (e_start e)) - nd_time (h (e_end e))\<rparr>
       else e\<lparr>e_duration := nd_time (h (e_end e)) - nd_time (h (e_start e))\<rparr>)
    else e)"

definition edge_getName :: "heap \<Rightarrow> edge \<Rightarrow> string" where
  "edge_getName h e =
    ''['' @ getUniqueName (h (e_start e)) @ '', '' @ getUniqueName (h (e_end e)) @ '', ('' @
    (if e_paradigm e = PARADIGM_ALL then ''ALL''
     else (if has_flag (e_paradigm e) PARADIGM_CUDA then ''CUDA'' else []) @
          (if has_flag (e_paradigm e) PARADIGM_MPI
           then (if e_paradigm e \<noteq> PARADIGM_MPI then '','' else []) @ ''MPI'' else []) @
          (if has_flag (e_paradigm e) PARADIGM_OMP
           then (if e_paradigm e \<noteq> PARADIGM_OMP then '','' else []) @ ''OMP'' else [])) @
    '') '' @
    (if isInterStreamEdge h e then ''(inter)'' else ''(intra)'') @
    (if e_blocking e then '' is blocking'' else []) @
    (if isReverseEdge h e then '' is reverse edge'' else []) @ '']''"

definition edge_addBlame :: "rat \<Rightarrow> blame_reason \<Rightarrow> edge \<Rightarrow> edge" where
  "edge_addBlame v r e = (case e_blame e r of
      None \<Rightarrow> e\<lparr>e_blame := (e_blame e)(r \<mapsto> v)\<rparr>
    | Some b \<Rightarrow> e\<lparr>e_blame := (e_blame e)(r \<mapsto> b + v)\<rparr>)"

definition edge_getBlame :: "blame_reason \<Rightarrow> edge \<Rightarrow> rat" where
  "edge_getBlame r e = (case e_blame e r of None \<Rightarrow> 0 | Some b \<Rightarrow> b)"

text \<open>The keys in the order in which the map is walked.\<close>

definition all_reasons :: "blame_reason list" where
  "all_reasons = [REASON_OFLD_DEVICE_IDLE, REASON_OFLD_WAIT4DEVICE, REASON_OFLD_BLOCKING_TRANSFER,
    REASON_MPI_COLLECTIVE, REASON_MPI_LATE_SENDER, REASON_MPI_LATE_RECEIVER,
    REASON_MPI_LATE_SENDRECV, REASON_OMP_BARRIER, REASON_UNCLASSIFIED]"

definition getTotalBlame :: "edge \<Rightarrow> rat" where
  "getTotalBlame e =
    foldl (\<lambda>total_blame r. case e_blame e r of Some b \<Rightarrow> total_blame + b | None \<Rightarrow> total_blame) 0 all_reasons"

section \<open>Lemmas\<close>

lemma all_reasons_complete: "set all_reasons = UNIV"
proof -
  have "r \<in> set all_reasons" for r
    by (cases r) (simp_all add: all_reasons_def)
  then show ?thesis
    by auto
qed

lemma all_reasons_sorted: "sorted_wrt (<) all_reasons"
  by (simp add: all_reasons_def less_blame_reason_def)

lemma getTotalBlame_sum: "getTotalBlame e = (\<Sum>r\<leftarrow>all_reasons. edge_getBlame r e)"
  by (simp add: getTotalBlame_def all_reasons_def edge_getBlame_def split: option.split)

lemma getBlame_addBlame:
  "edge_getBlame r (edge_addBlame v q e) = edge_getBlame r e + (if r = q then v else 0)"
  by (auto simp: edge_getBlame_def edge_addBlame_def split: option.split)

lemma Edge_new_simps [simp]:
  "e_start (Edge_new h s t d b p) = s" "e_end (Edge_new h s t d b p) = t"
  "e_blocking (Edge_new h s t d b p) = b" "e_paradigm (Edge_new h s t d b p) = p"
  "e_blame (Edge_new h s t d b p) = Map.empty"
  by (simp_all add: Edge_new_def Let_def split_beta)

lemma Edge_new_duration:
  "e_duration (Edge_new h s t d b p) = (if nd_time (h s) > nd_time (h t) then 0 else d)"
  by (simp add: Edge_new_def Let_def isReverseEdge_def)

section \<open>Properties\<close>

text \<open>The weight of an edge complements its duration: a non-blocking edge weighs the largest
  64-bit number less its duration, where a zero duration counts as one, and a blocking edge weighs
  that number itself.\<close>
lemma getWeight_complement:
  "unat (getWeight e) = (if e_blocking e then 2 ^ 64 - 1 else 2 ^ 64 - 1 - max 1 (unat (e_duration e)))"
proof (cases "e_blocking e")
  case False
  have "unat (UINT64_MAX - d) = 2 ^ 64 - 1 - unat d" for d :: u64
    by (subst unat_sub) (simp_all add: unat_UINT64_MAX word_order.extremum)
  moreover have "max 1 (unat d) = unat d" if "d \<noteq> 0" for d :: u64
    using that by (simp add: max_def unat_eq_zero Suc_le_eq flip: neq0_conv)
  ultimately show ?thesis
    using False by (auto simp: getWeight_def computeWeight_def Let_def)
qed (simp add: getWeight_def computeWeight_def unat_UINT64_MAX)

text \<open>Adding blame to an edge raises the total by exactly the amount added, whatever the reason.\<close>
lemma getTotalBlame_addBlame: "getTotalBlame (edge_addBlame v r e) = getTotalBlame e + v"
  unfolding getTotalBlame_sum getBlame_addBlame
  by (cases r) (simp_all add: all_reasons_def)

text \<open>The constructor does not block a reverse edge: the blocking state is the value passed by
  the caller, though the duration is set to zero.\<close>
lemma reverse_edge_not_blocked:
  assumes "nd_time (h s) > nd_time (h t)"
  shows "\<not> e_blocking (Edge_new h s t d False p) \<and> e_duration (Edge_new h s t d False p) = 0
         \<and> getWeight (Edge_new h s t d False p) = UINT64_MAX - 1"
  using assms by (simp add: Edge_new_duration getWeight_def computeWeight_def)

text \<open>Releasing an edge that was built for the span of its end points gives the distance of the
  two time stamps as its duration, whichever of the end points is later.\<close>
lemma unblock_duration:
  assumes "d = nd_time (h t) - nd_time (h s)"
  shows "unat (e_duration (unblock h (Edge_new h s t d b p))) =
         nat \<bar>uint (nd_time (h t)) - uint (nd_time (h s))\<bar> \<and>
         \<not> e_blocking (unblock h (Edge_new h s t d b p))"
proof (cases "nd_time (h s) > nd_time (h t)")
  case True
  then have "uint (nd_time (h s) - nd_time (h t)) = uint (nd_time (h s)) - uint (nd_time (h t))"
    by (intro uint_diff) simp
  then show ?thesis
    using True by (simp add: unblock_def Edge_new_duration Let_def word_less_def unat_eq_nat_uint)
next
  case False
  then have "uint (nd_time (h t) - nd_time (h s)) = uint (nd_time (h t)) - uint (nd_time (h s))"
    by (intro uint_diff) simp
  moreover from False have "uint (nd_time (h s)) \<le> uint (nd_time (h t))"
    by (simp add: word_le_def not_less)
  moreover have "e_duration (unblock h (Edge_new h s t d b p)) = nd_time (h t) - nd_time (h s)"
    unfolding unblock_def Let_def by (simp add: False assms Edge_new_duration)
  ultimately show ?thesis
    by (simp add: unblock_def Let_def unat_eq_nat_uint)
qed

end
