(* ===== verification/GraphModel.thy ===== *)
theory GraphModel
  imports EdgeModel
begin

text \<open>The graph of \<^verbatim>\<open>backend/Graph.cpp\<close>: its node list and the two maps from a node to its incoming
  and outgoing edges, the operations on them, the sub graph of a paradigm, and the search of the
  critical path. The node heap \<^verbatim>\<open>h\<close> and the edge heap \<^verbatim>\<open>E\<close> give the objects the pointers refer
  to. Output to the console is left out.\<close>

section \<open>State and basic operations\<close>

record graph =
  g_nodes :: "node_ref list"
  g_in :: "node_ref \<rightharpoonup> edge_ref list"
  g_out :: "node_ref \<rightharpoonup> edge_ref list"
  g_isSubGraph :: bool

definition Graph_new :: "bool \<Rightarrow> graph" where [graph_ops]:
  "Graph_new subGraph = \<lparr>g_nodes = [], g_in = Map.empty, g_out = Map.empty, g_isSubGraph = subGraph\<rparr>"

text \<open>The clean-up returns the edges it deletes, in the order of the out-edge lists of the given keys.\<close>

definition cleanup :: "bool \<Rightarrow> node_ref list \<Rightarrow> graph \<Rightarrow> edge_ref list \<times> graph" where
  "cleanup deleteEdges keys g =
    ((if deleteEdges then concat (map (\<lambda>n. case g_out g n of None \<Rightarrow> [] | Some es \<Rightarrow> es) keys) else []),
     g\<lparr>g_nodes := [], g_in := Map.empty, g_out := Map.empty\<rparr>)"

definition graph_addNode :: "node_ref \<Rightarrow> graph \<Rightarrow> graph" where [graph_ops]:
  "graph_addNode n g = g\<lparr>g_nodes := g_nodes g @ [n]\<rparr>"

text \<open>\<^verbatim>\<open>map[key]\<close> creates an empty list for an absent key.\<close>

definition edges_at :: "(node_ref \<rightharpoonup> edge_ref list) \<Rightarrow> node_ref \<Rightarrow> edge_ref list" where
  "edges_at m n = (case m n of None \<Rightarrow> [] | Some es \<Rightarrow> es)"

definition addEdge :: "edge_heap \<Rightarrow> edge_ref \<Rightarrow> graph \<Rightarrow> graph" where [graph_ops]:
  "addEdge E e g =
    (let g = g\<lparr>g_in := (g_in g)(e_end (E e) \<mapsto> edges_at (g_in g) (e_end (E e)) @ [e])\<rparr>
     in g\<lparr>g_out := (g_out g)(e_start (E e) \<mapsto> edges_at (g_out g) (e_start (E e)) @ [e])\<rparr>)"

fun erase_first :: "('a \<Rightarrow> bool) \<Rightarrow> 'a list \<Rightarrow> 'a list" where
  "erase_first P [] = []"
| "erase_first P (x # xs) = (if P x then xs else x # erase_first P xs)"

definition removeEdge :: "edge_heap \<Rightarrow> edge_ref \<Rightarrow> graph \<Rightarrow> graph" where [graph_ops]:
  "removeEdge E e g =
    (let s = e_start (E e); t = e_end (E e);
         out_edges = edges_at (g_out g) s;
         in_edges = edges_at (g_in g) t
     in g\<lparr>g_out := (g_out g)(s \<mapsto> erase_first (\<lambda>x. e_end (E x) = t) out_edges),
          g_in := (g_in g)(t \<mapsto> erase_first (\<lambda>x. e_start (E x) = s) in_edges)\<rparr>)"

definition getInEdges :: "node_ref \<Rightarrow> graph \<Rightarrow> edge_ref list result" where
  "getInEdges n g = (case g_in g n of Some es \<Rightarrow> Inr es
     | None \<Rightarrow> Inl (Runtime_Error ''not found in in-edge list''))"

definition getInEdgesPtr :: "node_ref \<Rightarrow> graph \<Rightarrow> edge_ref list option" where
  "getInEdgesPtr n g = (case g_in g n of Some es \<Rightarrow> Some es | None \<Rightarrow> None)"

definition getOutEdges :: "node_ref \<Rightarrow> graph \<Rightarrow> edge_ref list option" where
  "getOutEdges n g = (case g_out g n of Some es \<Rightarrow> Some es | None \<Rightarrow> None)"

section \<open>The sub graph of a paradigm\<close>

fun subGraph_edges :: "heap \<Rightarrow> edge_heap \<Rightarrow> u32 \<Rightarrow> edge_ref list \<Rightarrow> graph \<Rightarrow> graph" where
  "subGraph_edges h E paradigm [] sub = sub"
| "subGraph_edges h E paradigm (e # es) sub =
    subGraph_edges h E paradigm es
      (if hasEdgeType (E e) paradigm \<and> hasParadigm (h (e_end (E e))) paradigm then addEdge E e sub else sub)"

fun subGraph_nodes :: "heap \<Rightarrow> edge_heap \<Rightarrow> u32 \<Rightarrow> graph \<Rightarrow> node_ref list \<Rightarrow> graph \<Rightarrow> graph" where
  "subGraph_nodes h E paradigm g [] sub = sub"
| "subGraph_nodes h E paradigm g (n # ns) sub =
    (if \<not> hasParadigm (h n) paradigm then subGraph_nodes h E paradigm g ns sub
     else
       (let sub = graph_addNode n sub;
            sub = (case getOutEdges n g of Some es \<Rightarrow> subGraph_edges h E paradigm es sub | None \<Rightarrow> sub)
        in subGraph_nodes h E paradigm g ns sub))"

definition getSubGraph :: "heap \<Rightarrow> edge_heap \<Rightarrow> u32 \<Rightarrow> graph \<Rightarrow> graph" where
  "getSubGraph h E paradigm g = subGraph_nodes h E paradigm g (g_nodes g) (Graph_new True)"

section \<open>Distance lists\<close>

type_synonym distance_map = "node_ref \<rightharpoonup> u64"

definition dist_at :: "distance_map \<Rightarrow> node_ref \<Rightarrow> u64" where
  "dist_at m n = (case m n of None \<Rightarrow> 0 | Some d \<Rightarrow> d)"

definition compareDistancesLess :: "heap \<Rightarrow> node_ref \<Rightarrow> node_ref \<Rightarrow> distance_map \<Rightarrow> bool" where
  "compareDistancesLess h n1 n2 m =
    (if dist_at m n1 \<noteq> dist_at m n2 then dist_at m n1 < dist_at m n2 else nd_id (h n1) < nd_id (h n2))"

text \<open>The loop looks at the element after \<^verbatim>\<open>current\<close> and inserts before \<^verbatim>\<open>current\<close>.\<close>

fun sortedInsert_loop :: "node_ref \<Rightarrow> distance_map \<Rightarrow> node_ref list \<Rightarrow> node_ref list" where
  "sortedInsert_loop n m [] = []"
| "sortedInsert_loop n m [c] = [n, c]"
| "sortedInsert_loop n m (c # d # ds) =
    (if dist_at m d \<ge> dist_at m n then n # c # d # ds else c # sortedInsert_loop n m (d # ds))"

definition sortedInsert :: "node_ref \<Rightarrow> node_ref list \<Rightarrow> distance_map \<Rightarrow> node_ref list" where
  "sortedInsert n ns m = (if ns = [] then [n] else sortedInsert_loop n m ns)"

section \<open>The critical path\<close>

text \<open>The loop over the in-edges: the state is the largest weight so far, the predecessor chosen, and
  the depth of the loop check.\<close>

definition inEdge_step :: "heap \<Rightarrow> edge \<Rightarrow> u64 \<times> node_ref option \<times> u32 \<Rightarrow> u64 \<times> node_ref option \<times> u32" where
  "inEdge_step h e st = (case st of (maxWeight, predecessorNode, loop_check) \<Rightarrow>
    (let curWeight = getWeight e in
     if (isReverseEdge h e \<and> isInterStreamEdge h e)
        \<or> (\<not> e_blocking e \<and> curWeight > maxWeight \<and> curWeight \<noteq> UINT64_MAX)
     then (curWeight, Some (e_start e), if isReverseEdge h e \<and> loop_check < 10 then 10 else loop_check)
     else (maxWeight, predecessorNode, loop_check)))"

definition inEdge_scan :: "heap \<Rightarrow> edge_heap \<Rightarrow> edge_ref list \<Rightarrow> u32 \<Rightarrow> u64 \<times> node_ref option \<times> u32" where
  "inEdge_scan h E es loop_check = fold (\<lambda>e. inEdge_step h (E e)) es (0, None, loop_check)"

text \<open>\<^verbatim>\<open>printCircle\<close> asks for the in-edges of each node it prints, which throws for a node without an
  entry in the map.\<close>

fun printCircle :: "graph \<Rightarrow> node_ref \<Rightarrow> node_ref list \<Rightarrow> unit result" where
  "printCircle g n [] = Inr ()"
| "printCircle g n (p # ps) =
    bind_res (getInEdges p g) (\<lambda>_. if n = p then Inr () else printCircle g n ps)"

text \<open>The parameter \<^verbatim>\<open>num\<close> of \<^verbatim>\<open>findInFirst\<close> is a signed 16-bit integer, the loop check an unsigned
  32-bit one.\<close>

definition in_loop :: "heap \<Rightarrow> node_ref \<Rightarrow> node_ref list \<Rightarrow> u32 \<Rightarrow> bool" where
  "in_loop h n path loop_check \<longleftrightarrow>
    loop_check \<noteq> 0 \<and> findInFirst h n path (sint (ucast loop_check :: 16 word))"

text \<open>Walking back to the previous node of the same stream; before the first node lies the end of
  the vector, and reading there is out of bounds.\<close>

fun same_stream_before :: "heap \<Rightarrow> node_ref list \<Rightarrow> node_ref \<Rightarrow> nat \<Rightarrow> node_ref result" where
  "same_stream_before h nodes c i =
    (if nd_streamId (h c) \<noteq> nd_streamId (h (nodes ! i))
     then (case i of 0 \<Rightarrow> Inl Out_Of_Bounds | Suc j \<Rightarrow> same_stream_before h nodes c j)
     else Inr (nodes ! i))"

definition direct_predecessor :: "heap \<Rightarrow> graph \<Rightarrow> node_ref \<Rightarrow> node_ref result" where
  "direct_predecessor h g c =
    bind_res (findNode h c (g_nodes g)) (\<lambda>r. case r of
        Some (Suc i) \<Rightarrow>
          if gn_caller (h c) \<noteq> None then same_stream_before h (g_nodes g) c i else Inr (g_nodes g ! i)
      | _ \<Rightarrow> Inl Out_Of_Bounds)"

text \<open>The second half of an iteration, for a node without an eligible in-edge: the node to go on with,
  if any, and the path.\<close>

definition fallback_step ::
  "heap \<Rightarrow> graph \<Rightarrow> u32 \<Rightarrow> node_ref \<Rightarrow> node_ref list \<Rightarrow> (node_ref option \<times> node_ref list) result" where
  "fallback_step h g loop_check c path =
    bind_res (direct_predecessor h g c) (\<lambda>p.
    bind_res (if in_loop h c path loop_check then bind_res (printCircle g c path) (\<lambda>_. Inr path)
              else Inr (c # path)) (\<lambda>path.
    Inr (if c \<noteq> p then Some p else None, path)))"

text \<open>The first half, for a node with a predecessor over an in-edge.\<close>

definition edge_step ::
  "heap \<Rightarrow> graph \<Rightarrow> u32 \<Rightarrow> node_ref \<Rightarrow> node_ref \<Rightarrow> node_ref list \<Rightarrow> (node_ref option \<times> node_ref list) result" where
  "edge_step h g loop_check c p path =
    (if in_loop h c path loop_check then bind_res (printCircle g c path) (\<lambda>_. Inr (None, path))
     else Inr (if c \<noteq> p then Some p else None, c # path))"

text \<open>One iteration of the loop gives the depth of the loop check, the next node and the path.\<close>

definition path_step ::
  "heap \<Rightarrow> edge_heap \<Rightarrow> graph \<Rightarrow> u32 \<Rightarrow> node_ref \<Rightarrow> node_ref list \<Rightarrow>
   (u32 \<times> node_ref option \<times> node_ref list) result" where
  "path_step h E g loop_check c path =
    (case getInEdgesPtr c g of
       Some es \<Rightarrow>
         (case inEdge_scan h E es loop_check of
            (_, Some p, lc) \<Rightarrow> bind_res (edge_step h g lc c p path) (\<lambda>r. Inr (lc, r))
          | (_, None, lc) \<Rightarrow> bind_res (fallback_step h g lc c path) (\<lambda>r. Inr (lc, r)))
     | None \<Rightarrow> bind_res (fallback_step h g loop_check c path) (\<lambda>r. Inr (loop_check, r)))"

text \<open>The loop may run forever on a graph with a long cycle of reverse edges: it is given fuel, and
  \<^term>\<open>None\<close> says that the fuel was not enough.\<close>

fun path_loop ::
  "nat \<Rightarrow> heap \<Rightarrow> edge_heap \<Rightarrow> graph \<Rightarrow> node_ref \<Rightarrow> u32 \<Rightarrow> node_ref \<Rightarrow> node_ref list \<Rightarrow>
   node_ref list result option" where
  "path_loop 0 h E g s loop_check c path = None"
| "path_loop (Suc fuel) h E g s loop_check c path =
    (if \<not> compareLess (h s) (h c) then Some (Inr path)
     else case path_step h E g loop_check c path of
       Inl err \<Rightarrow> Some (Inl err)
     | Inr (lc, Some c', path') \<Rightarrow> path_loop fuel h E g s lc c' path'
     | Inr (lc, None, path') \<Rightarrow> Some (Inr path'))"

definition getCriticalPath ::
  "nat \<Rightarrow> heap \<Rightarrow> edge_heap \<Rightarrow> graph \<Rightarrow> u32 \<Rightarrow> node_ref \<Rightarrow> node_ref \<Rightarrow> node_ref list result option" where
  "getCriticalPath fuel h E g cpaLoopCheck startNode endNode =
    (case path_loop fuel h E g startNode cpaLoopCheck endNode [] of
       None \<Rightarrow> None
     | Some r \<Rightarrow> Some (bind_res r (\<lambda>path. Inr (startNode # path))))"

end
