(* ===== verification/GraphLaws.thy ===== *)
theory GraphLaws
  imports GraphModel
begin

text \<open>Laws of the graph operations: the in-edge and out-edge lists always list the same edges in the
  same order between any two nodes, additions and removals keep it so, and the sub graph of a
  paradigm holds exactly the nodes and edges of it.\<close>

section \<open>Consistency of the edge lists\<close>

definition out_between :: "edge_heap \<Rightarrow> graph \<Rightarrow> node_ref \<Rightarrow> node_ref \<Rightarrow> edge_ref list" where
  "out_between E g s t = filter (\<lambda>e. e_end (E e) = t) (edges_at (g_out g) s)"

definition in_between :: "edge_heap \<Rightarrow> graph \<Rightarrow> node_ref \<Rightarrow> node_ref \<Rightarrow> edge_ref list" where
  "in_between E g s t = filter (\<lambda>e. e_start (E e) = s) (edges_at (g_in g) t)"

definition edges_consistent :: "edge_heap \<Rightarrow> graph \<Rightarrow> bool" where
  "edges_consistent E g \<longleftrightarrow>
    (\<forall>s. \<forall>e\<in>set (edges_at (g_out g) s). e_start (E e) = s) \<and>
    (\<forall>t. \<forall>e\<in>set (edges_at (g_in g) t). e_end (E e) = t) \<and>
    (\<forall>s t. out_between E g s t = in_between E g s t)"

lemma edges_at_upd [simp]: "edges_at (m(k \<mapsto> es)) n = (if n = k then es else edges_at m n)"
  by (simp add: edges_at_def)

lemma edges_at_empty [simp]: "edges_at Map.empty n = []"
  by (simp add: edges_at_def)

lemma erase_first_filter_other:
  "(\<And>x. P x \<Longrightarrow> \<not> Q x) \<Longrightarrow> filter Q (erase_first P xs) = filter Q xs"
  by (induction xs) auto

lemma erase_first_filter_same: "filter P (erase_first P xs) = tl (filter P xs)"
  by (induction xs) auto

lemma erase_first_subset: "x \<in> set (erase_first P xs) \<Longrightarrow> x \<in> set xs"
  by (induction xs) (auto split: if_split_asm)

lemma erase_first_cong: "(\<And>x. x \<in> set xs \<Longrightarrow> P x = Q x) \<Longrightarrow> erase_first P xs = erase_first Q xs"
  by (induction xs) auto

lemma edges_consistent_new: "edges_consistent E (Graph_new b)"
  by (simp add: edges_consistent_def Graph_new_def out_between_def in_between_def)

lemma graph_addNode_edges [simp]:
  "g_in (graph_addNode n g) = g_in g" "g_out (graph_addNode n g) = g_out g"
  "g_nodes (graph_addNode n g) = g_nodes g @ [n]"
  by (simp_all add: graph_addNode_def)

lemma addEdge_edges:
  "g_nodes (addEdge E e g) = g_nodes g"
  "edges_at (g_in (addEdge E e g)) n = edges_at (g_in g) n @ (if n = e_end (E e) then [e] else [])"
  "edges_at (g_out (addEdge E e g)) n = edges_at (g_out g) n @ (if n = e_start (E e) then [e] else [])"
  by (simp_all add: addEdge_def Let_def)

lemma removeEdge_edges:
  "g_nodes (removeEdge E e g) = g_nodes g"
  "edges_at (g_in (removeEdge E e g)) n =
     (if n = e_end (E e) then erase_first (\<lambda>x. e_start (E x) = e_start (E e)) (edges_at (g_in g) n)
      else edges_at (g_in g) n)"
  "edges_at (g_out (removeEdge E e g)) n =
     (if n = e_start (E e) then erase_first (\<lambda>x. e_end (E x) = e_end (E e)) (edges_at (g_out g) n)
      else edges_at (g_out g) n)"
  by (simp_all add: removeEdge_def Let_def)

lemma edges_consistent_addNode: "edges_consistent E (graph_addNode n g) \<longleftrightarrow> edges_consistent E g"
  by (simp add: edges_consistent_def out_between_def in_between_def)

lemma edges_consistent_addEdge: "edges_consistent E g \<Longrightarrow> edges_consistent E (addEdge E e g)"
  by (auto simp: edges_consistent_def out_between_def in_between_def addEdge_edges)

lemma between_removeEdge:
  "out_between E (removeEdge E e g) s t =
     (if s = e_start (E e) \<and> t = e_end (E e) then tl (out_between E g s t) else out_between E g s t)"
  "in_between E (removeEdge E e g) s t =
     (if s = e_start (E e) \<and> t = e_end (E e) then tl (in_between E g s t) else in_between E g s t)"
  by (auto simp: out_between_def in_between_def removeEdge_edges erase_first_filter_same
      intro: erase_first_filter_other)

lemma edges_consistent_removeEdge: "edges_consistent E g \<Longrightarrow> edges_consistent E (removeEdge E e g)"
  by (auto simp: edges_consistent_def between_removeEdge removeEdge_edges dest: erase_first_subset)

text \<open>The edits a graph sees: adding a node, adding an edge, removing an edge.\<close>

datatype graph_edit = Add_Node node_ref | Add_Edge edge_ref | Remove_Edge edge_ref

fun apply_edit :: "edge_heap \<Rightarrow> graph_edit \<Rightarrow> graph \<Rightarrow> graph" where
  "apply_edit E (Add_Node n) g = graph_addNode n g"
| "apply_edit E (Add_Edge e) g = addEdge E e g"
| "apply_edit E (Remove_Edge e) g = removeEdge E e g"

lemma edges_consistent_edit: "edges_consistent E g \<Longrightarrow> edges_consistent E (apply_edit E ed g)"
  by (cases ed) (simp_all add: edges_consistent_addNode edges_consistent_addEdge edges_consistent_removeEdge)

text \<open>C30. After any sequence of \<^verbatim>\<open>addNode\<close>, \<^verbatim>\<open>addEdge\<close> and \<^verbatim>\<open>removeEdge\<close> on a new graph the two
  edge maps agree: for every pair of nodes the out-edges of the first that lead to the second are,
  in the same order, the in-edges of the second that come from the first.\<close>
theorem edit_sequence_consistent:
  "edges_consistent E (fold (apply_edit E) edits (Graph_new b))"
proof -
  have "edges_consistent E g \<Longrightarrow> edges_consistent E (fold (apply_edit E) edits g)" for g
    by (induction edits arbitrary: g) (simp_all add: edges_consistent_edit)
  then show ?thesis
    by (simp add: edges_consistent_new)
qed

text \<open>\<^verbatim>\<open>Graph::removeEdge\<close> takes out the oldest edge between the end points of the given edge,
  from both lists, and leaves the edges between every other pair of nodes as they are.\<close>
lemma removeEdge_oldest:
  assumes "edges_consistent E g"
  shows "out_between E (removeEdge E e g) s t =
           (if s = e_start (E e) \<and> t = e_end (E e) then tl (out_between E g s t) else out_between E g s t) \<and>
         in_between E (removeEdge E e g) s t = out_between E (removeEdge E e g) s t"
  using assms edges_consistent_removeEdge [OF assms, of e]
  by (simp add: between_removeEdge(1) edges_consistent_def)

definition demo_edges :: edge_heap where
  "demo_edges e = Edge_new demo_heap (e mod 4) (e mod 4 + 1) 10 False PARADIGM_MPI"

section \<open>The sub graph of a paradigm\<close>

definition in_subGraph :: "heap \<Rightarrow> edge_heap \<Rightarrow> u32 \<Rightarrow> edge_ref \<Rightarrow> bool" where
  "in_subGraph h E p e \<longleftrightarrow> hasEdgeType (E e) p \<and> hasParadigm (h (e_end (E e))) p"

lemma subGraph_edges_nodes [simp]: "g_nodes (subGraph_edges h E p es sub) = g_nodes sub"
  by (induction es arbitrary: sub) (simp_all add: addEdge_edges)

lemma subGraph_edges_out:
  "(\<And>e. e \<in> set es \<Longrightarrow> e_start (E e) = n) \<Longrightarrow>
   edges_at (g_out (subGraph_edges h E p es sub)) m =
     edges_at (g_out sub) m @ (if m = n then filter (in_subGraph h E p) es else [])"
  by (induction es arbitrary: sub) (auto simp: addEdge_edges in_subGraph_def)

lemma subGraph_edges_consistent: "edges_consistent E sub \<Longrightarrow> edges_consistent E (subGraph_edges h E p es sub)"
  by (induction es arbitrary: sub) (simp_all add: edges_consistent_addEdge)

lemma getOutEdges_case:
  "(case getOutEdges n g of Some es \<Rightarrow> subGraph_edges h E p es sub | None \<Rightarrow> sub) =
   subGraph_edges h E p (edges_at (g_out g) n) sub"
  by (simp add: getOutEdges_def edges_at_def split: option.split)

lemma subGraph_nodes_nodes:
  "g_nodes (subGraph_nodes h E p g ns sub) = g_nodes sub @ filter (\<lambda>n. hasParadigm (h n) p) ns"
  by (induction ns arbitrary: sub) (simp_all add: getOutEdges_case Let_def)

lemma subGraph_nodes_consistent:
  "edges_consistent E sub \<Longrightarrow> edges_consistent E (subGraph_nodes h E p g ns sub)"
  by (induction ns arbitrary: sub)
    (simp_all add: getOutEdges_case Let_def subGraph_edges_consistent edges_consistent_addNode)

lemma subGraph_nodes_out:
  assumes "edges_consistent E g" "distinct ns"
  shows "edges_at (g_out (subGraph_nodes h E p g ns sub)) m =
    edges_at (g_out sub) m @
    (if m \<in> set ns \<and> hasParadigm (h m) p then filter (in_subGraph h E p) (edges_at (g_out g) m) else [])"
  using assms(2)
proof (induction ns arbitrary: sub)
  case (Cons n ns)
  have "e_start (E e) = n" if "e \<in> set (edges_at (g_out g) n)" for e
    using assms(1) that by (simp add: edges_consistent_def)
  then show ?case
    using Cons by (auto simp: getOutEdges_case Let_def subGraph_edges_out [of _ E n])
qed simp

text \<open>C29. The sub graph of a paradigm holds the nodes of that paradigm in their order; the out-edges of
  each of them are its out-edges of that paradigm whose end node has it too, in their order, no
  other node has out-edges, and the in-edges agree with them.\<close>
theorem getSubGraph_spec:
  assumes "edges_consistent E g" "distinct (g_nodes g)"
  shows "g_nodes (getSubGraph h E p g) = filter (\<lambda>n. hasParadigm (h n) p) (g_nodes g) \<and>
    edges_at (g_out (getSubGraph h E p g)) n =
      (if n \<in> set (g_nodes g) \<and> hasParadigm (h n) p
       then filter (\<lambda>e. hasEdgeType (E e) p \<and> hasParadigm (h (e_end (E e))) p) (edges_at (g_out g) n) else []) \<and>
    edges_consistent E (getSubGraph h E p g)"
  using subGraph_nodes_out [OF assms, of h p "Graph_new True" n]
    subGraph_nodes_consistent [OF edges_consistent_new, of E h p g "g_nodes g" True]
  by (auto simp: getSubGraph_def subGraph_nodes_nodes Graph_new_def in_subGraph_def [abs_def])

theorem getSubGraph_spec_witness:
  "edges_at (g_out (getSubGraph demo_heap demo_edges PARADIGM_MPI
     (addEdge demo_edges 1 (graph_addNode 2 (graph_addNode 1 (Graph_new False)))))) 1 = [1]"
proof -
  define g where "g = addEdge demo_edges 1 (graph_addNode 2 (graph_addNode 1 (Graph_new False)))"
  have c: "edges_consistent demo_edges g"
    unfolding g_def by (intro edges_consistent_addEdge) (simp add: edges_consistent_addNode edges_consistent_new)
  have d: "g_nodes g = [1, 2]" "edges_at (g_out g) 1 = [1]"
    by (simp_all add: g_def addEdge_edges Graph_new_def demo_edges_def)
  have "distinct (g_nodes g)"
    by (simp add: d)
  from getSubGraph_spec [OF c this, of demo_heap PARADIGM_MPI 1] show ?thesis
    unfolding g_def [symmetric]
    by (simp add: d d(2) [simplified] hasParadigm_def hasEdgeType_def demo_edges_def has_flag_def PARADIGM_MPI_def)
qed

section \<open>Distance lists\<close>

text \<open>\<^verbatim>\<open>Graph::sortedInsert\<close> puts a node of distance 2 before a node of distance 1: the list is not
  kept in the order of increasing distances that its comment states.\<close>
lemma sortedInsert_not_sorted:
  "let m = [10 \<mapsto> 1, 20 \<mapsto> 2, 30 \<mapsto> 3]
   in sortedInsert 20 [10, 30] m = [20, 10, 30] \<and> dist_at m 10 < dist_at m 20"
  by (simp add: sortedInsert_def dist_at_def Let_def)

end
