(* ===== verification/CriticalPath.thy ===== *)
theory CriticalPath
  imports GraphLaws
begin

text \<open>The search of the critical path on a graph whose edges lead forward: it ends, it throws
  nothing, and the path it returns runs from the start node to the end node along the predecessors
  the code prefers.\<close>

section \<open>The predecessor the code prefers\<close>

text \<open>An in-edge counts when it is not blocking and its weight is not zero. Among those the shortest
  ones are preferred; a node without any is left to its direct predecessor.\<close>

definition eligible :: "edge_heap \<Rightarrow> edge_ref \<Rightarrow> bool" where
  "eligible E e \<longleftrightarrow> \<not> e_blocking (E e) \<and> getWeight (E e) \<noteq> 0"

definition critical_pred :: "heap \<Rightarrow> edge_heap \<Rightarrow> graph \<Rightarrow> node_ref \<Rightarrow> node_ref \<Rightarrow> bool" where
  "critical_pred h E g a c =
    (let es = filter (eligible E) (edges_at (g_in g) c) in
     if es = [] then direct_predecessor h g c = Inr a
     else \<exists>e\<in>set es. e_start (E e) = a \<and> (\<forall>e'\<in>set es. getWeight (E e') \<le> getWeight (E e)))"

lemma getWeight_not_max: "\<not> e_blocking e \<Longrightarrow> getWeight e \<noteq> UINT64_MAX"
  by (auto simp: getWeight_def computeWeight_def Let_def)

definition scan_ok :: "edge_heap \<Rightarrow> edge_ref list \<Rightarrow> u64 \<Rightarrow> node_ref option \<Rightarrow> bool" where
  "scan_ok E es w p \<longleftrightarrow> (\<forall>e\<in>set es. eligible E e \<longrightarrow> getWeight (E e) \<le> w) \<and>
     (case p of None \<Rightarrow> w = 0
      | Some a \<Rightarrow> \<exists>e\<in>set es. eligible E e \<and> e_start (E e) = a \<and> getWeight (E e) = w)"

lemma inEdge_step_ok:
  assumes "scan_ok E es w p" "\<not> isReverseEdge h (E e)"
  shows "\<exists>w' p'. inEdge_step h (E e) (w, p, lc) = (w', p', lc) \<and> scan_ok E (es @ [e]) w' p'"
proof (cases "\<not> e_blocking (E e) \<and> getWeight (E e) > w")
  case True
  then have el: "eligible E e"
    by (auto simp: eligible_def)
  have "inEdge_step h (E e) (w, p, lc) = (getWeight (E e), Some (e_start (E e)), lc)"
    using True assms(2) getWeight_not_max [of "E e"] by (simp add: inEdge_step_def Let_def)
  moreover have "scan_ok E (es @ [e]) (getWeight (E e)) (Some (e_start (E e)))"
    using assms(1) True el unfolding scan_ok_def by (auto intro: order.trans less_imp_le)
  ultimately show ?thesis
    by blast
next
  case False
  then have "inEdge_step h (E e) (w, p, lc) = (w, p, lc)"
    using assms(2) by (auto simp: inEdge_step_def Let_def)
  moreover have "scan_ok E (es @ [e]) w p"
    using assms(1) False by (auto simp: scan_ok_def eligible_def not_less split: option.splits)
  ultimately show ?thesis
    by blast
qed

lemma inEdge_fold_ok:
  assumes "scan_ok E done w p" "\<And>e. e \<in> set es \<Longrightarrow> \<not> isReverseEdge h (E e)"
  shows "\<exists>w' p'. fold (\<lambda>e. inEdge_step h (E e)) es (w, p, lc) = (w', p', lc) \<and> scan_ok E (done @ es) w' p'"
  using assms
proof (induction es arbitrary: "done" w p)
  case (Cons e es)
  obtain w1 p1 where s: "inEdge_step h (E e) (w, p, lc) = (w1, p1, lc)" "scan_ok E (done @ [e]) w1 p1"
    using inEdge_step_ok [OF Cons(2), of h e lc] Cons(3) by auto
  show ?case
    using Cons(1) [OF s(2)] Cons(3) s(1) by simp
qed auto

lemma inEdge_scan_ok:
  assumes "\<And>e. e \<in> set es \<Longrightarrow> \<not> isReverseEdge h (E e)"
  shows "\<exists>w p. inEdge_scan h E es lc = (w, p, lc) \<and> scan_ok E es w p"
  using inEdge_fold_ok [of E "[]" 0 None es h lc] assms by (simp add: inEdge_scan_def scan_ok_def)

lemma scan_ok_None: "scan_ok E es w None \<Longrightarrow> filter (eligible E) es = []"
  by (auto simp: scan_ok_def filter_empty_conv eligible_def)

lemma scan_ok_Some:
  "scan_ok E es w (Some a) \<Longrightarrow> \<exists>e\<in>set es. eligible E e \<and> e_start (E e) = a \<and>
     (\<forall>e'\<in>set es. eligible E e' \<longrightarrow> getWeight (E e') \<le> getWeight (E e))"
  by (auto simp: scan_ok_def)

section \<open>Forward graphs\<close>

text \<open>The nodes stand in the order of \<^verbatim>\<open>compareLess\<close> and have distinct identifiers; every in-edge comes
  from an earlier node; a node with a caller has an earlier node on its stream.\<close>

definition forward_graph :: "heap \<Rightarrow> edge_heap \<Rightarrow> graph \<Rightarrow> bool" where
  "forward_graph h E g \<longleftrightarrow> indexed_order h (g_nodes g) \<and> distinct (map (\<lambda>n. nd_id (h n)) (g_nodes g)) \<and>
    (\<forall>c. \<forall>e\<in>set (edges_at (g_in g) c). e_end (E e) = c \<and> e_start (E e) \<in> set (g_nodes g) \<and>
       compareLess (h (e_start (E e))) (h c)) \<and>
    (\<forall>c\<in>set (g_nodes g). gn_caller (h c) \<noteq> None \<longrightarrow>
       (\<exists>m\<in>set (g_nodes g). compareLess (h m) (h c) \<and> nd_streamId (h m) = nd_streamId (h c)))"

lemma indexed_trans:
  assumes "indexed_order h ns" "a \<in> set ns" "b \<in> set ns" "c \<in> set ns"
    "compareLess (h a) (h b)" "compareLess (h b) (h c)"
  shows "compareLess (h a) (h c)"
proof -
  obtain i j k where "a = ns ! i" "b = ns ! j" "c = ns ! k" "i < length ns" "j < length ns" "k < length ns"
    using assms(2-4) by (auto simp: in_set_conv_nth)
  then show ?thesis
    using assms(1,5,6) by (auto simp: indexed_order_less)
qed

lemma forward_edge_not_reverse:
  "forward_graph h E g \<Longrightarrow> e \<in> set (edges_at (g_in g) c) \<Longrightarrow> \<not> isReverseEdge h (E e)"
  using compareLess_time by (fastforce simp: forward_graph_def isReverseEdge_def not_less)

lemma same_stream_before_ok:
  assumes "j \<le> i" "nd_streamId (h (nodes ! j)) = nd_streamId (h c)"
  shows "\<exists>k\<le>i. same_stream_before h nodes c i = Inr (nodes ! k)"
  using assms(1)
proof (induction i)
  case 0
  then show ?case
    using assms(2) by auto
next
  case (Suc i)
  then show ?case
    using assms(2) by (cases "j = Suc i") (auto simp: le_Suc_eq)
qed

lemma direct_predecessor_ok:
  assumes "forward_graph h E g" "k < length (g_nodes g)" "0 < k"
  shows "\<exists>i<k. direct_predecessor h g (g_nodes g ! k) = Inr (g_nodes g ! i)"
proof -
  have o: "indexed_order h (g_nodes g)"
    using assms(1) by (simp add: forward_graph_def)
  obtain l where k: "k = Suc l"
    using assms(3) by (cases k) auto
  have f: "findNode h (g_nodes g ! k) (g_nodes g) = Inr (Some (Suc l))"
    using findNode_indexed [OF o assms(2)] k by simp
  show ?thesis
  proof (cases "gn_caller (h (g_nodes g ! k)) = None")
    case True
    then show ?thesis
      using f k by (auto simp: direct_predecessor_def)
  next
    case False
    have "g_nodes g ! k \<in> set (g_nodes g)"
      using assms(2) by simp
    then obtain m where m: "m \<in> set (g_nodes g)" "compareLess (h m) (h (g_nodes g ! k))"
        "nd_streamId (h m) = nd_streamId (h (g_nodes g ! k))"
      using assms(1) False unfolding forward_graph_def by blast
    then obtain j where j: "m = g_nodes g ! j" "j < length (g_nodes g)"
      by (auto simp: in_set_conv_nth)
    then have "j \<le> l"
      using m(2) o assms(2) k by (simp add: indexed_order_less)
    then obtain i where "i \<le> l" "same_stream_before h (g_nodes g) (g_nodes g ! k) l = Inr (g_nodes g ! i)"
      using same_stream_before_ok [of j l h "g_nodes g" "g_nodes g ! k"] m(3) j(1) by auto
    then show ?thesis
      using f k False by (auto simp: direct_predecessor_def less_Suc_eq_le simp del: same_stream_before.simps)
  qed
qed

lemma findInFirst_loop_fresh: "(\<And>p. p \<in> set ps \<Longrightarrow> nd_id (h p) \<noteq> i) \<Longrightarrow> \<not> findInFirst_loop h i ps num c"
  by (induction h i ps num c rule: findInFirst_loop.induct) auto

section \<open>The loop\<close>

text \<open>What holds at the head of the loop: the path so far continues the current node upwards.\<close>

definition path_inv :: "heap \<Rightarrow> edge_heap \<Rightarrow> graph \<Rightarrow> node_ref \<Rightarrow> node_ref \<Rightarrow> node_ref list \<Rightarrow> bool" where
  "path_inv h E g s c path \<longleftrightarrow> set (c # path) \<subseteq> set (g_nodes g) \<and>
    sorted_wrt (\<lambda>a b. compareLess (h a) (h b)) (c # path) \<and>
    successively (critical_pred h E g) (c # path) \<and> (\<forall>p\<in>set path. compareLess (h s) (h p))"

lemma in_loop_fresh:
  assumes "forward_graph h E g" "path_inv h E g s c path"
  shows "\<not> in_loop h c path lc"
proof -
  have "nd_id (h p) \<noteq> nd_id (h c)" if "p \<in> set path" for p
  proof -
    have "p \<noteq> c"
      using assms(2) that by (auto simp: path_inv_def)
    then show ?thesis
      using assms that inj_onD [of "\<lambda>n. nd_id (h n)" "set (g_nodes g)" p c]
      by (auto simp: forward_graph_def path_inv_def distinct_map)
  qed
  then show ?thesis
    using findInFirst_loop_fresh [of path h "nd_id (h c)"] by (auto simp: in_loop_def findInFirst_def)
qed

lemma path_inv_push:
  assumes "forward_graph h E g" "path_inv h E g s c path" "compareLess (h s) (h c)"
    and "p \<in> set (g_nodes g)" "compareLess (h p) (h c)" "critical_pred h E g p c"
  shows "path_inv h E g s p (c # path)"
proof -
  have o: "indexed_order h (g_nodes g)"
    using assms(1) by (simp add: forward_graph_def)
  have "compareLess (h p) (h q)" if "q \<in> set path" for q
    using indexed_trans [OF o assms(4), of c q] that assms(2,5) by (auto simp: path_inv_def)
  then show ?thesis
    using assms(2-6) by (auto simp: path_inv_def)
qed

lemma path_step_forward:
  assumes "forward_graph h E g" "path_inv h E g s c path" "compareLess (h s) (h c)" "s \<in> set (g_nodes g)"
  shows "\<exists>p\<in>set (g_nodes g). path_step h E g lc c path = Inr (lc, Some p, c # path) \<and>
           compareLess (h p) (h c) \<and> critical_pred h E g p c"
proof -
  note fresh = in_loop_fresh [OF assms(1,2)]
  obtain k where k: "c = g_nodes g ! k" "k < length (g_nodes g)"
    using assms(2) by (auto simp: path_inv_def in_set_conv_nth)
  have o: "indexed_order h (g_nodes g)"
    using assms(1) by (simp add: forward_graph_def)
  have "0 < k"
    using assms(3,4) k o by (auto simp: in_set_conv_nth indexed_order_less)
  then obtain i where i: "i < k" "direct_predecessor h g c = Inr (g_nodes g ! i)"
    using direct_predecessor_ok [OF assms(1) k(2)] k(1) by auto
  define q where "q = g_nodes g ! i"
  have q: "q \<in> set (g_nodes g)" "compareLess (h q) (h c)" "direct_predecessor h g c = Inr q"
    using i k o by (auto simp: q_def indexed_order_less)
  then have fb: "fallback_step h g lc c path = Inr (Some q, c # path)"
    using fresh by (auto simp: fallback_step_def)
  obtain w r where r: "inEdge_scan h E (edges_at (g_in g) c) lc = (w, r, lc)" "scan_ok E (edges_at (g_in g) c) w r"
    using inEdge_scan_ok [of "edges_at (g_in g) c" h E lc] forward_edge_not_reverse [OF assms(1)] by blast
  show ?thesis
  proof (cases r)
    case None
    then have "filter (eligible E) (edges_at (g_in g) c) = []"
      using r(2) scan_ok_None by blast
    moreover have "path_step h E g lc c path = Inr (lc, Some q, c # path)"
      using r(1) None fb by (auto simp: path_step_def getInEdgesPtr_def edges_at_def split: option.split)
    ultimately show ?thesis
      using q by (auto simp: critical_pred_def intro!: bexI [of _ q])
  next
    case (Some a)
    then obtain e where e: "e \<in> set (edges_at (g_in g) c)" "eligible E e" "e_start (E e) = a"
        "\<forall>e'\<in>set (edges_at (g_in g) c). eligible E e' \<longrightarrow> getWeight (E e') \<le> getWeight (E e)"
      using scan_ok_Some [of E _ w a] r(2) by blast
    then have a: "a \<in> set (g_nodes g)" "compareLess (h a) (h c)"
      using assms(1) by (auto simp: forward_graph_def)
    have some: "g_in g c = Some (edges_at (g_in g) c)"
      using e(1) by (cases "g_in g c") (auto simp: edges_at_def)
    have "path_step h E g lc c path = Inr (lc, Some a, c # path)"
      using some r(1) Some a fresh by (auto simp: path_step_def getInEdgesPtr_def edge_step_def)
    moreover have "critical_pred h E g a c"
      using e by (auto simp: critical_pred_def Let_def filter_empty_conv)
    ultimately show ?thesis
      using a by blast
  qed
qed

lemma path_loop_forward:
  assumes "forward_graph h E g" "s \<in> set (g_nodes g)"
    and "path_inv h E g s (g_nodes g ! k) path" "k < length (g_nodes g)" "k < fuel"
  shows "\<exists>r a. path_loop fuel h E g s lc (g_nodes g ! k) path = Some (Inr r) \<and>
      path_inv h E g s a r \<and> \<not> compareLess (h s) (h a) \<and>
      (\<exists>new. r = new @ path \<and> (if compareLess (h s) (h (g_nodes g ! k)) then new \<noteq> [] \<and> last new = g_nodes g ! k else new = []))"
  using assms(3-5)
proof (induction fuel arbitrary: k path)
  case (Suc fuel)
  define c where "c = g_nodes g ! k"
  show ?case
  proof (cases "compareLess (h s) (h c)")
    case True
    obtain p where p: "p \<in> set (g_nodes g)" "path_step h E g lc c path = Inr (lc, Some p, c # path)"
        "compareLess (h p) (h c)" "critical_pred h E g p c"
      using path_step_forward [OF assms(1) Suc(2) [folded c_def] True assms(2), of lc] by blast
    then obtain j where j: "p = g_nodes g ! j" "j < length (g_nodes g)"
      by (auto simp: in_set_conv_nth)
    have "j < k"
      using p(3) j Suc(3) assms(1) by (simp add: c_def forward_graph_def indexed_order_less)
    moreover have "path_inv h E g s (g_nodes g ! j) (c # path)"
      using path_inv_push [OF assms(1) Suc(2) [folded c_def] True p(1,3,4)] j(1) by simp
    ultimately obtain r a new where r: "path_loop fuel h E g s lc p (c # path) = Some (Inr r)"
        "path_inv h E g s a r" "\<not> compareLess (h s) (h a)" "r = new @ c # path"
      using Suc(1) [of j "c # path"] Suc(4) j by auto
    then show ?thesis
      using True p(2) by (auto simp: c_def intro!: exI [of _ "new @ [c]"])
  next
    case False
    then show ?thesis
      using Suc(2) by (auto simp: c_def)
  qed
qed simp

text \<open>C7. On a forward graph the search of the critical path ends, with more fuel than there are nodes,
  without an error. The path begins with the start node and ascends in the order of the nodes; from
  the second node on every node is the preferred predecessor of the next, the walk goes on until
  the preferred predecessor is not after the start node, and when the end node is after the start
  node the path leads to it.\<close>
theorem getCriticalPath_forward:
  assumes "forward_graph h E g" "s \<in> set (g_nodes g)" "t \<in> set (g_nodes g)" "length (g_nodes g) < fuel"
  shows "\<exists>path a. getCriticalPath fuel h E g lc s t = Some (Inr (s # path)) \<and>
    sorted_wrt (\<lambda>a b. compareLess (h a) (h b)) (s # path) \<and>
    successively (critical_pred h E g) (a # path) \<and> \<not> compareLess (h s) (h a) \<and>
    (if compareLess (h s) (h t) then path \<noteq> [] \<and> last path = t else path = [])"
proof -
  obtain k where k: "t = g_nodes g ! k" "k < length (g_nodes g)"
    using assms(3) by (auto simp: in_set_conv_nth)
  have "path_inv h E g s t []"
    using assms(3) by (simp add: path_inv_def)
  then obtain r a where r: "path_loop fuel h E g s lc t [] = Some (Inr r)" "path_inv h E g s a r"
      "\<not> compareLess (h s) (h a)" "if compareLess (h s) (h t) then r \<noteq> [] \<and> last r = t else r = []"
    using path_loop_forward [OF assms(1,2), of k "[]" fuel lc] assms(4) k by auto
  then show ?thesis
    by (intro exI [of _ r] exI [of _ a]) (auto simp: getCriticalPath_def path_inv_def)
qed

text \<open>A small forward graph: four nodes of one stream and two edges.\<close>

definition demo_graph :: graph where
  "demo_graph = fold (addEdge demo_edges) [1, 2] (fold graph_addNode [1, 2, 3, 4] (Graph_new False))"

lemma demo_graph_simps:
  "g_nodes demo_graph = [1, 2, 3, 4]"
  "edges_at (g_in demo_graph) n = (if n = 2 then [1] else if n = 3 then [2] else [])"
  by (simp_all add: demo_graph_def addEdge_edges Graph_new_def demo_edges_def)

lemma demo_graph_forward: "forward_graph demo_heap demo_edges demo_graph"
proof -
  have "stream_sorted demo_heap [1, 2, 3, 4]"
    by (simp add: stream_sorted_def compareLess_def)
  then have "indexed_order demo_heap [1, 2, 3, 4]"
    by (rule stream_sorted_indexed)
  moreover have "gn_caller (demo_heap n) = None" for n
    by (simp add: demo_heap_def GraphNode_new_def Node_new_def graph_node.defs node.defs Let_def)
  ultimately show ?thesis
    by (simp add: forward_graph_def demo_graph_simps demo_edges_def compareLess_def)
qed

theorem getCriticalPath_forward_witness:
  "\<exists>path. getCriticalPath 5 demo_heap demo_edges demo_graph 0 1 4 = Some (Inr (1 # path)) \<and> last path = 4"
  using getCriticalPath_forward [OF demo_graph_forward, of 1 4 5 0]
  by (auto simp: demo_graph_simps compareLess_def)

end
