(* ===== verification/StreamModel.thy ===== *)
theory StreamModel
  imports CriticalPath
begin

text \<open>The event streams of \<^verbatim>\<open>backend/EventStream.cpp\<close>: the sorted node list of a stream with its
  first and last node of every paradigm, the list of MPI nodes that wait for their right link, the
  filter of the prediction, and the walks along the nodes. Operations that change nodes return the
  node heap as well.\<close>

section \<open>State\<close>

definition ES_OPENMP :: u32 where "ES_OPENMP = push_bit 0 1"
definition ES_MPI :: u32 where "ES_MPI = push_bit 1 1"
definition ES_DEVICE :: u32 where "ES_DEVICE = push_bit 2 1"
definition ES_DEVICE_NULL :: u32 where "ES_DEVICE_NULL = push_bit 3 1"
definition ES_HOST :: u32 where "ES_HOST = (ES_OPENMP OR ES_MPI)"

lemmas es_types = ES_OPENMP_def ES_MPI_def ES_DEVICE_def ES_DEVICE_NULL_def ES_HOST_def

record event_stream =
  es_id :: u64
  es_parentId :: u64
  es_name :: string
  es_streamType :: u32
  es_nodesAdded :: bool
  es_period :: "u64 \<times> u64"
  es_hasFirstCriticalNode :: bool
  es_hasLastEvent :: bool
  es_lastNode :: "node_ref option"
  es_lastEventTime :: u64
  es_firstNodes :: "node_ref option list"
  es_lastNodes :: "node_ref option list"
  es_nodes :: "node_ref list"
  es_isFiltering :: bool
  es_filterStartTime :: u64
  es_predictionOffset :: u64
  es_unlinked :: "node_ref list"

definition EventStream_new :: "u64 \<Rightarrow> u64 \<Rightarrow> string \<Rightarrow> u32 \<Rightarrow> event_stream" where
  "EventStream_new i parentId name streamType =
    \<lparr>es_id = i, es_parentId = parentId, es_name = name, es_streamType = streamType,
     es_nodesAdded = False, es_period = (UINT64_MAX, 0), es_hasFirstCriticalNode = False,
     es_hasLastEvent = False, es_lastNode = None, es_lastEventTime = 0,
     es_firstNodes = replicate NODE_PARADIGM_COUNT None, es_lastNodes = replicate NODE_PARADIGM_COUNT None,
     es_nodes = [], es_isFiltering = False, es_filterStartTime = 0, es_predictionOffset = 0,
     es_unlinked = []\<rparr>"

definition setStreamType :: "u32 \<Rightarrow> 'a event_stream_scheme \<Rightarrow> 'a event_stream_scheme" where
  "setStreamType t s = s\<lparr>es_streamType := t\<rparr>"

definition isHostStream :: "'a event_stream_scheme \<Rightarrow> bool" where
  "isHostStream s \<longleftrightarrow> has_flag (es_streamType s) ES_HOST"

definition isMpiStream :: "'a event_stream_scheme \<Rightarrow> bool" where
  "isMpiStream s \<longleftrightarrow> has_flag (es_streamType s) ES_MPI"

definition isDeviceStream :: "'a event_stream_scheme \<Rightarrow> bool" where
  "isDeviceStream s \<longleftrightarrow> has_flag (es_streamType s) (ES_DEVICE OR ES_DEVICE_NULL)"

definition isDeviceNullStream :: "'a event_stream_scheme \<Rightarrow> bool" where
  "isDeviceNullStream s \<longleftrightarrow> has_flag (es_streamType s) ES_DEVICE_NULL"

definition streamSort :: "'a event_stream_scheme \<Rightarrow> 'b event_stream_scheme \<Rightarrow> bool" where
  "streamSort p1 p2 =
    (if isDeviceStream p1 \<and> isHostStream p2 then False
     else if isDeviceStream p2 \<and> isHostStream p1 then True
     else es_id p1 \<le> es_id p2)"

section \<open>First and last nodes of a paradigm\<close>

text \<open>The bit of the paradigm with index \<^verbatim>\<open>i\<close>.\<close>

definition paradigm_bit :: "nat \<Rightarrow> u32" where
  "paradigm_bit i = push_bit i 1"

text \<open>\<^verbatim>\<open>getLastNode\<close> takes the first paradigm of the mask that has a last node, then lets a later node
  of the paradigms that follow replace it.\<close>

fun later_node :: "heap \<Rightarrow> u32 \<Rightarrow> (nat \<times> node_ref option) list \<Rightarrow> node_ref option \<Rightarrow> node_ref option" where
  "later_node h paradigm [] tmpLastNode = tmpLastNode"
| "later_node h paradigm ((i, l) # ls) tmpLastNode =
    (if has_flag (paradigm_bit i) paradigm \<and> l \<noteq> None \<and>
        (tmpLastNode = None \<or> compareLess (h (the tmpLastNode)) (h (the l)))
     then later_node h paradigm ls l else later_node h paradigm ls tmpLastNode)"

definition getLastNode :: "heap \<Rightarrow> u32 \<Rightarrow> 'a event_stream_scheme \<Rightarrow> node_ref option" where
  "getLastNode h paradigm s = later_node h paradigm (zip [0..<NODE_PARADIGM_COUNT] (es_lastNodes s)) None"

text \<open>The index is the truncated binary logarithm of the paradigm number. An index past the array is an
  access out of bounds; for 0 the conversion of the logarithm is undefined.\<close>

fun ilog2 :: "nat \<Rightarrow> nat" where
  "ilog2 n = (if n \<le> 1 then 0 else Suc (ilog2 (n div 2)))"

declare ilog2.simps [simp del]

definition paradigm_slot :: "u32 \<Rightarrow> node_ref option list \<Rightarrow> node_ref option result" where
  "paradigm_slot paradigm xs =
    (if paradigm = 0 \<or> length xs \<le> ilog2 (unat paradigm) then Inl Out_Of_Bounds
     else Inr (xs ! ilog2 (unat paradigm)))"

definition getLastParadigmNode :: "u32 \<Rightarrow> 'a event_stream_scheme \<Rightarrow> node_ref option result" where
  "getLastParadigmNode paradigm s = paradigm_slot paradigm (es_lastNodes s)"

definition getFirstParadigmNode :: "u32 \<Rightarrow> 'a event_stream_scheme \<Rightarrow> node_ref option result" where
  "getFirstParadigmNode paradigm s = paradigm_slot paradigm (es_firstNodes s)"

definition setLastEventTime :: "u64 \<Rightarrow> 'a event_stream_scheme \<Rightarrow> 'a event_stream_scheme" where
  "setLastEventTime t s = s\<lparr>es_lastEventTime := t\<rparr>"

definition getLastEventTime :: "'a event_stream_scheme \<Rightarrow> u64" where
  "getLastEventTime s = (if es_lastEventTime s > snd (es_period s) then es_lastEventTime s else snd (es_period s))"

section \<open>Adding a node\<close>

type_synonym paradigm_nodes = "u32 \<rightharpoonup> node_ref"

text \<open>One paradigm of the loop: the predecessor map and the first and last node.\<close>

definition add_paradigm ::
  "heap \<Rightarrow> node_ref \<Rightarrow> nat \<Rightarrow> paradigm_nodes option \<times> 'a event_stream_scheme \<Rightarrow>
   (paradigm_nodes option \<times> 'a event_stream_scheme) result" where
  "add_paradigm h node i st = (case st of (predNodes, s) \<Rightarrow>
    (let oparadigm = paradigm_bit i in
     bind_res (getLastParadigmNode oparadigm s) (\<lambda>oldNode.
     let predNodes = (case (predNodes, oldNode) of
                        (Some m, Some q) \<Rightarrow> Some (m(oparadigm \<mapsto> q)) | _ \<Rightarrow> predNodes) in
     if \<not> hasParadigm (h node) oparadigm then Inr (predNodes, s)
     else if oldNode \<noteq> None \<and> compareLess (h node) (h (the oldNode))
     then Inl (Runtime_Error ''Can't add graph node before last graph node'')
     else
       (let s = (if es_firstNodes s ! i = None
                 then s\<lparr>es_firstNodes := (es_firstNodes s)[i := Some node]\<rparr> else s)
        in Inr (predNodes, s\<lparr>es_lastNodes := (es_lastNodes s)[i := Some node]\<rparr>)))))"

fun add_paradigms ::
  "heap \<Rightarrow> node_ref \<Rightarrow> nat list \<Rightarrow> paradigm_nodes option \<times> 'a event_stream_scheme \<Rightarrow>
   (paradigm_nodes option \<times> 'a event_stream_scheme) result" where
  "add_paradigms h node [] st = Inr st"
| "add_paradigms h node (i # is) st = bind_res (add_paradigm h node i st) (add_paradigms h node is)"

definition addNodeInternal :: "node_ref \<Rightarrow> 'a event_stream_scheme \<Rightarrow> 'a event_stream_scheme" where
  "addNodeInternal node s = s\<lparr>es_nodes := es_nodes s @ [node], es_lastNode := Some node\<rparr>"

definition setLinkLeft :: "node_ref \<Rightarrow> node_ref option \<Rightarrow> heap \<Rightarrow> heap" where
  "setLinkLeft p l h = h(p := (h p)\<lparr>gn_linkLeft := l\<rparr>)"

definition setLinkRight :: "node_ref \<Rightarrow> node_ref option \<Rightarrow> heap \<Rightarrow> heap" where
  "setLinkRight p r h = h(p := (h p)\<lparr>gn_linkRight := r\<rparr>)"

definition addGraphNode ::
  "node_ref \<Rightarrow> paradigm_nodes option \<Rightarrow> heap \<Rightarrow> 'a event_stream_scheme \<Rightarrow>
   (heap \<times> paradigm_nodes option \<times> 'a event_stream_scheme) result" where
  "addGraphNode node predNodes h s =
    bind_res (add_paradigms h node [0..<NODE_PARADIGM_COUNT] (predNodes, s\<lparr>es_nodesAdded := True\<rparr>)) (\<lambda>(predNodes, s).
      let s = addNodeInternal node s;
          (h, s) = (if nd_paradigm (h node) = PARADIGM_MPI
                    then (setLinkLeft node (es_lastNode s) h, s\<lparr>es_unlinked := es_unlinked s @ [node]\<rparr>)
                    else (h, s));
          (h, s) = (if isEnter (h node)
                    then (fold (\<lambda>p. setLinkRight p (Some node)) (es_unlinked s) h, s\<lparr>es_unlinked := []\<rparr>)
                    else (h, s))
      in Inr (h, predNodes, s))"

section \<open>Inserting a node\<close>

text \<open>The position of the insertion: before the first element after the head that the node is less
  than. \<^term>\<open>None\<close> says that the loop reached the end of the vector.\<close>

fun insert_pos :: "heap \<Rightarrow> node_ref \<Rightarrow> node_ref list \<Rightarrow> nat \<Rightarrow> nat option" where
  "insert_pos h node [] i = None"
| "insert_pos h node [c] i = None"
| "insert_pos h node (c # d # ds) i =
    (if compareLess (h node) (h d) then Some (Suc i) else insert_pos h node (d # ds) (Suc i))"

fun last_with :: "(node_ref \<Rightarrow> bool) \<Rightarrow> node_ref list \<Rightarrow> node_ref option" where
  "last_with P [] = None"
| "last_with P (x # xs) = (case last_with P xs of Some y \<Rightarrow> Some y | None \<Rightarrow> if P x then Some x else None)"

text \<open>\<^verbatim>\<open>std::map::insert\<close> keeps the value of a key that is already there.\<close>

definition map_insert :: "'k \<Rightarrow> 'v \<Rightarrow> ('k \<rightharpoonup> 'v) \<Rightarrow> ('k \<rightharpoonup> 'v)" where
  "map_insert k v m = (case m k of None \<Rightarrow> m(k \<mapsto> v) | Some _ \<Rightarrow> m)"

definition insert_pred :: "heap \<Rightarrow> node_ref list \<Rightarrow> nat \<Rightarrow> paradigm_nodes \<Rightarrow> paradigm_nodes" where
  "insert_pred h earlier i m = (case last_with (\<lambda>p. hasParadigm (h p) (paradigm_bit i)) earlier of
      Some q \<Rightarrow> map_insert (paradigm_bit i) q m | None \<Rightarrow> m)"

definition insert_next ::
  "heap \<Rightarrow> node_ref \<Rightarrow> node_ref list \<Rightarrow> nat \<Rightarrow> paradigm_nodes \<times> 'a event_stream_scheme \<Rightarrow>
   paradigm_nodes \<times> 'a event_stream_scheme" where
  "insert_next h node after i st = (case st of (m, s) \<Rightarrow>
    (let nextNode = List.find (\<lambda>p. hasParadigm (h p) (paradigm_bit i)) after;
         m = (case nextNode of Some q \<Rightarrow> map_insert (paradigm_bit i) q m | None \<Rightarrow> m);
         s = (if hasParadigm (h node) (paradigm_bit i) \<and> es_firstNodes s ! i = None
              then s\<lparr>es_firstNodes := (es_firstNodes s)[i := Some node]\<rparr> else s);
         s = (if hasParadigm (h node) (paradigm_bit i) \<and> nextNode = None
              then s\<lparr>es_lastNodes := (es_lastNodes s)[i := Some node]\<rparr> else s)
     in (m, s)))"

text \<open>When the loop reaches the end, the iterator \<^verbatim>\<open>result\<close> is the old end of the vector: for an empty
  vector the code increments it, and after the \<^verbatim>\<open>push_back\<close> it is invalid. Both are undefined
  behaviour and an error value here.\<close>

definition insertGraphNode ::
  "node_ref \<Rightarrow> paradigm_nodes \<Rightarrow> paradigm_nodes \<Rightarrow> heap \<Rightarrow> 'a event_stream_scheme \<Rightarrow>
   (paradigm_nodes \<times> paradigm_nodes \<times> 'a event_stream_scheme) result" where
  "insertGraphNode node predNodes nextNodes h s =
    (let s = s\<lparr>es_nodesAdded := True\<rparr>;
         s = (if es_lastNode s = None \<or> compareLess (h (the (es_lastNode s))) (h node)
              then s\<lparr>es_lastNode := Some node\<rparr> else s)
     in case insert_pos h node (es_nodes s) 0 of
          None \<Rightarrow> Inl Out_Of_Bounds
        | Some k \<Rightarrow>
            let earlier = take k (es_nodes s); after = drop k (es_nodes s);
                s = s\<lparr>es_nodes := earlier @ node # after\<rparr>;
                predNodes = fold (insert_pred h earlier) [0..<NODE_PARADIGM_COUNT] predNodes;
                (nextNodes, s) = fold (insert_next h node after) [0..<NODE_PARADIGM_COUNT] (nextNodes, s)
            in Inr (predNodes, nextNodes, s))"

definition clearNodes :: "'a event_stream_scheme \<Rightarrow> 'a event_stream_scheme" where
  "clearNodes s = s\<lparr>es_nodes := [], es_firstNodes := replicate NODE_PARADIGM_COUNT None,
     es_lastNodes := replicate NODE_PARADIGM_COUNT None, es_lastNode := None\<rparr>"

definition setFilter :: "bool \<Rightarrow> u64 \<Rightarrow> 'a event_stream_scheme \<Rightarrow> 'a event_stream_scheme" where
  "setFilter enable time s = (let s = s\<lparr>es_isFiltering := enable\<rparr> in
     if enable then s\<lparr>es_filterStartTime := time\<rparr>
     else s\<lparr>es_predictionOffset := es_predictionOffset s + (time - es_filterStartTime s)\<rparr>)"

text \<open>\<^verbatim>\<open>reset\<close> keeps a single unlinked node.\<close>

definition es_reset :: "'a event_stream_scheme \<Rightarrow> 'a event_stream_scheme" where
  "es_reset s = (let s = s\<lparr>es_nodesAdded := False\<rparr> in
     if length (es_unlinked s) > 1 then s\<lparr>es_unlinked := []\<rparr> else s)"

section \<open>Walking along the nodes\<close>

text \<open>\<^verbatim>\<open>EventStream::findNode\<close> repeats the binary search of \<^verbatim>\<open>GraphNode::findNode\<close> on the nodes of the
  stream.\<close>

definition stream_findNode :: "heap \<Rightarrow> node_ref \<Rightarrow> 'a event_stream_scheme \<Rightarrow> nat option result" where
  "stream_findNode h node s = findNode h node (es_nodes s)"

text \<open>The callback takes the user data and a node, and says whether to go on.\<close>

type_synonym 'u walk_callback = "'u \<Rightarrow> node_ref \<Rightarrow> bool \<times> 'u"

fun walk :: "'u walk_callback \<Rightarrow> 'u \<Rightarrow> node_ref list \<Rightarrow> bool \<Rightarrow> bool \<times> 'u" where
  "walk cb u [] r = (r, u)"
| "walk cb u (p # ps) r = (case cb u p of (r', u') \<Rightarrow> if \<not> r' then (False, u') else walk cb u' ps r')"

fun index_from_end :: "node_ref \<Rightarrow> node_ref list \<Rightarrow> nat \<Rightarrow> nat option" where
  "index_from_end p nodes 0 = None"
| "index_from_end p nodes (Suc i) = (if nodes ! i = p then Some i else index_from_end p nodes i)"

text \<open>The position the walks start from. Reading through \<^verbatim>\<open>rend\<close>, which the code does before the
  sequential search when the binary search fails and again in the assertion, is out of bounds.\<close>

definition walk_start :: "heap \<Rightarrow> node_ref \<Rightarrow> 'a event_stream_scheme \<Rightarrow> nat result" where
  "walk_start h node s = bind_res (stream_findNode h node s) (\<lambda>r. case r of
      None \<Rightarrow> Inl Out_Of_Bounds
    | Some i \<Rightarrow> if es_nodes s ! i \<noteq> node then
                 (case index_from_end node (es_nodes s) (length (es_nodes s)) of
                    None \<Rightarrow> Inl Out_Of_Bounds | Some j \<Rightarrow> Inr j)
               else Inr i)"

definition walkBackward ::
  "heap \<Rightarrow> node_ref option \<Rightarrow> 'u walk_callback option \<Rightarrow> 'u \<Rightarrow> 'a event_stream_scheme \<Rightarrow> (bool \<times> 'u) result" where
  "walkBackward h node callback u s = (case (node, callback) of
      (Some p, Some cb) \<Rightarrow> bind_res (walk_start h p s) (\<lambda>i.
         Inr (walk cb u (rev (take (Suc i) (es_nodes s))) False))
    | _ \<Rightarrow> Inr (False, u))"

text \<open>The base of a reverse iterator is the element after the one it refers to: the walk forward does
  not visit the start node.\<close>

definition walkForward ::
  "heap \<Rightarrow> node_ref option \<Rightarrow> 'u walk_callback option \<Rightarrow> 'u \<Rightarrow> 'a event_stream_scheme \<Rightarrow> (bool \<times> 'u) result" where
  "walkForward h node callback u s = (case (node, callback) of
      (Some p, Some cb) \<Rightarrow> bind_res (walk_start h p s) (\<lambda>i.
         Inr (walk cb u (drop (Suc i) (es_nodes s)) False))
    | _ \<Rightarrow> Inr (False, u))"

end
