(* ===== verification/StreamLaws.thy ===== *)
theory StreamLaws
  imports StreamModel
begin

text \<open>Laws of the event streams: the first and last nodes of a paradigm are those of the node list, and
  the nodes of each paradigm stay in order; the walks visit the nodes they are said to visit.\<close>

section \<open>The slots of the paradigms\<close>

lemma ilog2_small: "ilog2 (Suc 0) = 0" "ilog2 2 = 1" "ilog2 4 = 2" "ilog2 8 = 3"
  by (simp_all add: ilog2.simps [of "Suc 0"] ilog2.simps [of 2] ilog2.simps [of 4] ilog2.simps [of 8])

lemma paradigm_cases: "i < NODE_PARADIGM_COUNT \<Longrightarrow> i = 0 \<or> i = 1 \<or> i = 2 \<or> i = 3"
  by (auto simp: NODE_PARADIGM_COUNT_def)

lemma paradigm_bits:
  "paradigm_bit 0 = PARADIGM_CUDA" "paradigm_bit 1 = PARADIGM_OCL" "paradigm_bit 2 = PARADIGM_MPI"
  "paradigm_bit 3 = PARADIGM_OMP"
  by (simp_all add: paradigm_bit_def node_bits)

lemma unat_paradigm_bits:
  "unat (paradigm_bit 0) = 1" "unat (paradigm_bit 1) = 2" "unat (paradigm_bit 2) = 4" "unat (paradigm_bit 3) = 8"
  by (simp_all add: paradigm_bit_def)

lemma ilog2_paradigm_bit: "i < NODE_PARADIGM_COUNT \<Longrightarrow> ilog2 (unat (paradigm_bit i)) = i"
  by (drule paradigm_cases) (auto simp: unat_paradigm_bits [simplified] ilog2_small)

lemma paradigm_bit_nonzero: "i < NODE_PARADIGM_COUNT \<Longrightarrow> paradigm_bit i \<noteq> 0"
  by (drule paradigm_cases) (auto simp: paradigm_bit_def)

lemma paradigm_slot_bit:
  "i < NODE_PARADIGM_COUNT \<Longrightarrow> length xs = NODE_PARADIGM_COUNT \<Longrightarrow> paradigm_slot (paradigm_bit i) xs = Inr (xs ! i)"
  by (simp add: paradigm_slot_def ilog2_paradigm_bit paradigm_bit_nonzero)

lemma paradigm_indices: "[0..<NODE_PARADIGM_COUNT] = [0, 1, 2, 3]"
  by (simp add: NODE_PARADIGM_COUNT_def numeral_eq_Suc upt_rec)

definition of_paradigm :: "heap \<Rightarrow> nat \<Rightarrow> node_ref list \<Rightarrow> node_ref list" where
  "of_paradigm h i ns = filter (\<lambda>p. hasParadigm (h p) (paradigm_bit i)) ns"

definition slot_ok :: "heap \<Rightarrow> node_ref list \<Rightarrow> nat \<Rightarrow> 'a event_stream_scheme \<Rightarrow> bool" where
  "slot_ok h ns i s \<longleftrightarrow>
    es_firstNodes s ! i = (if of_paradigm h i ns = [] then None else Some (hd (of_paradigm h i ns))) \<and>
    es_lastNodes s ! i = (if of_paradigm h i ns = [] then None else Some (last (of_paradigm h i ns))) \<and>
    sorted (map (\<lambda>p. node_key (h p)) (of_paradigm h i ns))"

definition slots_sized :: "'a event_stream_scheme \<Rightarrow> bool" where
  "slots_sized s \<longleftrightarrow> length (es_firstNodes s) = NODE_PARADIGM_COUNT \<and> length (es_lastNodes s) = NODE_PARADIGM_COUNT"

text \<open>What a stream promises of its nodes.\<close>

definition stream_wf :: "heap \<Rightarrow> 'a event_stream_scheme \<Rightarrow> bool" where
  "stream_wf h s \<longleftrightarrow> slots_sized s \<and> (\<forall>i<NODE_PARADIGM_COUNT. slot_ok h (es_nodes s) i s) \<and>
    (\<forall>p\<in>set (es_nodes s). nd_streamId (h p) = es_id s) \<and>
    es_lastNode s = (if es_nodes s = [] then None else Some (last (es_nodes s)))"

text \<open>Heaps that differ in the links of the nodes only.\<close>

definition same_keys :: "heap \<Rightarrow> heap \<Rightarrow> bool" where
  "same_keys h h' \<longleftrightarrow> (\<forall>p. node.truncate (h' p) = node.truncate (h p))"

lemma same_keys_refl [simp]: "same_keys h h"
  by (simp add: same_keys_def)

lemma same_keys_trans: "same_keys h h' \<Longrightarrow> same_keys h' h'' \<Longrightarrow> same_keys h h''"
  by (simp add: same_keys_def)

lemma same_keys_links [simp]: "same_keys h (setLinkLeft p l h)" "same_keys h (setLinkRight p l h)"
  by (simp_all add: same_keys_def setLinkLeft_def setLinkRight_def node.truncate_def)

lemma same_keys_fold_links: "same_keys h h' \<Longrightarrow> same_keys h (fold (\<lambda>p. setLinkRight p r) ps h')"
proof (induction ps arbitrary: h')
  case (Cons a ps)
  then show ?case
    using same_keys_trans [OF Cons(2) same_keys_links(2)] by simp
qed simp

lemma same_keys_fields:
  assumes "same_keys h h'"
  shows "nd_streamId (h' p) = nd_streamId (h p)" "nd_paradigm (h' p) = nd_paradigm (h p)"
    "nd_time (h' p) = nd_time (h p)" "nd_id (h' p) = nd_id (h p)"
    "nd_recordType (h' p) = nd_recordType (h p)" "nd_nodeType (h' p) = nd_nodeType (h p)"
proof -
  have e: "node.truncate (h' p) = node.truncate (h p)"
    using assms by (simp add: same_keys_def)
  show "nd_streamId (h' p) = nd_streamId (h p)" "nd_paradigm (h' p) = nd_paradigm (h p)"
    "nd_time (h' p) = nd_time (h p)" "nd_id (h' p) = nd_id (h p)"
    "nd_recordType (h' p) = nd_recordType (h p)" "nd_nodeType (h' p) = nd_nodeType (h p)"
    using e by (simp_all add: node.truncate_def)
qed

lemma same_keys_wf: "same_keys h h' \<Longrightarrow> stream_wf h' s \<longleftrightarrow> stream_wf h s"
  by (simp add: stream_wf_def slot_ok_def of_paradigm_def hasParadigm_def node_key_def same_keys_fields)

lemma stream_wf_cong:
  "es_nodes s = es_nodes t \<Longrightarrow> es_firstNodes s = es_firstNodes t \<Longrightarrow> es_lastNodes s = es_lastNodes t \<Longrightarrow>
   es_lastNode s = es_lastNode t \<Longrightarrow> es_id s = es_id t \<Longrightarrow> stream_wf h s \<longleftrightarrow> stream_wf h t"
  by (simp add: stream_wf_def slot_ok_def slots_sized_def)

section \<open>Adding a node\<close>

lemma add_paradigm_Inr:
  assumes "add_paradigm h node i (m, s) = Inr (m', s')" "slots_sized s" "i < NODE_PARADIGM_COUNT"
  defines "has \<equiv> hasParadigm (h node) (paradigm_bit i)"
  shows "s' = (if has then s\<lparr>es_firstNodes := (if es_firstNodes s ! i = None then (es_firstNodes s)[i := Some node] else es_firstNodes s),
                es_lastNodes := (es_lastNodes s)[i := Some node]\<rparr> else s)"
    and "has \<Longrightarrow> es_lastNodes s ! i = Some q \<Longrightarrow> \<not> compareLess (h node) (h q)"
  using assms(1-3) unfolding has_def
  by (auto simp: add_paradigm_def Let_def getLastParadigmNode_def paradigm_slot_def ilog2_paradigm_bit
      paradigm_bit_nonzero slots_sized_def split: if_splits)

lemma slot_ok_snoc:
  assumes "slot_ok h ns i s" "slots_sized s" "i < NODE_PARADIGM_COUNT"
    and "add_paradigm h node i (m, s) = Inr (m', s')"
    and "\<And>p. p \<in> set ns \<Longrightarrow> nd_streamId (h p) = nd_streamId (h node)"
  shows "slot_ok h (ns @ [node]) i s'"
proof (cases "hasParadigm (h node) (paradigm_bit i)")
  case False
  then show ?thesis
    using add_paradigm_Inr(1) [OF assms(4,2,3)] assms(1) by (simp add: slot_ok_def of_paradigm_def)
next
  case True
  define f where "f = of_paradigm h i ns"
  have "node_key (h p) \<le> node_key (h node)" if "p \<in> set f" for p
  proof -
    have l: "es_lastNodes s ! i = Some (last f)" "sorted (map (\<lambda>p. node_key (h p)) f)"
      using assms(1) that by (auto simp: slot_ok_def f_def)
    have "node_key (h p) \<le> node_key (h (last f))"
      using l(2) that by (cases f rule: rev_cases) (auto simp: sorted_append)
    moreover have "nd_streamId (h node) = nd_streamId (h (last f))"
    proof -
      have "last f \<in> set f"
        using that by (cases f) auto
      then show ?thesis
        using assms(5) by (simp add: f_def of_paradigm_def)
    qed
    then have "node_key (h (last f)) \<le> node_key (h node)"
      using add_paradigm_Inr(2) [OF assms(4,2,3) True l(1)] node_key_iff [of "h node" "h (last f)"] by simp
    ultimately show ?thesis
      by (rule order.trans)
  qed
  then show ?thesis
    using add_paradigm_Inr(1) [OF assms(4,2,3)] assms(1-3) True
    by (auto simp: slot_ok_def slots_sized_def of_paradigm_def f_def sorted_append)
qed

lemma add_paradigm_other:
  assumes "add_paradigm h node i (m, s) = Inr (m', s')" "slots_sized s" "i < NODE_PARADIGM_COUNT"
  shows "slots_sized s'" "j \<noteq> i \<Longrightarrow> slot_ok h ns j s' \<longleftrightarrow> slot_ok h ns j s"
    "es_nodes s' = es_nodes s" "es_lastNode s' = es_lastNode s" "es_id s' = es_id s" "es_unlinked s' = es_unlinked s"
  using add_paradigm_Inr(1) [OF assms] assms(2) by (auto simp: slots_sized_def slot_ok_def)

lemma add_paradigms_ok:
  assumes "add_paradigms h node is (m, s) = Inr (m', s')" "slots_sized s" "distinct is"
    and "\<And>i. i \<in> set is \<Longrightarrow> i < NODE_PARADIGM_COUNT \<and> slot_ok h ns i s"
    and "\<And>p. p \<in> set ns \<Longrightarrow> nd_streamId (h p) = nd_streamId (h node)"
  shows "slots_sized s' \<and> (\<forall>i\<in>set is. slot_ok h (ns @ [node]) i s') \<and>
         (\<forall>j xs. j \<notin> set is \<longrightarrow> (slot_ok h xs j s' \<longleftrightarrow> slot_ok h xs j s)) \<and>
         es_nodes s' = es_nodes s \<and> es_id s' = es_id s \<and> es_unlinked s' = es_unlinked s"
  using assms(1-4)
proof (induction "is" arbitrary: m s)
  case (Cons i "is")
  obtain m1 s1 where s1: "add_paradigm h node i (m, s) = Inr (m1, s1)" "add_paradigms h node is (m1, s1) = Inr (m', s')"
    using Cons(2) by (auto simp: bind_res_Inr)
  have i: "i < NODE_PARADIGM_COUNT" "slot_ok h ns i s"
    using Cons(5) by auto
  note o = add_paradigm_other [OF s1(1) Cons(3) i(1)]
  have "j < NODE_PARADIGM_COUNT \<and> slot_ok h ns j s1" if "j \<in> set is" for j
    using Cons(4,5) that o(2) [of j ns] by auto
  from Cons(1) [OF s1(2) o(1) _ this] show ?case
    using Cons(4) slot_ok_snoc [OF i(2) Cons(3) i(1) s1(1) assms(5)] o by auto
qed simp

lemma addGraphNode_ok:
  assumes "addGraphNode node m h s = Inr (h', m', s')" "stream_wf h s" "nd_streamId (h node) = es_id s"
  shows "same_keys h h' \<and> stream_wf h s' \<and> es_nodes s' = es_nodes s @ [node] \<and> es_id s' = es_id s"
proof -
  obtain m1 s1 where a: "add_paradigms h node [0..<NODE_PARADIGM_COUNT] (m, s\<lparr>es_nodesAdded := True\<rparr>) = Inr (m1, s1)"
    using assms(1) by (auto simp: addGraphNode_def bind_res_Inr)
  let ?s = "s\<lparr>es_nodesAdded := True\<rparr>"
  have r: "slots_sized s1 \<and> (\<forall>i\<in>set [0..<NODE_PARADIGM_COUNT]. slot_ok h (es_nodes s @ [node]) i s1) \<and>
         es_nodes s1 = es_nodes s \<and> es_id s1 = es_id s \<and> es_unlinked s1 = es_unlinked s"
    using add_paradigms_ok [OF a, of "es_nodes s"] assms(2,3)
    by (auto simp: stream_wf_def slots_sized_def slot_ok_def)
  have links: "same_keys h (setLinkRight p r (fold (\<lambda>p. setLinkRight p q) ps (setLinkLeft n l h)))"
      "same_keys h (fold (\<lambda>p. setLinkRight p q) ps (setLinkLeft n l h))" for p r q ps n l
    using same_keys_fold_links [of h "setLinkLeft n l h" q ps] by (auto intro: same_keys_trans)
  have fin: "es_nodes s' = es_nodes s1 @ [node]" "es_lastNode s' = Some node" "es_id s' = es_id s1"
      "es_firstNodes s' = es_firstNodes s1" "es_lastNodes s' = es_lastNodes s1" "same_keys h h'"
    using assms(1) a by (auto simp: addGraphNode_def addNodeInternal_def Let_def same_keys_fold_links links split: if_splits)
  have "stream_wf h s'"
    using r fin assms(2,3) by (auto simp: stream_wf_def slots_sized_def slot_ok_def)
  then show ?thesis
    using fin r by simp
qed

section \<open>Reachable streams\<close>

text \<open>A stream starts empty; nodes of the stream are added at the end, the list is cleared between intervals, and
  the filter, the reset and the time of the last event leave the nodes alone.\<close>

inductive stream_reach :: "heap \<times> event_stream \<Rightarrow> bool" where
  reach_new: "stream_reach (h, EventStream_new i parentId name streamType)"
| reach_add: "stream_reach (h, s) \<Longrightarrow> nd_streamId (h node) = es_id s \<Longrightarrow>
    addGraphNode node m h s = Inr (h', m', s') \<Longrightarrow> stream_reach (h', s')"
| reach_clear: "stream_reach (h, s) \<Longrightarrow> stream_reach (h, clearNodes s)"
| reach_filter: "stream_reach (h, s) \<Longrightarrow> stream_reach (h, setFilter enable t s)"
| reach_reset: "stream_reach (h, s) \<Longrightarrow> stream_reach (h, es_reset s)"
| reach_time: "stream_reach (h, s) \<Longrightarrow> stream_reach (h, setLastEventTime t s)"
| reach_heap: "stream_reach (h, s) \<Longrightarrow> same_keys h h' \<Longrightarrow> stream_reach (h', s)"

inductive_cases stream_reachE: "stream_reach (h, s)"

lemma stream_wf_empty:
  "es_nodes s = [] \<Longrightarrow> es_lastNode s = None \<Longrightarrow> es_firstNodes s = replicate NODE_PARADIGM_COUNT None \<Longrightarrow>
   es_lastNodes s = replicate NODE_PARADIGM_COUNT None \<Longrightarrow> stream_wf h s"
  by (simp add: stream_wf_def slots_sized_def slot_ok_def of_paradigm_def)

lemma stream_reach_wf: "stream_reach hs \<Longrightarrow> stream_wf (fst hs) (snd hs)"
proof (induction rule: stream_reach.induct)
  case (reach_add h s node m h' m' s')
  then show ?case
    using addGraphNode_ok [of node m h s h' m' s'] same_keys_wf [of h h' s'] by simp
next
  case (reach_filter h s enable t)
  then show ?case
    using stream_wf_cong [of "setFilter enable t s" s h] by (simp add: setFilter_def Let_def)
next
  case (reach_reset h s)
  then show ?case
    using stream_wf_cong [of "es_reset s" s h] by (simp add: es_reset_def Let_def)
next
  case (reach_time h s t)
  then show ?case
    using stream_wf_cong [of "setLastEventTime t s" s h] by (simp add: setLastEventTime_def)
qed (simp_all add: stream_wf_empty EventStream_new_def clearNodes_def same_keys_wf)

text \<open>C33. In every stream that is reached by adding nodes at the end, clearing, filtering and resetting it, the first
  and the last node kept for each of the four paradigms are the first and the last node of that paradigm in the node
  list, the nodes of a paradigm stand in the order of \<^verbatim>\<open>compareLess\<close>, and the last node of the stream is the last one
  added. (\<^verbatim>\<open>insertGraphNode\<close> is not among these operations: a node that it inserts before the first node of its paradigm
  does not become the first one, as \<^verbatim>\<open>inserted_first_missed\<close> shows.)\<close>
theorem stream_reachable_slots:
  assumes "stream_reach (h, s)" "i < NODE_PARADIGM_COUNT"
  defines "ns \<equiv> filter (\<lambda>p. hasParadigm (h p) (paradigm_bit i)) (es_nodes s)"
  shows "getFirstParadigmNode (paradigm_bit i) s = Inr (if ns = [] then None else Some (hd ns)) \<and>
    getLastParadigmNode (paradigm_bit i) s = Inr (if ns = [] then None else Some (last ns)) \<and>
    sorted (map (\<lambda>p. node_key (h p)) ns) \<and>
    es_lastNode s = (if es_nodes s = [] then None else Some (last (es_nodes s)))"
  using stream_reach_wf [OF assms(1)] assms(2)
  by (simp add: stream_wf_def slot_ok_def of_paradigm_def ns_def slots_sized_def getFirstParadigmNode_def
      getLastParadigmNode_def paradigm_slot_def ilog2_paradigm_bit paradigm_bit_nonzero)

lemma demo_stream_step:
  "addGraphNode 3 None demo_heap (EventStream_new 2 0 ''rank 0'' ES_MPI) =
   Inr (demo_heap(3 := (demo_heap 3)\<lparr>gn_linkLeft := Some 3, gn_linkRight := Some 3\<rparr>), None,
        (EventStream_new 2 0 ''rank 0'' ES_MPI)\<lparr>es_nodesAdded := True, es_lastNode := Some 3, es_nodes := [3],
          es_firstNodes := [None, None, Some 3, None], es_lastNodes := [None, None, Some 3, None]\<rparr>)"
proof -
  have bits: "hasParadigm (demo_heap 3) (paradigm_bit 0) = False" "hasParadigm (demo_heap 3) (paradigm_bit 1) = False"
      "hasParadigm (demo_heap 3) (paradigm_bit 2) = True" "hasParadigm (demo_heap 3) (paradigm_bit 3) = False"
    by (simp_all add: hasParadigm_def paradigm_bit_def PARADIGM_MPI_def has_flag_def)
  have four: "NODE_PARADIGM_COUNT = 4" "replicate 4 (None :: node_ref option) = [None, None, None, None]"
    by (simp_all add: NODE_PARADIGM_COUNT_def numeral_eq_Suc)
  have slot: "paradigm_slot (paradigm_bit i) [a, b, c, d] = Inr ([a, b, c, d] ! i)" if "i < 4" for i a b c d
    using paradigm_slot_bit [of i "[a, b, c, d]"] that by (simp add: four)
  show ?thesis
    unfolding addGraphNode_def paradigm_indices
    by (simp add: add_paradigm_def EventStream_new_def getLastParadigmNode_def four slot bits
        slot [of 1, simplified] bits [simplified] addNodeInternal_def setLinkLeft_def setLinkRight_def isEnter_def Let_def)
qed

theorem stream_reachable_slots_witness:
  "\<exists>h s. stream_reach (h, s) \<and> getLastParadigmNode (paradigm_bit 2) s = Inr (Some 3)"
proof -
  have r: "stream_reach (demo_heap(3 := (demo_heap 3)\<lparr>gn_linkLeft := Some 3, gn_linkRight := Some 3\<rparr>),
        (EventStream_new 2 0 ''rank 0'' ES_MPI)\<lparr>es_nodesAdded := True, es_lastNode := Some 3, es_nodes := [3],
          es_firstNodes := [None, None, Some 3, None], es_lastNodes := [None, None, Some 3, None]\<rparr>)"
    by (rule reach_add [OF reach_new _ demo_stream_step]) (simp add: EventStream_new_def)
  have c: "2 < NODE_PARADIGM_COUNT"
    by (simp add: NODE_PARADIGM_COUNT_def)
  show ?thesis
    using r stream_reachable_slots [OF r c]
    by (auto simp: hasParadigm_def paradigm_bit_def PARADIGM_MPI_def has_flag_def)
qed

end
