(* ===== verification/StreamWalks.thy ===== *)
theory StreamWalks
  imports StreamLaws
begin

text \<open>What the queries on a stream return: the last node of a set of paradigms, the nodes the walks
  visit, and the effect of adding or inserting a node on the links and the order of the nodes.\<close>

section \<open>The last node of several paradigms\<close>

definition candidates :: "u32 \<Rightarrow> (nat \<times> node_ref option) list \<Rightarrow> node_ref set" where
  "candidates paradigm ls = {q. \<exists>i. (i, Some q) \<in> set ls \<and> has_flag (paradigm_bit i) paradigm}"

lemma candidates_simps [simp]:
  "candidates paradigm [] = {}"
  "candidates paradigm ((i, l) # ls) =
     (if has_flag (paradigm_bit i) paradigm then set_option l else {}) \<union> candidates paradigm ls"
  by (auto simp: candidates_def)

text \<open>A result that is a latest node of a set, or nothing for the empty set.\<close>

fun is_latest :: "heap \<Rightarrow> node_ref set \<Rightarrow> node_ref option \<Rightarrow> bool" where
  "is_latest h S None \<longleftrightarrow> S = {}"
| "is_latest h S (Some p) \<longleftrightarrow> p \<in> S \<and> (\<forall>q\<in>S. node_key (h q) \<le> node_key (h p))"

lemma is_latest_add:
  assumes "is_latest h (insert p S) r" "node_key (h q) \<le> node_key (h p)"
  shows "is_latest h (insert p (insert q S)) r"
  using assms by (cases r) (auto intro: order.trans)

lemma later_node_spec:
  assumes "\<And>q. q \<in> candidates paradigm ls \<union> set_option tmp \<Longrightarrow> nd_streamId (h q) = sid"
  shows "is_latest h (candidates paradigm ls \<union> set_option tmp) (later_node h paradigm ls tmp)"
  using assms
proof (induction ls arbitrary: tmp)
  case Nil
  then show ?case
    by (cases tmp) auto
next
  case (Cons il ls)
  obtain i l where il: "il = (i, l)"
    by (cases il)
  show ?case
  proof (cases "has_flag (paradigm_bit i) paradigm \<and> l \<noteq> None")
    case False
    then show ?thesis
      using Cons(1) [of tmp] Cons(2) by (auto simp: il)
  next
    case True
    then obtain q where q: "l = Some q" "has_flag (paradigm_bit i) paradigm"
      by auto
    show ?thesis
    proof (cases tmp)
      case None
      then show ?thesis
        using Cons(1) [of "Some q"] Cons(2) q by (auto simp: il)
    next
      case (Some t)
      have sid: "nd_streamId (h t) = nd_streamId (h q)"
        using Cons(2) [of q] Cons(2) [of t] q Some by (simp add: il)
      show ?thesis
      proof (cases "compareLess (h t) (h q)")
        case c: True
        then have "node_key (h t) \<le> node_key (h q)"
          using sid by (simp add: node_key_iff less_imp_le)
        then show ?thesis
          using is_latest_add [of h q "candidates paradigm ls" _ t] Cons(1) [of "Some q"] Cons(2) c q Some
          by (auto simp: il insert_commute)
      next
        case c: False
        then have "node_key (h q) \<le> node_key (h t)"
          using sid by (simp add: node_key_iff not_less)
        then show ?thesis
          using is_latest_add [of h t "candidates paradigm ls" _ q] Cons(1) [of "Some t"] Cons(2) c q Some
          by (auto simp: il insert_commute)
      qed
    qed
  qed
qed

text \<open>The nodes of a stream that have one of the four paradigms of a mask.\<close>

definition masked_nodes :: "heap \<Rightarrow> u32 \<Rightarrow> 'a event_stream_scheme \<Rightarrow> node_ref set" where
  "masked_nodes h paradigm s =
    {p \<in> set (es_nodes s). \<exists>i<NODE_PARADIGM_COUNT. hasParadigm (h p) (paradigm_bit i) \<and> has_flag (paradigm_bit i) paradigm}"

lemma candidates_slots:
  assumes "stream_wf h s"
  defines "ls \<equiv> zip [0..<NODE_PARADIGM_COUNT] (es_lastNodes s)"
  shows "candidates paradigm ls \<subseteq> masked_nodes h paradigm s"
    and "p \<in> masked_nodes h paradigm s \<Longrightarrow> \<exists>q\<in>candidates paradigm ls. node_key (h p) \<le> node_key (h q)"
proof -
  have l: "(i, Some q) \<in> set ls \<longleftrightarrow> i < NODE_PARADIGM_COUNT \<and> es_lastNodes s ! i = Some q" for i q
    using assms(1) by (force simp: ls_def in_set_zip stream_wf_def slots_sized_def)
  have w: "slot_ok h (es_nodes s) i s" if "i < NODE_PARADIGM_COUNT" for i
    using assms(1) that by (simp add: stream_wf_def)
  show "candidates paradigm ls \<subseteq> masked_nodes h paradigm s"
  proof
    fix q assume "q \<in> candidates paradigm ls"
    then obtain i where i: "i < NODE_PARADIGM_COUNT" "es_lastNodes s ! i = Some q" "has_flag (paradigm_bit i) paradigm"
      by (auto simp: candidates_def l)
    then have "q \<in> set (of_paradigm h i (es_nodes s))"
      using w [OF i(1)] by (auto simp: slot_ok_def split: if_split_asm)
    then show "q \<in> masked_nodes h paradigm s"
      using i by (auto simp: masked_nodes_def of_paradigm_def)
  qed
  assume "p \<in> masked_nodes h paradigm s"
  then obtain i where i: "i < NODE_PARADIGM_COUNT" "has_flag (paradigm_bit i) paradigm"
      "p \<in> set (of_paradigm h i (es_nodes s))"
    by (auto simp: masked_nodes_def of_paradigm_def)
  then have m: "es_lastNodes s ! i = Some (last (of_paradigm h i (es_nodes s)))"
      "sorted (map (\<lambda>p. node_key (h p)) (of_paradigm h i (es_nodes s)))"
    using w [OF i(1)] by (auto simp: slot_ok_def)
  then have "node_key (h p) \<le> node_key (h (last (of_paradigm h i (es_nodes s))))"
    using i(3) by (cases "of_paradigm h i (es_nodes s)" rule: rev_cases) (auto simp: sorted_append)
  then show "\<exists>q\<in>candidates paradigm ls. node_key (h p) \<le> node_key (h q)"
    using i m by (auto simp: candidates_def l)
qed

text \<open>On a reachable stream \<^verbatim>\<open>getLastNode\<close> of a mask of paradigms returns a latest node among the
  nodes of those paradigms, and nothing exactly when there is none.\<close>
lemma getLastNode_latest:
  assumes "stream_reach (h, s)"
  shows "is_latest h (masked_nodes h paradigm s) (getLastNode h paradigm s)"
proof -
  have wf: "stream_wf h s"
    using stream_reach_wf [OF assms] by simp
  let ?ls = "zip [0..<NODE_PARADIGM_COUNT] (es_lastNodes s)"
  have sub: "candidates paradigm ?ls \<subseteq> masked_nodes h paradigm s"
    and dom: "\<And>p. p \<in> masked_nodes h paradigm s \<Longrightarrow> \<exists>q\<in>candidates paradigm ?ls. node_key (h p) \<le> node_key (h q)"
    using candidates_slots [OF wf] by blast+
  have "nd_streamId (h q) = es_id s" if "q \<in> candidates paradigm ?ls" for q
    using sub that wf by (auto simp: masked_nodes_def stream_wf_def)
  then have l: "is_latest h (candidates paradigm ?ls) (getLastNode h paradigm s)"
    using later_node_spec [of paradigm ?ls None h "es_id s"] by (simp add: getLastNode_def)
  show ?thesis
  proof (cases "getLastNode h paradigm s")
    case None
    then show ?thesis
      using l dom by auto
  next
    case (Some p)
    have "node_key (h q) \<le> node_key (h p)" if "q \<in> masked_nodes h paradigm s" for q
      using dom [OF that] l Some by (auto intro: order.trans)
    then show ?thesis
      using l sub Some by auto
  qed
qed

section \<open>The walks\<close>

lemma walk_start_ok:
  assumes "stream_sorted h (es_nodes s)" "k < length (es_nodes s)"
  shows "walk_start h (es_nodes s ! k) s = Inr k"
  using findNode_indexed [OF stream_sorted_indexed [OF assms(1)] assms(2)]
  by (simp add: walk_start_def stream_findNode_def)

text \<open>On a stream in order \<^verbatim>\<open>walkBackward\<close> hands the given node and then every earlier node of the
  stream to the callback, latest first, and \<^verbatim>\<open>walkForward\<close> every later node, earliest first, until
  the callback stops the walk.\<close>
lemma walks_visit:
  assumes "stream_sorted h (es_nodes s)" "k < length (es_nodes s)"
  shows "walkBackward h (Some (es_nodes s ! k)) (Some cb) u s =
           Inr (walk cb u (rev (take (Suc k) (es_nodes s))) False) \<and>
         walkForward h (Some (es_nodes s ! k)) (Some cb) u s = Inr (walk cb u (drop (Suc k) (es_nodes s)) False)"
  using walk_start_ok [OF assms] by (simp add: walkBackward_def walkForward_def)

section \<open>Links of MPI nodes\<close>

lemma fold_linkRight_left: "gn_linkLeft (fold (\<lambda>p. setLinkRight p r) ps h q) = gn_linkLeft (h q)"
  by (induction ps arbitrary: h) (simp_all add: setLinkRight_def)

text \<open>The left link that \<^verbatim>\<open>addGraphNode\<close> gives an MPI node, meant to be the last local node before
  it, is the node itself, because the node has become the last node of the stream by then.\<close>
lemma addGraphNode_linkLeft_self:
  assumes "addGraphNode node m h s = Inr (h', m', s')" "nd_paradigm (h node) = PARADIGM_MPI"
  shows "gn_linkLeft (h' node) = Some node"
proof -
  obtain m1 s1 where a: "add_paradigms h node [0..<NODE_PARADIGM_COUNT] (m, s\<lparr>es_nodesAdded := True\<rparr>) = Inr (m1, s1)"
    using assms(1) by (auto simp: addGraphNode_def bind_res_Inr)
  have l: "gn_linkLeft (setLinkLeft node (Some node) h node) = Some node"
    by (simp add: setLinkLeft_def)
  show ?thesis
    using assms a
    by (cases "isEnter (setLinkLeft node (Some node) h node)")
      (auto simp: addGraphNode_def addNodeInternal_def fold_linkRight_left l simp del: fold_append)
qed

section \<open>Inserting a node\<close>

lemma insert_pos_Some:
  "insert_pos h node ns i = Some k \<Longrightarrow>
   i < k \<and> k - i < length ns \<and> compareLess (h node) (h (ns ! (k - i))) \<and>
   (\<forall>j. 0 < j \<longrightarrow> j < k - i \<longrightarrow> \<not> compareLess (h node) (h (ns ! j)))"
proof (induction h node ns i rule: insert_pos.induct)
  case (3 h node c d ds i)
  show ?case
  proof (cases "compareLess (h node) (h d)")
    case True
    then show ?thesis
      using 3(2) by auto
  next
    case False
    then have e: "insert_pos h node (d # ds) (Suc i) = Some k"
      using 3(2) by simp
    have r: "Suc i < k \<and> k - Suc i < length (d # ds) \<and> compareLess (h node) (h ((d # ds) ! (k - Suc i))) \<and>
        (\<forall>j. 0 < j \<longrightarrow> j < k - Suc i \<longrightarrow> \<not> compareLess (h node) (h ((d # ds) ! j)))"
      by (rule 3(1) [OF False e])
    then obtain m where m: "k = Suc (Suc (m + i))"
      using less_imp_Suc_add [of "Suc i" k] by (auto simp: add.commute)
    have "\<not> compareLess (h node) (h ((c # d # ds) ! j))" if "0 < j" "j < k - i" for j
    proof (cases j)
      case (Suc l)
      then show ?thesis
        using r that m False by (cases l) auto
    qed (use that in simp)
    then show ?thesis
      using r m by auto
  qed
qed simp_all

lemma fold_insert_next_nodes:
  "es_nodes (snd (fold (insert_next h node after) is (m, s))) = es_nodes s"
  by (induction "is" arbitrary: m s) (simp_all add: insert_next_def Let_def)

lemma fold_insert_next_ex:
  "\<exists>nm' s'. fold (insert_next h node after) is (nm, s) = (nm', s') \<and> es_nodes s' = es_nodes s"
  using fold_insert_next_nodes [of h node after "is" nm s] by (metis prod.collapse)

lemma insertGraphNode_nodes:
  assumes "insert_pos h node (es_nodes s) 0 = Some k"
  shows "\<exists>pm' nm' s'. insertGraphNode node pm nm h s = Inr (pm', nm', s') \<and>
    es_nodes s' = take k (es_nodes s) @ node # drop k (es_nodes s)"
proof -
  let ?s = "s\<lparr>es_nodesAdded := True\<rparr>"
  let ?t = "if es_lastNode ?s = None \<or> compareLess (h (the (es_lastNode ?s))) (h node)
      then ?s\<lparr>es_lastNode := Some node\<rparr> else ?s"
  have t: "es_nodes ?t = es_nodes s"
    by simp
  obtain nm' s' where f: "fold (insert_next h node (drop k (es_nodes s))) [0..<NODE_PARADIGM_COUNT]
      (nm, ?t\<lparr>es_nodes := take k (es_nodes s) @ node # drop k (es_nodes s)\<rparr>) = (nm', s')"
      "es_nodes s' = take k (es_nodes s) @ node # drop k (es_nodes s)"
    using fold_insert_next_ex [of h node "drop k (es_nodes s)" "[0..<NODE_PARADIGM_COUNT]" nm
        "?t\<lparr>es_nodes := take k (es_nodes s) @ node # drop k (es_nodes s)\<rparr>"] by auto
  show ?thesis
    unfolding insertGraphNode_def Let_def t assms option.case f(1) prod.case using f(2) by blast
qed

text \<open>C34. When \<^verbatim>\<open>insertGraphNode\<close> returns on a stream whose nodes are in order and whose first node is not
  after the new one, the nodes are the old ones with the new one, and in order again.\<close>
theorem insertGraphNode_sorted:
  assumes "insertGraphNode node pm nm h s = Inr (pm', nm', s')"
    and "sorted (map (\<lambda>p. node_key (h p)) (es_nodes s))" "node_key (h (hd (es_nodes s))) \<le> node_key (h node)"
    and "\<And>p. p \<in> set (es_nodes s) \<Longrightarrow> nd_streamId (h p) = nd_streamId (h node)"
  shows "sorted (map (\<lambda>p. node_key (h p)) (es_nodes s')) \<and>
    (\<exists>before after. es_nodes s = before @ after \<and> es_nodes s' = before @ node # after)"
proof -
  obtain k where k: "insert_pos h node (es_nodes s) 0 = Some k"
  proof (cases "insert_pos h node (es_nodes s) 0")
    case None
    have t: "es_nodes (if c then s\<lparr>es_nodesAdded := True\<rparr>\<lparr>es_lastNode := Some node\<rparr> else s\<lparr>es_nodesAdded := True\<rparr>) = es_nodes s" for c
      by simp
    have False
      using assms(1) unfolding insertGraphNode_def Let_def t None by simp
    then show ?thesis ..
  qed (use that in blast)
  define b where "b = take k (es_nodes s)"
  define a where "a = drop k (es_nodes s)"
  have ab: "es_nodes s = b @ a"
    by (simp add: a_def b_def)
  have n: "es_nodes s' = b @ node # a"
    using assms(1) insertGraphNode_nodes [OF k, of pm nm] by (auto simp: a_def b_def)
  have p: "0 < k" "k < length (es_nodes s)" "compareLess (h node) (h (es_nodes s ! k))"
      "\<And>j. 0 < j \<Longrightarrow> j < k \<Longrightarrow> \<not> compareLess (h node) (h (es_nodes s ! j))"
    using insert_pos_Some [OF k] by auto
  have iff: "compareLess (h node) (h p) \<longleftrightarrow> node_key (h node) < node_key (h p)" if "p \<in> set (es_nodes s)" for p
    using node_key_iff [of "h node" "h p"] assms(4) [OF that] by simp
  have bk: "node_key (h x) \<le> node_key (h node)" if x: "x \<in> set b" for x
  proof -
    obtain j where j: "x = es_nodes s ! j" "j < k"
      using x p(2) by (auto simp: b_def in_set_conv_nth)
    show ?thesis
    proof (cases j)
      case 0
      then show ?thesis
        using assms(3) j p(2) by (cases "es_nodes s") auto
    next
      case (Suc i)
      then show ?thesis
        using p(4) [of j] iff [of x] j p(2) by (simp add: not_less)
    qed
  qed
  have ak: "node_key (h node) \<le> node_key (h x)" if x: "x \<in> set a" for x
  proof -
    have "a = es_nodes s ! k # drop (Suc k) (es_nodes s)"
      using p(2) by (simp add: a_def Cons_nth_drop_Suc)
    moreover have "sorted (map (\<lambda>p. node_key (h p)) a)"
      using assms(2) ab by (simp add: sorted_append)
    ultimately have "node_key (h (es_nodes s ! k)) \<le> node_key (h x)"
      using x by auto
    then show ?thesis
      using p(2,3) iff [of "es_nodes s ! k"] by simp
  qed
  have "sorted (map (\<lambda>p. node_key (h p)) (es_nodes s'))"
    using assms(2) ab bk ak by (auto simp: n sorted_append intro: order.trans)
  then show ?thesis
    using n ab by blast
qed

theorem insertGraphNode_sorted_witness:
  "\<exists>pm nm s'. insertGraphNode 4 Map.empty Map.empty demo_heap ((EventStream_new 2 0 ''rank 0'' ES_MPI)\<lparr>es_nodes := [1, 3, 5]\<rparr>) =
       Inr (pm, nm, s') \<and> es_nodes s' = [1, 3, 4, 5] \<and> sorted (map (\<lambda>p. node_key (demo_heap p)) (es_nodes s')) \<and>
     (\<exists>before after. [1, 3, 5] = before @ after \<and> es_nodes s' = before @ 4 # after)"
proof -
  define s where "s = (EventStream_new 2 0 ''rank 0'' ES_MPI)\<lparr>es_nodes := [1, 3, 5]\<rparr>"
  have pos: "insert_pos demo_heap 4 (es_nodes s) 0 = Some 2"
    by (simp add: s_def compareLess_def)
  then obtain pm nm s' where r: "insertGraphNode 4 Map.empty Map.empty demo_heap s = Inr (pm, nm, s')"
      "es_nodes s' = [1, 3, 4, 5]"
    using insertGraphNode_nodes [OF pos, of Map.empty Map.empty] by (auto simp: s_def)
  have "es_nodes s = [1, 3, 5]"
    by (simp add: s_def)
  with insertGraphNode_sorted [OF r(1)] have "sorted (map (\<lambda>p. node_key (demo_heap p)) (es_nodes s')) \<and>
     (\<exists>before after. [1, 3, 5] = before @ after \<and> es_nodes s' = before @ 4 # after)"
    by (simp add: node_key_def)
  then show ?thesis
    using r unfolding s_def by blast
qed

text \<open>A node that is inserted before the first node of its paradigm does not become the first one.\<close>

definition mixed_heap :: heap where
  "mixed_heap = demo_heap(1 := (demo_heap 1)\<lparr>nd_paradigm := PARADIGM_CPU\<rparr>)"

definition mixed_stream :: event_stream where
  "mixed_stream = (EventStream_new 2 0 ''rank 0'' ES_MPI)\<lparr>es_nodes := [1, 3], es_lastNode := Some 3,
     es_firstNodes := [None, None, Some 3, None], es_lastNodes := [None, None, Some 3, None]\<rparr>"

lemma inserted_first_missed:
  "case insertGraphNode 2 Map.empty Map.empty mixed_heap mixed_stream of
     Inr (_, _, s) \<Rightarrow> es_nodes s = [1, 2, 3] \<and> hasParadigm (mixed_heap 2) (paradigm_bit 2) \<and> \<not> hasParadigm (mixed_heap 1) (paradigm_bit 2) \<and>
       getFirstParadigmNode (paradigm_bit 2) s = Inr (Some 3)
   | _ \<Rightarrow> False"
  by code_simp

end
