(* ===== verification/SortedMap.thy ===== *)
theory SortedMap
  imports Prelude
begin

text \<open>\<^verbatim>\<open>std::map\<close> as a list of key and value pairs in ascending order of the keys, which is the order
  the code walks it in, with the interface of a finite map that the registries of the program use.\<close>

section \<open>The interface\<close>

text \<open>A registry is changed by putting and by deleting an entry.\<close>

datatype ('k, 'v) registry_op = Put 'k 'v | Del 'k

locale registry =
  fixes lookup :: "'m \<Rightarrow> 'k \<Rightarrow> 'v option" and update :: "'k \<Rightarrow> 'v \<Rightarrow> 'm \<Rightarrow> 'm"
    and erase :: "'k \<Rightarrow> 'm \<Rightarrow> 'm" and inv :: "'m \<Rightarrow> bool"
  assumes lookup_update: "inv m \<Longrightarrow> lookup (update k v m) q = (if q = k then Some v else lookup m q)"
    and lookup_erase: "inv m \<Longrightarrow> lookup (erase k m) q = (if q = k then None else lookup m q)"
    and inv_update: "inv m \<Longrightarrow> inv (update k v m)"
    and inv_erase: "inv m \<Longrightarrow> inv (erase k m)"
begin

fun run_op :: "('k, 'v) registry_op \<Rightarrow> 'm \<Rightarrow> 'm" where
  "run_op (Put k v) m = update k v m"
| "run_op (Del k) m = erase k m"

fun touches :: "'k \<Rightarrow> ('k, 'v) registry_op \<Rightarrow> bool" where
  "touches q (Put k v) \<longleftrightarrow> q = k"
| "touches q (Del k) \<longleftrightarrow> q = k"

lemma inv_run: "inv m \<Longrightarrow> inv (fold run_op ops m)"
proof (induction ops arbitrary: m)
  case (Cons op ops)
  then show ?case
    by (cases op) (simp_all add: inv_update inv_erase)
qed simp

lemma lookup_untouched:
  "inv m \<Longrightarrow> (\<And>op. op \<in> set ops \<Longrightarrow> \<not> touches q op) \<Longrightarrow> lookup (fold run_op ops m) q = lookup m q"
proof (induction ops arbitrary: m)
  case (Cons op ops)
  have n: "\<not> touches q op"
    using Cons(3) by simp
  have "inv (run_op op m)" "lookup (run_op op m) q = lookup m q"
    using Cons(2) n by (cases op; simp add: inv_update inv_erase lookup_update lookup_erase)+
  then show ?case
    using Cons(1) [of "run_op op m"] Cons(3) by simp
qed simp

lemma put_then_untouched:
  "inv m \<Longrightarrow> (\<And>op. op \<in> set ops \<Longrightarrow> \<not> touches k op) \<Longrightarrow>
   lookup (fold run_op ops (update k v m)) k = Some v"
  by (simp add: lookup_untouched inv_update lookup_update)

lemma entries_all:
  assumes "inv m" "\<And>k v. lookup m k = Some v \<Longrightarrow> P k v" "\<And>k v. Put k v \<in> set ops \<Longrightarrow> P k v"
    "lookup (fold run_op ops m) k = Some v"
  shows "P k v"
  using assms
proof (induction ops arbitrary: m)
  case (Cons op ops)
  have i: "inv (run_op op m)"
    using Cons(2) by (cases op) (simp_all add: inv_update inv_erase)
  have "P q w" if "lookup (run_op op m) q = Some w" for q w
  proof (cases op)
    case (Put a b)
    then show ?thesis
      using that Cons(2,3) Cons(4) [of a b] by (simp add: lookup_update split: if_split_asm)
  next
    case (Del a)
    then show ?thesis
      using that Cons(2,3) by (simp add: lookup_erase split: if_split_asm)
  qed
  then show ?case
    using Cons(1) [OF i] Cons(4,5) by (metis fold_simps(2) list.set_intros(2))
qed simp

end

section \<open>The implementation\<close>

type_synonym ('k, 'v) smap = "('k \<times> 'v) list"

definition smap_inv :: "('k::linorder, 'v) smap \<Rightarrow> bool" where
  "smap_inv m \<longleftrightarrow> sorted_wrt (<) (map fst m)"

fun smap_update :: "'k::linorder \<Rightarrow> 'v \<Rightarrow> ('k, 'v) smap \<Rightarrow> ('k, 'v) smap" where
  "smap_update k v [] = [(k, v)]"
| "smap_update k v ((q, w) # m) =
    (if k < q then (k, v) # (q, w) # m else if k = q then (k, v) # m else (q, w) # smap_update k v m)"

definition smap_erase :: "'k \<Rightarrow> ('k, 'v) smap \<Rightarrow> ('k, 'v) smap" where
  "smap_erase k m = filter (\<lambda>(q, w). q \<noteq> k) m"

text \<open>\<^verbatim>\<open>map::insert\<close> keeps the value of a key that is there.\<close>

definition smap_insert :: "'k::linorder \<Rightarrow> 'v \<Rightarrow> ('k, 'v) smap \<Rightarrow> ('k, 'v) smap" where
  "smap_insert k v m = (if map_of m k = None then smap_update k v m else m)"

lemma smap_inv_Nil [simp]: "smap_inv []"
  by (simp add: smap_inv_def)

lemma smap_update_fst: "fst ` set (smap_update k v m) = insert k (fst ` set m)"
  by (induction k v m rule: smap_update.induct) auto

lemma smap_update_inv [simp]: "smap_inv m \<Longrightarrow> smap_inv (smap_update k v m)"
proof (induction k v m rule: smap_update.induct)
  case (2 k v q w m)
  show ?case
  proof (cases "k \<le> q")
    case True
    then show ?thesis
      using 2(2) by (auto simp: smap_inv_def intro: less_trans)
  next
    case False
    then show ?thesis
      using 2 smap_update_fst [of k v m] by (auto simp: smap_inv_def)
  qed
qed (simp add: smap_inv_def)

lemma smap_lookup_update:
  "smap_inv m \<Longrightarrow> map_of (smap_update k v m) q = (if q = k then Some v else map_of m q)"
  by (induction k v m rule: smap_update.induct) (auto simp: smap_inv_def)

lemma smap_update_same: "map_of m k = Some v \<Longrightarrow> smap_inv m \<Longrightarrow> smap_update k v m = m"
proof (induction k v m rule: smap_update.induct)
  case (2 k v q w m)
  have "map_of m k = None" if "k < q"
    unfolding map_of_eq_None_iff using 2(3) that by (force simp: smap_inv_def)
  then show ?case
    using 2 by (auto simp: smap_inv_def split: if_splits)
qed simp

lemma smap_erase_inv [simp]: "smap_inv m \<Longrightarrow> smap_inv (smap_erase k m)"
  unfolding smap_inv_def smap_erase_def
  by (induction m) auto

lemma smap_lookup_erase: "map_of (smap_erase k m) q = (if q = k then None else map_of m q)"
  by (induction m) (auto simp: smap_erase_def)

lemma smap_insert_inv [simp]: "smap_inv m \<Longrightarrow> smap_inv (smap_insert k v m)"
  by (simp add: smap_insert_def)

interpretation smap: registry map_of smap_update smap_erase smap_inv
  by unfold_locales (simp_all add: smap_lookup_update smap_lookup_erase)

lemma smap_inv_distinct: "smap_inv m \<Longrightarrow> distinct (map fst m)"
  by (simp add: smap_inv_def strict_sorted_iff)

end
