(* ===== verification/MpiStreamModel.thy ===== *)
theory MpiStreamModel
  imports StreamWalks SortedMap
begin

text \<open>The MPI streams of \<^verbatim>\<open>backend/MpiStream.cpp\<close>: the data of the pending blocking communication and
  the registry of the non-blocking communications, from the event that announces a request over the
  leave of its call to the leave of the wait that completes it. Calls of the MPI library on the
  replayed requests are parameters or part of the result.\<close>

section \<open>State\<close>

text \<open>The type of a communication record; the names are qualified by the stream, as the node types have
  the same ones.\<close>

datatype mpi_type = Stream_MPI_SEND | Stream_MPI_RECV | Stream_MPI_COLLECTIVE | Stream_MPI_SENDRECV

record mpi_comm_record =
  cr_mpiType :: mpi_type
  cr_rootId :: u32
  cr_partnerId :: u64
  cr_tag :: u32

record blocking_comm =
  bc_comRef :: u32
  bc_sendPartnerId :: u32
  bc_recvPartnerId :: u32
  bc_sendTag :: u32
  bc_recvTag :: u32

text \<open>A record of a non-blocking communication. \<^term>\<open>None\<close> is an uninitialised number in the first two
  fields, \<^verbatim>\<open>MPI_REQUEST_NULL\<close> for the two requests of the replay, and the null pointer for the
  nodes. The message buffers are left out.\<close>

record icomm_record =
  ic_comRef :: "u32 option"
  ic_msgTag :: "u32 option"
  ic_requestId :: u64
  ic_request0 :: "nat option"
  ic_request1 :: "nat option"
  ic_msgNode :: "node_ref option"
  ic_syncNode :: "node_ref option"

record mpi_stream = event_stream +
  ms_mpiCommRecords :: "mpi_comm_record list"
  ms_pendingMpiComm :: blocking_comm
  ms_pendingMPIRequestId :: u64
  ms_mpiIsendPartner :: u64
  ms_pendingRequests :: "u64 list"
  ms_icomm :: "(u64, icomm_record) smap"

text \<open>The constructor sets the communicator only; the other fields of the blocking data are given.\<close>

definition MpiStream_new :: "u64 \<Rightarrow> u64 \<Rightarrow> string \<Rightarrow> blocking_comm \<Rightarrow> mpi_stream" where
  "MpiStream_new i parentId name uninit =
    event_stream.extend (EventStream_new i parentId name ES_MPI)
      (mpi_stream.fields [] (uninit\<lparr>bc_comRef := UINT32_MAX\<rparr>) UINT64_MAX UINT64_MAX [] [])"

definition mpi_reset :: "mpi_stream \<Rightarrow> mpi_stream" where
  "mpi_reset s = (let s = es_reset s;
      s = s\<lparr>ms_mpiCommRecords := []\<rparr>;
      s = s\<lparr>ms_pendingMPIRequestId := UINT64_MAX, ms_mpiIsendPartner := UINT64_MAX\<rparr>;
      s = (if ms_pendingRequests s \<noteq> [] then s\<lparr>ms_pendingRequests := []\<rparr> else s)
    in if ms_icomm s \<noteq> [] then s\<lparr>ms_icomm := []\<rparr> else s)"

section \<open>Blocking communication\<close>

definition setPendingMPIRecord :: "mpi_type \<Rightarrow> u32 \<Rightarrow> u32 \<Rightarrow> u32 \<Rightarrow> mpi_stream \<Rightarrow> mpi_stream result" where
  "setPendingMPIRecord mpiType partnerId root_comm_id tag s =
    (let c = ms_pendingMpiComm s in
     case mpiType of
       Stream_MPI_COLLECTIVE \<Rightarrow>
         Inr (s\<lparr>ms_pendingMpiComm := c\<lparr>bc_comRef := partnerId, bc_sendPartnerId := root_comm_id\<rparr>\<rparr>)
     | Stream_MPI_RECV \<Rightarrow>
         Inr (s\<lparr>ms_pendingMpiComm := c\<lparr>bc_comRef := root_comm_id, bc_recvPartnerId := partnerId, bc_recvTag := tag\<rparr>\<rparr>)
     | Stream_MPI_SEND \<Rightarrow>
         Inr (s\<lparr>ms_pendingMpiComm := c\<lparr>bc_comRef := root_comm_id, bc_sendPartnerId := partnerId, bc_sendTag := tag\<rparr>\<rparr>)
     | Stream_MPI_SENDRECV \<Rightarrow> Inl (Runtime_Error ''Unknown EventStream::MPIType''))"

definition getPendingMPIRecords :: "mpi_stream \<Rightarrow> mpi_comm_record list \<times> mpi_stream" where
  "getPendingMPIRecords s = (ms_mpiCommRecords s, s\<lparr>ms_mpiCommRecords := []\<rparr>)"

section \<open>Non-blocking communication\<close>

definition handleMPIIrecvRequest :: "u64 \<Rightarrow> mpi_stream \<Rightarrow> mpi_stream" where
  "handleMPIIrecvRequest requestId s = s\<lparr>ms_pendingMPIRequestId := requestId\<rparr>"

definition node_update :: "node_ref \<Rightarrow> (graph_node \<Rightarrow> graph_node) \<Rightarrow> heap \<Rightarrow> heap" where
  "node_update p f h = h(p := f (h p))"

definition handleMPIIrecvLeave :: "node_ref \<Rightarrow> heap \<Rightarrow> mpi_stream \<Rightarrow> heap \<times> mpi_stream" where
  "handleMPIIrecvLeave node h s =
    (let r = ms_pendingMPIRequestId s in
     if r = UINT64_MAX then (node_update node (setData None) h, s)
     else
       (let record = \<lparr>ic_comRef = None, ic_msgTag = None, ic_requestId = r, ic_request0 = None,
              ic_request1 = None, ic_msgNode = Some node, ic_syncNode = None\<rparr>;
            s = s\<lparr>ms_icomm := smap_update r record (ms_icomm s)\<rparr>;
            h = node_update node (setData (Some (Icomm_Ref r))) h
        in (h, s\<lparr>ms_pendingMPIRequestId := UINT64_MAX\<rparr>)))"

definition handleMPIIrecv :: "u64 \<Rightarrow> u64 \<Rightarrow> u32 \<Rightarrow> u32 \<Rightarrow> heap \<Rightarrow> mpi_stream \<Rightarrow> (heap \<times> mpi_stream) result" where
  "handleMPIIrecv requestId partnerId comm tag h s =
    (case map_of (ms_icomm s) requestId of
       Some rec \<Rightarrow>
         (let s = s\<lparr>ms_pendingRequests := ms_pendingRequests s @ [requestId]\<rparr> in
          case ic_msgNode rec of
            None \<Rightarrow> Inl Null_Dereference
          | Some p \<Rightarrow>
              Inr (node_update p (setReferencedStreamId partnerId) h,
                   s\<lparr>ms_icomm := smap_update requestId (rec\<lparr>ic_comRef := Some comm, ic_msgTag := Some tag\<rparr>) (ms_icomm s)\<rparr>))
     | None \<Rightarrow> Inr (h, s))"

definition handleMPIIsend :: "u64 \<Rightarrow> u64 \<Rightarrow> u32 \<Rightarrow> u32 \<Rightarrow> mpi_stream \<Rightarrow> mpi_stream" where
  "handleMPIIsend requestId partnerId comm tag s =
    (let s = s\<lparr>ms_pendingMPIRequestId := requestId, ms_mpiIsendPartner := partnerId\<rparr>;
         record = \<lparr>ic_comRef = Some comm, ic_msgTag = Some tag, ic_requestId = requestId,
            ic_request0 = None, ic_request1 = None, ic_msgNode = None, ic_syncNode = None\<rparr>
     in s\<lparr>ms_icomm := smap_update requestId record (ms_icomm s)\<rparr>)"

definition handleMPIIsendLeave :: "node_ref \<Rightarrow> heap \<Rightarrow> mpi_stream \<Rightarrow> heap \<times> mpi_stream" where
  "handleMPIIsendLeave node h s =
    (let r = ms_pendingMPIRequestId s in
     if r = UINT64_MAX \<or> ms_mpiIsendPartner s = UINT64_MAX then (node_update node (setData None) h, s)
     else case map_of (ms_icomm s) r of
       None \<Rightarrow> (node_update node (setData None) h, s)
     | Some rec \<Rightarrow>
         (let s = s\<lparr>ms_icomm := smap_update r (rec\<lparr>ic_msgNode := Some node\<rparr>) (ms_icomm s)\<rparr>;
              h = node_update node (setData (Some (Icomm_Ref r))) h;
              h = node_update node (setReferencedStreamId (ms_mpiIsendPartner s)) h
          in (h, s\<lparr>ms_pendingMPIRequestId := UINT64_MAX, ms_mpiIsendPartner := UINT64_MAX\<rparr>)))"

definition handleMPIIsendComplete :: "u64 \<Rightarrow> mpi_stream \<Rightarrow> mpi_stream" where
  "handleMPIIsendComplete requestId s = s\<lparr>ms_pendingRequests := ms_pendingRequests s @ [requestId]\<rparr>"

text \<open>The time since the first node of the pair of a leave; a null first node is dereferenced.\<close>

definition assign_whole_region :: "node_ref \<Rightarrow> heap \<Rightarrow> heap result" where
  "assign_whole_region node h = (case gn_first (h node) of
      None \<Rightarrow> Inl Null_Dereference
    | Some f \<Rightarrow> Inr (node_update node (setCounter WAITING_TIME (nd_time (h node) - nd_time (h f))) h))"

definition handleMPIWaitLeave :: "node_ref \<Rightarrow> heap \<Rightarrow> mpi_stream \<Rightarrow> (heap \<times> mpi_stream) result" where
  "handleMPIWaitLeave node h s =
    (case ms_pendingRequests s of
       [r] \<Rightarrow>
         (case map_of (ms_icomm s) r of
            Some rec \<Rightarrow>
              Inr (node_update node (setData (Some (Icomm_Ref r))) h,
                   s\<lparr>ms_icomm := smap_update r (rec\<lparr>ic_syncNode := Some node\<rparr>) (ms_icomm s),
                     ms_pendingRequests := []\<rparr>)
          | None \<Rightarrow> Inr (h, s))
     | [] \<Rightarrow> bind_res (assign_whole_region node h) (\<lambda>h. Inr (h, s))
     | r # rs \<Rightarrow> Inr (h, s\<lparr>ms_pendingRequests := rs\<rparr>))"

definition setMPIWaitallNodeData :: "node_ref \<Rightarrow> heap \<Rightarrow> mpi_stream \<Rightarrow> (heap \<times> mpi_stream) result" where
  "setMPIWaitallNodeData node h s =
    (if ms_pendingRequests s \<noteq> [] then
       Inr (node_update node (setData (Some (Request_List (ms_pendingRequests s)))) h, s\<lparr>ms_pendingRequests := []\<rparr>)
     else bind_res (assign_whole_region node h) (\<lambda>h. Inr (node_update node (setData None) h, s)))"

definition handleMPITest :: "node_ref \<Rightarrow> heap \<Rightarrow> mpi_stream \<Rightarrow> (heap \<times> mpi_stream) result" where
  "handleMPITest node h s =
    (case ms_pendingRequests s of
       [r] \<Rightarrow>
         (case map_of (ms_icomm s) r of
            Some rec \<Rightarrow>
              Inr (h, s\<lparr>ms_icomm := smap_update r (rec\<lparr>ic_syncNode := Some node\<rparr>) (ms_icomm s),
                        ms_pendingRequests := []\<rparr>)
          | None \<Rightarrow> Inr (h, s))
     | [] \<Rightarrow> bind_res (assign_whole_region node h) (\<lambda>h. Inr (h, s))
     | r # rs \<Rightarrow> Inr (h, s\<lparr>ms_icomm := smap_erase r (ms_icomm s), ms_pendingRequests := rs\<rparr>))"

definition removePendingMPIRequest :: "u64 \<Rightarrow> heap \<Rightarrow> mpi_stream \<Rightarrow> (heap \<times> mpi_stream) result" where
  "removePendingMPIRequest requestId h s =
    (case map_of (ms_icomm s) requestId of
       Some rec \<Rightarrow>
         (case ic_msgNode rec of
            None \<Rightarrow> Inl Null_Dereference
          | Some p \<Rightarrow> Inr (node_update p (setData None) h, s\<lparr>ms_icomm := smap_erase requestId (ms_icomm s)\<rparr>))
     | None \<Rightarrow> Inr (h, s))"

fun removePending_all :: "u64 list \<Rightarrow> heap \<Rightarrow> mpi_stream \<Rightarrow> (heap \<times> mpi_stream) result" where
  "removePending_all [] h s = Inr (h, s)"
| "removePending_all (r # rs) h s = bind_res (removePendingMPIRequest r h s) (\<lambda>(h, s). removePending_all rs h s)"

definition handleMPITestall :: "node_ref \<Rightarrow> heap \<Rightarrow> mpi_stream \<Rightarrow> (heap \<times> mpi_stream) result" where
  "handleMPITestall node h s =
    (if ms_pendingRequests s \<noteq> [] then
       bind_res (removePending_all (ms_pendingRequests s) h s) (\<lambda>(h, s). Inr (h, s\<lparr>ms_pendingRequests := []\<rparr>))
     else bind_res (assign_whole_region node h) (\<lambda>h. Inr (h, s)))"

definition havePendingMPIRequests :: "mpi_stream \<Rightarrow> nat" where
  "havePendingMPIRequests s = length (ms_icomm s)"

definition getPendingMPIIcommRecord :: "u64 \<Rightarrow> mpi_stream \<Rightarrow> icomm_record option" where
  "getPendingMPIIcommRecord requestId s = map_of (ms_icomm s) requestId"

section \<open>Completing the replayed requests\<close>

text \<open>The handles \<^verbatim>\<open>MPI_Wait\<close> is called on for a record, in order.\<close>

definition wait_calls :: "icomm_record \<Rightarrow> nat list" where
  "wait_calls rec = (case ic_request0 rec of None \<Rightarrow> [] | Some q \<Rightarrow> [q]) @
                    (case ic_request1 rec of None \<Rightarrow> [] | Some q \<Rightarrow> [q])"

text \<open>The result: the handles waited for, whether the request was found, the heap and the stream.\<close>

definition waitForPendingMPIRequest ::
  "u64 \<Rightarrow> heap \<Rightarrow> mpi_stream \<Rightarrow> (nat list \<times> bool \<times> heap \<times> mpi_stream) result" where
  "waitForPendingMPIRequest requestId h s =
    (case map_of (ms_icomm s) requestId of
       Some rec \<Rightarrow>
         (case ic_msgNode rec of
            None \<Rightarrow> Inl Null_Dereference
          | Some p \<Rightarrow> Inr (wait_calls rec, True, node_update p (setData None) h,
                           s\<lparr>ms_icomm := smap_erase requestId (ms_icomm s)\<rparr>))
     | None \<Rightarrow> Inr ([], False, h, s))"

text \<open>The walk over the records whose message node is the given node: the handles waited for, the heap
  and the records that stay.\<close>

fun wait_for_node ::
  "node_ref \<Rightarrow> (u64, icomm_record) smap \<Rightarrow> heap \<Rightarrow> nat list \<times> heap \<times> (u64, icomm_record) smap" where
  "wait_for_node node [] h = ([], h, [])"
| "wait_for_node node ((k, rec) # m) h =
    (if ic_msgNode rec = Some node then
       (case wait_for_node node m (node_update node (setData None) h) of (ws, h, m') \<Rightarrow> (wait_calls rec @ ws, h, m'))
     else (case wait_for_node node m h of (ws, h, m') \<Rightarrow> (ws, h, (k, rec) # m')))"

definition waitForPendingMPIRequests :: "node_ref \<Rightarrow> heap \<Rightarrow> mpi_stream \<Rightarrow> nat list \<times> heap \<times> mpi_stream" where
  "waitForPendingMPIRequests node h s =
    (case wait_for_node node (ms_icomm s) h of (ws, h, m) \<Rightarrow> (ws, h, s\<lparr>ms_icomm := m\<rparr>))"

fun wait_for_all :: "(u64, icomm_record) smap \<Rightarrow> heap \<Rightarrow> (nat list \<times> heap) result" where
  "wait_for_all [] h = Inr ([], h)"
| "wait_for_all ((k, rec) # m) h =
    (case ic_msgNode rec of
       None \<Rightarrow> Inl Null_Dereference
     | Some p \<Rightarrow> bind_res (wait_for_all m (node_update p (setData None) h)) (\<lambda>(ws, h). Inr (wait_calls rec @ ws, h)))"

definition waitForAllPendingMPIRequests :: "heap \<Rightarrow> mpi_stream \<Rightarrow> (nat list \<times> heap \<times> mpi_stream) result" where
  "waitForAllPendingMPIRequests h s =
    bind_res (wait_for_all (ms_icomm s) h) (\<lambda>(ws, h). Inr (ws, h, s\<lparr>ms_icomm := []\<rparr>))"

text \<open>\<^verbatim>\<open>MPI_Test\<close> says for each handle whether its request has finished.\<close>

definition finished :: "(nat \<Rightarrow> bool) \<Rightarrow> nat option \<Rightarrow> bool" where
  "finished mpi_test request = (case request of None \<Rightarrow> False | Some q \<Rightarrow> mpi_test q)"

fun test_all ::
  "(nat \<Rightarrow> bool) \<Rightarrow> (u64, icomm_record) smap \<Rightarrow> heap \<Rightarrow> (heap \<times> (u64, icomm_record) smap) result" where
  "test_all mpi_test [] h = Inr (h, [])"
| "test_all mpi_test ((k, rec) # m) h =
    (let f0 = finished mpi_test (ic_request0 rec); f1 = finished mpi_test (ic_request1 rec) in
     if f0 \<and> f1 then
       (case ic_msgNode rec of
          None \<Rightarrow> Inl Null_Dereference
        | Some p \<Rightarrow> test_all mpi_test m (node_update p (setData None) h))
     else
       (let rec = (if f0 then rec\<lparr>ic_request0 := None\<rparr> else rec);
            rec = (if f1 then rec\<lparr>ic_request1 := None\<rparr> else rec)
        in bind_res (test_all mpi_test m h) (\<lambda>(h, m'). Inr (h, (k, rec) # m'))))"

definition testAllPendingMPIRequests :: "(nat \<Rightarrow> bool) \<Rightarrow> heap \<Rightarrow> mpi_stream \<Rightarrow> (heap \<times> mpi_stream) result" where
  "testAllPendingMPIRequests mpi_test h s =
    bind_res (test_all mpi_test (ms_icomm s) h) (\<lambda>(h, m). Inr (h, s\<lparr>ms_icomm := m\<rparr>))"

end
