(* ===== verification/MpiStreamLaws.thy ===== *)
theory MpiStreamLaws
  imports MpiStreamModel
begin

text \<open>Laws of the registry of non-blocking communications: calls that come as complete pairs of event
  and leave never dereference a null pointer and keep every record under its own request; a request
  is found again by the wait that completes it; and a record is dropped by polling only when both
  of its requests finish in the same poll.\<close>

section \<open>Calls as the trace delivers them\<close>

text \<open>A non-blocking call is an event followed by the leave of its region; the other events stand for
  themselves.\<close>

datatype mpi_call =
    Call_Irecv u64 node_ref
  | Call_Isend u64 u64 u32 u32 node_ref
  | Irecv_Complete u64 u64 u32 u32
  | Isend_Complete u64
  | Wait_Leave node_ref
  | Waitall_Leave node_ref
  | Test_Leave node_ref
  | Testall_Leave node_ref
  | Poll "nat \<Rightarrow> bool"
  | Wait_Request u64
  | Wait_Node node_ref
  | Finalize

fun handle_call :: "mpi_call \<Rightarrow> heap \<times> mpi_stream \<Rightarrow> (heap \<times> mpi_stream) result" where
  "handle_call (Call_Irecv r n) (h, s) = Inr (handleMPIIrecvLeave n h (handleMPIIrecvRequest r s))"
| "handle_call (Call_Isend r p c t n) (h, s) = Inr (handleMPIIsendLeave n h (handleMPIIsend r p c t s))"
| "handle_call (Irecv_Complete r p c t) (h, s) = handleMPIIrecv r p c t h s"
| "handle_call (Isend_Complete r) (h, s) = Inr (h, handleMPIIsendComplete r s)"
| "handle_call (Wait_Leave n) (h, s) = handleMPIWaitLeave n h s"
| "handle_call (Waitall_Leave n) (h, s) = setMPIWaitallNodeData n h s"
| "handle_call (Test_Leave n) (h, s) = handleMPITest n h s"
| "handle_call (Testall_Leave n) (h, s) = handleMPITestall n h s"
| "handle_call (Poll mpi_test) (h, s) = testAllPendingMPIRequests mpi_test h s"
| "handle_call (Wait_Request r) (h, s) =
     bind_res (waitForPendingMPIRequest r h s) (\<lambda>(ws, found, h, s). Inr (h, s))"
| "handle_call (Wait_Node n) (h, s) = (case waitForPendingMPIRequests n h s of (ws, h, s) \<Rightarrow> Inr (h, s))"
| "handle_call Finalize (h, s) = bind_res (waitForAllPendingMPIRequests h s) (\<lambda>(ws, h, s). Inr (h, s))"

fun run_calls :: "mpi_call list \<Rightarrow> heap \<times> mpi_stream \<Rightarrow> (heap \<times> mpi_stream) result" where
  "run_calls [] st = Inr st"
| "run_calls (c # cs) st = bind_res (handle_call c st) (run_calls cs)"

text \<open>Identifiers below the reserved largest number, and leaves that have a first node.\<close>

fun valid_call :: "heap \<Rightarrow> mpi_call \<Rightarrow> bool" where
  "valid_call h (Call_Isend r p c t n) \<longleftrightarrow> r \<noteq> UINT64_MAX \<and> p \<noteq> UINT64_MAX"
| "valid_call h (Wait_Leave n) \<longleftrightarrow> gn_first (h n) \<noteq> None"
| "valid_call h (Waitall_Leave n) \<longleftrightarrow> gn_first (h n) \<noteq> None"
| "valid_call h (Test_Leave n) \<longleftrightarrow> gn_first (h n) \<noteq> None"
| "valid_call h (Testall_Leave n) \<longleftrightarrow> gn_first (h n) \<noteq> None"
| "valid_call h c \<longleftrightarrow> True"

section \<open>The invariant of the registry\<close>

definition rec_ok :: "u64 \<Rightarrow> icomm_record \<Rightarrow> bool" where
  "rec_ok k rec \<longleftrightarrow> ic_requestId rec = k \<and> ic_msgNode rec \<noteq> None"

definition icomm_ok :: "(u64, icomm_record) smap \<Rightarrow> bool" where
  "icomm_ok m \<longleftrightarrow> smap_inv m \<and> (\<forall>(k, rec)\<in>set m. rec_ok k rec)"

lemma icomm_ok_lookup: "icomm_ok m \<Longrightarrow> map_of m k = Some rec \<Longrightarrow> rec_ok k rec"
  by (auto simp: icomm_ok_def dest: map_of_SomeD)

lemma smap_update_set: "x \<in> set (smap_update k v m) \<Longrightarrow> x = (k, v) \<or> x \<in> set m"
  by (induction k v m rule: smap_update.induct) (auto split: if_split_asm)

lemma icomm_ok_update: "icomm_ok m \<Longrightarrow> rec_ok k rec \<Longrightarrow> icomm_ok (smap_update k rec m)"
  by (auto simp: icomm_ok_def dest: smap_update_set)

lemma icomm_ok_erase: "icomm_ok m \<Longrightarrow> icomm_ok (smap_erase k m)"
  by (auto simp: icomm_ok_def) (auto simp: smap_erase_def)

lemma icomm_ok_Nil [simp]: "icomm_ok []"
  by (simp add: icomm_ok_def)

lemma icomm_ok_Cons: "icomm_ok ((k, rec) # m) \<Longrightarrow> rec_ok k rec \<and> icomm_ok m"
  by (simp add: icomm_ok_def smap_inv_def)

lemma icomm_ok_Cons_mono:
  "icomm_ok ((k, rec) # m) \<Longrightarrow> rec_ok k rec' \<Longrightarrow> icomm_ok m' \<Longrightarrow> fst ` set m' \<subseteq> fst ` set m \<Longrightarrow>
   icomm_ok ((k, rec') # m')"
  by (fastforce simp: icomm_ok_def smap_inv_def)

text \<open>Updates of a node keep the pair of it.\<close>

definition same_pairs :: "heap \<Rightarrow> heap \<Rightarrow> bool" where
  "same_pairs h h' \<longleftrightarrow> (\<forall>p. gn_first (h' p) = gn_first (h p))"

lemma same_pairs_refl [simp]: "same_pairs h h"
  by (simp add: same_pairs_def)

lemma same_pairs_trans: "same_pairs h h' \<Longrightarrow> same_pairs h' h'' \<Longrightarrow> same_pairs h h''"
  by (simp add: same_pairs_def)

lemma same_pairs_update [simp]:
  "same_pairs h (node_update p (setData d) h') \<longleftrightarrow> same_pairs h h'"
  "same_pairs h (node_update p (setReferencedStreamId i) h') \<longleftrightarrow> same_pairs h h'"
  "same_pairs h (node_update p (setCounter m v) h') \<longleftrightarrow> same_pairs h h'"
  by (auto simp: same_pairs_def node_update_def setData_def setReferencedStreamId_def setCounter_def)

lemma same_pairs_update_left [simp]: "same_pairs (node_update p (setData d) h) h' \<longleftrightarrow> same_pairs h h'"
  by (auto simp: same_pairs_def node_update_def setData_def)

lemma valid_call_pairs: "same_pairs h h' \<Longrightarrow> valid_call h' c \<longleftrightarrow> valid_call h c"
  by (cases c) (simp_all add: same_pairs_def)

section \<open>Preservation, one operation at a time\<close>

abbreviation call_post :: "heap \<Rightarrow> (heap \<times> mpi_stream) result \<Rightarrow> bool" where
  "call_post h r \<equiv> \<exists>h' s'. r = Inr (h', s') \<and> same_pairs h h' \<and> icomm_ok (ms_icomm s')"

lemma removePending_ok: "icomm_ok (ms_icomm s) \<Longrightarrow> call_post h (removePendingMPIRequest r h s)"
  using icomm_ok_lookup [of "ms_icomm s" r]
  by (auto simp: removePendingMPIRequest_def rec_ok_def icomm_ok_erase split: option.split)

lemma removePending_all_ok: "icomm_ok (ms_icomm s) \<Longrightarrow> call_post h (removePending_all rs h s)"
proof (induction rs arbitrary: h s)
  case (Cons r rs)
  obtain h1 s1 where s1: "removePendingMPIRequest r h s = Inr (h1, s1)" "same_pairs h h1" "icomm_ok (ms_icomm s1)"
    using removePending_ok [OF Cons(2)] by blast
  then show ?case
    using Cons(1) [OF s1(3), of h1] by (auto intro: same_pairs_trans)
qed auto

lemma wait_for_node_ok:
  "icomm_ok m \<Longrightarrow> wait_for_node n m h = (ws, h', m') \<Longrightarrow>
   same_pairs h h' \<and> set m' \<subseteq> set m \<and> icomm_ok m'"
proof (induction n m h arbitrary: ws h' m' rule: wait_for_node.induct)
  case (2 node k rec m h)
  have ok: "rec_ok k rec" "icomm_ok m"
    using icomm_ok_Cons [OF 2(3)] by auto
  show ?case
  proof (cases "ic_msgNode rec = Some node")
    case True
    then show ?thesis
      using 2(1) [OF True ok(2)] 2(4) by (fastforce split: prod.splits)
  next
    case False
    then obtain ws1 h1 m1 where r: "wait_for_node node m h = (ws1, h1, m1)" "m' = (k, rec) # m1" "h' = h1"
      using 2(4) by (auto split: prod.splits)
    then show ?thesis
      using 2(2) [OF False ok(2) r(1)] icomm_ok_Cons_mono [OF 2(3) ok(1), of m1] by auto
  qed
qed auto

lemma wait_for_all_ok: "icomm_ok m \<Longrightarrow> \<exists>ws h'. wait_for_all m h = Inr (ws, h') \<and> same_pairs h h'"
proof (induction m h rule: wait_for_all.induct)
  case (2 k rec m h)
  obtain p where p: "ic_msgNode rec = Some p" "icomm_ok m"
    using icomm_ok_Cons [OF 2(2)] by (auto simp: rec_ok_def)
  then show ?case
    using 2(1) [OF p] by auto
qed auto

lemma test_all_ok:
  "icomm_ok m \<Longrightarrow> \<exists>h' m'. test_all t m h = Inr (h', m') \<and> same_pairs h h' \<and> fst ` set m' \<subseteq> fst ` set m \<and> icomm_ok m'"
proof (induction t m h rule: test_all.induct)
  case (2 t k rec m h)
  have ok: "rec_ok k rec" "icomm_ok m"
    using icomm_ok_Cons [OF 2(3)] by auto
  then obtain p where p: "ic_msgNode rec = Some p"
    by (auto simp: rec_ok_def)
  define f0 f1 where f: "f0 = finished t (ic_request0 rec)" "f1 = finished t (ic_request1 rec)"
  show ?case
  proof (cases "f0 \<and> f1")
    case True
    then obtain h' m' where "test_all t m (node_update p (setData None) h) = Inr (h', m')"
        "same_pairs (node_update p (setData None) h) h'" "fst ` set m' \<subseteq> fst ` set m" "icomm_ok m'"
      using 2(1) [OF f _ p ok(2)] by auto
    then show ?thesis
      using True p f by auto
  next
    case False
    define rec' where "rec' = (let rec = (if f0 then rec\<lparr>ic_request0 := None\<rparr> else rec) in
        if f1 then rec\<lparr>ic_request1 := None\<rparr> else rec)"
    obtain h' m' where r: "test_all t m h = Inr (h', m')" "same_pairs h h'" "fst ` set m' \<subseteq> fst ` set m" "icomm_ok m'"
      using 2(2) [OF f False refl refl ok(2)] by auto
    have "test_all t ((k, rec) # m) h = Inr (h', (k, rec') # m')"
      using False r(1) by (auto simp: Let_def rec'_def simp flip: f)
    moreover have "rec_ok k rec'"
      using ok(1) by (auto simp: rec_ok_def rec'_def Let_def)
    ultimately show ?thesis
      using r icomm_ok_Cons_mono [OF 2(3) _ r(4,3), of rec'] by (simp del: test_all.simps) auto
  qed
qed auto

lemma handle_call_ok:
  assumes "icomm_ok (ms_icomm s)" "valid_call h c"
  shows "call_post h (handle_call c (h, s))"
proof (cases c)
  case (Call_Irecv r n)
  then show ?thesis
    using assms by (simp add: handleMPIIrecvLeave_def handleMPIIrecvRequest_def Let_def icomm_ok_update rec_ok_def)
next
  case (Call_Isend r p cm t n)
  define rec where "rec = \<lparr>ic_comRef = Some cm, ic_msgTag = Some t, ic_requestId = r,
            ic_request0 = None, ic_request1 = None, ic_msgNode = None, ic_syncNode = None\<rparr>"
  have u: "icomm_ok (smap_update r (rec\<lparr>ic_msgNode := Some n\<rparr>) (smap_update r rec (ms_icomm s)))"
  proof -
    have "smap_update r v (smap_update r w m) = smap_update r v m" for v w and m :: "(u64, icomm_record) smap"
      by (induction m) auto
    then show ?thesis
      using assms(1) by (simp add: icomm_ok_update rec_ok_def rec_def)
  qed
  have "smap_inv (ms_icomm s)"
    using assms(1) by (simp add: icomm_ok_def)
  then have "handle_call c (h, s) = Inr (node_update n (setReferencedStreamId p) (node_update n (setData (Some (Icomm_Ref r))) h),
      s\<lparr>ms_pendingMPIRequestId := UINT64_MAX, ms_mpiIsendPartner := UINT64_MAX,
        ms_icomm := smap_update r (rec\<lparr>ic_msgNode := Some n\<rparr>) (smap_update r rec (ms_icomm s))\<rparr>)"
    using assms(2) Call_Isend by (simp add: handleMPIIsendLeave_def handleMPIIsend_def Let_def smap_lookup_update rec_def)
  then show ?thesis
    using u by simp
next
  case (Irecv_Complete r p cm t)
  then show ?thesis
    using assms icomm_ok_lookup [of "ms_icomm s" r]
    by (auto simp: handleMPIIrecv_def rec_ok_def icomm_ok_update Let_def split: option.split)
next
  case (Isend_Complete r)
  then show ?thesis
    using assms by (simp add: handleMPIIsendComplete_def)
next
  case (Wait_Leave n)
  then show ?thesis
    using assms icomm_ok_lookup [of "ms_icomm s"]
    by (auto simp: handleMPIWaitLeave_def assign_whole_region_def icomm_ok_update rec_ok_def split: list.split option.split)
next
  case (Waitall_Leave n)
  then show ?thesis
    using assms by (auto simp: setMPIWaitallNodeData_def assign_whole_region_def)
next
  case (Test_Leave n)
  then show ?thesis
    using assms icomm_ok_lookup [of "ms_icomm s"]
    by (auto simp: handleMPITest_def assign_whole_region_def icomm_ok_update icomm_ok_erase rec_ok_def
        split: list.split option.split)
next
  case (Testall_Leave n)
  then show ?thesis
    using assms removePending_all_ok [OF assms(1), of "ms_pendingRequests s" h]
    by (auto simp: handleMPITestall_def assign_whole_region_def)
next
  case (Poll t)
  then show ?thesis
    using test_all_ok [OF assms(1), of t h] by (auto simp: testAllPendingMPIRequests_def)
next
  case (Wait_Request r)
  then show ?thesis
    using assms icomm_ok_lookup [of "ms_icomm s" r]
    by (auto simp: waitForPendingMPIRequest_def rec_ok_def icomm_ok_erase split: option.split)
next
  case (Wait_Node n)
  obtain ws h' m' where "wait_for_node n (ms_icomm s) h = (ws, h', m')"
    by (cases "wait_for_node n (ms_icomm s) h")
  then show ?thesis
    using Wait_Node wait_for_node_ok [OF assms(1)] by (auto simp: waitForPendingMPIRequests_def)
next
  case Finalize
  then show ?thesis
    using wait_for_all_ok [OF assms(1), of h] by (auto simp: waitForAllPendingMPIRequests_def)
qed

lemma run_calls_ok:
  "icomm_ok (ms_icomm s) \<Longrightarrow> (\<And>c. c \<in> set cs \<Longrightarrow> valid_call h c) \<Longrightarrow> call_post h (run_calls cs (h, s))"
proof (induction cs arbitrary: h s)
  case (Cons c cs)
  obtain h1 s1 where s1: "handle_call c (h, s) = Inr (h1, s1)" "same_pairs h h1" "icomm_ok (ms_icomm s1)"
    using handle_call_ok [OF Cons(2), of h c] Cons(3) by auto
  have "valid_call h1 d" if "d \<in> set cs" for d
    using Cons(3) [of d] that valid_call_pairs [OF s1(2)] by simp
  then obtain h2 s2 where "run_calls cs (h1, s1) = Inr (h2, s2)" "same_pairs h1 h2" "icomm_ok (ms_icomm s2)"
    using Cons(1) [OF s1(3), of h1] by blast
  then show ?case
    using s1 by (auto intro: same_pairs_trans)
qed auto

section \<open>Properties\<close>

text \<open>C35. A sequence of complete calls and completions on a new MPI stream, with valid identifiers and
  leaves that have a first node, never dereferences a null pointer; afterwards every record is kept
  under the request it was made for, once, and knows its message node.\<close>
theorem mpi_calls_safe:
  assumes "\<And>c. c \<in> set cs \<Longrightarrow> valid_call h c"
  shows "\<exists>h' s'. run_calls cs (h, MpiStream_new i parentId name uninit) = Inr (h', s') \<and>
    distinct (map fst (ms_icomm s')) \<and>
    (\<forall>r rec. getPendingMPIIcommRecord r s' = Some rec \<longrightarrow> ic_requestId rec = r \<and> ic_msgNode rec \<noteq> None)"
proof -
  have "icomm_ok (ms_icomm (MpiStream_new i parentId name uninit))"
    by (simp add: MpiStream_new_def event_stream.defs mpi_stream.defs)
  from run_calls_ok [OF this, of cs h] obtain h' s' where
      "run_calls cs (h, MpiStream_new i parentId name uninit) = Inr (h', s')" "icomm_ok (ms_icomm s')"
    using assms by auto
  then show ?thesis
    using icomm_ok_lookup [of "ms_icomm s'"]
    by (auto simp: getPendingMPIIcommRecord_def rec_ok_def icomm_ok_def smap_inv_distinct)
qed

theorem mpi_calls_safe_witness:
  "\<exists>h' s'. run_calls [Call_Isend 7 1 0 99 3, Call_Irecv 8 4, Isend_Complete 7, Wait_Leave 5]
     (demo_heap, MpiStream_new 2 0 ''rank 0'' \<lparr>bc_comRef = 0, bc_sendPartnerId = 0, bc_recvPartnerId = 0, bc_sendTag = 0, bc_recvTag = 0\<rparr>)
     = Inr (h', s') \<and> distinct (map fst (ms_icomm s'))"
proof -
  have v: "valid_call demo_heap c" if "c \<in> set [Call_Isend 7 1 0 99 3, Call_Irecv 8 4, Isend_Complete 7, Wait_Leave 5]" for c
    using that by (auto simp: demo_heap_def GraphNode_new_def Node_new_def node.defs graph_node.defs Let_def)
  show ?thesis
    using mpi_calls_safe [OF v] by blast
qed

text \<open>C36. A wait finds the request it completes: the leave of the receive call makes a record for the
  announced request, the completion puts the partner on the node and communicator and tag into the
  record, and the leave of the wait becomes its synchronisation node and points back to it.\<close>
theorem irecv_wait_roundtrip:
  assumes "r \<noteq> UINT64_MAX" "ms_pendingRequests s = []" "smap_inv (ms_icomm s)" "n \<noteq> w"
  shows "\<exists>h' s'. run_calls [Call_Irecv r n, Irecv_Complete r p c t, Wait_Leave w] (h, s) = Inr (h', s') \<and>
    getPendingMPIIcommRecord r s' = Some \<lparr>ic_comRef = Some c, ic_msgTag = Some t, ic_requestId = r,
       ic_request0 = None, ic_request1 = None, ic_msgNode = Some n, ic_syncNode = Some w\<rparr> \<and>
    gn_data (h' w) = Some (Icomm_Ref r) \<and> gn_data (h' n) = Some (Icomm_Ref r) \<and>
    nd_referencedStream (h' n) = p \<and> ms_pendingRequests s' = [] \<and>
    (\<forall>q. q \<noteq> r \<longrightarrow> getPendingMPIIcommRecord q s' = getPendingMPIIcommRecord q s)"
  using assms
  by (simp add: handleMPIIrecvRequest_def handleMPIIrecvLeave_def handleMPIIrecv_def handleMPIWaitLeave_def
      getPendingMPIIcommRecord_def smap_lookup_update node_update_def setData_def setReferencedStreamId_def Let_def)

theorem irecv_wait_roundtrip_witness:
  "\<exists>h' s'. run_calls [Call_Irecv 8 3, Irecv_Complete 8 1 0 99, Wait_Leave 5]
     (demo_heap, MpiStream_new 2 0 ''rank 0'' \<lparr>bc_comRef = 0, bc_sendPartnerId = 0, bc_recvPartnerId = 0, bc_sendTag = 0, bc_recvTag = 0\<rparr>)
     = Inr (h', s') \<and> nd_referencedStream (h' 3) = 1"
proof -
  let ?s = "MpiStream_new 2 0 ''rank 0'' \<lparr>bc_comRef = 0, bc_sendPartnerId = 0, bc_recvPartnerId = 0, bc_sendTag = 0, bc_recvTag = 0\<rparr>"
  have "ms_pendingRequests ?s = []" "smap_inv (ms_icomm ?s)"
    by (simp_all add: MpiStream_new_def event_stream.defs mpi_stream.defs)
  then show ?thesis
    using irecv_wait_roundtrip [of 8 ?s 3 5 1 0 99 demo_heap] by auto
qed

text \<open>Polling never drops a record one of whose two requests is null already, whatever the poll
  reports: such a record stays until it is waited for.\<close>
lemma poll_keeps_half_finished:
  assumes "testAllPendingMPIRequests mpi_test h s = Inr (h', s')" "smap_inv (ms_icomm s)"
    and "getPendingMPIIcommRecord r s = Some rec" "ic_request0 rec = None \<or> ic_request1 rec = None"
  shows "\<exists>rec'. getPendingMPIIcommRecord r s' = Some rec' \<and> (ic_request0 rec' = None \<or> ic_request1 rec' = None)"
proof -
  have "\<exists>rec'. map_of m' r = Some rec' \<and> (ic_request0 rec' = None \<or> ic_request1 rec' = None)"
    if "test_all mpi_test m h = Inr (h', m')" "smap_inv m" "map_of m r = Some rec" for m m' h h'
    using that
  proof (induction mpi_test m h arbitrary: h' m' rule: test_all.induct)
    case (2 t k x m h)
    show ?case
    proof (cases "k = r")
      case True
      then have "\<not> (finished t (ic_request0 x) \<and> finished t (ic_request1 x))"
        using 2(5) assms(4) by (auto simp: finished_def)
      then show ?thesis
        using 2(3,5) True assms(4) by (auto simp: bind_res_Inr Let_def split: if_splits)
    next
      case False
      then have m: "map_of m r = Some rec" "smap_inv m"
        using 2(4,5) by (auto simp: smap_inv_def)
      show ?thesis
      proof (cases "finished t (ic_request0 x) \<and> finished t (ic_request1 x)")
        case f: True
        then obtain p where p: "ic_msgNode x = Some p" "test_all t m (node_update p (setData None) h) = Inr (h', m')"
          using 2(3) by (auto split: option.splits)
        show ?thesis
          using 2(1) [OF refl refl f p(1,2) m(2,1)] .
      next
        case f: False
        then obtain h1 m1 where r: "test_all t m h = Inr (h1, m1)" "map_of m' r = map_of m1 r"
          using 2(3) False by (auto simp: bind_res_Inr Let_def)
        show ?thesis
          using 2(2) [OF refl refl f refl refl r(1) m(2,1)] r(2) by simp
      qed
    qed
  qed simp
  then show ?thesis
    using assms(1-3) by (auto simp: testAllPendingMPIRequests_def getPendingMPIIcommRecord_def bind_res_Inr)
qed

end
