(* ===== verification/DeviceStreamModel.thy ===== *)
theory DeviceStreamModel
  imports MpiStreamLaws
begin

text \<open>The device streams of \<^verbatim>\<open>backend/DeviceStream.cpp\<close>: a stream with the list of the kernels that no
  synchronisation has seen yet.\<close>

section \<open>State and operations\<close>

record device_stream = event_stream +
  ds_deviceId :: int
  ds_nativeStreamId :: int
  ds_runningKernelEnter :: "node_ref option"
  ds_pendingKernels :: "node_ref list"

definition DeviceStream_new :: "u64 \<Rightarrow> u64 \<Rightarrow> string \<Rightarrow> device_stream" where
  "DeviceStream_new i parentId name =
    event_stream.extend (EventStream_new i parentId name ES_DEVICE) (device_stream.fields (- 1) (- 1) None [])"

definition setDeviceId :: "int \<Rightarrow> device_stream \<Rightarrow> device_stream" where
  "setDeviceId d s = s\<lparr>ds_deviceId := d\<rparr>"

definition setNativeStreamId :: "int \<Rightarrow> device_stream \<Rightarrow> device_stream" where
  "setNativeStreamId i s = s\<lparr>ds_nativeStreamId := i\<rparr>"

definition setRunningKernel :: "node_ref option \<Rightarrow> device_stream \<Rightarrow> device_stream" where
  "setRunningKernel k s = s\<lparr>ds_runningKernelEnter := k\<rparr>"

definition addPendingKernel :: "node_ref \<Rightarrow> device_stream \<Rightarrow> device_stream" where
  "addPendingKernel k s = s\<lparr>ds_pendingKernels := ds_pendingKernels s @ [k]\<rparr>"

definition getLastPendingKernel :: "device_stream \<Rightarrow> node_ref option" where
  "getLastPendingKernel s = (case rev (ds_pendingKernels s) of [] \<Rightarrow> None | k # ks \<Rightarrow> Some k)"

definition consumeLastPendingKernel :: "device_stream \<Rightarrow> node_ref option \<times> device_stream" where
  "consumeLastPendingKernel s = (case rev (ds_pendingKernels s) of
      [] \<Rightarrow> (None, s) | k # ks \<Rightarrow> (Some k, s\<lparr>ds_pendingKernels := butlast (ds_pendingKernels s)\<rparr>))"

definition clearPendingKernels :: "device_stream \<Rightarrow> device_stream" where
  "clearPendingKernels s = s\<lparr>ds_pendingKernels := []\<rparr>"

text \<open>The elements from the begin to the iterator at which the loop stops are erased; that is the whole
  list when the kernel is not in it.\<close>

definition consumePendingKernels :: "node_ref option \<Rightarrow> device_stream \<Rightarrow> device_stream" where
  "consumePendingKernels kernelLeave s = (case kernelLeave of
      None \<Rightarrow> s
    | Some k \<Rightarrow>
        if ds_pendingKernels s = [] then s
        else
          (let s = (if last (ds_pendingKernels s) = k then clearPendingKernels s else s)
           in s\<lparr>ds_pendingKernels := dropWhile (\<lambda>q. q \<noteq> k) (ds_pendingKernels s)\<rparr>))"

text \<open>\<^verbatim>\<open>setLink\<close> asserts when a kernel has a link already.\<close>

fun set_sync_links :: "node_ref option \<Rightarrow> node_ref list \<Rightarrow> heap \<Rightarrow> heap result" where
  "set_sync_links l [] h = Inr h"
| "set_sync_links l (k # ks) h =
    bind_res (setLink l (h k)) (\<lambda>n. set_sync_links l ks (h(k := n)))"

definition setPendingKernelsSyncLink :: "node_ref option \<Rightarrow> heap \<Rightarrow> device_stream \<Rightarrow> heap result" where
  "setPendingKernelsSyncLink syncLeave h s = set_sync_links syncLeave (ds_pendingKernels s) h"

definition device_reset :: "device_stream \<Rightarrow> device_stream" where
  "device_reset s = es_reset s"

section \<open>The pending kernels as a stack\<close>

text \<open>The interface of a stack of pending items: what is pushed last is seen and taken first.\<close>

locale pending_stack =
  fixes push :: "'x \<Rightarrow> 's \<Rightarrow> 's" and top :: "'s \<Rightarrow> 'x option" and pop :: "'s \<Rightarrow> 'x option \<times> 's"
    and items :: "'s \<Rightarrow> 'x list"
  assumes items_push: "items (push x s) = items s @ [x]"
    and top_items: "top s = (if items s = [] then None else Some (last (items s)))"
    and pop_items: "fst (pop s) = top s" "items (snd (pop s)) = butlast (items s)"
begin

lemma pop_push: "fst (pop (push x s)) = Some x \<and> items (snd (pop (push x s))) = items s"
  by (simp add: pop_items top_items items_push)

fun pop_all :: "nat \<Rightarrow> 's \<Rightarrow> 'x option list" where
  "pop_all 0 s = []"
| "pop_all (Suc n) s = fst (pop s) # pop_all n (snd (pop s))"

lemma pop_all_items: "n \<le> length (items s) \<Longrightarrow> pop_all n s = map Some (take n (rev (items s)))"
proof (induction n arbitrary: s)
  case (Suc n)
  then obtain xs x where x: "items s = xs @ [x]"
    by (cases "items s" rule: rev_cases) auto
  then show ?case
    using Suc(1) [of "snd (pop s)"] Suc(2) by (simp add: pop_items top_items)
qed simp

lemma pop_all_pushes: "pop_all (length xs) (fold push xs s) = map Some (rev xs)"
proof -
  have "items (fold push xs s) = items s @ xs"
    by (induction xs arbitrary: s) (simp_all add: items_push)
  then show ?thesis
    by (subst pop_all_items) simp_all
qed

end

interpretation kernels: pending_stack addPendingKernel getLastPendingKernel consumeLastPendingKernel ds_pendingKernels
proof
  fix s :: device_stream and x
  show "ds_pendingKernels (addPendingKernel x s) = ds_pendingKernels s @ [x]"
    by (simp add: addPendingKernel_def)
  show "getLastPendingKernel s = (if ds_pendingKernels s = [] then None else Some (last (ds_pendingKernels s)))"
    by (cases "ds_pendingKernels s" rule: rev_cases) (simp_all add: getLastPendingKernel_def)
  show "fst (consumeLastPendingKernel s) = getLastPendingKernel s"
    by (cases "ds_pendingKernels s" rule: rev_cases) (simp_all add: consumeLastPendingKernel_def getLastPendingKernel_def)
  show "ds_pendingKernels (snd (consumeLastPendingKernel s)) = butlast (ds_pendingKernels s)"
    by (cases "ds_pendingKernels s" rule: rev_cases) (simp_all add: consumeLastPendingKernel_def)
qed

text \<open>The results of taking a number of kernels one after the other.\<close>

fun consume_kernels :: "nat \<Rightarrow> device_stream \<Rightarrow> node_ref option list" where
  "consume_kernels 0 s = []"
| "consume_kernels (Suc n) s = fst (consumeLastPendingKernel s) # consume_kernels n (snd (consumeLastPendingKernel s))"

lemma consume_kernels_pop: "consume_kernels n s = kernels.pop_all n s"
  by (induction n arbitrary: s) simp_all

section \<open>Consuming a range of kernels\<close>

text \<open>\<^verbatim>\<open>consumePendingKernels\<close> of a kernel in the list: the kernels added before it are taken out;
  the kernel itself and those added after it stay, unless it is the last one, then all are taken
  out. A kernel that is not in the list takes out all of them.\<close>
lemma consumePendingKernels_range:
  "distinct (ds_pendingKernels s) \<Longrightarrow>
   (\<forall>before after. ds_pendingKernels s = before @ k # after \<longrightarrow>
      ds_pendingKernels (consumePendingKernels (Some k) s) = (if after = [] then [] else k # after)) \<and>
   (k \<notin> set (ds_pendingKernels s) \<longrightarrow> ds_pendingKernels (consumePendingKernels (Some k) s) = [])"
proof (intro conjI allI impI)
  fix before after
  assume d: "distinct (ds_pendingKernels s)" and e: "ds_pendingKernels s = before @ k # after"
  have "\<forall>q\<in>set before. q \<noteq> k"
    using d e by auto
  then have "dropWhile (\<lambda>q. q \<noteq> k) (before @ k # after) = k # after"
    by (simp add: dropWhile_append2)
  then show "ds_pendingKernels (consumePendingKernels (Some k) s) = (if after = [] then [] else k # after)"
    using d e by (auto simp: consumePendingKernels_def clearPendingKernels_def Let_def)
next
  assume n: "k \<notin> set (ds_pendingKernels s)"
  then have "dropWhile (\<lambda>q. q \<noteq> k) (ds_pendingKernels s) = []"
    by (auto simp: dropWhile_eq_Nil_conv)
  then show "ds_pendingKernels (consumePendingKernels (Some k) s) = []"
    by (simp add: consumePendingKernels_def clearPendingKernels_def Let_def)
qed

text \<open>The pending kernels are taken one by one in the reverse order of their addition, the kernels
  added last first.\<close>
lemma pending_kernels_lifo:
  "consume_kernels (length ks) (fold addPendingKernel ks s) = map Some (rev ks)"
  unfolding consume_kernels_pop by (rule kernels.pop_all_pushes)

text \<open>A pending kernel is linked to the synchronisation that waits for it at most once.\<close>

lemma set_sync_links_ok:
  "distinct ks \<Longrightarrow> (\<And>k. k \<in> set ks \<Longrightarrow> nd_link (h k) = None) \<Longrightarrow>
   \<exists>h'. set_sync_links l ks h = Inr h' \<and> (\<forall>p. nd_link (h' p) = (if p \<in> set ks then l else nd_link (h p)))"
proof (induction ks arbitrary: h)
  case (Cons k ks)
  have "\<exists>h'. set_sync_links l ks (h(k := (h k)\<lparr>nd_link := l\<rparr>)) = Inr h' \<and>
     (\<forall>p. nd_link (h' p) = (if p \<in> set ks then l else nd_link ((h(k := (h k)\<lparr>nd_link := l\<rparr>)) p)))"
    using Cons(2,3) by (intro Cons(1)) auto
  then show ?case
    using Cons(2,3) by (auto simp: setLink_def)
qed simp

lemma set_sync_links_twice:
  "k \<in> set ks \<Longrightarrow> nd_link (h k) \<noteq> None \<Longrightarrow> \<exists>e. set_sync_links l ks h = Inl e"
proof (induction ks arbitrary: h)
  case (Cons q ks)
  show ?case
  proof (cases "nd_link (h q)")
    case None
    define h' where "h' = h(q := (h q)\<lparr>nd_link := l\<rparr>)"
    have "k \<in> set ks" "nd_link (h' k) \<noteq> None"
      using Cons(2,3) None by (auto simp: h'_def)
    then obtain e where "set_sync_links l ks h' = Inl e"
      using Cons(1) by blast
    then show ?thesis
      using None by (simp add: setLink_def h'_def)
  qed (auto simp add: setLink_def)
qed simp

text \<open>\<^verbatim>\<open>setPendingKernelsSyncLink\<close> links every pending kernel to the given leave, and no other node,
  when none of them has a link; the assertion stops it as soon as one of them has.\<close>
lemma setPendingKernelsSyncLink_spec:
  assumes "distinct (ds_pendingKernels s)"
  shows "if \<exists>k\<in>set (ds_pendingKernels s). nd_link (h k) \<noteq> None
    then \<exists>e. setPendingKernelsSyncLink l h s = Inl e
    else \<exists>h'. setPendingKernelsSyncLink l h s = Inr h' \<and>
      (\<forall>p. nd_link (h' p) = (if p \<in> set (ds_pendingKernels s) then l else nd_link (h p)))"
  using set_sync_links_ok [OF assms, of h l] set_sync_links_twice [of _ "ds_pendingKernels s" h l]
  by (auto simp: setPendingKernelsSyncLink_def)

end
