(* ===== verification/StreamGroupModel.thy ===== *)
theory StreamGroupModel
  imports DeviceStreamModel
begin

text \<open>The stream group of \<^verbatim>\<open>backend/EventStreamGroup.cpp\<close>: the streams of a process by identifier, by
  kind and by device. Streams are referred to by pointers into a store.\<close>

section \<open>State\<close>

type_synonym stream_ref = nat

datatype stream_obj = Host_Obj event_stream | Mpi_Obj mpi_stream | Device_Obj device_stream

type_synonym stream_store = "stream_ref \<Rightarrow> stream_obj"

fun base :: "stream_obj \<Rightarrow> event_stream" where
  "base (Host_Obj s) = s"
| "base (Mpi_Obj s) = event_stream.truncate s"
| "base (Device_Obj s) = event_stream.truncate s"

fun obj_setStreamType :: "u32 \<Rightarrow> stream_obj \<Rightarrow> stream_obj" where
  "obj_setStreamType t (Host_Obj s) = Host_Obj (setStreamType t s)"
| "obj_setStreamType t (Mpi_Obj s) = Mpi_Obj (setStreamType t s)"
| "obj_setStreamType t (Device_Obj s) = Device_Obj (setStreamType t s)"

record stream_group =
  sg_streamsMap :: "(u64, stream_ref) smap"
  sg_hostStreams :: "stream_ref list"
  sg_deviceStreams :: "stream_ref list"
  sg_allStreams :: "stream_ref list"
  sg_deviceNullStreamOnly :: bool
  sg_deviceNullStreamMap :: "int \<rightharpoonup> stream_ref option"
  sg_deviceFirstStreamMap :: "int \<rightharpoonup> stream_ref"
  sg_deviceIdStreamsMap :: "(int, stream_ref list) smap"

definition EventStreamGroup_new :: stream_group where
  "EventStreamGroup_new = \<lparr>sg_streamsMap = [], sg_hostStreams = [], sg_deviceStreams = [], sg_allStreams = [],
     sg_deviceNullStreamOnly = False, sg_deviceNullStreamMap = Map.empty, sg_deviceFirstStreamMap = Map.empty,
     sg_deviceIdStreamsMap = []\<rparr>"

section \<open>Operations\<close>

definition addHostStream :: "stream_store \<Rightarrow> stream_ref \<Rightarrow> stream_group \<Rightarrow> stream_group" where
  "addHostStream st p g = g\<lparr>sg_hostStreams := sg_hostStreams g @ [p], sg_allStreams := sg_allStreams g @ [p],
     sg_streamsMap := smap_update (es_id (base (st p))) p (sg_streamsMap g)\<rparr>"

text \<open>The device fields of an object that is used as a device stream.\<close>

fun obj_deviceId :: "stream_obj \<Rightarrow> int" where
  "obj_deviceId (Device_Obj s) = ds_deviceId s"
| "obj_deviceId _ = - 1"

fun obj_nativeStreamId :: "stream_obj \<Rightarrow> int" where
  "obj_nativeStreamId (Device_Obj s) = ds_nativeStreamId s"
| "obj_nativeStreamId _ = - 1"

definition setDeviceNullStream ::
  "stream_ref option \<Rightarrow> stream_store \<Rightarrow> stream_group \<Rightarrow> stream_store \<times> stream_group" where
  "setDeviceNullStream stream st g = (case stream of
      None \<Rightarrow> (st, g)
    | Some p \<Rightarrow>
        if \<not> isDeviceStream (base (st p)) then (st, g)
        else
          (let d = obj_deviceId (st p);
               st = st(p := obj_setStreamType ES_DEVICE_NULL (st p));
               g = g\<lparr>sg_deviceNullStreamMap := (sg_deviceNullStreamMap g)(d \<mapsto> Some p)\<rparr>
           in if length (sg_deviceStreams g) = 1 then (st, g\<lparr>sg_deviceNullStreamOnly := True\<rparr>) else (st, g)))"

definition streams_of_device :: "int \<Rightarrow> (int, stream_ref list) smap \<Rightarrow> stream_ref list" where
  "streams_of_device d m = (case map_of m d of None \<Rightarrow> [] | Some ss \<Rightarrow> ss)"

definition addDeviceStream :: "int \<Rightarrow> stream_ref \<Rightarrow> stream_store \<Rightarrow> stream_group \<Rightarrow> stream_store \<times> stream_group" where
  "addDeviceStream nullStream p st g =
    (if \<not> isDeviceStream (base (st p)) then (st, g)
     else
       (let g = g\<lparr>sg_deviceStreams := sg_deviceStreams g @ [p], sg_allStreams := sg_allStreams g @ [p]\<rparr>;
            g = g\<lparr>sg_streamsMap := smap_update (es_id (base (st p))) p (sg_streamsMap g)\<rparr>;
            d = obj_deviceId (st p);
            g = g\<lparr>sg_deviceIdStreamsMap :=
                   smap_update d (streams_of_device d (sg_deviceIdStreamsMap g) @ [p]) (sg_deviceIdStreamsMap g)\<rparr>
        in if nullStream \<noteq> - 1 \<and> obj_nativeStreamId (st p) = nullStream
           then setDeviceNullStream (Some p) st g
           else (st, g\<lparr>sg_deviceNullStreamOnly := False\<rparr>)))"

definition removeHostStream :: "stream_ref \<Rightarrow> stream_group \<Rightarrow> stream_group" where
  "removeHostStream p g = g\<lparr>sg_hostStreams := remove1 p (sg_hostStreams g)\<rparr>"

definition getStream :: "u64 \<Rightarrow> stream_group \<Rightarrow> stream_ref option" where
  "getStream i g = (case map_of (sg_streamsMap g) i of Some p \<Rightarrow> Some p | None \<Rightarrow> None)"

definition getMpiStream :: "stream_store \<Rightarrow> u64 \<Rightarrow> stream_group \<Rightarrow> stream_ref option result" where
  "getMpiStream st i g = (case getStream i g of
      None \<Rightarrow> Inl Null_Dereference
    | Some p \<Rightarrow> if \<not> isMpiStream (base (st p)) then Inr None else Inr (Some p))"

definition getDeviceStream :: "stream_store \<Rightarrow> u64 \<Rightarrow> stream_group \<Rightarrow> stream_ref option" where
  "getDeviceStream st i g = (case map_of (sg_streamsMap g) i of
      Some p \<Rightarrow> if \<not> isDeviceStream (base (st p)) then None else Some p
    | None \<Rightarrow> None)"

text \<open>The queries that index a map create an entry for a device that has none.\<close>

definition getDeviceStreams :: "int \<Rightarrow> stream_group \<Rightarrow> stream_ref list \<times> stream_group" where
  "getDeviceStreams d g = (case map_of (sg_deviceIdStreamsMap g) d of
      Some ss \<Rightarrow> (ss, g)
    | None \<Rightarrow> ([], g\<lparr>sg_deviceIdStreamsMap := smap_update d [] (sg_deviceIdStreamsMap g)\<rparr>))"

definition getNumDevices :: "stream_group \<Rightarrow> nat" where
  "getNumDevices g = length (sg_deviceIdStreamsMap g)"

definition getDeviceNullStream :: "int \<Rightarrow> stream_group \<Rightarrow> stream_ref option \<times> stream_group" where
  "getDeviceNullStream d g = (case sg_deviceNullStreamMap g d of
      Some p \<Rightarrow> (p, g)
    | None \<Rightarrow> (None, g\<lparr>sg_deviceNullStreamMap := (sg_deviceNullStreamMap g)(d \<mapsto> None)\<rparr>))"

text \<open>The first stream: the device streams are sorted by their address, and the first one of all devices
  is kept for the device asked for.\<close>

definition getFirstDeviceStream :: "int \<Rightarrow> stream_group \<Rightarrow> (stream_ref \<times> stream_group) result" where
  "getFirstDeviceStream d g = (case sg_deviceFirstStreamMap g d of
      Some p \<Rightarrow> Inr (p, g)
    | None \<Rightarrow>
        (let ss = sort (sg_deviceStreams g); g = g\<lparr>sg_deviceStreams := ss\<rparr> in
         case ss of [] \<Rightarrow> Inl Out_Of_Bounds
         | p # ps \<Rightarrow> Inr (p, g\<lparr>sg_deviceFirstStreamMap := (sg_deviceFirstStreamMap g)(d \<mapsto> p)\<rparr>)))"

section \<open>The invariant of the group\<close>

text \<open>Filling a group: streams that are device streams are added as such, the others as host streams.\<close>

definition add_stream :: "int \<Rightarrow> stream_ref \<Rightarrow> stream_store \<times> stream_group \<Rightarrow> stream_store \<times> stream_group" where
  "add_stream nullStream p sg = (case sg of (st, g) \<Rightarrow>
     if isDeviceStream (base (st p)) then addDeviceStream nullStream p st g else (st, addHostStream st p g))"

definition group_ok :: "stream_store \<Rightarrow> stream_ref list \<Rightarrow> stream_group \<Rightarrow> bool" where
  "group_ok st ps g \<longleftrightarrow> sg_allStreams g = ps \<and>
    sg_deviceStreams g = filter (\<lambda>p. isDeviceStream (base (st p))) ps \<and>
    sg_hostStreams g = filter (\<lambda>p. \<not> isDeviceStream (base (st p))) ps \<and>
    smap_inv (sg_streamsMap g) \<and> smap_inv (sg_deviceIdStreamsMap g) \<and>
    (\<forall>p\<in>set ps. getStream (es_id (base (st p))) g = Some p) \<and>
    (\<forall>i p. getStream i g = Some p \<longrightarrow> p \<in> set ps \<and> es_id (base (st p)) = i) \<and>
    (\<forall>d. streams_of_device d (sg_deviceIdStreamsMap g) = filter (\<lambda>p. obj_deviceId (st p) = d) (sg_deviceStreams g)) \<and>
    (\<forall>(d, ss)\<in>set (sg_deviceIdStreamsMap g). ss \<noteq> [])"

text \<open>Making a stream the null stream keeps its identifier, its device and its being a device stream.\<close>

definition same_group_keys :: "stream_store \<Rightarrow> stream_store \<Rightarrow> bool" where
  "same_group_keys st st' \<longleftrightarrow> (\<forall>p. es_id (base (st' p)) = es_id (base (st p)) \<and> obj_deviceId (st' p) = obj_deviceId (st p) \<and>
     isDeviceStream (base (st' p)) = isDeviceStream (base (st p)))"

lemma null_type_device [simp]: "has_flag ES_DEVICE_NULL (ES_DEVICE OR ES_DEVICE_NULL)"
  by (simp add: has_flag_def es_types)

lemma setType_keys:
  "isDeviceStream (base s) \<Longrightarrow> es_id (base (obj_setStreamType ES_DEVICE_NULL s)) = es_id (base s) \<and>
   obj_deviceId (obj_setStreamType ES_DEVICE_NULL s) = obj_deviceId s \<and>
   isDeviceStream (base (obj_setStreamType ES_DEVICE_NULL s))"
  by (cases s) (simp_all add: setStreamType_def isDeviceStream_def event_stream.defs)

lemma setNull_keys: "same_group_keys st (fst (setDeviceNullStream sp st g))"
  using setType_keys by (auto simp: setDeviceNullStream_def same_group_keys_def Let_def split: option.split)

lemma setNull_group [simp]:
  "sg_allStreams (snd (setDeviceNullStream sp st g)) = sg_allStreams g"
  "sg_deviceStreams (snd (setDeviceNullStream sp st g)) = sg_deviceStreams g"
  "sg_hostStreams (snd (setDeviceNullStream sp st g)) = sg_hostStreams g"
  "sg_streamsMap (snd (setDeviceNullStream sp st g)) = sg_streamsMap g"
  "sg_deviceIdStreamsMap (snd (setDeviceNullStream sp st g)) = sg_deviceIdStreamsMap g"
  by (simp_all add: setDeviceNullStream_def Let_def split: option.split)

lemma group_ok_keys: "same_group_keys st st' \<Longrightarrow> group_ok st' ps g \<longleftrightarrow> group_ok st ps g"
  by (simp add: group_ok_def same_group_keys_def)

lemma same_group_keys_refl [simp]: "same_group_keys st st"
  by (simp add: same_group_keys_def)

lemma add_stream_keys: "same_group_keys st (fst (add_stream n p (st, g)))"
  by (simp add: add_stream_def addDeviceStream_def Let_def setNull_keys)

lemma add_stream_fields:
  assumes "isDeviceStream (base (st p))"
  shows "sg_allStreams (snd (add_stream n p (st, g))) = sg_allStreams g @ [p]"
    "sg_deviceStreams (snd (add_stream n p (st, g))) = sg_deviceStreams g @ [p]"
    "sg_hostStreams (snd (add_stream n p (st, g))) = sg_hostStreams g"
    "sg_streamsMap (snd (add_stream n p (st, g))) = smap_update (es_id (base (st p))) p (sg_streamsMap g)"
    "sg_deviceIdStreamsMap (snd (add_stream n p (st, g))) = smap_update (obj_deviceId (st p))
       (streams_of_device (obj_deviceId (st p)) (sg_deviceIdStreamsMap g) @ [p]) (sg_deviceIdStreamsMap g)"
  using assms by (simp_all add: add_stream_def addDeviceStream_def Let_def)

lemma getStream_map_of: "getStream i g = map_of (sg_streamsMap g) i"
  by (simp add: getStream_def split: option.split)

lemma streams_of_device_update:
  "smap_inv m \<Longrightarrow> streams_of_device d (smap_update k ss m) = (if d = k then ss else streams_of_device d m)"
  by (simp add: streams_of_device_def smap_lookup_update)

lemma add_stream_ok:
  assumes "group_ok st ps g" "es_id (base (st p)) \<notin> (\<lambda>q. es_id (base (st q))) ` set ps"
  shows "group_ok (fst (add_stream n p (st, g))) (ps @ [p]) (snd (add_stream n p (st, g)))"
proof -
  have fresh: "\<forall>q\<in>set ps. es_id (base (st q)) \<noteq> es_id (base (st p))"
  proof
    fix q assume "q \<in> set ps"
    then show "es_id (base (st q)) \<noteq> es_id (base (st p))"
      using assms(2) imageI [of q "set ps" "\<lambda>q. es_id (base (st q))"] by metis
  qed
  have "group_ok st (ps @ [p]) (snd (add_stream n p (st, g)))"
  proof (cases "isDeviceStream (base (st p))")
    case True
    note f = add_stream_fields [where st = st and p = p and n = n and g = g, OF True]
    show ?thesis
      using assms(1) fresh True
      by (auto simp: group_ok_def f getStream_map_of smap_lookup_update streams_of_device_update dest!: smap_update_set)
  next
    case False
    then show ?thesis
      using assms(1) fresh by (auto simp: group_ok_def add_stream_def addHostStream_def getStream_map_of smap_lookup_update)
  qed
  then show ?thesis
    using group_ok_keys [OF add_stream_keys] by blast
qed

lemma add_streams_ok:
  assumes "group_ok st ps g" "distinct (map (\<lambda>q. es_id (base (st q))) (ps @ qs))"
  shows "same_group_keys st (fst (fold (add_stream n) qs (st, g))) \<and>
         group_ok st (ps @ qs) (snd (fold (add_stream n) qs (st, g)))"
  using assms
proof (induction qs arbitrary: st g ps)
  case (Cons q qs)
  obtain st1 g1 where r: "add_stream n q (st, g) = (st1, g1)"
    by (cases "add_stream n q (st, g)")
  have k: "same_group_keys st st1" "group_ok st1 (ps @ [q]) g1"
    using add_stream_keys [of st n q g] add_stream_ok [OF Cons(2), of q n] Cons(3) r by auto
  have "distinct (map (\<lambda>q. es_id (base (st1 q))) ((ps @ [q]) @ qs))"
    using Cons(3) k(1) by (simp add: same_group_keys_def)
  from Cons(1) [OF k(2) this] show ?case
    using k(1) r group_ok_keys [OF k(1)] by (auto simp: same_group_keys_def)
qed simp

text \<open>C39. Filling a group with streams of distinct identifiers: a search by identifier finds the stream that
  has been added with it, and nothing under any other identifier; the streams are split into host and device streams in the order of their addition,
  the streams of a device are the device streams with its number, and the number of devices is the
  number of different ones.\<close>
theorem stream_group_registry:
  assumes "distinct (map (\<lambda>q. es_id (base (st q))) ps)"
  shows "(\<lambda>(st', g). (\<forall>i p. getStream i g = Some p \<longleftrightarrow> p \<in> set ps \<and> es_id (base (st p)) = i) \<and>
      sg_hostStreams g = filter (\<lambda>p. \<not> isDeviceStream (base (st p))) ps \<and>
      sg_deviceStreams g = filter (\<lambda>p. isDeviceStream (base (st p))) ps \<and>
      (\<forall>d. fst (getDeviceStreams d g) = filter (\<lambda>p. obj_deviceId (st p) = d) (sg_deviceStreams g)) \<and>
      getNumDevices g = card ((\<lambda>p. obj_deviceId (st p)) ` set (sg_deviceStreams g)))
    (fold (add_stream nullStream) ps (st, EventStreamGroup_new))"
proof -
  have "group_ok st [] EventStreamGroup_new"
    by (simp add: group_ok_def EventStreamGroup_new_def streams_of_device_def getStream_map_of)
  then have "group_ok st ps (snd (fold (add_stream nullStream) ps (st, EventStreamGroup_new)))"
    using add_streams_ok [of st "[]" EventStreamGroup_new ps nullStream] assms by simp
  then obtain st' g where g: "fold (add_stream nullStream) ps (st, EventStreamGroup_new) = (st', g)" "group_ok st ps g"
    by (cases "fold (add_stream nullStream) ps (st, EventStreamGroup_new)") simp
  let ?m = "sg_deviceIdStreamsMap g"
  have dist: "distinct (map fst ?m)"
    using g(2) by (simp add: group_ok_def smap_inv_distinct)
  have "fst ` set ?m = (\<lambda>p. obj_deviceId (st p)) ` set (sg_deviceStreams g)"
  proof (intro set_eqI iffI)
    fix d assume "d \<in> fst ` set ?m"
    then obtain ss where ss: "(d, ss) \<in> set ?m"
      by auto
    then have "map_of ?m d = Some ss"
      using dist by simp
    moreover have "ss \<noteq> []"
      using g(2) ss by (auto simp: group_ok_def)
    ultimately have "filter (\<lambda>p. obj_deviceId (st p) = d) (sg_deviceStreams g) \<noteq> []"
      using g(2) by (auto simp: group_ok_def streams_of_device_def dest!: spec [of _ d])
    then show "d \<in> (\<lambda>p. obj_deviceId (st p)) ` set (sg_deviceStreams g)"
      by (auto simp: filter_empty_conv)
  next
    fix d assume "d \<in> (\<lambda>p. obj_deviceId (st p)) ` set (sg_deviceStreams g)"
    then have "streams_of_device d ?m \<noteq> []"
      using g(2) by (auto simp: group_ok_def filter_empty_conv)
    then show "d \<in> fst ` set ?m"
      by (auto simp: streams_of_device_def split: option.splits dest!: map_of_SomeD intro: rev_image_eqI)
  qed
  then have "getNumDevices g = card ((\<lambda>p. obj_deviceId (st p)) ` set (sg_deviceStreams g))"
    using distinct_card [OF dist] by (simp add: getNumDevices_def)
  moreover have "fst (getDeviceStreams d g) = filter (\<lambda>p. obj_deviceId (st p) = d) (sg_deviceStreams g)" for d
    using g(2) by (auto simp: getDeviceStreams_def group_ok_def streams_of_device_def dest!: spec [of _ d] split: option.splits)
  moreover have "getStream i g = Some p \<longleftrightarrow> p \<in> set ps \<and> es_id (base (st p)) = i" for i p
    using g(2) unfolding group_ok_def by blast
  ultimately show ?thesis
    using g by (simp add: group_ok_def)
qed

theorem stream_group_registry_witness:
  "let g = snd (fold (add_stream (- 1)) [1, 0]
     ((\<lambda>p. if p = 0 then Host_Obj (EventStream_new 3 0 ''Master'' ES_MPI) else Device_Obj (DeviceStream_new 5 0 ''CUDA[0:1]'')),
      EventStreamGroup_new)) in getStream 5 g = Some 1 \<and> getStream 3 g = Some 0 \<and> getStream 4 g = None"
proof -
  define st :: stream_store where
    "st = (\<lambda>p. if p = 0 then Host_Obj (EventStream_new 3 0 ''Master'' ES_MPI) else Device_Obj (DeviceStream_new 5 0 ''CUDA[0:1]''))"
  have i: "es_id (base (st 0)) = 3" "es_id (base (st 1)) = 5"
    by (simp_all add: st_def EventStream_new_def DeviceStream_new_def event_stream.defs device_stream.defs)
  then have "distinct (map (\<lambda>q. es_id (base (st q))) [1, 0])"
    by simp
  note r = stream_group_registry [OF this, of "- 1"]
  define g where "g = snd (fold (add_stream (- 1)) [1, 0] (st, EventStreamGroup_new))"
  have "\<forall>k p. getStream k g = Some p \<longleftrightarrow> p \<in> set [1, 0] \<and> es_id (base (st p)) = k"
    using r unfolding split_beta g_def [symmetric] by (rule conjunct1)
  then have found: "getStream k g = Some p \<longleftrightarrow> p \<in> {0, 1} \<and> es_id (base (st p)) = k" for k p
    by auto
  have "getStream 5 g = Some 1" "getStream 3 g = Some 0"
    unfolding found using i by simp_all
  moreover have "getStream 4 g = None"
  proof (cases "getStream 4 g")
    case (Some p)
    then have "p = 0 \<or> p = 1" "es_id (base (st p)) = 4"
      by (simp_all add: found)
    then show ?thesis
      using i by (elim disjE) simp_all
  qed
  ultimately show ?thesis
    unfolding st_def [symmetric] Let_def g_def [symmetric] by blast
qed

text \<open>The first stream that is given for a device is the first of all device streams, whichever the
  device asked for.\<close>
lemma first_device_stream_ignores_device:
  assumes "sg_deviceFirstStreamMap g = Map.empty" "sg_deviceStreams g \<noteq> []"
  shows "\<exists>g'. getFirstDeviceStream d g = Inr (Min (set (sg_deviceStreams g)), g')"
proof -
  obtain p ps where p: "sort (sg_deviceStreams g) = p # ps"
  proof (cases "sort (sg_deviceStreams g)")
    case Nil
    then have "length (sort (sg_deviceStreams g)) = 0"
      by simp
    then show ?thesis
      using assms(2) by simp
  qed (use that in blast)
  have "sorted (p # ps)" "set (p # ps) = set (sg_deviceStreams g)"
    unfolding p [symmetric] by simp_all
  then have "Min (set (sg_deviceStreams g)) = p"
    by (intro Min_eqI) auto
  then show ?thesis
    using assms(1) p by (simp add: getFirstDeviceStream_def)
qed

end
