(* ===== verification/GraphEngineModel.thy ===== *)
theory GraphEngineModel
  imports StreamGroupModel
begin

text \<open>The graph engine of \<^verbatim>\<open>backend/GraphEngine.cpp\<close>: it owns the nodes, the edges, the streams and the
  stack of open regions of every stream, and adds a new node to its stream and to the graph. The
  state holds the heaps with the next free references.\<close>

section \<open>State\<close>

record engine =
  ge_heap :: heap
  ge_nextNode :: node_ref
  ge_globalNodeId :: u64
  ge_edges :: edge_heap
  ge_nextEdge :: edge_ref
  ge_graph :: graph
  ge_streams :: stream_store
  ge_nextStream :: stream_ref
  ge_group :: stream_group
  ge_stacks :: "u64 \<Rightarrow> node_ref list"
  ge_sourceNode :: node_ref
  ge_ticksPerSecond :: u64

section \<open>Nodes and edges\<close>

definition newGraphNode ::
  "u64 \<Rightarrow> u64 \<Rightarrow> string \<Rightarrow> u32 \<Rightarrow> record_type \<Rightarrow> u32 \<Rightarrow> engine \<Rightarrow> node_ref \<times> engine" where
  "newGraphNode time streamId name paradigm recordType nodeType s =
    (let p = ge_nextNode s;
         (n, i) = GraphNode_new p (ge_globalNodeId s) time streamId name paradigm recordType nodeType
     in (p, s\<lparr>ge_heap := (ge_heap s)(p := n), ge_nextNode := p + 1, ge_globalNodeId := i,
              ge_graph := graph_addNode p (ge_graph s)\<rparr>))"

definition GraphEngine_new :: "heap \<Rightarrow> edge_heap \<Rightarrow> stream_store \<Rightarrow> engine" where
  "GraphEngine_new h E st =
    (let s = \<lparr>ge_heap = h, ge_nextNode = 0, ge_globalNodeId = 0, ge_edges = E, ge_nextEdge = 0,
              ge_graph = Graph_new False, ge_streams = st, ge_nextStream = 0, ge_group = EventStreamGroup_new,
              ge_stacks = (\<lambda>_. []), ge_sourceNode = 0, ge_ticksPerSecond = 1000\<rparr>;
         (n, s) = newGraphNode 0 0 ''START'' PARADIGM_ALL RECORD_ATOMIC MISC_PROCESS s
     in s\<lparr>ge_sourceNode := n\<rparr>)"

definition newEdge :: "node_ref \<Rightarrow> node_ref \<Rightarrow> bool \<Rightarrow> u32 option \<Rightarrow> engine \<Rightarrow> edge_ref \<times> engine" where
  "newEdge source target blocking edgeType s =
    (let h = ge_heap s;
         paradigm = (case edgeType of
             Some p \<Rightarrow> p
           | None \<Rightarrow> if nd_paradigm (h source) = nd_paradigm (h target) then nd_paradigm (h source)
                     else nd_paradigm (h source) OR nd_paradigm (h target));
         e = ge_nextEdge s;
         E = (ge_edges s)(e := Edge_new h source target (nd_time (h target) - nd_time (h source)) blocking paradigm)
     in (e, s\<lparr>ge_edges := E, ge_nextEdge := e + 1, ge_graph := addEdge E e (ge_graph s)\<rparr>))"

fun find_edge_to :: "edge_heap \<Rightarrow> node_ref \<Rightarrow> edge_ref list \<Rightarrow> edge_ref option" where
  "find_edge_to E target [] = None"
| "find_edge_to E target (e # es) = (if e_end (E e) = target then Some e else find_edge_to E target es)"

definition getEdge :: "node_ref \<Rightarrow> node_ref \<Rightarrow> engine \<Rightarrow> edge_ref option" where
  "getEdge source target s = (case getOutEdges source (ge_graph s) of
      None \<Rightarrow> None | Some es \<Rightarrow> find_edge_to (ge_edges s) target es)"

definition engine_removeEdge :: "edge_ref \<Rightarrow> engine \<Rightarrow> engine" where
  "engine_removeEdge e s = s\<lparr>ge_graph := removeEdge (ge_edges s) e (ge_graph s)\<rparr>"

fun shortest_edge :: "edge_heap \<Rightarrow> edge_ref option \<Rightarrow> edge_ref list \<Rightarrow> edge_ref option" where
  "shortest_edge E best [] = best"
| "shortest_edge E best (e # es) =
    (case best of
       None \<Rightarrow> shortest_edge E (Some e) es
     | Some b \<Rightarrow> if e_duration (E e) < e_duration (E b) then shortest_edge E (Some e) es
                 else shortest_edge E best es)"

definition getShortestInEdge :: "node_ref \<Rightarrow> engine \<Rightarrow> edge_ref option" where
  "getShortestInEdge n s = (case getInEdgesPtr n (ge_graph s) of
      None \<Rightarrow> None | Some es \<Rightarrow> shortest_edge (ge_edges s) None es)"

definition sanityCheckEdge :: "edge \<Rightarrow> engine \<Rightarrow> unit result" where
  "sanityCheckEdge e s =
    (let h = ge_heap s; a = h (e_start e); b = h (e_end e);
         expectedTime = (if isReverseEdge h e then 0 else nd_time b - nd_time a)
     in if e_duration e \<noteq> expectedTime then Inl (Runtime_Error ''wrong duration'')
        else if \<not> e_blocking e \<and> isWaitstate a \<and> isEnter a \<and> isWaitstate b \<and> isLeave b
        then Inl (Runtime_Error ''should be blocking'')
        else Inr ())"

fun check_edges :: "engine \<Rightarrow> edge_ref list \<Rightarrow> unit result" where
  "check_edges s [] = Inr ()"
| "check_edges s (e # es) = bind_res (sanityCheckEdge (ge_edges s e) s) (\<lambda>_. check_edges s es)"

fun check_nodes :: "engine \<Rightarrow> node_ref list \<Rightarrow> unit result" where
  "check_nodes s [] = Inr ()"
| "check_nodes s (n # ns) =
    bind_res (case getInEdgesPtr n (ge_graph s) of Some es \<Rightarrow> check_edges s es | None \<Rightarrow> Inr ()) (\<lambda>_.
    bind_res (case getOutEdges n (ge_graph s) of Some es \<Rightarrow> check_edges s es | None \<Rightarrow> Inr ()) (\<lambda>_.
    check_nodes s ns))"

definition stream_nodes :: "engine \<Rightarrow> node_ref list list" where
  "stream_nodes s = map (\<lambda>p. es_nodes (base (ge_streams s p))) (sg_allStreams (ge_group s))"

definition runSanityCheck :: "engine \<Rightarrow> unit result" where
  "runSanityCheck s = check_nodes s (concat (stream_nodes s))"

definition resetCounters :: "engine \<Rightarrow> engine" where
  "resetCounters s =
    s\<lparr>ge_heap := fold (\<lambda>p. node_update p removeCounters) (concat (stream_nodes s)) (ge_heap s)\<rparr>"

definition SYNC_DELTA :: u64 where "SYNC_DELTA = 500"

definition getDeltaTicks :: "engine \<Rightarrow> u64" where
  "getDeltaTicks s = ge_ticksPerSecond s * SYNC_DELTA div (1000 * 1000)"

section \<open>Queries over the streams\<close>

definition first_timed :: "heap \<Rightarrow> u32 \<Rightarrow> node_ref list \<Rightarrow> node_ref option" where
  "first_timed h paradigm nodes =
    List.find (\<lambda>n. nd_time (h n) > 0 \<and> \<not> isAtomic (h n) \<and> hasParadigm (h n) paradigm) nodes"

fun first_timed_of :: "heap \<Rightarrow> u32 \<Rightarrow> event_stream list \<Rightarrow> node_ref option \<Rightarrow> node_ref option result" where
  "first_timed_of h paradigm [] firstNode = Inr firstNode"
| "first_timed_of h paradigm (p # ps) firstNode =
    bind_res (if paradigm = PARADIGM_MPI then getFirstParadigmNode PARADIGM_MPI p
              else Inr (first_timed h paradigm (es_nodes p))) (\<lambda>n.
    first_timed_of h paradigm ps
      (case (n, firstNode) of
         (None, _) \<Rightarrow> firstNode
       | (Some q, None) \<Rightarrow> Some q
       | (Some q, Some f) \<Rightarrow> if nd_time (h q) < nd_time (h f) then Some q else Some f))"

definition getFirstTimedGraphNode :: "u32 \<Rightarrow> engine \<Rightarrow> node_ref option result" where
  "getFirstTimedGraphNode paradigm s =
    first_timed_of (ge_heap s) paradigm (map (\<lambda>p. base (ge_streams s p)) (sg_allStreams (ge_group s))) None"

definition getLastGraphNode :: "u32 \<Rightarrow> engine \<Rightarrow> node_ref option" where
  "getLastGraphNode paradigm s =
    foldl (\<lambda>lastNode p. case (getLastNode (ge_heap s) paradigm (base (ge_streams s p)), lastNode) of
        (None, _) \<Rightarrow> lastNode
      | (Some q, None) \<Rightarrow> Some q
      | (Some q, Some l) \<Rightarrow> if compareLess (ge_heap s l) (ge_heap s q) then Some q else Some l)
      None (sg_allStreams (ge_group s))"

text \<open>\<^verbatim>\<open>std::sort\<close> by \<^verbatim>\<open>compareLess\<close>, as an insertion sort: where the relation is a strict total order on
  the nodes, the result is the only sorted arrangement; elsewhere the call is undefined in the code.\<close>

fun insert_node :: "heap \<Rightarrow> node_ref \<Rightarrow> node_ref list \<Rightarrow> node_ref list" where
  "insert_node h n [] = [n]"
| "insert_node h n (m # ms) = (if compareLess (h m) (h n) then m # insert_node h n ms else n # m # ms)"

definition getAllNodes :: "engine \<Rightarrow> node_ref list" where
  "getAllNodes s = foldr (insert_node (ge_heap s)) (concat (filter (\<lambda>ns. length ns > 0) (stream_nodes s))) []"

section \<open>Parsing the name of a device stream\<close>

fun contains :: "string \<Rightarrow> string \<Rightarrow> bool" where
  "contains pat [] \<longleftrightarrow> pat = []"
| "contains pat (c # cs) \<longleftrightarrow> take (length pat) (c # cs) = pat \<or> contains pat cs"

definition digit_value :: "char \<Rightarrow> int" where
  "digit_value c = int (of_char c) - 48"

fun atoi_digits :: "int \<Rightarrow> string \<Rightarrow> int" where
  "atoi_digits acc [] = acc"
| "atoi_digits acc (c # cs) = (if is_digit c then atoi_digits (10 * acc + digit_value c) cs else acc)"

definition is_space :: "char \<Rightarrow> bool" where
  "is_space c \<longleftrightarrow> c = CHR '' '' \<or> (9 \<le> (of_char c :: nat) \<and> (of_char c :: nat) \<le> 13)"

text \<open>\<^verbatim>\<open>atoi\<close>: white space, an optional sign, digits; a number that does not fit is undefined in C.\<close>

definition atoi :: "string \<Rightarrow> int" where
  "atoi t = (case dropWhile is_space t of
      [] \<Rightarrow> 0
    | c # cs \<Rightarrow> if c = CHR ''-'' then - atoi_digits 0 cs
                else if c = CHR ''+'' then atoi_digits 0 cs else atoi_digits 0 (c # cs))"

definition after_first :: "char \<Rightarrow> string \<Rightarrow> string option" where
  "after_first c t = (case dropWhile (\<lambda>d. d \<noteq> c) t of [] \<Rightarrow> None | d # ds \<Rightarrow> Some ds)"

definition after_last :: "char \<Rightarrow> string \<Rightarrow> string option" where
  "after_last c t = (if c \<in> set t then Some (rev (takeWhile (\<lambda>d. d \<noteq> c) (rev t))) else None)"

definition name_device :: "int \<Rightarrow> string \<Rightarrow> device_stream \<Rightarrow> device_stream" where
  "name_device nullStream name p =
    (if contains ''OMP target thread ['' name then setDeviceId (atoi (drop 19 name)) p
     else if contains ''CUDA['' name then
       (let p = (if nullStream \<noteq> - 1
                 then (case after_first (CHR '':'') name of None \<Rightarrow> p | Some t \<Rightarrow> setNativeStreamId (atoi t) p)
                 else p)
        in setDeviceId (atoi (drop 5 name)) p)
     else if contains ''MIC ['' name then setDeviceId (atoi (drop 5 name)) p
     else case after_last (CHR ''['') name of
         Some t \<Rightarrow> setDeviceId (atoi t) p
       | None \<Rightarrow> setDeviceId (- 1) p)"

section \<open>Streams\<close>

text \<open>Adding a node to the stream an object is.\<close>

fun obj_addGraphNode ::
  "node_ref \<Rightarrow> paradigm_nodes option \<Rightarrow> heap \<Rightarrow> stream_obj \<Rightarrow> (heap \<times> paradigm_nodes option \<times> stream_obj) result" where
  "obj_addGraphNode n m h (Host_Obj s) = bind_res (addGraphNode n m h s) (\<lambda>(h, m, s). Inr (h, m, Host_Obj s))"
| "obj_addGraphNode n m h (Mpi_Obj s) = bind_res (addGraphNode n m h s) (\<lambda>(h, m, s). Inr (h, m, Mpi_Obj s))"
| "obj_addGraphNode n m h (Device_Obj s) = bind_res (addGraphNode n m h s) (\<lambda>(h, m, s). Inr (h, m, Device_Obj s))"

fun obj_insertGraphNode ::
  "node_ref \<Rightarrow> paradigm_nodes \<Rightarrow> paradigm_nodes \<Rightarrow> heap \<Rightarrow> stream_obj \<Rightarrow> (paradigm_nodes \<times> paradigm_nodes \<times> stream_obj) result" where
  "obj_insertGraphNode n pm nm h (Host_Obj s) = bind_res (insertGraphNode n pm nm h s) (\<lambda>(pm, nm, s). Inr (pm, nm, Host_Obj s))"
| "obj_insertGraphNode n pm nm h (Mpi_Obj s) = bind_res (insertGraphNode n pm nm h s) (\<lambda>(pm, nm, s). Inr (pm, nm, Mpi_Obj s))"
| "obj_insertGraphNode n pm nm h (Device_Obj s) = bind_res (insertGraphNode n pm nm h s) (\<lambda>(pm, nm, s). Inr (pm, nm, Device_Obj s))"

definition newEventStream ::
  "int \<Rightarrow> blocking_comm \<Rightarrow> u64 \<Rightarrow> u64 \<Rightarrow> string \<Rightarrow> u32 \<Rightarrow> engine \<Rightarrow> engine result" where
  "newEventStream nullStream uninit i parentId name streamType s =
    (let r = ge_nextStream s in
     if has_flag streamType ES_MPI then
       (let st = (ge_streams s)(r := Mpi_Obj (MpiStream_new i parentId name uninit));
            s = s\<lparr>ge_streams := st, ge_nextStream := r + 1, ge_group := addHostStream st r (ge_group s)\<rparr>;
            (n, s) = newGraphNode 0 i name PARADIGM_ALL RECORD_ATOMIC MISC_PROCESS s
        in bind_res (obj_addGraphNode n None (ge_heap s) (ge_streams s r)) (\<lambda>(h, m, p).
           Inr (snd (newEdge (ge_sourceNode s) n False None
                 (s\<lparr>ge_heap := h, ge_streams := (ge_streams s)(r := p)\<rparr>)))))
     else if has_flag streamType ES_OPENMP then
       (let st = (ge_streams s)(r := Host_Obj (EventStream_new i parentId name streamType))
        in Inr (s\<lparr>ge_streams := st, ge_nextStream := r + 1, ge_group := addHostStream st r (ge_group s)\<rparr>))
     else if streamType = ES_DEVICE then
       (let st = (ge_streams s)(r := Device_Obj (name_device nullStream name (DeviceStream_new i parentId name)));
            (st, g) = addDeviceStream nullStream r st (ge_group s)
        in Inr (s\<lparr>ge_streams := st, ge_nextStream := r + 1, ge_group := g\<rparr>))
     else Inr s)"

section \<open>The stacks of open regions\<close>

definition topGraphNodeStack :: "u64 \<Rightarrow> engine \<Rightarrow> node_ref option" where
  "topGraphNodeStack i s = (case ge_stacks s i of [] \<Rightarrow> None | n # ns \<Rightarrow> Some n)"

text \<open>Popping an empty stack is undefined; the code pops after it has seen a top.\<close>

definition popGraphNodeStack :: "u64 \<Rightarrow> engine \<Rightarrow> engine" where
  "popGraphNodeStack i s = s\<lparr>ge_stacks := (ge_stacks s)(i := tl (ge_stacks s i))\<rparr>"

definition pushGraphNodeStack :: "node_ref \<Rightarrow> u64 \<Rightarrow> engine \<Rightarrow> engine" where
  "pushGraphNodeStack n i s = s\<lparr>ge_stacks := (ge_stacks s)(i := n # ge_stacks s i)\<rparr>"

definition setCaller :: "node_ref option \<Rightarrow> graph_node \<Rightarrow> graph_node" where
  "setCaller c n = n\<lparr>gn_caller := c\<rparr>"

text \<open>The part of \<^verbatim>\<open>addNewGraphNodeInternal\<close> that keeps the stack: partner and caller.\<close>

definition link_region :: "node_ref \<Rightarrow> u64 \<Rightarrow> engine \<Rightarrow> engine result" where
  "link_region node streamId s =
    (let stackNode = topGraphNodeStack streamId s; h = ge_heap s in
     if isLeave (h node) then
       (case stackNode of
          None \<Rightarrow> Inl (Runtime_Error ''StackNode NULL and found leave event'')
        | Some q \<Rightarrow>
            if nd_recordType (h q) = nd_recordType (h node)
            then Inl (Assertion_Failed ''Partner graph nodes with identical types are not allowed'')
            else
              bind_res (setPartner node (Some q) h) (\<lambda>h.
              bind_res (setPartner q (Some node) h) (\<lambda>h.
              let s = popGraphNodeStack streamId (s\<lparr>ge_heap := h\<rparr>) in
              Inr (s\<lparr>ge_heap := node_update node (setCaller (topGraphNodeStack streamId s)) (ge_heap s)\<rparr>))))
     else if isEnter (h node) then
       Inr (pushGraphNodeStack node streamId (s\<lparr>ge_heap := node_update node (setCaller stackNode) h\<rparr>))
     else Inr s)"

section \<open>Linking a node to its neighbours\<close>

text \<open>The direct predecessor is the latest of the predecessors of the paradigms, the direct successor the
  earliest of the successors.\<close>

definition latest_pred :: "heap \<Rightarrow> paradigm_nodes \<Rightarrow> node_ref option" where
  "latest_pred h m = foldl (\<lambda>d i. case (m (paradigm_bit i), d) of
      (None, _) \<Rightarrow> d | (Some q, None) \<Rightarrow> Some q
    | (Some q, Some p) \<Rightarrow> if compareLess (h p) (h q) then Some q else Some p) None [0..<NODE_PARADIGM_COUNT]"

definition earliest_succ :: "heap \<Rightarrow> paradigm_nodes \<Rightarrow> node_ref option" where
  "earliest_succ h m = foldl (\<lambda>d i. case (m (paradigm_bit i), d) of
      (None, _) \<Rightarrow> d | (Some q, None) \<Rightarrow> Some q
    | (Some q, Some p) \<Rightarrow> if compareLess (h q) (h p) then Some q else Some p) None [0..<NODE_PARADIGM_COUNT]"

text \<open>A blocking edge leads from the enter to the leave of a wait state.\<close>

definition wait_edge :: "graph_node \<Rightarrow> graph_node \<Rightarrow> bool" where
  "wait_edge a b \<longleftrightarrow> isEnter a \<and> isLeave b \<and> isWaitstate a \<and> isWaitstate b"

text \<open>One paradigm of the loop for MPI nodes. The state: whether the direct predecessor and the direct
  successor are linked, and the engine.\<close>

definition link_paradigm ::
  "node_ref \<Rightarrow> paradigm_nodes \<Rightarrow> paradigm_nodes \<Rightarrow> node_ref \<Rightarrow> node_ref option \<Rightarrow> nat \<Rightarrow>
   bool \<times> bool \<times> engine \<Rightarrow> (bool \<times> bool \<times> engine) result" where
  "link_paradigm node predMap nextMap directPred directSucc i st = (case st of (pl, sl, s) \<Rightarrow>
    (let h = ge_heap s; paradigm = paradigm_bit i; nodeParadigm = nd_paradigm (h node) in
     if (paradigm AND nodeParadigm) \<noteq> nodeParadigm then Inr st
     else case predMap paradigm of
       None \<Rightarrow> Inr st
     | Some pred \<Rightarrow>
         (let s = snd (newEdge pred node (wait_edge (h pred) (h node)) (Some paradigm) s);
              pl = (pl \<or> directPred = pred) in
          case (directSucc, nextMap paradigm) of
            (Some d, Some succ) \<Rightarrow>
              (case getEdge pred succ s of
                 None \<Rightarrow> Inl (Runtime_Error ''No edge between'')
               | Some oldEdge \<Rightarrow>
                   (let s = engine_removeEdge oldEdge s;
                        s = snd (newEdge node succ False (Some paradigm) s)
                    in Inr (pl, sl \<or> d = succ, s)))
          | _ \<Rightarrow> Inr (pl, sl, s))))"

fun link_paradigms ::
  "node_ref \<Rightarrow> paradigm_nodes \<Rightarrow> paradigm_nodes \<Rightarrow> node_ref \<Rightarrow> node_ref option \<Rightarrow> nat list \<Rightarrow>
   bool \<times> bool \<times> engine \<Rightarrow> (bool \<times> bool \<times> engine) result" where
  "link_paradigms node pm nm dp ds [] st = Inr st"
| "link_paradigms node pm nm dp ds (i # is) st =
    bind_res (link_paradigm node pm nm dp ds i st) (link_paradigms node pm nm dp ds is)"

definition link_neighbours :: "node_ref \<Rightarrow> paradigm_nodes \<Rightarrow> paradigm_nodes \<Rightarrow> engine \<Rightarrow> engine result" where
  "link_neighbours node predMap nextMap s =
    (let h = ge_heap s; directSucc = earliest_succ h nextMap in
     case latest_pred h predMap of
       None \<Rightarrow> Inr s
     | Some dp \<Rightarrow>
         bind_res (if nd_paradigm (h node) = PARADIGM_MPI
                   then link_paradigms node predMap nextMap dp directSucc [0..<NODE_PARADIGM_COUNT] (False, False, s)
                   else Inr (False, False, s)) (\<lambda>(predLinked, succLinked, s).
         let s = (if \<not> predLinked
                  then snd (newEdge dp node (wait_edge (h dp) (h node)) (Some (nd_paradigm (h dp))) s) else s)
         in case directSucc of
              None \<Rightarrow> Inr s
            | Some d \<Rightarrow>
                if succLinked then Inr s
                else
                  (let s = (case getEdge dp d s of Some e \<Rightarrow> engine_removeEdge e s | None \<Rightarrow> s)
                   in Inr (snd (newEdge node d False (Some (nd_paradigm (h d))) s)))))"

section \<open>Adding a node\<close>

text \<open>The last kernel leave before a kernel on the other streams of the device. The second node of the
  pair of the last kernel event is its leave.\<close>

fun other_stream_kernel ::
  "heap \<Rightarrow> node_ref \<Rightarrow> u64 \<Rightarrow> event_stream list \<Rightarrow> node_ref option \<Rightarrow> node_ref option result" where
  "other_stream_kernel h node streamId [] best = Inr best"
| "other_stream_kernel h node streamId (p # ps) best =
    (if es_id p = streamId then other_stream_kernel h node streamId ps best
     else bind_res (getLastParadigmNode (nd_paradigm (h node)) p) (\<lambda>q.
       case (case q of None \<Rightarrow> None | Some k \<Rightarrow> gn_second (h k)) of
         None \<Rightarrow> other_stream_kernel h node streamId ps best
       | Some k \<Rightarrow>
           if nd_time (h k) > nd_time (h node) then other_stream_kernel h node streamId ps best
           else other_stream_kernel h node streamId ps
             (case best of None \<Rightarrow> Some k | Some b \<Rightarrow> if compareLess (h b) (h k) then Some k else Some b)))"

definition link_kernel :: "u32 \<Rightarrow> node_ref \<Rightarrow> stream_ref \<Rightarrow> paradigm_nodes \<Rightarrow> engine \<Rightarrow> engine result" where
  "link_kernel linkKernels node stream predMap s =
    (let h = ge_heap s in
     if \<not> (linkKernels > 0 \<and> isEnter (h node) \<and> isOffloadKernel (h node)) then Inr s
     else if \<not> isDeviceStream (base (ge_streams s stream)) then Inr s
     else
       (let best = (case latest_pred h predMap of
                      Some d \<Rightarrow> if isLeave (h d) then Some d else None | None \<Rightarrow> None);
            (devStreams, g) = getDeviceStreams (obj_deviceId (ge_streams s stream)) (ge_group s);
            s = s\<lparr>ge_group := g\<rparr>
        in bind_res (other_stream_kernel h node (es_id (base (ge_streams s stream)))
                       (map (\<lambda>p. base (ge_streams s p)) devStreams) best) (\<lambda>best.
           case best of
             None \<Rightarrow> Inr s
           | Some k \<Rightarrow> if node \<noteq> k then Inr (s\<lparr>ge_heap := setLinkLeft node (Some k) (ge_heap s)\<rparr>) else Inr s)))"

text \<open>Adding at the end of the stream, or inserting when the node is not after the last one.\<close>

definition place_node ::
  "node_ref \<Rightarrow> stream_ref \<Rightarrow> engine \<Rightarrow> (paradigm_nodes \<times> paradigm_nodes \<times> engine) result" where
  "place_node node stream s =
    (let h = ge_heap s; p = ge_streams s stream in
     if (case es_lastNode (base p) of None \<Rightarrow> True | Some l \<Rightarrow> compareLess (h l) (h node))
     then bind_res (obj_addGraphNode node (Some Map.empty) h p) (\<lambda>(h, m, p).
        Inr (case m of None \<Rightarrow> Map.empty | Some m \<Rightarrow> m, Map.empty,
             s\<lparr>ge_heap := h, ge_streams := (ge_streams s)(stream := p)\<rparr>))
     else bind_res (obj_insertGraphNode node Map.empty Map.empty h p) (\<lambda>(pm, nm, p).
        Inr (pm, nm, s\<lparr>ge_streams := (ge_streams s)(stream := p)\<rparr>)))"

definition addNewGraphNodeInternal :: "u32 \<Rightarrow> node_ref \<Rightarrow> stream_ref \<Rightarrow> engine \<Rightarrow> engine result" where
  "addNewGraphNodeInternal linkKernels node stream s =
    (let streamId = es_id (base (ge_streams s stream)) in
     if nd_streamId (ge_heap s node) \<noteq> streamId
     then Inl (Assertion_Failed ''Cannot add graph node to stream'')
     else
       bind_res (place_node node stream s) (\<lambda>(pm, nm, s).
       bind_res (link_region node streamId s) (\<lambda>s.
       bind_res (link_neighbours node pm nm s) (\<lambda>s.
       link_kernel linkKernels node stream pm s))))"

definition addNewGraphNode ::
  "u32 \<Rightarrow> u64 \<Rightarrow> stream_ref \<Rightarrow> string \<Rightarrow> u32 \<Rightarrow> record_type \<Rightarrow> u32 \<Rightarrow> engine \<Rightarrow> (node_ref \<times> engine) result" where
  "addNewGraphNode linkKernels time stream name paradigm recordType nodeType s =
    (case newGraphNode time (es_id (base (ge_streams s stream))) name paradigm recordType nodeType s of
       (n, s) \<Rightarrow> bind_res (addNewGraphNodeInternal linkKernels n stream s) (\<lambda>s. Inr (n, s)))"

section \<open>Walking back along the edges\<close>

fun closest_intra :: "heap \<Rightarrow> edge_heap \<Rightarrow> edge_ref list \<Rightarrow> node_ref option \<Rightarrow> node_ref option" where
  "closest_intra h E [] prev = prev"
| "closest_intra h E (e # es) prev =
    (if isIntraStreamEdge h (E e) \<and>
        (case prev of None \<Rightarrow> True | Some q \<Rightarrow> nd_time (h q) < nd_time (h (e_start (E e))))
     then closest_intra h E es (Some (e_start (E e))) else closest_intra h E es prev)"

function edge_walk ::
  "heap \<Rightarrow> edge_heap \<Rightarrow> graph \<Rightarrow> 'u walk_callback \<Rightarrow> 'u \<Rightarrow> node_ref \<Rightarrow> 'u result" where
  "edge_walk h E g cb u node =
    bind_res (getInEdges node g) (\<lambda>es.
      case closest_intra h E es None of
        None \<Rightarrow> Inr u
      | Some q \<Rightarrow>
          if nd_time (h q) < nd_time (h node)
          then (case cb u q of (go, u) \<Rightarrow> if go then edge_walk h E g cb u q else Inr u)
          else Inr u)"
  by pat_completeness auto
termination
  by (relation "measure (\<lambda>(h, E, g, cb, u, node). unat (nd_time (h node)))") (auto simp: word_less_nat_alt)

declare edge_walk.simps [simp del]

definition streamWalkBackward ::
  "node_ref option \<Rightarrow> 'u walk_callback option \<Rightarrow> 'u \<Rightarrow> engine \<Rightarrow> 'u result" where
  "streamWalkBackward node callback u s = (case (node, callback) of
      (Some n, Some cb) \<Rightarrow> edge_walk (ge_heap s) (ge_edges s) (ge_graph s) cb u n
    | _ \<Rightarrow> Inr u)"

end
