(* ===== verification/RegionLaws.thy ===== *)
theory RegionLaws
  imports EngineLaws
begin

text \<open>The stack of open regions: on a well-nested sequence of events every enter becomes the partner of
  its leave, both get the enclosing region as caller, and the stack is left as it was found. A region of
  no duration breaks this.\<close>

section \<open>Well-nested events\<close>

text \<open>A region is an enter, the regions inside, and a leave. The events of a list of regions, and the
  regions with the enter that encloses them.\<close>

datatype region = Region (r_enter: node_ref) (r_inner: "region list") (r_leave: node_ref)

fun events :: "region list \<Rightarrow> node_ref list" where
  "events [] = []"
| "events (Region e rs l # r) = e # events rs @ l # events r"

fun calls :: "node_ref option \<Rightarrow> region list \<Rightarrow> (node_ref \<times> node_ref \<times> node_ref option) list" where
  "calls c [] = []"
| "calls c (Region e rs l # r) = (e, l, c) # calls (Some e) rs @ calls c r"

fun link_regions :: "node_ref list \<Rightarrow> u64 \<Rightarrow> engine \<Rightarrow> engine result" where
  "link_regions [] i s = Inr s"
| "link_regions (n # ns) i s = bind_res (link_region n i s) (link_regions ns i)"

definition well_timed :: "heap \<Rightarrow> region list \<Rightarrow> bool" where
  "well_timed h rs \<longleftrightarrow>
    (\<forall>(e, l, c) \<in> set (calls None rs). isEnter (h e) \<and> isLeave (h l) \<and> nd_time (h e) < nd_time (h l))"

definition linked :: "heap \<Rightarrow> node_ref \<times> node_ref \<times> node_ref option \<Rightarrow> bool" where
  "linked h x = (case x of (e, l, c) \<Rightarrow>
    getPartner (h e) = Some l \<and> getPartner (h l) = Some e \<and> gn_caller (h e) = c \<and> gn_caller (h l) = c)"

lemma calls_events: "(e, l, c) \<in> set (calls d rs) \<Longrightarrow> e \<in> set (events rs) \<and> l \<in> set (events rs)"
  by (induction d rs rule: calls.induct) auto

lemma well_timed_iff:
  "well_timed h rs \<longleftrightarrow> (\<forall>(e, l, x) \<in> set (calls d rs). isEnter (h e) \<and> isLeave (h l) \<and> nd_time (h e) < nd_time (h l))"
proof -
  have "(\<lambda>(e, l, x). (e, l)) ` set (calls c rs) = (\<lambda>(e, l, x). (e, l)) ` set (calls d rs)" for c
    by (induction c rs rule: calls.induct) (auto simp: image_Un)
  from this [of None] show ?thesis
    by (fastforce simp: well_timed_def image_iff set_eq_iff)
qed

text \<open>What linking changes: the heap on the nodes given only, and no time and no record type.\<close>

definition same_base :: "heap \<Rightarrow> heap \<Rightarrow> bool" where
  "same_base h h' \<longleftrightarrow> (\<forall>p. nd_time (h' p) = nd_time (h p) \<and> nd_recordType (h' p) = nd_recordType (h p))"

lemma link_regions_append:
  "link_regions (ns @ ms) i s = bind_res (link_regions ns i s) (link_regions ms i)"
proof (induction ns arbitrary: s)
  case (Cons n ns)
  then show ?case
    by (cases "link_region n i s") auto
qed simp

lemma link_enter:
  assumes "isEnter (ge_heap s e)"
  shows "\<exists>s'. link_region e i s = Inr s' \<and> ge_stacks s' = (ge_stacks s)(i := e # ge_stacks s i) \<and>
     ge_heap s' = (ge_heap s)(e := (ge_heap s e)\<lparr>gn_caller := topGraphNodeStack i s\<rparr>)"
  using assms
  by (simp add: link_region_def Let_def isEnter_def isLeave_def pushGraphNodeStack_def node_update_def setCaller_def)

lemma link_leave:
  assumes "isEnter (ge_heap s e)" "isLeave (ge_heap s l)" "nd_time (ge_heap s e) < nd_time (ge_heap s l)"
    "ge_stacks s i = e # ns"
  shows "\<exists>s'. link_region l i s = Inr s' \<and> ge_stacks s' = (ge_stacks s)(i := ns) \<and>
     ge_heap s' = (ge_heap s)(e := (ge_heap s e)\<lparr>gn_first := Some e, gn_second := Some l\<rparr>,
       l := (ge_heap s l)\<lparr>gn_first := Some e, gn_second := Some l,
              gn_caller := (case ns of [] \<Rightarrow> None | n # _ \<Rightarrow> Some n)\<rparr>)"
proof -
  have "e \<noteq> l"
    using assms(1,2) by (auto simp: isEnter_def isLeave_def)
  then show ?thesis
    using assms
    by (auto simp: link_region_def Let_def isEnter_def isLeave_def popGraphNodeStack_def topGraphNodeStack_def
        node_update_def setCaller_def setPartner_def fun_eq_iff)
qed

lemma linked_cong: "h' e = h e \<Longrightarrow> h' l = h l \<Longrightarrow> linked h' (e, l, c) = linked h (e, l, c)"
  by (simp add: linked_def)

lemma well_timed_same: "same_base h h' \<Longrightarrow> well_timed h' rs = well_timed h rs"
  by (simp add: well_timed_def same_base_def isEnter_def isLeave_def)

lemma well_timed_Cons:
  "well_timed h (Region e rs l # r) \<longleftrightarrow>
   isEnter (h e) \<and> isLeave (h l) \<and> nd_time (h e) < nd_time (h l) \<and> well_timed h rs \<and> well_timed h r"
  unfolding well_timed_iff [of h rs "Some e"] by (simp add: well_timed_def ball_Un conj_ac)

lemma link_regions_linked:
  "distinct (events rs) \<Longrightarrow> well_timed (ge_heap s) rs \<Longrightarrow>
   \<exists>s'. link_regions (events rs) i s = Inr s' \<and> ge_stacks s' = ge_stacks s \<and> same_base (ge_heap s) (ge_heap s') \<and>
     (\<forall>p. p \<notin> set (events rs) \<longrightarrow> ge_heap s' p = ge_heap s p) \<and>
     (\<forall>x\<in>set (calls (topGraphNodeStack i s) rs). linked (ge_heap s') x)"
proof (induction rs arbitrary: s rule: events.induct)
  case 1
  then show ?case
    by (simp add: same_base_def)
next
  case (2 e rs l r)
  note wt = 2(4) [unfolded well_timed_Cons] and d = 2(3)
  obtain s1 where s1: "link_region e i s = Inr s1" "ge_stacks s1 = (ge_stacks s)(i := e # ge_stacks s i)"
      "ge_heap s1 = (ge_heap s)(e := (ge_heap s e)\<lparr>gn_caller := topGraphNodeStack i s\<rparr>)"
    using link_enter wt by blast
  have b1: "same_base (ge_heap s) (ge_heap s1)"
    by (simp add: s1(3) same_base_def)
  have top1: "topGraphNodeStack i s1 = Some e"
    by (simp add: topGraphNodeStack_def s1(2))
  obtain s2 where s2: "link_regions (events rs) i s1 = Inr s2" "ge_stacks s2 = ge_stacks s1"
      "same_base (ge_heap s1) (ge_heap s2)" "\<forall>p. p \<notin> set (events rs) \<longrightarrow> ge_heap s2 p = ge_heap s1 p"
      "\<forall>x\<in>set (calls (Some e) rs). linked (ge_heap s2) x"
    using 2(1) [of s1] d wt well_timed_same [OF b1] by (auto simp: top1)
  have b2: "same_base (ge_heap s) (ge_heap s2)"
    using b1 s2(3) by (simp add: same_base_def)
  obtain s3 where s3: "link_region l i s2 = Inr s3" "ge_stacks s3 = (ge_stacks s2)(i := ge_stacks s i)"
      "ge_heap s3 = (ge_heap s2)(e := (ge_heap s2 e)\<lparr>gn_first := Some e, gn_second := Some l\<rparr>,
         l := (ge_heap s2 l)\<lparr>gn_first := Some e, gn_second := Some l, gn_caller := topGraphNodeStack i s\<rparr>)"
    using link_leave [of s2 e l i "ge_stacks s i"] wt b2 unfolding topGraphNodeStack_def
    by (auto simp: same_base_def isEnter_def isLeave_def s2(2) s1(2))
  have st: "ge_stacks s3 = ge_stacks s"
    by (simp add: s3(2) s2(2) s1(2))
  have b3: "same_base (ge_heap s) (ge_heap s3)"
    using b2 by (simp add: same_base_def s3(3))
  obtain s4 where s4: "link_regions (events r) i s3 = Inr s4" "ge_stacks s4 = ge_stacks s3"
      "same_base (ge_heap s3) (ge_heap s4)" "\<forall>p. p \<notin> set (events r) \<longrightarrow> ge_heap s4 p = ge_heap s3 p"
      "\<forall>x\<in>set (calls (topGraphNodeStack i s3) r). linked (ge_heap s4) x"
    using 2(2) [of s3] d wt well_timed_same [OF b3] by auto
  have run: "link_regions (events (Region e rs l # r)) i s = Inr s4"
    by (simp add: s1(1) link_regions_append s2(1) s3(1) s4(1))
  have n: "ge_heap s4 e = ge_heap s3 e" "ge_heap s4 l = ge_heap s3 l" "e \<noteq> l" "ge_heap s2 e = ge_heap s1 e"
    using d s4(4) s2(4) by auto
  have el: "linked (ge_heap s4) (e, l, topGraphNodeStack i s)"
  proof -
    have "nd_recordType (ge_heap s2 l) = RECORD_LEAVE" "nd_recordType (ge_heap s e) = RECORD_ENTER"
      using wt b2 by (simp_all add: same_base_def isEnter_def isLeave_def)
    then show ?thesis
      using n by (simp add: linked_def getPartner_def s3(3) s1(3) isEnter_def)
  qed
  have inner: "linked (ge_heap s4) x" if "x \<in> set (calls (Some e) rs)" for x
  proof -
    obtain a b c where x: "x = (a, b, c)"
      by (cases x)
    have "a \<in> set (events rs)" "b \<in> set (events rs)"
      using calls_events that x by auto
    then have "ge_heap s4 a = ge_heap s2 a" "ge_heap s4 b = ge_heap s2 b"
      using d s4(4) by (auto simp: s3(3))
    then show ?thesis
      using s2(5) that x linked_cong [of "ge_heap s4" a "ge_heap s2" b] by auto
  qed
  have "topGraphNodeStack i s3 = topGraphNodeStack i s"
    by (simp add: topGraphNodeStack_def st)
  moreover have "same_base (ge_heap s) (ge_heap s4)"
    using b3 s4(3) by (simp add: same_base_def)
  moreover have "ge_heap s4 p = ge_heap s p" if "p \<notin> set (events (Region e rs l # r))" for p
    using that s4(4) s2(4) by (simp add: s3(3) s1(3))
  ultimately show ?case
    using run st s4(2,5) el inner by (auto simp del: events.simps)
qed

text \<open>C40. Linking the events of well-nested regions of positive duration never fails, leaves the stack of
  open regions as it was, changes no other node, and pairs the enter and leave of every region, both
  with the directly enclosing enter as caller.\<close>
theorem nested_regions_linked:
  assumes "distinct (events rs)" "well_timed (ge_heap s) rs"
  shows "\<exists>s'. link_regions (events rs) i s = Inr s' \<and> ge_stacks s' = ge_stacks s \<and>
     (\<forall>p. p \<notin> set (events rs) \<longrightarrow> ge_heap s' p = ge_heap s p) \<and>
     (\<forall>x\<in>set (calls (topGraphNodeStack i s) rs). linked (ge_heap s') x)"
  using link_regions_linked [OF assms, of i] by blast

theorem nested_regions_linked_witness:
  "\<exists>s'. link_regions [0, 1, 2, 3] 7
     (demo_engine\<lparr>ge_heap := (\<lambda>p. demo_region (if p < 2 then RECORD_ENTER else RECORD_LEAVE) (of_nat p))\<rparr>) = Inr s' \<and>
     linked (ge_heap s') (1, 2, Some 0)"
proof -
  let ?s = "demo_engine\<lparr>ge_heap := (\<lambda>p. demo_region (if p < 2 then RECORD_ENTER else RECORD_LEAVE) (of_nat p))\<rparr>"
  let ?rs = "[Region 0 [Region 1 [] 2] 3]"
  have "well_timed (ge_heap ?s) ?rs"
    by (simp add: well_timed_def demo_region_def GraphNode_new_def Node_new_def isEnter_def isLeave_def node.defs graph_node.defs)
  then show ?thesis
    using nested_regions_linked [of ?rs ?s 7] by (auto simp del: link_regions.simps)
qed

section \<open>A region of no duration\<close>

text \<open>When a leave has the time of its enter, pairing the two makes the enter its own partner:
  \<^verbatim>\<open>setPartner\<close> orders the pair by time and puts the node itself second when the times are equal, which
  is right for the leave only.\<close>
lemma zero_duration_partner:
  assumes "isEnter (ge_heap s e)" "isLeave (ge_heap s l)" "nd_time (ge_heap s e) = nd_time (ge_heap s l)"
    "ge_stacks s i = e # ns"
  shows "\<exists>s'. link_region l i s = Inr s' \<and> getPartner (ge_heap s' e) = Some e \<and> getPartner (ge_heap s' l) = Some e"
proof -
  have "e \<noteq> l"
    using assms(1,2) by (auto simp: isEnter_def isLeave_def)
  then show ?thesis
    using assms
    by (auto simp: link_region_def Let_def isEnter_def isLeave_def popGraphNodeStack_def topGraphNodeStack_def
        node_update_def setCaller_def setPartner_def getPartner_def)
qed

section \<open>Walking back along the edges\<close>

lemma closest_intra_spec:
  "closest_intra h E es prev = Some q \<Longrightarrow>
   prev = Some q \<or> (\<exists>e\<in>set es. isIntraStreamEdge h (E e) \<and> e_start (E e) = q)"
  by (induction es arbitrary: prev) (auto split: if_splits)

text \<open>The nodes a walk hands to a callback that never stops.\<close>

definition walked :: "node_ref \<Rightarrow> engine \<Rightarrow> node_ref list result" where
  "walked n s = streamWalkBackward (Some n) (Some (\<lambda>u q. (True, u @ [q]))) [] s"

definition same_stream_back :: "heap \<Rightarrow> node_ref \<Rightarrow> node_ref \<Rightarrow> bool" where
  "same_stream_back h a b \<longleftrightarrow> nd_time (h b) < nd_time (h a) \<and> nd_streamId (h b) = nd_streamId (h a)"

lemma same_stream_back_trans: "same_stream_back h a b \<Longrightarrow> same_stream_back h b c \<Longrightarrow> same_stream_back h a c"
  by (auto simp: same_stream_back_def)

lemma edge_walk_collects:
  "edge_walk h E g cb u n = Inr r \<Longrightarrow> cb = (\<lambda>u q. (True, u @ [q])) \<Longrightarrow> edges_consistent E g \<Longrightarrow>
   \<exists>qs. r = u @ qs \<and> sorted_wrt (same_stream_back h) (n # qs)"
proof (induction h E g cb u n rule: edge_walk.induct)
  case (1 h E g cb u n)
  obtain es where es: "getInEdges n g = Inr es"
    using 1(2) by (auto simp: edge_walk.simps [of h E g cb u n] bind_res_Inr)
  show ?case
  proof (cases "\<exists>q. closest_intra h E es None = Some q \<and> nd_time (h q) < nd_time (h n)")
    case True
    then obtain q where q: "closest_intra h E es None = Some q" "nd_time (h q) < nd_time (h n)"
      by blast
    have "edge_walk h E g cb (u @ [q]) q = Inr r"
      using 1(2) es q unfolding edge_walk.simps [of h E g cb u n] by (simp add: 1(3))
    then obtain qs where qs: "r = (u @ [q]) @ qs" "sorted_wrt (same_stream_back h) (q # qs)"
      using 1(1) [OF q, of True "u @ [q]"] 1(3,4) by auto
    obtain e where "e \<in> set es" "isIntraStreamEdge h (E e)" "e_start (E e) = q"
      using closest_intra_spec [OF q(1)] by auto
    moreover have "e_end (E e) = n" if "e \<in> set es" for e
      using that es 1(4) by (auto simp: getInEdges_def edges_consistent_def edges_at_def split: option.splits if_splits)
    ultimately have "same_stream_back h n q"
      using q(2) by (auto simp: same_stream_back_def isIntraStreamEdge_def)
    then show ?thesis
      using qs by (intro exI [of _ "q # qs"]) (auto intro: same_stream_back_trans)
  next
    case False
    then have "r = u"
      using 1(2) es unfolding edge_walk.simps [of h E g cb u n] by (auto split: option.splits)
    then show ?thesis
      by simp
  qed
qed

text \<open>The walk back along the edges stays on the stream of its start and goes strictly back in time,
  so it ends.\<close>
lemma streamWalkBackward_decreases:
  assumes "engine_ok s" "walked n s = Inr qs"
  shows "sorted_wrt (same_stream_back (ge_heap s)) (n # qs)"
  using edge_walk_collects [of "ge_heap s" "ge_edges s" "ge_graph s" _ "[]" n qs] assms
  by (auto simp: walked_def streamWalkBackward_def engine_ok_def)

section \<open>Device numbers in stream names\<close>

lemma digit_value_char [simp]: "digit_value (digit_char d) = int (d mod 10)"
proof -
  have "d mod 10 = 0 \<or> d mod 10 = 1 \<or> d mod 10 = 2 \<or> d mod 10 = 3 \<or> d mod 10 = 4 \<or>
      d mod 10 = 5 \<or> d mod 10 = 6 \<or> d mod 10 = 7 \<or> d mod 10 = 8 \<or> d mod 10 = 9"
    by presburger
  then show ?thesis
    by (elim disjE) (simp_all add: digit_value_def digit_char_def)
qed

lemma atoi_digits_append:
  "(\<And>c. c \<in> set us \<Longrightarrow> is_digit c) \<Longrightarrow> atoi_digits a (us @ vs) = atoi_digits (atoi_digits a us) vs"
  by (induction us arbitrary: a) auto

lemma atoi_digits_dec: "atoi_digits 0 (dec_string n) = int n"
proof (induction n rule: dec_string.induct)
  case (1 n)
  show ?case
  proof (cases "n < 10")
    case True
    then show ?thesis
      by (simp add: dec_string.simps [of n] digit_char_digit)
  next
    case False
    then have "atoi_digits 0 (dec_string n) = 10 * int (n div 10) + int (n mod 10)"
      using 1 by (simp add: dec_string.simps [of n] atoi_digits_append dec_string_digits digit_char_digit)
    then show ?thesis
      by presburger
  qed
qed

lemma digit_no_sign: "is_digit c \<Longrightarrow> \<not> is_space c \<and> c \<noteq> CHR ''-'' \<and> c \<noteq> CHR ''+'' \<and> c \<noteq> CHR '':''"
  by (auto simp: is_digit_def is_space_def)

lemma atoi_dec: "\<not> is_digit c \<Longrightarrow> atoi (dec_string n @ c # t) = int n"
proof -
  assume "\<not> is_digit c"
  then have "atoi_digits 0 (dec_string n @ c # t) = int n"
    by (simp add: atoi_digits_append dec_string_digits atoi_digits_dec)
  moreover obtain d ds where d: "dec_string n = d # ds"
    by (cases "dec_string n") auto
  moreover have "is_digit d"
    using dec_string_digits [of d n] d by simp
  ultimately show ?thesis
    using digit_no_sign [of d] by (simp add: atoi_def)
qed

lemma contains_first: "contains (c # cs) t \<Longrightarrow> c \<in> set t"
  by (induction "c # cs" t rule: contains.induct) (auto split: if_splits)

lemma after_first_skip: "c \<notin> set us \<Longrightarrow> after_first c (us @ c # vs) = Some vs"
  by (auto simp: after_first_def dropWhile_append)

text \<open>A stream named \<^verbatim>\<open>CUDA[d:s]\<close> gets the device number \<^verbatim>\<open>d\<close>, and when the trace has a null stream
  the native stream number \<^verbatim>\<open>s\<close>.\<close>
lemma name_device_roundtrip:
  "ds_deviceId (name_device nullStream (''CUDA['' @ dec_string d @ '':'' @ dec_string t @ '']'') p) = int d \<and>
   ds_nativeStreamId (name_device nullStream (''CUDA['' @ dec_string d @ '':'' @ dec_string t @ '']'') p) =
     (if nullStream = - 1 then ds_nativeStreamId p else int t)"
proof -
  let ?name = "''CUDA['' @ dec_string d @ '':'' @ dec_string t @ '']''"
  have "after_first (CHR '':'') ?name = Some (dec_string t @ '']'')"
    using after_first_skip [of "CHR '':''" "''CUDA['' @ dec_string d" "dec_string t @ '']''"] dec_string_digits [of _ d]
    by (auto simp: is_digit_def)
  moreover have "contains ''CUDA['' ?name"
    by simp
  moreover have "\<not> contains ''OMP target thread ['' ?name"
    using contains_first [of "CHR ''O''" "''MP target thread [''" ?name] dec_string_digits
    by (auto simp: is_digit_def simp del: contains.simps)
  ultimately show ?thesis
    using atoi_dec [of "CHR '':''" d] atoi_dec [of "CHR '']''" t "[]"]
    by (simp add: name_device_def Let_def setDeviceId_def setNativeStreamId_def is_digit_def)
qed

end
