(* ===== verification/StatisticsModel.thy ===== *)
theory StatisticsModel
  imports RegionLaws
begin

text \<open>The statistics of \<^verbatim>\<open>analysis/Statistics.cpp\<close>: two arrays of counters. A counter of an activity with
  a time takes two neighbouring entries, the count and the time.\<close>

section \<open>State\<close>

named_theorems stat_consts \<open>the indices of the counters\<close>

definition OFLD_STAT_EARLY_BLOCKING_WAIT :: nat where [stat_consts]: "OFLD_STAT_EARLY_BLOCKING_WAIT = 3"
definition OFLD_STAT_EARLY_BLOCKING_WTIME_KERNEL :: nat where [stat_consts]: "OFLD_STAT_EARLY_BLOCKING_WTIME_KERNEL = 5"
definition OFLD_STAT_EARLY_TEST :: nat where [stat_consts]: "OFLD_STAT_EARLY_TEST = 6"
definition OFLD_STAT_IDLE_TIME :: nat where [stat_consts]: "OFLD_STAT_IDLE_TIME = 8"
definition OFLD_STAT_COMPUTE_IDLE_TIME :: nat where [stat_consts]: "OFLD_STAT_COMPUTE_IDLE_TIME = 9"
definition OFLD_STAT_OFLD_TIME :: nat where [stat_consts]: "OFLD_STAT_OFLD_TIME = 10"
definition OFLD_STAT_KERNEL_START_DELAY :: nat where [stat_consts]: "OFLD_STAT_KERNEL_START_DELAY = 15"
definition STAT_OFLD_COMPUTE_OVERLAP_TIME :: nat where [stat_consts]: "STAT_OFLD_COMPUTE_OVERLAP_TIME = 17"
definition MPI_STAT_LATE_SENDER :: nat where [stat_consts]: "MPI_STAT_LATE_SENDER = 19"
definition MPI_STAT_LATE_RECEIVER :: nat where [stat_consts]: "MPI_STAT_LATE_RECEIVER = 21"
definition MPI_STAT_SENDRECV :: nat where [stat_consts]: "MPI_STAT_SENDRECV = 23"
definition MPI_STAT_COLLECTIVE :: nat where [stat_consts]: "MPI_STAT_COLLECTIVE = 25"
definition MPI_STAT_WAITALL_LATEPARTNER :: nat where [stat_consts]: "MPI_STAT_WAITALL_LATEPARTNER = 27"
definition OMP_STAT_BARRIER :: nat where [stat_consts]: "OMP_STAT_BARRIER = 29"
definition STAT_NUMBER :: nat where [stat_consts]: "STAT_NUMBER = 31"

datatype activity = STAT_MPI_COLLECTIVE | STAT_MPI_P2P | STAT_MPI_WAIT | STAT_MPI_TEST | STAT_OMP_JOIN
  | STAT_OMP_BARRIER | STAT_OFLD_KERNEL | STAT_OFLD_SYNC | STAT_OFLD_SYNC_EVT | STAT_OFLD_TEST_EVT
  | STAT_TOTAL_TRACE_EVENTS | STAT_HOST_STREAMS | STAT_DEVICE_NUM

record statistics =
  st_stats :: "nat \<Rightarrow> u64"
  st_activity :: "activity \<Rightarrow> u64"

definition Statistics_new :: statistics where
  "Statistics_new = \<lparr>st_stats = (\<lambda>_. 0), st_activity = (\<lambda>_. 0)\<rparr>"

section \<open>Operations\<close>

text \<open>Writing past the array is undefined; the enumeration goes up to the last index, where a count has
  no entry for its time.\<close>

definition addStatWithCount :: "nat \<Rightarrow> u64 \<Rightarrow> u64 \<Rightarrow> statistics \<Rightarrow> statistics result" where
  "addStatWithCount t time count s =
    (if t + 1 < STAT_NUMBER then
       (let a = st_stats s; a = a(t := a t + count); a = a(t + 1 := a (t + 1) + time)
        in Inr (s\<lparr>st_stats := a\<rparr>))
     else Inl Out_Of_Bounds)"

definition addStatValue :: "nat \<Rightarrow> u64 \<Rightarrow> statistics \<Rightarrow> statistics result" where
  "addStatValue t v s =
    (if t < STAT_NUMBER then Inr (s\<lparr>st_stats := (st_stats s)(t := st_stats s t + v)\<rparr>) else Inl Out_Of_Bounds)"

definition addAllStats :: "(nat \<Rightarrow> u64) \<Rightarrow> statistics \<Rightarrow> statistics" where
  "addAllStats b s = s\<lparr>st_stats := (\<lambda>i. if i < STAT_NUMBER then st_stats s i + b i else st_stats s i)\<rparr>"

definition setAllStats :: "(nat \<Rightarrow> u64) \<Rightarrow> statistics \<Rightarrow> statistics" where
  "setAllStats b s = s\<lparr>st_stats := (\<lambda>i. if i < STAT_NUMBER then b i else st_stats s i)\<rparr>"

definition countActivity :: "activity \<Rightarrow> statistics \<Rightarrow> statistics" where
  "countActivity a s = s\<lparr>st_activity := (st_activity s)(a := st_activity s a + 1)\<rparr>"

definition setActivityCount :: "activity \<Rightarrow> u64 \<Rightarrow> statistics \<Rightarrow> statistics" where
  "setActivityCount a n s = s\<lparr>st_activity := (st_activity s)(a := n)\<rparr>"

definition setActivityCounts :: "(activity \<Rightarrow> u64) \<Rightarrow> statistics \<Rightarrow> statistics" where
  "setActivityCounts c s = s\<lparr>st_activity := c\<rparr>"

definition addActivityCounts :: "(activity \<Rightarrow> u64) \<Rightarrow> statistics \<Rightarrow> statistics" where
  "addActivityCounts c s = s\<lparr>st_activity := (\<lambda>a. st_activity s a + c a)\<rparr>"

section \<open>Gathering the statistics of all ranks\<close>

text \<open>The root adds the arrays of the other ranks to its own: the total does not depend on the order in
  which they arrive.\<close>

lemma addAllStats_commute: "addAllStats a (addAllStats b s) = addAllStats b (addAllStats a s)"
  by (simp add: addAllStats_def fun_eq_iff add_ac)

lemma addStat_addAll:
  "addStatWithCount t v c s = Inr s' \<Longrightarrow> addStatWithCount t v c (addAllStats b s) = Inr (addAllStats b s')"
  by (auto simp: addStatWithCount_def addAllStats_def Let_def fun_eq_iff add_ac split: if_splits)

end
