(* ===== verification/MpiAnalysisModel.thy ===== *)
theory MpiAnalysisModel
  imports StatisticsModel
begin

text \<open>The MPI data of \<^verbatim>\<open>analysis/MPIAnalysis.cpp\<close>: communicators with their members, the ranks of the
  streams, and the remote nodes the critical path continues at.\<close>

section \<open>State\<close>

text \<open>A communicator is null, the process alone, or made of the ranks of the world in the list.\<close>

datatype mpi_comm = MPI_COMM_NULL | MPI_COMM_SELF | Comm_Of "int list"

record comm_group =
  cg_comm :: mpi_comm
  cg_procs :: "u32 list"

record remote_node =
  rn_streamID :: u64
  rn_nodeID :: u64

record mpi_analysis =
  ma_mpiRank :: u32
  ma_mpiSize :: u32
  ma_streamIdRankMap :: "u32 \<rightharpoonup> u32"
  ma_commGroups :: "(u32, comm_group) smap"
  ma_remoteNodes :: "node_ref \<rightharpoonup> remote_node"

definition MPIAnalysis_new :: "u32 \<Rightarrow> u32 \<Rightarrow> mpi_analysis" where
  "MPIAnalysis_new rank worldSize = \<lparr>ma_mpiRank = rank, ma_mpiSize = worldSize, ma_streamIdRankMap = Map.empty,
     ma_commGroups = [], ma_remoteNodes = Map.empty\<rparr>"

section \<open>Ranks\<close>

text \<open>The key type of the map of ranks has 32 bits: an identifier of a stream is cut to them.\<close>

definition setMPIRank :: "u64 \<Rightarrow> u32 \<Rightarrow> mpi_analysis \<Rightarrow> mpi_analysis" where
  "setMPIRank streamId rank m = m\<lparr>ma_streamIdRankMap := (ma_streamIdRankMap m)(ucast streamId \<mapsto> rank)\<rparr>"

definition getMPIRank :: "u64 \<Rightarrow> mpi_analysis \<Rightarrow> u32 result" where
  "getMPIRank streamId m = (case ma_streamIdRankMap m (ucast streamId) of
      Some r \<Rightarrow> Inr r | None \<Rightarrow> Inl (Runtime_Error ''Request for MPI rank with invalid stream ID''))"

text \<open>The rank of a stream in a group: the counter of the loop is never increased.\<close>

fun group_rank :: "u64 \<Rightarrow> u32 \<Rightarrow> u32 list \<Rightarrow> u32 result" where
  "group_rank streamId ctr [] = Inl (Runtime_Error ''Can not find rank for stream in MPI comm group'')"
| "group_rank streamId ctr (p # ps) = (if ucast p = streamId then Inr ctr else group_rank streamId ctr ps)"

definition getMPIRank_group :: "u64 \<Rightarrow> comm_group \<Rightarrow> u32 result" where
  "getMPIRank_group streamId g = group_rank streamId 0 (cg_procs g)"

section \<open>Communicators\<close>

text \<open>\<^verbatim>\<open>operator[]\<close> makes a group whose communicator is zero, here the null communicator.\<close>

definition comm_group_at :: "u32 \<Rightarrow> mpi_analysis \<Rightarrow> comm_group" where
  "comm_group_at c m = (case map_of (ma_commGroups m) c of
      Some g \<Rightarrow> g | None \<Rightarrow> \<lparr>cg_comm = MPI_COMM_NULL, cg_procs = []\<rparr>)"

definition addMPICommGroup :: "u32 \<Rightarrow> u32 list \<Rightarrow> mpi_analysis \<Rightarrow> mpi_analysis" where
  "addMPICommGroup c procs m =
    m\<lparr>ma_commGroups := smap_update c ((comm_group_at c m)\<lparr>cg_procs := procs\<rparr>) (ma_commGroups m)\<rparr>"

definition create_comm :: "comm_group \<Rightarrow> comm_group" where
  "create_comm g = (if cg_procs g = [] then g\<lparr>cg_comm := MPI_COMM_SELF\<rparr>
                    else g\<lparr>cg_comm := Comm_Of (map (\<lambda>p. sint p) (cg_procs g))\<rparr>)"

definition createMPICommunicatorsFromMap :: "mpi_analysis \<Rightarrow> mpi_analysis" where
  "createMPICommunicatorsFromMap m = m\<lparr>ma_commGroups := map (\<lambda>(c, g). (c, create_comm g)) (ma_commGroups m)\<rparr>"

definition getMPICommGroup :: "u32 \<Rightarrow> mpi_analysis \<Rightarrow> comm_group result" where
  "getMPICommGroup c m = (case map_of (ma_commGroups m) c of
      Some g \<Rightarrow> Inr g | None \<Rightarrow> Inl (Runtime_Error ''Request for unknown MPI comm group''))"

text \<open>Reading past a list of members is undefined. The world group is made when it is missing, which
  the result shows.\<close>

definition getStreamId :: "int \<Rightarrow> u32 \<Rightarrow> mpi_analysis \<Rightarrow> (u64 \<times> mpi_analysis) result" where
  "getStreamId rank comRef m =
    (if map_of (ma_commGroups m) comRef \<noteq> None \<and> rank \<ge> 0 then
       (let ps = cg_procs (comm_group_at comRef m) in
        if nat rank < length ps then
          (let globalRank = ps ! nat rank;
               world = comm_group_at 0 m;
               m = m\<lparr>ma_commGroups := smap_update 0 world (ma_commGroups m)\<rparr>
           in if unat globalRank < length (cg_procs world) then Inr (ucast (cg_procs world ! unat globalRank), m)
              else Inl Out_Of_Bounds)
        else Inl Out_Of_Bounds)
     else Inr (word_of_int rank, m))"

section \<open>Remote nodes\<close>

definition addRemoteMPIEdge :: "node_ref \<Rightarrow> u64 \<Rightarrow> u64 \<Rightarrow> mpi_analysis \<Rightarrow> mpi_analysis" where
  "addRemoteMPIEdge localNode remoteNodeID remoteStreamID m =
    m\<lparr>ma_remoteNodes := (ma_remoteNodes m)(localNode \<mapsto> \<lparr>rn_streamID = remoteStreamID, rn_nodeID = remoteNodeID\<rparr>)\<rparr>"

text \<open>The remote node, and the flag written through the pointer. Without an entry the node that is
  returned has no value.\<close>

definition getRemoteNodeInfo :: "node_ref \<Rightarrow> mpi_analysis \<Rightarrow> remote_node option \<times> bool" where
  "getRemoteNodeInfo localNode m = (case ma_remoteNodes m localNode of
      Some r \<Rightarrow> (Some r, True) | None \<Rightarrow> (None, False))"

definition removeRemoteNode :: "node_ref \<Rightarrow> mpi_analysis \<Rightarrow> mpi_analysis" where
  "removeRemoteNode localNode m = m\<lparr>ma_remoteNodes := (ma_remoteNodes m)(localNode := None)\<rparr>"

definition mpi_analysis_reset :: "mpi_analysis \<Rightarrow> mpi_analysis" where
  "mpi_analysis_reset m = m\<lparr>ma_remoteNodes := Map.empty\<rparr>"

section \<open>The partners of a node\<close>

text \<open>The second partner of \<^verbatim>\<open>MPI_Sendrecv\<close> is read as a 64-bit number from the array of 32-bit numbers
  the paradigm stores: its first two elements, the lower one first on the usual machines.\<close>

definition first_u64 :: "node_data option \<Rightarrow> u64 result" where
  "first_u64 d = (case d of
      Some (Array_Data (a # b # xs)) \<Rightarrow> Inr (ucast b * 2 ^ 32 + ucast a)
    | None \<Rightarrow> Inl Null_Dereference
    | Some _ \<Rightarrow> Inl Out_Of_Bounds)"

fun ranks_of :: "u64 list \<Rightarrow> mpi_analysis \<Rightarrow> u32 set result" where
  "ranks_of [] m = Inr {}"
| "ranks_of (s # ss) m = bind_res (getMPIRank s m) (\<lambda>r. bind_res (ranks_of ss m) (\<lambda>R. Inr (insert r R)))"

definition partners_of :: "graph_node \<Rightarrow> mpi_analysis \<Rightarrow> u32 set result" where
  "partners_of n m =
    bind_res (if isMPIRecv n \<or> isMPISend n \<or> isMPIWait n then ranks_of [nd_referencedStream n] m else Inr {}) (\<lambda>A.
    bind_res (if isMPICollective n then
                bind_res (getMPICommGroup (ucast (nd_referencedStream n)) m) (\<lambda>g. ranks_of (map ucast (cg_procs g)) m)
              else Inr {}) (\<lambda>B.
    bind_res (if isMPISendRecv n then
                bind_res (ranks_of [nd_referencedStream n] m) (\<lambda>C.
                bind_res (first_u64 (gn_data n)) (\<lambda>d. bind_res (ranks_of [d] m) (\<lambda>D. Inr (C \<union> D))))
              else Inr {}) (\<lambda>C. Inr (A \<union> B \<union> C))))"

definition getMpiPartnersRanks :: "node_ref \<Rightarrow> heap \<Rightarrow> mpi_analysis \<Rightarrow> u32 set result" where
  "getMpiPartnersRanks node h m =
    (if \<not> isMPI (h node) then Inr {}
     else if isEnter (h node) then
       (case gn_second (h node) of None \<Rightarrow> Inl Null_Dereference | Some l \<Rightarrow> partners_of (h l) m)
     else partners_of (h node) m)"

section \<open>Lemmas\<close>

lemma group_rank_0: "group_rank s c ps = (if \<exists>p\<in>set ps. ucast p = s then Inr c
    else Inl (Runtime_Error ''Can not find rank for stream in MPI comm group''))"
  by (induction ps) auto

text \<open>Two streams whose identifiers differ in the upper half only share the entry.\<close>

lemma setMPIRank_shared:
  "ucast (s :: u64) = (ucast t :: u32) \<Longrightarrow> getMPIRank s (setMPIRank t r m) = Inr r"
  by (simp add: getMPIRank_def setMPIRank_def)

text \<open>A rank in a communicator is resolved through the world group: after the groups of the trace
  have been added, the stream of member \<^term>\<open>r\<close> of a group is the entry of the world group at the
  number of that member.\<close>
lemma getStreamId_resolves:
  assumes "map_of (ma_commGroups m) c = Some g" "map_of (ma_commGroups m) 0 = Some w" "smap_inv (ma_commGroups m)"
    "r < length (cg_procs g)" "unat (cg_procs g ! r) < length (cg_procs w)"
  shows "getStreamId (int r) c m = Inr (ucast (cg_procs w ! unat (cg_procs g ! r)), m)"
proof -
  have "smap_update 0 w (ma_commGroups m) = ma_commGroups m"
    using assms(2,3) by (rule smap_update_same)
  then show ?thesis
    using assms by (simp add: getStreamId_def comm_group_at_def)
qed

end
