(* ===== verification/BlameModel.thy ===== *)
theory BlameModel
  imports MpiAnalysisModel
begin

text \<open>The distribution of blame: the callbacks that collect the nodes of an interval on a stream
  (\<^verbatim>\<open>MPIRulesCommon.hpp\<close>, \<^verbatim>\<open>OMPRulesCommon.hpp\<close>, \<^verbatim>\<open>OffloadRulesCommon.hpp\<close>) and
  \<^verbatim>\<open>distributeBlame\<close> of \<^verbatim>\<open>BlameDistribution.hpp\<close>, which spreads a waiting time over the edges of the
  interval.\<close>

section \<open>Collecting an interval\<close>

record walk_info =
  wi_list :: "node_ref list"
  wi_waitStateTime :: u64

type_synonym stream_callback = "heap \<Rightarrow> walk_info walk_callback"

definition wi_push :: "node_ref \<Rightarrow> walk_info \<Rightarrow> walk_info" where
  "wi_push n w = w\<lparr>wi_list := wi_list w @ [n]\<rparr>"

definition wi_wait :: "u64 \<Rightarrow> walk_info \<Rightarrow> walk_info" where
  "wi_wait t w = w\<lparr>wi_waitStateTime := wi_waitStateTime w + t\<rparr>"

definition mpiStreamWalkCallback :: stream_callback where
  "mpiStreamWalkCallback h w n =
    (let w = wi_push n w in
     if isProcess (h n) \<or> (isMPIBlocking (h n) \<and> isLeave (h n)) then (False, w)
     else (True, wi_wait (getWaitingTime (h n)) w))"

definition ompHostStreamWalkCallback :: stream_callback where
  "ompHostStreamWalkCallback h w n =
    (if gn_caller (h n) = None \<and> wi_list w \<noteq> [] \<and> nd_time (h n) < nd_time (h (last (wi_list w)))
     then (False, wi_push n w)
     else
       (let w = wi_push n w in
        if isLeave (h n) \<and> isOMPSync (h n) then
          (if getCounter OMP_IGNORE_BARRIER (h n) \<noteq> 0 then (True, wi_wait (getWaitingTime (h n)) w)
           else (False, w))
        else if isProcess (h n) then (False, w)
        else (True, wi_wait (getWaitingTime (h n)) w)))"

definition ompDeviceStreamWalkCallback :: stream_callback where
  "ompDeviceStreamWalkCallback h w n =
    (let w = wi_wait (getWaitingTime (h n)) (wi_push n w) in
     if gn_caller (h n) = None \<and> getCounter OMP_FIRST_OFFLOAD_EVT (h n) = 1 then (False, w) else (True, w))"

definition ofldStreamWalkCallback :: stream_callback where
  "ofldStreamWalkCallback h w n =
    (let w = wi_push n w in
     if isProcess (h n) \<or> (isLeave (h n) \<and> (isOffloadWaitAll (h n) \<or> isOffloadEnqueueKernel (h n)))
     then (False, w) else (True, w))"

text \<open>The interval before a node: the stream of the node is looked up by its number, and a stream that
  is not there is dereferenced.\<close>

definition walk_interval :: "node_ref \<Rightarrow> stream_callback \<Rightarrow> engine \<Rightarrow> node_ref list result" where
  "walk_interval node callback s =
    (case getStream (nd_streamId (ge_heap s node)) (ge_group s) of
       None \<Rightarrow> Inl Null_Dereference
     | Some p \<Rightarrow>
         bind_res (walkBackward (ge_heap s) (Some node) (Some (callback (ge_heap s)))
             \<lparr>wi_list = [], wi_waitStateTime = 0\<rparr> (base (ge_streams s p)))
           (\<lambda>(_, w). if length (wi_list w) > 1 then Inr (wi_list w) else Inl (Assertion_Failed ''Can't walk list back'')))"

section \<open>Distributing blame\<close>

definition blame_edge :: "edge_ref \<Rightarrow> rat \<Rightarrow> blame_reason \<Rightarrow> engine \<Rightarrow> engine" where
  "blame_edge e v r s = s\<lparr>ge_edges := (ge_edges s)(e := edge_addBlame v r (ge_edges s e))\<rparr>"

text \<open>The recursive call, with the start node, the blame and the callback.\<close>

type_synonym blame_call = "node_ref \<Rightarrow> u64 \<Rightarrow> stream_callback \<Rightarrow> engine \<Rightarrow> (u64 \<times> engine) result option"

text \<open>Propagation: over the in-edges of the leave of a blocking edge that come from another stream. The
  blame is cut to an integer.\<close>

fun propagate :: "blame_call \<Rightarrow> node_ref \<Rightarrow> edge_ref \<Rightarrow> rat \<Rightarrow> blame_reason \<Rightarrow> edge_ref list \<Rightarrow> engine \<Rightarrow> engine result option" where
  "propagate rec leave e blame reason [] s = Some (Inr s)"
| "propagate rec leave e blame reason (i # is) s =
    (if isInterStreamEdge (ge_heap s) (ge_edges s i) then
       (let n = ge_heap s leave; start = e_start (ge_edges s i); b = word_of_int \<lfloor>blame\<rfloor> in
        if isOMP n then
          bind_fuel (rec start b ompHostStreamWalkCallback s) (\<lambda>(_, s). propagate rec leave e blame reason is s)
        else if isOfld n then
          bind_fuel (rec start b ofldStreamWalkCallback s) (\<lambda>(_, s). propagate rec leave e blame reason is s)
        else propagate rec leave e blame reason is (blame_edge e blame reason s))
     else propagate rec leave e blame reason is s)"

text \<open>The part of an edge. The division by an interval of no time gives no number in the code, and an
  error value here.\<close>

definition edge_share :: "u64 \<Rightarrow> u64 \<Rightarrow> edge \<Rightarrow> rat" where
  "edge_share totalBlame totalTime e =
    of_nat (unat totalBlame) * of_nat (unat (e_duration e)) / of_nat (unat totalTime)"

fun blame_edges ::
  "blame_call \<Rightarrow> bool \<Rightarrow> u64 \<Rightarrow> u64 \<Rightarrow> blame_reason \<Rightarrow> node_ref \<Rightarrow> node_ref list \<Rightarrow> engine \<Rightarrow> engine result option" where
  "blame_edges rec prop totalBlame totalTime reason lastNode [] s = Some (Inr s)"
| "blame_edges rec prop totalBlame totalTime reason lastNode (cur # rest) s =
    (case getEdge cur lastNode s of
       None \<Rightarrow> Some (Inl (Assertion_Failed ''No edge found''))
     | Some e \<Rightarrow>
         if totalTime = 0 then Some (Inl Division_By_Zero)
         else
           (let blame = edge_share totalBlame totalTime (ge_edges s e); l = ge_heap s lastNode in
            bind_fuel
              (if prop \<and> e_blocking (ge_edges s e) \<and> isLeave l \<and> \<not> isMPI l then
                 (case getInEdgesPtr lastNode (ge_graph s) of
                    None \<Rightarrow> Some (Inr s) | Some es \<Rightarrow> propagate rec lastNode e blame reason es s)
               else Some (Inr (blame_edge e blame reason s)))
              (\<lambda>s. blame_edges rec prop totalBlame totalTime reason cur rest s)))"

text \<open>The result is the length of the interval. The flag is the option \<^verbatim>\<open>propagateBlame\<close>; only with it
  does the code call itself, once per unit of fuel here.\<close>

fun distributeBlame ::
  "nat \<Rightarrow> bool \<Rightarrow> blame_reason \<Rightarrow> node_ref \<Rightarrow> u64 \<Rightarrow> stream_callback \<Rightarrow> engine \<Rightarrow> (u64 \<times> engine) result option" where
  "distributeBlame 0 prop reason node totalBlame callback s = None"
| "distributeBlame (Suc fuel) prop reason node totalBlame callback s =
    (if totalBlame = 0 then Some (Inr (0, s))
     else case walk_interval node callback s of
       Inl e \<Rightarrow> Some (Inl e)
     | Inr ns \<Rightarrow>
         (let totalTime = nd_time (ge_heap s (hd ns)) - nd_time (ge_heap s (last ns)) in
          bind_fuel (blame_edges (\<lambda>n b cb s. distributeBlame fuel prop reason n b cb s) prop totalBlame totalTime reason
                       (hd ns) (tl ns) s)
            (\<lambda>s. Some (Inr (totalTime, s)))))"

end
