(* ===== verification/BlameLaws.thy ===== *)
theory BlameLaws
  imports BlameModel
begin

text \<open>Blame is conserved: what \<^verbatim>\<open>distributeBlame\<close> spreads over the edges of an interval adds up to what it
  was given. The interval is a run of nodes of the stream backwards from the start.\<close>

section \<open>The interval\<close>

text \<open>A callback that records every node it is shown.\<close>

definition recording :: "stream_callback \<Rightarrow> bool" where
  "recording cb \<longleftrightarrow> (\<forall>h w n. wi_list (snd (cb h w n)) = wi_list w @ [n])"

lemma recording_callbacks:
  "recording mpiStreamWalkCallback" "recording ompHostStreamWalkCallback"
  "recording ompDeviceStreamWalkCallback" "recording ofldStreamWalkCallback"
  by (auto simp: recording_def mpiStreamWalkCallback_def ompHostStreamWalkCallback_def Let_def
      ompDeviceStreamWalkCallback_def ofldStreamWalkCallback_def wi_push_def wi_wait_def)

lemma walk_records:
  assumes "recording cb"
  shows "\<exists>k. wi_list (snd (walk (cb h) w ns r)) = wi_list w @ take k ns \<and> (ns \<noteq> [] \<longrightarrow> 0 < k)"
proof (induction ns arbitrary: w r)
  case (Cons n ns)
  obtain g v where c: "cb h w n = (g, v)"
    by (cases "cb h w n")
  then have v: "wi_list v = wi_list w @ [n]"
    using assms by (metis recording_def snd_conv)
  show ?case
  proof (cases g)
    case True
    obtain k where "wi_list (snd (walk (cb h) v ns True)) = wi_list v @ take k ns"
      using Cons [of v True] by auto
    then show ?thesis
      using True c v by (intro exI [of _ "Suc k"]) simp
  next
    case False
    then show ?thesis
      using c v by (intro exI [of _ 1]) simp
  qed
qed simp

definition stream_of :: "engine \<Rightarrow> node_ref \<Rightarrow> node_ref list \<Rightarrow> bool" where
  "stream_of s node ns \<longleftrightarrow> (\<exists>p. getStream (nd_streamId (ge_heap s node)) (ge_group s) = Some p \<and>
     es_nodes (base (ge_streams s p)) = ns \<and> stream_sorted (ge_heap s) ns)"

lemma walk_interval_run:
  assumes "recording cb" "stream_of s (ns ! i) ns" "i < length ns" "walk_interval (ns ! i) cb s = Inr l"
  shows "\<exists>k. l = take k (rev (take (Suc i) ns)) \<and> 1 < length l"
proof -
  obtain p where p: "getStream (nd_streamId (ge_heap s (ns ! i))) (ge_group s) = Some p"
      "es_nodes (base (ge_streams s p)) = ns" "stream_sorted (ge_heap s) ns"
    using assms(2) by (auto simp: stream_of_def)
  let ?w = "walk (cb (ge_heap s)) \<lparr>wi_list = [], wi_waitStateTime = 0\<rparr> (rev (take (Suc i) ns)) False"
  obtain k where "wi_list (snd ?w) = take k (rev (take (Suc i) ns))"
    using walk_records [OF assms(1), of "ge_heap s" "\<lparr>wi_list = [], wi_waitStateTime = 0\<rparr>"
        "rev (take (Suc i) ns)" False] by auto
  moreover have "l = wi_list (snd ?w) \<and> 1 < length l"
  proof -
    have w: "walkBackward (ge_heap s) (Some (ns ! i)) (Some (cb (ge_heap s)))
        \<lparr>wi_list = [], wi_waitStateTime = 0\<rparr> (base (ge_streams s p)) = Inr ?w"
      using assms(3) p(2,3) walk_start_ok [of "ge_heap s" "base (ge_streams s p)" i] by (simp add: walkBackward_def)
    show ?thesis
      using assms(4) unfolding walk_interval_def by (simp add: p(1) w split_beta split: if_splits)
  qed
  ultimately show ?thesis
    by auto
qed

section \<open>Conservation\<close>

text \<open>The blame on all edges.\<close>

definition blame_total :: "engine \<Rightarrow> rat" where
  "blame_total s = (\<Sum>e<ge_nextEdge s. getTotalBlame (ge_edges s e))"

text \<open>Edges last from their start to their end, when they lead forward.\<close>

definition edges_timed :: "engine \<Rightarrow> bool" where
  "edges_timed s \<longleftrightarrow> (\<forall>e<ge_nextEdge s. \<not> isReverseEdge (ge_heap s) (ge_edges s e) \<longrightarrow>
     e_duration (ge_edges s e) = nd_time (ge_heap s (e_end (ge_edges s e))) - nd_time (ge_heap s (e_start (ge_edges s e))))"

lemma addBlame_fields [simp]:
  "e_start (edge_addBlame v r e) = e_start e" "e_end (edge_addBlame v r e) = e_end e"
  "e_duration (edge_addBlame v r e) = e_duration e" "e_blocking (edge_addBlame v r e) = e_blocking e"
  by (simp_all add: edge_addBlame_def split: option.splits)

lemma blame_edge_total:
  assumes "e < ge_nextEdge s"
  shows "blame_total (blame_edge e v r s) = blame_total s + v"
proof -
  have "blame_total (blame_edge e v r s) =
      (\<Sum>x<ge_nextEdge s. getTotalBlame (ge_edges s x) + (if x = e then v else 0))"
    by (auto simp: blame_total_def blame_edge_def getTotalBlame_addBlame intro!: sum.cong)
  also have "\<dots> = blame_total s + v"
    using assms by (simp add: sum.distrib blame_total_def sum.delta)
  finally show ?thesis .
qed

text \<open>Engines that differ in the blame on their edges only.\<close>

definition same_but_blame :: "engine \<Rightarrow> engine \<Rightarrow> bool" where
  "same_but_blame s s' \<longleftrightarrow> s' = s\<lparr>ge_edges := ge_edges s'\<rparr> \<and>
     (\<forall>e. (ge_edges s' e)\<lparr>e_blame := Map.empty\<rparr> = (ge_edges s e)\<lparr>e_blame := Map.empty\<rparr>)"

lemma same_but_blame_refl [simp]: "same_but_blame s s"
  by (simp add: same_but_blame_def)

lemma same_but_blame_trans: "same_but_blame s t \<Longrightarrow> same_but_blame t u \<Longrightarrow> same_but_blame s u"
  unfolding same_but_blame_def by (metis engine.surjective engine.update_convs(4))

lemma blame_edge_same [simp]: "same_but_blame s (blame_edge e v r s)"
  by (auto simp: same_but_blame_def blame_edge_def edge_addBlame_def split: option.splits)


lemma same_but_blame_edge:
  assumes "same_but_blame s s'"
  shows "e_start (ge_edges s' e) = e_start (ge_edges s e)" "e_end (ge_edges s' e) = e_end (ge_edges s e)"
    "e_duration (ge_edges s' e) = e_duration (ge_edges s e)" "e_blocking (ge_edges s' e) = e_blocking (ge_edges s e)"
    "ge_heap s' = ge_heap s" "ge_graph s' = ge_graph s" "ge_nextEdge s' = ge_nextEdge s" "ge_streams s' = ge_streams s"
    "ge_group s' = ge_group s" "ge_stacks s' = ge_stacks s"
proof -
  have e: "(ge_edges s' e)\<lparr>e_blame := Map.empty\<rparr> = (ge_edges s e)\<lparr>e_blame := Map.empty\<rparr>"
    and r: "s' = s\<lparr>ge_edges := ge_edges s'\<rparr>"
    using assms by (auto simp: same_but_blame_def)
  show "e_start (ge_edges s' e) = e_start (ge_edges s e)" "e_end (ge_edges s' e) = e_end (ge_edges s e)"
    "e_duration (ge_edges s' e) = e_duration (ge_edges s e)" "e_blocking (ge_edges s' e) = e_blocking (ge_edges s e)"
    using arg_cong [OF e, of e_start] arg_cong [OF e, of e_end] arg_cong [OF e, of e_duration]
      arg_cong [OF e, of e_blocking] by simp_all
  show "ge_heap s' = ge_heap s" "ge_graph s' = ge_graph s" "ge_nextEdge s' = ge_nextEdge s" "ge_streams s' = ge_streams s"
    "ge_group s' = ge_group s" "ge_stacks s' = ge_stacks s"
    by (subst r, simp)+
qed

lemma find_edge_to_same: "same_but_blame s s' \<Longrightarrow> find_edge_to (ge_edges s') t es = find_edge_to (ge_edges s) t es"
  by (induction es) (simp_all add: same_but_blame_edge)

lemma getEdge_same: "same_but_blame s s' \<Longrightarrow> getEdge a b s' = getEdge a b s"
  by (simp add: getEdge_def same_but_blame_edge(6) find_edge_to_same split: option.split)

lemma find_edge_to_Some: "find_edge_to E t es = Some e \<Longrightarrow> e \<in> set es \<and> e_end (E e) = t"
  by (induction es) (auto split: if_splits)

lemma getEdge_sound:
  assumes "engine_ok s" "getEdge a b s = Some e"
  shows "e < ge_nextEdge s \<and> e_start (ge_edges s e) = a \<and> e_end (ge_edges s e) = b"
proof -
  have "e \<in> set (edges_at (g_out (ge_graph s)) a)" "e_end (ge_edges s e) = b"
    using assms(2) by (auto simp: getEdge_def getOutEdges_def edges_at_def split: option.splits dest: find_edge_to_Some)
  then show ?thesis
    using assms(1) by (auto simp: engine_ok_def edges_consistent_def)
qed

lemma same_but_blame_ok: "same_but_blame s s' \<Longrightarrow> edges_timed s \<Longrightarrow> edges_timed s'"
  by (simp add: edges_timed_def isReverseEdge_def same_but_blame_edge)

lemma engine_ok_same:
  assumes "same_but_blame s s'" "engine_ok s"
  shows "engine_ok s'"
  using assms(2) by (simp add: engine_ok_def edges_consistent_def out_between_def in_between_def same_but_blame_edge [OF assms(1)])

text \<open>Neighbours of a list of nodes that have an edge between them, in the direction of time; the list
  runs backwards.\<close>

fun chained :: "engine \<Rightarrow> node_ref list \<Rightarrow> bool" where
  "chained s (b # a # ns) \<longleftrightarrow> getEdge a b s \<noteq> None \<and> nd_time (ge_heap s a) \<le> nd_time (ge_heap s b) \<and> chained s (a # ns)"
| "chained s _ \<longleftrightarrow> True"

lemma chained_same: "same_but_blame s s' \<Longrightarrow> chained s' ns = chained s ns"
  by (induction s ns rule: chained.induct) (auto simp: getEdge_same same_but_blame_edge(5))

lemma chained_take: "chained s ns \<Longrightarrow> chained s (take k ns)"
proof (induction s ns arbitrary: k rule: chained.induct)
  case (1 s b a ns)
  show ?case
  proof (cases k)
    case (Suc m)
    then show ?thesis
      using 1(1) [of m] 1(2) by (cases m) auto
  qed simp
qed (auto simp: take_Cons')

lemma chained_tl: "chained s ns \<Longrightarrow> chained s (tl ns)"
  by (induction s ns rule: chained.induct) auto

lemma chained_drop: "chained s ns \<Longrightarrow> chained s (drop k ns)"
  by (induction k) (simp_all add: drop_Suc tl_drop [symmetric] chained_tl)

lemma chained_times: "chained s (b # ns) \<Longrightarrow> nd_time (ge_heap s (last (b # ns))) \<le> nd_time (ge_heap s b)"
proof (induction ns arbitrary: b)
  case (Cons a ns)
  then show ?case
    using order.trans [of "nd_time (ge_heap s (last (a # ns)))" "nd_time (ge_heap s a)"] by auto
qed simp

lemma blame_edges_conserve:
  assumes "engine_ok s" "edges_timed s" "chained s (b # ns)" "tt \<noteq> 0"
  shows "\<exists>s'. blame_edges rec False tb tt reason b ns s = Some (Inr s') \<and> same_but_blame s s' \<and>
    blame_total s' = blame_total s + of_nat (unat tb) *
      (of_nat (unat (nd_time (ge_heap s b))) - of_nat (unat (nd_time (ge_heap s (last (b # ns)))))) / of_nat (unat tt)"
  using assms
proof (induction ns arbitrary: b s)
  case (Cons a ns)
  obtain e where e: "getEdge a b s = Some e"
    using Cons(4) by auto
  note ee = getEdge_sound [OF Cons(2) e]
  define v where "v = edge_share tb tt (ge_edges s e)"
  define s1 where "s1 = blame_edge e v reason s"
  have sb: "same_but_blame s s1"
    by (simp add: s1_def)
  have le: "nd_time (ge_heap s a) \<le> nd_time (ge_heap s b)"
    using Cons(4) by simp
  then have "e_duration (ge_edges s e) = nd_time (ge_heap s b) - nd_time (ge_heap s a)"
    using Cons(3) ee by (auto simp: edges_timed_def isReverseEdge_def not_less)
  then have v: "v = of_nat (unat tb) * (of_nat (unat (nd_time (ge_heap s b))) - of_nat (unat (nd_time (ge_heap s a)))) / of_nat (unat tt)"
    using le by (simp add: v_def edge_share_def unat_sub of_nat_diff word_le_nat_alt)
  obtain s' where s': "blame_edges rec False tb tt reason a ns s1 = Some (Inr s')" "same_but_blame s1 s'"
    "blame_total s' = blame_total s1 + of_nat (unat tb) *
      (of_nat (unat (nd_time (ge_heap s1 a))) - of_nat (unat (nd_time (ge_heap s1 (last (a # ns)))))) / of_nat (unat tt)"
    using Cons(1) [of s1 a] engine_ok_same [OF sb Cons(2)] same_but_blame_ok [OF sb Cons(3)] chained_same [OF sb] Cons(4,5)
    by auto
  have "blame_edges rec False tb tt reason b (a # ns) s = Some (Inr s')"
    using s'(1) Cons(5) by (simp add: e Let_def s1_def v_def)
  moreover have "blame_total s1 = blame_total s + v"
    using blame_edge_total ee by (simp add: s1_def)
  ultimately show ?case
    using s'(2,3) same_but_blame_trans [OF sb s'(2)]
    by (intro exI [of _ s']) (simp add: v same_but_blame_edge(5) [OF sb] field_simps add_divide_distrib [symmetric] split del: if_split)
qed simp


lemma distributeBlame_sum:
  assumes "engine_ok s" "edges_timed s" "stream_of s (ns ! i) ns" "i < length ns" "chained s (rev ns)"
    and "recording cb" "walk_interval (ns ! i) cb s = Inr l" "nd_time (ge_heap s (hd l)) \<noteq> nd_time (ge_heap s (last l))"
    and "b \<noteq> 0"
  shows "\<exists>s'. distributeBlame (Suc fuel) False reason (ns ! i) b cb s =
       Some (Inr (nd_time (ge_heap s (hd l)) - nd_time (ge_heap s (last l)), s')) \<and>
     same_but_blame s s' \<and> blame_total s' = blame_total s + of_nat (unat b)"
proof -
  obtain k where k: "l = take k (rev (take (Suc i) ns))" "1 < length l"
    using walk_interval_run [OF assms(6,3,4,7)] by blast
  have "rev (take (Suc i) ns) = drop (length ns - Suc i) (rev ns)"
    by (simp add: rev_take)
  then have c: "chained s l"
    using chained_take chained_drop assms(5) k(1) by metis
  obtain n l' where l: "l = n # l'"
    using k(2) by (cases l) auto
  let ?t = "nd_time (ge_heap s n) - nd_time (ge_heap s (last l))"
  have le: "nd_time (ge_heap s (last l)) \<le> nd_time (ge_heap s n)"
    using chained_times c l by blast
  have "?t \<noteq> 0"
    using assms(8) l by simp
  then obtain s' where s': "blame_edges (\<lambda>n b cb s. distributeBlame fuel False reason n b cb s) False b ?t reason n l' s = Some (Inr s')"
      "same_but_blame s s'"
      "blame_total s' = blame_total s + of_nat (unat b) *
        (of_nat (unat (nd_time (ge_heap s n))) - of_nat (unat (nd_time (ge_heap s (last l))))) / of_nat (unat ?t)"
    using blame_edges_conserve [OF assms(1,2), of n l' ?t] c l by metis
  have "of_nat (unat ?t) = (of_nat (unat (nd_time (ge_heap s n))) - of_nat (unat (nd_time (ge_heap s (last l)))) :: rat)"
    using le by (simp add: unat_sub of_nat_diff word_le_nat_alt)
  moreover have "of_nat (unat ?t) \<noteq> (0 :: rat)"
    using \<open>?t \<noteq> 0\<close> unat_eq_zero [of ?t] by (metis of_nat_eq_0_iff)
  ultimately have "blame_total s' = blame_total s + of_nat (unat b)"
    using s'(3) by simp
  then show ?thesis
    using s'(1,2) assms(7,9) l by (intro exI [of _ s']) simp
qed

text \<open>C1. Without propagation \<^verbatim>\<open>distributeBlame\<close> returns, and spreads exactly the blame it is given: on a
  stream whose neighbouring nodes are linked by edges of the right duration, the blame on all edges
  grows by the amount distributed, and nothing else changes. The interval must take time.\<close>
theorem distributeBlame_conserves:
  assumes "engine_ok s" "edges_timed s" "stream_of s (ns ! i) ns" "i < length ns" "chained s (rev ns)"
    and "recording cb" "walk_interval (ns ! i) cb s = Inr l" "nd_time (ge_heap s (hd l)) \<noteq> nd_time (ge_heap s (last l))"
    and "b \<noteq> 0"
  shows "\<exists>s'. distributeBlame (Suc fuel) False reason (ns ! i) b cb s =
       Some (Inr (nd_time (ge_heap s (hd l)) - nd_time (ge_heap s (last l)), s')) \<and>
     same_but_blame s s' \<and> blame_total s' = blame_total s + of_nat (unat b)"
  using distributeBlame_sum [OF assms] .

section \<open>A small interval\<close>

text \<open>Three nodes of one stream, at times 10, 20 and 30, linked by two edges.\<close>

definition chain_edges :: edge_heap where
  "chain_edges e = Edge_new demo_heap (e + 1) (e + 2) 10 False PARADIGM_MPI"

lemma chain_edges_simps [simp]:
  "e_start (chain_edges e) = e + 1" "e_end (chain_edges e) = e + 2"
  by (simp_all add: chain_edges_def Edge_new_def Let_def split: prod.split)

definition chain_engine :: engine where
  "chain_engine = empty_engine\<lparr>ge_heap := demo_heap, ge_edges := chain_edges, ge_nextEdge := 2,
     ge_graph := addEdge chain_edges 1 (addEdge chain_edges 0 (Graph_new False)),
     ge_streams := (\<lambda>_. Host_Obj ((EventStream_new 2 0 ''rank'' ES_MPI)\<lparr>es_nodes := [1, 2, 3]\<rparr>)),
     ge_group := EventStreamGroup_new\<lparr>sg_streamsMap := [(2, 0)]\<rparr>\<rparr>"

lemma chain_engine_simps [simp]:
  "ge_heap chain_engine = demo_heap" "ge_edges chain_engine = chain_edges" "ge_nextEdge chain_engine = 2"
  "ge_graph chain_engine = addEdge chain_edges 1 (addEdge chain_edges 0 (Graph_new False))"
  "es_nodes (base (ge_streams chain_engine 0)) = [1, 2, 3]" "getStream 2 (ge_group chain_engine) = Some 0"
  by (simp_all add: chain_engine_def getStream_def)

lemma edges_at_new [simp]: "edges_at (g_in (Graph_new b)) n = []" "edges_at (g_out (Graph_new b)) n = []"
  by (simp_all add: Graph_new_def edges_at_def)

lemma chain_engine_ok: "engine_ok chain_engine"
  by (auto simp: engine_ok_def addEdge_edges intro!: edges_consistent_addEdge edges_consistent_new)

lemma chain_duration [simp]: "e < 2 \<Longrightarrow> e_duration (chain_edges e) = 10"
proof -
  assume "e < 2"
  then have "e = 0 \<or> e = 1"
    by linarith
  then show ?thesis
    by (elim disjE) (simp_all add: chain_edges_def Edge_new_def isReverseEdge_def)
qed

lemma chain_engine_timed: "edges_timed chain_engine"
proof -
  have "e = 0 \<or> e = 1" if "e < 2" for e :: nat
    using that by linarith
  then show ?thesis
    unfolding edges_timed_def by fastforce
qed

lemma chain_engine_stream: "stream_of chain_engine 3 [1, 2, 3]"
  by (simp add: stream_of_def stream_sorted_def compareLess_def)

lemma chain_engine_chained: "chained chain_engine (rev [1, 2, 3])"
  by (simp add: getEdge_def getOutEdges_def addEdge_def Let_def edges_at_def Graph_new_def word_le_nat_alt)

lemma chain_engine_interval: "walk_interval 3 mpiStreamWalkCallback chain_engine = Inr [3, 2, 1]"
  using walk_start_ok [of demo_heap "base (ge_streams chain_engine 0)" 2]
  by (simp add: walk_interval_def walkBackward_def stream_sorted_def compareLess_def mpiStreamWalkCallback_def
      isProcess_def isAtomic_def isMPIBlocking_def isLeave_def wi_push_def wi_wait_def Let_def take_Suc_Cons numeral_3_eq_3)

theorem distributeBlame_conserves_witness:
  "\<exists>s'. distributeBlame 1 False REASON_MPI_COLLECTIVE 3 60 mpiStreamWalkCallback chain_engine = Some (Inr (20, s')) \<and>
     blame_total s' = blame_total chain_engine + 60"
  using distributeBlame_conserves [of chain_engine "[1, 2, 3]" 2 mpiStreamWalkCallback "[3, 2, 1]" 60 0 REASON_MPI_COLLECTIVE]
    chain_engine_ok chain_engine_timed chain_engine_stream chain_engine_chained chain_engine_interval recording_callbacks(1)
  by auto

end
