(* ===== verification/AnalysisModel.thy ===== *)
theory AnalysisModel
  imports BlameLaws
begin

text \<open>The analysis engine of \<^verbatim>\<open>analysis/AnalysisEngine.cpp\<close>: the graph engine with the MPI data, the
  statistics and the lists the analysis keeps. A step that may distribute blame has the result of
  \<^verbatim>\<open>distributeBlame\<close>: \<^term>\<open>None\<close> when the fuel of the propagation runs out.\<close>

section \<open>State\<close>

record analysis =
  an_engine :: engine
  an_mpi :: mpi_analysis
  an_stats :: statistics
  an_availableParadigms :: u32
  an_analysisFeature :: u32
  an_filteredFunctions :: "u32 set"
  an_deferredNodes :: "node_ref list"
  an_waitStateRegionId :: u64
  an_propagateBlame :: bool

definition CUDA_EVENTS :: u32 where "CUDA_EVENTS = push_bit 0 1"

definition AnalysisEngine_new :: "u32 \<Rightarrow> u32 \<Rightarrow> u64 \<Rightarrow> bool \<Rightarrow> engine \<Rightarrow> analysis" where
  "AnalysisEngine_new mpiRank mpiSize waitStateRegion propagateBlame s =
    \<lparr>an_engine = s, an_mpi = MPIAnalysis_new mpiRank mpiSize, an_stats = Statistics_new, an_availableParadigms = 0,
     an_analysisFeature = 0, an_filteredFunctions = {}, an_deferredNodes = [], an_waitStateRegionId = waitStateRegion,
     an_propagateBlame = propagateBlame\<rparr>"

abbreviation an_node :: "analysis \<Rightarrow> node_ref \<Rightarrow> graph_node" where
  "an_node a \<equiv> ge_heap (an_engine a)"

section \<open>Paradigms, features and filters\<close>

definition addDetectedParadigm :: "u32 \<Rightarrow> analysis \<Rightarrow> analysis" where
  "addDetectedParadigm p a = a\<lparr>an_availableParadigms := an_availableParadigms a OR p\<rparr>"

definition haveParadigm :: "u32 \<Rightarrow> analysis \<Rightarrow> bool" where
  "haveParadigm p a \<longleftrightarrow> (if p = PARADIGM_MPI then True else has_flag (an_availableParadigms a) p)"

definition addAnalysisFeature :: "u32 \<Rightarrow> analysis \<Rightarrow> analysis" where
  "addAnalysisFeature f a = a\<lparr>an_analysisFeature := an_analysisFeature a OR f\<rparr>"

definition haveAnalysisFeature :: "u32 \<Rightarrow> analysis \<Rightarrow> bool" where
  "haveAnalysisFeature f a \<longleftrightarrow> has_flag (an_analysisFeature a) f"

definition addFilteredRegion :: "u32 \<Rightarrow> analysis \<Rightarrow> analysis" where
  "addFilteredRegion r a = a\<lparr>an_filteredFunctions := insert r (an_filteredFunctions a)\<rparr>"

definition isRegionFiltered :: "u32 \<Rightarrow> analysis \<Rightarrow> bool" where
  "isRegionFiltered r a \<longleftrightarrow> r \<in> an_filteredFunctions a"

definition addDeferredNode :: "node_ref \<Rightarrow> analysis \<Rightarrow> analysis" where
  "addDeferredNode n a = a\<lparr>an_deferredNodes := an_deferredNodes a @ [n]\<rparr>"

section \<open>Nodes\<close>

definition update_node :: "node_ref \<Rightarrow> (graph_node \<Rightarrow> graph_node) \<Rightarrow> analysis \<Rightarrow> analysis" where
  "update_node n f a = a\<lparr>an_engine := (an_engine a)\<lparr>ge_heap := node_update n f (ge_heap (an_engine a))\<rparr>\<rparr>"

text \<open>A wait state gets the region of wait states as its function.\<close>

definition setFunctionId :: "u64 \<Rightarrow> 'a node_scheme \<Rightarrow> 'a node_scheme" where
  "setFunctionId i n = n\<lparr>nd_functionId := i\<rparr>"

definition mark_waitstate :: "node_ref \<Rightarrow> analysis \<Rightarrow> analysis" where
  "mark_waitstate n a = (if isWaitstate (an_node a n) then update_node n (setFunctionId (an_waitStateRegionId a)) a else a)"

definition an_newGraphNode ::
  "u64 \<Rightarrow> u64 \<Rightarrow> string \<Rightarrow> u32 \<Rightarrow> record_type \<Rightarrow> u32 \<Rightarrow> analysis \<Rightarrow> node_ref \<times> analysis" where
  "an_newGraphNode time streamId name paradigm recordType nodeType a =
    (case newGraphNode time streamId name paradigm recordType nodeType (an_engine a) of
       (n, s) \<Rightarrow> (n, mark_waitstate n (a\<lparr>an_engine := s\<rparr>)))"

definition an_addNewGraphNode ::
  "u32 \<Rightarrow> u64 \<Rightarrow> stream_ref \<Rightarrow> string \<Rightarrow> u32 \<Rightarrow> record_type \<Rightarrow> u32 \<Rightarrow> analysis \<Rightarrow> (node_ref \<times> analysis) result" where
  "an_addNewGraphNode linkKernels time stream name paradigm recordType functionType a =
    bind_res (addNewGraphNode linkKernels time stream name paradigm recordType functionType (an_engine a)) (\<lambda>(n, s).
    Inr (n, mark_waitstate n (a\<lparr>an_engine := s\<rparr>)))"

text \<open>The last leave of a stream that is no MPI node and not after the given time.\<close>

definition getLastLeaveNode :: "u64 \<Rightarrow> u64 \<Rightarrow> analysis \<Rightarrow> node_ref option" where
  "getLastLeaveNode timestamp streamId a =
    (case getStream streamId (ge_group (an_engine a)) of
       None \<Rightarrow> None
     | Some p \<Rightarrow> List.find (\<lambda>n. isLeave (an_node a n) \<and> \<not> isMPI (an_node a n) \<and> nd_time (an_node a n) \<le> timestamp)
                  (rev (es_nodes (base (ge_streams (an_engine a) p)))))"

text \<open>The stream with the latest end of a period, and that time; the stream pointer is not written when no
  period ends after 0.\<close>

definition getLastLeaveEvent :: "analysis \<Rightarrow> stream_ref option \<times> u64" where
  "getLastLeaveEvent a =
    foldl (\<lambda>(p, t) q. let e = snd (es_period (base (ge_streams (an_engine a) q))) in if e > t then (Some q, e) else (p, t))
      (None, 0) (sg_allStreams (ge_group (an_engine a)))"

text \<open>The number of pending requests of the MPI streams of the process, which the code warns about.\<close>

fun obj_pending :: "stream_obj \<Rightarrow> nat" where
  "obj_pending (Mpi_Obj s) = havePendingMPIRequests s"
| "obj_pending _ = 0"

definition checkPendingMPIRequests :: "analysis \<Rightarrow> nat list" where
  "checkPendingMPIRequests a =
    (let st = ge_streams (an_engine a) in
     map (\<lambda>p. obj_pending (st p)) (filter (\<lambda>p. isMpiStream (base (st p))) (sg_hostStreams (ge_group (an_engine a)))))"

section \<open>Steps of the rules\<close>

type_synonym 'a step = "'a result option"

definition ret :: "'a \<Rightarrow> 'a step" where "ret x = Some (Inr x)"
definition fail :: "error \<Rightarrow> 'a step" where "fail e = Some (Inl e)"

lemma bind_step [simp]: "bind_fuel (ret x) f = f x" "bind_fuel (fail e) f = fail e"
  by (simp_all add: ret_def fail_def)

definition count_activity :: "activity \<Rightarrow> analysis \<Rightarrow> analysis" where
  "count_activity c a = a\<lparr>an_stats := countActivity c (an_stats a)\<rparr>"

definition add_stat :: "nat \<Rightarrow> u64 \<Rightarrow> analysis \<Rightarrow> analysis step" where
  "add_stat m t a = Some (bind_res (addStatWithCount m t 1 (an_stats a)) (\<lambda>st. Inr (a\<lparr>an_stats := st\<rparr>)))"

definition block_edge :: "edge_ref \<Rightarrow> analysis \<Rightarrow> analysis" where
  "block_edge e a = a\<lparr>an_engine := (an_engine a)\<lparr>ge_edges := (ge_edges (an_engine a))(e := makeBlocking (ge_edges (an_engine a) e))\<rparr>\<rparr>"

definition an_newEdge :: "node_ref \<Rightarrow> node_ref \<Rightarrow> bool \<Rightarrow> analysis \<Rightarrow> edge_ref \<times> analysis" where
  "an_newEdge source target blocking a =
    (case newEdge source target blocking None (an_engine a) of (e, s) \<Rightarrow> (e, a\<lparr>an_engine := s\<rparr>))"

definition distribute :: "nat \<Rightarrow> node_ref \<Rightarrow> u64 \<Rightarrow> stream_callback \<Rightarrow> blame_reason \<Rightarrow> analysis \<Rightarrow> analysis step" where
  "distribute fuel node blame callback reason a =
    bind_fuel (distributeBlame fuel (an_propagateBlame a) reason node blame callback (an_engine a)) (\<lambda>(_, s).
      ret (a\<lparr>an_engine := s\<rparr>))"

text \<open>Reading through a pointer.\<close>

definition deref :: "'a option \<Rightarrow> ('a \<Rightarrow> 'b step) \<Rightarrow> 'b step" where
  "deref p f = (case p of None \<Rightarrow> fail Null_Dereference | Some x \<Rightarrow> f x)"

lemma deref_simps [simp]: "deref None f = fail Null_Dereference" "deref (Some x) f = f x"
  by (simp_all add: deref_def)

lemma add_stat_valid [simp]:
  "m + 1 < STAT_NUMBER \<Longrightarrow> bind_fuel (add_stat m t a) f =
     f (a\<lparr>an_stats := (an_stats a)\<lparr>st_stats := (st_stats (an_stats a))(m := st_stats (an_stats a) m + 1,
          m + 1 := st_stats (an_stats a) (m + 1) + t)\<rparr>\<rparr>)"
  by (simp add: add_stat_def addStatWithCount_def Let_def)

lemma an_newEdge_engine: "an_engine (snd (an_newEdge x y b a)) = snd (newEdge x y b None (an_engine a))"
  by (simp add: an_newEdge_def split: prod.split)

end
