(* ===== verification/MpiRules.thy ===== *)
theory MpiRules
  imports AnalysisModel
begin

text \<open>The rules of the MPI analysis (\<^verbatim>\<open>analysis/include/mpi\<close> and \<^verbatim>\<open>AnalysisParadigmMPI.cpp\<close>). A rule
  replays the communication: what it sends is a function of its nodes, and what it receives is an
  argument, so that the rules of two ranks can be put together. A rule returns whether it applied, and
  the analysis after it.\<close>

section \<open>Messages\<close>

text \<open>The five numbers of a message: start and end time, the numbers of the two nodes, the type.\<close>

record p2p_buffer =
  pb_start :: u64
  pb_end :: u64
  pb_enter :: u64
  pb_leave :: u64
  pb_type :: u32

definition message :: "graph_node \<Rightarrow> graph_node \<Rightarrow> u32 \<Rightarrow> p2p_buffer" where
  "message enter leave t = \<lparr>pb_start = nd_time enter, pb_end = nd_time leave, pb_enter = nd_id enter,
     pb_leave = nd_id leave, pb_type = t\<rparr>"

text \<open>The conversion of an identifier to \<^verbatim>\<open>int\<close>.\<close>

definition as_int :: "u64 \<Rightarrow> int" where "as_int x = sint (ucast x :: u32)"

section \<open>Common steps\<close>

text \<open>The array with tag and communicator that the leave of a blocking call carries.\<close>

definition comm_data :: "nat \<Rightarrow> node_ref \<Rightarrow> analysis \<Rightarrow> (u32 list \<Rightarrow> 'b step) \<Rightarrow> 'b step" where
  "comm_data len leave a f = (case gn_data (an_node a leave) of
      None \<Rightarrow> fail Null_Dereference
    | Some (Array_Data xs) \<Rightarrow> if len \<le> length xs then f xs else fail Out_Of_Bounds
    | Some _ \<Rightarrow> fail Out_Of_Bounds)"

definition known_group :: "u32 \<Rightarrow> analysis \<Rightarrow> (comm_group \<Rightarrow> 'b step) \<Rightarrow> 'b step" where
  "known_group comRef a f = (case getMPICommGroup comRef (an_mpi a) of Inl e \<Rightarrow> fail e | Inr g \<Rightarrow> f g)"

definition add_remote :: "node_ref \<Rightarrow> u64 \<Rightarrow> int \<Rightarrow> u32 \<Rightarrow> analysis \<Rightarrow> analysis step" where
  "add_remote leave nodeId rank comRef a = (case getStreamId rank comRef (an_mpi a) of
      Inl e \<Rightarrow> fail e | Inr (i, m) \<Rightarrow> ret (a\<lparr>an_mpi := addRemoteMPIEdge leave nodeId i m\<rparr>))"

text \<open>A wait state: the edge of the region is blocked and the remote node recorded; the waiting time is
  counted whether there is an edge or not.\<close>

definition block_region :: "node_ref \<Rightarrow> node_ref \<Rightarrow> u64 \<Rightarrow> int \<Rightarrow> u32 \<Rightarrow> analysis \<Rightarrow> analysis step" where
  "block_region enter leave nodeId rank comRef a =
    (case getEdge enter leave (an_engine a) of
       Some e \<Rightarrow> add_remote leave nodeId rank comRef (block_edge e a)
     | None \<Rightarrow> ret a)"

definition wait_state :: "nat \<Rightarrow> node_ref \<Rightarrow> u64 \<Rightarrow> analysis \<Rightarrow> analysis step" where
  "wait_state metric leave t a =
    bind_fuel (add_stat metric t a) (\<lambda>a. ret (update_node leave (setCounter WAITING_TIME t) a))"

section \<open>Send and receive\<close>

definition send_message :: "node_ref \<Rightarrow> analysis \<Rightarrow> p2p_buffer option" where
  "send_message leave a = (case gn_first (an_node a leave) of
      None \<Rightarrow> None | Some enter \<Rightarrow> Some (message (an_node a enter) (an_node a leave) MPI_SEND))"

definition SendRule :: "nat \<Rightarrow> p2p_buffer \<Rightarrow> node_ref \<Rightarrow> analysis \<Rightarrow> (bool \<times> analysis) step" where
  "SendRule fuel reply leave a =
    (let n = an_node a leave in
     if \<not> isMPISend n \<or> \<not> isLeave n then ret (False, a)
     else
       (let a = count_activity STAT_MPI_P2P a; partnerRank = as_int (nd_referencedStream n) in
        comm_data 2 leave a (\<lambda>d. known_group (d ! 1) a (\<lambda>g.
        deref (gn_first n) (\<lambda>enter.
          let sendStartTime = nd_time (an_node a enter); sendEndTime = nd_time n; recvStartTime = pb_start reply in
          if \<not> (has_flag (pb_type reply) MPI_RECV \<or> has_flag (pb_type reply) MPI_IRECV) then ret (False, a)
          else if sendStartTime \<le> recvStartTime then
            (if sendStartTime < recvStartTime \<and> sendEndTime > recvStartTime then
               bind_fuel (block_region enter leave (pb_leave reply) partnerRank (d ! 1) a) (\<lambda>a.
               bind_fuel (wait_state MPI_STAT_LATE_RECEIVER leave (recvStartTime - sendStartTime) a) (\<lambda>a.
               ret (True, a)))
             else ret (True, a))
          else if sendStartTime < pb_end reply then
            bind_fuel (distribute fuel enter (sendStartTime - recvStartTime) mpiStreamWalkCallback REASON_MPI_LATE_SENDER a)
              (\<lambda>a. ret (True, a))
          else ret (True, a))))))"

definition recv_message :: "node_ref \<Rightarrow> analysis \<Rightarrow> p2p_buffer option" where
  "recv_message leave a = (case gn_first (an_node a leave) of
      None \<Rightarrow> None | Some enter \<Rightarrow> Some (message (an_node a enter) (an_node a leave) MPI_RECV))"

definition RecvRule :: "nat \<Rightarrow> p2p_buffer \<Rightarrow> node_ref \<Rightarrow> analysis \<Rightarrow> (bool \<times> analysis) step" where
  "RecvRule fuel received leave a =
    (let n = an_node a leave in
     if \<not> isMPIRecv n \<or> \<not> isLeave n then ret (False, a)
     else
       (let a = count_activity STAT_MPI_P2P a; partnerRank = as_int (nd_referencedStream n) in
        comm_data 2 leave a (\<lambda>d. known_group (d ! 1) a (\<lambda>g.
          let sendStartTime = pb_start received; sendEndTime = pb_end received in
          if \<not> (has_flag (pb_type received) MPI_SEND \<or> has_flag (pb_type received) MPI_ISEND) then ret (False, a)
          else deref (gn_first n) (\<lambda>enter.
            let recvStartTime = nd_time (an_node a enter) in
            if recvStartTime < sendStartTime then
              bind_fuel (block_region enter leave (pb_enter received) partnerRank (d ! 1) a) (\<lambda>a.
              bind_fuel (wait_state MPI_STAT_LATE_SENDER leave (sendStartTime - recvStartTime) a) (\<lambda>a.
              ret (True, a)))
            else if recvStartTime \<noteq> sendStartTime \<and> recvStartTime < sendEndTime then
              bind_fuel (distribute fuel enter (recvStartTime - sendStartTime) mpiStreamWalkCallback
                  REASON_MPI_LATE_RECEIVER a) (\<lambda>a. ret (True, a))
            else ret (True, a))))))"

section \<open>Combined send and receive\<close>

text \<open>The two parts of the rule for different partners: the edge of the region, once it is blocked, and the
  last of the three enters. The reverse message comes from the rank sent to.\<close>

record last_start =
  ls_edge :: "edge_ref option"
  ls_streamId :: u64
  ls_nodeId :: u64
  ls_time :: u64

definition stream_of_rank :: "int \<Rightarrow> u32 \<Rightarrow> analysis \<Rightarrow> (u64 \<Rightarrow> analysis \<Rightarrow> 'b step) \<Rightarrow> 'b step" where
  "stream_of_rank rank comRef a f = (case getStreamId rank comRef (an_mpi a) of
      Inl e \<Rightarrow> fail e | Inr (i, m) \<Rightarrow> f i (a\<lparr>an_mpi := m\<rparr>))"

definition block_own :: "node_ref \<Rightarrow> node_ref \<Rightarrow> analysis \<Rightarrow> edge_ref option \<times> analysis" where
  "block_own enter leave a = (case getEdge enter leave (an_engine a) of
      Some e \<Rightarrow> (Some e, block_edge e a) | None \<Rightarrow> (None, a))"

definition early_receive ::
  "node_ref \<Rightarrow> node_ref \<Rightarrow> int \<Rightarrow> u32 \<Rightarrow> p2p_buffer \<Rightarrow> last_start \<Rightarrow> analysis \<Rightarrow> (last_start \<times> analysis) step" where
  "early_receive enter leave recvRank comRef fromRecv ls a =
    (if nd_time (an_node a enter) < pb_start fromRecv then
       (case block_own enter leave a of (e, a) \<Rightarrow>
          stream_of_rank recvRank comRef a (\<lambda>i a.
            ret (\<lparr>ls_edge = e, ls_streamId = i, ls_nodeId = pb_enter fromRecv, ls_time = pb_start fromRecv\<rparr>, a)))
     else ret (ls, a))"

definition early_send ::
  "node_ref \<Rightarrow> node_ref \<Rightarrow> int \<Rightarrow> int \<Rightarrow> u32 \<Rightarrow> p2p_buffer \<Rightarrow> p2p_buffer \<Rightarrow> last_start \<Rightarrow> analysis \<Rightarrow> (last_start \<times> analysis) step" where
  "early_send enter leave sendRank recvRank comRef fromRecv fromSend ls a =
    (if nd_time (an_node a enter) < pb_start fromSend \<and> nd_time (an_node a leave) > pb_start fromSend then
       (case (if ls_edge ls \<noteq> None then (ls_edge ls, a) else block_own enter leave a) of (e, a') \<Rightarrow>
          if ls_edge ls \<noteq> None \<and> pb_start fromSend < pb_start fromRecv then
            stream_of_rank recvRank comRef a' (\<lambda>i a.
              ret (\<lparr>ls_edge = e, ls_streamId = i, ls_nodeId = pb_enter fromRecv, ls_time = pb_start fromRecv\<rparr>, a))
          else
            stream_of_rank sendRank comRef a' (\<lambda>i a.
              ret (\<lparr>ls_edge = e, ls_streamId = i, ls_nodeId = pb_enter fromSend, ls_time = pb_start fromSend\<rparr>, a)))
     else ret (ls, a))"

definition inc_wait :: "nat \<Rightarrow> node_ref \<Rightarrow> u64 \<Rightarrow> analysis \<Rightarrow> analysis step" where
  "inc_wait metric leave t a =
    bind_fuel (add_stat metric t a) (\<lambda>a. ret (update_node leave (incCounter WAITING_TIME t) a))"

definition sendrecv_same ::
  "nat \<Rightarrow> node_ref \<Rightarrow> node_ref \<Rightarrow> int \<Rightarrow> u32 \<Rightarrow> p2p_buffer \<Rightarrow> analysis \<Rightarrow> (bool \<times> analysis) step" where
  "sendrecv_same fuel enter leave recvRank comRef fromRecv a =
    (let myStartTime = nd_time (an_node a enter); start = pb_start fromRecv in
     if myStartTime < start then
       bind_fuel (block_region enter leave (pb_enter fromRecv) recvRank comRef a) (\<lambda>a.
       bind_fuel (inc_wait MPI_STAT_SENDRECV leave (start - myStartTime) a) (\<lambda>a. ret (True, a)))
     else if myStartTime \<noteq> start \<and> myStartTime < pb_end fromRecv then
       bind_fuel (distribute fuel enter (myStartTime - start) mpiStreamWalkCallback REASON_MPI_LATE_SENDRECV a)
         (\<lambda>a. ret (True, a))
     else ret (True, a))"

definition sendrecv_blame :: "u64 \<Rightarrow> p2p_buffer \<Rightarrow> p2p_buffer \<Rightarrow> u64" where
  "sendrecv_blame myStartTime fromRecv fromSend =
    (let blame = (if myStartTime \<noteq> pb_start fromRecv \<and> myStartTime < pb_end fromRecv then myStartTime - pb_start fromRecv else 0)
     in if myStartTime > pb_start fromSend then blame + (myStartTime - pb_start fromSend) else blame)"

definition sendrecv_distinct ::
  "nat \<Rightarrow> node_ref \<Rightarrow> node_ref \<Rightarrow> int \<Rightarrow> int \<Rightarrow> u32 \<Rightarrow> p2p_buffer \<Rightarrow> p2p_buffer \<Rightarrow> analysis \<Rightarrow> (bool \<times> analysis) step" where
  "sendrecv_distinct fuel enter leave sendRank recvRank comRef fromRecv fromSend a =
    (let myStartTime = nd_time (an_node a enter); myEndTime = nd_time (an_node a leave);
         ls = \<lparr>ls_edge = None, ls_streamId = nd_streamId (an_node a leave), ls_nodeId = nd_id (an_node a leave), ls_time = myStartTime\<rparr>
     in bind_fuel (early_receive enter leave recvRank comRef fromRecv ls a) (\<lambda>(ls, a).
        bind_fuel (early_send enter leave sendRank recvRank comRef fromRecv fromSend ls a) (\<lambda>(ls, a).
        if ls_edge ls \<noteq> None then
          (let waitEnd = min (ls_time ls) myEndTime in
           bind_fuel (if myStartTime < waitEnd then inc_wait MPI_STAT_SENDRECV leave (waitEnd - myStartTime) a else ret a) (\<lambda>a.
           ret (True, a\<lparr>an_mpi := addRemoteMPIEdge leave (ls_nodeId ls) (ls_streamId ls) (an_mpi a)\<rparr>)))
        else
          (let blame = sendrecv_blame myStartTime fromRecv fromSend in
           if blame > 0 then
             bind_fuel (distribute fuel enter blame mpiStreamWalkCallback REASON_MPI_LATE_SENDRECV a) (\<lambda>a. ret (True, a))
           else ret (True, a)))))"

definition SendRecvRule :: "nat \<Rightarrow> p2p_buffer \<Rightarrow> p2p_buffer \<Rightarrow> node_ref \<Rightarrow> analysis \<Rightarrow> (bool \<times> analysis) step" where
  "SendRecvRule fuel fromRecv fromSend leave a =
    (let n = an_node a leave in
     if \<not> isMPISendRecv n \<or> \<not> isLeave n then ret (False, a)
     else
       (let a = count_activity STAT_MPI_P2P (count_activity STAT_MPI_P2P a) in
        if gn_data n = None then fail (Assertion_Failed ''No data found'')
        else comm_data 4 leave a (\<lambda>d.
          let sendRank = sint (d ! 0); recvRank = sint (d ! 2); comRef = ucast (nd_referencedStream n) in
          known_group comRef a (\<lambda>g. deref (gn_first n) (\<lambda>enter.
            if sendRank = recvRank then sendrecv_same fuel enter leave recvRank comRef fromRecv a
            else sendrecv_distinct fuel enter leave sendRank recvRank comRef fromRecv fromSend a)))))"

section \<open>Collectives\<close>

text \<open>What every rank of the communicator contributes: the time of the enter, the numbers of enter and
  leave, and the stream.\<close>

record coll_entry =
  ce_enterTime :: u64
  ce_enterId :: u64
  ce_leaveId :: u64
  ce_streamId :: u64

definition collective_entry :: "node_ref \<Rightarrow> analysis \<Rightarrow> coll_entry option" where
  "collective_entry leave a = (case gn_first (an_node a leave) of
      None \<Rightarrow> None
    | Some enter \<Rightarrow> Some \<lparr>ce_enterTime = nd_time (an_node a enter), ce_enterId = nd_id (an_node a enter),
        ce_leaveId = nd_id (an_node a leave), ce_streamId = nd_streamId (an_node a leave)\<rparr>)"

text \<open>The last enter: its time, its node and its stream.\<close>

definition later_enter :: "u64 \<times> u64 \<times> u64 \<Rightarrow> coll_entry \<Rightarrow> u64 \<times> u64 \<times> u64" where
  "later_enter x e = (if ce_enterTime e > fst x then (ce_enterTime e, ce_enterId e, ce_streamId e) else x)"

definition last_enter :: "coll_entry list \<Rightarrow> u64 \<times> u64 \<times> u64" where
  "last_enter es = foldl later_enter (0, 0, 0) es"

definition total_blame :: "u64 \<Rightarrow> coll_entry list \<Rightarrow> u64" where
  "total_blame lastEnterTime es = foldl (\<lambda>b e. b + (lastEnterTime - ce_enterTime e)) 0 es"

definition with_mpi_stream ::
  "u64 \<Rightarrow> (heap \<Rightarrow> mpi_stream \<Rightarrow> (heap \<times> mpi_stream) result) \<Rightarrow> analysis \<Rightarrow> analysis step" where
  "with_mpi_stream i f a =
    (let s = an_engine a in
     case getMpiStream (ge_streams s) i (ge_group s) of
       Inl e \<Rightarrow> fail e
     | Inr None \<Rightarrow> fail Null_Dereference
     | Inr (Some p) \<Rightarrow> (case ge_streams s p of
           Mpi_Obj m \<Rightarrow> (case f (ge_heap s) m of
               Inl e \<Rightarrow> fail e
             | Inr (h, m) \<Rightarrow> ret (a\<lparr>an_engine := s\<lparr>ge_heap := h, ge_streams := (ge_streams s)(p := Mpi_Obj m)\<rparr>\<rparr>))
         | _ \<Rightarrow> fail Null_Dereference))"

definition CollectiveRule ::
  "nat \<Rightarrow> (nat \<Rightarrow> bool) \<Rightarrow> coll_entry list \<Rightarrow> node_ref \<Rightarrow> analysis \<Rightarrow> (bool \<times> analysis) step" where
  "CollectiveRule fuel mpi_test gathered leave a =
    (let n = an_node a leave in
     if \<not> isMPICollective n \<or> \<not> isLeave n then ret (False, a)
     else
       (let a = count_activity STAT_MPI_COLLECTIVE a in
        bind_fuel (if \<not> isMPIInit n then with_mpi_stream (nd_streamId n) (testAllPendingMPIRequests mpi_test) a else ret a) (\<lambda>a.
        known_group (ucast (nd_referencedStream n)) a (\<lambda>g.
        if cg_comm g = MPI_COMM_SELF then ret (False, a)
        else deref (gn_first n) (\<lambda>enter.
          let collStartTime = nd_time (an_node a enter);
              (lastEnterTime, lastEnterNode, lastEnterProcess) = last_enter gathered
          in if lastEnterProcess \<noteq> nd_streamId n then
               bind_fuel (case getEdge enter leave (an_engine a) of
                   Some e \<Rightarrow> (let a = block_edge e a in
                      ret (a\<lparr>an_mpi := addRemoteMPIEdge leave lastEnterNode lastEnterProcess (an_mpi a)\<rparr>))
                 | None \<Rightarrow> ret a) (\<lambda>a.
               bind_fuel (wait_state MPI_STAT_COLLECTIVE leave (lastEnterTime - collStartTime) a) (\<lambda>a.
               ret (True, a)))
             else
               bind_fuel (distribute fuel enter (total_blame lastEnterTime gathered) mpiStreamWalkCallback
                   REASON_MPI_COLLECTIVE a) (\<lambda>a. ret (True, a)))))))"

section \<open>Non-blocking calls\<close>

text \<open>The record a node refers to, in the stream of the node. A record that is gone is a dangling
  pointer.\<close>

definition with_record ::
  "node_ref \<Rightarrow> u64 \<Rightarrow> (icomm_record \<Rightarrow> 'b step) \<Rightarrow> analysis \<Rightarrow> 'b step" where
  "with_record n r f a =
    (let s = an_engine a in
     case getMpiStream (ge_streams s) (nd_streamId (an_node a n)) (ge_group s) of
       Inr (Some p) \<Rightarrow> (case ge_streams s p of
           Mpi_Obj m \<Rightarrow> (case getPendingMPIIcommRecord r m of Some rec \<Rightarrow> f rec | None \<Rightarrow> fail (Runtime_Error ''dangling record''))
         | _ \<Rightarrow> fail Null_Dereference)
     | _ \<Rightarrow> fail Null_Dereference)"

definition put_record :: "node_ref \<Rightarrow> u64 \<Rightarrow> icomm_record \<Rightarrow> analysis \<Rightarrow> analysis step" where
  "put_record n r rec a = with_mpi_stream (nd_streamId (an_node a n))
     (\<lambda>h m. Inr (h, m\<lparr>ms_icomm := smap_update r rec (ms_icomm m)\<rparr>)) a"

text \<open>A number that has never been written.\<close>

definition initialised :: "'a option \<Rightarrow> ('a \<Rightarrow> 'b step) \<Rightarrow> 'b step" where
  "initialised x f = (case x of None \<Rightarrow> fail (Runtime_Error ''uninitialised'') | Some v \<Rightarrow> f v)"

text \<open>The two requests a rule starts, and their first poll: \<^verbatim>\<open>done\<close> says which have finished.\<close>

definition start_requests :: "nat \<Rightarrow> nat \<Rightarrow> (nat \<Rightarrow> bool) \<Rightarrow> icomm_record \<Rightarrow> icomm_record" where
  "start_requests q0 q1 finished_now rec =
    rec\<lparr>ic_request0 := (if finished_now q0 then None else Some q0), ic_request1 := (if finished_now q1 then None else Some q1)\<rparr>"

definition isend_message :: "node_ref \<Rightarrow> analysis \<Rightarrow> p2p_buffer option" where
  "isend_message leave a = (case gn_first (an_node a leave) of
      None \<Rightarrow> None | Some enter \<Rightarrow> Some (message (an_node a enter) (an_node a leave) MPI_ISEND))"

definition ISendRule :: "nat \<Rightarrow> nat \<Rightarrow> (nat \<Rightarrow> bool) \<Rightarrow> node_ref \<Rightarrow> analysis \<Rightarrow> (bool \<times> analysis) step" where
  "ISendRule q0 q1 finished_now leave a =
    (let n = an_node a leave in
     if \<not> isMPI_Isend n \<or> isEnter n then ret (False, a)
     else (case gn_data n of
         None \<Rightarrow> ret (False, a)
       | Some (Icomm_Ref r) \<Rightarrow> with_record leave r (\<lambda>rec.
           deref (gn_first n) (\<lambda>enter.
           initialised (ic_comRef rec) (\<lambda>c. known_group c a (\<lambda>g.
           initialised (ic_msgTag rec) (\<lambda>tag.
           bind_fuel (put_record leave r (start_requests q0 q1 finished_now rec) a) (\<lambda>a. ret (True, a))))))) a
       | Some _ \<Rightarrow> fail Out_Of_Bounds))"

text \<open>The message of a non-blocking receive: the times of the wait that completed it.\<close>

definition irecv_message :: "node_ref \<Rightarrow> icomm_record \<Rightarrow> analysis \<Rightarrow> p2p_buffer option" where
  "irecv_message leave rec a = (case ic_syncNode rec of
      Some w \<Rightarrow> (case gn_first (an_node a w) of
          None \<Rightarrow> None
        | Some e \<Rightarrow> Some \<lparr>pb_start = nd_time (an_node a e), pb_end = nd_time (an_node a w), pb_enter = nd_id (an_node a w),
            pb_leave = nd_id (an_node a w), pb_type = MPI_IRECV\<rparr>)
    | None \<Rightarrow> (case gn_first (an_node a leave) of
          None \<Rightarrow> None | Some e \<Rightarrow> Some (message (an_node a e) (an_node a leave) MPI_IRECV)))"

definition IRecvRule :: "nat \<Rightarrow> nat \<Rightarrow> (nat \<Rightarrow> bool) \<Rightarrow> node_ref \<Rightarrow> analysis \<Rightarrow> (bool \<times> analysis) step" where
  "IRecvRule q0 q1 finished_now leave a =
    (let n = an_node a leave in
     if \<not> isMPI_Irecv n \<or> isEnter n then ret (False, a)
     else (case gn_data n of
         None \<Rightarrow> ret (False, a)
       | Some (Icomm_Ref r) \<Rightarrow> with_record leave r (\<lambda>rec.
           initialised (ic_comRef rec) (\<lambda>c. known_group c a (\<lambda>g.
           initialised (ic_msgTag rec) (\<lambda>tag.
           deref (irecv_message leave rec a) (\<lambda>msg.
           bind_fuel (put_record leave r (start_requests q0 q1 finished_now rec) a) (\<lambda>a. ret (True, a))))))) a
       | Some _ \<Rightarrow> fail Out_Of_Bounds))"

end
