(* ===== verification/MpiRuleLaws.thy ===== *)
theory MpiRuleLaws
  imports MpiRules
begin

text \<open>Laws of the MPI rules that put the ranks together: the waiting time one rank records is the blame
  another rank distributes.\<close>

section \<open>Distributing from a node\<close>

text \<open>A node blame can be distributed from: its stream is in order and linked, and the interval takes
  time.\<close>

definition blame_ready :: "engine \<Rightarrow> node_ref \<Rightarrow> stream_callback \<Rightarrow> bool" where
  "blame_ready s node cb \<longleftrightarrow> engine_ok s \<and> edges_timed s \<and> recording cb \<and>
    (\<exists>ns i l. node = ns ! i \<and> i < length ns \<and> stream_of s node ns \<and> chained s (rev ns) \<and>
       walk_interval node cb s = Inr l \<and> nd_time (ge_heap s (hd l)) \<noteq> nd_time (ge_heap s (last l)))"

lemma distribute_ready:
  assumes "blame_ready (an_engine a) node cb" "\<not> an_propagateBlame a"
  shows "\<exists>s'. distribute (Suc fuel) node b cb reason a = ret (a\<lparr>an_engine := s'\<rparr>) \<and>
     same_but_blame (an_engine a) s' \<and> blame_total s' = blame_total (an_engine a) + of_nat (unat b)"
proof (cases "b = 0")
  case True
  then show ?thesis
    using assms(2) by (intro exI [of _ "an_engine a"]) (simp add: distribute_def ret_def)
next
  case False
  obtain ns i l where n: "node = ns ! i" "i < length ns" "stream_of (an_engine a) node ns" "chained (an_engine a) (rev ns)"
      "walk_interval node cb (an_engine a) = Inr l"
      "nd_time (ge_heap (an_engine a) (hd l)) \<noteq> nd_time (ge_heap (an_engine a) (last l))"
      "engine_ok (an_engine a)" "edges_timed (an_engine a)" "recording cb"
    using assms(1) by (auto simp: blame_ready_def)
  show ?thesis
    using distributeBlame_sum [OF n(7,8) _ n(2,4,9) _ n(6) False, of fuel reason] n(1,3,5) assms(2)
    by (fastforce simp: distribute_def ret_def)
qed

text \<open>The number of the partner stream is found.\<close>

definition comm_ready :: "node_ref \<Rightarrow> analysis \<Rightarrow> bool" where
  "comm_ready leave a \<longleftrightarrow> (\<exists>tag com g i m. gn_data (an_node a leave) = Some (Array_Data [tag, com]) \<and>
     getMPICommGroup com (an_mpi a) = Inr g \<and>
     getStreamId (as_int (nd_referencedStream (an_node a leave))) com (an_mpi a) = Inr (i, m))"

lemma blame_total_block [simp]: "blame_total (an_engine (block_edge e a)) = blame_total (an_engine a)"
  by (auto simp: block_edge_def blame_total_def makeBlocking_def getTotalBlame_def intro!: sum.cong)

lemma blame_total_cong:
  "ge_edges s' = ge_edges s \<Longrightarrow> ge_nextEdge s' = ge_nextEdge s \<Longrightarrow> blame_total s' = blame_total s"
  by (simp add: blame_total_def)

lemma update_node_simps [simp]:
  "blame_total (an_engine (update_node n f a)) = blame_total (an_engine a)"
  "an_node (update_node n f a) n = f (an_node a n)"
  by (simp_all add: update_node_def node_update_def blame_total_def)

lemma waiting_time_set [simp]: "getWaitingTime (setCounter WAITING_TIME t n) = t"
  by (simp add: getWaitingTime_def setCounter_def getCounter_def getCounter_valid_def)

text \<open>What a wait state leaves behind.\<close>

lemma ret_eq [simp]: "ret x = ret y \<longleftrightarrow> x = y"
  by (simp add: ret_def)

lemma wait_state_ok:
  assumes "metric + 1 < STAT_NUMBER"
  shows "\<exists>a'. wait_state metric leave t a = ret a' \<and> blame_total (an_engine a') = blame_total (an_engine a) \<and>
     getWaitingTime (an_node a' leave) = t"
  using assms by (simp add: wait_state_def)

lemma block_region_ok:
  assumes "getStreamId rank com (an_mpi a) = Inr (i, m)"
  shows "\<exists>a'. block_region enter leave nodeId rank com a = ret a' \<and> blame_total (an_engine a') = blame_total (an_engine a)"
  using assms by (cases "getEdge enter leave (an_engine a)") (auto simp: block_region_def add_remote_def block_edge_def
      blame_total_block [of _ a, unfolded block_edge_def, simplified])

lemma block_region_wait:
  assumes "getStreamId rank com (an_mpi a) = Inr (i, m)" "metric + 1 < STAT_NUMBER"
  shows "\<exists>a'. bind_fuel (block_region enter leave nodeId rank com a) (\<lambda>a.
       bind_fuel (wait_state metric leave t a) (\<lambda>a. ret (True, a))) = ret (True, a') \<and>
     blame_total (an_engine a') = blame_total (an_engine a) \<and> getWaitingTime (an_node a' leave) = t"
proof -
  obtain b where b: "block_region enter leave nodeId rank com a = ret b" "blame_total (an_engine b) = blame_total (an_engine a)"
    using block_region_ok [OF assms(1)] by blast
  obtain c where "wait_state metric leave t b = ret c" "blame_total (an_engine c) = blame_total (an_engine b)"
      "getWaitingTime (an_node c leave) = t"
    using wait_state_ok [OF assms(2)] by blast
  then show ?thesis
    using b by simp
qed

section \<open>Send and receive\<close>

text \<open>The leave of a call that has not been analysed, with its enter, and everything its rule reads.\<close>

definition p2p_ready :: "node_ref \<Rightarrow> node_ref \<Rightarrow> analysis \<Rightarrow> bool" where
  "p2p_ready enter leave a \<longleftrightarrow> isLeave (an_node a leave) \<and> gn_first (an_node a leave) = Some enter \<and>
     getWaitingTime (an_node a leave) = 0 \<and> comm_ready leave a \<and>
     blame_ready (an_engine a) enter mpiStreamWalkCallback \<and> \<not> an_propagateBlame a"

text \<open>Distribution from the enter leaves the waiting time of the leave alone.\<close>

lemma distribute_call:
  assumes "p2p_ready enter leave a"
  shows "\<exists>a'. bind_fuel (distribute (Suc fuel) enter b mpiStreamWalkCallback reason (count_activity c a))
       (\<lambda>a. ret (True, a)) = ret (True, a') \<and>
     blame_total (an_engine a') = blame_total (an_engine a) + of_nat (unat b) \<and> getWaitingTime (an_node a' leave) = 0"
proof -
  have "blame_ready (an_engine (count_activity c a)) enter mpiStreamWalkCallback" "\<not> an_propagateBlame (count_activity c a)"
    using assms by (simp_all add: p2p_ready_def count_activity_def)
  then obtain s' where "distribute (Suc fuel) enter b mpiStreamWalkCallback reason (count_activity c a)
       = ret ((count_activity c a)\<lparr>an_engine := s'\<rparr>)"
      "same_but_blame (an_engine (count_activity c a)) s'"
      "blame_total s' = blame_total (an_engine (count_activity c a)) + of_nat (unat b)"
    using distribute_ready by blast
  then show ?thesis
    using assms same_but_blame_edge(5) [of "an_engine a" s'] by (simp add: p2p_ready_def count_activity_def)
qed

lemma send_cases:
  assumes "p2p_ready enter leave a" "isMPISend (an_node a leave)" "has_flag (pb_type reply) MPI_RECV"
  defines "s \<equiv> nd_time (an_node a enter)"
  shows "\<exists>a'. SendRule (Suc fuel) reply leave a = ret (True, a') \<and>
     getWaitingTime (an_node a' leave) = (if s < pb_start reply \<and> pb_start reply < nd_time (an_node a leave)
       then pb_start reply - s else 0) \<and>
     blame_total (an_engine a') = blame_total (an_engine a) +
       of_nat (unat (if pb_start reply < s \<and> s < pb_end reply then s - pb_start reply else 0))"
proof -
  have r: "isLeave (an_node a leave)" "gn_first (an_node a leave) = Some enter" "getWaitingTime (an_node a leave) = 0"
    using assms(1) by (simp_all add: p2p_ready_def)
  obtain tag com g i m where c: "gn_data (an_node a leave) = Some (Array_Data [tag, com])"
      "getMPICommGroup com (an_mpi a) = Inr g"
      "getStreamId (as_int (nd_referencedStream (an_node a leave))) com (an_mpi a) = Inr (i, m)"
    using assms(1) by (auto simp: p2p_ready_def comm_ready_def)
  let ?a = "count_activity STAT_MPI_P2P a"
  have q: "an_node ?a = an_node a" "an_mpi ?a = an_mpi a" "an_engine ?a = an_engine a"
    by (simp_all add: count_activity_def)
  note simps = SendRule_def Let_def comm_data_def known_group_def
  consider "s < pb_start reply" "pb_start reply < nd_time (an_node a leave)" | "pb_start reply < s" "s < pb_end reply"
    | "\<not> (s < pb_start reply \<and> pb_start reply < nd_time (an_node a leave))" "\<not> (pb_start reply < s \<and> s < pb_end reply)"
    by blast
  then show ?thesis
  proof cases
    case 1
    then show ?thesis
      using block_region_wait [of _ com ?a i m MPI_STAT_LATE_RECEIVER enter leave "pb_leave reply" "pb_start reply - s"]
        assms(2,3) r c q by (auto simp: simps s_def stat_consts)
  next
    case 2
    then show ?thesis
      using distribute_call [OF assms(1), of fuel "s - pb_start reply" REASON_MPI_LATE_SENDER STAT_MPI_P2P]
        assms(2,3) r c q by (auto simp: simps s_def not_le)
  next
    case 3
    then show ?thesis
      using assms(2,3) r c q by (auto simp: simps s_def not_le)
  qed
qed

lemma recv_cases:
  assumes "p2p_ready enter leave a" "isMPIRecv (an_node a leave)" "has_flag (pb_type received) MPI_SEND"
  defines "r \<equiv> nd_time (an_node a enter)"
  shows "\<exists>a'. RecvRule (Suc fuel) received leave a = ret (True, a') \<and>
     getWaitingTime (an_node a' leave) = (if r < pb_start received then pb_start received - r else 0) \<and>
     blame_total (an_engine a') = blame_total (an_engine a) +
       of_nat (unat (if pb_start received < r \<and> r < pb_end received then r - pb_start received else 0))"
proof -
  have p: "isLeave (an_node a leave)" "gn_first (an_node a leave) = Some enter" "getWaitingTime (an_node a leave) = 0"
    using assms(1) by (simp_all add: p2p_ready_def)
  obtain tag com g i m where c: "gn_data (an_node a leave) = Some (Array_Data [tag, com])"
      "getMPICommGroup com (an_mpi a) = Inr g"
      "getStreamId (as_int (nd_referencedStream (an_node a leave))) com (an_mpi a) = Inr (i, m)"
    using assms(1) by (auto simp: p2p_ready_def comm_ready_def)
  let ?a = "count_activity STAT_MPI_P2P a"
  have q: "an_node ?a = an_node a" "an_mpi ?a = an_mpi a" "an_engine ?a = an_engine a"
    by (simp_all add: count_activity_def)
  note simps = RecvRule_def Let_def comm_data_def known_group_def
  consider "r < pb_start received" | "pb_start received < r" "r < pb_end received"
    | "\<not> r < pb_start received" "\<not> (pb_start received < r \<and> r < pb_end received)"
    by blast
  then show ?thesis
  proof cases
    case 1
    then show ?thesis
      using block_region_wait [of _ com ?a i m MPI_STAT_LATE_SENDER enter leave "pb_enter received" "pb_start received - r"]
        assms(2,3) p c q by (auto simp: simps r_def stat_consts)
  next
    case 2
    then show ?thesis
      using distribute_call [OF assms(1), of fuel "r - pb_start received" REASON_MPI_LATE_RECEIVER STAT_MPI_P2P]
        assms(2,3) p c q by (auto simp: simps r_def)
  next
    case 3
    then show ?thesis
      using assms(2,3) p c q by (auto simp: simps r_def)
  qed
qed

text \<open>C4. The two sides of a blocking message balance: when the calls of \<^verbatim>\<open>MPI_Send\<close> and \<^verbatim>\<open>MPI_Recv\<close>
  overlap and each rule gets the message of the other, both return, and the waiting time the two
  leaves record is the blame the two ranks distribute.\<close>
theorem send_recv_balance:
  assumes "p2p_ready e1 l1 a1" "isMPISend (an_node a1 l1)" "p2p_ready e2 l2 a2" "isMPIRecv (an_node a2 l2)"
    and "send_message l1 a1 = Some sent" "recv_message l2 a2 = Some reply"
    and "nd_time (an_node a1 e1) < nd_time (an_node a2 l2)" "nd_time (an_node a2 e2) < nd_time (an_node a1 l1)"
  shows "\<exists>a1' a2'. SendRule (Suc fuel) reply l1 a1 = ret (True, a1') \<and> RecvRule (Suc fuel) sent l2 a2 = ret (True, a2') \<and>
     of_nat (unat (getWaitingTime (an_node a1' l1))) + of_nat (unat (getWaitingTime (an_node a2' l2))) =
     (blame_total (an_engine a1') - blame_total (an_engine a1)) + (blame_total (an_engine a2') - blame_total (an_engine a2))"
proof -
  have m: "sent = message (an_node a1 e1) (an_node a1 l1) MPI_SEND" "reply = message (an_node a2 e2) (an_node a2 l2) MPI_RECV"
    using assms(1,3,5,6) by (auto simp: p2p_ready_def send_message_def recv_message_def)
  have f: "has_flag (pb_type sent) MPI_SEND" "has_flag (pb_type reply) MPI_RECV"
    by (simp_all add: m message_def has_flag_def node_bits)
  obtain a1' where a1: "SendRule (Suc fuel) reply l1 a1 = ret (True, a1')"
      "getWaitingTime (an_node a1' l1) = (if nd_time (an_node a1 e1) < pb_start reply \<and> pb_start reply < nd_time (an_node a1 l1)
         then pb_start reply - nd_time (an_node a1 e1) else 0)"
      "blame_total (an_engine a1') = blame_total (an_engine a1) + of_nat (unat
         (if pb_start reply < nd_time (an_node a1 e1) \<and> nd_time (an_node a1 e1) < pb_end reply
          then nd_time (an_node a1 e1) - pb_start reply else 0))"
    using send_cases [OF assms(1,2) f(2)] by blast
  obtain a2' where a2: "RecvRule (Suc fuel) sent l2 a2 = ret (True, a2')"
      "getWaitingTime (an_node a2' l2) = (if nd_time (an_node a2 e2) < pb_start sent then pb_start sent - nd_time (an_node a2 e2) else 0)"
      "blame_total (an_engine a2') = blame_total (an_engine a2) + of_nat (unat
         (if pb_start sent < nd_time (an_node a2 e2) \<and> nd_time (an_node a2 e2) < pb_end sent
          then nd_time (an_node a2 e2) - pb_start sent else 0))"
    using recv_cases [OF assms(3,4) f(1)] by blast
  have b: "pb_start reply = nd_time (an_node a2 e2)" "pb_end reply = nd_time (an_node a2 l2)"
    "pb_start sent = nd_time (an_node a1 e1)" "pb_end sent = nd_time (an_node a1 l1)"
    by (simp_all add: m message_def)
  show ?thesis
    using a1 a2 assms(7,8) by (intro exI [of _ a1'] exI [of _ a2']) (simp add: b less_not_sym)
qed

text \<open>A rank with the interval of three nodes and a leave of the given type, entered at one of them.\<close>

definition p2p_leave :: "u32 \<Rightarrow> node_ref \<Rightarrow> graph_node" where
  "p2p_leave t enter = (fst (GraphNode_new 4 4 60 2 ''call'' PARADIGM_MPI RECORD_LEAVE t))
     \<lparr>gn_first := Some enter, gn_data := Some (Array_Data [5, 0])\<rparr>"

definition p2p_rank :: "u32 \<Rightarrow> node_ref \<Rightarrow> analysis" where
  "p2p_rank t enter = (AnalysisEngine_new 0 2 0 False (chain_engine\<lparr>ge_heap := demo_heap(4 := p2p_leave t enter)\<rparr>))
     \<lparr>an_mpi := addMPICommGroup 0 [0, 1] (MPIAnalysis_new 0 2)\<rparr>"

lemma p2p_leave_simps [simp]:
  "nd_time (p2p_leave t e) = 60" "nd_recordType (p2p_leave t e) = RECORD_LEAVE" "nd_nodeType (p2p_leave t e) = t"
  "nd_paradigm (p2p_leave t e) = PARADIGM_MPI" "gn_first (p2p_leave t e) = Some e" "nd_referencedStream (p2p_leave t e) = 0"
  "gn_data (p2p_leave t e) = Some (Array_Data [5, 0])" "nd_counters (p2p_leave t e) = Map.empty"
  by (simp_all add: p2p_leave_def GraphNode_new_def Node_new_def node.defs graph_node.defs)

lemma p2p_rank_simps [simp]:
  "an_engine (p2p_rank t e) = chain_engine\<lparr>ge_heap := demo_heap(4 := p2p_leave t e)\<rparr>" "\<not> an_propagateBlame (p2p_rank t e)"
  by (simp_all add: p2p_rank_def AnalysisEngine_new_def)

lemma chain_blame_ready:
  assumes "e = 2 \<or> e = 3"
  shows "blame_ready (chain_engine\<lparr>ge_heap := demo_heap(4 := x)\<rparr>) e mpiStreamWalkCallback"
proof -
  let ?s = "chain_engine\<lparr>ge_heap := demo_heap(4 := x)\<rparr>"
  have ok: "engine_ok ?s"
    using chain_engine_ok by simp
  have timed: "edges_timed ?s"
  proof -
    have "x = 0 \<or> x = 1" if "x < 2" for x :: nat
      using that by linarith
    then show ?thesis
      unfolding edges_timed_def by fastforce
  qed
  have sorted: "stream_sorted (ge_heap ?s) [1, 2, 3]"
    by (simp add: stream_sorted_def compareLess_def)
  have stream: "stream_of ?s e [1, 2, 3]"
    using assms sorted by (auto simp: stream_of_def)
  have chained: "chained ?s (rev [1, 2, 3])"
    by (simp add: getEdge_def getOutEdges_def addEdge_def Let_def edges_at_def Graph_new_def word_le_nat_alt)
  have walk: "walk_interval e mpiStreamWalkCallback ?s = Inr (if e = 3 then [3, 2, 1] else [2, 1])"
    using assms walk_start_ok [of "ge_heap ?s" "base (ge_streams chain_engine 0)" 2]
      walk_start_ok [of "ge_heap ?s" "base (ge_streams chain_engine 0)" 1] sorted
    by (auto simp: walk_interval_def walkBackward_def mpiStreamWalkCallback_def
      isProcess_def isAtomic_def isMPIBlocking_def isLeave_def wi_push_def wi_wait_def Let_def take_Suc_Cons numeral_3_eq_3)
  show ?thesis
    unfolding blame_ready_def
    using ok timed recording_callbacks(1) stream chained walk assms
    by (intro conjI exI [of _ "[1, 2, 3]"] exI [of _ "e - 1"] exI [of _ "if e = 3 then [3, 2, 1] else [2, 1]"]) auto
qed

lemma p2p_rank_ready:
  assumes "e = 2 \<or> e = 3"
  shows "p2p_ready e 4 (p2p_rank t e)"
proof -
  have "comm_ready 4 (p2p_rank t e)"
    by (simp add: comm_ready_def p2p_rank_def AnalysisEngine_new_def addMPICommGroup_def MPIAnalysis_new_def comm_group_at_def
        getMPICommGroup_def getStreamId_def as_int_def)
  then show ?thesis
    using chain_blame_ready [OF assms]
    by (simp add: p2p_ready_def isLeave_def getWaitingTime_def getCounter_def getCounter_valid_def)
qed

theorem send_recv_balance_witness:
  "\<exists>a1' a2'. SendRule 1 (message (an_node (p2p_rank MPI_RECV 2) 2) (an_node (p2p_rank MPI_RECV 2) 4) MPI_RECV) 4 (p2p_rank MPI_SEND 3)
       = ret (True, a1') \<and>
     RecvRule 1 (message (an_node (p2p_rank MPI_SEND 3) 3) (an_node (p2p_rank MPI_SEND 3) 4) MPI_SEND) 4 (p2p_rank MPI_RECV 2)
       = ret (True, a2')"
proof -
  have "isMPISend (an_node (p2p_rank MPI_SEND 3) 4)" "isMPIRecv (an_node (p2p_rank MPI_RECV 2) 4)"
    by (simp_all add: isMPISend_def isMPIRecv_def isMPI_def has_flag_def node_bits)
  then show ?thesis
    using send_recv_balance [OF p2p_rank_ready [of 3] _ p2p_rank_ready [of 2], where fuel = 0]
    by (fastforce simp: send_message_def recv_message_def)
qed

end
