(* ===== verification/MpiWaitRules.thy ===== *)
theory MpiWaitRules
  imports MpiRuleLaws
begin

text \<open>The rules for \<^verbatim>\<open>MPI_Wait\<close> and \<^verbatim>\<open>MPI_Waitall\<close>, what the MPI paradigm does at a leave while the trace
  is read, and the order in which its rules are applied.\<close>

section \<open>Waiting for one request\<close>

text \<open>The message that the first request of a record receives is an argument. The time the partner is
  ready: the start of a blocking call, the end of a non-blocking one.\<close>

definition partner_time :: "p2p_buffer \<Rightarrow> u64" where
  "partner_time received = (if has_flag (pb_type received) (MPI_RECV OR MPI_SEND) then pb_start received else pb_end received)"

definition wait_stat :: "p2p_buffer \<Rightarrow> u64 \<Rightarrow> analysis \<Rightarrow> analysis step" where
  "wait_stat received t a =
    (if has_flag (pb_type received) (MPI_RECV OR MPI_IRECV) then add_stat MPI_STAT_LATE_RECEIVER t a
     else if has_flag (pb_type received) (MPI_SEND OR MPI_ISEND) then add_stat MPI_STAT_LATE_SENDER t a
     else ret a)"

definition block_wait :: "node_ref \<Rightarrow> node_ref \<Rightarrow> icomm_record \<Rightarrow> p2p_buffer \<Rightarrow> bool \<Rightarrow> analysis \<Rightarrow> analysis step" where
  "block_wait enter leave rec received mark a =
    (case getEdge enter leave (an_engine a) of
       None \<Rightarrow> ret a
     | Some e \<Rightarrow>
         deref (ic_msgNode rec) (\<lambda>m. initialised (ic_comRef rec) (\<lambda>c.
         bind_fuel (add_remote leave (pb_enter received) (as_int (nd_referencedStream (an_node a m))) c (block_edge e a)) (\<lambda>a.
         ret (if mark then update_node leave (addType MPI_BLOCKING) a else a)))))"

definition is_request_node :: "node_ref \<Rightarrow> analysis \<Rightarrow> bool" where
  "is_request_node m a \<longleftrightarrow> isMPI_Irecv (an_node a m) \<or> isMPI_Isend (an_node a m)"

definition wait_for_record ::
  "node_ref \<Rightarrow> icomm_record \<Rightarrow> p2p_buffer \<Rightarrow> analysis \<Rightarrow> (bool \<times> analysis) step" where
  "wait_for_record leave rec received a =
    (let n = an_node a leave in
     deref (gn_first n) (\<lambda>enter.
       let waitStartTime = nd_time (an_node a enter); t = partner_time received in
       bind_fuel (if waitStartTime < t then
                    bind_fuel (block_wait enter leave rec received True a) (\<lambda>a.
                    let wtime = min t (nd_time n) - waitStartTime in
                    bind_fuel (wait_stat received wtime a) (\<lambda>a.
                    ret (update_node leave (setCounter WAITING_TIME wtime) a)))
                  else ret a) (\<lambda>a.
       bind_fuel (with_mpi_stream (nd_streamId n) (removePendingMPIRequest (ic_requestId rec)) a) (\<lambda>a.
       ret (True, a)))))"

definition WaitRule :: "p2p_buffer \<Rightarrow> node_ref \<Rightarrow> analysis \<Rightarrow> (bool \<times> analysis) step" where
  "WaitRule received leave a =
    (let n = an_node a leave in
     if \<not> isMPIWait n \<or> isEnter n then ret (False, a)
     else (case gn_data n of
         None \<Rightarrow> ret (True, a)
       | Some (Icomm_Ref r) \<Rightarrow>
           (let a = count_activity STAT_MPI_WAIT a in
            with_record leave r (\<lambda>rec. case ic_msgNode rec of
                None \<Rightarrow> ret (False, a)
              | Some m \<Rightarrow> if is_request_node m a then wait_for_record leave rec received a else ret (False, a)) a)
       | Some _ \<Rightarrow> fail Out_Of_Bounds))"

section \<open>Waiting for a list of requests\<close>

text \<open>Both requests of a record have been waited for, and their handles are null.\<close>

definition close_requests :: "icomm_record \<Rightarrow> icomm_record" where
  "close_requests rec = rec\<lparr>ic_request0 := None, ic_request1 := None\<rparr>"

text \<open>The loop over the requests: the latest partner so far, with its request. The flag says whether the
  loop ran to its end.\<close>

fun waitall_loop ::
  "(u64 \<Rightarrow> p2p_buffer) \<Rightarrow> node_ref \<Rightarrow> u64 \<Rightarrow> u64 list \<Rightarrow> u64 \<Rightarrow> (u64 \<times> icomm_record) option \<Rightarrow> analysis \<Rightarrow>
   (bool \<times> u64 \<times> (u64 \<times> icomm_record) option \<times> analysis) step" where
  "waitall_loop received leave waitStartTime [] latest latestRecord a = ret (True, latest, latestRecord, a)"
| "waitall_loop received leave waitStartTime (r # rs) latest latestRecord a =
    with_record leave r (\<lambda>rec. deref (ic_msgNode rec) (\<lambda>m.
      if \<not> is_request_node m a then ret (False, latest, latestRecord, a)
      else
        (let rec = close_requests rec; stop = pb_end (received r) in
         bind_fuel (put_record leave r rec a) (\<lambda>a.
         if waitStartTime < stop \<and> latest < stop then
           waitall_loop received leave waitStartTime rs stop (Some (r, rec)) a
         else
           bind_fuel (with_mpi_stream (nd_streamId (an_node a leave)) (removePendingMPIRequest r) a) (\<lambda>a.
           waitall_loop received leave waitStartTime rs latest latestRecord a))))) a"

definition WaitAllRule :: "(u64 \<Rightarrow> p2p_buffer) \<Rightarrow> node_ref \<Rightarrow> analysis \<Rightarrow> (bool \<times> analysis) step" where
  "WaitAllRule received leave a =
    (let n = an_node a leave in
     if \<not> isMPIWaitall n \<or> isEnter n then ret (False, a)
     else (case gn_data n of
         None \<Rightarrow> ret (True, a)
       | Some (Request_List rs) \<Rightarrow>
           (let a = count_activity STAT_MPI_WAIT a in
            deref (gn_first n) (\<lambda>enter.
              let waitStartTime = nd_time (an_node a enter) in
              bind_fuel (waitall_loop received leave waitStartTime rs waitStartTime None a) (\<lambda>(done, latest, latestRecord, a).
              if \<not> done then ret (False, a)
              else case latestRecord of
                  None \<Rightarrow> ret (True, a)
                | Some (r, rec) \<Rightarrow>
                    bind_fuel (block_wait enter leave rec (received r) False a) (\<lambda>a.
                    let wtime = min latest (nd_time n) - waitStartTime in
                    bind_fuel (wait_state MPI_STAT_WAITALL_LATEPARTNER leave wtime a) (\<lambda>a. ret (True, a))))))
       | Some _ \<Rightarrow> fail Out_Of_Bounds))"

section \<open>Leaves while the trace is read\<close>

text \<open>The data of a blocking call is copied to its leave, and the communicator is invalidated.\<close>

definition copy_comm_data :: "blocking_comm \<Rightarrow> graph_node \<Rightarrow> graph_node" where
  "copy_comm_data c n =
    (if isMPISendRecv n then
       setData (Some (Array_Data [bc_sendPartnerId c, bc_sendTag c, bc_recvPartnerId c, bc_recvTag c]))
         (setReferencedStreamId (ucast (bc_comRef c)) n)
     else if isMPISend n then
       setData (Some (Array_Data [bc_sendTag c, bc_comRef c])) (setReferencedStreamId (ucast (bc_sendPartnerId c)) n)
     else if isMPIRecv n then
       setData (Some (Array_Data [bc_recvTag c, bc_comRef c])) (setReferencedStreamId (ucast (bc_recvPartnerId c)) n)
     else if isMPICollective n \<and> bc_comRef c \<noteq> UINT32_MAX then setReferencedStreamId (ucast (bc_comRef c)) n
     else n)"

definition mpi_handlePostLeave :: "node_ref \<Rightarrow> analysis \<Rightarrow> analysis step" where
  "mpi_handlePostLeave leave a =
    (let n = an_node a leave; stream = with_mpi_stream (nd_streamId n) in
     if isMPIBlocking n then
       stream (\<lambda>h m. Inr (node_update leave (copy_comm_data (ms_pendingMpiComm m)) h,
                         m\<lparr>ms_pendingMpiComm := (ms_pendingMpiComm m)\<lparr>bc_comRef := UINT32_MAX\<rparr>\<rparr>)) a
     else if isMPI_Isend n then stream (\<lambda>h m. Inr (handleMPIIsendLeave leave h m)) a
     else if isMPI_Irecv n then stream (\<lambda>h m. Inr (handleMPIIrecvLeave leave h m)) a
     else if isMPIWait n then stream (handleMPIWaitLeave leave) a
     else if isMPI_Test n then
       bind_fuel (stream (handleMPITest leave) a) (\<lambda>a. ret (count_activity STAT_MPI_TEST a))
     else if isMPIWaitall n then stream (setMPIWaitallNodeData leave) a
     else if isMPI_Testall n then
       bind_fuel (stream (handleMPITestall leave) a) (\<lambda>a. ret (count_activity STAT_MPI_TEST a))
     else ret a)"

section \<open>Applying the rules\<close>

text \<open>What the replay delivers to the rules at a node.\<close>

record mpi_replay =
  mr_mpi_test :: "nat \<Rightarrow> bool"
  mr_received :: p2p_buffer
  mr_reply :: p2p_buffer
  mr_gathered :: "coll_entry list"
  mr_requests :: "u64 \<Rightarrow> p2p_buffer"
  mr_handles :: "nat \<times> nat"

type_synonym rule = "node_ref \<Rightarrow> analysis \<Rightarrow> (bool \<times> analysis) step"

definition mpi_rules :: "bool \<Rightarrow> nat \<Rightarrow> mpi_replay \<Rightarrow> rule list" where
  "mpi_rules ignoreAsyncMpi fuel r =
    [RecvRule fuel (mr_received r), SendRule fuel (mr_reply r), SendRecvRule fuel (mr_received r) (mr_reply r),
     CollectiveRule fuel (mr_mpi_test r) (mr_gathered r)] @
    (if ignoreAsyncMpi then []
     else [IRecvRule (fst (mr_handles r)) (snd (mr_handles r)) (mr_mpi_test r),
           ISendRule (fst (mr_handles r)) (snd (mr_handles r)) (mr_mpi_test r),
           WaitAllRule (mr_requests r), WaitRule (mr_received r)])"

text \<open>Every rule of a paradigm is applied to the node, whether another one applied or not.\<close>

fun apply_all :: "(node_ref \<Rightarrow> 's \<Rightarrow> (bool \<times> 's) step) list \<Rightarrow> node_ref \<Rightarrow> 's \<Rightarrow> (bool \<times> 's) step" where
  "apply_all [] n a = ret (False, a)"
| "apply_all (r # rs) n a =
    bind_fuel (r n a) (\<lambda>(applied, a). bind_fuel (apply_all rs n a) (\<lambda>(more, a). ret (applied \<or> more, a)))"

end
