(* ===== verification/MpiWaitLaws.thy ===== *)
theory MpiWaitLaws
  imports MpiWaitRules
begin

text \<open>Laws of the waiting rules and of the collectives: which records a wait leaves behind, what the
  waiting time is bounded by, and that the ranks of a collective agree on the last one.\<close>

section \<open>The records of a stream\<close>

definition mpi_stream_of :: "analysis \<Rightarrow> u64 \<Rightarrow> stream_ref \<Rightarrow> mpi_stream \<Rightarrow> bool" where
  "mpi_stream_of a i p m \<longleftrightarrow> getStream i (ge_group (an_engine a)) = Some p \<and> ge_streams (an_engine a) p = Mpi_Obj m \<and>
     isMpiStream m"

lemma base_mpi [simp]: "isMpiStream (base (Mpi_Obj m)) = isMpiStream m"
  by (simp add: isMpiStream_def event_stream.defs)

lemma isMpiStream_icomm [simp]: "isMpiStream (m\<lparr>ms_icomm := x\<rparr>) = isMpiStream m"
  by (simp add: isMpiStream_def)

lemma mpi_stream_of_get:
  "mpi_stream_of a i p m \<Longrightarrow> getMpiStream (ge_streams (an_engine a)) i (ge_group (an_engine a)) = Inr (Some p)"
  unfolding mpi_stream_of_def getMpiStream_def by (auto simp del: base.simps)

lemma with_mpi_stream_eq:
  assumes "mpi_stream_of a i p m" "f (ge_heap (an_engine a)) m = Inr (h, m')"
  shows "with_mpi_stream i f a = ret (a\<lparr>an_engine := (an_engine a)\<lparr>ge_heap := h,
     ge_streams := (ge_streams (an_engine a))(p := Mpi_Obj m')\<rparr>\<rparr>)"
  using mpi_stream_of_get [OF assms(1)] assms by (simp add: with_mpi_stream_def mpi_stream_of_def Let_def)

lemma mpi_stream_of_put:
  "mpi_stream_of a i p m \<Longrightarrow> isMpiStream m' \<Longrightarrow>
   mpi_stream_of (a\<lparr>an_engine := (an_engine a)\<lparr>ge_heap := h, ge_streams := (ge_streams (an_engine a))(p := Mpi_Obj m')\<rparr>\<rparr>) i p m'"
  by (simp add: mpi_stream_of_def)

lemma with_record_eq:
  assumes "mpi_stream_of a (nd_streamId (an_node a n)) p m" "getPendingMPIIcommRecord r m = Some rec"
  shows "with_record n r f a = f rec"
  using mpi_stream_of_get [OF assms(1)] assms by (simp add: with_record_def mpi_stream_of_def)

text \<open>The steps of a rule that keep the streams.\<close>

definition keeps_streams :: "analysis \<Rightarrow> analysis \<Rightarrow> bool" where
  "keeps_streams a a' \<longleftrightarrow> ge_streams (an_engine a') = ge_streams (an_engine a) \<and> ge_group (an_engine a') = ge_group (an_engine a)"

lemma keeps_streams_of: "keeps_streams a a' \<Longrightarrow> mpi_stream_of a' i p m = mpi_stream_of a i p m"
  by (simp add: keeps_streams_def mpi_stream_of_def)

lemma wait_state_keeps: "wait_state k leave t a = ret a' \<Longrightarrow> keeps_streams a a'"
  by (auto simp: wait_state_def add_stat_def keeps_streams_def update_node_def ret_def bind_fuel_Inr bind_res_Inr)

lemma block_wait_keeps: "block_wait enter leave rec received mark a = ret a' \<Longrightarrow> keeps_streams a a'"
  by (auto simp: block_wait_def add_remote_def keeps_streams_def update_node_def block_edge_def ret_def fail_def deref_def
      initialised_def bind_fuel_Inr split: option.splits sum.splits if_splits)

section \<open>A late partner at MPI_Waitall\<close>

lemma getEdge_cong: "ge_edges s' = ge_edges s \<Longrightarrow> ge_graph s' = ge_graph s \<Longrightarrow> getEdge x y s' = getEdge x y s"
  by (simp add: getEdge_def split: option.split)

text \<open>When the partner of the only request of an \<^verbatim>\<open>MPI_Waitall\<close> is late, the rule returns and keeps
  the record of the request: its handles are null, it is not removed, and polling cannot remove it.\<close>
lemma waitall_keeps_late_record:
  assumes "isMPIWaitall (an_node a leave)" "\<not> isEnter (an_node a leave)" "gn_data (an_node a leave) = Some (Request_List [r])"
    and "gn_first (an_node a leave) = Some enter" "mpi_stream_of a (nd_streamId (an_node a leave)) p m" "smap_inv (ms_icomm m)"
    and "getPendingMPIIcommRecord r m = Some rec" "ic_msgNode rec = Some n" "is_request_node n a"
    and "nd_time (an_node a enter) < pb_end (received r)" "getEdge enter leave (an_engine a) = None"
  shows "\<exists>a' m'. WaitAllRule received leave a = ret (True, a') \<and>
     mpi_stream_of a' (nd_streamId (an_node a leave)) p m' \<and> getPendingMPIIcommRecord r m' = Some (close_requests rec)"
proof -
  let ?a = "count_activity STAT_MPI_WAIT a"
  let ?m = "m\<lparr>ms_icomm := smap_update r (close_requests rec) (ms_icomm m)\<rparr>"
  let ?b = "?a\<lparr>an_engine := (an_engine ?a)\<lparr>ge_heap := ge_heap (an_engine ?a),
     ge_streams := (ge_streams (an_engine ?a))(p := Mpi_Obj ?m)\<rparr>\<rparr>"
  have a: "an_engine ?a = an_engine a"
    by (simp add: count_activity_def)
  then have ms: "mpi_stream_of ?a (nd_streamId (an_node ?a leave)) p m"
    using assms(5) by (simp add: mpi_stream_of_def)
  have put: "put_record leave r (close_requests rec) ?a = ret ?b"
    unfolding put_record_def by (rule with_mpi_stream_eq [OF ms]) simp
  have req: "is_request_node n ?a"
    using assms(9) by (simp add: is_request_node_def a)
  have loop: "waitall_loop received leave (nd_time (an_node a enter)) [r] (nd_time (an_node a enter)) None ?a =
      ret (True, pb_end (received r), Some (r, close_requests rec), ?b)"
    using assms(8,10) put req by (simp add: with_record_eq [OF ms assms(7)] Let_def)
  have late: "\<exists>c. wait_state MPI_STAT_WAITALL_LATEPARTNER leave t ?b = ret c" for t
    using wait_state_ok [of MPI_STAT_WAITALL_LATEPARTNER leave t ?b] by (auto simp: stat_consts)
  have edge: "getEdge enter leave (an_engine ?b) = None"
    using assms(11) getEdge_cong [of "an_engine ?b" "an_engine a" enter leave] by (simp add: a)
  obtain c where c: "wait_state MPI_STAT_WAITALL_LATEPARTNER leave
      (min (pb_end (received r)) (nd_time (an_node a leave)) - nd_time (an_node a enter)) ?b = ret c"
    using late by blast
  have "WaitAllRule received leave a = ret (True, c)"
    using assms(1-4) loop edge c a by (simp add: WaitAllRule_def Let_def block_wait_def del: waitall_loop.simps)
  moreover have "mpi_stream_of c (nd_streamId (an_node a leave)) p ?m"
  proof -
    have "mpi_stream_of ?b (nd_streamId (an_node a leave)) p ?m"
      using assms(5) by (simp add: a mpi_stream_of_def)
    then show ?thesis
      using keeps_streams_of [OF wait_state_keeps [OF c]] by blast
  qed
  ultimately show ?thesis
    using assms(6) by (intro exI [of _ c] exI [of _ ?m]) (simp add: getPendingMPIIcommRecord_def smap_lookup_update)
qed

definition waitall_node :: "u32 \<Rightarrow> graph_node" where
  "waitall_node t = (fst (GraphNode_new 4 4 60 2 ''call'' PARADIGM_MPI RECORD_LEAVE t))
     \<lparr>gn_first := Some 3, gn_data := Some (Request_List [9])\<rparr>"

lemma waitall_node_simps [simp]:
  "nd_time (waitall_node t) = 60" "nd_recordType (waitall_node t) = RECORD_LEAVE" "nd_nodeType (waitall_node t) = t"
  "nd_paradigm (waitall_node t) = PARADIGM_MPI" "gn_first (waitall_node t) = Some 3" "nd_streamId (waitall_node t) = 2"
  "gn_data (waitall_node t) = Some (Request_List [9])"
  by (simp_all add: waitall_node_def GraphNode_new_def Node_new_def node.defs graph_node.defs)

definition waitall_record :: icomm_record where
  "waitall_record = \<lparr>ic_comRef = Some 0, ic_msgTag = Some 1, ic_requestId = 9, ic_request0 = Some 0, ic_request1 = Some 1,
     ic_msgNode = Some 5, ic_syncNode = None\<rparr>"

definition waitall_stream :: mpi_stream where
  "waitall_stream = (MpiStream_new 2 0 ''rank'' demo_comm)\<lparr>ms_icomm := [(9, waitall_record)]\<rparr>"

definition waitall_rank :: analysis where
  "waitall_rank = AnalysisEngine_new 0 2 0 False (chain_engine\<lparr>ge_streams := (\<lambda>_. Mpi_Obj waitall_stream),
     ge_heap := demo_heap(4 := waitall_node MPI_WAITALL, 5 := waitall_node MPI_IRECV)\<rparr>)"

section \<open>Collectives\<close>

text \<open>The entry of the last enter: the first one of the greatest time.\<close>

lemma last_enter_step:
  "foldl later_enter x es = y \<Longrightarrow>
   (y = x \<and> (\<forall>e\<in>set es. ce_enterTime e \<le> fst x)) \<or>
   (fst x < fst y \<and> (\<exists>e\<in>set es. y = (ce_enterTime e, ce_enterId e, ce_streamId e)) \<and> (\<forall>e\<in>set es. ce_enterTime e \<le> fst y))"
proof (induction es arbitrary: x)
  case (Cons e es)
  have IH: "(y = later_enter x e \<and> (\<forall>d\<in>set es. ce_enterTime d \<le> fst (later_enter x e))) \<or>
     (fst (later_enter x e) < fst y \<and> (\<exists>e\<in>set es. y = (ce_enterTime e, ce_enterId e, ce_streamId e)) \<and>
      (\<forall>e\<in>set es. ce_enterTime e \<le> fst y))"
    using Cons(1) [of "later_enter x e"] Cons(2) by simp
  show ?case
  proof (cases "ce_enterTime e > fst x")
    case True
    then have l: "later_enter x e = (ce_enterTime e, ce_enterId e, ce_streamId e)"
      by (simp add: later_enter_def)
    show ?thesis
      using IH True unfolding l by (elim disjE) (auto intro: less_trans less_imp_le)
  next
    case False
    then have l: "later_enter x e = x" and le: "ce_enterTime e \<le> fst x"
      by (auto simp: later_enter_def)
    show ?thesis
      using IH le unfolding l by (elim disjE) (auto intro: order.trans less_imp_le)
  qed
qed simp

lemma last_enter_spec:
  assumes "last_enter es = (t, n, p)" "\<exists>e\<in>set es. 0 < ce_enterTime e"
  shows "\<exists>e\<in>set es. t = ce_enterTime e \<and> n = ce_enterId e \<and> p = ce_streamId e \<and> (\<forall>e\<in>set es. ce_enterTime e \<le> t)"
proof -
  have "(t, n, p) \<noteq> (0, 0, 0) \<or> \<not> (\<exists>e\<in>set es. 0 < ce_enterTime e)"
    using last_enter_step [of "(0, 0, 0)" es "(t, n, p)"] assms(1) by (auto simp: last_enter_def)
  then show ?thesis
    using last_enter_step [of "(0, 0, 0)" es "(t, n, p)"] assms by (auto simp: last_enter_def)
qed

lemma total_blame_sum: "total_blame t es = (\<Sum>e\<leftarrow>es. t - ce_enterTime e)"
proof -
  have "foldl (\<lambda>b e. b + (t - ce_enterTime e)) b es = b + (\<Sum>e\<leftarrow>es. t - ce_enterTime e)" for b
    by (induction es arbitrary: b) (simp_all add: add.assoc)
  then show ?thesis
    by (simp add: total_blame_def)
qed

text \<open>A rank at the leave of a collective, ready for its rule: the call is \<^verbatim>\<open>MPI_Init\<close> or the stream has
  no open request, the communicator is known and larger than the process, and blame can be distributed.\<close>

definition coll_ready :: "analysis \<Rightarrow> node_ref \<Rightarrow> coll_entry \<Rightarrow> bool" where
  "coll_ready a leave e \<longleftrightarrow> isMPICollective (an_node a leave) \<and> isLeave (an_node a leave) \<and>
     collective_entry leave a = Some e \<and> getWaitingTime (an_node a leave) = 0 \<and> \<not> an_propagateBlame a \<and>
     (isMPIInit (an_node a leave) \<or> (\<exists>p m. mpi_stream_of a (nd_streamId (an_node a leave)) p m \<and> ms_icomm m = [])) \<and>
     (\<exists>g. getMPICommGroup (ucast (nd_referencedStream (an_node a leave))) (an_mpi a) = Inr g \<and> cg_comm g \<noteq> MPI_COMM_SELF) \<and>
     (\<exists>enter. gn_first (an_node a leave) = Some enter \<and> blame_ready (an_engine a) enter mpiStreamWalkCallback)"

lemma no_requests:
  assumes "mpi_stream_of a i p m" "ms_icomm m = []"
  shows "with_mpi_stream i (testAllPendingMPIRequests mpi_test) a = ret a"
proof -
  have "testAllPendingMPIRequests mpi_test (ge_heap (an_engine a)) m = Inr (ge_heap (an_engine a), m)"
    using assms(2) by (simp add: testAllPendingMPIRequests_def)
  then have "with_mpi_stream i (testAllPendingMPIRequests mpi_test) a = ret (a\<lparr>an_engine := (an_engine a)\<lparr>
      ge_heap := ge_heap (an_engine a), ge_streams := (ge_streams (an_engine a))(p := Mpi_Obj m)\<rparr>\<rparr>)"
    by (rule with_mpi_stream_eq [OF assms(1)])
  then show ?thesis
    using assms(1) by (simp add: mpi_stream_of_def fun_upd_idem)
qed

lemma collective_cases:
  assumes "coll_ready a leave e" "last_enter es = (t, n, q)"
  shows "\<exists>b. CollectiveRule (Suc fuel) mpi_test es leave a = ret (True, b) \<and>
     (if q \<noteq> ce_streamId e
      then getWaitingTime (an_node b leave) = t - ce_enterTime e \<and> blame_total (an_engine b) = blame_total (an_engine a)
      else getWaitingTime (an_node b leave) = 0 \<and>
           blame_total (an_engine b) = blame_total (an_engine a) + of_nat (unat (total_blame t es)))"
proof -
  let ?a = "count_activity STAT_MPI_COLLECTIVE a"
  obtain enter g where r: "isMPICollective (an_node a leave)" "isLeave (an_node a leave)" "gn_first (an_node a leave) = Some enter"
      "getMPICommGroup (ucast (nd_referencedStream (an_node a leave))) (an_mpi a) = Inr g" "cg_comm g \<noteq> MPI_COMM_SELF"
      "blame_ready (an_engine a) enter mpiStreamWalkCallback" "\<not> an_propagateBlame a" "getWaitingTime (an_node a leave) = 0"
    using assms(1) by (auto simp: coll_ready_def)
  have e: "ce_enterTime e = nd_time (an_node a enter)" "ce_streamId e = nd_streamId (an_node a leave)"
    using assms(1) r(3) by (auto simp: coll_ready_def collective_entry_def)
  have q: "an_node ?a = an_node a" "an_mpi ?a = an_mpi a" "an_engine ?a = an_engine a" "an_propagateBlame ?a = an_propagateBlame a"
    by (simp_all add: count_activity_def)
  have test: "(if \<not> isMPIInit (an_node a leave) then with_mpi_stream (nd_streamId (an_node a leave)) (testAllPendingMPIRequests mpi_test) ?a
      else ret ?a) = ret ?a"
    using assms(1) no_requests [of ?a] by (auto simp: coll_ready_def mpi_stream_of_def q)
  show ?thesis
  proof (cases "q = ce_streamId e")
    case True
    obtain s' where "distribute (Suc fuel) enter (total_blame t es) mpiStreamWalkCallback REASON_MPI_COLLECTIVE ?a
        = ret (?a\<lparr>an_engine := s'\<rparr>)" "same_but_blame (an_engine ?a) s'"
        "blame_total s' = blame_total (an_engine ?a) + of_nat (unat (total_blame t es))"
      using distribute_ready [of ?a enter mpiStreamWalkCallback] r(6,7) q by metis
    then show ?thesis
      using True r e q test assms(2) same_but_blame_edge(5) [of "an_engine a" s']
      by (simp add: CollectiveRule_def Let_def known_group_def)
  next
    case False
    define c where "c = (case getEdge enter leave (an_engine ?a) of
        Some e \<Rightarrow> (block_edge e ?a)\<lparr>an_mpi := addRemoteMPIEdge leave n q (an_mpi (block_edge e ?a))\<rparr> | None \<Rightarrow> ?a)"
    have c: "blame_total (an_engine c) = blame_total (an_engine a)"
      using q(3) by (auto simp: c_def split: option.split)
    obtain b where "wait_state MPI_STAT_COLLECTIVE leave (t - ce_enterTime e) c = ret b"
        "blame_total (an_engine b) = blame_total (an_engine c)" "getWaitingTime (an_node b leave) = t - ce_enterTime e"
      using wait_state_ok [of MPI_STAT_COLLECTIVE leave "t - ce_enterTime e" c] by (auto simp: stat_consts)
    moreover have "(case getEdge enter leave (an_engine ?a) of
        Some e \<Rightarrow> (let a = block_edge e ?a in ret (a\<lparr>an_mpi := addRemoteMPIEdge leave n q (an_mpi a)\<rparr>))
      | None \<Rightarrow> ret ?a) = ret c"
      by (simp add: c_def Let_def split: option.split)
    ultimately show ?thesis
      using False r e q test assms(2) c by (simp add: CollectiveRule_def Let_def known_group_def)
  qed
qed

text \<open>C2. The ranks of a collective balance. When every rank runs its rule on the gathered entries of all,
  all rules return; one rank is last, every other rank records the time from its own enter to the last
  one as waiting time, and the last rank distributes the sum of the waiting times as blame.\<close>
theorem collective_balance:
  assumes "\<And>i. i < n \<Longrightarrow> coll_ready (a i) (leave i) (e i)" "inj_on (\<lambda>i. ce_streamId (e i)) {..<n}"
    and "k < n" "0 < ce_enterTime (e k)"
  shows "\<exists>b j. j < n \<and>
     (\<forall>i<n. CollectiveRule (Suc fuel) mpi_test (map e [0..<n]) (leave i) (a i) = ret (True, b i) \<and>
        ce_enterTime (e i) \<le> ce_enterTime (e j) \<and>
        getWaitingTime (an_node (b i) (leave i)) = ce_enterTime (e j) - ce_enterTime (e i) \<and>
        (i \<noteq> j \<longrightarrow> blame_total (an_engine (b i)) = blame_total (an_engine (a i)))) \<and>
     blame_total (an_engine (b j)) = blame_total (an_engine (a j)) +
       of_nat (unat (\<Sum>i<n. getWaitingTime (an_node (b i) (leave i))))"
proof -
  obtain t m q where l: "last_enter (map e [0..<n]) = (t, m, q)"
    using prod_cases3 by blast
  have "\<exists>d\<in>set (map e [0..<n]). 0 < ce_enterTime d"
    using assms(3,4) by force
  then obtain j where j: "j < n" "t = ce_enterTime (e j)" "q = ce_streamId (e j)" "\<And>i. i < n \<Longrightarrow> ce_enterTime (e i) \<le> t"
    using last_enter_spec [OF l] by auto
  have q: "q = ce_streamId (e i) \<longleftrightarrow> i = j" if "i < n" for i
    using assms(2) that j(1,3) by (auto simp: inj_on_def)
  have "\<forall>i\<in>{..<n}. \<exists>b. CollectiveRule (Suc fuel) mpi_test (map e [0..<n]) (leave i) (a i) = ret (True, b) \<and>
     (if i \<noteq> j
      then getWaitingTime (an_node b (leave i)) = t - ce_enterTime (e i) \<and> blame_total (an_engine b) = blame_total (an_engine (a i))
      else getWaitingTime (an_node b (leave i)) = 0 \<and>
           blame_total (an_engine b) = blame_total (an_engine (a i)) + of_nat (unat (total_blame t (map e [0..<n]))))"
    using collective_cases [OF assms(1) l] q by auto
  then obtain b where b: "\<And>i. i < n \<Longrightarrow> CollectiveRule (Suc fuel) mpi_test (map e [0..<n]) (leave i) (a i) = ret (True, b i) \<and>
     (if i \<noteq> j
      then getWaitingTime (an_node (b i) (leave i)) = t - ce_enterTime (e i) \<and> blame_total (an_engine (b i)) = blame_total (an_engine (a i))
      else getWaitingTime (an_node (b i) (leave i)) = 0 \<and>
           blame_total (an_engine (b i)) = blame_total (an_engine (a i)) + of_nat (unat (total_blame t (map e [0..<n]))))"
    using bchoice [of "{..<n}"] by (metis (no_types, lifting) lessThan_iff)
  have w: "getWaitingTime (an_node (b i) (leave i)) = t - ce_enterTime (e i)" if "i < n" for i
    using b [OF that] j(2) by (auto split: if_splits)
  have "total_blame t (map e [0..<n]) = (\<Sum>i<n. t - ce_enterTime (e i))"
    by (induction n) (simp_all add: total_blame_sum)
  then have "total_blame t (map e [0..<n]) = (\<Sum>i<n. getWaitingTime (an_node (b i) (leave i)))"
    using w by simp
  then show ?thesis
    using b w j by (intro exI [of _ b] exI [of _ j]) auto
qed

text \<open>Two ranks at an \<^verbatim>\<open>MPI_Init\<close>, which they entered at the times 20 and 30.\<close>

definition coll_leave :: "u64 \<Rightarrow> node_ref \<Rightarrow> graph_node" where
  "coll_leave i enter = (fst (GraphNode_new 4 4 60 i ''init'' PARADIGM_MPI RECORD_LEAVE (MPI_COLLECTIVE OR MPI_INIT)))
     \<lparr>gn_first := Some enter\<rparr>"

lemma coll_leave_simps [simp]:
  "nd_recordType (coll_leave i e) = RECORD_LEAVE" "nd_nodeType (coll_leave i e) = MPI_COLLECTIVE OR MPI_INIT"
  "nd_paradigm (coll_leave i e) = PARADIGM_MPI" "gn_first (coll_leave i e) = Some e" "nd_referencedStream (coll_leave i e) = 0"
  "nd_streamId (coll_leave i e) = i" "nd_counters (coll_leave i e) = Map.empty" "nd_id (coll_leave i e) = 5"
  by (simp_all add: coll_leave_def GraphNode_new_def Node_new_def node.defs graph_node.defs)

definition coll_rank :: "nat \<Rightarrow> analysis" where
  "coll_rank i = (AnalysisEngine_new 0 2 0 False (chain_engine\<lparr>ge_heap := demo_heap(4 := coll_leave (of_nat i) (i + 2))\<rparr>))
     \<lparr>an_mpi := addMPICommGroup 0 [0, 1] (MPIAnalysis_new 0 2)\<rparr>"

definition coll_entry_of :: "nat \<Rightarrow> coll_entry" where
  "coll_entry_of i = the (collective_entry 4 (coll_rank i))"

lemma coll_rank_simps [simp]:
  "an_engine (coll_rank i) = chain_engine\<lparr>ge_heap := demo_heap(4 := coll_leave (of_nat i) (i + 2))\<rparr>"
  "\<not> an_propagateBlame (coll_rank i)"
  by (simp_all add: coll_rank_def AnalysisEngine_new_def)

lemma coll_rank_ready:
  assumes "i < 2"
  shows "coll_ready (coll_rank i) 4 (coll_entry_of i)" "ce_streamId (coll_entry_of i) = of_nat i"
    "ce_enterTime (coll_entry_of i) = 20 + 10 * of_nat i"
proof -
  have i: "i = 0 \<or> i = 1"
    using assms by linarith
  have "isMPICollective (an_node (coll_rank i) 4)" "isMPIInit (an_node (coll_rank i) 4)" "isLeave (an_node (coll_rank i) 4)"
    by (simp_all add: isMPICollective_def isMPIInit_def isMPI_def isLeave_def has_flag_def node_bits)
  moreover have "\<exists>g. getMPICommGroup 0 (an_mpi (coll_rank i)) = Inr g \<and> cg_comm g \<noteq> MPI_COMM_SELF"
    by (simp add: coll_rank_def AnalysisEngine_new_def addMPICommGroup_def MPIAnalysis_new_def comm_group_at_def getMPICommGroup_def)
  moreover have "blame_ready (an_engine (coll_rank i)) (i + 2) mpiStreamWalkCallback"
    using i chain_blame_ready [of "i + 2"] by auto
  moreover have "collective_entry 4 (coll_rank i) = Some (coll_entry_of i)"
    using i by (auto simp: coll_entry_of_def collective_entry_def)
  ultimately show "coll_ready (coll_rank i) 4 (coll_entry_of i)"
    using i by (simp add: coll_ready_def getWaitingTime_def getCounter_def getCounter_valid_def)
  show "ce_streamId (coll_entry_of i) = of_nat i" "ce_enterTime (coll_entry_of i) = 20 + 10 * of_nat i"
    using i by (auto simp: coll_entry_of_def collective_entry_def)
qed

theorem collective_balance_witness:
  "\<exists>b j. j < 2 \<and> (\<forall>i<2. CollectiveRule 1 (\<lambda>_. True) (map coll_entry_of [0..<2]) 4 (coll_rank i) = ret (True, b i)) \<and>
     blame_total (an_engine (b j)) = blame_total (an_engine (coll_rank j)) +
       of_nat (unat (\<Sum>i<2. getWaitingTime (an_node (b i) 4)))"
proof -
  have "inj_on (\<lambda>i. ce_streamId (coll_entry_of i)) {..<2}"
    by (auto simp: inj_on_def coll_rank_ready less_2_cases_iff)
  then show ?thesis
    using collective_balance [of 2 coll_rank "\<lambda>_. 4" coll_entry_of 1 0 "\<lambda>_. True"] coll_rank_ready
    by fastforce
qed

end
