(* ===== verification/OmpModel.thy ===== *)
theory OmpModel
  imports MpiWaitLaws
begin

text \<open>The state of the OpenMP analysis (\<^verbatim>\<open>AnalysisParadigmOMP\<close>): the open parallel regions, the active
  compute regions, the barriers that are being gathered and the target regions, with the operations
  the rules use. A map that the code reads with the subscript operator is a total function here when
  the default it inserts cannot be told from its absence.\<close>

section \<open>State\<close>

record omp_state =
  os_nestingLevel :: u64
  os_parallelId :: "u64 \<rightharpoonup> node_ref"
  os_parallelBarriers :: "u64 \<rightharpoonup> (node_ref \<times> u64) list"
  os_barrierNodes :: "node_ref \<rightharpoonup> node_ref list list"
  os_openWorkers :: "u64 \<rightharpoonup> node_ref list"
  os_deviceParallelId :: "u64 \<rightharpoonup> node_ref"
  os_forkJoinStack :: "node_ref list"
  os_computeTrack :: "u64 \<Rightarrow> node_ref option"
  os_barrierListHost :: "node_ref list"
  os_barrierListDevice :: "u64 \<times> u64 \<Rightarrow> node_ref list"
  os_targetBegin :: "(u64, node_ref) smap"
  os_deviceFirst :: "u64 \<rightharpoonup> node_ref"
  os_deviceLast :: "u64 \<rightharpoonup> node_ref"
  os_streamRegions :: "(u64, (u64 \<rightharpoonup> node_ref) \<times> u64 list) smap"

definition AnalysisParadigmOMP_new :: omp_state where
  "AnalysisParadigmOMP_new = \<lparr>os_nestingLevel = 0, os_parallelId = Map.empty, os_parallelBarriers = Map.empty,
     os_barrierNodes = Map.empty, os_openWorkers = Map.empty, os_deviceParallelId = Map.empty, os_forkJoinStack = [],
     os_computeTrack = (\<lambda>_. None), os_barrierListHost = [], os_barrierListDevice = (\<lambda>_. []), os_targetBegin = [],
     os_deviceFirst = Map.empty, os_deviceLast = Map.empty, os_streamRegions = []\<rparr>"

section \<open>Fork and join\<close>

definition getInnerMostFork :: "omp_state \<Rightarrow> node_ref option" where
  "getInnerMostFork o1 = (case os_forkJoinStack o1 of [] \<Rightarrow> None | n # _ \<Rightarrow> Some n)"

definition pushFork :: "node_ref \<Rightarrow> omp_state \<Rightarrow> omp_state" where
  "pushFork n o1 = o1\<lparr>os_forkJoinStack := n # os_forkJoinStack o1\<rparr>"

definition popFork :: "omp_state \<Rightarrow> node_ref option \<times> omp_state" where
  "popFork o1 = (case os_forkJoinStack o1 of [] \<Rightarrow> (None, o1) | n # ns \<Rightarrow> (Some n, o1\<lparr>os_forkJoinStack := ns\<rparr>))"

definition getOmpCompute :: "u64 \<Rightarrow> omp_state \<Rightarrow> node_ref option" where
  "getOmpCompute i o1 = os_computeTrack o1 i"

definition setOmpCompute :: "node_ref option \<Rightarrow> u64 \<Rightarrow> omp_state \<Rightarrow> omp_state" where
  "setOmpCompute n i o1 = o1\<lparr>os_computeTrack := (os_computeTrack o1)(i := n)\<rparr>"

section \<open>Barriers\<close>

definition getBarrierEventList :: "bool \<Rightarrow> u64 \<Rightarrow> omp_state \<Rightarrow> node_ref list" where
  "getBarrierEventList device matchingId o1 =
    (if device then os_barrierListDevice o1 (0, matchingId) else os_barrierListHost o1)"

definition addBarrierEventToList :: "heap \<Rightarrow> node_ref \<Rightarrow> bool \<Rightarrow> u64 \<Rightarrow> omp_state \<Rightarrow> omp_state result" where
  "addBarrierEventToList h n device matchingId o1 =
    (case (if isEnter (h n) then getPartner (h n) else Some n) of
       None \<Rightarrow> Inl Null_Dereference
     | Some leave \<Rightarrow>
         if getCounter OMP_IGNORE_BARRIER (h leave) \<noteq> 0 then Inr o1
         else if device then
           Inr (o1\<lparr>os_barrierListDevice := (os_barrierListDevice o1)((0, matchingId) := os_barrierListDevice o1 (0, matchingId) @ [n])\<rparr>)
         else Inr (o1\<lparr>os_barrierListHost := os_barrierListHost o1 @ [n]\<rparr>))"

definition clearBarrierEventList :: "bool \<Rightarrow> u64 \<Rightarrow> omp_state \<Rightarrow> omp_state" where
  "clearBarrierEventList device matchingId o1 =
    (if device then o1\<lparr>os_barrierListDevice := (os_barrierListDevice o1)((0, matchingId) := [])\<rparr>
     else o1\<lparr>os_barrierListHost := []\<rparr>)"

section \<open>Target regions\<close>

definition setTargetEnter :: "heap \<Rightarrow> node_ref \<Rightarrow> omp_state \<Rightarrow> omp_state" where
  "setTargetEnter h n o1 = o1\<lparr>os_targetBegin := smap_update (nd_streamId (h n)) n (os_targetBegin o1)\<rparr>"

text \<open>The earliest open target region of a device; the regions are visited by stream identifier.\<close>

definition earlier_enter :: "heap \<Rightarrow> u64 \<Rightarrow> node_ref option \<Rightarrow> node_ref \<Rightarrow> node_ref option" where
  "earlier_enter h device best n =
    (if gn_data (h n) \<noteq> None \<and> nd_referencedStream (h n) = device then
       (case best of None \<Rightarrow> Some n | Some b \<Rightarrow> if compareLess (h n) (h b) then Some n else Some b)
     else best)"

definition getTargetEnter :: "heap \<Rightarrow> int \<Rightarrow> omp_state \<Rightarrow> node_ref option" where
  "getTargetEnter h targetDeviceId o1 =
    (if targetDeviceId = - 1 then None
     else foldl (earlier_enter h (word_of_int targetDeviceId)) None (map snd (os_targetBegin o1)))"

definition consumeOmpTargetBegin :: "u64 \<Rightarrow> omp_state \<Rightarrow> node_ref option \<times> omp_state" where
  "consumeOmpTargetBegin i o1 = (case map_of (os_targetBegin o1) i of
      None \<Rightarrow> (None, o1) | Some n \<Rightarrow> (Some n, o1\<lparr>os_targetBegin := smap_erase i (os_targetBegin o1)\<rparr>))"

definition isFirstTargetOffloadEvent :: "u64 \<Rightarrow> omp_state \<Rightarrow> bool" where
  "isFirstTargetOffloadEvent i o1 \<longleftrightarrow> os_deviceFirst o1 i = None"

definition setTargetOffloadFirstEvent :: "heap \<Rightarrow> node_ref \<Rightarrow> omp_state \<Rightarrow> omp_state result" where
  "setTargetOffloadFirstEvent h n o1 =
    (case (if isLeave (h n) then gn_first (h n) else Some n) of
       None \<Rightarrow> Inl Null_Dereference
     | Some n \<Rightarrow>
         if os_deviceFirst o1 (nd_streamId (h n)) = None
         then Inr (o1\<lparr>os_deviceFirst := (os_deviceFirst o1)(nd_streamId (h n) \<mapsto> n)\<rparr>)
         else Inr o1)"

definition consumTargetOffloadFirstEvent :: "u64 \<Rightarrow> omp_state \<Rightarrow> node_ref option \<times> omp_state" where
  "consumTargetOffloadFirstEvent i o1 = (case os_deviceFirst o1 i of
      None \<Rightarrow> (None, o1) | Some n \<Rightarrow> (Some n, o1\<lparr>os_deviceFirst := (os_deviceFirst o1)(i := None)\<rparr>))"

definition setOmpTargetLastEvent :: "heap \<Rightarrow> node_ref \<Rightarrow> omp_state \<Rightarrow> omp_state" where
  "setOmpTargetLastEvent h n o1 =
    (if os_deviceFirst o1 (nd_streamId (h n)) \<noteq> None
     then o1\<lparr>os_deviceLast := (os_deviceLast o1)(nd_streamId (h n) \<mapsto> n)\<rparr> else o1)"

definition consumeOmpTargetLastEvent :: "u64 \<Rightarrow> omp_state \<Rightarrow> node_ref option \<times> omp_state" where
  "consumeOmpTargetLastEvent i o1 = (case os_deviceLast o1 i of
      None \<Rightarrow> (None, o1) | Some n \<Rightarrow> (Some n, o1\<lparr>os_deviceLast := (os_deviceLast o1)(i := None)\<rparr>))"

text \<open>The stack of target regions of a stream, with the node of every region. The newest region is the
  last of the list. The list of an entry is never empty; taking from an empty one is undefined.\<close>

definition regions_of :: "u64 \<Rightarrow> omp_state \<Rightarrow> (u64 \<rightharpoonup> node_ref) \<times> u64 list" where
  "regions_of i o1 = (case map_of (os_streamRegions o1) i of None \<Rightarrow> (Map.empty, []) | Some r \<Rightarrow> r)"

definition pushOmpTargetRegion :: "heap \<Rightarrow> node_ref \<Rightarrow> u64 \<Rightarrow> omp_state \<Rightarrow> omp_state" where
  "pushOmpTargetRegion h n regionId o1 =
    (let i = nd_streamId (h n); r = regions_of i o1 in
     o1\<lparr>os_streamRegions := smap_update i ((fst r)(regionId \<mapsto> n), snd r @ [regionId]) (os_streamRegions o1)\<rparr>)"

definition popOmpTargetRegion :: "heap \<Rightarrow> node_ref \<Rightarrow> omp_state \<Rightarrow> omp_state result" where
  "popOmpTargetRegion h n o1 =
    (let i = nd_streamId (h n) in
     case map_of (os_streamRegions o1) i of
       None \<Rightarrow> Inr o1
     | Some (m, ids) \<Rightarrow>
         if ids = [] then Inl Out_Of_Bounds
         else
           (let ids' = butlast ids; m' = m(last ids := None) in
            Inr (o1\<lparr>os_streamRegions := (if ids' = [] then smap_erase i (os_streamRegions o1)
                                          else smap_update i (m', ids') (os_streamRegions o1))\<rparr>)))"

fun find_region :: "u64 \<Rightarrow> u64 \<Rightarrow> (u64, (u64 \<rightharpoonup> node_ref) \<times> u64 list) smap \<Rightarrow> node_ref option" where
  "find_region own regionId [] = None"
| "find_region own regionId ((i, m, ids) # rs) =
    (if i \<noteq> own \<and> m regionId \<noteq> None then m regionId else find_region own regionId rs)"

definition findOmpTargetParentRegion :: "heap \<Rightarrow> node_ref \<Rightarrow> u64 \<Rightarrow> omp_state \<Rightarrow> node_ref option" where
  "findOmpTargetParentRegion h n parentRegionId o1 =
    find_region (nd_streamId (h n)) parentRegionId (os_streamRegions o1)"

section \<open>Steps with the streams\<close>

definition with_stream :: "u64 \<Rightarrow> analysis \<Rightarrow> (event_stream \<Rightarrow> 'b step) \<Rightarrow> 'b step" where
  "with_stream i a f = deref (getStream i (ge_group (an_engine a))) (\<lambda>p. f (base (ge_streams (an_engine a) p)))"

text \<open>A new edge that is released at once, in case it leads back in time.\<close>

definition unblock_edge :: "edge_ref \<Rightarrow> analysis \<Rightarrow> analysis" where
  "unblock_edge e a = a\<lparr>an_engine := (an_engine a)\<lparr>
     ge_edges := (ge_edges (an_engine a))(e := unblock (ge_heap (an_engine a)) (ge_edges (an_engine a) e))\<rparr>\<rparr>"

definition dependency_edge :: "node_ref \<Rightarrow> node_ref \<Rightarrow> analysis \<Rightarrow> analysis" where
  "dependency_edge source target a = (case an_newEdge source target False a of (e, a) \<Rightarrow> unblock_edge e a)"

definition link_node :: "node_ref \<Rightarrow> node_ref \<Rightarrow> analysis \<Rightarrow> analysis step" where
  "link_node n target a = (case setLink (Some target) (an_node a n) of
      Inl e \<Rightarrow> fail e | Inr x \<Rightarrow> ret (update_node n (\<lambda>_. x) a))"

end
