(* ===== verification/OmpRules.thy ===== *)
theory OmpRules
  imports OmpModel
begin

text \<open>The rules the OpenMP analysis registers (\<^verbatim>\<open>OMPForkJoinRule\<close>, \<^verbatim>\<open>OMPComputeRule\<close>,
  \<^verbatim>\<open>OMPBarrierRule\<close>, \<^verbatim>\<open>OMPTTargetRule\<close>).\<close>

type_synonym omp_rule = "node_ref \<Rightarrow> omp_state \<times> analysis \<Rightarrow> (bool \<times> omp_state \<times> analysis) step"

section \<open>Fork and join\<close>

definition join_stream :: "node_ref \<Rightarrow> stream_ref \<Rightarrow> omp_state \<times> analysis \<Rightarrow> omp_state \<times> analysis" where
  "join_stream join p s = (case s of (o1, a) \<Rightarrow>
    (let i = es_id (base (ge_streams (an_engine a) p)) in
     (setOmpCompute None i o1,
      case getOmpCompute i o1 of
        None \<Rightarrow> a
      | Some k \<Rightarrow>
          if nd_streamId (an_node a k) \<noteq> nd_streamId (an_node a join) then snd (an_newEdge k join False a) else a)))"

definition OMPForkJoinRule :: omp_rule where
  "OMPForkJoinRule n s = (case s of (o1, a) \<Rightarrow>
    (if \<not> isOMPForkJoin (an_node a n) then ret (False, s)
     else if isEnter (an_node a n) then ret (True, pushFork n o1, a)
     else
       (let a = count_activity STAT_OMP_JOIN a in
        deref (getInnerMostFork o1) (\<lambda>fork.
          if nd_functionId (an_node a fork) \<noteq> nd_functionId (an_node a n)
          then fail (Assertion_Failed ''OpenMP join does not match the open fork'')
          else
            (case fold (join_stream n) (sg_hostStreams (ge_group (an_engine a))) (o1, a) of (o1, a) \<Rightarrow>
             ret (True, snd (popFork o1), a))))))"

definition OMPComputeRule :: omp_rule where
  "OMPComputeRule n s = (case s of (o1, a) \<Rightarrow>
    (if \<not> (isOMPParallel (an_node a n) \<or> isOMPImplicitTask (an_node a n)) then ret (False, s)
     else
       (let i = nd_streamId (an_node a n); done = setOmpCompute (Some n) i o1 in
        case (getOmpCompute i o1, getInnerMostFork o1) of
          (None, Some fork) \<Rightarrow>
            if nd_streamId (an_node a fork) \<noteq> i
            then deref (gn_first (an_node a n)) (\<lambda>enter. ret (True, done, snd (an_newEdge fork enter False a)))
            else ret (True, done, a)
        | _ \<Rightarrow> ret (True, done, a))))"

section \<open>Barriers\<close>

text \<open>The latest of the gathered enters: the first one of the greatest time.\<close>

definition latest_enter :: "heap \<Rightarrow> node_ref list \<Rightarrow> node_ref" where
  "latest_enter h ns = foldl (\<lambda>m n. if nd_time (h n) > nd_time (h m) then n else m) (hd ns) ns"

text \<open>Every barrier but the latest is a wait state, with its edge blocked and an edge from the latest
  enter to its leave.\<close>

definition barrier_wait :: "node_ref \<Rightarrow> node_ref \<Rightarrow> node_ref \<Rightarrow> analysis \<Rightarrow> analysis step" where
  "barrier_wait latest enter leave a =
    (let a = (case getEdge enter leave (an_engine a) of
               Some e \<Rightarrow> block_edge e a | None \<Rightarrow> snd (an_newEdge enter leave True a));
         wtime = nd_time (an_node a latest) - nd_time (an_node a enter) in
     bind_fuel (wait_state OMP_STAT_BARRIER leave wtime a) (\<lambda>a. ret (snd (an_newEdge latest leave False a))))"

fun barrier_loop :: "node_ref \<Rightarrow> node_ref list \<Rightarrow> u64 \<Rightarrow> analysis \<Rightarrow> (u64 \<times> analysis) step" where
  "barrier_loop latest [] blame a = ret (blame, a)"
| "barrier_loop latest (n # ns) blame a =
    deref (gn_first (an_node a n)) (\<lambda>enter.
      if enter = latest then barrier_loop latest ns blame a
      else deref (gn_second (an_node a n)) (\<lambda>leave.
        bind_fuel (barrier_wait latest enter leave a) (\<lambda>a.
        barrier_loop latest ns (blame + (nd_time (an_node a latest) - nd_time (an_node a enter))) a)))"

definition OMPBarrierRule :: "nat \<Rightarrow> omp_rule" where
  "OMPBarrierRule fuel leave s = (case s of (o1, a) \<Rightarrow>
    (if \<not> isOMPSync (an_node a leave) \<or> \<not> isLeave (an_node a leave) then ret (False, s)
     else
       (let a = count_activity STAT_OMP_BARRIER a in
        with_stream (nd_streamId (an_node a leave)) a (\<lambda>stream.
          if isDeviceStream stream then ret (False, o1, a)
          else deref (gn_first (an_node a leave)) (\<lambda>enter.
            bind_fuel (Some (addBarrierEventToList (ge_heap (an_engine a)) enter False 0 o1)) (\<lambda>o1.
            let barrierList = getBarrierEventList False 0 o1 in
            case getInnerMostFork o1 of
              None \<Rightarrow> ret (False, o1, a)
            | Some fork \<Rightarrow>
                if of_nat (length barrierList) \<noteq> nd_referencedStream (an_node a fork) then ret (False, o1, a)
                else if barrierList = [] then fail Out_Of_Bounds
                else
                  (let latest = latest_enter (ge_heap (an_engine a)) barrierList in
                   bind_fuel (barrier_loop latest barrierList 0 a) (\<lambda>(blame, a).
                   bind_fuel (distribute fuel latest blame ompHostStreamWalkCallback REASON_OMP_BARRIER a) (\<lambda>a.
                   ret (True, clearBarrierEventList False 0 o1, a))))))))))"

section \<open>Target regions\<close>

text \<open>The enter of a target region is remembered for its stream; the first event of a region on a device
  stream depends on the earliest open target region of the device.\<close>

definition target_enter_step :: "node_ref \<Rightarrow> omp_state \<times> analysis \<Rightarrow> (bool \<times> omp_state \<times> analysis) step" where
  "target_enter_step n s = (case s of (o1, a) \<Rightarrow>
    (let node = an_node a n; h = ge_heap (an_engine a) in
     if isOMPTarget node then ret (True, setTargetEnter h n o1, a)
     else deref (getStream (nd_streamId node) (ge_group (an_engine a))) (\<lambda>p.
       let stream = ge_streams (an_engine a) p in
       if es_streamType (base stream) = ES_DEVICE \<and> isFirstTargetOffloadEvent (nd_streamId node) o1 \<and> gn_caller node = None then
         bind_fuel (Some (setTargetOffloadFirstEvent h n o1)) (\<lambda>o1.
         case getTargetEnter h (obj_deviceId stream) o1 of
           Some enter \<Rightarrow> ret (True, o1, snd (an_newEdge enter n False a))
         | None \<Rightarrow> ret (False, o1, a))
       else ret (True, o1, a))))"

text \<open>The streams of the device at the leave of a target region: the last node before the leave, and the
  first of the region, over all streams.\<close>

fun target_streams ::
  "node_ref \<Rightarrow> stream_ref list \<Rightarrow> node_ref option \<Rightarrow> node_ref option \<Rightarrow> omp_state \<times> analysis \<Rightarrow>
   (node_ref option \<times> node_ref option \<times> omp_state \<times> analysis) step" where
  "target_streams n [] firstNode lastNode s = ret (firstNode, lastNode, s)"
| "target_streams n (p # ps) firstNode lastNode (o1, a) =
    (let stream = base (ge_streams (an_engine a) p); h = ge_heap (an_engine a) in
     deref (findLastNodeBefore h (nd_time (h n)) (es_nodes stream)) (\<lambda>lastOffload.
     deref (gn_second (h lastOffload)) (\<lambda>leave.
       let a = snd (an_newEdge leave n False a);
           lastNode = (case lastNode of None \<Rightarrow> Some leave
                       | Some l \<Rightarrow> if compareLess (h l) (h leave) then Some leave else Some l) in
       case consumTargetOffloadFirstEvent (es_id stream) o1 of (firstOffload, o1) \<Rightarrow>
         deref firstOffload (\<lambda>f.
           let a = update_node f (setCounter OMP_FIRST_OFFLOAD_EVT 1) a;
               firstNode = (case firstNode of None \<Rightarrow> Some f
                            | Some g \<Rightarrow> if compareLess (h f) (h g) then Some f else Some g) in
           target_streams n ps firstNode lastNode (o1, a)))))"

definition target_wait :: "heap \<Rightarrow> node_ref \<Rightarrow> node_ref \<Rightarrow> node_ref \<Rightarrow> node_ref \<Rightarrow> u64" where
  "target_wait h leave enter firstNode lastNode =
    (if nd_time (h lastNode) < nd_time (h leave) then nd_time (h lastNode) else nd_time (h leave)) -
    (if nd_time (h enter) < nd_time (h firstNode) then nd_time (h firstNode) else nd_time (h enter))"

definition target_leave_step :: "nat \<Rightarrow> node_ref \<Rightarrow> omp_state \<times> analysis \<Rightarrow> (bool \<times> omp_state \<times> analysis) step" where
  "target_leave_step fuel n s = (case s of (o1, a) \<Rightarrow>
    deref (gn_first (an_node a n)) (\<lambda>enter.
      let deviceId = (if gn_data (an_node a enter) \<noteq> None then as_int (nd_referencedStream (an_node a enter)) else - 1) in
      case getDeviceStreams deviceId (ge_group (an_engine a)) of (ps, g) \<Rightarrow>
        bind_fuel (target_streams n ps None None (o1, a\<lparr>an_engine := (an_engine a)\<lparr>ge_group := g\<rparr>\<rparr>)) (\<lambda>(firstNode, lastNode, o1, a).
          let o1 = snd (consumeOmpTargetBegin (nd_streamId (an_node a n)) o1) in
          case (lastNode, firstNode) of
            (Some l, Some f) \<Rightarrow>
              (let t = target_wait (ge_heap (an_engine a)) n enter f l in
               bind_fuel (wait_state OFLD_STAT_EARLY_BLOCKING_WAIT n t a) (\<lambda>a.
               bind_fuel (distribute fuel l t ompDeviceStreamWalkCallback REASON_OFLD_WAIT4DEVICE a) (\<lambda>a.
               ret (True, o1, a))))
          | _ \<Rightarrow> ret (True, o1, a))))"

definition OMPTTargetRule :: "nat \<Rightarrow> omp_rule" where
  "OMPTTargetRule fuel n s = (case s of (o1, a) \<Rightarrow>
    (if isEnter (an_node a n) then target_enter_step n s
     else if isLeave (an_node a n) \<and> isOMPTarget (an_node a n) then target_leave_step fuel n s
     else ret (True, s)))"

end
