(* ===== verification/OmptModel.thy ===== *)
theory OmptModel
  imports OmpRules
begin

text \<open>What the OpenMP analysis does while the trace is read (\<^verbatim>\<open>AnalysisParadigmOMP.cpp\<close>): the nesting of
  the parallel regions, the marks of barriers with events inside, and, for traces recorded with OMPT,
  the barriers of a parallel region and the edges from a parallel region to its worker threads.\<close>

section \<open>Barriers of a parallel region\<close>

text \<open>From a node along its callers to the first parallel region, or to the outermost caller. The code
  does not return when the callers form a cycle.\<close>

partial_function (option) outer_region :: "heap \<Rightarrow> node_ref \<Rightarrow> node_ref option" where
  "outer_region h n = (case gn_caller (h n) of
      None \<Rightarrow> Some n
    | Some c \<Rightarrow> if isOMPParallel (h c) then Some c else outer_region h c)"

definition block_in_edges :: "node_ref \<Rightarrow> analysis \<Rightarrow> analysis step" where
  "block_in_edges n a = (case getInEdges n (ge_graph (an_engine a)) of Inl e \<Rightarrow> fail e | Inr es \<Rightarrow> ret (fold block_edge es a))"

text \<open>The number of a barrier in its region is kept on a stack for every stream, whose top is the head of
  the list. The barriers of a region are listed by number, each with the leaves of its threads; a
  number past the end is put at the end.\<close>

definition count_barrier :: "u64 \<Rightarrow> node_ref \<Rightarrow> omp_state \<Rightarrow> u64 \<times> omp_state" where
  "count_barrier i region o1 =
    (let stack = (case os_parallelBarriers o1 i of None \<Rightarrow> [] | Some st \<Rightarrow> st);
         stack' = (case stack of
             (r, k) # rest \<Rightarrow> if r = region then (r, k + 1) # rest else (region, 0) # stack
           | [] \<Rightarrow> [(region, 0)])
     in (snd (hd stack'), o1\<lparr>os_parallelBarriers := (os_parallelBarriers o1)(i \<mapsto> stack')\<rparr>))"

definition add_barrier :: "node_ref \<Rightarrow> u64 \<Rightarrow> node_ref \<Rightarrow> omp_state \<Rightarrow> omp_state" where
  "add_barrier region k leave o1 =
    (let bs = (case os_barrierNodes o1 region of None \<Rightarrow> [] | Some bs \<Rightarrow> bs);
         bs' = (if unat k < length bs then bs[unat k := bs ! unat k @ [leave]] else bs @ [[leave]])
     in o1\<lparr>os_barrierNodes := (os_barrierNodes o1)(region \<mapsto> bs')\<rparr>)"

text \<open>The region of a barrier: the enter of the parallel region for the master thread, which is told its
  last barrier; the region that the first node of a worker thread is linked to.\<close>

definition barrier_region :: "node_ref \<Rightarrow> node_ref \<Rightarrow> analysis \<Rightarrow> node_ref \<times> analysis" where
  "barrier_region leave r a =
    (if isOMPParallel (an_node a r) then (r, update_node r (setData (Some (Node_Data leave))) a)
     else (case nd_link (an_node a r) of None \<Rightarrow> (r, a) | Some l \<Rightarrow> (l, a)))"

definition omptBarrierRule :: "node_ref \<Rightarrow> omp_state \<times> analysis \<Rightarrow> (omp_state \<times> analysis) step" where
  "omptBarrierRule leave s = (case s of (o1, a) \<Rightarrow>
    (if (case gn_caller (an_node a leave) of None \<Rightarrow> False | Some c \<Rightarrow> isOMPSync (an_node a c))
     then ret (o1, update_node leave (setCounter OMP_IGNORE_BARRIER 1) a)
     else
       bind_fuel (block_in_edges leave a) (\<lambda>a.
       case outer_region (ge_heap (an_engine a)) leave of
         None \<Rightarrow> None
       | Some r \<Rightarrow>
           (case barrier_region leave r a of (region, a) \<Rightarrow>
              case count_barrier (nd_streamId (an_node a leave)) region o1 of (k, o1) \<Rightarrow>
                ret (add_barrier region k leave o1, a)))))"

section \<open>The end of a parallel region\<close>

fun latest_region_enter :: "heap \<Rightarrow> node_ref option \<Rightarrow> node_ref list \<Rightarrow> node_ref option step" where
  "latest_region_enter h latest [] = ret latest"
| "latest_region_enter h latest (b # bs) = (case latest of
      None \<Rightarrow> latest_region_enter h (gn_first (h b)) bs
    | Some l \<Rightarrow> deref (gn_first (h b)) (\<lambda>f. latest_region_enter h (if compareLess (h l) (h f) then Some f else latest) bs))"

definition last_master_barrier :: "node_ref \<Rightarrow> analysis \<Rightarrow> (node_ref \<Rightarrow> 'b step) \<Rightarrow> 'b step" where
  "last_master_barrier region a f = (case gn_data (an_node a region) of
      None \<Rightarrow> fail Null_Dereference | Some (Node_Data m) \<Rightarrow> f m | Some _ \<Rightarrow> fail Out_Of_Bounds)"

fun region_waits :: "node_ref \<Rightarrow> bool \<Rightarrow> node_ref option \<Rightarrow> node_ref list \<Rightarrow> u64 \<Rightarrow> analysis \<Rightarrow> (u64 \<times> analysis) step" where
  "region_waits region lastBarrier latest [] blame a = ret (blame, a)"
| "region_waits region lastBarrier latest (b # bs) blame a =
    (if gn_first (an_node a b) = latest then region_waits region lastBarrier latest bs blame a
     else deref latest (\<lambda>l. deref (gn_first (an_node a b)) (\<lambda>enter.
       bind_fuel (if lastBarrier then ret a
                  else last_master_barrier region a (\<lambda>m. ret (dependency_edge l m a))) (\<lambda>a.
       let t = nd_time (an_node a l) - nd_time (an_node a enter) in
       region_waits region lastBarrier latest bs (blame + t) (update_node b (setCounter WAITING_TIME t) a)))))"

definition region_barrier :: "nat \<Rightarrow> node_ref \<Rightarrow> bool \<Rightarrow> node_ref list \<Rightarrow> analysis \<Rightarrow> analysis step" where
  "region_barrier fuel region lastBarrier bs a =
    bind_fuel (latest_region_enter (ge_heap (an_engine a)) None bs) (\<lambda>latest.
    bind_fuel (if lastBarrier then deref latest (\<lambda>l. last_master_barrier region a (\<lambda>m. ret (dependency_edge l m a)))
               else ret a) (\<lambda>a.
    bind_fuel (region_waits region lastBarrier latest bs 0 a) (\<lambda>(blame, a).
    if blame = 0 then ret a
    else deref latest (\<lambda>l. distribute fuel l blame ompHostStreamWalkCallback REASON_OMP_BARRIER a))))"

text \<open>The code tells the last barrier of a region by comparing the lists of nodes.\<close>

fun region_barriers :: "nat \<Rightarrow> node_ref \<Rightarrow> node_ref list list \<Rightarrow> analysis \<Rightarrow> analysis step" where
  "region_barriers fuel region [] a = ret a"
| "region_barriers fuel region (bs # rest) a =
    bind_fuel (region_barrier fuel region (last (bs # rest) = bs) bs a) (region_barriers fuel region rest)"

definition close_region :: "node_ref \<Rightarrow> omp_state \<Rightarrow> omp_state" where
  "close_region region o1 = o1\<lparr>os_barrierNodes := (os_barrierNodes o1)(region := None),
     os_parallelBarriers := (\<lambda>i. map_option (\<lambda>st. case st of
         (r, k) # rest \<Rightarrow> if r = region then rest else st | [] \<Rightarrow> []) (os_parallelBarriers o1 i))\<rparr>"

text \<open>The reference \<^verbatim>\<open>parallelMap\<close> is bound to the map of the host, so the assignment meant to choose
  the map of the device overwrites the map of the host.\<close>

definition choose_map :: "bool \<Rightarrow> omp_state \<Rightarrow> omp_state" where
  "choose_map device o1 = (if device then o1\<lparr>os_parallelId := os_deviceParallelId o1\<rparr> else o1)"

fun visit_workers :: "node_ref list \<Rightarrow> analysis \<Rightarrow> unit step" where
  "visit_workers [] a = ret ()"
| "visit_workers (w # ws) a = with_stream (nd_streamId (an_node a w)) a (\<lambda>_. visit_workers ws a)"

definition close_parallel_id :: "node_ref \<Rightarrow> omp_state \<times> analysis \<Rightarrow> (omp_state \<times> analysis) step" where
  "close_parallel_id region s = (case s of (o1, a) \<Rightarrow>
    (case nd_counters (an_node a region) OMPT_REGION_ID of
       None \<Rightarrow> ret s
     | Some parallel_id \<Rightarrow>
         with_stream (nd_streamId (an_node a region)) a (\<lambda>stream.
           let o1 = choose_map (isDeviceStream stream) o1;
               o1 = o1\<lparr>os_parallelId := (os_parallelId o1)(parallel_id := None)\<rparr> in
           bind_fuel (case os_openWorkers o1 parallel_id of None \<Rightarrow> ret () | Some ws \<Rightarrow> visit_workers ws a) (\<lambda>_.
           ret (o1, a)))))"

definition omptParallelRule :: "nat \<Rightarrow> node_ref \<Rightarrow> omp_state \<times> analysis \<Rightarrow> (omp_state \<times> analysis) step" where
  "omptParallelRule fuel leave s = (case s of (o1, a) \<Rightarrow>
    (case gn_first (an_node a leave) of
       None \<Rightarrow> ret s
     | Some region \<Rightarrow>
         if \<not> isOMPParallel (an_node a leave) then ret s
         else
           bind_fuel (case os_barrierNodes o1 region of
                        None \<Rightarrow> ret (o1, a)
                      | Some bss \<Rightarrow> bind_fuel (region_barriers fuel region bss a) (\<lambda>a. ret (close_region region o1, a)))
             (close_parallel_id region)))"

section \<open>Enter and leave\<close>

definition omp_handlePostEnter :: "node_ref \<Rightarrow> omp_state \<times> analysis \<Rightarrow> omp_state \<times> analysis" where
  "omp_handlePostEnter enter s = (case s of (o1, a) \<Rightarrow>
    (if isOMPForkJoin (an_node a enter) then o1\<lparr>os_nestingLevel := os_nestingLevel o1 + 1\<rparr> else o1, a))"

text \<open>A barrier without an edge from its enter to its leave has events inside.\<close>

definition mark_nested_barrier :: "node_ref \<Rightarrow> analysis \<Rightarrow> analysis" where
  "mark_nested_barrier leave a =
    (if (case gn_first (an_node a leave) of None \<Rightarrow> None | Some enter \<Rightarrow> getEdge enter leave (an_engine a)) = None
     then update_node leave (setCounter OMP_IGNORE_BARRIER 1) a else a)"

definition omp_handlePostLeave :: "nat \<Rightarrow> node_ref \<Rightarrow> omp_state \<times> analysis \<Rightarrow> (omp_state \<times> analysis) step" where
  "omp_handlePostLeave fuel leave s = (case s of (o1, a) \<Rightarrow>
    (let o1 = (if isOMPForkJoin (an_node a leave) then o1\<lparr>os_nestingLevel := os_nestingLevel o1 - 1\<rparr> else o1);
         ompt = haveParadigm PARADIGM_OMPT a in
     bind_fuel (if isOMPSync (an_node a leave) then
                  (let a = mark_nested_barrier leave a in if ompt then omptBarrierRule leave (o1, a) else ret (o1, a))
                else ret (o1, a)) (\<lambda>s.
     if ompt then omptParallelRule fuel leave s else ret s)))"

section \<open>Attributes of an enter and of a leave\<close>

text \<open>The worker threads that entered a region before it was opened and are of its kind.\<close>

fun open_workers :: "node_ref \<Rightarrow> u32 \<Rightarrow> node_ref list \<Rightarrow> analysis \<Rightarrow> (node_ref list \<times> analysis) step" where
  "open_workers enter streamType [] a = ret ([], a)"
| "open_workers enter streamType (w # ws) a =
    with_stream (nd_streamId (an_node a w)) a (\<lambda>stream.
      if has_flag streamType (es_streamType stream) then
        bind_fuel (link_node w enter (snd (an_newEdge enter w False a))) (open_workers enter streamType ws)
      else bind_fuel (open_workers enter streamType ws a) (\<lambda>(rest, a). ret (w # rest, a)))"

definition enter_region :: "node_ref \<Rightarrow> u64 \<Rightarrow> omp_state \<times> analysis \<Rightarrow> (omp_state \<times> analysis) step" where
  "enter_region enter parallel_id s = (case s of (o1, a) \<Rightarrow>
    with_stream (nd_streamId (an_node a enter)) a (\<lambda>stream.
      let o1 = choose_map (isDeviceStream stream) o1;
          o1 = o1\<lparr>os_parallelId := (os_parallelId o1)(parallel_id \<mapsto> enter)\<rparr>;
          a = update_node enter (setCounter OMPT_REGION_ID parallel_id) a in
      case os_openWorkers o1 parallel_id of
        None \<Rightarrow> ret (o1, a)
      | Some ws \<Rightarrow> bind_fuel (open_workers enter (es_streamType stream) ws a) (\<lambda>(rest, a).
          ret (o1\<lparr>os_openWorkers := (os_openWorkers o1)(parallel_id \<mapsto> rest)\<rparr>, a))))"

definition enter_worker :: "node_ref \<Rightarrow> u64 \<Rightarrow> omp_state \<times> analysis \<Rightarrow> (omp_state \<times> analysis) step" where
  "enter_worker enter parallel_id s = (case s of (o1, a) \<Rightarrow>
    with_stream (nd_streamId (an_node a enter)) a (\<lambda>stream.
      let o1 = choose_map (isDeviceStream stream) o1 in
      case os_parallelId o1 parallel_id of
        Some region \<Rightarrow> bind_fuel (link_node enter region (snd (an_newEdge region enter False a))) (\<lambda>a. ret (o1, a))
      | None \<Rightarrow>
          (let ws = (case os_openWorkers o1 parallel_id of None \<Rightarrow> [] | Some ws \<Rightarrow> ws) in
           ret (o1\<lparr>os_openWorkers := (os_openWorkers o1)(parallel_id \<mapsto> ws @ [enter])\<rparr>, a))))"

text \<open>The attributes of the event that the trace carries: the device of a target region and the
  identifier of a parallel region.\<close>

definition omp_handleKeyValuesEnter ::
  "u64 option \<Rightarrow> u64 option \<Rightarrow> node_ref \<Rightarrow> omp_state \<times> analysis \<Rightarrow> (omp_state \<times> analysis) step" where
  "omp_handleKeyValuesEnter device_id parallel_id enter s = (case s of (o1, a) \<Rightarrow>
    (if \<not> haveParadigm PARADIGM_OMPT a then ret s
     else
       (let a = (case device_id of
            Some d \<Rightarrow> if haveParadigm PARADIGM_OMP_TARGET a \<and> isOMPTarget (an_node a enter)
                      then update_node enter (\<lambda>n. setData (Some (Other_Data 1)) (setReferencedStreamId d n)) a else a
          | None \<Rightarrow> a) in
        case parallel_id of
          None \<Rightarrow> ret (o1, a)
        | Some p \<Rightarrow>
            if isOMPParallel (an_node a enter) then enter_region enter p (o1, a)
            else if gn_caller (an_node a enter) = None then enter_worker enter p (o1, a)
            else ret (o1, a))))"

definition omp_handleKeyValuesLeave :: "u64 option \<Rightarrow> node_ref \<Rightarrow> analysis \<Rightarrow> analysis" where
  "omp_handleKeyValuesLeave locationRef n a =
    (case locationRef of None \<Rightarrow> a | Some r \<Rightarrow> update_node n (setReferencedStreamId r) a)"

section \<open>The registered rules\<close>

definition omp_rules :: "nat \<Rightarrow> analysis \<Rightarrow> omp_rule list" where
  "omp_rules fuel a =
    (if \<not> haveParadigm PARADIGM_OMPT a then [OMPForkJoinRule, OMPComputeRule, OMPBarrierRule fuel] else []) @
    (if haveParadigm PARADIGM_OMP_TARGET a then [OMPTTargetRule fuel] else [])"

end
