(* ===== verification/OmpLaws.thy ===== *)
theory OmpLaws
  imports OmptModel
begin

text \<open>Laws of the OpenMP analysis: an engine that grows by edges and waiting times keeps what the
  distribution of blame needs, so the blame of a barrier is the sum of the waiting times of its
  threads; the map of the parallel regions; the stack of the open regions.\<close>

section \<open>Engines that grow\<close>

text \<open>Nodes that differ in their waiting time only.\<close>

definition same_but_wait :: "heap \<Rightarrow> heap \<Rightarrow> bool" where
  "same_but_wait h h' \<longleftrightarrow> (\<forall>n. \<exists>c. h' n = (h n)\<lparr>nd_counters := (nd_counters (h n))(WAITING_TIME := c)\<rparr>)"

lemma same_but_wait_refl [simp]: "same_but_wait h h"
  unfolding same_but_wait_def by (metis fun_upd_triv node.surjective node.update_convs(11))

lemma same_but_wait_trans: "same_but_wait h h' \<Longrightarrow> same_but_wait h' h'' \<Longrightarrow> same_but_wait h h''"
  unfolding same_but_wait_def
proof
  fix n
  assume a: "\<forall>n. \<exists>c. h' n = (h n)\<lparr>nd_counters := (nd_counters (h n))(WAITING_TIME := c)\<rparr>"
    and b: "\<forall>n. \<exists>c. h'' n = (h' n)\<lparr>nd_counters := (nd_counters (h' n))(WAITING_TIME := c)\<rparr>"
  obtain c d where "h' n = (h n)\<lparr>nd_counters := (nd_counters (h n))(WAITING_TIME := c)\<rparr>"
      "h'' n = (h' n)\<lparr>nd_counters := (nd_counters (h' n))(WAITING_TIME := d)\<rparr>"
    using a b by blast
  then have "h'' n = (h n)\<lparr>nd_counters := (nd_counters (h n))(WAITING_TIME := d)\<rparr>"
    by simp
  then show "\<exists>c. h'' n = (h n)\<lparr>nd_counters := (nd_counters (h n))(WAITING_TIME := c)\<rparr>"
    by blast
qed

lemma same_but_wait_fields:
  assumes "same_but_wait h h'"
  shows "nd_time (h' n) = nd_time (h n)" "nd_id (h' n) = nd_id (h n)" "nd_streamId (h' n) = nd_streamId (h n)"
    "nd_recordType (h' n) = nd_recordType (h n)" "nd_paradigm (h' n) = nd_paradigm (h n)"
    "nd_nodeType (h' n) = nd_nodeType (h n)" "gn_caller (h' n) = gn_caller (h n)"
    "gn_first (h' n) = gn_first (h n)" "gn_second (h' n) = gn_second (h n)"
    "c \<noteq> WAITING_TIME \<Longrightarrow> nd_counters (h' n) c = nd_counters (h n) c"
proof -
  obtain x where "h' n = (h n)\<lparr>nd_counters := (nd_counters (h n))(WAITING_TIME := x)\<rparr>"
    using assms by (auto simp: same_but_wait_def)
  then show "nd_time (h' n) = nd_time (h n)" "nd_id (h' n) = nd_id (h n)" "nd_streamId (h' n) = nd_streamId (h n)"
    "nd_recordType (h' n) = nd_recordType (h n)" "nd_paradigm (h' n) = nd_paradigm (h n)"
    "nd_nodeType (h' n) = nd_nodeType (h n)" "gn_caller (h' n) = gn_caller (h n)"
    "gn_first (h' n) = gn_first (h n)" "gn_second (h' n) = gn_second (h n)"
    "c \<noteq> WAITING_TIME \<Longrightarrow> nd_counters (h' n) c = nd_counters (h n) c"
    by simp_all
qed

lemma same_but_wait_set: "same_but_wait h (node_update n (setCounter WAITING_TIME t) h)"
proof -
  have "\<exists>c. node_update n (setCounter WAITING_TIME t) h k = (h k)\<lparr>nd_counters := (nd_counters (h k))(WAITING_TIME := c)\<rparr>" for k
    using same_but_wait_refl [of h] unfolding same_but_wait_def
    by (cases "k = n") (auto simp: node_update_def setCounter_def)
  then show ?thesis
    by (simp add: same_but_wait_def)
qed

lemma compareLess_wait: "same_but_wait h h' \<Longrightarrow> compareLess (h' a) (h' b) = compareLess (h a) (h b)"
  by (simp add: compareLess_def same_but_wait_fields)

text \<open>A callback whose decisions do not read waiting times.\<close>

definition wait_blind :: "stream_callback \<Rightarrow> bool" where
  "wait_blind cb \<longleftrightarrow> (\<forall>h h' w w' n. same_but_wait h h' \<longrightarrow> wi_list w' = wi_list w \<longrightarrow>
     fst (cb h' w' n) = fst (cb h w n))"

lemma wait_blind_callbacks:
  "wait_blind mpiStreamWalkCallback" "wait_blind ompHostStreamWalkCallback"
  "wait_blind ompDeviceStreamWalkCallback" "wait_blind ofldStreamWalkCallback"
  by (auto simp: wait_blind_def mpiStreamWalkCallback_def ompHostStreamWalkCallback_def ompDeviceStreamWalkCallback_def
      ofldStreamWalkCallback_def Let_def node_preds isProcess_def isAtomic_def isLeave_def same_but_wait_fields
      getCounter_def getCounter_valid_def)

lemma walk_wait_blind:
  assumes "recording cb" "wait_blind cb" "same_but_wait h h'" "wi_list w' = wi_list w"
  shows "wi_list (snd (walk (cb h') w' ns r)) = wi_list (snd (walk (cb h) w ns r))"
  using assms(4)
proof (induction ns arbitrary: w w' r)
  case (Cons n ns)
  have f: "fst (cb h' w' n) = fst (cb h w n)"
    using assms(2,3) Cons(2) by (simp add: wait_blind_def)
  have l: "wi_list (snd (cb h' w' n)) = wi_list (snd (cb h w n))"
    using assms(1) Cons(2) by (simp add: recording_def)
  show ?case
    using Cons(1) [OF l] f l by (cases "cb h w n"; cases "cb h' w' n") simp
qed simp

text \<open>The engine after a step that adds edges, blocks edges or sets waiting times.\<close>

definition grown :: "engine \<Rightarrow> engine \<Rightarrow> bool" where
  "grown s s' \<longleftrightarrow> engine_ok s' \<and> edges_timed s' \<and> same_but_wait (ge_heap s) (ge_heap s') \<and>
     ge_streams s' = ge_streams s \<and> ge_group s' = ge_group s \<and>
     (\<forall>a b. getEdge a b s \<noteq> None \<longrightarrow> getEdge a b s' \<noteq> None) \<and> blame_total s' = blame_total s"

lemma grown_refl: "engine_ok s \<Longrightarrow> edges_timed s \<Longrightarrow> grown s s"
  by (simp add: grown_def)

lemma grown_trans: "grown s t \<Longrightarrow> grown t u \<Longrightarrow> grown s u"
  unfolding grown_def using same_but_wait_trans by metis

lemma getEdge_at: "getEdge a b s = find_edge_to (ge_edges s) b (edges_at (g_out (ge_graph s)) a)"
  by (simp add: getEdge_def getOutEdges_def edges_at_def split: option.split)

lemma find_edge_to_None: "find_edge_to E b es = None \<longleftrightarrow> (\<forall>e\<in>set es. e_end (E e) \<noteq> b)"
  by (induction es) auto

lemma grown_newEdge:
  assumes "engine_ok s" "edges_timed s"
  shows "grown s (snd (newEdge a b bl t s))"
proof -
  let ?s = "snd (newEdge a b bl t s)"
  let ?x = "Edge_new (ge_heap s) a b (nd_time (ge_heap s b) - nd_time (ge_heap s a)) bl
    (case t of Some p \<Rightarrow> p | None \<Rightarrow> if nd_paradigm (ge_heap s a) = nd_paradigm (ge_heap s b)
       then nd_paradigm (ge_heap s a) else nd_paradigm (ge_heap s a) OR nd_paradigm (ge_heap s b))"
  have E: "ge_edges ?s = (ge_edges s)(ge_nextEdge s := ?x)" "ge_nextEdge ?s = ge_nextEdge s + 1" "ge_heap ?s = ge_heap s"
      "ge_graph ?s = addEdge (ge_edges ?s) (ge_nextEdge s) (ge_graph s)" "ge_streams ?s = ge_streams s" "ge_group ?s = ge_group s"
    by (simp_all add: newEdge_def Let_def)
  have x: "e_start ?x = a" "e_end ?x = b" "getTotalBlame ?x = 0"
      "\<not> isReverseEdge (ge_heap s) ?x \<Longrightarrow> e_duration ?x = nd_time (ge_heap s b) - nd_time (ge_heap s a)"
    by (auto simp: Edge_new_def Let_def isReverseEdge_def getTotalBlame_def all_reasons_def split: prod.splits)
  have "edges_timed ?s"
    unfolding edges_timed_def
  proof (intro allI impI)
    fix e
    assume e: "e < ge_nextEdge ?s" "\<not> isReverseEdge (ge_heap ?s) (ge_edges ?s e)"
    show "e_duration (ge_edges ?s e) = nd_time (ge_heap ?s (e_end (ge_edges ?s e))) - nd_time (ge_heap ?s (e_start (ge_edges ?s e)))"
    proof (cases "e = ge_nextEdge s")
      case True
      then show ?thesis
        using e(2) x by (simp add: E(1,3))
    next
      case False
      then have "e < ge_nextEdge s"
        using e(1) E(2) by simp
      then show ?thesis
        using e(2) assms(2) False by (simp add: E(1,3) edges_timed_def)
    qed
  qed
  moreover have "getEdge c d ?s \<noteq> None" if found: "getEdge c d s \<noteq> None" for c d
  proof -
    obtain e where "e \<in> set (edges_at (g_out (ge_graph s)) c)" "e_end (ge_edges s e) = d"
      using found unfolding getEdge_at find_edge_to_None by blast
    moreover from this have "e < ge_nextEdge s"
      using assms(1) by (auto simp: engine_ok_def)
    ultimately have "e \<in> set (edges_at (g_out (ge_graph ?s)) c)" "e_end (ge_edges ?s e) = d"
      unfolding E(4) by (simp_all add: addEdge_edges E(1))
    then show ?thesis
      by (auto simp: getEdge_at find_edge_to_None)
  qed
  moreover have "blame_total ?s = blame_total s"
    using x(3) by (simp add: blame_total_def E(1,2))
  ultimately show ?thesis
    using newEdge_ok [OF assms(1)] E by (simp add: grown_def)
qed

lemma grown_block:
  assumes "engine_ok (an_engine a)" "edges_timed (an_engine a)"
  shows "grown (an_engine a) (an_engine (block_edge e a))"
proof -
  let ?s = "an_engine (block_edge e a)"
  have E: "e_start (ge_edges ?s k) = e_start (ge_edges (an_engine a) k)" "e_end (ge_edges ?s k) = e_end (ge_edges (an_engine a) k)"
      "e_duration (ge_edges ?s k) = e_duration (ge_edges (an_engine a) k)" for k
    by (simp_all add: block_edge_def makeBlocking_def)
  have r: "ge_heap ?s = ge_heap (an_engine a)" "ge_graph ?s = ge_graph (an_engine a)" "ge_nextEdge ?s = ge_nextEdge (an_engine a)"
      "ge_streams ?s = ge_streams (an_engine a)" "ge_group ?s = ge_group (an_engine a)"
    by (simp_all add: block_edge_def)
  have "engine_ok ?s"
    using assms(1) by (simp add: engine_ok_def edges_consistent_def out_between_def in_between_def E r)
  moreover have "edges_timed ?s"
    using assms(2) by (simp add: edges_timed_def isReverseEdge_def E r)
  moreover have "getEdge c d ?s = None \<longleftrightarrow> getEdge c d (an_engine a) = None" for c d
    by (simp add: getEdge_at find_edge_to_None E r)
  ultimately show ?thesis
    using blame_total_block [of e a] by (simp add: grown_def r)
qed

lemma grown_wait:
  assumes "engine_ok (an_engine a)" "edges_timed (an_engine a)"
  shows "grown (an_engine a) (an_engine (update_node n (setCounter WAITING_TIME t) a))"
proof -
  let ?s = "an_engine (update_node n (setCounter WAITING_TIME t) a)"
  have s: "?s = (an_engine a)\<lparr>ge_heap := node_update n (setCounter WAITING_TIME t) (ge_heap (an_engine a))\<rparr>"
    by (simp add: update_node_def)
  have t: "nd_time (node_update n (setCounter WAITING_TIME t) (ge_heap (an_engine a)) k) = nd_time (an_node a k)" for k
    using same_but_wait_fields(1) [OF same_but_wait_set] .
  have "edges_timed ?s"
    using assms(2) by (simp add: s edges_timed_def isReverseEdge_def t)
  then show ?thesis
    using assms(1) same_but_wait_set by (simp add: grown_def s getEdge_at blame_total_def)
qed

lemma grown_chained: "grown s s' \<Longrightarrow> chained s ns \<Longrightarrow> chained s' ns"
  by (induction s ns rule: chained.induct) (auto simp: grown_def same_but_wait_fields)

lemma stream_sorted_wait: "same_but_wait h h' \<Longrightarrow> stream_sorted h' ns = stream_sorted h ns"
  by (simp add: stream_sorted_def compareLess_wait same_but_wait_fields)

lemma grown_stream_of: "grown s s' \<Longrightarrow> stream_of s n ns \<Longrightarrow> stream_of s' n ns"
  by (auto simp: grown_def stream_of_def stream_sorted_wait same_but_wait_fields)

text \<open>Blame can still be distributed after a step that grows the engine: the interval is the same.\<close>

lemma grown_walk_interval:
  assumes "grown s s'" "recording cb" "wait_blind cb" "stream_of s (ns ! i) ns" "i < length ns"
    and "walk_interval (ns ! i) cb s = Inr l"
  shows "walk_interval (ns ! i) cb s' = Inr l"
proof -
  let ?n = "ns ! i" and ?w = "\<lparr>wi_list = [], wi_waitStateTime = 0\<rparr>"
  obtain p where p: "getStream (nd_streamId (ge_heap s ?n)) (ge_group s) = Some p"
      "es_nodes (base (ge_streams s p)) = ns" "stream_sorted (ge_heap s) ns"
    using assms(4) by (auto simp: stream_of_def)
  have g: "same_but_wait (ge_heap s) (ge_heap s')" "ge_streams s' = ge_streams s" "ge_group s' = ge_group s"
    using assms(1) by (simp_all add: grown_def)
  have p': "getStream (nd_streamId (ge_heap s' ?n)) (ge_group s') = Some p"
    using p(1) g by (simp add: same_but_wait_fields)
  have w: "walkBackward (ge_heap t) (Some ?n) (Some (cb (ge_heap t))) ?w (base (ge_streams s p)) =
      Inr (walk (cb (ge_heap t)) ?w (rev (take (Suc i) ns)) False)" if "stream_sorted (ge_heap t) ns" for t :: engine
    using assms(5) p(2) that walk_start_ok [of "ge_heap t" "base (ge_streams s p)" i] by (simp add: walkBackward_def)
  have "wi_list (snd (walk (cb (ge_heap s')) ?w (rev (take (Suc i) ns)) False)) =
      wi_list (snd (walk (cb (ge_heap s)) ?w (rev (take (Suc i) ns)) False))"
    by (rule walk_wait_blind [OF assms(2,3) g(1)]) simp
  moreover have "stream_sorted (ge_heap s') ns"
    using p(3) g(1) stream_sorted_wait by blast
  ultimately show ?thesis
    using assms(6) p(3) w [of s] w [of s'] unfolding walk_interval_def p(1) p' g(2)
    by (simp add: split_beta split: if_splits)
qed

lemma grown_blame_ready:
  assumes "grown s s'" "blame_ready s n cb" "wait_blind cb"
  shows "blame_ready s' n cb"
proof -
  obtain ns i l where n: "n = ns ! i" "i < length ns" "stream_of s n ns" "chained s (rev ns)" "recording cb"
      "walk_interval n cb s = Inr l" "nd_time (ge_heap s (hd l)) \<noteq> nd_time (ge_heap s (last l))"
    using assms(2) by (auto simp: blame_ready_def)
  moreover have "walk_interval n cb s' = Inr l"
    using grown_walk_interval [OF assms(1) n(5) assms(3)] n(1,2,3,6) by metis
  moreover have "nd_time (ge_heap s' k) = nd_time (ge_heap s k)" for k
    using assms(1) by (simp add: grown_def same_but_wait_fields)
  ultimately show ?thesis
    using assms(1) grown_stream_of [OF assms(1) n(3)] grown_chained [OF assms(1) n(4)]
    unfolding blame_ready_def grown_def by metis
qed

section \<open>The blame of a barrier\<close>

text \<open>A thread at a barrier: its enter and its leave are a pair.\<close>

definition barrier_pair :: "heap \<Rightarrow> node_ref \<Rightarrow> node_ref \<Rightarrow> bool" where
  "barrier_pair h enter leave \<longleftrightarrow> gn_first (h enter) = Some enter \<and> gn_second (h enter) = Some leave"

lemma barrier_wait_ok:
  assumes "engine_ok (an_engine a)" "edges_timed (an_engine a)"
  shows "\<exists>a'. barrier_wait latest enter leave a = ret a' \<and> grown (an_engine a) (an_engine a') \<and>
     an_propagateBlame a' = an_propagateBlame a \<and>
     (\<forall>n. an_node a' n = (if n = leave then setCounter WAITING_TIME (nd_time (an_node a latest) - nd_time (an_node a enter)) (an_node a n)
                          else an_node a n))"
proof -
  let ?t = "nd_time (an_node a latest) - nd_time (an_node a enter)"
  define b where "b = (case getEdge enter leave (an_engine a) of
      Some e \<Rightarrow> block_edge e a | None \<Rightarrow> snd (an_newEdge enter leave True a))"
  have new: "an_engine (snd (an_newEdge x y z c)) = snd (newEdge x y z None (an_engine c))"
    "an_propagateBlame (snd (an_newEdge x y z c)) = an_propagateBlame c" "an_node (snd (an_newEdge x y z c)) = an_node c" for x y z c
    by (simp_all add: an_newEdge_def newEdge_def Let_def)
  have b: "grown (an_engine a) (an_engine b)" "an_node b = an_node a" "an_propagateBlame b = an_propagateBlame a"
    using grown_block [OF assms] grown_newEdge [OF assms] by (auto simp: b_def new block_edge_def newEdge_fields(3) split: option.split)
  obtain st where st: "add_stat OMP_STAT_BARRIER ?t b = ret (b\<lparr>an_stats := st\<rparr>)"
    by (simp add: add_stat_def addStatWithCount_def stat_consts Let_def ret_def)
  define c where "c = update_node leave (setCounter WAITING_TIME ?t) (b\<lparr>an_stats := st\<rparr>)"
  have b': "engine_ok (an_engine b)" "edges_timed (an_engine b)"
    using b(1) by (simp_all add: grown_def)
  have c: "grown (an_engine b) (an_engine c)" "an_propagateBlame c = an_propagateBlame b"
    "an_node c = (an_node b)(leave := setCounter WAITING_TIME ?t (an_node b leave))"
    using grown_wait [of "b\<lparr>an_stats := st\<rparr>"] b' by (simp_all add: c_def update_node_def node_update_def)
  have c': "engine_ok (an_engine c)" "edges_timed (an_engine c)"
    using c(1) by (simp_all add: grown_def)
  have "barrier_wait latest enter leave a = ret (snd (an_newEdge latest leave False c))"
    using st by (simp add: barrier_wait_def Let_def wait_state_def b_def [symmetric] b(2) c_def)
  moreover have "grown (an_engine a) (an_engine (snd (an_newEdge latest leave False c)))"
    using grown_trans [OF b(1) grown_trans [OF c(1)]] grown_newEdge [OF c'] by (simp add: new)
  ultimately show ?thesis
    using b(2,3) c(2,3) by (intro exI [of _ "snd (an_newEdge latest leave False c)"]) (simp add: new newEdge_fields(3))
qed

lemma waiting_time_other: "same_but_wait h h' \<Longrightarrow> barrier_pair h' n l = barrier_pair h n l"
  by (simp add: barrier_pair_def same_but_wait_fields)

lemma barrier_loop_ok:
  assumes "engine_ok (an_engine a)" "edges_timed (an_engine a)" "\<And>n. n \<in> set ns \<Longrightarrow> barrier_pair (ge_heap (an_engine a)) n (lf n)"
    and "distinct ns" "inj_on lf (set ns)"
  shows "\<exists>a'. barrier_loop latest ns b a = ret (b + (\<Sum>n\<leftarrow>ns. nd_time (an_node a latest) - nd_time (an_node a n)), a') \<and>
     grown (an_engine a) (an_engine a') \<and> an_propagateBlame a' = an_propagateBlame a \<and>
     (\<forall>n\<in>set ns - {latest}. getWaitingTime (an_node a' (lf n)) = nd_time (an_node a latest) - nd_time (an_node a n)) \<and>
     (\<forall>k. k \<notin> lf ` (set ns - {latest}) \<longrightarrow> getWaitingTime (an_node a' k) = getWaitingTime (an_node a k))"
  using assms
proof (induction ns arbitrary: a b)
  case Nil
  then show ?case
    using grown_refl [OF Nil(1,2)] by auto
next
  case (Cons n ns)
  have f: "gn_first (an_node a n) = Some n" "gn_second (an_node a n) = Some (lf n)"
    using Cons(4) by (simp_all add: barrier_pair_def)
  show ?case
  proof (cases "n = latest")
    case True
    then show ?thesis
      using Cons(1) [of a b] Cons(2-6) f by (force simp: True)
  next
    case False
    let ?t = "nd_time (an_node a latest) - nd_time (an_node a n)"
    obtain c where c: "barrier_wait latest n (lf n) a = ret c" "grown (an_engine a) (an_engine c)"
        "an_propagateBlame c = an_propagateBlame a"
        "\<And>k. an_node c k = (if k = lf n then setCounter WAITING_TIME ?t (an_node a k) else an_node a k)"
      using barrier_wait_ok [OF Cons(2,3)] by metis
    have s: "same_but_wait (ge_heap (an_engine a)) (ge_heap (an_engine c))" "engine_ok (an_engine c)" "edges_timed (an_engine c)"
      using c(2) by (simp_all add: grown_def)
    have times: "nd_time (an_node c k) = nd_time (an_node a k)" for k
      using same_but_wait_fields(1) [OF s(1)] .
    obtain a' where a': "barrier_loop latest ns (b + ?t) c
          = ret (b + ?t + (\<Sum>n\<leftarrow>ns. nd_time (an_node c latest) - nd_time (an_node c n)), a')"
        "grown (an_engine c) (an_engine a')" "an_propagateBlame a' = an_propagateBlame c"
        "\<forall>n\<in>set ns - {latest}. getWaitingTime (an_node a' (lf n)) = nd_time (an_node c latest) - nd_time (an_node c n)"
        "\<forall>k. k \<notin> lf ` (set ns - {latest}) \<longrightarrow> getWaitingTime (an_node a' k) = getWaitingTime (an_node c k)"
      using Cons(1) [of c "b + ?t"] s(2,3) Cons(4-6) waiting_time_other [OF s(1)] by (auto simp: inj_on_insert)
    have own: "lf n \<notin> lf ` (set ns - {latest})"
      using Cons(5,6) by (auto simp: inj_on_def)
    have "getWaitingTime (an_node a' (lf n)) = ?t"
      using a'(5) own c(4) by simp
    moreover have "getWaitingTime (an_node a' k) = getWaitingTime (an_node a k)" if "k \<notin> lf ` (set (n # ns) - {latest})" for k
      using that a'(5) c(4) False by (auto simp: insert_Diff_if)
    ultimately show ?thesis
      using False a'(1-4) c(1-3) f grown_trans [OF c(2) a'(2)] times
      by (intro exI [of _ a']) (simp add: add.assoc insert_Diff_if)
  qed
qed

lemma latest_enter_step:
  "m = foldl (\<lambda>m n. if nd_time (h n) > nd_time (h m) then n else m) x ns \<Longrightarrow>
   (m = x \<or> m \<in> set ns) \<and> nd_time (h x) \<le> nd_time (h m) \<and> (\<forall>n\<in>set ns. nd_time (h n) \<le> nd_time (h m))"
proof (induction ns arbitrary: x)
  case (Cons n ns)
  let ?y = "if nd_time (h n) > nd_time (h x) then n else x"
  have "(m = ?y \<or> m \<in> set ns) \<and> nd_time (h ?y) \<le> nd_time (h m) \<and> (\<forall>n\<in>set ns. nd_time (h n) \<le> nd_time (h m))"
    using Cons(1) [of ?y] Cons(2) by simp
  moreover have "nd_time (h x) \<le> nd_time (h ?y)" "nd_time (h n) \<le> nd_time (h ?y)"
    by auto
  ultimately show ?case
    by (auto split: if_splits intro: order.trans)
qed simp

lemma latest_enter_spec:
  "ns \<noteq> [] \<Longrightarrow> latest_enter h ns \<in> set ns \<and> (\<forall>n\<in>set ns. nd_time (h n) \<le> nd_time (h (latest_enter h ns)))"
  using latest_enter_step [of "latest_enter h ns" h "hd ns" ns] by (cases ns) (auto simp: latest_enter_def)

text \<open>The last leave of a barrier that all threads of the parallel region have passed: its enter completes
  the list of enters, whose length is the number of threads that the fork carries.\<close>

definition barrier_ready :: "node_ref \<Rightarrow> node_ref list \<Rightarrow> (node_ref \<Rightarrow> node_ref) \<Rightarrow> omp_state \<Rightarrow> analysis \<Rightarrow> bool" where
  "barrier_ready leave ns lf o1 a \<longleftrightarrow> (let h = ge_heap (an_engine a) in
     isOMPSync (h leave) \<and> isLeave (h leave) \<and>
     (\<exists>p. getStream (nd_streamId (h leave)) (ge_group (an_engine a)) = Some p \<and>
          \<not> isDeviceStream (base (ge_streams (an_engine a) p))) \<and>
     (\<exists>enter. gn_first (h leave) = Some enter \<and> isEnter (h enter) \<and> lf enter = leave \<and>
        getCounter OMP_IGNORE_BARRIER (h leave) = 0 \<and> ns = os_barrierListHost o1 @ [enter]) \<and>
     (\<exists>fork. getInnerMostFork o1 = Some fork \<and> nd_referencedStream (h fork) = of_nat (length ns)) \<and>
     distinct ns \<and> inj_on lf (set ns) \<and> (\<forall>n\<in>set ns. barrier_pair h n (lf n) \<and> getWaitingTime (h (lf n)) = 0) \<and>
     blame_ready (an_engine a) (latest_enter h ns) ompHostStreamWalkCallback \<and> \<not> an_propagateBlame a)"

lemma barrier_rule_ok:
  assumes "barrier_ready leave ns lf o1 a"
  shows "\<exists>o' a'. OMPBarrierRule (Suc fuel) leave (o1, a) = ret (True, o', a') \<and> os_barrierListHost o' = [] \<and>
     (\<forall>n\<in>set ns. nd_time (an_node a n) \<le> nd_time (an_node a (latest_enter (ge_heap (an_engine a)) ns)) \<and>
        getWaitingTime (an_node a' (lf n)) =
          nd_time (an_node a (latest_enter (ge_heap (an_engine a)) ns)) - nd_time (an_node a n)) \<and>
     blame_total (an_engine a') = blame_total (an_engine a) +
       of_nat (unat (\<Sum>n\<leftarrow>ns. getWaitingTime (an_node a' (lf n))))"
proof -
  let ?h = "ge_heap (an_engine a)" and ?a = "count_activity STAT_OMP_BARRIER a"
  let ?l = "latest_enter ?h ns"
  obtain p enter fork where r: "isOMPSync (?h leave)" "isLeave (?h leave)"
      "getStream (nd_streamId (?h leave)) (ge_group (an_engine a)) = Some p" "\<not> isDeviceStream (base (ge_streams (an_engine a) p))"
      "gn_first (?h leave) = Some enter" "isEnter (?h enter)" "lf enter = leave" "getCounter OMP_IGNORE_BARRIER (?h leave) = 0"
      "ns = os_barrierListHost o1 @ [enter]" "getInnerMostFork o1 = Some fork" "nd_referencedStream (?h fork) = of_nat (length ns)"
      "distinct ns" "inj_on lf (set ns)" "blame_ready (an_engine a) ?l ompHostStreamWalkCallback" "\<not> an_propagateBlame a"
    and pairs: "\<And>n. n \<in> set ns \<Longrightarrow> barrier_pair ?h n (lf n)" and zero: "\<And>n. n \<in> set ns \<Longrightarrow> getWaitingTime (?h (lf n)) = 0"
    using assms by (auto simp: barrier_ready_def Let_def)
  let ?o = "o1\<lparr>os_barrierListHost := ns\<rparr>"
  have q: "an_engine ?a = an_engine a" "an_propagateBlame ?a = an_propagateBlame a"
    by (simp_all add: count_activity_def)
  have ok: "engine_ok (an_engine ?a)" "edges_timed (an_engine ?a)"
    using r(14) by (simp_all add: blame_ready_def q)
  have add: "addBarrierEventToList ?h enter False 0 o1 = Inr ?o"
    using r(6-9) pairs [of enter] by (simp add: addBarrierEventToList_def getPartner_def barrier_pair_def)
  have l: "?l \<in> set ns" "\<forall>n\<in>set ns. nd_time (?h n) \<le> nd_time (?h ?l)"
    using latest_enter_spec [of ns ?h] r(9) by auto
  obtain b where b: "barrier_loop ?l ns 0 ?a = ret (0 + (\<Sum>n\<leftarrow>ns. nd_time (?h ?l) - nd_time (?h n)), b)"
      "grown (an_engine a) (an_engine b)" "an_propagateBlame b = an_propagateBlame a"
      "\<forall>n\<in>set ns - {?l}. getWaitingTime (an_node b (lf n)) = nd_time (?h ?l) - nd_time (?h n)"
      "\<forall>k. k \<notin> lf ` (set ns - {?l}) \<longrightarrow> getWaitingTime (an_node b k) = getWaitingTime (?h k)"
    using barrier_loop_ok [OF ok _ r(12,13), of ?l 0] pairs unfolding q by blast
  obtain s' where s: "distribute (Suc fuel) ?l (\<Sum>n\<leftarrow>ns. nd_time (?h ?l) - nd_time (?h n)) ompHostStreamWalkCallback REASON_OMP_BARRIER b
       = ret (b\<lparr>an_engine := s'\<rparr>)" "same_but_blame (an_engine b) s'"
      "blame_total s' = blame_total (an_engine b) + of_nat (unat (\<Sum>n\<leftarrow>ns. nd_time (?h ?l) - nd_time (?h n)))"
    using distribute_ready [of b ?l ompHostStreamWalkCallback] grown_blame_ready [OF b(2) r(14) wait_blind_callbacks(2)] b(3) r(15)
    by metis
  have rule: "OMPBarrierRule (Suc fuel) leave (o1, a) = ret (True, clearBarrierEventList False 0 ?o, b\<lparr>an_engine := s'\<rparr>)"
    using r(1-5,9-11) add b(1) s(1)
    by (simp add: OMPBarrierRule_def Let_def with_stream_def q getBarrierEventList_def getInnerMostFork_def)
  have w: "getWaitingTime (an_node b (lf n)) = nd_time (?h ?l) - nd_time (?h n)" if "n \<in> set ns" for n
  proof (cases "n = ?l")
    case True
    then have "lf n \<notin> lf ` (set ns - {?l})"
      using l(1) r(13) by (auto simp: inj_on_def)
    then show ?thesis
      using b(5) zero [OF that] True by simp
  qed (use b(4) that in blast)
  have "(\<Sum>n\<leftarrow>ns. getWaitingTime (an_node b (lf n))) = (\<Sum>n\<leftarrow>ns. nd_time (?h ?l) - nd_time (?h n))"
    using w by (simp cong: map_cong)
  moreover have "blame_total (an_engine b) = blame_total (an_engine a)"
    using b(2) by (simp add: grown_def)
  ultimately show ?thesis
    using rule s(3) w l(2) same_but_blame_edge(5) [OF s(2)]
    by (intro exI [of _ "clearBarrierEventList False 0 ?o"] exI [of _ "b\<lparr>an_engine := s'\<rparr>"])
      (simp add: clearBarrierEventList_def)
qed

text \<open>C3. The threads of an OpenMP barrier balance. At the last leave of the barrier the rule returns and
  empties the list of barriers; the leave of every thread carries the time from its own enter to the
  latest one as waiting time, and the blame that is distributed from the latest enter is the sum of
  these waiting times.\<close>
theorem omp_barrier_balance:
  assumes "barrier_ready leave ns lf o1 a"
  shows "\<exists>o' a'. OMPBarrierRule (Suc fuel) leave (o1, a) = ret (True, o', a') \<and> os_barrierListHost o' = [] \<and>
     (\<forall>n\<in>set ns. nd_time (an_node a n) \<le> nd_time (an_node a (latest_enter (ge_heap (an_engine a)) ns)) \<and>
        getWaitingTime (an_node a' (lf n)) =
          nd_time (an_node a (latest_enter (ge_heap (an_engine a)) ns)) - nd_time (an_node a n)) \<and>
     blame_total (an_engine a') = blame_total (an_engine a) +
       of_nat (unat (\<Sum>n\<leftarrow>ns. getWaitingTime (an_node a' (lf n))))"
  using barrier_rule_ok [OF assms] .

text \<open>Two threads: the master enters the barrier at time 30 and leaves it last, the other thread entered
  at time 25.\<close>

definition barrier_node :: "u64 \<Rightarrow> u64 \<Rightarrow> record_type \<Rightarrow> node_ref \<Rightarrow> node_ref \<Rightarrow> graph_node" where
  "barrier_node time stream r enter leave = (fst (GraphNode_new enter 3 time stream ''barrier'' PARADIGM_OMP r OMP_SYNC))
     \<lparr>gn_first := Some enter, gn_second := Some leave\<rparr>"

lemma barrier_node_simps [simp]:
  "nd_time (barrier_node t i r e l) = t" "nd_streamId (barrier_node t i r e l) = i" "nd_recordType (barrier_node t i r e l) = r"
  "nd_nodeType (barrier_node t i r e l) = OMP_SYNC" "nd_paradigm (barrier_node t i r e l) = PARADIGM_OMP"
  "gn_first (barrier_node t i r e l) = Some e" "gn_second (barrier_node t i r e l) = Some l" "gn_caller (barrier_node t i r e l) = None"
  "nd_counters (barrier_node t i r e l) = Map.empty"
  by (simp_all add: barrier_node_def GraphNode_new_def Node_new_def node.defs graph_node.defs)

definition team_heap :: heap where
  "team_heap = demo_heap(1 := (demo_heap 1)\<lparr>nd_referencedStream := 2\<rparr>, 3 := barrier_node 30 2 RECORD_ENTER 3 4,
     4 := barrier_node 60 2 RECORD_LEAVE 3 4, 5 := barrier_node 25 7 RECORD_ENTER 5 6, 6 := barrier_node 55 7 RECORD_LEAVE 5 6)"

definition team :: analysis where
  "team = AnalysisEngine_new 0 1 0 False (chain_engine\<lparr>ge_heap := team_heap\<rparr>)"

definition team_state :: omp_state where
  "team_state = AnalysisParadigmOMP_new\<lparr>os_forkJoinStack := [1], os_barrierListHost := [5]\<rparr>"

lemma team_heap_simps [simp]:
  "team_heap 1 = (demo_heap 1)\<lparr>nd_referencedStream := 2\<rparr>" "team_heap 2 = demo_heap 2" "team_heap 3 = barrier_node 30 2 RECORD_ENTER 3 4"
  "team_heap 4 = barrier_node 60 2 RECORD_LEAVE 3 4" "team_heap 5 = barrier_node 25 7 RECORD_ENTER 5 6"
  "team_heap 6 = barrier_node 55 7 RECORD_LEAVE 5 6"
  "team_heap (Suc 0) = (demo_heap 1)\<lparr>nd_referencedStream := 2\<rparr>"
  by (simp_all add: team_heap_def)

lemma demo_heap_caller [simp]: "gn_caller (demo_heap n) = None"
  by (simp add: demo_heap_def GraphNode_new_def Node_new_def node.defs graph_node.defs Let_def)

lemma team_blame_ready: "blame_ready (an_engine team) 3 ompHostStreamWalkCallback"
proof -
  let ?s = "chain_engine\<lparr>ge_heap := team_heap\<rparr>"
  have s: "an_engine team = ?s"
    by (simp add: team_def AnalysisEngine_new_def)
  have ok: "engine_ok ?s"
    using chain_engine_ok by simp
  have timed: "edges_timed ?s"
  proof -
    have "x = 0 \<or> x = 1" if "x < 2" for x :: nat
      using that by linarith
    then show ?thesis
      unfolding edges_timed_def by (fastforce simp: numeral_2_eq_2 [symmetric] numeral_3_eq_3 [symmetric])
  qed
  have sorted: "stream_sorted (ge_heap ?s) [1, 2, 3]"
    by (simp add: stream_sorted_def compareLess_def)
  then have stream: "stream_of ?s 3 [1, 2, 3]"
    by (simp add: stream_of_def)
  have chained: "chained ?s (rev [1, 2, 3])"
    by (simp add: getEdge_def getOutEdges_def addEdge_def Let_def edges_at_def Graph_new_def word_le_nat_alt)
  have walk: "walk_interval 3 ompHostStreamWalkCallback ?s = Inr [3, 2]"
    using walk_start_ok [of team_heap "base (ge_streams chain_engine 0)" 2] sorted
    by (simp add: walk_interval_def walkBackward_def ompHostStreamWalkCallback_def
      isProcess_def isAtomic_def isLeave_def wi_push_def wi_wait_def Let_def)
  show ?thesis
    unfolding blame_ready_def s
    using ok timed recording_callbacks(2) stream chained walk
    by (intro conjI exI [of _ "[1, 2, 3]"] exI [of _ 2] exI [of _ "[3, 2]"]) auto
qed

lemma team_ready: "barrier_ready 4 [5, 3] (\<lambda>n. n + 1) team_state team"
proof -
  have latest: "latest_enter (ge_heap (an_engine team)) [5, 3] = 3"
    by (simp add: latest_enter_def team_def AnalysisEngine_new_def)
  have s: "an_engine team = chain_engine\<lparr>ge_heap := team_heap\<rparr>"
    by (simp add: team_def AnalysisEngine_new_def)
  have types: "isOMPSync (team_heap 4)" "isLeave (team_heap 4)" "isEnter (team_heap 3)"
    by (simp_all add: node_preds node_bits isLeave_def isEnter_def has_flag_def)
  have stream: "getStream 2 (ge_group (an_engine team)) = Some 0" "\<not> isDeviceStream (base (ge_streams (an_engine team) 0))"
    by (simp_all add: s chain_engine_def isDeviceStream_def EventStream_new_def es_types has_flag_def getStream_def)
  have "\<not> an_propagateBlame team"
    by (simp add: team_def AnalysisEngine_new_def)
  then show ?thesis
    using latest types stream team_blame_ready
    by (simp add: barrier_ready_def Let_def s team_state_def getInnerMostFork_def inj_on_def barrier_pair_def
        getWaitingTime_def getCounter_def getCounter_valid_def)
qed

theorem omp_barrier_balance_witness:
  "\<exists>o' a'. OMPBarrierRule 1 4 (team_state, team) = ret (True, o', a') \<and>
     (\<forall>n\<in>set [5, 3]. getWaitingTime (an_node a' (n + 1)) = nd_time (an_node team 3) - nd_time (an_node team n))"
proof -
  have "latest_enter (ge_heap (an_engine team)) [5, 3] = 3"
    by (simp add: latest_enter_def team_def AnalysisEngine_new_def)
  then show ?thesis
    using omp_barrier_balance [OF team_ready, of 0] by auto
qed

end
