(* ===== verification/OmptLaws.thy ===== *)
theory OmptLaws
  imports OmpLaws
begin

text \<open>Laws of the fork and join of threads, and of what the OpenMP analysis does while the trace is read.\<close>

section \<open>Joining the threads\<close>

lemma newEdge_found:
  assumes "engine_ok s"
  shows "getEdge a b (snd (newEdge a b bl t s)) \<noteq> None"
proof -
  let ?s = "snd (newEdge a b bl t s)"
  have x: "e_start (ge_edges ?s (ge_nextEdge s)) = a" "e_end (ge_edges ?s (ge_nextEdge s)) = b"
    by (simp_all add: newEdge_def Let_def Edge_new_def split: prod.split)
  then have "ge_nextEdge s \<in> set (edges_at (g_out (ge_graph ?s)) a)"
    unfolding newEdge_fields(1) by (simp add: addEdge_edges)
  then show ?thesis
    using x(2) by (auto simp: getEdge_at find_edge_to_None)
qed

text \<open>What joining keeps: the engine grows, nothing but the active compute nodes changes.\<close>

definition joined :: "omp_state \<times> analysis \<Rightarrow> omp_state \<times> analysis \<Rightarrow> bool" where
  "joined s s' \<longleftrightarrow> grown (an_engine (snd s)) (an_engine (snd s')) \<and> an_node (snd s') = an_node (snd s) \<and>
     os_forkJoinStack (fst s') = os_forkJoinStack (fst s)"

lemma join_stream_ok:
  assumes "engine_ok (an_engine a)" "edges_timed (an_engine a)"
  shows "joined (o1, a) (join_stream join p (o1, a)) \<and>
     os_computeTrack (fst (join_stream join p (o1, a))) =
       (os_computeTrack o1)(es_id (base (ge_streams (an_engine a) p)) := None) \<and>
     (\<forall>k. os_computeTrack o1 (es_id (base (ge_streams (an_engine a) p))) = Some k \<longrightarrow>
        nd_streamId (an_node a k) \<noteq> nd_streamId (an_node a join) \<longrightarrow>
        getEdge k join (an_engine (snd (join_stream join p (o1, a)))) \<noteq> None)"
proof -
  have new: "an_engine (snd (an_newEdge x y z a)) = snd (newEdge x y z None (an_engine a))" for x y z
    by (simp add: an_newEdge_def newEdge_def Let_def)
  show ?thesis
    using grown_refl [OF assms] grown_newEdge [OF assms] newEdge_found [OF assms(1)]
    by (auto simp: joined_def join_stream_def Let_def setOmpCompute_def getOmpCompute_def new newEdge_fields(3) split: option.splits)
qed

lemma join_streams_ok:
  assumes "engine_ok (an_engine (snd s))" "edges_timed (an_engine (snd s))"
  defines "id_of p \<equiv> es_id (base (ge_streams (an_engine (snd s)) p))"
  shows "joined s (fold (join_stream join) ps s) \<and>
     (\<forall>p\<in>set ps. os_computeTrack (fst (fold (join_stream join) ps s)) (id_of p) = None \<and>
       (\<forall>k. os_computeTrack (fst s) (id_of p) = Some k \<longrightarrow> nd_streamId (an_node (snd s) k) \<noteq> nd_streamId (an_node (snd s) join) \<longrightarrow>
          getEdge k join (an_engine (snd (fold (join_stream join) ps s))) \<noteq> None)) \<and>
     (\<forall>i. i \<notin> id_of ` set ps \<longrightarrow> os_computeTrack (fst (fold (join_stream join) ps s)) i = os_computeTrack (fst s) i)"
  using assms(1,2) unfolding id_of_def
proof (induction ps arbitrary: s)
  case Nil
  then show ?case
    using grown_refl by (simp add: joined_def)
next
  case (Cons p ps)
  obtain o1 a where s: "s = (o1, a)"
    by (cases s)
  let ?t = "join_stream join p s"
  have st: "joined s ?t" "os_computeTrack (fst ?t) = (os_computeTrack (fst s))(es_id (base (ge_streams (an_engine (snd s)) p)) := None)"
    "\<And>k. os_computeTrack (fst s) (es_id (base (ge_streams (an_engine (snd s)) p))) = Some k \<Longrightarrow>
        nd_streamId (an_node (snd s) k) \<noteq> nd_streamId (an_node (snd s) join) \<Longrightarrow> getEdge k join (an_engine (snd ?t)) \<noteq> None"
    using join_stream_ok [of a o1 join p] Cons(2,3) s by auto
  have g: "engine_ok (an_engine (snd ?t))" "edges_timed (an_engine (snd ?t))" "ge_streams (an_engine (snd ?t)) = ge_streams (an_engine (snd s))"
    using st(1) by (simp_all add: joined_def grown_def)
  note IH = Cons(1) [OF g(1,2)]
  let ?u = "fold (join_stream join) ps ?t"
  have j: "joined s ?u"
    using IH st(1) grown_trans unfolding joined_def by (metis (no_types, lifting))
  have keep: "getEdge k join (an_engine (snd ?t)) \<noteq> None \<Longrightarrow> getEdge k join (an_engine (snd ?u)) \<noteq> None" for k
    using IH by (simp add: joined_def grown_def)
  have "os_computeTrack (fst ?u) (es_id (base (ge_streams (an_engine (snd s)) q))) = None \<and>
      (\<forall>k. os_computeTrack (fst s) (es_id (base (ge_streams (an_engine (snd s)) q))) = Some k \<longrightarrow>
        nd_streamId (an_node (snd s) k) \<noteq> nd_streamId (an_node (snd s) join) \<longrightarrow> getEdge k join (an_engine (snd ?u)) \<noteq> None)"
    if q: "q \<in> set (p # ps)" for q
  proof (cases "es_id (base (ge_streams (an_engine (snd s)) q)) = es_id (base (ge_streams (an_engine (snd s)) p))")
    case True
    have "os_computeTrack (fst ?u) (es_id (base (ge_streams (an_engine (snd s)) p))) = None"
      using IH st(2) unfolding g(3) by (cases "es_id (base (ge_streams (an_engine (snd s)) p)) \<in>
        (\<lambda>p. es_id (base (ge_streams (an_engine (snd s)) p))) ` set ps") auto
    then show ?thesis
      using st(3) keep True by auto
  next
    case False
    then have "q \<in> set ps"
      using q by auto
    moreover have "an_node (snd ?t) = an_node (snd s)"
      using st(1) by (simp add: joined_def)
    ultimately show ?thesis
      using IH st(2) False unfolding g(3) by simp
  qed
  moreover have "os_computeTrack (fst ?u) i = os_computeTrack (fst s) i"
    if "i \<notin> (\<lambda>p. es_id (base (ge_streams (an_engine (snd s)) p))) ` set (p # ps)" for i
    using IH st(2) that unfolding g(3) by simp
  ultimately show ?case
    using j by simp
qed

text \<open>At the join of a parallel region whose function is the one of the innermost fork, the rule returns
  and takes the fork from the stack; the last compute node of every host stream that is not the one of
  the join has an edge to the join, and no host stream has an active compute node any more.\<close>
lemma join_collects_threads:
  assumes "engine_ok (an_engine a)" "edges_timed (an_engine a)" "isOMPForkJoin (an_node a join)" "\<not> isEnter (an_node a join)"
    and "os_forkJoinStack o1 = fork # forks" "nd_functionId (an_node a fork) = nd_functionId (an_node a join)"
  shows "\<exists>o' a'. OMPForkJoinRule join (o1, a) = ret (True, o', a') \<and> os_forkJoinStack o' = forks \<and>
     (\<forall>p\<in>set (sg_hostStreams (ge_group (an_engine a))). let i = es_id (base (ge_streams (an_engine a) p)) in
        getOmpCompute i o' = None \<and>
        (\<forall>k. getOmpCompute i o1 = Some k \<longrightarrow> nd_streamId (an_node a k) \<noteq> nd_streamId (an_node a join) \<longrightarrow>
           getEdge k join (an_engine a') \<noteq> None))"
proof -
  let ?a = "count_activity STAT_OMP_JOIN a"
  have q: "an_engine ?a = an_engine a"
    by (simp add: count_activity_def)
  let ?r = "fold (join_stream join) (sg_hostStreams (ge_group (an_engine a))) (o1, ?a)"
  obtain o2 b where r: "?r = (o2, b)"
    by fastforce
  have j: "os_forkJoinStack o2 = fork # forks"
    "\<And>p. p \<in> set (sg_hostStreams (ge_group (an_engine a))) \<Longrightarrow>
       os_computeTrack o2 (es_id (base (ge_streams (an_engine a) p))) = None \<and>
       (\<forall>k. os_computeTrack o1 (es_id (base (ge_streams (an_engine a) p))) = Some k \<longrightarrow>
          nd_streamId (an_node a k) \<noteq> nd_streamId (an_node a join) \<longrightarrow> getEdge k join (an_engine b) \<noteq> None)"
    using join_streams_ok [of "(o1, ?a)" join "sg_hostStreams (ge_group (an_engine a))"] assms(1,2,5)
    by (simp_all add: q r joined_def)
  have "OMPForkJoinRule join (o1, a) = ret (True, o2\<lparr>os_forkJoinStack := forks\<rparr>, b)"
    using assms(3-6) r j(1) by (simp add: OMPForkJoinRule_def Let_def q getInnerMostFork_def popFork_def)
  then show ?thesis
    using j(2) by (intro exI [of _ "o2\<lparr>os_forkJoinStack := forks\<rparr>"] exI [of _ b]) (simp add: getOmpCompute_def Let_def)
qed

definition join_node :: graph_node where
  "join_node = (fst (GraphNode_new 4 4 60 7 ''parallel'' PARADIGM_OMP RECORD_LEAVE OMP_FORKJOIN))"

definition join_analysis :: analysis where
  "join_analysis = AnalysisEngine_new 0 1 0 False (chain_engine\<lparr>ge_heap := demo_heap(4 := join_node),
     ge_group := (ge_group chain_engine)\<lparr>sg_hostStreams := [0]\<rparr>\<rparr>)"

section \<open>The callers of a barrier\<close>

text \<open>When every caller comes before its callees in some measure, the search for the region returns: a
  parallel region, or a node without caller.\<close>

lemma outer_region_returns:
  fixes f :: "node_ref \<Rightarrow> nat"
  assumes "\<And>n c. gn_caller (h n) = Some c \<Longrightarrow> f c < f n"
  shows "\<exists>r. outer_region h n = Some r \<and> (isOMPParallel (h r) \<or> gn_caller (h r) = None)"
proof (induction n rule: measure_induct_rule [where f = f])
  case (less n)
  show ?case
  proof (cases "gn_caller (h n)")
    case None
    then show ?thesis
      by (subst outer_region.simps) simp
  next
    case (Some c)
    then show ?thesis
      using less [OF assms [OF Some]] by (subst outer_region.simps) auto
  qed
qed

section \<open>Parallel regions on devices\<close>

text \<open>The state of the OpenMP analysis while a trace is read; the other parts of the analysis may change
  between two events.\<close>

inductive omp_reading :: "omp_state \<Rightarrow> analysis \<Rightarrow> bool" where
  start: "omp_reading AnalysisParadigmOMP_new a"
| other: "omp_reading o1 a \<Longrightarrow> omp_reading o1 b"
| enter: "omp_reading o1 a \<Longrightarrow> omp_handlePostEnter n (o1, a) = (o2, b) \<Longrightarrow> omp_reading o2 b"
| leave: "omp_reading o1 a \<Longrightarrow> omp_handlePostLeave fuel n (o1, a) = ret (o2, b) \<Longrightarrow> omp_reading o2 b"
| attributes: "omp_reading o1 a \<Longrightarrow> omp_handleKeyValuesEnter d p n (o1, a) = ret (o2, b) \<Longrightarrow> omp_reading o2 b"

lemma ret_bind: "bind_fuel r f = ret y \<longleftrightarrow> (\<exists>x. r = ret x \<and> f x = ret y)"
  by (simp add: ret_def bind_fuel_Inr)

lemma ret_inject: "ret x = ret y \<longleftrightarrow> x = y"
  by (simp add: ret_def)

lemma not_ret [simp]: "fail e \<noteq> ret x" "None \<noteq> ret x"
  by (simp_all add: ret_def fail_def)

lemma deref_ret: "deref p f = ret y \<longleftrightarrow> (\<exists>x. p = Some x \<and> f x = ret y)"
  by (cases p) (simp_all add: deref_def)

lemma with_stream_ret:
  "with_stream i a f = ret y \<longleftrightarrow> (\<exists>p. getStream i (ge_group (an_engine a)) = Some p \<and> f (base (ge_streams (an_engine a) p)) = ret y)"
  by (simp add: with_stream_def deref_ret)

lemma choose_map_device [simp]: "os_deviceParallelId (choose_map d o1) = os_deviceParallelId o1"
  by (simp add: choose_map_def)

lemma omptBarrierRule_device:
  "omptBarrierRule n (o1, a) = ret (o2, b) \<Longrightarrow> os_deviceParallelId o2 = os_deviceParallelId o1"
  by (auto simp: omptBarrierRule_def ret_bind count_barrier_def add_barrier_def Let_def split: if_splits option.splits prod.splits)

lemma close_parallel_id_device:
  "close_parallel_id n (o1, a) = ret (o2, b) \<Longrightarrow> os_deviceParallelId o2 = os_deviceParallelId o1"
  by (auto simp: close_parallel_id_def ret_bind with_stream_ret Let_def split: option.splits)

lemma omptParallelRule_device:
  "omptParallelRule fuel n (o1, a) = ret (o2, b) \<Longrightarrow> os_deviceParallelId o2 = os_deviceParallelId o1"
  by (auto simp: omptParallelRule_def ret_bind close_region_def split: if_splits option.splits
      dest!: close_parallel_id_device)

lemma enter_region_device:
  "enter_region n p (o1, a) = ret (o2, b) \<Longrightarrow> os_deviceParallelId o2 = os_deviceParallelId o1"
  by (auto simp: enter_region_def ret_bind with_stream_ret Let_def split: if_splits option.splits prod.splits)

lemma enter_worker_device:
  "enter_worker n p (o1, a) = ret (o2, b) \<Longrightarrow> os_deviceParallelId o2 = os_deviceParallelId o1"
  by (auto simp: enter_worker_def ret_bind with_stream_ret Let_def split: if_splits option.splits prod.splits)

lemma omp_handlePostLeave_device:
  assumes "omp_handlePostLeave fuel n (o1, a) = ret (o2, b)"
  shows "os_deviceParallelId o2 = os_deviceParallelId o1"
  using assms by (auto simp: omp_handlePostLeave_def Let_def ret_bind split: if_splits
      dest!: omptBarrierRule_device omptParallelRule_device)

lemma omp_reading_device: "omp_reading o1 a \<Longrightarrow> os_deviceParallelId o1 = Map.empty"
proof (induction rule: omp_reading.induct)
  case (start a)
  then show ?case
    by (simp add: AnalysisParadigmOMP_new_def)
next
  case (enter o1 a n o2 b)
  then show ?case
    by (auto simp: omp_handlePostEnter_def split: if_splits)
next
  case (leave o1 a fuel n o2 b)
  then show ?case
    using omp_handlePostLeave_device by metis
next
  case (attributes o1 a d p n o2 b)
  then show ?case
    by (auto simp: omp_handleKeyValuesEnter_def Let_def split: if_splits option.splits
        dest: enter_region_device enter_worker_device)
qed simp

text \<open>While a trace is read, entering a parallel region on a device stream forgets every open parallel
  region of the host: the map of the regions of the devices is always empty, and it is copied over the
  map of the host, which then holds the new region only.\<close>
lemma device_region_forgets_host:
  assumes "omp_reading o1 a" "getStream (nd_streamId (an_node a n)) (ge_group (an_engine a)) = Some p"
    and "isDeviceStream (base (ge_streams (an_engine a) p))" "haveParadigm PARADIGM_OMPT a" "isOMPParallel (an_node a n)"
    and "omp_handleKeyValuesEnter None (Some i) n (o1, a) = ret (o2, b)"
  shows "os_deviceParallelId o2 = Map.empty \<and> os_parallelId o2 = [i \<mapsto> n]"
proof -
  have "enter_region n i (o1, a) = ret (o2, b)"
    using assms(4-6) by (simp add: omp_handleKeyValuesEnter_def)
  then show ?thesis
    using assms(2,3) omp_reading_device [OF assms(1)] enter_region_device [of n i o1 a o2 b]
    by (auto simp: enter_region_def with_stream_ret choose_map_def ret_bind Let_def split: option.splits prod.splits)
qed

text \<open>A region on a host stream, and then one on a device stream.\<close>

definition region_node :: graph_node where
  "region_node = fst (GraphNode_new 3 3 30 2 ''parallel'' PARADIGM_OMP RECORD_ENTER OMP_PARALLEL)"

definition region_analysis :: "u32 \<Rightarrow> analysis" where
  "region_analysis t = (AnalysisEngine_new 0 1 0 False (chain_engine\<lparr>ge_heap := (\<lambda>_. region_node),
     ge_streams := (\<lambda>_. Host_Obj (EventStream_new 2 0 ''stream'' t))\<rparr>))\<lparr>an_availableParadigms := PARADIGM_OMPT\<rparr>"

lemma region_analysis_simps [simp]:
  "an_engine (region_analysis t) = chain_engine\<lparr>ge_heap := (\<lambda>_. region_node),
     ge_streams := (\<lambda>_. Host_Obj (EventStream_new 2 0 ''stream'' t))\<rparr>"
  "haveParadigm PARADIGM_OMPT (region_analysis t)"
  by (simp_all add: region_analysis_def AnalysisEngine_new_def haveParadigm_def PARADIGM_OMPT_def PARADIGM_MPI_def has_flag_def)

lemma region_node_simps [simp]: "nd_streamId region_node = 2" "isOMPParallel region_node"
  by (simp_all add: region_node_def GraphNode_new_def Node_new_def node.defs graph_node.defs node_preds node_bits has_flag_def)

lemma region_entered:
  "os_openWorkers o1 = Map.empty \<Longrightarrow> \<exists>b. omp_handleKeyValuesEnter None (Some i) n (o1, region_analysis t) =
     ret ((choose_map (isDeviceStream (EventStream_new 2 0 ''stream'' t)) o1)
       \<lparr>os_parallelId := (os_parallelId (choose_map (isDeviceStream (EventStream_new 2 0 ''stream'' t)) o1))(i \<mapsto> n)\<rparr>, b)"
  by (simp add: omp_handleKeyValuesEnter_def enter_region_def with_stream_def Let_def choose_map_def)

end
