(* ===== verification/OffloadModel.thy ===== *)
theory OffloadModel
  imports OmptLaws
begin

text \<open>The state of the offload analysis (\<^verbatim>\<open>AnalysisParadigmOffload\<close>): the kernel launches that wait for
  their kernels, the device events, and what the rules remember between two kernels. The members a
  constructor leaves uninitialised are arguments of it; a cast of a node to an event node reads the
  store of event nodes, and is undefined for another node.\<close>

section \<open>Event nodes\<close>

datatype function_result = FR_UNKNOWN | FR_SUCCESS

record event_node =
  ev_id :: u64
  ev_result :: function_result

type_synonym event_store = "node_ref \<rightharpoonup> event_node"

definition newEventNode ::
  "u64 \<Rightarrow> u64 \<Rightarrow> u64 \<Rightarrow> function_result \<Rightarrow> string \<Rightarrow> u32 \<Rightarrow> record_type \<Rightarrow> u32 \<Rightarrow> engine \<times> event_store \<Rightarrow>
   node_ref \<times> engine \<times> event_store" where
  "newEventNode time streamId eventId fResult name paradigm recordType nodeType s = (case s of (g, ev) \<Rightarrow>
    (case newGraphNode time streamId name paradigm recordType nodeType g of
       (n, g) \<Rightarrow> (n, g, ev(n \<mapsto> \<lparr>ev_id = eventId, ev_result = fResult\<rparr>))))"

definition addNewEventNode ::
  "u32 \<Rightarrow> u64 \<Rightarrow> u64 \<Rightarrow> function_result \<Rightarrow> stream_ref \<Rightarrow> string \<Rightarrow> u32 \<Rightarrow> record_type \<Rightarrow> u32 \<Rightarrow> engine \<times> event_store \<Rightarrow>
   (node_ref \<times> engine \<times> event_store) result" where
  "addNewEventNode linkKernels time eventId fResult stream name paradigm recordType nodeType s =
    (case newEventNode time (es_id (base (ge_streams (fst s) stream))) eventId fResult name paradigm recordType nodeType s of
       (n, g, ev) \<Rightarrow> bind_res (addNewGraphNodeInternal linkKernels n stream g) (\<lambda>g. Inr (n, g, ev)))"

definition as_event :: "event_store \<Rightarrow> node_ref \<Rightarrow> (event_node \<Rightarrow> 'b step) \<Rightarrow> 'b step" where
  "as_event ev n f = (case ev n of None \<Rightarrow> fail Out_Of_Bounds | Some e \<Rightarrow> f e)"

lemma as_event_simps [simp]: "ev n = Some e \<Longrightarrow> as_event ev n f = f e"
  by (simp add: as_event_def)

section \<open>State\<close>

record offload_options =
  oo_linkKernels :: int
  oo_ignoreCUDAevents :: bool
  oo_blame4deviceIdle :: bool

record offload_state =
  of_activeTasks :: "8 word"
  of_idleStart :: u64
  of_oKernelEnter :: "node_ref option"
  of_overlapStart :: u64
  of_delay500us :: u64
  of_pendingKernels :: u64
  of_eventLaunch :: "u64 \<rightharpoonup> node_ref"
  of_eventQuery :: "u64 \<rightharpoonup> node_ref"
  of_streamWait :: "u64 \<rightharpoonup> node_ref list"
  of_eventProcess :: "u64 \<rightharpoonup> u64"
  of_nullStreamWaits :: "(node_ref \<times> u32 set) list"
  of_launches :: "(u64, node_ref list) smap"

text \<open>The constructor sets the counter of active tasks and the delay only with the option for idle
  devices, and never the start of the idle time. The delay is 0.0005 of the ticks of a second.\<close>

definition AnalysisParadigmOffload_new :: "offload_options \<Rightarrow> 8 word \<Rightarrow> u64 \<Rightarrow> u64 \<Rightarrow> engine \<Rightarrow> offload_state" where
  "AnalysisParadigmOffload_new opts activeTasks idleStart delay s =
    \<lparr>of_activeTasks = (if oo_blame4deviceIdle opts then 0 else activeTasks), of_idleStart = idleStart,
     of_oKernelEnter = None, of_overlapStart = 0,
     of_delay500us = (if oo_blame4deviceIdle opts then ge_ticksPerSecond s div 2000 else delay),
     of_pendingKernels = 0, of_eventLaunch = Map.empty, of_eventQuery = Map.empty, of_streamWait = Map.empty,
     of_eventProcess = Map.empty, of_nullStreamWaits = [], of_launches = []\<rparr>"

definition offload_reset :: "offload_state \<Rightarrow> offload_state" where
  "offload_reset o1 = (if of_eventLaunch o1 \<noteq> Map.empty then o1\<lparr>of_eventLaunch := Map.empty\<rparr> else o1)"

lemma offload_reset_code [code]: "offload_reset o1 = o1\<lparr>of_eventLaunch := Map.empty\<rparr>"
  by (cases o1) (simp add: offload_reset_def)

section \<open>Kernel launches\<close>

definition launches_of :: "u64 \<Rightarrow> offload_state \<Rightarrow> node_ref list" where
  "launches_of i o1 = (case map_of (of_launches o1) i of None \<Rightarrow> [] | Some ns \<Rightarrow> ns)"

definition addPendingKernelLaunch :: "heap \<Rightarrow> node_ref \<Rightarrow> offload_state \<Rightarrow> offload_state result" where
  "addPendingKernelLaunch h launch o1 = (case gn_first (h launch) of
      None \<Rightarrow> Inl Null_Dereference
    | Some enter \<Rightarrow>
        (let i = nd_referencedStream (h enter) in
         Inr (o1\<lparr>of_launches := smap_update i (launches_of i o1 @ [launch]) (of_launches o1)\<rparr>)))"

definition consumeFirstPendingKernelLaunchEnter ::
  "heap \<Rightarrow> u64 \<Rightarrow> offload_state \<Rightarrow> node_ref option \<times> offload_state" where
  "consumeFirstPendingKernelLaunchEnter h i o1 = (case map_of (of_launches o1) i of
      None \<Rightarrow> (None, o1)
    | Some ns \<Rightarrow>
        (case dropWhile (\<lambda>n. isLeave (h n)) ns of
           [] \<Rightarrow> (None, o1)
         | k # ks \<Rightarrow>
             (Some k, o1\<lparr>of_launches := smap_update i (takeWhile (\<lambda>n. isLeave (h n)) ns @ ks) (of_launches o1)\<rparr>)))"

text \<open>The last launch of a list, which is walked from its end, and the latest one over all lists.\<close>

fun last_launch :: "heap \<Rightarrow> u64 \<Rightarrow> u64 \<Rightarrow> node_ref list \<Rightarrow> node_ref option result" where
  "last_launch h timestamp device [] = Inr None"
| "last_launch h timestamp device (n # ns) =
    (if isEnter (h n) then last_launch h timestamp device ns
     else case gn_first (h n) of
       None \<Rightarrow> Inl Null_Dereference
     | Some enter \<Rightarrow>
         if nd_referencedStream (h enter) = device \<and> nd_time (h n) \<le> timestamp then Inr (Some n)
         else last_launch h timestamp device ns)"

fun latest_launch :: "heap \<Rightarrow> u64 \<Rightarrow> u64 \<Rightarrow> node_ref list list \<Rightarrow> node_ref option \<Rightarrow> node_ref option result" where
  "latest_launch h timestamp device [] best = Inr best"
| "latest_launch h timestamp device (ns # nss) best =
    bind_res (last_launch h timestamp device (rev ns)) (\<lambda>l.
      latest_launch h timestamp device nss
        (case (l, best) of
           (None, _) \<Rightarrow> best
         | (Some n, None) \<Rightarrow> Some n
         | (Some n, Some b) \<Rightarrow> if nd_time (h n) > nd_time (h b) then Some n else Some b))"

definition getLastKernelLaunchLeave :: "heap \<Rightarrow> u64 \<Rightarrow> u64 \<Rightarrow> offload_state \<Rightarrow> node_ref option result" where
  "getLastKernelLaunchLeave h timestamp device o1 = latest_launch h timestamp device (map snd (of_launches o1)) None"

text \<open>The walk back along the edges of a stream to the first launch after a time.\<close>

function findFirstLaunchInIdle ::
  "heap \<Rightarrow> edge_heap \<Rightarrow> graph \<Rightarrow> u64 \<Rightarrow> node_ref option \<Rightarrow> node_ref \<Rightarrow> node_ref option result" where
  "findFirstLaunchInIdle h E g lower_bound firstLaunch current =
    (if \<not> nd_time (h current) > lower_bound then Inr firstLaunch
     else
       (let firstLaunch = (if isEnter (h current) \<and> isOffloadEnqueueKernel (h current) then Some current else firstLaunch) in
        bind_res (getInEdges current g) (\<lambda>es.
          case closest_intra h E es None of
            None \<Rightarrow> Inr firstLaunch
          | Some q \<Rightarrow>
              if nd_time (h q) < nd_time (h current) then findFirstLaunchInIdle h E g lower_bound firstLaunch q
              else Inr firstLaunch)))"
  by pat_completeness auto
termination
  by (relation "measure (\<lambda>(h, E, g, l, f, n). unat (nd_time (h n)))") (auto simp: word_less_nat_alt)

declare findFirstLaunchInIdle.simps [simp del]

definition removeKernelLaunch :: "heap \<Rightarrow> node_ref \<Rightarrow> offload_state \<Rightarrow> offload_state" where
  "removeKernelLaunch h n o1 = (case nd_link (h n) of
      None \<Rightarrow> o1
    | Some enter \<Rightarrow>
        (let i = nd_streamId (h n) in
         case map_of (of_launches o1) i of
           None \<Rightarrow> o1
         | Some ns \<Rightarrow>
             if ns = [] then o1
             else o1\<lparr>of_launches := smap_update i (filter (\<lambda>l. gn_second (h enter) \<noteq> Some l) ns) (of_launches o1)\<rparr>))"

definition clearKernelEnqueues :: "u64 \<Rightarrow> offload_state \<Rightarrow> offload_state" where
  "clearKernelEnqueues i o1 = (case map_of (of_launches o1) i of
      None \<Rightarrow> o1 | Some ns \<Rightarrow> if ns = [] then o1 else o1\<lparr>of_launches := smap_update i [] (of_launches o1)\<rparr>)"

text \<open>A kernel that no synchronisation has seen, or that has not ended.\<close>

definition isKernelPending :: "heap \<Rightarrow> node_ref \<Rightarrow> bool" where
  "isKernelPending h k =
    (if hasPartner (h k) then (case gn_second (h k) of None \<Rightarrow> False | Some leave \<Rightarrow> nd_link (h leave) = None)
     else isEnter (h k))"

section \<open>While the trace is read\<close>

definition offload_handlePostEnter :: "heap \<Rightarrow> node_ref option \<Rightarrow> offload_state \<Rightarrow> offload_state result" where
  "offload_handlePostEnter h enter o1 = (case enter of
      None \<Rightarrow> Inr o1
    | Some n \<Rightarrow>
        if isOffloadEnqueueKernel (h n) then
          bind_res (addPendingKernelLaunch h n o1) (\<lambda>o1. Inr (o1\<lparr>of_pendingKernels := of_pendingKernels o1 + 1\<rparr>))
        else Inr o1)"

definition offload_handlePostLeave :: "offload_options \<Rightarrow> heap \<Rightarrow> node_ref option \<Rightarrow> offload_state \<Rightarrow> offload_state result" where
  "offload_handlePostLeave opts h leave o1 = (case leave of
      None \<Rightarrow> Inr o1
    | Some n \<Rightarrow>
        if isOffloadEnqueueKernel (h n) \<and> \<not> oo_ignoreCUDAevents opts then addPendingKernelLaunch h n o1
        else if isOffloadKernel (h n) then Inr (o1\<lparr>of_pendingKernels := of_pendingKernels o1 - 1\<rparr>)
        else Inr o1)"

text \<open>The attribute of a stream reference of CUDA and that of a queue reference of OpenCL.\<close>

definition stream_attribute :: "u64 option \<Rightarrow> u64 option \<Rightarrow> graph_node \<Rightarrow> u64 option" where
  "stream_attribute cudaStream openclQueue n =
    (if isCUDA n then cudaStream else if isOpenCL n then openclQueue else None)"

definition offload_handleKeyValuesEnter :: "u64 option \<Rightarrow> u64 option \<Rightarrow> node_ref \<Rightarrow> analysis \<Rightarrow> analysis" where
  "offload_handleKeyValuesEnter cudaStream openclQueue enter a =
    (case stream_attribute cudaStream openclQueue (an_node a enter) of
       None \<Rightarrow> a | Some r \<Rightarrow> update_node enter (setReferencedStreamId r) a)"

definition offload_handleKeyValuesLeave :: "u64 option \<Rightarrow> u64 option \<Rightarrow> node_ref \<Rightarrow> node_ref \<Rightarrow> analysis \<Rightarrow> analysis" where
  "offload_handleKeyValuesLeave cudaStream openclQueue leave enter a =
    (case stream_attribute cudaStream openclQueue (an_node a enter) of
       None \<Rightarrow> a | Some r \<Rightarrow> update_node enter (setReferencedStreamId r) (update_node leave (setReferencedStreamId r) a))"

section \<open>Device events\<close>

definition setLastEventLaunch :: "u64 \<Rightarrow> node_ref \<Rightarrow> offload_state \<Rightarrow> offload_state" where
  "setLastEventLaunch eventId n o1 = o1\<lparr>of_eventLaunch := (of_eventLaunch o1)(eventId \<mapsto> n)\<rparr>"

definition consumeLastEventLaunchLeave :: "u64 \<Rightarrow> offload_state \<Rightarrow> node_ref option \<times> offload_state" where
  "consumeLastEventLaunchLeave eventId o1 = (case of_eventLaunch o1 eventId of
      Some n \<Rightarrow> (Some n, o1\<lparr>of_eventLaunch := (of_eventLaunch o1)(eventId := None)\<rparr>) | None \<Rightarrow> (None, o1))"

definition getEventRecordLeave :: "u64 \<Rightarrow> offload_state \<Rightarrow> node_ref option" where
  "getEventRecordLeave eventId o1 = (case of_eventLaunch o1 eventId of Some n \<Rightarrow> Some n | None \<Rightarrow> None)"

definition addEventProcessId :: "u64 \<Rightarrow> u64 \<Rightarrow> offload_state \<Rightarrow> offload_state" where
  "addEventProcessId eventId i o1 = o1\<lparr>of_eventProcess := (of_eventProcess o1)(eventId \<mapsto> i)\<rparr>"

definition getEventProcessId :: "u64 \<Rightarrow> offload_state \<Rightarrow> u64" where
  "getEventProcessId eventId o1 = (case of_eventProcess o1 eventId of Some i \<Rightarrow> i | None \<Rightarrow> 0)"

text \<open>The wait of a stream for an event replaces an earlier one for the same event.\<close>

fun erase_event :: "event_store \<Rightarrow> u64 \<Rightarrow> node_ref list \<Rightarrow> node_ref list step" where
  "erase_event ev eventId [] = ret []"
| "erase_event ev eventId (n # ns) =
    as_event ev n (\<lambda>e. if ev_id e = eventId then ret ns
                        else bind_fuel (erase_event ev eventId ns) (\<lambda>ns. ret (n # ns)))"

definition addStreamWaitEvent ::
  "event_store \<Rightarrow> u64 \<Rightarrow> node_ref \<Rightarrow> offload_state \<times> analysis \<Rightarrow> (offload_state \<times> analysis) step" where
  "addStreamWaitEvent ev i waitLeave s = (case s of (o1, a) \<Rightarrow>
    (let st = ge_streams (an_engine a) in
     case getDeviceStream st i (ge_group (an_engine a)) of
       None \<Rightarrow> ret s
     | Some p \<Rightarrow>
         (case getDeviceNullStream (obj_deviceId (st p)) (ge_group (an_engine a)) of (nullStream, g) \<Rightarrow>
          (let a = a\<lparr>an_engine := (an_engine a)\<lparr>ge_group := g\<rparr>\<rparr> in
           if (case nullStream of None \<Rightarrow> False | Some q \<Rightarrow> es_id (base (st q)) = i)
           then ret (o1\<lparr>of_nullStreamWaits := (waitLeave, {}) # of_nullStreamWaits o1\<rparr>, a)
           else as_event ev waitLeave (\<lambda>e.
             bind_fuel (erase_event ev (ev_id e) (case of_streamWait o1 i of None \<Rightarrow> [] | Some ns \<Rightarrow> ns)) (\<lambda>ns.
             ret (o1\<lparr>of_streamWait := (of_streamWait o1)(i \<mapsto> ns @ [waitLeave])\<rparr>, a)))))))"

text \<open>The search in the waits on null streams. When all device streams have tagged a wait it is erased, and
  the iterator to it is used afterwards, which is undefined.\<close>

fun untagged_wait :: "nat \<Rightarrow> u32 \<Rightarrow> (node_ref \<times> u32 set) list \<Rightarrow> node_ref option step" where
  "untagged_wait numAllDevProcs i [] = ret None"
| "untagged_wait numAllDevProcs i ((n, tags) # ws) =
    (if card tags = numAllDevProcs then fail Out_Of_Bounds
     else if i \<notin> tags then ret (Some n) else untagged_wait numAllDevProcs i ws)"

definition getFirstStreamWaitEvent :: "u64 \<Rightarrow> offload_state \<times> analysis \<Rightarrow> node_ref option step" where
  "getFirstStreamWaitEvent i s = (case s of (o1, a) \<Rightarrow>
    (case of_streamWait o1 i of
       None \<Rightarrow> untagged_wait (length (sg_deviceStreams (ge_group (an_engine a)))) (ucast i) (of_nullStreamWaits o1)
     | Some [] \<Rightarrow> fail Out_Of_Bounds
     | Some (n # ns) \<Rightarrow> ret (Some n)))"

text \<open>The tag of the stream is a 32 bit number in the set, while the search for it is made with the whole
  number, converted to 32 bits as well.\<close>

fun tag_wait :: "nat \<Rightarrow> u32 \<Rightarrow> (node_ref \<times> u32 set) list \<Rightarrow> (node_ref option \<times> (node_ref \<times> u32 set) list) step" where
  "tag_wait numAllDevProcs i [] = ret (None, [])"
| "tag_wait numAllDevProcs i ((n, tags) # ws) =
    (if card tags = numAllDevProcs then fail Out_Of_Bounds
     else if i \<notin> tags then ret (Some n, (n, insert i tags) # ws)
     else bind_fuel (tag_wait numAllDevProcs i ws) (\<lambda>(r, ws). ret (r, (n, tags) # ws)))"

definition consumeFirstStreamWaitEvent ::
  "u64 \<Rightarrow> offload_state \<times> analysis \<Rightarrow> (node_ref option \<times> offload_state) step" where
  "consumeFirstStreamWaitEvent i s = (case s of (o1, a) \<Rightarrow>
    (case of_streamWait o1 i of
       None \<Rightarrow>
         bind_fuel (tag_wait (length (sg_deviceStreams (ge_group (an_engine a)))) (ucast i) (of_nullStreamWaits o1)) (\<lambda>(r, ws).
         ret (r, o1\<lparr>of_nullStreamWaits := ws\<rparr>))
     | Some [] \<Rightarrow> fail Out_Of_Bounds
     | Some (n # ns) \<Rightarrow>
         ret (Some n, o1\<lparr>of_streamWait := (of_streamWait o1)(i := if ns = [] then None else Some ns)\<rparr>)))"

text \<open>A query is linked to the previous query of the same event.\<close>

definition set_link :: "node_ref \<Rightarrow> node_ref option \<Rightarrow> analysis \<Rightarrow> analysis step" where
  "set_link n target a = (case setLink target (an_node a n) of
      Inl e \<Rightarrow> fail e | Inr x \<Rightarrow> ret (update_node n (\<lambda>_. x) a))"

definition linkEventQuery ::
  "event_store \<Rightarrow> node_ref \<Rightarrow> offload_state \<times> analysis \<Rightarrow> (offload_state \<times> analysis) step" where
  "linkEventQuery ev queryLeave s = (case s of (o1, a) \<Rightarrow>
    as_event ev queryLeave (\<lambda>e.
    bind_fuel (set_link queryLeave (of_eventQuery o1 (ev_id e)) a) (\<lambda>a.
    ret (o1\<lparr>of_eventQuery := (of_eventQuery o1)(ev_id e \<mapsto> queryLeave)\<rparr>, a))))"

definition removeEventQuery :: "u64 \<Rightarrow> offload_state \<Rightarrow> offload_state" where
  "removeEventQuery eventId o1 = o1\<lparr>of_eventQuery := (of_eventQuery o1)(eventId := None)\<rparr>"

end
