(* ===== verification/OffloadRules.thy ===== *)
theory OffloadRules
  imports OffloadModel
begin

text \<open>The dependencies between kernels and the rules of the offload analysis: \<^verbatim>\<open>KernelExecutionRule\<close>,
  \<^verbatim>\<open>SyncRule\<close>, \<^verbatim>\<open>DeviceIdleRule\<close> and \<^verbatim>\<open>KernelOverlapRule\<close>.\<close>

type_synonym offload_rule = "node_ref \<Rightarrow> offload_state \<times> analysis \<Rightarrow> (bool \<times> offload_state \<times> analysis) step"

section \<open>Steps of the offload rules\<close>

text \<open>A stream that is used as a device stream; another object behind the pointer is undefined.\<close>

definition with_device :: "stream_ref \<Rightarrow> analysis \<Rightarrow> (device_stream \<Rightarrow> 'b step) \<Rightarrow> 'b step" where
  "with_device p a f = (case ge_streams (an_engine a) p of Device_Obj d \<Rightarrow> f d | _ \<Rightarrow> fail Out_Of_Bounds)"

definition put_device :: "stream_ref \<Rightarrow> device_stream \<Rightarrow> analysis \<Rightarrow> analysis" where
  "put_device p d a = a\<lparr>an_engine := (an_engine a)\<lparr>ge_streams := (ge_streams (an_engine a))(p := Device_Obj d)\<rparr>\<rparr>"

definition update_device :: "stream_ref \<Rightarrow> (device_stream \<Rightarrow> device_stream) \<Rightarrow> analysis \<Rightarrow> analysis step" where
  "update_device p f a = with_device p a (\<lambda>d. ret (put_device p (f d) a))"

definition device_of :: "u64 \<Rightarrow> analysis \<Rightarrow> stream_ref option" where
  "device_of i a = getDeviceStream (ge_streams (an_engine a)) i (ge_group (an_engine a))"

definition add_value :: "nat \<Rightarrow> u64 \<Rightarrow> analysis \<Rightarrow> analysis step" where
  "add_value m v a = Some (bind_res (addStatValue m v (an_stats a)) (\<lambda>st. Inr (a\<lparr>an_stats := st\<rparr>)))"

definition blame_time :: "edge_ref \<Rightarrow> u64 \<Rightarrow> blame_reason \<Rightarrow> analysis \<Rightarrow> analysis" where
  "blame_time e t r a = a\<lparr>an_engine := blame_edge e (of_nat (unat t)) r (an_engine a)\<rparr>"

text \<open>The blame of an edge between two nodes, when there is one.\<close>

definition blame_between :: "node_ref \<Rightarrow> node_ref \<Rightarrow> u64 \<Rightarrow> blame_reason \<Rightarrow> analysis \<Rightarrow> analysis" where
  "blame_between source target t r a = (case getEdge source target (an_engine a) of
      None \<Rightarrow> a | Some e \<Rightarrow> blame_time e t r a)"

definition blocking_edge :: "node_ref \<Rightarrow> node_ref \<Rightarrow> analysis \<Rightarrow> analysis" where
  "blocking_edge enter leave a = (case getEdge enter leave (an_engine a) of
      Some e \<Rightarrow> block_edge e a | None \<Rightarrow> snd (an_newEdge enter leave True a))"

section \<open>Dependencies between kernels\<close>

definition edge_blocking :: "edge_ref \<Rightarrow> analysis \<Rightarrow> bool" where
  "edge_blocking e a \<longleftrightarrow> e_blocking (ge_edges (an_engine a) e)"

definition launch_edge :: "node_ref \<Rightarrow> node_ref \<Rightarrow> analysis \<Rightarrow> analysis" where
  "launch_edge launch enter a = (case getEdge launch enter (an_engine a) of
      Some _ \<Rightarrow> a
    | None \<Rightarrow> (case an_newEdge launch enter False a of (e, a) \<Rightarrow> if edge_blocking e a then unblock_edge e a else a))"

text \<open>One iteration of the loop, from the enter of a kernel: the enter of the preceding kernel to go on
  with, if any. Without a preceding kernel the code compares the link of the enter with itself and makes
  no edge.\<close>

definition kernel_step :: "int \<Rightarrow> u64 \<Rightarrow> node_ref \<Rightarrow> analysis \<Rightarrow> (node_ref option \<times> analysis) result" where
  "kernel_step linkKernels delay500us enter a =
    (let h = ge_heap (an_engine a); n = h enter in
     case gn_linkLeft n of
       None \<Rightarrow> Inr (None, a)
     | Some prevLeave \<Rightarrow>
         (case gn_first (h prevLeave) of
            None \<Rightarrow> Inr (None, a)
          | Some prevEnter \<Rightarrow>
              (case nd_link n of
                 None \<Rightarrow> Inl Null_Dereference
               | Some launch \<Rightarrow>
                   if nd_time (h prevEnter) > nd_time (h launch) \<or>
                      (nd_time n < nd_time (h prevLeave) \<and> nd_time n - nd_time (h launch) > delay500us \<and>
                       nd_time n - nd_time (h prevEnter) > delay500us) then
                     (case getEdge prevLeave enter (an_engine a) of
                        Some _ \<Rightarrow> Inr (Some prevEnter, a)
                      | None \<Rightarrow>
                          (case an_newEdge prevLeave enter False a of (e, a) \<Rightarrow>
                             if edge_blocking e a then
                               (if linkKernels > 1 then Inr (Some prevEnter, unblock_edge e a)
                                else Inr (None, launch_edge launch enter a))
                             else Inr (Some prevEnter, a)))
                   else Inr (None, launch_edge launch enter a))))"

text \<open>The loop follows the left links as long as the step tells it to.\<close>

partial_function (option) kernel_loop :: "int \<Rightarrow> u64 \<Rightarrow> node_ref \<Rightarrow> analysis \<Rightarrow> analysis result option" where
  "kernel_loop linkKernels delay500us enter a =
    (case kernel_step linkKernels delay500us enter a of
       Inl e \<Rightarrow> Some (Inl e)
     | Inr r \<Rightarrow> (case fst r of
                   None \<Rightarrow> Some (Inr (snd r))
                 | Some enter' \<Rightarrow> kernel_loop linkKernels delay500us enter' (snd r)))"

fun obj_lastPending :: "stream_obj \<Rightarrow> node_ref option" where
  "obj_lastPending (Device_Obj d) = getLastPendingKernel d"
| "obj_lastPending _ = None"

text \<open>The latest of the last pending kernels of all device streams.\<close>

definition later_kernel :: "heap \<Rightarrow> node_ref option \<Rightarrow> node_ref option \<Rightarrow> node_ref option" where
  "later_kernel h best l = (case (best, l) of
      (None, _) \<Rightarrow> l
    | (Some b, None) \<Rightarrow> best
    | (Some b, Some q) \<Rightarrow> if compareLess (h b) (h q) then Some q else best)"

definition last_pending :: "analysis \<Rightarrow> node_ref option" where
  "last_pending a = foldl (\<lambda>best p. later_kernel (ge_heap (an_engine a)) best (obj_lastPending (ge_streams (an_engine a) p)))
     None (sg_deviceStreams (ge_group (an_engine a)))"

definition createKernelDependencies ::
  "offload_options \<Rightarrow> u64 \<Rightarrow> node_ref option \<Rightarrow> analysis \<Rightarrow> analysis step" where
  "createKernelDependencies opts delay500us kernelNode a =
    (if oo_linkKernels opts = 0 then ret a
     else case (case kernelNode of Some k \<Rightarrow> Some k | None \<Rightarrow> last_pending a) of
       None \<Rightarrow> ret a
     | Some k \<Rightarrow> (case gn_first (an_node a k) of
                    None \<Rightarrow> ret a
                  | Some enter \<Rightarrow> kernel_loop (oo_linkKernels opts) delay500us enter a))"

section \<open>Blame along the shortest path\<close>

text \<open>The edges of the kernels on the path from a kernel back to a launch, their total time, and the time of
  the launch.\<close>

partial_function (option) kernel_path ::
  "engine \<Rightarrow> node_ref \<Rightarrow> edge_ref list \<Rightarrow> u64 \<Rightarrow> (u64 \<times> edge_ref list \<times> u64) result option" where
  "kernel_path s enter es time =
    (case getShortestInEdge enter s of
       None \<Rightarrow> Some (Inl Null_Dereference)
     | Some e \<Rightarrow>
         if isOffloadEnqueueKernel (ge_heap s (e_start (ge_edges s e)))
         then Some (Inr (nd_time (ge_heap s (e_start (ge_edges s e))), es, time))
         else (case gn_first (ge_heap s (e_start (ge_edges s e))) of
             None \<Rightarrow> Some (Inl Null_Dereference)
           | Some enter' \<Rightarrow>
               (case getEdge enter' (e_start (ge_edges s e)) s of
                  None \<Rightarrow> Some (Inl Null_Dereference)
                | Some k \<Rightarrow> kernel_path s enter' (es @ [k]) (time + e_duration (ge_edges s k)))))"

definition blame_share :: "u64 \<Rightarrow> u64 \<Rightarrow> blame_reason \<Rightarrow> edge_ref \<Rightarrow> engine \<Rightarrow> engine" where
  "blame_share totalBlame totalTime r e s =
    blame_edge e (of_nat (unat totalBlame) * of_nat (unat (e_duration (ge_edges s e))) / of_nat (unat totalTime)) r s"

text \<open>A path of no time divides by zero.\<close>

definition blameShortestPath :: "node_ref \<Rightarrow> u64 \<Rightarrow> blame_reason \<Rightarrow> engine \<Rightarrow> (u64 \<times> engine) step" where
  "blameShortestPath kernelLeave totalBlame reason s =
    deref (gn_first (ge_heap s kernelLeave)) (\<lambda>enter.
    deref (getEdge enter kernelLeave s) (\<lambda>e.
    bind_fuel (kernel_path s enter [e] (e_duration (ge_edges s e))) (\<lambda>(pathStart, es, totalTime).
      if totalTime = 0 then fail Division_By_Zero
      else ret (pathStart, fold (blame_share totalBlame totalTime reason) es s))))"

section \<open>Kernels\<close>

text \<open>The kernel of a launch that an event synchronisation has marked: the synchronisation waited for it.\<close>

definition deferred_wait :: "node_ref \<Rightarrow> node_ref \<Rightarrow> node_ref \<Rightarrow> node_ref \<Rightarrow> analysis \<Rightarrow> analysis" where
  "deferred_wait kernelEnter kernelLeave syncEnter syncLeave a =
    (let a = blocking_edge syncEnter syncLeave a;
         waitingTime = nd_time (an_node a syncLeave) - max (nd_time (an_node a syncEnter)) (nd_time (an_node a kernelEnter));
         a = update_node syncLeave (incCounter WAITING_TIME waitingTime) a
     in blame_between kernelEnter kernelLeave waitingTime REASON_OFLD_WAIT4DEVICE a)"

definition deferred_sync :: "node_ref \<Rightarrow> node_ref \<Rightarrow> stream_ref \<Rightarrow> analysis \<Rightarrow> analysis step" where
  "deferred_sync kernelEnter launch p a = (case gn_data (an_node a launch) of
      None \<Rightarrow> ret a
    | Some (Node_Data syncLeave) \<Rightarrow>
        if isOffloadWaitEvent (an_node a syncLeave) \<and> isLeave (an_node a syncLeave) then
          (let kernelLeave = gn_second (an_node a kernelEnter);
               a' = (case (gn_first (an_node a syncLeave), kernelLeave) of
                       (Some syncEnter, Some k) \<Rightarrow>
                         if nd_time (an_node a syncEnter) < nd_time (an_node a k)
                         then deferred_wait kernelEnter k syncEnter syncLeave a else a
                     | _ \<Rightarrow> a)
           in deref kernelLeave (\<lambda>k.
                update_device p (consumePendingKernels (Some k)) (snd (an_newEdge k syncLeave False a'))))
        else ret a
    | Some _ \<Rightarrow> fail Out_Of_Bounds)"

definition kernel_enter :: "node_ref \<Rightarrow> offload_state \<times> analysis \<Rightarrow> (bool \<times> offload_state \<times> analysis) step" where
  "kernel_enter n s = (case s of (o1, a) \<Rightarrow>
    (let a = count_activity STAT_OFLD_KERNEL a; i = nd_streamId (an_node a n) in
     case consumeFirstPendingKernelLaunchEnter (ge_heap (an_engine a)) i o1 of
       (None, o1) \<Rightarrow> ret (False, o1, a)
     | (Some launch, o1) \<Rightarrow>
         bind_fuel (set_link launch (Some n) a) (\<lambda>a.
         bind_fuel (set_link n (Some launch) a) (\<lambda>a.
         let a = snd (an_newEdge launch n False a) in
         deref (device_of i a) (\<lambda>p.
         bind_fuel (update_device p (setRunningKernel (Some n)) a) (\<lambda>a.
         bind_fuel (deferred_sync n launch p a) (\<lambda>a.
         ret (True, o1, a))))))))"

definition kernel_leave :: "node_ref \<Rightarrow> analysis \<Rightarrow> analysis step" where
  "kernel_leave n a =
    deref (device_of (nd_streamId (an_node a n)) a) (\<lambda>p.
    bind_fuel (if nd_link (an_node a n) = None then update_device p (addPendingKernel n) a else ret a) (\<lambda>a.
    update_device p (setRunningKernel None) a))"

definition KernelExecutionRule :: offload_rule where
  "KernelExecutionRule n s = (case s of (o1, a) \<Rightarrow>
    (if \<not> isOffloadKernel (an_node a n) then ret (False, s)
     else if isEnter (an_node a n) then kernel_enter n s
     else bind_fuel (kernel_leave n a) (\<lambda>a. ret (True, o1, a))))"

section \<open>Synchronisation\<close>

text \<open>The host waits for a kernel that ends after the synchronisation began.\<close>

definition early_block :: "node_ref \<Rightarrow> node_ref \<Rightarrow> u64 \<Rightarrow> analysis \<Rightarrow> analysis step" where
  "early_block syncEnter syncLeave t a =
    (let wait = (\<lambda>a. bind_fuel (add_stat OFLD_STAT_EARLY_BLOCKING_WAIT t a) (\<lambda>a.
                      ret (update_node syncLeave (incCounter WAITING_TIME t) a))) in
     case getEdge syncEnter syncLeave (an_engine a) of
       None \<Rightarrow> wait (snd (an_newEdge syncEnter syncLeave True a))
     | Some e \<Rightarrow> if \<not> edge_blocking e a then wait (block_edge e a) else ret a)"

definition wait_on :: "heap \<Rightarrow> node_ref \<Rightarrow> node_ref \<Rightarrow> node_ref \<Rightarrow> u64 \<Rightarrow> u64" where
  "wait_on h syncEnter syncLeave kernelLeave start =
    min (nd_time (h syncLeave)) (nd_time (h kernelLeave)) - max (nd_time (h syncEnter)) start"

definition early_sync ::
  "offload_options \<Rightarrow> node_ref \<Rightarrow> node_ref \<Rightarrow> node_ref \<Rightarrow> bool \<Rightarrow> analysis \<Rightarrow> analysis step" where
  "early_sync opts syncEnter syncLeave kernelLeave isLastKernel a =
    (let h = ge_heap (an_engine a); t = nd_time (h syncLeave) - nd_time (h syncEnter) in
     bind_fuel (if isLastKernel then
                  (let a = snd (an_newEdge kernelLeave syncLeave False a) in
                   if oo_linkKernels opts > 0 then
                     bind_fuel (blameShortestPath kernelLeave t REASON_OFLD_WAIT4DEVICE (an_engine a)) (\<lambda>(pathStart, s).
                     add_value OFLD_STAT_EARLY_BLOCKING_WTIME_KERNEL (wait_on h syncEnter syncLeave kernelLeave pathStart)
                       (a\<lparr>an_engine := s\<rparr>))
                   else ret a)
                else ret a) (\<lambda>a.
     bind_fuel (early_block syncEnter syncLeave t a) (\<lambda>a.
     bind_fuel (if oo_linkKernels opts = 0 then
                  deref (gn_first (an_node a kernelLeave)) (\<lambda>kernelEnter.
                    let w = wait_on (ge_heap (an_engine a)) syncEnter syncLeave kernelLeave (nd_time (an_node a kernelEnter)) in
                    bind_fuel (add_value OFLD_STAT_EARLY_BLOCKING_WTIME_KERNEL w a) (\<lambda>a.
                    ret (blame_between kernelEnter kernelLeave w REASON_OFLD_WAIT4DEVICE a)))
                else ret a) (\<lambda>a.
     set_link kernelLeave (Some syncLeave) a))))"

text \<open>The pending kernels of a stream from the last one; the loop takes a kernel out of the list before it looks
  at it, and stops at one that ended before the synchronisation began. The number is that of the pending
  kernels.\<close>

definition consume_kernel :: "stream_ref \<Rightarrow> analysis \<Rightarrow> (node_ref option \<times> analysis) step" where
  "consume_kernel p a = with_device p a (\<lambda>d. case consumeLastPendingKernel d of (k, d) \<Rightarrow> ret (k, put_device p d a))"

fun sync_pending ::
  "nat \<Rightarrow> offload_options \<Rightarrow> node_ref \<Rightarrow> node_ref \<Rightarrow> stream_ref \<Rightarrow> bool \<Rightarrow> bool \<Rightarrow> analysis \<Rightarrow> (bool \<times> analysis) step" where
  "sync_pending 0 opts syncEnter syncLeave p isLastKernel isLateSync a = ret (isLateSync, a)"
| "sync_pending (Suc n) opts syncEnter syncLeave p isLastKernel isLateSync a =
    bind_fuel (consume_kernel p a) (\<lambda>(k, a). case k of
        None \<Rightarrow> ret (isLateSync, a)
      | Some k \<Rightarrow>
          if nd_time (an_node a syncEnter) < nd_time (an_node a k) then
            bind_fuel (early_sync opts syncEnter syncLeave k isLastKernel a) (\<lambda>a.
            sync_pending n opts syncEnter syncLeave p False False a)
          else ret (isLateSync, a))"

definition sync_stream ::
  "offload_options \<Rightarrow> node_ref \<Rightarrow> node_ref \<Rightarrow> stream_ref \<Rightarrow> bool \<Rightarrow> analysis \<Rightarrow> (bool \<times> analysis) step" where
  "sync_stream opts syncEnter syncLeave p isLateSync a = with_device p a (\<lambda>d.
    let n = length (ds_pendingKernels d) in
    case (case ds_runningKernelEnter d of None \<Rightarrow> None | Some k \<Rightarrow> gn_second (an_node a k)) of
      None \<Rightarrow> sync_pending n opts syncEnter syncLeave p True isLateSync a
    | Some k \<Rightarrow>
        if nd_time (an_node a syncEnter) < nd_time (an_node a k) then
          bind_fuel (early_sync opts syncEnter syncLeave k True a) (\<lambda>a.
          sync_pending n opts syncEnter syncLeave p False False a)
        else ret (isLateSync, a))"

fun sync_streams ::
  "offload_options \<Rightarrow> node_ref \<Rightarrow> node_ref \<Rightarrow> stream_ref list \<Rightarrow> bool \<Rightarrow> analysis \<Rightarrow> (bool \<times> analysis) step" where
  "sync_streams opts syncEnter syncLeave [] isLateSync a = ret (isLateSync, a)"
| "sync_streams opts syncEnter syncLeave (p # ps) isLateSync a =
    bind_fuel (sync_stream opts syncEnter syncLeave p isLateSync a) (\<lambda>(isLateSync, a).
    sync_streams opts syncEnter syncLeave ps isLateSync a)"

text \<open>A late synchronisation: all kernels had ended. The kernels still in the lists are marked.\<close>

fun late_streams :: "node_ref \<Rightarrow> stream_ref list \<Rightarrow> analysis \<Rightarrow> analysis step" where
  "late_streams syncLeave [] a = ret a"
| "late_streams syncLeave (p # ps) a =
    with_device p a (\<lambda>d.
    bind_fuel (Some (setPendingKernelsSyncLink (Some syncLeave) (ge_heap (an_engine a)) d)) (\<lambda>h.
    late_streams syncLeave ps (put_device p (clearPendingKernels d) (a\<lparr>an_engine := (an_engine a)\<lparr>ge_heap := h\<rparr>\<rparr>))))"

definition late_sync :: "node_ref \<Rightarrow> node_ref \<Rightarrow> stream_ref list \<Rightarrow> analysis \<Rightarrow> analysis step" where
  "late_sync syncEnter syncLeave ps a =
    bind_fuel (late_streams syncLeave ps a) (\<lambda>a.
    let t = nd_time (an_node a syncLeave) - nd_time (an_node a syncEnter);
        a = update_node syncLeave (setCounter WAITING_TIME t) a in
    ret (case getEdge syncEnter syncLeave (an_engine a) of
           None \<Rightarrow> a
         | Some e \<Rightarrow> if isOffloadEnqueueTransfer (an_node a syncLeave)
                      then blame_time e t REASON_OFLD_BLOCKING_TRANSFER a else a))"

text \<open>The streams of a synchronisation, with the dependencies of their kernels.\<close>

definition sync_targets ::
  "offload_options \<Rightarrow> u64 \<Rightarrow> node_ref \<Rightarrow> node_ref option \<Rightarrow> analysis \<Rightarrow> (stream_ref list option \<times> analysis) step" where
  "sync_targets opts delay500us syncLeave syncEnter a =
    (if isOffloadWaitAll (an_node a syncLeave) then
       bind_fuel (createKernelDependencies opts delay500us None a) (\<lambda>b.
       ret (Some (sg_deviceStreams (ge_group (an_engine a))), b))
     else deref syncEnter (\<lambda>enter.
       let i = nd_referencedStream (an_node a enter) in
       if i = 0 then ret (None, a)
       else deref (device_of i a) (\<lambda>p. with_device p a (\<lambda>d.
         bind_fuel (createKernelDependencies opts delay500us (getLastPendingKernel d) a) (\<lambda>b.
         ret (Some [p], b))))))"

definition SyncRule :: "offload_options \<Rightarrow> offload_rule" where
  "SyncRule opts n s = (case s of (o1, a) \<Rightarrow>
    (if \<not> isOffloadWait (an_node a n) \<or> \<not> isLeave (an_node a n) then ret (False, s)
     else
       (let a = count_activity STAT_OFLD_SYNC a; syncEnter = gn_first (an_node a n) in
        bind_fuel (sync_targets opts (of_delay500us o1) n syncEnter a) (\<lambda>(targets, a).
        case targets of
          None \<Rightarrow> ret (False, o1, a)
        | Some ps \<Rightarrow> deref syncEnter (\<lambda>enter.
            bind_fuel (sync_streams opts enter n ps True a) (\<lambda>(isLateSync, a).
            bind_fuel (if isLateSync then late_sync enter n ps a else ret a) (\<lambda>a.
            ret (True, o1, a))))))))"

end
