(* ===== verification/OffloadEventRules.thy ===== *)
theory OffloadEventRules
  imports OffloadRules
begin

text \<open>The offload rules for idle devices and overlapping kernels (\<^verbatim>\<open>DeviceIdleRule\<close>, \<^verbatim>\<open>KernelOverlapRule\<close>), and
  those for CUDA events (\<^verbatim>\<open>EventLaunchRule\<close>, \<^verbatim>\<open>EventQueryRule\<close>, \<^verbatim>\<open>EventSyncRule\<close>,
  \<^verbatim>\<open>StreamWaitRule\<close>).\<close>

section \<open>Idle devices\<close>

text \<open>Blaming one host stream for the idle time of the devices. The time of an open region stays 0 in the code,
  so what it does with a remainder of the blame is never reached.\<close>

definition idle_start_node :: "heap \<Rightarrow> event_stream \<Rightarrow> node_ref option \<Rightarrow> u64 \<Rightarrow> node_ref option" where
  "idle_start_node h stream launch launchTime =
    (if (case launch of None \<Rightarrow> False | Some l \<Rightarrow> es_id stream = nd_streamId (h l)) then launch
     else case findLastNodeBefore h launchTime (es_nodes stream) of
       None \<Rightarrow> None
     | Some b \<Rightarrow> if b = hd (es_nodes stream) then None else Some b)"

definition blame_idle_stream ::
  "nat \<Rightarrow> u64 \<Rightarrow> node_ref option \<Rightarrow> u64 \<Rightarrow> stream_ref \<Rightarrow> analysis \<Rightarrow> analysis step" where
  "blame_idle_stream fuel idleStart launch launchTime p a =
    (let s = an_engine a; h = ge_heap s in
     case idle_start_node h (base (ge_streams s p)) launch launchTime of
       None \<Rightarrow> ret a
     | Some b \<Rightarrow>
         bind_fuel (Some (findFirstLaunchInIdle h (ge_edges s) (ge_graph s) idleStart None b)) (\<lambda>f.
         let b = (case f of Some x \<Rightarrow> x | None \<Rightarrow> b) in
         if isLeave (h b) \<and> isOffloadEnqueueKernel (h b) then ret a
         else if nd_time (h b) > idleStart then
           distribute fuel b (nd_time (h b) - idleStart) ofldStreamWalkCallback REASON_OFLD_DEVICE_IDLE a
         else ret a))"

fun blame_idle_streams ::
  "nat \<Rightarrow> u64 \<Rightarrow> node_ref option \<Rightarrow> u64 \<Rightarrow> stream_ref list \<Rightarrow> analysis \<Rightarrow> analysis step" where
  "blame_idle_streams fuel idleStart launch launchTime [] a = ret a"
| "blame_idle_streams fuel idleStart launch launchTime (p # ps) a =
    bind_fuel (blame_idle_stream fuel idleStart launch launchTime p a) (\<lambda>a.
    blame_idle_streams fuel idleStart launch launchTime ps a)"

text \<open>The counter of the active tasks is an unsigned number of 8 bits: the test for a negative one is never
  true.\<close>

definition idle_leave :: "u64 \<Rightarrow> offload_state \<Rightarrow> offload_state" where
  "idle_leave time o1 =
    (let o1 = o1\<lparr>of_activeTasks := of_activeTasks o1 - 1\<rparr> in
     if of_activeTasks o1 = 0 then o1\<lparr>of_idleStart := time\<rparr> else o1)"

definition DeviceIdleRule :: "nat \<Rightarrow> offload_rule" where
  "DeviceIdleRule fuel n s = (case s of (o1, a) \<Rightarrow>
    (if \<not> isOffloadKernel (an_node a n) then ret (False, s)
     else if isEnter (an_node a n) then
       (let done = o1\<lparr>of_activeTasks := of_activeTasks o1 + 1\<rparr> in
        if of_idleStart o1 = 0 then ret (True, done, a)
        else if of_activeTasks o1 = 0 then
          (let launch = nd_link (an_node a n);
               launchTime = (case launch of Some l \<Rightarrow> nd_time (an_node a l) | None \<Rightarrow> nd_time (an_node a n)) in
           bind_fuel (blame_idle_streams fuel (of_idleStart o1) launch launchTime
                        (sg_hostStreams (ge_group (an_engine a))) a) (\<lambda>a.
           ret (True, done, a)))
        else ret (True, done, a))
     else ret (True, idle_leave (nd_time (an_node a n)) o1, a)))"

section \<open>Overlapping kernels\<close>

text \<open>Whether the overlapping kernel is linked to the current one: the launch that is looked at is that of the
  current kernel.\<close>

datatype overlap = Failed | Keep | Link node_ref

definition better_link :: "heap \<Rightarrow> node_ref \<Rightarrow> node_ref \<Rightarrow> bool" where
  "better_link h oEnter k =
    (case gn_linkLeft (h oEnter) of
       None \<Rightarrow> True
     | Some l \<Rightarrow>
         (case (if \<not> isLeave (h l) then gn_second (h l) else Some l) of
            None \<Rightarrow> True
          | Some l \<Rightarrow> if nd_time (h l) > nd_time (h oEnter) then nd_time (h l) > nd_time (h k) else True))"

definition overlap_link :: "heap \<Rightarrow> u64 \<Rightarrow> node_ref \<Rightarrow> node_ref \<Rightarrow> overlap" where
  "overlap_link h delay500us oEnter k =
    (case gn_first (h k) of
       None \<Rightarrow> Failed
     | Some enter \<Rightarrow>
         (case gn_second (h oEnter) of
            None \<Rightarrow> Failed
          | Some oLeave \<Rightarrow>
              let start = nd_time (h enter); end = nd_time (h k); oStart = nd_time (h oEnter); oEnd = nd_time (h oLeave) in
              if start < oStart \<and> end > oStart \<and> end < oEnd \<and> end - oStart < oStart - start then
                (case nd_link (h enter) of
                   None \<Rightarrow> Failed
                 | Some launch \<Rightarrow>
                     (case gn_second (h launch) of
                        None \<Rightarrow> Failed
                      | Some launchLeave \<Rightarrow>
                          if oStart > nd_time (h launchLeave) \<and> oStart - nd_time (h launchLeave) > delay500us \<and>
                             better_link h oEnter k
                          then Link oEnter else Keep))
              else Keep))"

definition overlap_leave :: "node_ref \<Rightarrow> offload_state \<times> analysis \<Rightarrow> (bool \<times> offload_state \<times> analysis) step" where
  "overlap_leave n s = (case s of (o1, a) \<Rightarrow>
    bind_fuel (if of_activeTasks o1 > 0 then
                 bind_fuel (add_value STAT_OFLD_COMPUTE_OVERLAP_TIME
                    ((nd_time (an_node a n) - of_overlapStart o1) * ucast (of_activeTasks o1)) a) (\<lambda>a.
                 ret (o1\<lparr>of_overlapStart := nd_time (an_node a n)\<rparr>, a))
               else ret (o1, a)) (\<lambda>(o1, a).
    case of_oKernelEnter o1 of
      None \<Rightarrow> ret (True, o1, a)
    | Some oEnter \<Rightarrow>
        (case overlap_link (ge_heap (an_engine a)) (of_delay500us o1) oEnter n of
           Failed \<Rightarrow> ret (False, o1, a)
         | Keep \<Rightarrow> ret (True, o1, a)
         | Link k \<Rightarrow> ret (True, o1, a\<lparr>an_engine := (an_engine a)\<lparr>
                           ge_heap := setLinkLeft k (Some n) (ge_heap (an_engine a))\<rparr>\<rparr>))))"

definition overlap_enter :: "node_ref \<Rightarrow> offload_state \<times> analysis \<Rightarrow> (bool \<times> offload_state \<times> analysis) step" where
  "overlap_enter n s = (case s of (o1, a) \<Rightarrow>
    (if of_activeTasks o1 > 1 then
       bind_fuel (if of_activeTasks o1 > 2 then
                    add_value STAT_OFLD_COMPUTE_OVERLAP_TIME
                      ((nd_time (an_node a n) - of_overlapStart o1) * (ucast (of_activeTasks o1) - 2)) a
                  else ret a) (\<lambda>a.
       ret (True, o1\<lparr>of_overlapStart := nd_time (an_node a n), of_oKernelEnter := Some n\<rparr>, a))
     else ret (True, o1\<lparr>of_oKernelEnter := None\<rparr>, a)))"

definition KernelOverlapRule :: offload_rule where
  "KernelOverlapRule n s = (case s of (o1, a) \<Rightarrow>
    (if \<not> isOffloadKernel (an_node a n) then ret (False, s)
     else if isLeave (an_node a n) then overlap_leave n s
     else overlap_enter n s))"

section \<open>Recording and querying events\<close>

text \<open>The exceptions of this rule are made but not thrown: a missing stream is used, a host stream is kept.\<close>

definition EventLaunchRule :: "event_store \<Rightarrow> offload_rule" where
  "EventLaunchRule ev n s = (case s of (o1, a) \<Rightarrow>
    (if \<not> isCUDAEventLaunch (an_node a n) \<or> \<not> isLeave (an_node a n) then ret (False, s)
     else deref (getStream (nd_referencedStream (an_node a n)) (ge_group (an_engine a))) (\<lambda>p.
       as_event ev n (\<lambda>e.
         ret (True, setLastEventLaunch (ev_id e) n
                      (addEventProcessId (ev_id e) (es_id (base (ge_streams (an_engine a) p))) o1), a)))))"

definition query_step :: "node_ref \<Rightarrow> node_ref \<Rightarrow> node_ref \<Rightarrow> analysis \<Rightarrow> analysis step" where
  "query_step kernelEnter kernelLeave prev a =
    deref (gn_first (an_node a prev)) (\<lambda>enter.
      if nd_time (an_node a kernelEnter) \<le> nd_time (an_node a enter) then
        deref (gn_second (an_node a prev)) (\<lambda>leave.
          let a = (case getEdge enter leave (an_engine a) of Some e \<Rightarrow> block_edge e a | None \<Rightarrow> a);
              t = nd_time (an_node a leave) - nd_time (an_node a enter);
              a = update_node leave (incCounter WAITING_TIME t) a in
          add_stat OFLD_STAT_EARLY_TEST t (blame_between kernelEnter kernelLeave t REASON_OFLD_WAIT4DEVICE a))
      else ret a)"

text \<open>The loop over the earlier queries of the event follows their links.\<close>

partial_function (option) query_loop :: "node_ref \<Rightarrow> node_ref \<Rightarrow> node_ref \<Rightarrow> analysis \<Rightarrow> analysis result option" where
  "query_loop kernelEnter kernelLeave query a =
    (case nd_link (an_node a query) of
       None \<Rightarrow> Some (Inr a)
     | Some prev \<Rightarrow>
         (case query_step kernelEnter kernelLeave prev a of
            None \<Rightarrow> None
          | Some r \<Rightarrow> (case r of
                         Inl e \<Rightarrow> Some (Inl e)
                       | Inr a \<Rightarrow> query_loop kernelEnter kernelLeave prev a)))"

definition query_kernel :: "node_ref \<Rightarrow> u64 \<Rightarrow> node_ref \<Rightarrow> analysis \<Rightarrow> (bool \<times> analysis) step" where
  "query_kernel query device launchLeave a =
    deref (gn_first (an_node a launchLeave)) (\<lambda>launch.
      case nd_link (an_node a launch) of
        None \<Rightarrow> ret (False, a)
      | Some kernelEnter \<Rightarrow>
          (case gn_second (an_node a kernelEnter) of
             None \<Rightarrow> fail (Assertion_Failed ''EventQueryRule: No kernel leave!'')
           | Some kernelLeave \<Rightarrow>
               bind_fuel (query_loop kernelEnter kernelLeave query a) (\<lambda>a.
               let a = snd (an_newEdge kernelLeave query False a) in
               deref (getStream device (ge_group (an_engine a))) (\<lambda>p.
               bind_fuel (update_device p (consumePendingKernels (Some kernelLeave)) a) (\<lambda>a.
               ret (True, a))))))"

definition query_redundant :: "node_ref \<Rightarrow> analysis \<Rightarrow> analysis step" where
  "query_redundant query a = deref (gn_first (an_node a query)) (\<lambda>enter.
    let t = nd_time (an_node a query) - nd_time (an_node a enter);
        a = update_node query (incCounter WAITING_TIME t) a in
    ret (blame_between enter query t REASON_UNCLASSIFIED a))"

definition EventQueryRule :: "event_store \<Rightarrow> offload_rule" where
  "EventQueryRule ev n s = (case s of (o1, a) \<Rightarrow>
    (if \<not> isCUDAEventQuery (an_node a n) \<or> \<not> isLeave (an_node a n) then ret (False, s)
     else
       bind_fuel (linkEventQuery ev n s) (\<lambda>(o1, a). as_event ev n (\<lambda>e.
         if ev_result e = FR_UNKNOWN then ret (True, o1, a)
         else
           (let o1 = removeEventQuery (ev_id e) o1; device = getEventProcessId (ev_id e) o1 in
            if device = 0 then ret (False, o1, a)
            else case getEventRecordLeave (ev_id e) o1 of
              None \<Rightarrow> ret (False, o1, a)
            | Some record \<Rightarrow>
                deref (getPartner (an_node a record)) (\<lambda>p.
                bind_fuel (Some (getLastKernelLaunchLeave (ge_heap (an_engine a)) (nd_time (an_node a p)) device o1)) (\<lambda>l.
                case l of
                  Some launchLeave \<Rightarrow> bind_fuel (query_kernel n device launchLeave a) (\<lambda>(r, a). ret (r, o1, a))
                | None \<Rightarrow> bind_fuel (query_redundant n a) (\<lambda>a. ret (True, o1, a)))))))))"

section \<open>Waiting for an event\<close>

text \<open>The wait for one stream: whether the loop stops, and whether the rule applied.\<close>

datatype sync_result = Continue | Applied | Deferred

definition event_wait :: "node_ref \<Rightarrow> node_ref \<Rightarrow> node_ref \<Rightarrow> node_ref \<Rightarrow> analysis \<Rightarrow> analysis step" where
  "event_wait kernelEnter kernelLeave syncEnter syncLeave a =
    (let t = nd_time (an_node a syncLeave) - nd_time (an_node a syncEnter) in
     bind_fuel (case getEdge syncEnter syncLeave (an_engine a) of
                  Some e \<Rightarrow> if \<not> edge_blocking e a then add_stat OFLD_STAT_EARLY_BLOCKING_WAIT t (block_edge e a) else ret a
                | None \<Rightarrow> add_stat OFLD_STAT_EARLY_BLOCKING_WAIT t (snd (an_newEdge syncEnter syncLeave True a))) (\<lambda>a.
     let w = wait_on (ge_heap (an_engine a)) syncEnter syncLeave kernelLeave (nd_time (an_node a kernelEnter)) in
     bind_fuel (add_value OFLD_STAT_EARLY_BLOCKING_WTIME_KERNEL w a) (\<lambda>a.
     ret (blame_between kernelEnter kernelLeave w REASON_OFLD_WAIT4DEVICE
            (update_node syncLeave (incCounter WAITING_TIME w) a)))))"

definition event_kernel ::
  "offload_options \<Rightarrow> u64 \<Rightarrow> node_ref \<Rightarrow> node_ref option \<Rightarrow> node_ref \<Rightarrow> node_ref \<Rightarrow> analysis \<Rightarrow> analysis step" where
  "event_kernel opts delay500us syncLeave syncEnter kernelEnter kernelLeave a =
    bind_fuel (case syncEnter of
                 None \<Rightarrow> ret a
               | Some enter \<Rightarrow> if nd_time (an_node a enter) < nd_time (an_node a kernelLeave)
                               then event_wait kernelEnter kernelLeave enter syncLeave a else ret a) (\<lambda>a.
    bind_fuel (createKernelDependencies opts delay500us (Some kernelEnter) (snd (an_newEdge kernelLeave syncLeave False a))) (\<lambda>a.
    case device_of (nd_streamId (an_node a kernelLeave)) a of
      None \<Rightarrow> ret a
    | Some p \<Rightarrow> update_device p (consumePendingKernels (Some kernelLeave)) a))"

definition event_stream_sync ::
  "offload_options \<Rightarrow> node_ref \<Rightarrow> u64 \<Rightarrow> stream_ref \<Rightarrow> offload_state \<Rightarrow> analysis \<Rightarrow> (sync_result \<times> analysis) step" where
  "event_stream_sync opts n recordTime p o1 a =
    bind_fuel (Some (getLastKernelLaunchLeave (ge_heap (an_engine a)) recordTime
                       (es_id (base (ge_streams (an_engine a) p))) o1)) (\<lambda>l.
    case l of
      None \<Rightarrow> ret (Continue, a)
    | Some launchLeave \<Rightarrow>
        deref (gn_first (an_node a launchLeave)) (\<lambda>launch.
        case nd_link (an_node a launch) of
          None \<Rightarrow> ret (Deferred, update_node launch (setData (Some (Node_Data n))) a)
        | Some kernelEnter \<Rightarrow>
            (case gn_second (an_node a kernelEnter) of
               None \<Rightarrow> fail (Runtime_Error ''did not finish yet'')
             | Some kernelLeave \<Rightarrow>
                 bind_fuel (event_kernel opts (of_delay500us o1) n (gn_first (an_node a n)) kernelEnter kernelLeave a) (\<lambda>a.
                 ret (Applied, a)))))"

fun event_streams ::
  "offload_options \<Rightarrow> node_ref \<Rightarrow> u64 \<Rightarrow> stream_ref list \<Rightarrow> bool \<Rightarrow> offload_state \<Rightarrow> analysis \<Rightarrow> (bool option \<times> analysis) step" where
  "event_streams opts n recordTime [] applied o1 a = ret (Some applied, a)"
| "event_streams opts n recordTime (p # ps) applied o1 a =
    bind_fuel (event_stream_sync opts n recordTime p o1 a) (\<lambda>(r, a).
    case r of
      Deferred \<Rightarrow> ret (None, a)
    | Applied \<Rightarrow> event_streams opts n recordTime ps True o1 a
    | Continue \<Rightarrow> event_streams opts n recordTime ps applied o1 a)"

definition event_finish :: "node_ref \<Rightarrow> node_ref \<Rightarrow> bool \<Rightarrow> analysis \<Rightarrow> analysis step" where
  "event_finish n record applied a =
    bind_fuel (if applied then ret a
               else deref (gn_first (an_node a n)) (\<lambda>enter.
                 ret (update_node n (incCounter WAITING_TIME (nd_time (an_node a n) - nd_time (an_node a enter))) a))) (\<lambda>a.
    ret (update_node record (setData (Some (Node_Data n))) a))"

definition EventSyncRule :: "event_store \<Rightarrow> offload_options \<Rightarrow> offload_rule" where
  "EventSyncRule ev opts n s = (case s of (o1, a) \<Rightarrow>
    (if \<not> isCUDAEventSync (an_node a n) \<or> \<not> isLeave (an_node a n) then ret (False, s)
     else
       (let a = count_activity STAT_OFLD_SYNC_EVT a in as_event ev n (\<lambda>e.
        case getEventRecordLeave (ev_id e) o1 of
          None \<Rightarrow> ret (False, o1, a)
        | Some record \<Rightarrow>
            bind_fuel (set_link record None a) (\<lambda>a.
            case device_of (nd_referencedStream (an_node a record)) a of
              None \<Rightarrow> ret (False, o1, a)
            | Some p \<Rightarrow>
                (case gn_first (an_node a record) of
                   None \<Rightarrow> ret (False, o1, a)
                 | Some enter \<Rightarrow>
                     bind_fuel (event_streams opts n (nd_time (an_node a enter))
                         (if isDeviceNullStream (base (ge_streams (an_engine a) p))
                          then sg_deviceStreams (ge_group (an_engine a)) else [p]) False o1 a) (\<lambda>(r, a).
                     case r of
                       None \<Rightarrow> ret (False, o1, a)
                     | Some applied \<Rightarrow> bind_fuel (event_finish n record applied a) (\<lambda>a. ret (applied, o1, a)))))))))"

section \<open>Streams that wait for an event\<close>

record wait_scan =
  ws_processed :: "node_ref set"
  ws_enterTime :: u64
  ws_lastSync :: "node_ref option"
  ws_insert :: bool
  ws_matched :: bool

text \<open>One turn of the loop over the waits that refer to the stream of a kernel: whether the loop goes on.\<close>

definition depend_on ::
  "node_ref \<Rightarrow> node_ref \<Rightarrow> node_ref \<Rightarrow> node_ref \<Rightarrow> wait_scan \<times> analysis \<Rightarrow> wait_scan \<times> analysis" where
  "depend_on enter launch syncEnter syncLeave s = (case s of (w, a) \<Rightarrow>
    (let h = ge_heap (an_engine a);
         w = w\<lparr>ws_processed := insert syncLeave (ws_processed w), ws_matched := True\<rparr>;
         a = snd (an_newEdge syncLeave enter False a) in
     if nd_time (h launch) < nd_time (h syncLeave) then
       (w\<lparr>ws_enterTime := min (ws_enterTime w) (nd_time (h launch)),
          ws_lastSync := (case ws_lastSync w of
              None \<Rightarrow> Some syncLeave
            | Some l \<Rightarrow> if nd_time (h syncLeave) > nd_time (h l) then Some syncLeave else Some l),
          ws_insert := True\<rparr>,
        blame_between syncEnter syncLeave (nd_time (h syncLeave) - nd_time (h launch)) REASON_UNCLASSIFIED a)
     else (w, a)))"

definition stream_wait_step ::
  "node_ref \<Rightarrow> node_ref \<Rightarrow> node_ref \<Rightarrow> wait_scan \<times> offload_state \<times> analysis \<Rightarrow>
   (bool \<times> wait_scan \<times> offload_state \<times> analysis) step" where
  "stream_wait_step n enter launch s = (case s of (w, o1, a) \<Rightarrow>
    (let h = ge_heap (an_engine a); i = nd_streamId (h n) in
     bind_fuel (getFirstStreamWaitEvent i (o1, a)) (\<lambda>r. case r of
         None \<Rightarrow> ret (False, s)
       | Some waitLeave \<Rightarrow> deref (gn_first (h waitLeave)) (\<lambda>waitEnter.
           if nd_time (h waitEnter) > nd_time (h launch) then ret (False, s)
           else bind_fuel (consumeFirstStreamWaitEvent i (o1, a)) (\<lambda>(_, o1).
             case nd_link (h waitLeave) of
               None \<Rightarrow> ret (False, w, o1, a)
             | Some record \<Rightarrow>
                 if nd_referencedStream (h record) = 0 then ret (False, w, o1, a)
                 else case nd_link (h record) of
                   None \<Rightarrow> ret (False, w, o1, a)
                 | Some launchLeave \<Rightarrow>
                     deref (gn_first (h launchLeave)) (\<lambda>l.
                     case nd_link (h l) of
                       None \<Rightarrow> fail (Runtime_Error ''Depending kernel started before kernel started'')
                     | Some syncEnter \<Rightarrow>
                         (case gn_second (h syncEnter) of
                            None \<Rightarrow> fail (Runtime_Error ''Depending kernel started before kernel finished'')
                          | Some syncLeave \<Rightarrow>
                              if syncLeave \<in> ws_processed w then ret (False, w, o1, a)
                              else (case depend_on enter launch syncEnter syncLeave (w, a) of
                                      (w, a) \<Rightarrow> ret (True, w, o1, a)))))))))"

partial_function (option) stream_wait_loop ::
  "node_ref \<Rightarrow> node_ref \<Rightarrow> node_ref \<Rightarrow> wait_scan \<times> offload_state \<times> analysis \<Rightarrow> (wait_scan \<times> offload_state \<times> analysis) result option"
  where
  "stream_wait_loop n enter launch s =
    (case stream_wait_step n enter launch s of
       None \<Rightarrow> None
     | Some r \<Rightarrow> (case r of
                    Inl e \<Rightarrow> Some (Inl e)
                  | Inr q \<Rightarrow> if fst q then stream_wait_loop n enter launch (snd q) else Some (Inr (snd q))))"

text \<open>The wait state on the device stream, between the last kernel of the stream and the waiting one.\<close>

definition insert_wait_state ::
  "u32 \<Rightarrow> node_ref \<Rightarrow> node_ref \<Rightarrow> wait_scan \<Rightarrow> analysis \<Rightarrow> analysis step" where
  "insert_wait_state linkKernels n enter w a =
    deref (getStream (nd_streamId (an_node a n)) (ge_group (an_engine a))) (\<lambda>p.
      let h = ge_heap (an_engine a) in
      case List.find (\<lambda>q. \<not> isMPI (h q) \<and> nd_time (h q) \<le> nd_time (h n) \<and> q \<noteq> n \<and> isLeave (h q) \<and> isCUDAKernel (h q))
             (rev (es_nodes (base (ge_streams (an_engine a) p)))) of
        None \<Rightarrow> ret a
      | Some l \<Rightarrow>
          (let t = max (ws_enterTime w) (nd_time (h l)) in
           if \<not> t < nd_time (h enter) then ret a
           else case getEdge l enter (an_engine a) of
             None \<Rightarrow> fail (Runtime_Error ''Did not find expected edge'')
           | Some e \<Rightarrow>
               bind_fuel (Some (an_addNewGraphNode linkKernels t p NAME_WAITSTATE PARADIGM_CUDA RECORD_ENTER OFLD_WAITSTATE a)) (\<lambda>(we, a).
               deref (ws_lastSync w) (\<lambda>sl.
               bind_fuel (Some (an_addNewGraphNode linkKernels (nd_time (an_node a sl)) p NAME_WAITSTATE PARADIGM_CUDA
                                  RECORD_LEAVE OFLD_WAITSTATE a)) (\<lambda>(wl, a).
               let a = snd (an_newEdge l we False a);
                   a = snd (an_newEdge we wl True a);
                   a = snd (an_newEdge wl enter False a);
                   a = update_node wl (setCounter WAITING_TIME 1) a in
               ret (fold (\<lambda>g a. snd (an_newEdge g wl False a)) (sorted_list_of_set (ws_processed w)) a))))))"

definition wait_call :: "event_store \<Rightarrow> node_ref \<Rightarrow> offload_state \<times> analysis \<Rightarrow> (bool \<times> offload_state \<times> analysis) step" where
  "wait_call ev n s = (case s of (o1, a) \<Rightarrow>
    (let i = nd_referencedStream (an_node a n) in
     if i = 0 then fail (Runtime_Error ''does not reference any device stream'')
     else as_event ev n (\<lambda>e.
       let record = getEventRecordLeave (ev_id e) o1; device = getEventProcessId (ev_id e) o1 in
       bind_fuel (set_link n record a) (\<lambda>a.
         if device = 0 then fail (Runtime_Error ''Could not find device stream ID'')
         else bind_fuel (if record \<noteq> None \<and> i \<noteq> device then addStreamWaitEvent ev i n (o1, a) else ret (o1, a)) (\<lambda>s.
           ret (True, s))))))"

definition wait_kernel ::
  "u32 \<Rightarrow> node_ref \<Rightarrow> offload_state \<times> analysis \<Rightarrow> (bool \<times> offload_state \<times> analysis) step" where
  "wait_kernel linkKernels n s = (case s of (o1, a) \<Rightarrow>
    deref (gn_first (an_node a n)) (\<lambda>enter.
      case nd_link (an_node a enter) of
        None \<Rightarrow> ret (False, s)
      | Some launch \<Rightarrow>
          bind_fuel (stream_wait_loop n enter launch
              (\<lparr>ws_processed = {}, ws_enterTime = UINT64_MAX, ws_lastSync = None, ws_insert = False, ws_matched = False\<rparr>, s))
            (\<lambda>(w, o1, a).
          bind_fuel (if ws_insert w then insert_wait_state linkKernels n enter w a else ret a) (\<lambda>a.
          ret (ws_matched w, o1, a)))))"

definition StreamWaitRule :: "event_store \<Rightarrow> u32 \<Rightarrow> offload_rule" where
  "StreamWaitRule ev linkKernels n s = (case s of (o1, a) \<Rightarrow>
    (if \<not> isLeave (an_node a n) then ret (False, s)
     else if ev n \<noteq> None \<and> isCUDAStreamWaitEvent (an_node a n) then wait_call ev n s
     else if isCUDAKernel (an_node a n) then wait_kernel linkKernels n s
     else ret (False, s)))"

section \<open>The registered rules\<close>

definition offload_rules :: "nat \<Rightarrow> event_store \<Rightarrow> offload_options \<Rightarrow> analysis \<Rightarrow> offload_rule list" where
  "offload_rules fuel ev opts a =
    [KernelExecutionRule] @
    (if oo_blame4deviceIdle opts then [DeviceIdleRule fuel] else []) @
    (if oo_blame4deviceIdle opts \<and> oo_linkKernels opts > 1 then [KernelOverlapRule] else []) @
    [SyncRule opts] @
    (if haveAnalysisFeature CUDA_EVENTS a \<and> \<not> oo_ignoreCUDAevents opts
     then [EventLaunchRule ev, EventSyncRule ev opts, EventQueryRule ev, StreamWaitRule ev (word_of_int (oo_linkKernels opts))]
     else [])"

end
