(* ===== verification/OffloadLaws.thy ===== *)
theory OffloadLaws
  imports OffloadEventRules
begin

text \<open>The pending launches as a queue for every device stream, what the lists of launches hold, and the count of
  the active kernels.\<close>

section \<open>Simulation of an abstract machine\<close>

text \<open>Running operations one after the other, on the implementation and on a specification that cannot
  fail.\<close>

fun run_ops :: "('op \<Rightarrow> 's \<Rightarrow> ('out \<times> 's) result) \<Rightarrow> 'op list \<Rightarrow> 's \<Rightarrow> ('out list \<times> 's) result" where
  "run_ops step [] s = Inr ([], s)"
| "run_ops step (op # ops) s =
    bind_res (step op s) (\<lambda>(r, s). bind_res (run_ops step ops s) (\<lambda>(rs, s). Inr (r # rs, s)))"

fun run_spec :: "('op \<Rightarrow> 'q \<Rightarrow> 'out \<times> 'q) \<Rightarrow> 'op list \<Rightarrow> 'q \<Rightarrow> 'out list \<times> 'q" where
  "run_spec spec [] q = ([], q)"
| "run_spec spec (op # ops) q =
    (case spec op q of (r, q) \<Rightarrow> case run_spec spec ops q of (rs, q) \<Rightarrow> (r # rs, q))"

locale simulation =
  fixes step :: "'op \<Rightarrow> 's \<Rightarrow> ('out \<times> 's) result" and spec :: "'op \<Rightarrow> 'q \<Rightarrow> 'out \<times> 'q"
    and abs :: "'s \<Rightarrow> 'q" and inv :: "'s \<Rightarrow> bool"
  assumes step_inv: "inv s \<Longrightarrow> step op s = Inr (r, s') \<Longrightarrow> inv s'"
    and step_abs: "inv s \<Longrightarrow> step op s = Inr (r, s') \<Longrightarrow> spec op (abs s) = (r, abs s')"
begin

lemma run_simulates:
  "inv s \<Longrightarrow> run_ops step ops s = Inr (rs, s') \<Longrightarrow> inv s' \<and> run_spec spec ops (abs s) = (rs, abs s')"
proof (induction ops arbitrary: s rs)
  case (Cons op ops)
  obtain r t ts where t: "step op s = Inr (r, t)" "run_ops step ops t = Inr (ts, s')" "rs = r # ts"
    using Cons(3) by (auto simp: bind_res_Inr)
  then show ?case
    using Cons(1) [OF step_inv [OF Cons(2) t(1)] t(2)] step_abs [OF Cons(2) t(1)] by simp
qed simp

end

section \<open>The queues of launches\<close>

text \<open>What happens to the lists of launches: an enter or leave of a launch is posted, a kernel of a device stream
  takes its launch, a list is cleared.\<close>

datatype launch_op = Post node_ref | Take u64 | Clear u64

fun launch_step :: "heap \<Rightarrow> launch_op \<Rightarrow> offload_state \<Rightarrow> (node_ref option \<times> offload_state) result" where
  "launch_step h (Post n) o1 = bind_res (addPendingKernelLaunch h n o1) (\<lambda>o1. Inr (None, o1))"
| "launch_step h (Take i) o1 = Inr (consumeFirstPendingKernelLaunchEnter h i o1)"
| "launch_step h (Clear i) o1 = Inr (None, clearKernelEnqueues i o1)"

text \<open>The specification: for every device stream a queue of the enters of the launches that refer to it.\<close>

definition target_stream :: "heap \<Rightarrow> node_ref \<Rightarrow> u64" where
  "target_stream h n = nd_referencedStream (h (the (gn_first (h n))))"

fun queue_step :: "heap \<Rightarrow> launch_op \<Rightarrow> (u64 \<Rightarrow> node_ref list) \<Rightarrow> node_ref option \<times> (u64 \<Rightarrow> node_ref list)" where
  "queue_step h (Post n) q = (None, if isLeave (h n) then q else q(target_stream h n := q (target_stream h n) @ [n]))"
| "queue_step h (Take i) q = (case q i of [] \<Rightarrow> (None, q) | k # ks \<Rightarrow> (Some k, q(i := ks)))"
| "queue_step h (Clear i) q = (None, q(i := []))"

definition launch_queues :: "heap \<Rightarrow> offload_state \<Rightarrow> u64 \<Rightarrow> node_ref list" where
  "launch_queues h o1 i = filter (\<lambda>n. \<not> isLeave (h n)) (launches_of i o1)"

lemma launches_of_update [simp]:
  "smap_inv (of_launches o1) \<Longrightarrow> launches_of i (o1\<lparr>of_launches := smap_update j ns (of_launches o1)\<rparr>) = (if i = j then ns else launches_of i o1)"
  by (simp add: launches_of_def smap_lookup_update)

lemma launch_queues_update:
  "smap_inv (of_launches o1) \<Longrightarrow> launch_queues h (o1\<lparr>of_launches := smap_update j ns (of_launches o1)\<rparr>) =
     (launch_queues h o1)(j := filter (\<lambda>n. \<not> isLeave (h n)) ns)"
  by (auto simp: launch_queues_def fun_eq_iff)

lemma filter_drop_take:
  "filter (\<lambda>n. \<not> P n) ns = (case dropWhile P ns of [] \<Rightarrow> [] | k # ks \<Rightarrow> k # filter (\<lambda>n. \<not> P n) (takeWhile P ns @ ks))"
proof -
  have "filter (\<lambda>n. \<not> P n) (takeWhile P ns) = []"
    by (auto simp: filter_empty_conv dest: set_takeWhileD)
  then have f: "filter (\<lambda>n. \<not> P n) (takeWhile P ns @ ks) = filter (\<lambda>n. \<not> P n) ks" for ks
    by simp
  then have g: "filter (\<lambda>n. \<not> P n) ns = filter (\<lambda>n. \<not> P n) (dropWhile P ns)"
    by (metis takeWhile_dropWhile_id)
  show ?thesis
    unfolding g f using hd_dropWhile [of P ns] by (cases "dropWhile P ns") (auto simp del: dropWhile_eq_Nil_conv)
qed

lemma take_launch:
  assumes "smap_inv (of_launches o1)" "consumeFirstPendingKernelLaunchEnter h i o1 = (r, o2)"
  shows "smap_inv (of_launches o2) \<and> queue_step h (Take i) (launch_queues h o1) = (r, launch_queues h o2)"
proof (cases "map_of (of_launches o1) i")
  case None
  then show ?thesis
    using assms by (simp add: consumeFirstPendingKernelLaunchEnter_def launch_queues_def launches_of_def)
next
  case (Some ns)
  then have q: "launch_queues h o1 i = filter (\<lambda>n. \<not> isLeave (h n)) ns"
    by (simp add: launch_queues_def launches_of_def)
  show ?thesis
  proof (cases "dropWhile (\<lambda>n. isLeave (h n)) ns")
    case Nil
    then have "launch_queues h o1 i = []"
      unfolding q by (subst filter_drop_take) (simp del: dropWhile_eq_Nil_conv)
    then show ?thesis
      using assms Some Nil by (simp add: consumeFirstPendingKernelLaunchEnter_def)
  next
    case (Cons k ks)
    then have "launch_queues h o1 i = k # filter (\<lambda>n. \<not> isLeave (h n)) (takeWhile (\<lambda>n. isLeave (h n)) ns @ ks)"
      unfolding q by (subst filter_drop_take) (simp del: dropWhile_eq_Nil_conv)
    then show ?thesis
      using assms Some Cons by (auto simp: consumeFirstPendingKernelLaunchEnter_def launch_queues_update simp del: filter_append)
  qed
qed

interpretation launches: simulation "launch_step h" "queue_step h" "launch_queues h" "\<lambda>o1. smap_inv (of_launches o1)"
  for h :: heap
proof
  fix s s' :: offload_state and op r
  assume i: "smap_inv (of_launches s)" and e: "launch_step h op s = Inr (r, s')"
  have "smap_inv (of_launches s') \<and> queue_step h op (launch_queues h s) = (r, launch_queues h s')"
  proof (cases op)
    case (Post n)
    then show ?thesis
      using i e by (auto simp: bind_res_Inr addPendingKernelLaunch_def target_stream_def Let_def launch_queues_update
          fun_eq_iff launch_queues_def split: option.splits)
  next
    case (Take j)
    then show ?thesis
      using take_launch [OF i] e by simp
  next
    case (Clear j)
    then show ?thesis
      using i e by (auto simp: clearKernelEnqueues_def launch_queues_def launches_of_def smap_lookup_update fun_eq_iff
          split: option.splits if_splits)
  qed
  then show "smap_inv (of_launches s')" "queue_step h op (launch_queues h s) = (r, launch_queues h s')"
    by simp_all
qed

text \<open>C6. The lists of pending launches implement a first-in first-out queue for every device stream: whatever
  is posted, taken and cleared, in any order, a kernel gets the oldest launch enter that refers to its stream
  and has not been taken, and none when there is no such launch. The launch leaves that stay in the same lists
  do not matter.\<close>
theorem launches_refine_queues:
  assumes "smap_inv (of_launches o1)" "run_ops (launch_step h) ops o1 = Inr (taken, o2)"
  shows "run_spec (queue_step h) ops (launch_queues h o1) = (taken, launch_queues h o2)"
  using launches.run_simulates [OF assms] by simp

text \<open>Two launches of a stream with the leave of the first between them.\<close>

definition launch_node :: "node_ref \<Rightarrow> record_type \<Rightarrow> graph_node" where
  "launch_node n r = (fst (GraphNode_new n (of_nat n) (of_nat n) 2 ''launch'' PARADIGM_CUDA r OFLD_ENQUEUE_KERNEL))
     \<lparr>gn_first := Some (if r = RECORD_LEAVE then n - 1 else n), nd_referencedStream := 7\<rparr>"

definition launch_heap :: heap where
  "launch_heap n = launch_node n (if n = 4 then RECORD_LEAVE else RECORD_ENTER)"

lemma launch_heap_simps [simp]:
  "gn_first (launch_heap n) = Some (if n = 4 then 3 else n)" "nd_referencedStream (launch_heap n) = 7"
  "isLeave (launch_heap n) \<longleftrightarrow> n = 4"
  by (simp_all add: launch_heap_def launch_node_def isLeave_def GraphNode_new_def Node_new_def node.defs graph_node.defs
      Let_def split: if_splits)

definition no_offload :: offload_state where
  "no_offload = AnalysisParadigmOffload_new \<lparr>oo_linkKernels = 1, oo_ignoreCUDAevents = False, oo_blame4deviceIdle = True\<rparr>
     0 0 0 chain_engine"

lemma no_offload_simps [simp]: "of_launches no_offload = []" "of_activeTasks no_offload = 0" "of_oKernelEnter no_offload = None"
  by (simp_all add: no_offload_def AnalysisParadigmOffload_new_def)

theorem launches_refine_queues_witness:
  "\<exists>o2. run_ops (launch_step launch_heap) [Post 3, Post 4, Post 5, Take 7, Take 7, Take 7] no_offload =
     Inr ([None, None, None, Some 3, Some 5, None], o2) \<and> launch_queues launch_heap o2 7 = []"
proof -
  obtain o2 where r: "run_ops (launch_step launch_heap) [Post 3, Post 4, Post 5, Take 7, Take 7, Take 7] no_offload =
      Inr ([None, None, None, Some 3, Some 5, None], o2)"
    by (simp add: addPendingKernelLaunch_def consumeFirstPendingKernelLaunchEnter_def launches_of_def Let_def)
  have "smap_inv (of_launches no_offload)"
    by simp
  have e: "launch_queues launch_heap no_offload = (\<lambda>_. [])"
    by (simp add: launch_queues_def launches_of_def fun_eq_iff)
  from launches_refine_queues [OF \<open>smap_inv (of_launches no_offload)\<close> r] have "launch_queues launch_heap o2 = (\<lambda>_. [])(7 := [])"
    by (simp add: e target_stream_def)
  then have "launch_queues launch_heap o2 7 = []"
    by simp
  with r show ?thesis
    by blast
qed

section \<open>What a distribution of blame leaves alone\<close>

text \<open>With propagation or without, only the blame on edges changes.\<close>

definition blames :: "blame_call \<Rightarrow> bool" where
  "blames rec \<longleftrightarrow> (\<forall>n b cb s t s'. rec n b cb s = Some (Inr (t, s')) \<longrightarrow> same_but_blame s s')"

lemma propagate_same:
  assumes "blames rec"
  shows "propagate rec leave e blame reason es s = Some (Inr s') \<Longrightarrow> same_but_blame s s'"
proof (induction es arbitrary: s)
  case (Cons i es)
  have rec: "\<And>n b cb s t u. rec n b cb s = Some (Inr (t, u)) \<Longrightarrow> same_but_blame s u"
    using assms by (auto simp: blames_def)
  obtain t where "same_but_blame s t" "propagate rec leave e blame reason es t = Some (Inr s')"
    using Cons(2) by (auto simp: bind_fuel_Inr Let_def split: if_splits dest: rec intro: blame_edge_same same_but_blame_refl)
  then show ?case
    using Cons(1) same_but_blame_trans by blast
qed simp

lemma blame_edges_same:
  assumes "blames rec"
  shows "blame_edges rec prop tb tt reason lastNode ns s = Some (Inr s') \<Longrightarrow> same_but_blame s s'"
proof (induction ns arbitrary: lastNode s)
  case (Cons n ns)
  obtain t where "same_but_blame s t" "blame_edges rec prop tb tt reason n ns t = Some (Inr s')"
    using Cons(2) by (auto simp: bind_fuel_Inr Let_def split: option.splits if_splits
        dest: propagate_same [OF assms] intro: blame_edge_same same_but_blame_refl)
  then show ?case
    using Cons(1) same_but_blame_trans by blast
qed simp

lemma distributeBlame_same: "distributeBlame fuel prop reason n b cb s = Some (Inr (t, s')) \<Longrightarrow> same_but_blame s s'"
proof (induction fuel arbitrary: n b cb s t s')
  case (Suc fuel)
  have "blames (\<lambda>n b cb s. distributeBlame fuel prop reason n b cb s)"
    using Suc(1) by (auto simp: blames_def)
  then show ?case
    using Suc(2) by (auto simp: bind_fuel_Inr Let_def split: if_splits sum.splits dest: blame_edges_same)
qed simp

lemma distribute_heap: "distribute fuel n b cb reason a = ret a' \<Longrightarrow> ge_heap (an_engine a') = ge_heap (an_engine a)"
  by (auto simp: distribute_def ret_bind) (auto simp: ret_def dest: distributeBlame_same same_but_blame_edge(5))

section \<open>The active kernels\<close>

lemma blame_idle_stream_heap:
  "blame_idle_stream fuel i launch t p a = ret a' \<Longrightarrow> ge_heap (an_engine a') = ge_heap (an_engine a)"
  by (auto simp: blame_idle_stream_def Let_def ret_bind split: option.splits if_splits dest: distribute_heap)

lemma blame_idle_streams_heap:
  "blame_idle_streams fuel i launch t ps a = ret a' \<Longrightarrow> ge_heap (an_engine a') = ge_heap (an_engine a)"
  by (induction ps arbitrary: a) (auto simp: ret_bind dest: blame_idle_stream_heap)

text \<open>What a node changes in the number of the kernels that run.\<close>

definition kernel_change :: "graph_node \<Rightarrow> int" where
  "kernel_change n = (if \<not> isOffloadKernel n then 0 else if isEnter n then 1 else - 1)"

lemma DeviceIdleRule_count:
  assumes "DeviceIdleRule fuel n (o1, a) = ret (b, o2, a')"
  shows "of_activeTasks o2 = of_activeTasks o1 + of_int (kernel_change (an_node a n)) \<and>
    ge_heap (an_engine a') = ge_heap (an_engine a)"
  using assms by (auto simp: DeviceIdleRule_def kernel_change_def idle_leave_def Let_def ret_bind
      split: if_splits dest: blame_idle_streams_heap)

text \<open>The rule on the nodes of a trace, in the order of the analysis.\<close>

fun run_rule :: "offload_rule \<Rightarrow> node_ref list \<Rightarrow> offload_state \<times> analysis \<Rightarrow> (offload_state \<times> analysis) step" where
  "run_rule rule [] s = ret s"
| "run_rule rule (n # ns) s = bind_fuel (rule n s) (\<lambda>(_, s). run_rule rule ns s)"

lemma run_idle_count:
  "run_rule (DeviceIdleRule fuel) ns (o1, a) = ret (o2, a') \<Longrightarrow>
   of_activeTasks o2 = of_activeTasks o1 + of_int (\<Sum>n\<leftarrow>ns. kernel_change (an_node a n))"
proof (induction ns arbitrary: o1 a)
  case (Cons n ns)
  obtain b o3 a3 where r: "DeviceIdleRule fuel n (o1, a) = ret (b, o3, a3)" "run_rule (DeviceIdleRule fuel) ns (o3, a3) = ret (o2, a')"
    using Cons(2) by (auto simp: ret_bind)
  show ?case
    using Cons(1) [OF r(2)] DeviceIdleRule_count [OF r(1)] by (simp add: add_ac)
qed simp

text \<open>C38. The count of the active kernels is kept in eight bits: after any part of a trace it is the number of kernel
  enters minus the number of kernel leaves modulo 256, so that 256 kernels that run at the same time count as
  an idle device, and a kernel leave without its enter counts as 255 running kernels.\<close>
theorem active_tasks_modulo:
  assumes "run_rule (DeviceIdleRule fuel) ns (o1, a) = ret (o2, a')" "of_activeTasks o1 = 0"
  shows "uint (of_activeTasks o2) = (\<Sum>n\<leftarrow>ns. kernel_change (an_node a n)) mod 256"
  using run_idle_count [OF assms(1)] assms(2) by (simp add: uint_word_of_int)

definition kernel_node :: "record_type \<Rightarrow> graph_node" where
  "kernel_node r = fst (GraphNode_new 3 3 30 2 ''kernel'' PARADIGM_CUDA r OFLD_TASK_KERNEL)"

lemma kernel_node_simps [simp]:
  "isOffloadKernel (kernel_node r)" "isEnter (kernel_node r) \<longleftrightarrow> r = RECORD_ENTER" "nd_time (kernel_node r) = 30"
  by (simp_all add: kernel_node_def GraphNode_new_def Node_new_def node.defs graph_node.defs node_preds node_bits has_flag_def Let_def)

definition kernel_analysis :: "record_type \<Rightarrow> analysis" where
  "kernel_analysis r = AnalysisEngine_new 0 1 0 False (chain_engine\<lparr>ge_heap := (\<lambda>_. kernel_node r)\<rparr>)"

lemma kernel_analysis_simps [simp]: "an_engine (kernel_analysis r) = chain_engine\<lparr>ge_heap := (\<lambda>_. kernel_node r)\<rparr>"
  by (simp add: kernel_analysis_def AnalysisEngine_new_def)

theorem active_tasks_modulo_witness:
  "\<exists>o2 a'. run_rule (DeviceIdleRule 1) [3] (no_offload, kernel_analysis RECORD_LEAVE) = ret (o2, a') \<and>
     uint (of_activeTasks o2) = 255"
proof -
  obtain o2 a' where r: "run_rule (DeviceIdleRule 1) [3] (no_offload, kernel_analysis RECORD_LEAVE) = ret (o2, a')"
    by (simp add: DeviceIdleRule_def)
  have "of_activeTasks no_offload = 0"
    by simp
  from active_tasks_modulo [OF r this] show ?thesis
    using r by (auto simp: kernel_change_def)
qed

end
