(* ===== verification/OffloadSyncLaws.thy ===== *)
theory OffloadSyncLaws
  imports OffloadLaws
begin

text \<open>Dependencies between kernels, blame along the shortest path, and what the rules do with kernels and
  synchronisations.\<close>

section \<open>Dependencies between kernels\<close>

lemma fresh_edge_not_blocking:
  "edge_blocking (fst (an_newEdge p q False a)) (snd (an_newEdge p q False a)) \<longleftrightarrow> False"
  by (simp add: edge_blocking_def an_newEdge_def newEdge_def Let_def split_beta)

text \<open>The mode of linking never matters in a step: the edge that is made between two kernels is not blocking,
  even when it leads back in time.\<close>

lemma kernel_step_mode: "kernel_step i d enter a = kernel_step j d enter a"
  by (simp add: kernel_step_def Let_def split_beta fresh_edge_not_blocking split: option.split)

lemma kernel_loop_mode_Some: "kernel_loop i d enter a = Some r \<Longrightarrow> kernel_loop j d enter a = Some r"
proof -
  assume ret: "kernel_loop i d enter a = Some r"
  have "\<forall>j. kernel_loop j d enter a = Some r"
  proof (rule kernel_loop.raw_induct [where P = "\<lambda>i d enter a r. \<forall>j. kernel_loop j d enter a = Some r", OF _ ret])
    fix f i d enter a r
    assume IH: "\<And>i d enter a r. f i d enter a = Some r \<Longrightarrow> \<forall>j. kernel_loop j d enter a = Some r"
      and eq: "(case kernel_step i d enter a of Inl e \<Rightarrow> Some (Inl e)
        | Inr q \<Rightarrow> (case fst q of None \<Rightarrow> Some (Inr (snd q)) | Some enter' \<Rightarrow> f i d enter' (snd q))) = Some r"
    show "\<forall>j. kernel_loop j d enter a = Some r"
    proof
      fix j
      show "kernel_loop j d enter a = Some r"
        using eq IH by (subst kernel_loop.simps) (auto simp: kernel_step_mode [of j d enter a i] split: sum.splits option.splits)
    qed
  qed
  then show ?thesis
    by simp
qed

lemma kernel_loop_mode: "kernel_loop i d enter a = kernel_loop j d enter a"
proof (cases "kernel_loop i d enter a")
  case None
  then show ?thesis
    using kernel_loop_mode_Some [of j d enter a _ i] by (cases "kernel_loop j d enter a") auto
qed (simp add: kernel_loop_mode_Some [of i d enter a _ j])

text \<open>The two modes of linking kernels make the same dependencies. The second mode is meant to allow edges
  between overlapping kernels, and the first to stop at them and to fall back to the launch; but the edge to the
  earlier kernel is never blocking, so the test that tells the modes apart is never true.\<close>
lemma link_modes_agree:
  "createKernelDependencies (opts\<lparr>oo_linkKernels := 1\<rparr>) d k a = createKernelDependencies (opts\<lparr>oo_linkKernels := 2\<rparr>) d k a"
  by (simp add: createKernelDependencies_def kernel_loop_mode [of 2 d _ a 1] split: option.split)

text \<open>Left links of kernels lead to tasks that began earlier: to kernels, or to tasks that have no left link themselves.
  Of other nodes nothing is said (an MPI node has itself as its left link).\<close>

definition kernels_ordered :: "heap \<Rightarrow> bool" where
  "kernels_ordered h \<longleftrightarrow>
    (\<forall>n l k. isOffloadKernel (h n) \<longrightarrow> gn_linkLeft (h n) = Some l \<longrightarrow> gn_first (h l) = Some k \<longrightarrow>
       nd_time (h k) < nd_time (h n) \<and> (isOffloadKernel (h k) \<or> gn_linkLeft (h k) = None))"

lemma unblock_edge_heap [simp]: "ge_heap (an_engine (unblock_edge e a)) = ge_heap (an_engine a)"
  by (simp add: unblock_edge_def)

lemma an_newEdge_heap [simp]: "ge_heap (an_engine (snd (an_newEdge p q b a))) = ge_heap (an_engine a)"
  by (simp add: an_newEdge_engine newEdge_fields)

lemma kernel_step_next:
  assumes "kernel_step i d enter a = Inr (Some k, a')"
  shows "ge_heap (an_engine a') = ge_heap (an_engine a)"
    "\<exists>l. gn_linkLeft (an_node a enter) = Some l \<and> gn_first (an_node a l) = Some k"
  using assms by (auto simp: kernel_step_def Let_def split_beta split: option.splits if_splits)

lemma kernel_loop_returns_ok:
  "kernels_ordered (ge_heap (an_engine a)) \<Longrightarrow> isOffloadKernel (an_node a enter) \<or> gn_linkLeft (an_node a enter) = None \<Longrightarrow>
   \<exists>r. kernel_loop i d enter a = Some r"
proof (induction "unat (nd_time (an_node a enter))" arbitrary: enter a rule: less_induct)
  case less
  show ?case
  proof (cases "kernel_step i d enter a")
    case (Inl e)
    then show ?thesis
      by (subst kernel_loop.simps) simp
  next
    case (Inr q)
    show ?thesis
    proof (cases "fst q")
      case None
      then show ?thesis
        by (subst kernel_loop.simps) (simp add: Inr)
    next
      case (Some k)
      have s: "kernel_step i d enter a = Inr (Some k, snd q)"
        by (metis Inr Some prod.collapse)
      obtain l where l: "gn_linkLeft (an_node a enter) = Some l" "gn_first (an_node a l) = Some k"
        using kernel_step_next(2) [OF s] by blast
      have h: "ge_heap (an_engine (snd q)) = ge_heap (an_engine a)"
        by (rule kernel_step_next(1) [OF s])
      have "isOffloadKernel (an_node a enter)"
        using less(3) l(1) by simp
      then have k: "nd_time (an_node a k) < nd_time (an_node a enter) \<and> (isOffloadKernel (an_node a k) \<or> gn_linkLeft (an_node a k) = None)"
        using less(2) l unfolding kernels_ordered_def by metis
      have "\<exists>r. kernel_loop i d k (snd q) = Some r"
        using less(1) [of "snd q" k] less(2) k by (simp add: word_less_nat_alt h)
      then show ?thesis
        by (subst kernel_loop.simps) (simp add: Inr Some)
    qed
  qed
qed

text \<open>The kernel whose dependencies are made: the given one, or the last pending one.\<close>

definition linked_kernel :: "node_ref option \<Rightarrow> analysis \<Rightarrow> node_ref option" where
  "linked_kernel k a = (case k of Some k \<Rightarrow> Some k | None \<Rightarrow> last_pending a)"

text \<open>C37. Making the dependencies of a kernel returns, with new edges or with an error, when every left link of a kernel
  leads to a task that began strictly earlier. The code says that the loop might not end otherwise.\<close>
theorem createKernelDependencies_returns:
  assumes "kernels_ordered (ge_heap (an_engine a))"
    and "\<And>l enter. linked_kernel k a = Some l \<Longrightarrow> gn_first (an_node a l) = Some enter \<Longrightarrow> isOffloadKernel (an_node a enter)"
  shows "createKernelDependencies opts d k a \<noteq> None"
proof -
  have "kernel_loop (oo_linkKernels opts) d enter a \<noteq> None" if "linked_kernel k a = Some l" "gn_first (an_node a l) = Some enter" for l enter
    using kernel_loop_returns_ok [OF assms(1)] assms(2) [OF that] by fastforce
  then show ?thesis
    by (auto simp: createKernelDependencies_def ret_def linked_kernel_def [symmetric] split: option.split)
qed

text \<open>A launch at 10, a kernel from 20 to 30 and one from 40 to 50 whose left link is the leave of the first.\<close>

definition two_kernels :: heap where
  "two_kernels n =
    (if n = 1 then (kernel_node RECORD_LEAVE)\<lparr>nd_time := 10, nd_nodeType := OFLD_ENQUEUE_KERNEL\<rparr>
     else if n = 2 then (kernel_node RECORD_ENTER)\<lparr>nd_time := 20, gn_first := Some 2, gn_second := Some 3, nd_link := Some 1\<rparr>
     else if n = 3 then (kernel_node RECORD_LEAVE)\<lparr>nd_time := 30, gn_first := Some 2, gn_second := Some 3\<rparr>
     else if n = 4 then (kernel_node RECORD_ENTER)\<lparr>nd_time := 40, gn_first := Some 4, gn_second := Some 5, gn_linkLeft := Some 3, nd_link := Some 1\<rparr>
     else (kernel_node RECORD_LEAVE)\<lparr>nd_time := 50, gn_first := Some 4, gn_second := Some 5\<rparr>)"

definition two_kernel_analysis :: analysis where
  "two_kernel_analysis = AnalysisEngine_new 0 1 0 False (chain_engine\<lparr>ge_heap := two_kernels\<rparr>)"

theorem createKernelDependencies_returns_witness:
  "createKernelDependencies \<lparr>oo_linkKernels = 1, oo_ignoreCUDAevents = False, oo_blame4deviceIdle = True\<rparr> 0 (Some 5)
     two_kernel_analysis \<noteq> None \<and>
   (case kernel_step 1 0 4 two_kernel_analysis of Inr (next, a) \<Rightarrow> next = Some 2 \<and> getEdge 3 4 (an_engine a) \<noteq> None | Inl _ \<Rightarrow> False)"
proof
  have e: "ge_heap (an_engine two_kernel_analysis) = two_kernels"
    by (simp add: two_kernel_analysis_def AnalysisEngine_new_def)
  have no: "gn_linkLeft (kernel_node r) = None" for r
    by (simp add: kernel_node_def GraphNode_new_def Node_new_def node.defs graph_node.defs Let_def)
  have "isOffloadKernel (two_kernels 2)" "isOffloadKernel (two_kernels 4)"
    by code_simp+
  then show "createKernelDependencies \<lparr>oo_linkKernels = 1, oo_ignoreCUDAevents = False, oo_blame4deviceIdle = True\<rparr> 0 (Some 5)
     two_kernel_analysis \<noteq> None"
    by (intro createKernelDependencies_returns)
      (auto simp: e kernels_ordered_def linked_kernel_def two_kernels_def no split: if_splits)
  show "case kernel_step 1 0 4 two_kernel_analysis of Inr (next, a) \<Rightarrow> next = Some 2 \<and> getEdge 3 4 (an_engine a) \<noteq> None | Inl _ \<Rightarrow> False"
    by code_simp
qed

section \<open>Blame along the shortest path\<close>

text \<open>The edges the path collects are edges of the engine, and the time it adds up is theirs.\<close>

lemma kernel_path_collects:
  assumes "kernel_path s enter es time = Some (Inr (t, es', time'))" "engine_ok s"
  shows "\<exists>ks. es' = es @ ks \<and> (\<forall>e\<in>set ks. e < ge_nextEdge s) \<and> time' = time + (\<Sum>e\<leftarrow>ks. e_duration (ge_edges s e))"
proof -
  let ?P = "\<lambda>s enter es time (r :: (u64 \<times> edge_ref list \<times> u64) result). engine_ok s \<longrightarrow> (\<forall>t es' time'. r = Inr (t, es', time') \<longrightarrow>
     (\<exists>ks. es' = es @ ks \<and> (\<forall>e\<in>set ks. e < ge_nextEdge s) \<and> time' = time + (\<Sum>e\<leftarrow>ks. e_duration (ge_edges s e))))"
  have "?P s enter es time (Inr (t, es', time'))"
  proof (rule kernel_path.raw_induct [where P = ?P, OF _ assms(1)])
    fix f s enter es time r
    assume IH: "\<And>s enter es time r. f s enter es time = Some r \<Longrightarrow> ?P s enter es time r"
      and eq: "(case getShortestInEdge enter s of None \<Rightarrow> Some (Inl Null_Dereference)
        | Some e \<Rightarrow>
            if isOffloadEnqueueKernel (ge_heap s (e_start (ge_edges s e)))
            then Some (Inr (nd_time (ge_heap s (e_start (ge_edges s e))), es, time))
            else (case gn_first (ge_heap s (e_start (ge_edges s e))) of None \<Rightarrow> Some (Inl Null_Dereference)
              | Some enter' \<Rightarrow> (case getEdge enter' (e_start (ge_edges s e)) s of None \<Rightarrow> Some (Inl Null_Dereference)
                 | Some k \<Rightarrow> f s enter' (es @ [k]) (time + e_duration (ge_edges s k))))) = Some r"
    show "?P s enter es time r"
    proof (intro impI allI)
      fix t es' time'
      assume ok: "engine_ok s" and r: "r = Inr (t, es', time')"
      show "\<exists>ks. es' = es @ ks \<and> (\<forall>e\<in>set ks. e < ge_nextEdge s) \<and> time' = time + (\<Sum>e\<leftarrow>ks. e_duration (ge_edges s e))"
      proof (cases "es' = es \<and> time' = time")
        case False
        then obtain e enter' k where k: "getEdge enter' (e_start (ge_edges s e)) s = Some k"
            "f s enter' (es @ [k]) (time + e_duration (ge_edges s k)) = Some r"
          using eq r by (auto split: option.splits if_splits)
        then obtain ks where "es' = (es @ [k]) @ ks" "\<forall>e\<in>set ks. e < ge_nextEdge s"
            "time' = time + e_duration (ge_edges s k) + (\<Sum>e\<leftarrow>ks. e_duration (ge_edges s e))"
          using IH [OF k(2)] ok r by blast
        moreover have "k < ge_nextEdge s"
          using getEdge_sound [OF ok k(1)] by simp
        ultimately show ?thesis
          by (intro exI [of _ "k # ks"]) (simp add: add_ac)
      qed simp
    qed
  qed
  then show ?thesis
    using assms(2) by simp
qed

text \<open>Every edge of the path gets its share.\<close>

lemma blame_shares:
  assumes "\<forall>e\<in>set es. e < ge_nextEdge s"
  shows "same_but_blame s (fold (blame_share tb tt r) es s) \<and>
    blame_total (fold (blame_share tb tt r) es s) = blame_total s +
      of_nat (unat tb) * of_nat (\<Sum>e\<leftarrow>es. unat (e_duration (ge_edges s e))) / of_nat (unat tt)"
  using assms
proof (induction es arbitrary: s)
  case (Cons e es)
  let ?s = "blame_share tb tt r e s"
  have same: "same_but_blame s ?s"
    by (simp add: blame_share_def)
  have "blame_total ?s = blame_total s + of_nat (unat tb) * of_nat (unat (e_duration (ge_edges s e))) / of_nat (unat tt)"
    using Cons(2) by (simp add: blame_share_def blame_edge_total)
  moreover have "\<forall>e\<in>set es. e < ge_nextEdge ?s"
    using Cons(2) by (simp add: same_but_blame_edge(7) [OF same])
  ultimately show ?case
    using Cons(1) [of ?s] same_but_blame_trans [OF same]
    by (auto simp: same_but_blame_edge(3) [OF same] distrib_left add_divide_distrib)
qed simp

lemma sum_list_unat:
  "(\<Sum>x\<leftarrow>xs. unat (f x :: u64)) < 2 ^ 64 \<Longrightarrow> unat (\<Sum>x\<leftarrow>xs. f x) = (\<Sum>x\<leftarrow>xs. unat (f x))"
proof (induction xs)
  case (Cons x xs)
  then show ?case
    by (simp add: unat_word_ariths)
qed simp

text \<open>C5. Blaming the shortest path of a kernel shares out exactly the given waiting time: the blame on all edges
  grows by it and nothing else changes, whatever kernels the path leads through, when the path ends at a launch
  and the time of its kernels is not zero and fits into 64 bits.\<close>
theorem blameShortestPath_conserves:
  assumes "engine_ok s" "gn_first (ge_heap s leave) = Some enter" "getEdge enter leave s = Some e"
    and "kernel_path s enter [e] (e_duration (ge_edges s e)) = Some (Inr (start, es, time))" "time \<noteq> 0"
    and "(\<Sum>k\<leftarrow>es. unat (e_duration (ge_edges s k))) < 2 ^ 64"
  shows "\<exists>s'. blameShortestPath leave totalBlame reason s = ret (start, s') \<and> same_but_blame s s' \<and>
    blame_total s' = blame_total s + of_nat (unat totalBlame)"
proof -
  obtain ks where ks: "es = [e] @ ks" "\<forall>k\<in>set ks. k < ge_nextEdge s"
      "time = e_duration (ge_edges s e) + (\<Sum>k\<leftarrow>ks. e_duration (ge_edges s k))"
    using kernel_path_collects [OF assms(4,1)] by blast
  have "unat time = (\<Sum>k\<leftarrow>es. unat (e_duration (ge_edges s k)))"
    using sum_list_unat [OF assms(6)] ks by simp
  moreover have "unat time \<noteq> 0"
    using assms(5) by (simp add: unat_eq_zero)
  moreover have "\<forall>k\<in>set es. k < ge_nextEdge s"
    using ks(1,2) getEdge_sound [OF assms(1,3)] by simp
  ultimately show ?thesis
    using blame_shares [of es s totalBlame time reason] assms(2-5) by (simp add: blameShortestPath_def)
qed

text \<open>A launch at 10, its kernel from 20 to 30.\<close>

definition path_heap :: heap where
  "path_heap n = (fst (GraphNode_new n 0 (10 * of_nat n) 2 ''kernel'' PARADIGM_CUDA RECORD_ENTER
     (if n = 1 then OFLD_ENQUEUE_KERNEL else OFLD_TASK_KERNEL)))\<lparr>gn_first := Some 2\<rparr>"

definition path_engine :: engine where
  "path_engine = chain_engine\<lparr>ge_heap := path_heap\<rparr>"

lemma path_heap_simps [simp]:
  "gn_first (path_heap n) = Some 2" "isOffloadEnqueueKernel (path_heap n) \<longleftrightarrow> n = 1" "nd_time (path_heap n) = 10 * of_nat n"
  by (simp_all add: path_heap_def GraphNode_new_def Node_new_def node.defs graph_node.defs node_preds node_bits has_flag_def Let_def)

lemma path_engine_ok: "engine_ok path_engine"
  using chain_engine_ok by (simp add: path_engine_def)

lemma path_engine_edges: "getEdge 2 3 path_engine = Some 1" "getShortestInEdge 2 path_engine = Some 0"
  by (simp_all add: path_engine_def getEdge_def getOutEdges_def getShortestInEdge_def getInEdgesPtr_def addEdge_def Let_def
      edges_at_def Graph_new_def)

lemma path_engine_simps: "ge_heap path_engine = path_heap" "ge_edges path_engine = chain_edges"
  by (simp_all add: path_engine_def)

theorem blameShortestPath_conserves_witness:
  "\<exists>s'. blameShortestPath 3 60 REASON_OFLD_WAIT4DEVICE path_engine = ret (10, s') \<and>
     blame_total s' = blame_total path_engine + 60"
proof -
  have "kernel_path path_engine 2 [1] (e_duration (ge_edges path_engine 1)) = Some (Inr (10, [1], 10))"
    by (subst kernel_path.simps) (simp add: path_engine_edges path_engine_simps)
  moreover have "(\<Sum>k\<leftarrow>[1]. unat (e_duration (ge_edges path_engine k))) < 2 ^ 64"
    by (simp add: path_engine_simps)
  ultimately show ?thesis
    using blameShortestPath_conserves [OF path_engine_ok, of 3 2 1 10 "[1]" 10 60 REASON_OFLD_WAIT4DEVICE] path_engine_edges(1)
    by (auto simp: path_engine_simps)
qed

section \<open>A late synchronisation\<close>

text \<open>Marking and clearing a list of pending kernels.\<close>

lemma bind_some [simp]: "bind_fuel (Some (Inr x)) f = f x" "bind_fuel (Some (Inl e)) f = Some (Inl e)"
  by simp_all

lemma update_node_heap [simp]:
  "ge_heap (an_engine (update_node n f a)) = (ge_heap (an_engine a))(n := f (an_node a n))"
  by (simp add: update_node_def node_update_def)

lemma blame_time_heap [simp]: "ge_heap (an_engine (blame_time e t r a)) = ge_heap (an_engine a)"
  "ge_streams (an_engine (blame_time e t r a)) = ge_streams (an_engine a)"
  by (simp_all add: blame_time_def blame_edge_def)

lemma put_device_simps [simp]:
  "ge_heap (an_engine (put_device p d a)) = ge_heap (an_engine a)" "ge_streams (an_engine (put_device p d a)) p = Device_Obj d"
  "ge_edges (an_engine (put_device p d a)) = ge_edges (an_engine a)" "ge_graph (an_engine (put_device p d a)) = ge_graph (an_engine a)"
  by (simp_all add: put_device_def)

text \<open>Only the links of the kernels change when they are marked.\<close>

lemma set_sync_links_pairs:
  "set_sync_links l ks h = Inr h' \<Longrightarrow> gn_first (h' q) = gn_first (h q) \<and> gn_second (h' q) = gn_second (h q)"
proof (induction ks arbitrary: h)
  case (Cons k ks)
  then show ?case
    by (fastforce simp: setLink_def bind_res_Inr split: if_splits)
qed simp

lemma with_device_eq: "ge_streams (an_engine a) p = Device_Obj d \<Longrightarrow> with_device p a f = f d"
  by (simp add: with_device_def)

lemma count_activity_engine [simp]: "an_engine (count_activity c a) = an_engine a"
  by (simp add: count_activity_def)

lemma late_sync_ok:
  assumes "ge_streams (an_engine a) p = Device_Obj d" "setPendingKernelsSyncLink (Some n) (ge_heap (an_engine a)) d = Inr h"
  shows "\<exists>a' c. late_sync enter n [p] a = ret a' \<and> ge_streams (an_engine a') p = Device_Obj (clearPendingKernels d) \<and>
    ge_heap (an_engine a') = h(n := setCounter WAITING_TIME c (h n))"
  using assms by (auto simp: late_sync_def with_device_eq Let_def update_node_def node_update_def split: option.split)

text \<open>A synchronisation with a stream whose kernels have all ended before it does not mark the last of them: the
  loop takes that kernel out of the list of pending kernels to look at it, and drops it. The kernels before it are
  marked as synchronised; the last one stays unmarked, is in no list any more, and counts as pending for ever.\<close>
lemma late_sync_drops_last_kernel:
  assumes "isOffloadWait (an_node a n)" "isLeave (an_node a n)" "\<not> isOffloadWaitAll (an_node a n)"
    and "gn_first (an_node a n) = Some enter" "nd_referencedStream (an_node a enter) = i" "i \<noteq> 0"
    and "device_of i a = Some p" "ge_streams (an_engine a) p = Device_Obj d" "ds_runningKernelEnter d = None"
    and "ds_pendingKernels d = ks @ [k]" "distinct (ks @ [k])" "\<And>q. q \<in> set (ks @ [k]) \<Longrightarrow> nd_link (an_node a q) = None"
    and "nd_time (an_node a k) \<le> nd_time (an_node a enter)" "oo_linkKernels opts = 0"
    and "hasPartner (an_node a kernelEnter)" "gn_second (an_node a kernelEnter) = Some k"
  shows "\<exists>a' d'. SyncRule opts n (o1, a) = ret (True, o1, a') \<and> ge_streams (an_engine a') p = Device_Obj d' \<and>
    ds_pendingKernels d' = [] \<and> (\<forall>q\<in>set ks. nd_link (an_node a' q) = Some n) \<and>
    nd_link (an_node a' k) = None \<and> isKernelPending (ge_heap (an_engine a')) kernelEnter"
proof -
  let ?a = "count_activity STAT_OFLD_SYNC a" and ?d = "d\<lparr>ds_pendingKernels := ks\<rparr>"
  let ?b = "put_device p ?d ?a"
  obtain h where h: "setPendingKernelsSyncLink (Some n) (ge_heap (an_engine ?b)) ?d = Inr h"
      "\<And>q. nd_link (h q) = (if q \<in> set ks then Some n else nd_link (an_node a q))"
    using set_sync_links_ok [of ks "ge_heap (an_engine a)" "Some n"] assms(11,12) by (auto simp: setPendingKernelsSyncLink_def)
  have targets: "sync_targets opts (of_delay500us o1) n (Some enter) ?a = ret (Some [p], ?a)"
    using assms(3,5-8,14) by (simp add: sync_targets_def device_of_def with_device_eq createKernelDependencies_def)
  have streams: "sync_streams opts enter n [p] True ?a = ret (True, ?b)"
    using assms(8-10) leD [OF assms(13)]
    by (simp add: sync_stream_def with_device_eq consume_kernel_def consumeLastPendingKernel_def)
  obtain a' c where a': "late_sync enter n [p] ?b = ret a'" "ge_streams (an_engine a') p = Device_Obj (clearPendingKernels ?d)"
      "ge_heap (an_engine a') = h(n := setCounter WAITING_TIME c (h n))"
    using late_sync_ok [of ?b p ?d n h enter] h(1) by auto
  have link: "nd_link (an_node a' q) = (if q \<in> set ks then Some n else nd_link (an_node a q))" for q
    by (simp add: a'(3) h(2) setCounter_def)
  have pairs: "gn_first (an_node a' q) = gn_first (an_node a q)" "gn_second (an_node a' q) = gn_second (an_node a q)" for q
    using set_sync_links_pairs [of "Some n" ks "ge_heap (an_engine a)" h] h(1)
    by (simp_all add: a'(3) setCounter_def setPendingKernelsSyncLink_def)
  have "SyncRule opts n (o1, a) = ret (True, o1, a')"
    using assms(1,2,4) targets streams a'(1) by (simp add: SyncRule_def)
  moreover have "nd_link (an_node a' k) = None"
    using link assms(11,12) by simp
  ultimately show ?thesis
    using a'(2) link assms(15,16) by (simp add: clearPendingKernels_def isKernelPending_def hasPartner_def pairs)
qed

text \<open>One kernel from 20 to 30, and a synchronisation with its stream from 40 to 50.\<close>

definition sync_node :: "node_ref \<Rightarrow> graph_node" where
  "sync_node n = (fst (GraphNode_new n (of_nat n) (10 * of_nat n) 2 ''node'' PARADIGM_CUDA
      (if n = 3 \<or> n = 5 then RECORD_LEAVE else RECORD_ENTER) (if n < 4 then OFLD_TASK_KERNEL else OFLD_WAIT)))
    \<lparr>gn_first := Some (if n < 4 then 2 else 4), gn_second := Some (if n < 4 then 3 else 5), nd_referencedStream := 7\<rparr>"

lemma sync_node_simps [simp]:
  "nd_time (sync_node n) = 10 * of_nat n" "gn_first (sync_node n) = Some (if n < 4 then 2 else 4)"
  "gn_second (sync_node n) = Some (if n < 4 then 3 else 5)" "nd_referencedStream (sync_node n) = 7" "nd_link (sync_node n) = None"
  "nd_nodeType (sync_node n) = (if n < 4 then OFLD_TASK_KERNEL else OFLD_WAIT)" "nd_paradigm (sync_node n) = PARADIGM_CUDA"
  "isLeave (sync_node n) \<longleftrightarrow> n = 3 \<or> n = 5"
  by (simp_all add: sync_node_def isLeave_def GraphNode_new_def Node_new_def node.defs graph_node.defs Let_def)

definition sync_device :: device_stream where
  "sync_device = DeviceStream_new 7 0 ''CUDA[0:1]''\<lparr>ds_pendingKernels := [3]\<rparr>"

definition sync_analysis :: analysis where
  "sync_analysis = AnalysisEngine_new 0 1 0 False (chain_engine\<lparr>ge_heap := sync_node, ge_streams := (\<lambda>_. Device_Obj sync_device),
     ge_group := EventStreamGroup_new\<lparr>sg_streamsMap := [(7, 0)]\<rparr>\<rparr>)"

lemma sync_device_simps [simp]: "ds_pendingKernels sync_device = [3]" "ds_runningKernelEnter sync_device = None"
  "isDeviceStream (event_stream.truncate sync_device)"
  by (simp_all add: sync_device_def DeviceStream_new_def EventStream_new_def event_stream.defs device_stream.defs isDeviceStream_def
      es_types has_flag_def)

lemma sync_analysis_simps [simp]: "an_node sync_analysis = sync_node" "ge_streams (an_engine sync_analysis) = (\<lambda>_. Device_Obj sync_device)"
  "device_of 7 sync_analysis = Some 0"
  by (simp_all add: sync_analysis_def AnalysisEngine_new_def device_of_def getDeviceStream_def)

end
