(* ===== verification/OffloadEventLaws.thy ===== *)
theory OffloadEventLaws
  imports OffloadSyncLaws
begin

text \<open>The rules for CUDA events: a synchronisation that a kernel is found for later, and streams that wait for an
  event.\<close>

section \<open>Synchronisations that are completed later\<close>

lemma block_edge_fields [simp]: "ge_heap (an_engine (block_edge e a)) = ge_heap (an_engine a)"
  "ge_streams (an_engine (block_edge e a)) = ge_streams (an_engine a)"
  by (simp_all add: block_edge_def)

lemma an_newEdge_streams [simp]: "ge_streams (an_engine (snd (an_newEdge p q b a))) = ge_streams (an_engine a)"
  by (simp add: an_newEdge_engine newEdge_fields)

lemma blocking_edge_fields [simp]: "ge_heap (an_engine (blocking_edge x y a)) = ge_heap (an_engine a)"
  "ge_streams (an_engine (blocking_edge x y a)) = ge_streams (an_engine a)"
  by (simp_all add: blocking_edge_def split: option.split)

lemma blame_between_fields [simp]: "ge_heap (an_engine (blame_between x y t r a)) = ge_heap (an_engine a)"
  "ge_streams (an_engine (blame_between x y t r a)) = ge_streams (an_engine a)"
  by (simp_all add: blame_between_def split: option.split)

lemma update_node_streams [simp]: "ge_streams (an_engine (update_node n f a)) = ge_streams (an_engine a)"
  by (simp add: update_node_def)

lemma waiting_time_inc [simp]: "getWaitingTime (incCounter WAITING_TIME t n) = getWaitingTime n + t"
  by (simp add: getWaitingTime_def getCounter_def getCounter_valid_def incCounter_def split: option.split)

lemma deferred_wait_fields:
  "ge_streams (an_engine (deferred_wait k l e y a)) = ge_streams (an_engine a)"
  "ge_heap (an_engine (deferred_wait k l e y a)) = (ge_heap (an_engine a))
     (y := incCounter WAITING_TIME (nd_time (an_node a y) - max (nd_time (an_node a e)) (nd_time (an_node a k))) (an_node a y))"
  by (simp_all add: deferred_wait_def Let_def)

lemma wrapped_nat: "int c = int a - int b + 2 ^ 64 \<Longrightarrow> a < b \<Longrightarrow> b < 2 ^ 64 \<Longrightarrow> c = 2 ^ 64 - (b - a)"
  by simp

lemma word_diff_wraps:
  fixes x y :: u64
  assumes "x < y"
  shows "unat (x - y) = 2 ^ 64 - (unat y - unat x)"
proof -
  have "\<not> uint y \<le> uint x"
    using assms by (simp add: word_less_def)
  then have "int (unat (x - y)) = int (unat x) - int (unat y) + 2 ^ 64"
    by (simp add: uint_sub_if' flip: uint_nat)
  moreover have "unat x < unat y" "unat y < 2 ^ 64"
    using assms unsigned_less [of y] by (simp_all add: word_less_nat_alt)
  ultimately show ?thesis
    by (rule wrapped_nat)
qed

text \<open>A synchronisation with an event can end before its kernel has been seen; the kernel is then charged for it
  when it begins, which in the order of the analysis is after the end of the synchronisation. The waiting time is
  computed as the end of the synchronisation minus the start of the kernel, which wraps around: the time that is
  missing to 2 to the power of 64 is the time from the synchronisation to the kernel.\<close>
lemma deferred_wait_wraps:
  assumes "gn_data (an_node a launch) = Some (Node_Data y)" "isOffloadWaitEvent (an_node a y)" "isLeave (an_node a y)"
    and "gn_first (an_node a y) = Some e" "gn_second (an_node a k) = Some l"
    and "nd_time (an_node a e) < nd_time (an_node a l)" "nd_time (an_node a e) \<le> nd_time (an_node a y)"
    and "nd_time (an_node a y) < nd_time (an_node a k)"
    and "ge_streams (an_engine a) p = Device_Obj d" "getWaitingTime (an_node a y) = 0"
  shows "\<exists>a'. deferred_sync k launch p a = ret a' \<and>
    unat (getWaitingTime (an_node a' y)) = 2 ^ 64 - (unat (nd_time (an_node a k)) - unat (nd_time (an_node a y)))"
proof -
  have "max (nd_time (an_node a e)) (nd_time (an_node a k)) = nd_time (an_node a k)"
    using order.strict_implies_order [OF order.strict_trans1 [OF assms(7,8)]] by (simp add: max_def)
  then show ?thesis
    using assms(1-6,9,10) word_diff_wraps [OF assms(8)]
    by (simp add: deferred_sync_def update_device_def with_device_def deferred_wait_fields)
qed

text \<open>The event synchronisation from 40 to 50 and a kernel from 60 to 70.\<close>

definition event_heap :: heap where
  "event_heap = sync_node(1 := (sync_node 1)\<lparr>gn_data := Some (Node_Data 5)\<rparr>, 5 := (sync_node 5)\<lparr>nd_nodeType := OFLD_WAIT_EVT\<rparr>,
     6 := (sync_node 6)\<lparr>gn_second := Some 7\<rparr>)"

definition event_analysis :: analysis where
  "event_analysis = sync_analysis\<lparr>an_engine := (an_engine sync_analysis)\<lparr>ge_heap := event_heap\<rparr>\<rparr>"

lemma sync_node_waiting [simp]: "getWaitingTime (sync_node n) = 0"
  by (simp add: sync_node_def getWaitingTime_def getCounter_def getCounter_valid_def GraphNode_new_def Node_new_def
      node.defs graph_node.defs Let_def)

lemma event_analysis_simps [simp]: "an_node event_analysis = event_heap"
  "ge_streams (an_engine event_analysis) = (\<lambda>_. Device_Obj sync_device)"
  by (simp_all add: event_analysis_def)

section \<open>Streams that wait for an event\<close>

text \<open>The leaves of the calls that make a stream wait, and that none of the event records they are linked to has a
  link itself. The rules never link an event record to a launch; \<^verbatim>\<open>EventLaunchRule\<close> contains the code for it,
  which is commented out, and \<^verbatim>\<open>EventSyncRule\<close> sets the link to null.\<close>

definition stream_waits :: "offload_state \<Rightarrow> node_ref set" where
  "stream_waits o1 = \<Union> (set ` ran (of_streamWait o1)) \<union> fst ` set (of_nullStreamWaits o1)"

definition records_unlinked :: "heap \<Rightarrow> offload_state \<Rightarrow> bool" where
  "records_unlinked h o1 \<longleftrightarrow> (\<forall>w\<in>stream_waits o1. \<forall>r. nd_link (h w) = Some r \<longrightarrow> nd_link (h r) = None)"

lemma untagged_wait_mem: "untagged_wait m i ws = ret (Some n) \<Longrightarrow> n \<in> fst ` set ws"
  by (induction m i ws rule: untagged_wait.induct) (auto split: if_splits)

lemma getFirstStreamWaitEvent_mem: "getFirstStreamWaitEvent i (o1, a) = ret (Some n) \<Longrightarrow> n \<in> stream_waits o1"
  by (auto simp: getFirstStreamWaitEvent_def stream_waits_def ran_def split: option.splits list.splits
      dest: untagged_wait_mem)

lemma stream_wait_step_stops:
  assumes "records_unlinked (ge_heap (an_engine a)) o1" "stream_wait_step n enter launch (w, o1, a) = ret (go, w', o2, b)"
  shows "\<not> go \<and> w' = w \<and> b = a"
  using assms(2)
proof -
  obtain r where r: "getFirstStreamWaitEvent (nd_streamId (an_node a n)) (o1, a) = ret r"
    using assms(2) by (auto simp: stream_wait_step_def Let_def ret_bind)
  show ?thesis
  proof (cases r)
    case (Some l)
    then have "\<forall>q. nd_link (an_node a l) = Some q \<longrightarrow> nd_link (an_node a q) = None"
      using getFirstStreamWaitEvent_mem assms(1) r by (auto simp: records_unlinked_def)
    then show ?thesis
      using assms(2) r Some by (auto simp: stream_wait_step_def Let_def ret_bind deref_ret split: if_splits option.splits)
  qed (use assms(2) r in \<open>auto simp: stream_wait_step_def Let_def\<close>)
qed

lemma stream_wait_loop_stops:
  assumes "records_unlinked (ge_heap (an_engine a)) o1" "stream_wait_loop n enter launch (w, o1, a) = ret (w', o2, b)"
  shows "w' = w \<and> b = a"
proof -
  obtain q where q: "stream_wait_step n enter launch (w, o1, a) = ret q"
    using assms(2) by (subst (asm) stream_wait_loop.simps) (auto simp: ret_def split: option.splits sum.splits)
  obtain go v o3 c where p: "q = (go, v, o3, c)"
    by (cases q) auto
  have "\<not> go \<and> v = w \<and> c = a"
    using stream_wait_step_stops [OF assms(1)] q p by blast
  then show ?thesis
    using assms(2) q p by (subst (asm) stream_wait_loop.simps) (auto simp: ret_def)
qed

text \<open>The rule for streams that wait for an event never finds a dependency between kernels: on the leave of a
  kernel it never applies, and leaves the whole analysis as it is, in any state in which the event records have no
  links of their own. It does take a wait out of its list.\<close>
lemma stream_wait_finds_nothing:
  assumes "records_unlinked (ge_heap (an_engine a)) o1" "ev n = None"
    and "StreamWaitRule ev linkKernels n (o1, a) = ret (applied, o2, b)"
  shows "\<not> applied \<and> b = a"
proof (cases "isLeave (an_node a n) \<and> isCUDAKernel (an_node a n)")
  case True
  let ?w = "\<lparr>ws_processed = {}, ws_enterTime = UINT64_MAX, ws_lastSync = None, ws_insert = False, ws_matched = False\<rparr>"
  obtain enter where e: "gn_first (an_node a n) = Some enter"
    using assms(2,3) True by (auto simp: StreamWaitRule_def wait_kernel_def deref_ret)
  show ?thesis
  proof (cases "nd_link (an_node a enter)")
    case None
    then show ?thesis
      using assms(2,3) True e by (auto simp: StreamWaitRule_def wait_kernel_def)
  next
    case (Some launch)
    then obtain w o3 c where l: "stream_wait_loop n enter launch (?w, o1, a) = ret (w, o3, c)"
        "bind_fuel (if ws_insert w then insert_wait_state linkKernels n enter w c else ret c) (\<lambda>a. ret (ws_matched w, o3, a))
          = ret (applied, o2, b)"
      using assms(2,3) True e by (auto simp: StreamWaitRule_def wait_kernel_def ret_bind)
    then show ?thesis
      using stream_wait_loop_stops [OF assms(1) l(1)] by auto
  qed
qed (use assms(2,3) in \<open>auto simp: StreamWaitRule_def split: if_splits\<close>)

text \<open>The stream of a kernel from 20 to 30 waits for an event that has been recorded.\<close>

definition wait_heap :: heap where
  "wait_heap = sync_node(2 := (sync_node 2)\<lparr>nd_link := Some 1\<rparr>, 6 := (sync_node 6)\<lparr>gn_first := Some 0, nd_link := Some 8\<rparr>)"

definition wait_analysis :: analysis where
  "wait_analysis = sync_analysis\<lparr>an_engine := (an_engine sync_analysis)\<lparr>ge_heap := wait_heap\<rparr>\<rparr>"

lemma wait_analysis_simps [simp]: "an_node wait_analysis = wait_heap"
  by (simp add: wait_analysis_def)

lemma sync_node_stream [simp]: "nd_streamId (sync_node n) = 2"
  by (simp add: sync_node_def GraphNode_new_def Node_new_def node.defs graph_node.defs Let_def)

end
