(* ===== verification/FunctionTable.thy ===== *)
theory FunctionTable
  imports GraphEngineModel
begin

text \<open>The classification of a region by its name (\<^verbatim>\<open>backend/include/FunctionTable.hpp\<close>): which paradigm and which
  type its nodes get, and whether nodes are made for it at all. An entry of a table has a number of names that
  are compared, which can be less than the names it lists.\<close>

section \<open>Tables\<close>

type_synonym ftable = "(u32 \<times> nat \<times> string list) list"

definition fTableMPIAsync :: ftable where
  "fTableMPIAsync =
    [(MPI_WAIT, 1, [''MPI_Wait'']), (MPI_WAITALL, 1, [''MPI_Waitall'']), (MPI_TEST, 1, [''MPI_Test'']),
     (MPI_TESTALL, 1, [''MPI_Testall'']), (MPI_IRECV, 1, [''MPI_Irecv'']), (MPI_ISEND, 2, [''MPI_Isend'', ''MPI_Ibsend''])]"

definition FTABLE_CUDA_COLL_SYNC :: "string list" where
  "FTABLE_CUDA_COLL_SYNC =
    [''cuCtxSynchronize'', ''cudaSynchronize'', ''cuMemAlloc'', ''cuMemAlloc_v2'', ''cuMemAllocHost'', ''cuMemAllocPitch'',
     ''cuMemHostAlloc'', ''cuMemsetD8'', ''cuMemsetD16'', ''cuMemsetD32'', ''cuMemsetD2D8'', ''cuMemsetD2D16'', ''cuMemsetD2D32'']"

definition fTableCUDA :: ftable where
  "fTableCUDA =
    [(OFLD_WAIT_ALL, 2, FTABLE_CUDA_COLL_SYNC),
     (OFLD_WAIT, 1, [''cuStreamSynchronize'']),
     (OFLD_QUERY, 1, [''cuStreamQuery'']),
     (OFLD_ENQUEUE_KERNEL, 5, [''cuLaunch'', ''cuLaunchGrid'', ''cuLaunchGridAsync'', ''cuLaunchKernel'', ''cudaLaunch'']),
     (OFLD_QUERY_EVT, 1, [''cuEventQuery'']),
     (OFLD_WAIT_EVT, 1, [''cuEventSynchronize'']),
     (OFLD_ENQUEUE_EVT, 1, [''cuEventRecord'']),
     (OFLD_ENQUEUE_WAIT, 1, [''cuStreamWaitEvent'']),
     (OFLD_WAITSTATE, 1, [''__WaitState__'']),
     (OFLD_BLOCKING_DATA, 5, [''cuMemcpyDtoD'', ''cuMemcpyDtoH'', ''cuMemcpyDtoH_v2'', ''cuMemcpyHtoD'', ''cuMemcpyHtoD_v2'']),
     (OFLD_ASYNC_DATA, 2, [''cuMemcpyDtoHAsync_v2'', ''cuMemcpyHtoDAsync_v2''])]"

definition fTableOpenCL :: ftable where
  "fTableOpenCL =
    [(OFLD_WAIT_QUEUE, 1, [''clFinish'']),
     (OFLD_ENQUEUE_DATA, 2, [''clEnqueueReadBuffer'', ''clEnqueueWriteBuffer'']),
     (OFLD_ENQUEUE_KERNEL, 1, [''clEnqueueNDRangeKernel'']),
     (OFLD_QUERY_EVT, 1, [''clGetEventInfo'']),
     (OFLD_WAIT_EVT, 1, [''clWaitForEvents'']),
     (OFLD_WAITSTATE, 1, [''__WaitState__''])]"

definition fTableMPI :: ftable where
  "fTableMPI =
    [(MPI_INIT, 2, [''MPI_Init'', ''MPI_Init_thread'']),
     (MPI_FINALIZE, 1, [''MPI_Finalize'']),
     (MPI_RECV, 1, [''MPI_Recv'']),
     (MPI_SEND, 4, [''MPI_Send'', ''MPI_Ssend'', ''MPI_Bsend'', ''MPI_Rsend'']),
     (MPI_COLLECTIVE, 11, [''MPI_Barrier'', ''MPI_Allreduce'', ''MPI_Allgather'', ''MPI_Allgatherv'', ''MPI_Alltoall'',
        ''MPI_Alltoallv'', ''MPI_Reduce_scatter'', ''MPI_Reduce'', ''MPI_Gather'', ''MPI_Scatter'', ''MPI_Bcast'']),
     (MPI_SENDRECV, 1, [''MPI_Sendrecv'']),
     (MPI_WAITSTATE, 1, [''__WaitState__''])]"

text \<open>The type of a name: the first entry for the table that is left at the first match, the last one for the
  others.\<close>

definition in_entry :: "string \<Rightarrow> u32 \<times> nat \<times> string list \<Rightarrow> bool" where
  "in_entry name e = (case e of (t, n, names) \<Rightarrow> name \<in> set (take n names))"

definition first_type :: "ftable \<Rightarrow> string \<Rightarrow> u32 option" where
  "first_type tab name = (case List.find (in_entry name) tab of None \<Rightarrow> None | Some e \<Rightarrow> Some (fst e))"

definition last_type :: "ftable \<Rightarrow> string \<Rightarrow> u32 option" where
  "last_type tab name = foldl (\<lambda>r e. if in_entry name e then Some (fst e) else r) None tab"

section \<open>The type of a region\<close>

text \<open>The paradigms of OTF2 the program tells apart.\<close>

datatype otf2_paradigm = OTF2_PARADIGM_UNKNOWN | OTF2_PARADIGM_USER | OTF2_PARADIGM_COMPILER | OTF2_PARADIGM_OPENMP
  | OTF2_PARADIGM_CUDA | OTF2_PARADIGM_OPENCL | OTF2_PARADIGM_OTHER

record descriptor =
  fd_paradigm :: u32
  fd_functionType :: u32
  fd_recordType :: record_type

record name_options =
  no_ignoreAsyncMpi :: bool
  no_ignoreOffload :: bool

definition set_type :: "u32 \<Rightarrow> u32 \<Rightarrow> descriptor \<Rightarrow> descriptor" where
  "set_type paradigm t d = d\<lparr>fd_paradigm := paradigm, fd_functionType := t\<rparr>"

text \<open>What the switch over a matched type gives: the result of the function, or going on after it. The case
  labels fall through as in the code.\<close>

definition cuda_type :: "bool \<Rightarrow> u32 \<Rightarrow> descriptor \<Rightarrow> (bool \<times> descriptor) option" where
  "cuda_type deviceNullStreamOnly t d =
    (if t = OFLD_BLOCKING_DATA then Some (True, set_type PARADIGM_CUDA (t OR OFLD_WAIT_ALL OR OFLD_WAIT OR OFLD_ENQUEUE_DATA) d)
     else if t = OFLD_WAIT_ALL then Some (True, set_type PARADIGM_CUDA (t OR OFLD_WAIT) d)
     else if t = OFLD_ASYNC_DATA then
       (if deviceNullStreamOnly
        then Some (True, set_type PARADIGM_CUDA (t OR OFLD_WAIT_ALL OR OFLD_WAIT OR OFLD_BLOCKING_DATA OR OFLD_ENQUEUE_DATA) d)
        else Some (False, set_type PARADIGM_CUDA t d))
     else if t \<in> {OFLD_WAIT, OFLD_ENQUEUE_KERNEL, OFLD_ENQUEUE_EVT, OFLD_WAIT_EVT, OFLD_QUERY, OFLD_QUERY_EVT, OFLD_ENQUEUE_WAIT}
       then Some (True, set_type PARADIGM_CUDA t d)
     else None)"

definition opencl_type :: "u32 \<Rightarrow> descriptor \<Rightarrow> (bool \<times> descriptor) option" where
  "opencl_type t d =
    (if t \<in> {OFLD_WAIT_QUEUE, OFLD_WAIT_EVT} then Some (True, set_type PARADIGM_OCL (t OR OFLD_WAIT) d)
     else if t \<in> {OFLD_QUERY_EVT, OFLD_ENQUEUE_KERNEL, OFLD_ENQUEUE_DATA} then Some (True, set_type PARADIGM_OCL t d)
     else None)"

definition mpi_call_type :: "u32 \<Rightarrow> descriptor \<Rightarrow> (bool \<times> descriptor) option" where
  "mpi_call_type t d =
    (if t \<in> {MPI_INIT, MPI_FINALIZE} then Some (True, set_type PARADIGM_MPI (t OR MPI_ALLRANKS OR MPI_COLLECTIVE OR MPI_BLOCKING) d)
     else if t \<in> {MPI_COLLECTIVE, MPI_ONETOALL, MPI_ALLTOONE, MPI_SENDRECV, MPI_RECV, MPI_SEND}
       then Some (True, set_type PARADIGM_MPI (t OR MPI_BLOCKING) d)
     else if t = MPI_MISC then Some (True, set_type PARADIGM_MPI t d)
     else None)"

section \<open>OpenMP regions\<close>

text \<open>\<^verbatim>\<open>strstr\<close> and \<^verbatim>\<open>strchr\<close>: the index of the first occurrence from a place on.\<close>

fun index_of :: "string \<Rightarrow> nat \<Rightarrow> string \<Rightarrow> nat option" where
  "index_of pat i s =
    (if take (length pat) s = pat then Some i
     else case s of [] \<Rightarrow> None | c # cs \<Rightarrow> index_of pat (i + 1) cs)"

declare index_of.simps [simp del]

definition search_from :: "nat \<Rightarrow> string \<Rightarrow> string \<Rightarrow> nat option" where
  "search_from k pat name = index_of pat k (drop k name)"

text \<open>A word that begins before the file name. Without a file name the end is the null pointer, and nothing
  lies before it.\<close>

definition in_directive :: "nat \<Rightarrow> string \<Rightarrow> string \<Rightarrow> bool" where
  "in_directive k pat name = (case (search_from k pat name, search_from 6 ''@'' name) of
      (Some i, Some e) \<Rightarrow> i < e | _ \<Rightarrow> False)"

definition no_target_data :: "string \<Rightarrow> bool" where
  "no_target_data name = (case search_from 13 ''data'' name of
      None \<Rightarrow> True
    | Some i \<Rightarrow> (case search_from 6 ''@'' name of None \<Rightarrow> True | Some e \<Rightarrow> i > e))"

definition omp_type :: "string \<Rightarrow> u32 option" where
  "omp_type name =
    (if in_directive 6 ''barrier'' name then Some OMP_SYNC
     else if in_directive 6 ''target'' name \<and> no_target_data name then Some OMP_TARGET
     else if in_directive 6 ''offloading flush'' name then Some OMP_TARGET_FLUSH
     else if in_directive 6 ''parallel'' name then Some OMP_PARALLEL
     else if in_directive 6 ''implicit'' name \<and> in_directive 14 ''task'' name then Some OMP_IMPLICIT_TASK
     else None)"

text \<open>A region that no table knows. A name of five characters is read past its end.\<close>

definition other_type :: "string \<Rightarrow> bool \<Rightarrow> descriptor \<Rightarrow> (bool \<times> descriptor) result" where
  "other_type name deviceStream d =
    (if take 5 name = ''!$omp'' then
       (if length name = 5 then Inl Out_Of_Bounds
        else case omp_type name of
          Some t \<Rightarrow> Inr (True, set_type PARADIGM_OMP t d)
        | None \<Rightarrow> Inr (False, set_type PARADIGM_CPU OMP_MISC d))
     else if index_of ''__ompforkjoin__internal'' 0 name \<noteq> None then Inr (True, set_type PARADIGM_OMP OMP_FORKJOIN d)
     else if deviceStream then
       Inr (True, set_type (if take 1 name = ''$'' then PARADIGM_OCL else PARADIGM_CUDA) OFLD_TASK_KERNEL d)
     else Inr (False, set_type PARADIGM_CPU MISC_CPU d))"

definition getAPIFunctionType ::
  "name_options \<Rightarrow> descriptor \<Rightarrow> string option \<Rightarrow> otf2_paradigm \<Rightarrow> bool \<Rightarrow> bool \<Rightarrow> bool \<Rightarrow> (bool \<times> descriptor) result" where
  "getAPIFunctionType opts d name paradigm deviceStream deviceNullStreamOnly ignoreMPI = (case name of
      None \<Rightarrow> Inr (False, d)
    | Some name \<Rightarrow>
        (let cpu = Inr (False, set_type PARADIGM_CPU MISC_CPU d) in
         if \<not> deviceStream \<and> (paradigm = OTF2_PARADIGM_USER \<or> paradigm = OTF2_PARADIGM_COMPILER) then cpu
         else case first_type fTableMPIAsync name of
           Some t \<Rightarrow> if no_ignoreAsyncMpi opts \<or> ignoreMPI then cpu else Inr (True, set_type PARADIGM_MPI t d)
         | None \<Rightarrow>
             (let c = last_type fTableCUDA name; o1 = last_type fTableOpenCL name; m = last_type fTableMPI name in
              if (c \<noteq> None \<or> o1 \<noteq> None) \<and> no_ignoreOffload opts then cpu
              else if m \<noteq> None \<and> ignoreMPI then cpu
              else case (case (m, o1, c) of
                  (Some t, _, _) \<Rightarrow> mpi_call_type t d
                | (None, Some t, _) \<Rightarrow> opencl_type t d
                | (None, None, Some t) \<Rightarrow> cuda_type deviceNullStreamOnly t d
                | (None, None, None) \<Rightarrow> None) of
                Some r \<Rightarrow> Inr r
              | None \<Rightarrow> other_type name deviceStream d)))"

end
