(* ===== verification/CasitaModel.thy ===== *)
theory CasitaModel
  imports OffloadEventLaws FunctionTable
begin

text \<open>The analysis engine with its paradigms (\<^verbatim>\<open>analysis/AnalysisEngine.cpp\<close>): the rules of the paradigm of a
  node are applied, the events the trace reader delivers are passed on to it, and between two intervals the nodes
  that are no longer needed are deleted. A paradigm that has not been added has no state here. The rules a
  paradigm registers depend on the definitions of the trace, which have been read before it is added.\<close>

section \<open>State\<close>

record casita_options =
  co_names :: name_options
  co_offload :: offload_options
  co_analysisInterval :: u32
  co_predictionFilter :: string
  co_nullStream :: int

record casita =
  ca_options :: casita_options
  ca_analysis :: analysis
  ca_mpi :: bool
  ca_omp :: "omp_state option"
  ca_offload :: "offload_state option"
  ca_events :: event_store
  ca_globalCollectives :: u32

abbreviation ca_engine :: "casita \<Rightarrow> engine" where "ca_engine c \<equiv> an_engine (ca_analysis c)"
abbreviation ca_heap :: "casita \<Rightarrow> heap" where "ca_heap c \<equiv> ge_heap (ca_engine c)"

definition set_ignoreAsyncMpi :: "casita_options \<Rightarrow> casita_options" where
  "set_ignoreAsyncMpi o1 = o1\<lparr>co_names := (co_names o1)\<lparr>no_ignoreAsyncMpi := True\<rparr>\<rparr>"

definition Casita_new :: "casita_options \<Rightarrow> u32 \<Rightarrow> u32 \<Rightarrow> u64 \<Rightarrow> bool \<Rightarrow> engine \<Rightarrow> casita" where
  "Casita_new opts mpiRank mpiSize waitStateRegion propagateBlame s =
    \<lparr>ca_options = (if mpiSize > 1 then opts else set_ignoreAsyncMpi opts),
     ca_analysis = AnalysisEngine_new mpiRank mpiSize waitStateRegion propagateBlame s,
     ca_mpi = (mpiSize > 1), ca_omp = None, ca_offload = None, ca_events = Map.empty, ca_globalCollectives = 0\<rparr>"

text \<open>The uninitialised members of the offload analysis are arguments.\<close>

definition add_offload_analysis :: "8 word \<Rightarrow> u64 \<Rightarrow> u64 \<Rightarrow> casita \<Rightarrow> casita" where
  "add_offload_analysis activeTasks idleStart delay c =
    c\<lparr>ca_offload := Some (AnalysisParadigmOffload_new (co_offload (ca_options c)) activeTasks idleStart delay (ca_engine c))\<rparr>"

definition add_omp_analysis :: "casita \<Rightarrow> casita" where
  "add_omp_analysis c = c\<lparr>ca_omp := Some AnalysisParadigmOMP_new\<rparr>"

section \<open>Passing on to a paradigm\<close>

definition on_analysis :: "(analysis \<Rightarrow> analysis step) \<Rightarrow> casita \<Rightarrow> casita step" where
  "on_analysis f c = bind_fuel (f (ca_analysis c)) (\<lambda>a. ret (c\<lparr>ca_analysis := a\<rparr>))"

definition with_mpi :: "(analysis \<Rightarrow> analysis step) \<Rightarrow> casita \<Rightarrow> casita step" where
  "with_mpi f c = (if ca_mpi c then on_analysis f c else ret c)"

definition with_omp :: "(omp_state \<times> analysis \<Rightarrow> (omp_state \<times> analysis) step) \<Rightarrow> casita \<Rightarrow> casita step" where
  "with_omp f c = (case ca_omp c of
      None \<Rightarrow> ret c
    | Some o1 \<Rightarrow> bind_fuel (f (o1, ca_analysis c)) (\<lambda>(o1, a). ret (c\<lparr>ca_omp := Some o1, ca_analysis := a\<rparr>)))"

definition with_offload :: "(offload_state \<times> analysis \<Rightarrow> (offload_state \<times> analysis) step) \<Rightarrow> casita \<Rightarrow> casita step" where
  "with_offload f c = (case ca_offload c of
      None \<Rightarrow> ret c
    | Some o1 \<Rightarrow> bind_fuel (f (o1, ca_analysis c)) (\<lambda>(o1, a). ret (c\<lparr>ca_offload := Some o1, ca_analysis := a\<rparr>)))"

text \<open>A node of CUDA or OpenCL goes to the offload analysis, any other to the analysis of exactly its paradigm.\<close>

definition rule_paradigm :: "graph_node \<Rightarrow> u32" where
  "rule_paradigm n = (if has_flag (nd_paradigm n) PARADIGM_OFFLOAD then PARADIGM_OFFLOAD else nd_paradigm n)"

definition drop_result :: "(bool \<times> 's) step \<Rightarrow> 's step" where
  "drop_result r = bind_fuel r (\<lambda>(_, s). ret s)"

definition applyRules :: "nat \<Rightarrow> (node_ref \<Rightarrow> mpi_replay) \<Rightarrow> node_ref \<Rightarrow> casita \<Rightarrow> casita step" where
  "applyRules fuel replay n c =
    (let p = rule_paradigm (ca_heap c n); opts = ca_options c in
     if p = PARADIGM_OFFLOAD then
       with_offload (\<lambda>s. drop_result (apply_all (offload_rules fuel (ca_events c) (co_offload opts) (snd s)) n s)) c
     else if p = PARADIGM_OMP then with_omp (\<lambda>s. drop_result (apply_all (omp_rules fuel (snd s)) n s)) c
     else if p = PARADIGM_MPI then
       with_mpi (\<lambda>a. drop_result (apply_all (mpi_rules (no_ignoreAsyncMpi (co_names opts)) fuel (replay n)) n a)) c
     else ret c)"

fun apply_nodes :: "nat \<Rightarrow> (node_ref \<Rightarrow> mpi_replay) \<Rightarrow> node_ref list \<Rightarrow> casita \<Rightarrow> casita step" where
  "apply_nodes fuel replay [] c = ret c"
| "apply_nodes fuel replay (n # ns) c = bind_fuel (applyRules fuel replay n c) (apply_nodes fuel replay ns)"

definition runAnalysis :: "nat \<Rightarrow> (node_ref \<Rightarrow> mpi_replay) \<Rightarrow> casita \<Rightarrow> casita step" where
  "runAnalysis fuel replay c = apply_nodes fuel replay (getAllNodes (ca_engine c)) c"

definition processDeferredNodes :: "nat \<Rightarrow> (node_ref \<Rightarrow> mpi_replay) \<Rightarrow> casita \<Rightarrow> casita step" where
  "processDeferredNodes fuel replay c = bind_fuel (apply_nodes fuel replay (an_deferredNodes (ca_analysis c)) c) (\<lambda>c.
    ret (c\<lparr>ca_analysis := (ca_analysis c)\<lparr>an_deferredNodes := []\<rparr>\<rparr>))"

section \<open>Events of the trace\<close>

text \<open>The attributes of an event the analysis reads.\<close>

record attributes =
  at_cudaStream :: "u64 option"
  at_openclQueue :: "u64 option"
  at_deviceId :: "u64 option"
  at_parallelId :: "u64 option"
  at_locationRef :: "u64 option"
  at_eventRef :: "u64 option"
  at_cuResult :: "u32 option"

definition on_offload :: "node_ref \<Rightarrow> casita \<Rightarrow> bool" where
  "on_offload n c \<longleftrightarrow> isOfld (ca_heap c n) \<and> ca_offload c \<noteq> None"

definition keep_analysis :: "(heap \<Rightarrow> offload_state \<Rightarrow> offload_state result) \<Rightarrow> offload_state \<times> analysis \<Rightarrow> (offload_state \<times> analysis) step" where
  "keep_analysis f s = (case s of (o1, a) \<Rightarrow> Some (bind_res (f (ge_heap (an_engine a)) o1) (\<lambda>o1. Inr (o1, a))))"

definition handlePostEnter :: "node_ref \<Rightarrow> casita \<Rightarrow> casita step" where
  "handlePostEnter n c =
    (if on_offload n c then with_offload (keep_analysis (\<lambda>h. offload_handlePostEnter h (Some n))) c
     else if nd_paradigm (ca_heap c n) = PARADIGM_OMP then with_omp (\<lambda>s. ret (omp_handlePostEnter n s)) c
     else ret c)"

definition handlePostLeave :: "nat \<Rightarrow> node_ref \<Rightarrow> casita \<Rightarrow> casita step" where
  "handlePostLeave fuel n c =
    (let p = nd_paradigm (ca_heap c n) in
     if on_offload n c then
       with_offload (keep_analysis (\<lambda>h. offload_handlePostLeave (co_offload (ca_options c)) h (Some n))) c
     else if p = PARADIGM_OMP then with_omp (omp_handlePostLeave fuel n) c
     else if p = PARADIGM_MPI then with_mpi (mpi_handlePostLeave n) c
     else ret c)"

definition handleKeyValuesEnter :: "attributes \<Rightarrow> node_ref \<Rightarrow> casita \<Rightarrow> casita step" where
  "handleKeyValuesEnter kv n c =
    (if on_offload n c then
       on_analysis (\<lambda>a. ret (offload_handleKeyValuesEnter (at_cudaStream kv) (at_openclQueue kv) n a)) c
     else if nd_paradigm (ca_heap c n) = PARADIGM_OMP then
       with_omp (omp_handleKeyValuesEnter (at_deviceId kv) (at_parallelId kv) n) c
     else ret c)"

definition handleKeyValuesLeave :: "attributes \<Rightarrow> node_ref \<Rightarrow> node_ref option \<Rightarrow> casita \<Rightarrow> casita step" where
  "handleKeyValuesLeave kv n oldNode c =
    (if on_offload n c then
       deref oldNode (\<lambda>enter.
         on_analysis (\<lambda>a. ret (offload_handleKeyValuesLeave (at_cudaStream kv) (at_openclQueue kv) n enter a)) c)
     else if nd_paradigm (ca_heap c n) = PARADIGM_OMP then
       with_omp (\<lambda>(o1, a). ret (o1, omp_handleKeyValuesLeave (at_locationRef kv) n a)) c
     else ret c)"

section \<open>Any stream as an event stream\<close>

fun obj_update :: "(event_stream \<Rightarrow> event_stream) \<Rightarrow> stream_obj \<Rightarrow> stream_obj" where
  "obj_update f (Host_Obj s) = Host_Obj (f s)"
| "obj_update f (Mpi_Obj s) = Mpi_Obj (event_stream.extend (f (event_stream.truncate s)) (event_stream.more s))"
| "obj_update f (Device_Obj s) = Device_Obj (event_stream.extend (f (event_stream.truncate s)) (event_stream.more s))"

lemma base_obj_update [simp]: "base (obj_update f p) = f (base p)"
  by (cases p) (simp_all add: event_stream.defs)

fun obj_reset :: "stream_obj \<Rightarrow> stream_obj" where
  "obj_reset (Host_Obj s) = Host_Obj (es_reset s)"
| "obj_reset (Mpi_Obj s) = Mpi_Obj (mpi_reset s)"
| "obj_reset (Device_Obj s) = Device_Obj (device_reset s)"

definition put_stream :: "stream_ref \<Rightarrow> stream_obj \<Rightarrow> casita \<Rightarrow> casita" where
  "put_stream p s c = c\<lparr>ca_analysis := (ca_analysis c)\<lparr>an_engine := (ca_engine c)\<lparr>ge_streams := (ge_streams (ca_engine c))(p := s)\<rparr>\<rparr>\<rparr>"

definition put_heap :: "heap \<Rightarrow> casita \<Rightarrow> casita" where
  "put_heap h c = c\<lparr>ca_analysis := (ca_analysis c)\<lparr>an_engine := (ca_engine c)\<lparr>ge_heap := h\<rparr>\<rparr>\<rparr>"

definition stream_at :: "stream_ref \<Rightarrow> casita \<Rightarrow> stream_obj" where
  "stream_at p c = ge_streams (ca_engine c) p"

section \<open>The begin of the next interval\<close>

text \<open>Whether a node is deleted. A kernel without a synchronisation stays, and so does a launch, on a stream that
  may have pending kernels; a record of an event that has not been synchronised and any synchronisation stay on
  every stream.\<close>

definition delete_node ::
  "bool \<Rightarrow> node_ref \<Rightarrow> offload_state option \<times> heap \<Rightarrow> (bool \<times> offload_state option \<times> heap) result" where
  "delete_node havePendingKernels n s = (case s of (o1, h) \<Rightarrow>
    (let x = h n in
     if \<not> isOfld x then Inr (True, s)
     else
       bind_res
         (if havePendingKernels \<and> isOffloadKernel x then
            (case o1 of
               None \<Rightarrow> Inl Null_Dereference
             | Some o2 \<Rightarrow>
                 if isKernelPending h n then Inr (False, o1, setLinkLeft n None h)
                 else Inr (True, if isEnter x then Some (removeKernelLaunch h n o2) else o1, h))
          else Inr (\<not> (havePendingKernels \<and> isOffloadEnqueueKernel x), s))
         (\<lambda>(gone, s).
            Inr (gone \<and> \<not> (isCUDAEventLaunch x \<and> isLeave x \<and> gn_data x = None) \<and> \<not> isOffloadWait x, s))))"

fun delete_nodes ::
  "bool \<Rightarrow> node_ref list \<Rightarrow> offload_state option \<times> heap \<Rightarrow> (node_ref list \<times> offload_state option \<times> heap) result" where
  "delete_nodes havePendingKernels [] s = Inr ([], s)"
| "delete_nodes havePendingKernels (n # ns) s =
    bind_res (delete_node havePendingKernels n s) (\<lambda>(gone, s).
    bind_res (delete_nodes havePendingKernels ns s) (\<lambda>(deleted, s).
    Inr (if gone then n # deleted else deleted, s)))"

text \<open>The nodes of a stream the loop goes over: not the last node if it is an MPI node, not the first node of an
  MPI stream, not the last node of a device stream if it is an enter. Reading the last of no nodes and stepping
  past the end are undefined.\<close>

definition nodes_to_delete ::
  "stream_obj \<Rightarrow> offload_state option \<times> heap \<Rightarrow> (bool \<times> node_ref list \<times> offload_state option \<times> heap) result" where
  "nodes_to_delete p s = (case s of (o1, h) \<Rightarrow>
    (let ns = es_nodes (base p); ns = (if isMPI (h (last ns)) then butlast ns else ns) in
     if isMpiStream (base p) then (if ns = [] then Inl Out_Of_Bounds else Inr (True, tl ns, s))
     else if isDeviceStream (base p) then
       (if ns = [] then Inl Out_Of_Bounds
        else
          (let incomplete = isEnter (h (last ns));
               h = (if incomplete then setLinkLeft (last ns) None h else h);
               ns = (if incomplete then butlast ns else ns) in
           case p of
             Device_Obj d \<Rightarrow>
               if getLastPendingKernel d \<noteq> None then Inr (True, ns, o1, h)
               else Inr (False, ns, map_option (clearKernelEnqueues (es_id (base p))) o1, h)
           | _ \<Rightarrow> Inl Out_Of_Bounds))
     else Inr (True, ns, s)))"

definition an_offload :: "casita \<Rightarrow> offload_state option" where
  "an_offload c = (if haveParadigm PARADIGM_OFFLOAD (ca_analysis c) then ca_offload c else None)"

definition put_offload :: "offload_state option \<Rightarrow> casita \<Rightarrow> casita" where
  "put_offload o1 c = (case o1 of None \<Rightarrow> c | Some _ \<Rightarrow> c\<lparr>ca_offload := o1\<rparr>)"

definition delete_stream_nodes :: "stream_ref \<Rightarrow> casita \<Rightarrow> (node_ref list \<times> casita) result" where
  "delete_stream_nodes p c =
    (if es_nodes (base (stream_at p c)) = [] then Inr ([], c)
     else
       bind_res (nodes_to_delete (stream_at p c) (an_offload c, ca_heap c)) (\<lambda>(havePendingKernels, ns, s).
       bind_res (delete_nodes havePendingKernels ns s) (\<lambda>(deleted, o1, h).
       Inr (deleted, put_offload o1 (put_heap h c)))))"

text \<open>The last MPI node becomes the begin node of its stream.\<close>

definition restart_stream :: "stream_ref \<Rightarrow> casita \<Rightarrow> casita result" where
  "restart_stream p c =
    (case es_lastNode (base (stream_at p c)) of
       None \<Rightarrow> Inl Null_Dereference
     | Some n \<Rightarrow>
         (let c = put_heap (node_update n (\<lambda>x. addType MISC_PROCESS (x\<lparr>nd_recordType := RECORD_ATOMIC\<rparr>)) (ca_heap c)) c;
              c = put_stream p (obj_update clearNodes (stream_at p c)) c in
          bind_res (obj_addGraphNode n None (ca_heap c) (stream_at p c)) (\<lambda>(h, _, s).
          let c = put_stream p s (put_heap h c); g = ca_engine c; g = g\<lparr>ge_graph := graph_addNode n (ge_graph g)\<rparr> in
          Inr (c\<lparr>ca_analysis := (ca_analysis c)\<lparr>an_engine := snd (newEdge (ge_sourceNode g) n False None g)\<rparr>\<rparr>))))"

definition clear_stream :: "stream_ref \<Rightarrow> casita \<Rightarrow> (node_ref list \<times> casita) result" where
  "clear_stream p c =
    (let ns = es_nodes (base (stream_at p c)); isMpi = (ns \<noteq> [] \<and> isMPI (ca_heap c (last ns))) in
     bind_res (delete_stream_nodes p c) (\<lambda>(deleted, c).
     let c = put_stream p (obj_reset (stream_at p c)) c in
     if isMpi then bind_res (restart_stream p c) (\<lambda>c. Inr (deleted, c))
     else Inr (deleted, put_stream p (obj_update clearNodes (stream_at p c)) c)))"

fun clear_streams :: "stream_ref list \<Rightarrow> casita \<Rightarrow> (node_ref list \<times> casita) result" where
  "clear_streams [] c = Inr ([], c)"
| "clear_streams (p # ps) c =
    bind_res (clear_stream p c) (\<lambda>(d, c). bind_res (clear_streams ps c) (\<lambda>(ds, c). Inr (d @ ds, c)))"

text \<open>Only the offload analysis has something to reset.\<close>

definition reset_paradigms :: "casita \<Rightarrow> casita" where
  "reset_paradigms c = c\<lparr>ca_offload := map_option offload_reset (ca_offload c)\<rparr>"

text \<open>The result lists the nodes that are deleted.\<close>

definition createIntermediateBegin :: "casita \<Rightarrow> (node_ref list \<times> casita) result" where
  "createIntermediateBegin c =
    (let g = ca_engine c;
         g = g\<lparr>ge_graph := snd (cleanup True (g_nodes (ge_graph g)) (ge_graph g))\<rparr>;
         a = (ca_analysis c)\<lparr>an_engine := g, an_mpi := mpi_analysis_reset (an_mpi (ca_analysis c))\<rparr>;
         c = reset_paradigms (c\<lparr>ca_analysis := a\<rparr>) in
     clear_streams (sg_allStreams (ge_group g)) c)"

end
