(* ===== verification/DefinitionModel.thy ===== *)
theory DefinitionModel
  imports FunctionTable
begin

text \<open>The definitions of the trace the program keeps (\<^verbatim>\<open>backend/otf/OTF2DefinitionHandler.cpp\<close>): strings, regions
  and node names, and the references it makes for regions and strings of its own. A name that is the null pointer
  is \<^term>\<open>None\<close>.\<close>

section \<open>State\<close>

datatype region_role = OTF2_REGION_ROLE_FUNCTION | OTF2_REGION_ROLE_ARTIFICIAL | OTF2_REGION_ROLE_WRAPPER | OTF2_REGION_ROLE_OTHER

record region_info =
  ri_name :: "string option"
  ri_paradigm :: otf2_paradigm
  ri_role :: region_role

record definitions =
  de_timerResolution :: u64
  de_timerOffset :: u64
  de_traceLength :: u64
  de_strings :: "(u32, string) smap"
  de_regions :: "(u32, region_info) smap"
  de_locations :: "(u64, string) smap"
  de_waitState :: u32
  de_forkJoin :: u32

text \<open>The references of the internal regions are not initialised.\<close>

definition OTF2DefinitionHandler_new :: "u32 \<Rightarrow> u32 \<Rightarrow> definitions" where
  "OTF2DefinitionHandler_new waitState forkJoin =
    \<lparr>de_timerResolution = 1, de_timerOffset = 0, de_traceLength = 0, de_strings = [], de_regions = [],
     de_locations = [], de_waitState = waitState, de_forkJoin = forkJoin\<rparr>"

definition setTimerResolution :: "u64 \<Rightarrow> definitions \<Rightarrow> definitions" where
  "setTimerResolution ticksPerSecond d = d\<lparr>de_timerResolution := ticksPerSecond\<rparr>"

definition setTimerOffset :: "u64 \<Rightarrow> definitions \<Rightarrow> definitions" where
  "setTimerOffset offset d = d\<lparr>de_timerOffset := offset\<rparr>"

definition setTraceLength :: "u64 \<Rightarrow> definitions \<Rightarrow> definitions" where
  "setTraceLength len d = d\<lparr>de_traceLength := len\<rparr>"

section \<open>Strings\<close>

definition storeString :: "u32 \<Rightarrow> string \<Rightarrow> definitions \<Rightarrow> definitions" where
  "storeString stringRef name d = d\<lparr>de_strings := smap_update stringRef (take 1023 name) (de_strings d)\<rparr>"

text \<open>One more than the largest reference, which wraps around.\<close>

definition new_ref :: "(u32, 'v) smap \<Rightarrow> u32" where
  "new_ref m = (if m = [] then 1 else 1 + fst (last m))"

definition getNewStringRef :: "string \<Rightarrow> definitions \<Rightarrow> u32 \<times> definitions" where
  "getNewStringRef s d = (let r = new_ref (de_strings d) in (r, d\<lparr>de_strings := smap_update r s (de_strings d)\<rparr>))"

definition haveStringRef :: "u32 \<Rightarrow> definitions \<Rightarrow> bool" where
  "haveStringRef stringRef d \<longleftrightarrow> map_of (de_strings d) stringRef \<noteq> None"

definition def_getName :: "u32 \<Rightarrow> definitions \<Rightarrow> string option" where
  "def_getName stringRef d = map_of (de_strings d) stringRef"

section \<open>Regions\<close>

definition addRegion :: "u32 \<Rightarrow> otf2_paradigm \<Rightarrow> region_role \<Rightarrow> u32 \<Rightarrow> definitions \<Rightarrow> definitions" where
  "addRegion regionRef paradigm regionRole stringRef d =
    d\<lparr>de_regions := smap_update regionRef
        \<lparr>ri_name = def_getName stringRef d, ri_paradigm = paradigm, ri_role = regionRole\<rparr> (de_regions d)\<rparr>"

definition createNewRegion :: "string \<Rightarrow> otf2_paradigm \<Rightarrow> definitions \<Rightarrow> u32 \<times> definitions" where
  "createNewRegion s paradigm d = (let r = new_ref (de_regions d) in
    (r, d\<lparr>de_regions := smap_update r
        \<lparr>ri_name = Some s, ri_paradigm = paradigm, ri_role = OTF2_REGION_ROLE_ARTIFICIAL\<rparr> (de_regions d)\<rparr>))"

definition setInternalRegions :: "definitions \<Rightarrow> definitions" where
  "setInternalRegions d =
    (case createNewRegion ''__ompforkjoin__internal'' OTF2_PARADIGM_OPENMP d of (f, d) \<Rightarrow>
     let d = d\<lparr>de_forkJoin := f\<rparr> in
     case createNewRegion ''WaitState'' OTF2_PARADIGM_UNKNOWN d of (w, d) \<Rightarrow> d\<lparr>de_waitState := w\<rparr>)"

definition getRegionInfo :: "u32 \<Rightarrow> definitions \<Rightarrow> region_info result" where
  "getRegionInfo regionRef d = (case map_of (de_regions d) regionRef of
      None \<Rightarrow> Inl (Assertion_Failed ''Could not find region reference!'') | Some r \<Rightarrow> Inr r)"

definition getRegionName :: "u32 \<Rightarrow> definitions \<Rightarrow> string option result" where
  "getRegionName i d = bind_res (getRegionInfo i d) (\<lambda>r. Inr (ri_name r))"

definition isDeviceFunction :: "u32 \<Rightarrow> definitions \<Rightarrow> bool result" where
  "isDeviceFunction i d = bind_res (getRegionInfo i d) (\<lambda>r.
     Inr (ri_role r = OTF2_REGION_ROLE_FUNCTION \<and> (ri_paradigm r = OTF2_PARADIGM_CUDA \<or> ri_paradigm r = OTF2_PARADIGM_OPENCL)))"

section \<open>Nodes of the machine\<close>

definition addLocationInfo :: "u64 \<Rightarrow> string \<Rightarrow> definitions \<Rightarrow> definitions" where
  "addLocationInfo mpiRank nodeName d = d\<lparr>de_locations := smap_update mpiRank nodeName (de_locations d)\<rparr>"

text \<open>The rank is an \<^verbatim>\<open>int\<close> that is converted to the type of the key.\<close>

definition getNodeName :: "int \<Rightarrow> definitions \<Rightarrow> string option" where
  "getNodeName mpiRank d = map_of (de_locations d) (word_of_int mpiRank)"

section \<open>References of the program's own\<close>

lemma last_is_largest:
  assumes "smap_inv m" "k \<in> fst ` set m"
  shows "k \<le> fst (last m)"
proof -
  have "sorted_wrt (<) (map fst m)" "map fst m \<noteq> []"
    using assms by (auto simp: smap_inv_def)
  then show ?thesis
    using assms(2)
    by (induction m) (auto simp: less_imp_le split: if_splits)
qed

lemma less_successor:
  assumes "(x :: u32) \<noteq> UINT32_MAX"
  shows "x < 1 + x"
proof -
  have "unat x \<noteq> unat UINT32_MAX"
    using assms by (metis unsigned_word_eqI)
  then have "unat x + 1 < 2 ^ 32"
    using unsigned_less [of x, where ?'a = nat] by (simp add: unat_UINT32_MAX)
  then have "unat (1 + x) = unat x + 1"
    by (simp add: unat_word_ariths)
  then show ?thesis
    by (simp add: word_less_nat_alt)
qed

text \<open>The new reference is not in use unless the largest one is the largest number.\<close>

lemma new_ref_fresh:
  assumes "smap_inv m" "UINT32_MAX \<notin> fst ` set m"
  shows "new_ref m \<notin> fst ` set m"
proof (cases "m = []")
  case False
  have m: "fst (last m) \<in> fst ` set m"
    using False by simp
  then have "fst (last m) \<noteq> UINT32_MAX"
    using assms(2) by metis
  then have "fst (last m) < 1 + fst (last m)"
    by (rule less_successor)
  then show ?thesis
    using last_is_largest [OF assms(1)] False by (metis leD new_ref_def)
qed (simp add: new_ref_def)

end
