(* ===== verification/CallbackModel.thy ===== *)
theory CallbackModel
  imports CasitaModel DefinitionModel
begin

text \<open>The callbacks the trace reader invokes (\<^verbatim>\<open>analysis/CallbackHandler.cpp\<close>): the definitions make streams,
  paradigms, features and filtered regions, the events make nodes and fill the records of the MPI streams.\<close>

section \<open>Definitions\<close>

datatype location_type = OTF2_LOCATION_TYPE_CPU_THREAD | OTF2_LOCATION_TYPE_GPU | OTF2_LOCATION_TYPE_METRIC
  | OTF2_LOCATION_TYPE_OTHER

definition handleProcessMPIMapping :: "u64 \<Rightarrow> u32 \<Rightarrow> casita \<Rightarrow> casita" where
  "handleProcessMPIMapping streamId mpiRank c =
    c\<lparr>ca_analysis := (ca_analysis c)\<lparr>an_mpi := setMPIRank streamId mpiRank (an_mpi (ca_analysis c))\<rparr>\<rparr>"

definition location_stream_type :: "u64 \<Rightarrow> u64 \<Rightarrow> string \<Rightarrow> location_type \<Rightarrow> u32" where
  "location_stream_type streamId parentId name locationType =
    (if contains ''MIC'' name \<or> contains ''target'' name \<or> locationType = OTF2_LOCATION_TYPE_GPU then ES_DEVICE
     else if streamId = parentId then ES_MPI else ES_OPENMP)"

definition location_paradigms :: "string \<Rightarrow> analysis \<Rightarrow> analysis" where
  "location_paradigms name a =
    (if contains ''MIC'' name \<or> contains ''target'' name
     then addDetectedParadigm PARADIGM_OMP_TARGET (addDetectedParadigm PARADIGM_OMP a)
     else if contains ''OMP thread'' name then addDetectedParadigm PARADIGM_OMP a else a)"

text \<open>A metric location has no stream, although the paradigms its name tells of are noted.\<close>

definition handleDefProcess ::
  "blocking_comm \<Rightarrow> u64 \<Rightarrow> u64 \<Rightarrow> string \<Rightarrow> location_type \<Rightarrow> casita \<Rightarrow> casita result" where
  "handleDefProcess uninit streamId parentId name locationType c =
    (let a = location_paradigms name (ca_analysis c) in
     if locationType = OTF2_LOCATION_TYPE_METRIC then Inr (c\<lparr>ca_analysis := a\<rparr>)
     else
       bind_res (newEventStream (co_nullStream (ca_options c)) uninit streamId parentId name
                   (location_stream_type streamId parentId name locationType) (an_engine a)) (\<lambda>g.
       Inr (c\<lparr>ca_analysis := a\<lparr>an_engine := g\<rparr>\<rparr>)))"

text \<open>The value of the property is a reference of a string. Comparing the null pointer is undefined.\<close>

definition handleLocationProperty :: "definitions \<Rightarrow> u64 \<Rightarrow> string \<Rightarrow> u32 \<Rightarrow> casita \<Rightarrow> casita result" where
  "handleLocationProperty d streamId name value c =
    (if name \<noteq> ''CUDA_NULL_STREAM'' then Inr c
     else case def_getName value d of
       None \<Rightarrow> Inl Null_Dereference
     | Some v \<Rightarrow>
         if v \<noteq> ''yes'' then Inr c
         else
           (let g = ca_engine c in
            case setDeviceNullStream (getDeviceStream (ge_streams g) streamId (ge_group g)) (ge_streams g) (ge_group g) of
              (st, sg) \<Rightarrow> Inr (c\<lparr>ca_analysis := (ca_analysis c)\<lparr>an_engine := g\<lparr>ge_streams := st, ge_group := sg\<rparr>\<rparr>\<rparr>)))"

definition handleDefRegion :: "u32 \<Rightarrow> string \<Rightarrow> otf2_paradigm \<Rightarrow> casita \<Rightarrow> casita" where
  "handleDefRegion regionId name paradigm c =
    (if name = ''cuEventRecord'' \<and> paradigm = OTF2_PARADIGM_CUDA
     then c\<lparr>ca_analysis := addAnalysisFeature CUDA_EVENTS (ca_analysis c)\<rparr>
     else if co_predictionFilter (ca_options c) = name
     then c\<lparr>ca_analysis := addFilteredRegion regionId (ca_analysis c)\<rparr>
     else c)"

definition attribute_paradigm :: "string \<Rightarrow> u32 option" where
  "attribute_paradigm name =
    (if name = ''CUDA_STREAM_REF'' then Some PARADIGM_CUDA
     else if name = ''OPENCL_QUEUE_REF'' then Some PARADIGM_OCL
     else if name = ''OMPT_PARALLEL_REGION_ID'' then Some PARADIGM_OMPT
     else None)"

definition handleDefAttribute :: "u32 \<Rightarrow> string \<Rightarrow> analysis_metric \<times> casita \<Rightarrow> analysis_metric \<times> casita" where
  "handleDefAttribute attributeId name s = (case s of (m, c) \<Rightarrow>
    (addAttributeId attributeId m,
     case attribute_paradigm name of
       None \<Rightarrow> c
     | Some p \<Rightarrow> c\<lparr>ca_analysis := addDetectedParadigm p (ca_analysis c)\<rparr>))"

section \<open>Enter and leave\<close>

text \<open>An absent attribute reads as zero.\<close>

definition readAttribute :: "'a::zero option \<Rightarrow> 'a" where
  "readAttribute v = (case v of None \<Rightarrow> 0 | Some x \<Rightarrow> x)"

definition with_location :: "u64 \<Rightarrow> casita \<Rightarrow> (stream_ref \<Rightarrow> 'b step) \<Rightarrow> 'b step" where
  "with_location streamId c f = (case getStream streamId (ge_group (ca_engine c)) of
      None \<Rightarrow> fail (Runtime_Error ''Stream not found!'') | Some p \<Rightarrow> f p)"

definition update_stream :: "stream_ref \<Rightarrow> (event_stream \<Rightarrow> event_stream) \<Rightarrow> casita \<Rightarrow> casita" where
  "update_stream p f c = put_stream p (obj_update f (stream_at p c)) c"

definition period_first :: "u64 \<Rightarrow> event_stream \<Rightarrow> event_stream" where
  "period_first time s = (if fst (es_period s) > time then s\<lparr>es_period := (time, snd (es_period s))\<rparr> else s)"

definition period_second :: "u64 \<Rightarrow> event_stream \<Rightarrow> event_stream" where
  "period_second time s = (if snd (es_period s) < time then s\<lparr>es_period := (fst (es_period s), time)\<rparr> else s)"

text \<open>The type of a region on a stream.\<close>

definition region_type :: "region_info \<Rightarrow> record_type \<Rightarrow> stream_ref \<Rightarrow> casita \<Rightarrow> (bool \<times> descriptor) result" where
  "region_type r recordType p c =
    getAPIFunctionType (co_names (ca_options c)) \<lparr>fd_paradigm = PARADIGM_CPU, fd_functionType = 0, fd_recordType = recordType\<rparr>
      (ri_name r) (ri_paradigm r) (isDeviceStream (base (stream_at p c)))
      (sg_deviceNullStreamOnly (ge_group (ca_engine c))) (ma_mpiSize (an_mpi (ca_analysis c)) = 1)"

definition add_region_node ::
  "u64 \<Rightarrow> u64 \<Rightarrow> function_result \<Rightarrow> stream_ref \<Rightarrow> string \<Rightarrow> descriptor \<Rightarrow> u32 \<Rightarrow> casita \<Rightarrow> (node_ref \<times> casita) step" where
  "add_region_node time eventId fResult p name d functionId c =
    (let l = word_of_int (oo_linkKernels (co_offload (ca_options c)));
         done = (\<lambda>n c. (n, c\<lparr>ca_analysis := update_node n (setFunctionId (ucast functionId)) (ca_analysis c)\<rparr>)) in
     if isCUDAEventType (fd_paradigm d) (fd_functionType d) then
       Some (bind_res (addNewEventNode l time eventId fResult p name (fd_paradigm d) (fd_recordType d) (fd_functionType d)
                         (ca_engine c, ca_events c)) (\<lambda>(n, g, ev).
               Inr (done n (c\<lparr>ca_analysis := (ca_analysis c)\<lparr>an_engine := g\<rparr>, ca_events := ev\<rparr>))))
     else
       Some (bind_res (an_addNewGraphNode l time p name (fd_paradigm d) (fd_recordType d) (fd_functionType d) (ca_analysis c))
               (\<lambda>(n, a). Inr (done n (c\<lparr>ca_analysis := a\<rparr>)))))"

text \<open>On an enter of a filtered region the filter is turned on; the region itself still gets its node.\<close>

definition handleEnter :: "definitions \<Rightarrow> u64 \<Rightarrow> u32 \<Rightarrow> u64 \<Rightarrow> attributes \<Rightarrow> casita \<Rightarrow> casita step" where
  "handleEnter d time functionId streamId kv c =
    with_location streamId c (\<lambda>p.
      let c = update_stream p (period_second time \<circ> period_first time) c in
      bind_fuel (Some (getRegionInfo functionId d)) (\<lambda>r.
      if es_isFiltering (base (stream_at p c)) then ret c
      else
        (let c = (if isRegionFiltered functionId (ca_analysis c) then update_stream p (setFilter True time) c else c) in
         bind_fuel (Some (region_type r RECORD_ENTER p c)) (\<lambda>(generateNode, fd).
         if \<not> generateNode then ret c
         else deref (ri_name r) (\<lambda>name.
           bind_fuel (add_region_node time 0 FR_UNKNOWN p name fd functionId c) (\<lambda>(n, c).
           bind_fuel (handleKeyValuesEnter kv n c) (handlePostEnter n)))))))"

text \<open>The result says whether a collective of all processes has ended and the analysis runs in intervals.\<close>

definition global_collective :: "node_ref \<Rightarrow> casita \<Rightarrow> (bool \<times> casita) step" where
  "global_collective n c =
    (let x = ca_heap c n; m = an_mpi (ca_analysis c) in
     if ma_mpiSize m > 1 \<and> co_analysisInterval (ca_options c) \<noteq> 0 \<and> isMPICollective x \<and> \<not> isMPIInit x \<and> \<not> isMPIFinalize x
     then
       bind_fuel (Some (getMPICommGroup (ucast (nd_referencedStream x)) m)) (\<lambda>g.
         if length (cg_procs g) = unat (ma_mpiSize m)
         then ret (True, c\<lparr>ca_analysis := update_node n (addType MPI_ALLRANKS) (ca_analysis c),
                           ca_globalCollectives := ca_globalCollectives c + 1\<rparr>)
         else ret (False, c))
     else ret (False, c))"

definition leave_event :: "attributes \<Rightarrow> descriptor \<Rightarrow> (u64 \<times> function_result) option" where
  "leave_event kv fd =
    (if \<not> isCUDAEventType (fd_paradigm fd) (fd_functionType fd) then Some (0, FR_UNKNOWN)
     else if readAttribute (at_eventRef kv) = 0 then None
     else Some (readAttribute (at_eventRef kv),
       if has_flag (fd_functionType fd) OFLD_QUERY_EVT \<and> readAttribute (at_cuResult kv) = 0 then FR_SUCCESS else FR_UNKNOWN))"

definition handleLeave :: "nat \<Rightarrow> definitions \<Rightarrow> u64 \<Rightarrow> u32 \<Rightarrow> u64 \<Rightarrow> attributes \<Rightarrow> casita \<Rightarrow> (bool \<times> casita) step" where
  "handleLeave fuel d time functionId streamId kv c =
    with_location streamId c (\<lambda>p.
      let c = update_stream p (period_second time) c in
      bind_fuel (Some (getRegionInfo functionId d)) (\<lambda>r.
      let c = (if isRegionFiltered functionId (ca_analysis c) then update_stream p (setFilter False time) c else c) in
      if es_isFiltering (base (stream_at p c)) then ret (False, c)
      else
        bind_fuel (Some (region_type r RECORD_LEAVE p c)) (\<lambda>(generateNode, fd).
        if \<not> generateNode then ret (False, c)
        else case leave_event kv fd of
          None \<Rightarrow> ret (False, c)
        | Some (eventId, fResult) \<Rightarrow> deref (ri_name r) (\<lambda>name.
            bind_fuel (add_region_node time eventId fResult p name fd functionId c) (\<lambda>(n, c).
            bind_fuel (handleKeyValuesLeave kv n (gn_first (ca_heap c n)) c) (\<lambda>c.
            bind_fuel (handlePostLeave fuel n c) (global_collective n)))))))"

section \<open>Threads and windows\<close>

definition handleThreadFork :: "u64 \<Rightarrow> u32 \<Rightarrow> casita \<Rightarrow> casita step" where
  "handleThreadFork streamId requestedThreads c =
    with_location streamId c (\<lambda>p.
      case es_lastNode (base (stream_at p c)) of
        None \<Rightarrow> ret c
      | Some n \<Rightarrow>
          if isOMPForkJoin (ca_heap c n)
          then ret (put_heap (node_update n (setReferencedStreamId (ucast requestedThreads)) (ca_heap c)) c)
          else ret c)"

definition handleRmaWinDestroy :: "u64 \<Rightarrow> u64 \<Rightarrow> casita \<Rightarrow> casita step" where
  "handleRmaWinDestroy time streamId c =
    with_location streamId c (\<lambda>p.
      if getLastEventTime (base (stream_at p c)) < time then ret (update_stream p (setLastEventTime time) c) else ret c)"

section \<open>Communication\<close>

datatype io_mpi_type = IO_MPI_SEND | IO_MPI_RECV | IO_MPI_COLLECTIVE | IO_MPI_ONEANDALL | IO_MPI_ISEND | IO_MPI_IRECV

fun stream_mpi_type :: "io_mpi_type \<Rightarrow> mpi_type result" where
  "stream_mpi_type IO_MPI_COLLECTIVE = Inr Stream_MPI_COLLECTIVE"
| "stream_mpi_type IO_MPI_RECV = Inr Stream_MPI_RECV"
| "stream_mpi_type IO_MPI_SEND = Inr Stream_MPI_SEND"
| "stream_mpi_type IO_MPI_ONEANDALL = Inr Stream_MPI_COLLECTIVE"
| "stream_mpi_type _ = Inl (Runtime_Error ''Unknown io::MPIType'')"

definition on_mpi_stream :: "u64 \<Rightarrow> (heap \<Rightarrow> mpi_stream \<Rightarrow> (heap \<times> mpi_stream) result) \<Rightarrow> casita \<Rightarrow> casita step" where
  "on_mpi_stream streamId f = on_analysis (with_mpi_stream streamId f)"

definition handleMPIComm :: "io_mpi_type \<Rightarrow> u64 \<Rightarrow> u32 \<Rightarrow> u32 \<Rightarrow> u32 \<Rightarrow> casita \<Rightarrow> casita step" where
  "handleMPIComm mpiType streamId partnerId root_comm tag =
    on_mpi_stream streamId (\<lambda>h s. bind_res (stream_mpi_type mpiType) (\<lambda>t.
      bind_res (setPendingMPIRecord t partnerId root_comm tag s) (\<lambda>s. Inr (h, s))))"

definition handleMPICommGroup :: "u32 \<Rightarrow> u32 list \<Rightarrow> casita \<Rightarrow> casita" where
  "handleMPICommGroup communicator procs c =
    c\<lparr>ca_analysis := (ca_analysis c)\<lparr>an_mpi := addMPICommGroup communicator procs (an_mpi (ca_analysis c))\<rparr>\<rparr>"

definition cb_handleMPIIsend :: "u64 \<Rightarrow> u64 \<Rightarrow> u32 \<Rightarrow> u32 \<Rightarrow> u64 \<Rightarrow> casita \<Rightarrow> casita step" where
  "cb_handleMPIIsend streamId receiver communicator msgTag requestId =
    on_mpi_stream streamId (\<lambda>h s. Inr (h, handleMPIIsend requestId receiver communicator msgTag s))"

definition cb_handleMPIIrecv :: "u64 \<Rightarrow> u64 \<Rightarrow> u32 \<Rightarrow> u32 \<Rightarrow> u64 \<Rightarrow> casita \<Rightarrow> casita step" where
  "cb_handleMPIIrecv streamId sender communicator msgTag requestId =
    on_mpi_stream streamId (handleMPIIrecv requestId sender communicator msgTag)"

definition cb_handleMPIIrecvRequest :: "u64 \<Rightarrow> u64 \<Rightarrow> casita \<Rightarrow> casita step" where
  "cb_handleMPIIrecvRequest streamId requestId =
    on_mpi_stream streamId (\<lambda>h s. Inr (h, handleMPIIrecvRequest requestId s))"

definition cb_handleMPIIsendComplete :: "u64 \<Rightarrow> u64 \<Rightarrow> casita \<Rightarrow> casita step" where
  "cb_handleMPIIsendComplete streamId requestId =
    on_mpi_stream streamId (\<lambda>h s. Inr (h, handleMPIIsendComplete requestId s))"

end
