(* ===== verification/FrameLaws.thy ===== *)
theory FrameLaws
  imports CallbackModel
begin

text \<open>What reading an event leaves alone: the streams keep their identifiers, types and filters, the group its
  registry, and the analysis its filtered regions and its number of processes. The stacks of open regions are
  changed by adding an enter or a leave only.\<close>

section \<open>The frame of the engine\<close>

definition stream_frame :: "'a event_stream_scheme \<Rightarrow> u64 \<times> u32 \<times> bool" where
  "stream_frame s = (es_id s, es_streamType s, es_isFiltering s)"

definition eframe :: "engine \<Rightarrow> (stream_ref \<Rightarrow> u64 \<times> u32 \<times> bool) \<times> (u64, stream_ref) smap \<times> bool" where
  "eframe s = (\<lambda>p. stream_frame (base (ge_streams s p)), sg_streamsMap (ge_group s), sg_deviceNullStreamOnly (ge_group s))"

lemma stream_frame_update [simp]:
  "stream_frame (s\<lparr>es_nodes := ns\<rparr>) = stream_frame s" "stream_frame (s\<lparr>es_lastNode := l\<rparr>) = stream_frame s"
  "stream_frame (s\<lparr>es_firstNodes := fs\<rparr>) = stream_frame s" "stream_frame (s\<lparr>es_lastNodes := fs\<rparr>) = stream_frame s"
  "stream_frame (s\<lparr>es_unlinked := ns\<rparr>) = stream_frame s" "stream_frame (s\<lparr>es_nodesAdded := b\<rparr>) = stream_frame s"
  "stream_frame (s\<lparr>es_period := t\<rparr>) = stream_frame s"
  by (simp_all add: stream_frame_def)

lemma stream_frame_truncate [simp]: "stream_frame (event_stream.truncate s) = stream_frame s"
  by (simp add: stream_frame_def event_stream.defs)

lemma add_paradigms_frame:
  "add_paradigms h n is (pm, s) = Inr (pm', s') \<Longrightarrow> stream_frame s' = stream_frame s"
proof (induction "is" arbitrary: pm s)
  case (Cons i "is")
  obtain m t where t: "add_paradigm h n i (pm, s) = Inr (m, t)" "add_paradigms h n is (m, t) = Inr (pm', s')"
    using Cons(2) by (auto simp: bind_res_Inr)
  have "stream_frame t = stream_frame s"
    using t(1) by (auto simp: add_paradigm_def bind_res_Inr Let_def split: if_splits)
  then show ?case
    using Cons(1) [OF t(2)] by simp
qed simp

lemma link_types [simp]:
  "nd_recordType (setLinkRight p r k q) = nd_recordType (k q)" "nd_recordType (setLinkLeft p r k q) = nd_recordType (k q)"
  by (simp_all add: setLinkRight_def setLinkLeft_def)

lemma links_types [simp]: "nd_recordType (fold (\<lambda>p. setLinkRight p r) us k q) = nd_recordType (k q)"
  by (induction us arbitrary: k) simp_all

lemma addGraphNode_frame:
  assumes "addGraphNode n pm h s = Inr (h', pm', s')"
  shows "stream_frame s' = stream_frame s \<and> nd_recordType (h' q) = nd_recordType (h q)"
proof -
  obtain m t where t: "add_paradigms h n [0..<NODE_PARADIGM_COUNT] (pm, s\<lparr>es_nodesAdded := True\<rparr>) = Inr (m, t)"
    using assms by (cases "add_paradigms h n [0..<NODE_PARADIGM_COUNT] (pm, s\<lparr>es_nodesAdded := True\<rparr>)")
      (auto simp: addGraphNode_def)
  then have "stream_frame t = stream_frame s"
    by (auto dest: add_paradigms_frame)
  then show ?thesis
    using assms t unfolding addGraphNode_def
    by (cases "nd_paradigm (h n) = PARADIGM_MPI"; cases "isEnter (h n)")
      (auto simp: Let_def addNodeInternal_def isEnter_def)
qed

lemma insert_next_frame:
  "fold (insert_next h n ns) is (nm, s) = (nm', s') \<Longrightarrow> stream_frame s' = stream_frame s"
proof (induction "is" arbitrary: nm s)
  case (Cons i "is")
  obtain m t where t: "insert_next h n ns i (nm, s) = (m, t)"
    by fastforce
  moreover have "stream_frame t = stream_frame s"
    using t by (auto simp: insert_next_def Let_def split: if_splits option.splits)
  ultimately show ?case
    using Cons by simp
qed simp

lemma insertGraphNode_frame:
  "insertGraphNode n pm nm h s = Inr (pm', nm', s') \<Longrightarrow> stream_frame s' = stream_frame s"
  by (auto simp: insertGraphNode_def Let_def split: option.splits prod.splits if_splits dest!: insert_next_frame)

lemma obj_addGraphNode_frame:
  "obj_addGraphNode n pm h p = Inr (h', pm', p') \<Longrightarrow>
   stream_frame (base p') = stream_frame (base p) \<and> nd_recordType (h' q) = nd_recordType (h q)"
  by (cases p) (auto simp: bind_res_Inr dest: addGraphNode_frame)

lemma obj_insertGraphNode_frame:
  "obj_insertGraphNode n pm nm h p = Inr (pm', nm', p') \<Longrightarrow> stream_frame (base p') = stream_frame (base p)"
  by (cases p) (auto simp: bind_res_Inr dest: insertGraphNode_frame)

lemma eframe_heap [simp]: "eframe (s\<lparr>ge_heap := h\<rparr>) = eframe s" "eframe (s\<lparr>ge_edges := E\<rparr>) = eframe s"
  "eframe (s\<lparr>ge_stacks := k\<rparr>) = eframe s" "eframe (s\<lparr>ge_graph := g\<rparr>) = eframe s"
  by (simp_all add: eframe_def)

lemma eframe_stream:
  "stream_frame (base p') = stream_frame (base (ge_streams s p)) \<Longrightarrow>
   eframe (s\<lparr>ge_streams := (ge_streams s)(p := p')\<rparr>) = eframe s"
  "stream_frame (base p') = stream_frame (base (ge_streams s p)) \<Longrightarrow>
   eframe (s\<lparr>ge_heap := h, ge_streams := (ge_streams s)(p := p')\<rparr>) = eframe s"
  by (auto simp: eframe_def)

lemma place_node_frame:
  "place_node n p s = Inr (pm, nm, s') \<Longrightarrow>
   eframe s' = eframe s \<and> ge_stacks s' = ge_stacks s \<and> nd_recordType (ge_heap s' q) = nd_recordType (ge_heap s q)"
  by (auto simp: place_node_def Let_def bind_res_Inr eframe_stream split: if_splits option.splits
      dest: obj_addGraphNode_frame obj_insertGraphNode_frame)

lemma engine_edges_frame [simp]:
  "eframe (snd (newEdge a b bl t s)) = eframe s" "ge_stacks (snd (newEdge a b bl t s)) = ge_stacks s"
  "eframe (engine_removeEdge e s) = eframe s" "ge_stacks (engine_removeEdge e s) = ge_stacks s"
  by (simp_all add: eframe_def newEdge_def engine_removeEdge_def Let_def)

text \<open>What an event does to the stack of its stream.\<close>

definition stacked :: "node_ref \<Rightarrow> record_type \<Rightarrow> node_ref list \<Rightarrow> node_ref list" where
  "stacked n r st = (case r of RECORD_LEAVE \<Rightarrow> tl st | RECORD_ENTER \<Rightarrow> n # st | _ \<Rightarrow> st)"

lemma link_region_frame:
  "link_region n i s = Inr s' \<Longrightarrow>
   eframe s' = eframe s \<and> ge_stacks s' = (ge_stacks s)(i := stacked n (nd_recordType (ge_heap s n)) (ge_stacks s i))"
  by (auto simp: link_region_def Let_def bind_res_Inr popGraphNodeStack_def pushGraphNodeStack_def stacked_def isLeave_def
      isEnter_def split: if_splits option.splits record_type.splits)

lemma link_paradigms_frame:
  "link_paradigms n pm nm dp ds is (pl, sl, s) = Inr (pl', sl', s') \<Longrightarrow> eframe s' = eframe s \<and> ge_stacks s' = ge_stacks s"
proof (induction "is" arbitrary: pl sl s)
  case (Cons i "is")
  obtain a b t where t: "link_paradigm n pm nm dp ds i (pl, sl, s) = Inr (a, b, t)"
      "link_paradigms n pm nm dp ds is (a, b, t) = Inr (pl', sl', s')"
    using Cons(2) by (auto simp: bind_res_Inr)
  have "eframe t = eframe s \<and> ge_stacks t = ge_stacks s"
    using t(1) by (auto simp: link_paradigm_def Let_def split: if_splits option.splits)
  then show ?case
    using Cons(1) [OF t(2)] by simp
qed simp

lemma link_neighbours_frame:
  assumes "link_neighbours n pm nm s = Inr s'"
  shows "eframe s' = eframe s \<and> ge_stacks s' = ge_stacks s"
proof (cases "latest_pred (ge_heap s) pm")
  case (Some dp)
  obtain pl sl t where t: "(if nd_paradigm (ge_heap s n) = PARADIGM_MPI
      then link_paradigms n pm nm dp (earliest_succ (ge_heap s) nm) [0..<NODE_PARADIGM_COUNT] (False, False, s)
      else Inr (False, False, s)) = Inr (pl, sl, t)"
    using assms Some by (auto simp: link_neighbours_def bind_res_Inr Let_def)
  have "eframe t = eframe s \<and> ge_stacks t = ge_stacks s"
    using t link_paradigms_frame by (auto split: if_splits)
  then show ?thesis
    using assms Some t by (auto simp: link_neighbours_def Let_def split: option.splits if_splits)
qed (use assms in \<open>simp add: link_neighbours_def\<close>)

lemma getDeviceStreams_frame: "getDeviceStreams d g = (ds, g') \<Longrightarrow>
   sg_streamsMap g' = sg_streamsMap g \<and> sg_deviceNullStreamOnly g' = sg_deviceNullStreamOnly g"
  by (auto simp: getDeviceStreams_def split: option.splits)

lemma link_kernel_frame: "link_kernel l n p pm s = Inr s' \<Longrightarrow> eframe s' = eframe s \<and> ge_stacks s' = ge_stacks s"
  by (auto simp: link_kernel_def Let_def bind_res_Inr eframe_def split: if_splits option.splits prod.splits
      dest!: getDeviceStreams_frame)

lemma addNewGraphNodeInternal_frame:
  assumes "addNewGraphNodeInternal l n p s = Inr s'"
  shows "eframe s' = eframe s \<and> ge_stacks s' =
    (let i = es_id (base (ge_streams s p)) in (ge_stacks s)(i := stacked n (nd_recordType (ge_heap s n)) (ge_stacks s i)))"
proof -
  obtain pm nm t u v where t: "place_node n p s = Inr (pm, nm, t)" and u: "link_region n (es_id (base (ge_streams s p))) t = Inr u"
    and v: "link_neighbours n pm nm u = Inr v" "link_kernel l n p pm v = Inr s'"
    using assms by (auto simp: addNewGraphNodeInternal_def Let_def bind_res_Inr split: if_splits)
  show ?thesis
    using place_node_frame [OF t, of n] link_region_frame [OF u] link_neighbours_frame [OF v(1)] link_kernel_frame [OF v(2)]
    by (simp add: Let_def)
qed

section \<open>The frame of the analysis\<close>

definition aframe where
  "aframe a = (ge_stacks (an_engine a), eframe (an_engine a), ma_mpiSize (an_mpi a), an_filteredFunctions a)"

lemma aframe_engine:
  "ge_stacks g = ge_stacks (an_engine a) \<Longrightarrow> eframe g = eframe (an_engine a) \<Longrightarrow> aframe (a\<lparr>an_engine := g\<rparr>) = aframe a"
  by (simp add: aframe_def)

lemma aframe_steps [simp]:
  "aframe (update_node n f a) = aframe a" "aframe (block_edge e a) = aframe a" "aframe (unblock_edge e a) = aframe a"
  "aframe (snd (an_newEdge x y b a)) = aframe a" "aframe (dependency_edge x y a) = aframe a"
  "aframe (count_activity m a) = aframe a" "aframe (mark_waitstate n a) = aframe a"
  by (simp_all add: aframe_def update_node_def block_edge_def unblock_edge_def an_newEdge_def dependency_edge_def
      count_activity_def mark_waitstate_def split_beta)

lemma fold_block_frame [simp]: "aframe (fold block_edge es a) = aframe a"
  by (induction es arbitrary: a) simp_all

lemma same_but_blame_frame: "same_but_blame s s' \<Longrightarrow> ge_stacks s' = ge_stacks s \<and> eframe s' = eframe s"
proof -
  assume "same_but_blame s s'"
  then obtain E where "s' = s\<lparr>ge_edges := E\<rparr>"
    by (auto simp: same_but_blame_def)
  then show ?thesis
    by simp
qed

lemma distribute_frame: "distribute fuel n b cb reason a = ret a' \<Longrightarrow> aframe a' = aframe a"
  by (auto simp: distribute_def ret_bind) (auto simp: ret_def aframe_def dest!: distributeBlame_same same_but_blame_frame)

lemma with_mpi_stream_frame:
  assumes "with_mpi_stream i f a = ret a'" "\<And>h m h' m'. f h m = Inr (h', m') \<Longrightarrow> stream_frame m' = stream_frame m"
  shows "aframe a' = aframe a"
proof -
  obtain p m h' m' where p: "ge_streams (an_engine a) p = Mpi_Obj m" "f (ge_heap (an_engine a)) m = Inr (h', m')"
    "a' = a\<lparr>an_engine := (an_engine a)\<lparr>ge_heap := h', ge_streams := (ge_streams (an_engine a))(p := Mpi_Obj m')\<rparr>\<rparr>"
    using assms(1) by (auto simp: with_mpi_stream_def Let_def split: sum.splits option.splits stream_obj.splits)
  then show ?thesis
    using assms(2) [OF p(2)] by (simp add: aframe_engine eframe_stream)
qed

section \<open>MPI leaves\<close>

lemma stream_frame_mpi [simp]:
  "stream_frame (m\<lparr>ms_pendingRequests := rs\<rparr>) = stream_frame m" "stream_frame (m\<lparr>ms_icomm := r\<rparr>) = stream_frame m"
  "stream_frame (m\<lparr>ms_pendingMPIRequestId := k\<rparr>) = stream_frame m" "stream_frame (m\<lparr>ms_mpiIsendPartner := k\<rparr>) = stream_frame m"
  "stream_frame (m\<lparr>ms_pendingMpiComm := b\<rparr>) = stream_frame m"
  by (simp_all add: stream_frame_def)

lemma removePending_all_frame: "removePending_all rs h m = Inr (h', m') \<Longrightarrow> stream_frame m' = stream_frame m"
  by (induction rs h m rule: removePending_all.induct)
    (auto simp: bind_res_Inr removePendingMPIRequest_def split: option.splits)

lemma mpi_leave_frames:
  "handleMPIIsendLeave n h m = (h', m') \<Longrightarrow> stream_frame m' = stream_frame m"
  "handleMPIIrecvLeave n h m = (h', m') \<Longrightarrow> stream_frame m' = stream_frame m"
  "handleMPIWaitLeave n h m = Inr (h', m') \<Longrightarrow> stream_frame m' = stream_frame m"
  "handleMPITest n h m = Inr (h', m') \<Longrightarrow> stream_frame m' = stream_frame m"
  "setMPIWaitallNodeData n h m = Inr (h', m') \<Longrightarrow> stream_frame m' = stream_frame m"
  "handleMPITestall n h m = Inr (h', m') \<Longrightarrow> stream_frame m' = stream_frame m"
  by (auto simp: handleMPIIsendLeave_def handleMPIIrecvLeave_def handleMPIWaitLeave_def handleMPITest_def
      setMPIWaitallNodeData_def handleMPITestall_def Let_def bind_res_Inr
      split: if_splits option.splits list.splits dest!: removePending_all_frame)

lemma mpi_handlePostLeave_frame: "mpi_handlePostLeave n a = ret a' \<Longrightarrow> aframe a' = aframe a"
  by (auto simp: mpi_handlePostLeave_def Let_def ret_bind split: if_splits
      dest!: with_mpi_stream_frame dest: mpi_leave_frames)

section \<open>OpenMP events\<close>

lemma link_node_frame: "link_node n t a = ret a' \<Longrightarrow> aframe a' = aframe a"
  by (auto simp: link_node_def split: sum.splits)

lemma open_workers_frame: "open_workers n t ws a = ret (rest, a') \<Longrightarrow> aframe a' = aframe a"
proof (induction ws arbitrary: a rest)
  case (Cons w ws)
  obtain p where p: "(if has_flag t (es_streamType (base (ge_streams (an_engine a) p))) then
      bind_fuel (link_node w n (snd (an_newEdge n w False a))) (open_workers n t ws)
    else bind_fuel (open_workers n t ws a) (\<lambda>(rest, a). ret (w # rest, a))) = ret (rest, a')"
    using Cons(2) by (auto simp: with_stream_ret)
  show ?case
  proof (cases "has_flag t (es_streamType (base (ge_streams (an_engine a) p)))")
    case True
    then show ?thesis
      using p Cons(1) by (auto simp: ret_bind dest!: link_node_frame)
  qed (use p Cons(1) in \<open>auto simp: ret_bind\<close>)
qed simp

lemma enter_frames:
  "enter_region n p (o1, a) = ret (o2, a') \<Longrightarrow> aframe a' = aframe a"
  "enter_worker n p (o1, a) = ret (o2, a') \<Longrightarrow> aframe a' = aframe a"
  by (auto simp: enter_region_def enter_worker_def ret_bind with_stream_ret Let_def split: option.splits prod.splits
      dest!: open_workers_frame link_node_frame)

lemma omp_handleKeyValuesEnter_frame:
  "omp_handleKeyValuesEnter d p n (o1, a) = ret (o2, a') \<Longrightarrow> aframe a' = aframe a"
  by (auto simp: omp_handleKeyValuesEnter_def Let_def split: if_splits option.splits dest!: enter_frames)

lemma barrier_region_frame: "barrier_region n r a = (k, a') \<Longrightarrow> aframe a' = aframe a"
  by (auto simp: barrier_region_def split: if_splits option.splits)

lemma omptBarrierRule_frame: "omptBarrierRule n (o1, a) = ret (o2, a') \<Longrightarrow> aframe a' = aframe a"
  by (auto simp: omptBarrierRule_def ret_bind block_in_edges_def split: if_splits option.splits prod.splits sum.splits
      dest!: barrier_region_frame)

lemma last_master_barrier_ret:
  "last_master_barrier r a f = ret y \<longleftrightarrow> (\<exists>m. gn_data (an_node a r) = Some (Node_Data m) \<and> f m = ret y)"
  by (auto simp: last_master_barrier_def split: option.splits node_data.splits)

lemma region_waits_frame: "region_waits r l e bs b a = ret (t, a') \<Longrightarrow> aframe a' = aframe a"
  by (induction r l e bs b a rule: region_waits.induct)
    (auto simp: ret_bind deref_ret last_master_barrier_ret Let_def split: if_splits)

lemma region_barrier_frame: "region_barrier fuel r l bs a = ret a' \<Longrightarrow> aframe a' = aframe a"
  by (auto simp: region_barrier_def ret_bind deref_ret last_master_barrier_ret split: if_splits
      dest!: region_waits_frame distribute_frame)

lemma region_barriers_frame: "region_barriers fuel r bss a = ret a' \<Longrightarrow> aframe a' = aframe a"
  by (induction fuel r bss a rule: region_barriers.induct) (auto simp: ret_bind dest!: region_barrier_frame)

lemma close_parallel_id_frame: "close_parallel_id r (o1, a) = ret (o2, a') \<Longrightarrow> a' = a"
  by (auto simp: close_parallel_id_def ret_bind with_stream_ret Let_def split: option.splits)

lemma omptParallelRule_frame: "omptParallelRule fuel n (o1, a) = ret (o2, a') \<Longrightarrow> aframe a' = aframe a"
  by (auto simp: omptParallelRule_def ret_bind split: if_splits option.splits
      dest!: close_parallel_id_frame region_barriers_frame)

lemma omp_handlePostLeave_frame: "omp_handlePostLeave fuel n (o1, a) = ret (o2, a') \<Longrightarrow> aframe a' = aframe a"
  by (auto simp: omp_handlePostLeave_def Let_def ret_bind mark_nested_barrier_def split: if_splits
      dest!: omptParallelRule_frame omptBarrierRule_frame)

end
