(* ===== verification/CallbackLaws.thy ===== *)
theory CallbackLaws
  imports FrameLaws
begin

text \<open>Laws of the callbacks: an enter and a leave of a region are classified alike, so that reading the events of
  well-nested regions leaves the stack of open regions as it was; a filtered region hides what is inside; the
  references of the internal regions are new.\<close>

section \<open>The classification of enter and leave\<close>

abbreviation retyped :: "record_type \<Rightarrow> bool \<times> descriptor \<Rightarrow> bool \<times> descriptor" where
  "retyped t \<equiv> map_prod id (\<lambda>d. d\<lparr>fd_recordType := t\<rparr>)"

lemma set_type_retyped [simp]: "set_type p t (d\<lparr>fd_recordType := x\<rparr>) = (set_type p t d)\<lparr>fd_recordType := x\<rparr>"
  by (simp add: set_type_def)

lemma type_retyped:
  "cuda_type b t (d\<lparr>fd_recordType := x\<rparr>) = map_option (retyped x) (cuda_type b t d)"
  "opencl_type t (d\<lparr>fd_recordType := x\<rparr>) = map_option (retyped x) (opencl_type t d)"
  "mpi_call_type t (d\<lparr>fd_recordType := x\<rparr>) = map_option (retyped x) (mpi_call_type t d)"
  "other_type n s (d\<lparr>fd_recordType := x\<rparr>) = map_sum id (retyped x) (other_type n s d)"
  by (simp_all add: cuda_type_def opencl_type_def mpi_call_type_def other_type_def split: option.split)

lemma getAPIFunctionType_retyped:
  "getAPIFunctionType opts (d\<lparr>fd_recordType := x\<rparr>) n p ds ns im = map_sum id (retyped x) (getAPIFunctionType opts d n p ds ns im)"
  by (simp add: getAPIFunctionType_def type_retyped Let_def split: option.split)

lemma region_type_retyped: "region_type r t p c = map_sum id (retyped t) (region_type r u p c)"
  unfolding region_type_def getAPIFunctionType_retyped [symmetric] by simp

lemma region_type_record: "region_type r t p c = Inr (b, fd) \<Longrightarrow> fd_recordType fd = t"
  by (subst (asm) region_type_retyped [where u = t]) (cases "region_type r t p c"; auto)

section \<open>The frame of the callbacks\<close>

definition cframe where
  "cframe c = (aframe (ca_analysis c), ca_options c)"

definition csame where
  "csame c = (snd (aframe (ca_analysis c)), ca_options c)"

abbreviation stacks :: "casita \<Rightarrow> u64 \<Rightarrow> node_ref list" where "stacks c \<equiv> ge_stacks (ca_engine c)"

lemma cframe_csame: "cframe c' = cframe c \<longleftrightarrow> csame c' = csame c \<and> stacks c' = stacks c"
  by (auto simp: cframe_def csame_def aframe_def)

lemma cframe_offload [simp]: "cframe (c\<lparr>ca_offload := o1\<rparr>) = cframe c" "cframe (c\<lparr>ca_omp := o2\<rparr>) = cframe c"
  "cframe (c\<lparr>ca_globalCollectives := k\<rparr>) = cframe c" "cframe (c\<lparr>ca_events := ev\<rparr>) = cframe c"
  by (simp_all add: cframe_def)

lemma cframe_analysis: "aframe a = aframe (ca_analysis c) \<Longrightarrow> cframe (c\<lparr>ca_analysis := a\<rparr>) = cframe c"
  "aframe a = aframe (ca_analysis c) \<Longrightarrow> cframe (c\<lparr>ca_omp := o1, ca_analysis := a\<rparr>) = cframe c"
  "aframe a = aframe (ca_analysis c) \<Longrightarrow> cframe (c\<lparr>ca_offload := o2, ca_analysis := a\<rparr>) = cframe c"
  "aframe a = aframe (ca_analysis c) \<Longrightarrow> cframe (c\<lparr>ca_analysis := a, ca_globalCollectives := k\<rparr>) = cframe c"
  by (simp_all add: cframe_def)

lemma update_stream_frame:
  "(\<And>s. stream_frame (f s) = stream_frame s) \<Longrightarrow> cframe (update_stream p f c) = cframe c"
  by (simp add: update_stream_def put_stream_def stream_at_def cframe_analysis aframe_engine eframe_stream)

lemma period_frame [simp]: "stream_frame (period_first t s) = stream_frame s" "stream_frame (period_second t s) = stream_frame s"
  by (simp_all add: period_first_def period_second_def)

lemma on_analysis_frame:
  "on_analysis f c = ret c' \<Longrightarrow> (\<And>a. f (ca_analysis c) = ret a \<Longrightarrow> aframe a = aframe (ca_analysis c)) \<Longrightarrow> cframe c' = cframe c"
  by (auto simp: on_analysis_def ret_bind cframe_analysis)

lemma with_omp_frame:
  "with_omp f c = ret c' \<Longrightarrow>
   (\<And>o1 o2 a. f (o1, ca_analysis c) = ret (o2, a) \<Longrightarrow> aframe a = aframe (ca_analysis c)) \<Longrightarrow> cframe c' = cframe c"
  by (auto simp: with_omp_def ret_bind cframe_analysis split: option.splits)

lemma with_offload_frame:
  "with_offload (keep_analysis f) c = ret c' \<Longrightarrow> cframe c' = cframe c"
  by (auto simp: with_offload_def keep_analysis_def ret_def bind_fuel_Inr bind_res_Inr cframe_analysis split: option.splits)

lemma handlePostEnter_frame: "handlePostEnter n c = ret c' \<Longrightarrow> cframe c' = cframe c"
  by (auto simp: handlePostEnter_def omp_handlePostEnter_def split: if_splits dest!: with_offload_frame with_omp_frame)

lemma handlePostLeave_frame: "handlePostLeave fuel n c = ret c' \<Longrightarrow> cframe c' = cframe c"
  by (auto simp: handlePostLeave_def Let_def with_mpi_def split: if_splits
      dest!: with_offload_frame with_omp_frame on_analysis_frame dest: omp_handlePostLeave_frame mpi_handlePostLeave_frame)

lemma offload_attributes_frame:
  "aframe (offload_handleKeyValuesEnter s q n a) = aframe a"
  "aframe (offload_handleKeyValuesLeave s q n m a) = aframe a"
  "aframe (omp_handleKeyValuesLeave l n a) = aframe a"
  by (simp_all add: offload_handleKeyValuesEnter_def offload_handleKeyValuesLeave_def omp_handleKeyValuesLeave_def
      split: option.splits)

lemma handleKeyValuesEnter_frame: "handleKeyValuesEnter kv n c = ret c' \<Longrightarrow> cframe c' = cframe c"
  by (auto simp: handleKeyValuesEnter_def split: if_splits dest!: with_omp_frame on_analysis_frame
      dest: omp_handleKeyValuesEnter_frame simp: offload_attributes_frame)

lemma handleKeyValuesLeave_frame: "handleKeyValuesLeave kv n m c = ret c' \<Longrightarrow> cframe c' = cframe c"
  by (auto simp: handleKeyValuesLeave_def deref_ret split: if_splits dest!: with_omp_frame on_analysis_frame
      simp: offload_attributes_frame)

lemma global_collective_frame: "global_collective n c = ret (b, c') \<Longrightarrow> cframe c' = cframe c"
  by (auto simp: global_collective_def Let_def ret_bind cframe_analysis split: if_splits)

section \<open>Adding the node of a region\<close>

lemma newGraphNode_frame:
  "newGraphNode t i nm p rt nt s = (n, s') \<Longrightarrow>
   eframe s' = eframe s \<and> ge_stacks s' = ge_stacks s \<and> ge_streams s' = ge_streams s \<and> nd_recordType (ge_heap s' n) = rt"
  by (auto simp: newGraphNode_def Let_def GraphNode_new_def Node_new_def node.defs graph_node.defs eframe_def split: prod.splits)

lemma addNewGraphNode_frame:
  assumes "addNewGraphNode l t p nm pa rt nt s = Inr (n, s')"
  shows "eframe s' = eframe s \<and> ge_stacks s' =
    (let i = es_id (base (ge_streams s p)) in (ge_stacks s)(i := stacked n rt (ge_stacks s i)))"
  using assms newGraphNode_frame [of t _ nm pa rt nt s]
  by (auto simp: addNewGraphNode_def bind_res_Inr split: prod.splits dest!: addNewGraphNodeInternal_frame)

lemma addNewEventNode_frame:
  assumes "addNewEventNode l t e fr p nm pa rt nt (s, ev) = Inr (n, s', ev')"
  shows "eframe s' = eframe s \<and> ge_stacks s' =
    (let i = es_id (base (ge_streams s p)) in (ge_stacks s)(i := stacked n rt (ge_stacks s i)))"
  using assms newGraphNode_frame [of t _ nm pa rt nt s]
  by (auto simp: addNewEventNode_def newEventNode_def bind_res_Inr split: prod.splits dest!: addNewGraphNodeInternal_frame)

definition pushed :: "stream_ref \<Rightarrow> node_ref \<Rightarrow> record_type \<Rightarrow> casita \<Rightarrow> casita \<Rightarrow> bool" where
  "pushed p n rt c c' \<longleftrightarrow> csame c' = csame c \<and>
    stacks c' = (let i = es_id (base (stream_at p c)) in (stacks c)(i := stacked n rt (stacks c i)))"

lemma add_region_node_frame:
  assumes "add_region_node t e fr p nm fd f c = ret (n, c')"
  shows "pushed p n (fd_recordType fd) c c'"
proof (cases "isCUDAEventType (fd_paradigm fd) (fd_functionType fd)")
  case True
  then show ?thesis
    using assms
    by (auto simp: add_region_node_def Let_def ret_def bind_res_Inr pushed_def csame_def aframe_def update_node_def
        stream_at_def dest!: addNewEventNode_frame)
next
  case False
  then show ?thesis
    using assms
    by (auto simp: add_region_node_def Let_def ret_def bind_res_Inr pushed_def csame_def aframe_def update_node_def
        stream_at_def an_addNewGraphNode_def mark_waitstate_def split: if_splits dest!: addNewGraphNode_frame)
qed

section \<open>Well-nested regions\<close>

text \<open>The events of a stream: a region with its enter, what is inside, and its leave.\<close>

datatype trace_region = Trace_Region u32 u64 attributes "trace_region list" u64 attributes

fun read_regions :: "nat \<Rightarrow> definitions \<Rightarrow> u64 \<Rightarrow> trace_region list \<Rightarrow> casita \<Rightarrow> casita step" where
  "read_regions fuel d i [] c = ret c"
| "read_regions fuel d i (Trace_Region f t kv rs t' kv' # r) c =
    bind_fuel (handleEnter d t f i kv c) (\<lambda>c.
    bind_fuel (read_regions fuel d i rs c) (\<lambda>c.
    bind_fuel (handleLeave fuel d t' f i kv' c) (\<lambda>(_, c). read_regions fuel d i r c)))"

text \<open>No region is filtered, and every leave of a region of a CUDA event tells which event it is.\<close>

definition closed_leave :: "definitions \<Rightarrow> u64 \<Rightarrow> u32 \<Rightarrow> attributes \<Rightarrow> casita \<Rightarrow> bool" where
  "closed_leave d i f kv c \<longleftrightarrow> f \<notin> an_filteredFunctions (ca_analysis c) \<and>
    (\<forall>p r fd. getStream i (ge_group (ca_engine c)) = Some p \<longrightarrow> getRegionInfo f d = Inr r \<longrightarrow>
       region_type r RECORD_LEAVE p c = Inr (True, fd) \<longrightarrow> leave_event kv fd \<noteq> None)"

fun all_closed :: "definitions \<Rightarrow> u64 \<Rightarrow> trace_region list \<Rightarrow> casita \<Rightarrow> bool" where
  "all_closed d i [] c \<longleftrightarrow> True"
| "all_closed d i (Trace_Region f t kv rs t' kv' # r) c \<longleftrightarrow> closed_leave d i f kv' c \<and> all_closed d i rs c \<and> all_closed d i r c"

lemma csame_facts:
  assumes "csame c' = csame c"
  shows "getStream i (ge_group (ca_engine c')) = getStream i (ge_group (ca_engine c))"
    "an_filteredFunctions (ca_analysis c') = an_filteredFunctions (ca_analysis c)"
    "region_type r t p c' = region_type r t p c" "es_id (base (stream_at p c')) = es_id (base (stream_at p c))"
    "es_isFiltering (base (stream_at p c')) = es_isFiltering (base (stream_at p c))"
proof -
  have e: "eframe (ca_engine c') = eframe (ca_engine c)" "ma_mpiSize (an_mpi (ca_analysis c')) = ma_mpiSize (an_mpi (ca_analysis c))"
    "ca_options c' = ca_options c" "an_filteredFunctions (ca_analysis c') = an_filteredFunctions (ca_analysis c)"
    using assms by (auto simp: csame_def aframe_def)
  have s: "stream_frame (base (stream_at p c')) = stream_frame (base (stream_at p c))" for p
    using e(1) by (simp add: eframe_def stream_at_def fun_eq_iff)
  show "es_id (base (stream_at p c')) = es_id (base (stream_at p c))"
    "es_isFiltering (base (stream_at p c')) = es_isFiltering (base (stream_at p c))"
    using s [of p] by (simp_all add: stream_frame_def)
  show "region_type r t p c' = region_type r t p c"
    using e s [of p] by (simp add: region_type_def stream_frame_def isDeviceStream_def eframe_def)
  show "getStream i (ge_group (ca_engine c')) = getStream i (ge_group (ca_engine c))"
    using e(1) by (simp add: getStream_def eframe_def)
qed (use assms in \<open>simp add: csame_def aframe_def\<close>)

lemma closed_leave_same: "csame c' = csame c \<Longrightarrow> closed_leave d i f kv c' = closed_leave d i f kv c"
  unfolding closed_leave_def by (simp only: csame_facts [of c' c])

lemma all_closed_same: "csame c' = csame c \<Longrightarrow> all_closed d i rs c' = all_closed d i rs c"
proof (induction d i rs c rule: all_closed.induct)
  case (2 d i f t kv rs t' kv' r c)
  then show ?case
    using closed_leave_same [OF 2(3)] by simp
qed simp

text \<open>Whether a region of the stream gets nodes.\<close>

definition makes_nodes :: "definitions \<Rightarrow> stream_ref \<Rightarrow> u32 \<Rightarrow> casita \<Rightarrow> bool" where
  "makes_nodes d p f c \<longleftrightarrow> \<not> es_isFiltering (base (stream_at p c)) \<and>
    (\<exists>r fd. getRegionInfo f d = Inr r \<and> region_type r RECORD_ENTER p c = Inr (True, fd))"

lemma handleEnter_effect:
  assumes "handleEnter d t f i kv c = ret c'" "f \<notin> an_filteredFunctions (ca_analysis c)"
    "getStream i (ge_group (ca_engine c)) = Some p"
  shows "if makes_nodes d p f c then \<exists>n. pushed p n RECORD_ENTER c c' else cframe c' = cframe c"
proof -
  let ?c = "update_stream p (period_second t \<circ> period_first t) c"
  have u: "cframe ?c = cframe c"
    by (rule update_stream_frame) simp
  then have s: "csame ?c = csame c" "stacks ?c = stacks c"
    by (auto simp: cframe_csame)
  note same = csame_facts [OF s(1)]
  obtain r where r: "getRegionInfo f d = Inr r"
    using assms by (cases "getRegionInfo f d") (auto simp: handleEnter_def with_location_def ret_def)
  show ?thesis
  proof (cases "es_isFiltering (base (stream_at p ?c))")
    case True
    then show ?thesis
      using assms r u by (auto simp: handleEnter_def with_location_def ret_def makes_nodes_def same)
  next
    case False
    obtain g fd where fd: "region_type r RECORD_ENTER p ?c = Inr (g, fd)"
      using assms r False same(2)
      by (cases "region_type r RECORD_ENTER p ?c") (auto simp: handleEnter_def with_location_def isRegionFiltered_def ret_def Let_def)
    show ?thesis
    proof (cases g)
      case True
      obtain name n c1 c2 where n: "ri_name r = Some name" "add_region_node t 0 FR_UNKNOWN p name fd f ?c = ret (n, c1)"
          "handleKeyValuesEnter kv n c1 = ret c2" "handlePostEnter n c2 = ret c'"
        using assms r False same(2) fd True
        by (auto simp: handleEnter_def with_location_def isRegionFiltered_def ret_bind deref_ret Let_def)
      have "pushed p n RECORD_ENTER ?c c1"
        using add_region_node_frame [OF n(2)] region_type_record [OF fd] by simp
      moreover have "cframe c' = cframe c1"
        using handlePostEnter_frame [OF n(4)] handleKeyValuesEnter_frame [OF n(3)] by simp
      ultimately have "pushed p n RECORD_ENTER c c'"
        using s by (auto simp: pushed_def cframe_csame same)
      moreover have "makes_nodes d p f c"
        using r fd True False by (auto simp: makes_nodes_def same)
      ultimately show ?thesis
        by auto
    next
      case g: False
      have "c' = ?c"
        using assms r False same(2) fd g
        by (auto simp: handleEnter_def with_location_def isRegionFiltered_def Let_def ret_def)
      then show ?thesis
        using u r fd g by (auto simp: makes_nodes_def same)
    qed
  qed
qed

lemma handleLeave_effect:
  assumes "handleLeave fuel d t f i kv c = ret (b, c')" "closed_leave d i f kv c"
    "getStream i (ge_group (ca_engine c)) = Some p"
  shows "if makes_nodes d p f c then \<exists>n. pushed p n RECORD_LEAVE c c' else cframe c' = cframe c"
proof -
  let ?c = "update_stream p (period_second t) c"
  have u: "cframe ?c = cframe c"
    by (rule update_stream_frame) simp
  then have s: "csame ?c = csame c" "stacks ?c = stacks c"
    by (auto simp: cframe_csame)
  note same = csame_facts [OF s(1)]
  have nf: "\<not> isRegionFiltered f (ca_analysis ?c)"
    using assms(2) same(2) by (simp add: closed_leave_def isRegionFiltered_def)
  obtain r where r: "getRegionInfo f d = Inr r"
    using assms by (cases "getRegionInfo f d") (auto simp: handleLeave_def with_location_def ret_def)
  show ?thesis
  proof (cases "es_isFiltering (base (stream_at p ?c))")
    case True
    then show ?thesis
      using assms r u nf by (auto simp: handleLeave_def with_location_def ret_def makes_nodes_def same)
  next
    case False
    obtain g fd where fd: "region_type r RECORD_LEAVE p ?c = Inr (g, fd)"
      using assms r False nf
      by (cases "region_type r RECORD_LEAVE p ?c") (auto simp: handleLeave_def with_location_def ret_def Let_def)
    then have enter: "\<exists>fe. region_type r RECORD_ENTER p c = Inr (g, fe)"
      by (subst region_type_retyped [where u = RECORD_LEAVE]) (simp add: same)
    show ?thesis
    proof (cases g)
      case True
      have "leave_event kv fd \<noteq> None"
        using assms(2,3) r fd True by (auto simp: closed_leave_def same)
      then obtain e fr where "leave_event kv fd = Some (e, fr)"
        by auto
      then obtain name n c1 c2 c3 where n: "ri_name r = Some name" "add_region_node t e fr p name fd f ?c = ret (n, c1)"
          "handleKeyValuesLeave kv n (gn_first (ca_heap c1 n)) c1 = ret c2" "handlePostLeave fuel n c2 = ret c3"
          "global_collective n c3 = ret (b, c')"
        using assms(1,3) r False nf fd True
        by (auto simp: handleLeave_def with_location_def ret_bind deref_ret Let_def)
      have "pushed p n RECORD_LEAVE ?c c1"
        using add_region_node_frame [OF n(2)] region_type_record [OF fd] by simp
      moreover have "cframe c' = cframe c1"
        using handlePostLeave_frame [OF n(4)] handleKeyValuesLeave_frame [OF n(3)] global_collective_frame [OF n(5)] by simp
      ultimately have "pushed p n RECORD_LEAVE c c'"
        using s by (auto simp: pushed_def cframe_csame same)
      moreover have "makes_nodes d p f c"
        using r enter True False by (auto simp: makes_nodes_def same)
      ultimately show ?thesis
        by auto
    next
      case g: False
      have "c' = ?c"
        using assms r False nf fd g by (auto simp: handleLeave_def with_location_def Let_def ret_def)
      then show ?thesis
        using u r enter g by (auto simp: makes_nodes_def)
    qed
  qed
qed

text \<open>A region that makes nodes pushes its enter and pops it with its leave.\<close>

lemma pushed_popped:
  assumes "pushed p n RECORD_ENTER c c1" "csame c2 = csame c1" "stacks c2 = stacks c1" "pushed p m RECORD_LEAVE c2 c3"
  shows "cframe c3 = cframe c"
proof -
  have "csame c1 = csame c" "csame c3 = csame c2"
    using assms(1,4) by (simp_all add: pushed_def)
  then have c: "csame c2 = csame c" "csame c3 = csame c"
    using assms(2) by simp_all
  show ?thesis
    using assms csame_facts(4) [OF c(1)] c(2) by (simp add: pushed_def cframe_csame Let_def stacked_def fun_eq_iff)
qed

lemma read_regions_frame:
  "read_regions fuel d i rs c = ret c' \<Longrightarrow> all_closed d i rs c \<Longrightarrow> cframe c' = cframe c"
proof (induction fuel d i rs c arbitrary: c' rule: read_regions.induct)
  case (2 fuel d i f t kv rs t' kv' r c)
  obtain c1 c2 b c3 where c: "handleEnter d t f i kv c = ret c1" "read_regions fuel d i rs c1 = ret c2"
      "handleLeave fuel d t' f i kv' c2 = ret (b, c3)" "read_regions fuel d i r c3 = ret c'"
    using 2(3) by (auto simp: ret_bind)
  obtain p where p: "getStream i (ge_group (ca_engine c)) = Some p"
    using c(1) by (auto simp: handleEnter_def with_location_def split: option.splits)
  have f: "f \<notin> an_filteredFunctions (ca_analysis c)"
    using 2(4) by (simp add: closed_leave_def)
  have s1: "csame c1 = csame c"
    using handleEnter_effect [OF c(1) f p] by (auto simp: pushed_def cframe_csame split: if_splits)
  have "cframe c2 = cframe c1"
    using 2(1) [OF c(2)] 2(4) all_closed_same [OF s1] by simp
  then have s2: "csame c2 = csame c1" "stacks c2 = stacks c1"
    by (simp_all add: cframe_csame)
  have same: "csame c2 = csame c"
    using s1 s2 by simp
  have l: "closed_leave d i f kv' c2" "getStream i (ge_group (ca_engine c2)) = Some p" "makes_nodes d p f c2 = makes_nodes d p f c"
    using 2(4) closed_leave_same [OF same] p csame_facts [OF same] by (simp_all add: makes_nodes_def)
  have "cframe c3 = cframe c"
    using handleEnter_effect [OF c(1) f p] handleLeave_effect [OF c(3) l(1,2)] l(3) s2
    by (auto dest: pushed_popped simp: cframe_csame split: if_splits)
  moreover have "cframe c' = cframe c3"
    using 2(2) [OF c(4)] 2(4) all_closed_same [of c3 c] calculation by (simp add: cframe_csame)
  ultimately show ?case
    by simp
qed simp

text \<open>C21. Reading the events of well-nested regions of a stream leaves the stacks of open regions as they were: an enter
  and a leave of a region are classified alike, whatever the analyses of the paradigms do in between. This is for regions
  that are not filtered and whose leave records an event when it makes a node (\<^verbatim>\<open>all_closed\<close>): the leave of a CUDA event
  call without the identifier of its event makes no node, and such a region stays open; a filtered region has no nodes
  at all.\<close>
theorem well_nested_regions_close:
  assumes "read_regions fuel d i rs c = ret c'" "all_closed d i rs c"
  shows "ge_stacks (ca_engine c') = ge_stacks (ca_engine c)"
  using read_regions_frame [OF assms] by (simp add: cframe_csame)

text \<open>A process with one MPI stream, and two regions.\<close>

definition no_attributes :: attributes where
  "no_attributes = \<lparr>at_cudaStream = None, at_openclQueue = None, at_deviceId = None, at_parallelId = None,
     at_locationRef = None, at_eventRef = None, at_cuResult = None\<rparr>"

definition demo_options :: casita_options where
  "demo_options = \<lparr>co_names = \<lparr>no_ignoreAsyncMpi = False, no_ignoreOffload = False\<rparr>,
     co_offload = \<lparr>oo_linkKernels = 1, oo_ignoreCUDAevents = False, oo_blame4deviceIdle = False\<rparr>,
     co_analysisInterval = 0, co_predictionFilter = ''work'', co_nullStream = - 1\<rparr>"

definition demo_definitions :: definitions where
  "demo_definitions =
     addRegion 3 OTF2_PARADIGM_USER OTF2_REGION_ROLE_FUNCTION 30
       (addRegion 4 OTF2_PARADIGM_OTHER OTF2_REGION_ROLE_FUNCTION 40
         (storeString 30 ''work'' (storeString 40 ''MPI_Barrier'' (OTF2DefinitionHandler_new 0 0))))"

definition demo_casita :: casita where
  "demo_casita = Casita_new demo_options 0 2 9 False demo_engine"

theorem well_nested_regions_close_witness:
  "\<exists>c'. read_regions 0 demo_definitions 7
      [Trace_Region 3 5 no_attributes [Trace_Region 4 10 no_attributes [] 20 no_attributes] 30 no_attributes] demo_casita = ret c' \<and>
    ge_stacks (ca_engine c') = ge_stacks (ca_engine demo_casita)"
proof -
  let ?rs = "[Trace_Region 3 5 no_attributes [Trace_Region 4 10 no_attributes [] 20 no_attributes] 30 no_attributes]"
  have "case read_regions 0 demo_definitions 7 ?rs demo_casita of Some (Inr c) \<Rightarrow> True | _ \<Rightarrow> False"
    by code_simp
  then obtain c' where c: "read_regions 0 demo_definitions 7 ?rs demo_casita = ret c'"
    by (auto simp: ret_def split: option.splits sum.splits)
  have s: "getStream 7 (ge_group (ca_engine demo_casita)) = Some 0" "an_filteredFunctions (ca_analysis demo_casita) = {}"
    by code_simp+
  have r: "case getRegionInfo 3 demo_definitions of Inr r \<Rightarrow> (case region_type r RECORD_LEAVE 0 demo_casita of Inr (b, fd) \<Rightarrow> \<not> b | _ \<Rightarrow> False)
     | _ \<Rightarrow> False"
    "case getRegionInfo 4 demo_definitions of Inr r \<Rightarrow> (case region_type r RECORD_LEAVE 0 demo_casita of
       Inr (b, fd) \<Rightarrow> \<not> isCUDAEventType (fd_paradigm fd) (fd_functionType fd) | _ \<Rightarrow> False) | _ \<Rightarrow> False"
    by code_simp+
  have "all_closed demo_definitions 7 ?rs demo_casita"
    using r s by (auto simp: closed_leave_def leave_event_def)
  from well_nested_regions_close [OF c this] c show ?thesis
    by blast
qed

end
