(* ===== verification/FilterLaws.thy ===== *)
theory FilterLaws
  imports CallbackLaws
begin

text \<open>Laws of the filter of a stream and of the begin of the next interval: what happens inside a filtered region
  makes no nodes, its time is added to the offset of the prediction, and a recursive region is counted twice.\<close>

section \<open>Events inside a filtered region\<close>

datatype region_event = Enter_Event u64 u32 attributes | Leave_Event u64 u32 attributes

fun event_function :: "region_event \<Rightarrow> u32" where
  "event_function (Enter_Event t f kv) = f"
| "event_function (Leave_Event t f kv) = f"

fun read_events :: "nat \<Rightarrow> definitions \<Rightarrow> u64 \<Rightarrow> region_event list \<Rightarrow> casita \<Rightarrow> casita step" where
  "read_events fuel d i [] c = ret c"
| "read_events fuel d i (Enter_Event t f kv # es) c = bind_fuel (handleEnter d t f i kv c) (read_events fuel d i es)"
| "read_events fuel d i (Leave_Event t f kv # es) c =
    bind_fuel (handleLeave fuel d t f i kv c) (\<lambda>(_, c). read_events fuel d i es c)"

lemma extend_simps:
  "event_stream.truncate (event_stream.extend s x) = s" "event_stream.more (event_stream.extend s x) = x"
  "event_stream.extend (event_stream.truncate t) (event_stream.more t) = t" for s :: event_stream
  by (cases s; cases t; simp add: event_stream.defs)+

lemma obj_update_comp: "obj_update f (obj_update g p) = obj_update (f \<circ> g) p"
  by (cases p) (simp_all add: extend_simps)

lemma obj_update_id: "obj_update id p = p"
  by (cases p) (simp_all add: extend_simps)

lemma update_stream_simps [simp]:
  "stream_at p (update_stream p f c) = obj_update f (stream_at p c)" "update_stream p f (update_stream p g c) = update_stream p (f \<circ> g) c"
  "ge_group (ca_engine (update_stream p f c)) = ge_group (ca_engine c)" "ca_heap (update_stream p f c) = ca_heap c"
  "ge_graph (ca_engine (update_stream p f c)) = ge_graph (ca_engine c)" "ca_options (update_stream p f c) = ca_options c"
  "an_filteredFunctions (ca_analysis (update_stream p f c)) = an_filteredFunctions (ca_analysis c)"
  "an_mpi (ca_analysis (update_stream p f c)) = an_mpi (ca_analysis c)"
  by (simp_all add: update_stream_def put_stream_def stream_at_def obj_update_comp)

lemma isRegionFiltered_update [simp]:
  "isRegionFiltered f (ca_analysis (update_stream p g c)) = isRegionFiltered f (ca_analysis c)"
  by (simp add: isRegionFiltered_def)

definition sets_period :: "(event_stream \<Rightarrow> event_stream) \<Rightarrow> bool" where
  "sets_period f \<longleftrightarrow> (\<forall>s. \<exists>k. f s = s\<lparr>es_period := k\<rparr>)"

lemma sets_period_simps: "sets_period id" "sets_period (period_first t)" "sets_period (period_second t)"
  "sets_period f \<Longrightarrow> sets_period g \<Longrightarrow> sets_period (f \<circ> g)"
proof -
  have s: "\<exists>k. s = s\<lparr>es_period := k\<rparr>" for s :: event_stream
    by (rule exI [of _ "es_period s"]) simp
  then show "sets_period id" "sets_period (period_first t)" "sets_period (period_second t)"
    by (auto simp: sets_period_def period_first_def period_second_def)
  show "sets_period (f \<circ> g)" if f: "sets_period f" and g: "sets_period g"
    unfolding sets_period_def
  proof
    fix s
    obtain k l where "g s = s\<lparr>es_period := k\<rparr>" "f (g s) = (g s)\<lparr>es_period := l\<rparr>"
      using f g unfolding sets_period_def by metis
    then show "\<exists>k. (f \<circ> g) s = s\<lparr>es_period := k\<rparr>"
      by (intro exI [of _ l]) simp
  qed
qed

lemma period_filter [simp]:
  "es_isFiltering (period_first t s) = es_isFiltering s" "es_isFiltering (period_second t s) = es_isFiltering s"
  by (simp_all add: period_first_def period_second_def)

lemma sets_period_filter [simp]: "sets_period f \<Longrightarrow> es_isFiltering (f s) = es_isFiltering s"
  "sets_period f \<Longrightarrow> es_predictionOffset (f s) = es_predictionOffset s"
  "sets_period f \<Longrightarrow> es_filterStartTime (f s) = es_filterStartTime s"
  "sets_period f \<Longrightarrow> es_streamType (f s) = es_streamType s"
  unfolding sets_period_def by (metis event_stream.select_convs event_stream.surjective event_stream.update_convs)+

text \<open>The regions of the events are defined and none is a filtered one.\<close>

definition hidden :: "definitions \<Rightarrow> casita \<Rightarrow> region_event list \<Rightarrow> bool" where
  "hidden d c es \<longleftrightarrow> (\<forall>e\<in>set es. event_function e \<notin> an_filteredFunctions (ca_analysis c) \<and>
     (\<exists>r. getRegionInfo (event_function e) d = Inr r))"

lemma hidden_event:
  assumes "getStream i (ge_group (ca_engine c)) = Some p" "es_isFiltering (base (stream_at p c))" "hidden d c [e]"
  shows "\<exists>f. sets_period f \<and> (\<forall>es. read_events fuel d i (e # es) c = read_events fuel d i es (update_stream p f c))"
proof (cases e)
  case (Enter_Event t k kv)
  have f: "sets_period (period_second t \<circ> period_first t)"
    by (simp add: sets_period_simps)
  show ?thesis
    using assms f Enter_Event
    by (intro exI [of _ "period_second t \<circ> period_first t"]) (auto simp: hidden_def handleEnter_def with_location_def Let_def)
next
  case (Leave_Event t k kv)
  have f: "sets_period (period_second t)"
    by (simp add: sets_period_simps)
  show ?thesis
    using assms f Leave_Event
    by (intro exI [of _ "period_second t"])
      (auto simp: hidden_def handleLeave_def with_location_def isRegionFiltered_def Let_def)
qed

lemma hidden_events:
  "getStream i (ge_group (ca_engine c)) = Some p \<Longrightarrow> es_isFiltering (base (stream_at p c)) \<Longrightarrow> hidden d c es \<Longrightarrow>
   \<exists>f. sets_period f \<and> (\<forall>fs. read_events fuel d i (es @ fs) c = read_events fuel d i fs (update_stream p f c))"
proof (induction es arbitrary: c)
  case Nil
  have "update_stream p id c = c"
    by (simp add: update_stream_def put_stream_def stream_at_def obj_update_id)
  then show ?case
    using sets_period_simps(1) by (metis append_Nil)
next
  case (Cons e es)
  have "hidden d c [e]"
    using Cons(4) by (simp add: hidden_def)
  then obtain f where f: "sets_period f" "\<And>fs. read_events fuel d i (e # fs) c = read_events fuel d i fs (update_stream p f c)"
    using hidden_event [OF Cons(2,3)] by metis
  have "hidden d (update_stream p f c) es"
    using Cons(4) by (simp add: hidden_def)
  then obtain g where g: "sets_period g" "\<And>fs. read_events fuel d i (es @ fs) (update_stream p f c) =
      read_events fuel d i fs (update_stream p g (update_stream p f c))"
    using Cons(1) [of "update_stream p f c"] Cons(2,3) f(1) by auto
  then show ?case
    using f sets_period_simps(4) [OF g(1) f(1)] by (auto intro!: exI [of _ "g \<circ> f"] simp del: comp_apply)
qed

section \<open>A filtered region\<close>

definition user_region :: "definitions \<Rightarrow> stream_ref \<Rightarrow> u32 \<Rightarrow> casita \<Rightarrow> bool" where
  "user_region d p f c \<longleftrightarrow> isRegionFiltered f (ca_analysis c) \<and> \<not> isDeviceStream (base (stream_at p c)) \<and>
    (case getRegionInfo f d of Inl _ \<Rightarrow> False | Inr r \<Rightarrow> ri_paradigm r = OTF2_PARADIGM_USER \<and> ri_name r \<noteq> None)"

lemma user_region_type:
  assumes "user_region d p f c"
  obtains r fd where "getRegionInfo f d = Inr r" "\<And>rt g. es_streamType (base (stream_at p g)) = es_streamType (base (stream_at p c)) \<Longrightarrow>
    \<exists>fd. region_type r rt p g = Inr (False, fd)"
  using assms
  by (auto simp: user_region_def region_type_def getAPIFunctionType_def Let_def isDeviceStream_def split: sum.splits)

lemma setFilter_fields [simp]:
  "es_isFiltering (setFilter b t s) = b" "es_streamType (setFilter b t s) = es_streamType s"
  "es_filterStartTime (setFilter b t s) = (if b then t else es_filterStartTime s)"
  "es_predictionOffset (setFilter b t s) =
    (if b then es_predictionOffset s else es_predictionOffset s + (t - es_filterStartTime s))"
  by (simp_all add: setFilter_def Let_def)

lemma filtered_enter:
  assumes "user_region d p f c" "getStream i (ge_group (ca_engine c)) = Some p" "\<not> es_isFiltering (base (stream_at p c))"
  shows "read_events fuel d i (Enter_Event t f kv # es) c =
    read_events fuel d i es (update_stream p (setFilter True t \<circ> (period_second t \<circ> period_first t)) c)"
proof -
  let ?c = "update_stream p (setFilter True t \<circ> (period_second t \<circ> period_first t)) c"
  have p: "es_streamType (period_second t (period_first t s)) = es_streamType s" for s
    by (simp add: period_second_def period_first_def)
  obtain r where r: "getRegionInfo f d = Inr r" "\<And>rt g. es_streamType (base (stream_at p g)) = es_streamType (base (stream_at p c)) \<Longrightarrow>
      \<exists>fd. region_type r rt p g = Inr (False, fd)"
    using user_region_type [OF assms(1)] by metis
  obtain fd where "region_type r RECORD_ENTER p ?c = Inr (False, fd)"
    using r(2) [of ?c RECORD_ENTER] p by auto
  then show ?thesis
    using assms r(1) by (simp add: handleEnter_def with_location_def user_region_def Let_def comp_assoc)
qed

lemma filtered_leave:
  assumes "user_region d p f c" "getStream i (ge_group (ca_engine c)) = Some p"
  shows "read_events fuel d i (Leave_Event t f kv # es) c =
    read_events fuel d i es (update_stream p (setFilter False t \<circ> period_second t) c)"
proof -
  let ?c = "update_stream p (setFilter False t \<circ> period_second t) c"
  have p: "es_streamType (period_second t s) = es_streamType s" for s
    by (simp add: period_second_def)
  obtain r where r: "getRegionInfo f d = Inr r" "\<And>rt g. es_streamType (base (stream_at p g)) = es_streamType (base (stream_at p c)) \<Longrightarrow>
      \<exists>fd. region_type r rt p g = Inr (False, fd)"
    using user_region_type [OF assms(1)] by metis
  obtain fd where "region_type r RECORD_LEAVE p ?c = Inr (False, fd)"
    using r(2) [of ?c RECORD_LEAVE] p by auto
  then show ?thesis
    using assms r(1) by (simp add: handleLeave_def with_location_def user_region_def Let_def)
qed

definition same_nodes :: "casita \<Rightarrow> casita \<Rightarrow> bool" where
  "same_nodes c c' \<longleftrightarrow> ca_heap c' = ca_heap c \<and> ge_graph (ca_engine c') = ge_graph (ca_engine c)"

definition offset_at :: "stream_ref \<Rightarrow> casita \<Rightarrow> u64" where
  "offset_at p c = es_predictionOffset (base (stream_at p c))"

lemma user_region_update [simp]:
  "(\<And>s. es_streamType (g s) = es_streamType s) \<Longrightarrow> user_region d p f (update_stream p g c) = user_region d p f c"
  by (simp add: user_region_def isDeviceStream_def)

lemma period_stable [simp]:
  "es_streamType (period_first t s) = es_streamType s" "es_streamType (period_second t s) = es_streamType s"
  "es_filterStartTime (period_first t s) = es_filterStartTime s" "es_filterStartTime (period_second t s) = es_filterStartTime s"
  "es_predictionOffset (period_first t s) = es_predictionOffset s" "es_predictionOffset (period_second t s) = es_predictionOffset s"
  by (simp_all add: period_first_def period_second_def)

text \<open>C24. What happens inside a filtered region makes no nodes and no edges, and the time of the region is added to
  the offset of the prediction. This is for a filtered region of the user paradigm on a host stream whose filter is off,
  when the events inside it enter and leave no filtered region (\<^verbatim>\<open>hidden\<close>); a recursive region is excluded, and
  \<^verbatim>\<open>recursive_filter_counts_twice\<close> shows that its time is counted twice.\<close>
theorem filtered_region_hidden:
  assumes "user_region d p f c" "getStream i (ge_group (ca_engine c)) = Some p" "\<not> es_isFiltering (base (stream_at p c))"
    "hidden d c es"
  shows "\<exists>c'. read_events fuel d i (Enter_Event t f kv # es @ [Leave_Event t' f kv']) c = ret c' \<and> same_nodes c c' \<and>
    \<not> es_isFiltering (base (stream_at p c')) \<and> offset_at p c' = offset_at p c + (t' - t)"
proof -
  let ?c = "update_stream p (setFilter True t \<circ> (period_second t \<circ> period_first t)) c"
  have "hidden d ?c es"
    using assms(4) by (simp add: hidden_def)
  then obtain g where g: "sets_period g" "read_events fuel d i (es @ [Leave_Event t' f kv']) ?c =
      read_events fuel d i [Leave_Event t' f kv'] (update_stream p g ?c)"
    using hidden_events [of i ?c p d es fuel] assms(2) by (metis base_obj_update comp_apply setFilter_fields(1) update_stream_simps(1,3))
  have "user_region d p f (update_stream p g ?c)"
    using assms(1) g(1) by simp
  then have "read_events fuel d i (Enter_Event t f kv # es @ [Leave_Event t' f kv']) c =
      ret (update_stream p (setFilter False t' \<circ> period_second t') (update_stream p g ?c))"
    using filtered_enter [OF assms(1-3)] filtered_leave [of d p f "update_stream p g ?c" i fuel t' kv' "[]"] g(2) assms(2)
    by simp
  then show ?thesis
    using g(1) by (simp add: same_nodes_def offset_at_def)
qed

text \<open>When a filtered region calls itself, the leave of the inner call ends the filter, and the leave of the outer
  call adds the time since the outer enter once more.\<close>
lemma recursive_filter_counts_twice:
  assumes "user_region d p f c" "getStream i (ge_group (ca_engine c)) = Some p" "\<not> es_isFiltering (base (stream_at p c))"
  shows "\<exists>c'. read_events fuel d i [Enter_Event t1 f kv, Enter_Event t2 f kv, Leave_Event t3 f kv', Leave_Event t4 f kv'] c = ret c' \<and>
    offset_at p c' = offset_at p c + (t3 - t1) + (t4 - t1)"
proof -
  let ?c = "update_stream p (setFilter True t1 \<circ> (period_second t1 \<circ> period_first t1)) c"
  let ?e = "update_stream p (period_second t2 \<circ> period_first t2) ?c"
  have u: "user_region d p f ?e" "getStream i (ge_group (ca_engine ?e)) = Some p"
    using assms by simp_all
  obtain r where r: "getRegionInfo f d = Inr r"
    using assms(1) by (auto simp: user_region_def split: sum.splits)
  have "read_events fuel d i (Enter_Event t2 f kv # es) ?c = read_events fuel d i es ?e" for es
    using r assms(2) by (simp add: handleEnter_def with_location_def Let_def)
  then have "read_events fuel d i [Enter_Event t1 f kv, Enter_Event t2 f kv, Leave_Event t3 f kv', Leave_Event t4 f kv'] c =
      ret (update_stream p (setFilter False t4 \<circ> period_second t4) (update_stream p (setFilter False t3 \<circ> period_second t3) ?e))"
    using filtered_enter [OF assms] filtered_leave [OF u]
      filtered_leave [of d p f "update_stream p (setFilter False t3 \<circ> period_second t3) ?e" i fuel t4 kv' "[]"] u
    by (simp del: update_stream_simps(2) add: comp_assoc)
  then show ?thesis
    by (simp add: offset_at_def)
qed

definition filter_casita :: casita where
  "filter_casita = handleDefRegion 3 ''work'' OTF2_PARADIGM_USER demo_casita"

lemma filter_casita_ok:
  "user_region demo_definitions 0 3 filter_casita" "getStream 7 (ge_group (ca_engine filter_casita)) = Some 0"
  "\<not> es_isFiltering (base (stream_at 0 filter_casita))"
  by code_simp+

theorem filtered_region_hidden_witness:
  "\<exists>c'. read_events 0 demo_definitions 7
      [Enter_Event 10 3 no_attributes, Enter_Event 12 4 no_attributes, Leave_Event 15 4 no_attributes, Leave_Event 20 3 no_attributes]
      filter_casita = ret c' \<and> ca_heap c' = ca_heap filter_casita \<and> offset_at 0 c' = offset_at 0 filter_casita + 10"
proof -
  have f: "an_filteredFunctions (ca_analysis filter_casita) = {3}"
    by code_simp
  have "case getRegionInfo 4 demo_definitions of Inr r \<Rightarrow> True | _ \<Rightarrow> False"
    by code_simp
  then have "hidden demo_definitions filter_casita [Enter_Event 12 4 no_attributes, Leave_Event 15 4 no_attributes]"
    using f by (auto simp: hidden_def split: sum.splits)
  from filtered_region_hidden [OF filter_casita_ok this, of 0 10 no_attributes 20 no_attributes] show ?thesis
    by (auto simp: same_nodes_def)
qed

end
