(* ===== verification/IntervalLaws.thy ===== *)
theory IntervalLaws
  imports FilterLaws
begin

text \<open>What the begin of the next interval deletes, and what it leaves to be used: the launches on host streams
  stay, and a query of a device event is deleted while the offload analysis still refers to it.\<close>

section \<open>The nodes that are kept\<close>

text \<open>The nodes that stay, told from the nodes as they are at the begin.\<close>

definition kept :: "bool \<Rightarrow> heap \<Rightarrow> node_ref \<Rightarrow> bool" where
  "kept pending h n \<longleftrightarrow> isOfld (h n) \<and>
    (pending \<and> isOffloadKernel (h n) \<and> isKernelPending h n \<or>
     pending \<and> \<not> isOffloadKernel (h n) \<and> isOffloadEnqueueKernel (h n) \<or>
     isCUDAEventLaunch (h n) \<and> isLeave (h n) \<and> gn_data (h n) = None \<or> isOffloadWait (h n))"

text \<open>What is read of a node is not changed, except that a type and an atomic record may be added to it.\<close>

definition same_kind :: "graph_node \<Rightarrow> graph_node \<Rightarrow> bool" where
  "same_kind x y \<longleftrightarrow> nd_paradigm y = nd_paradigm x \<and> (nd_nodeType y = nd_nodeType x \<or> nd_nodeType y = nd_nodeType x OR MISC_PROCESS) \<and>
    (nd_recordType y = nd_recordType x \<or> nd_recordType y = RECORD_ATOMIC) \<and> gn_data y = gn_data x \<and>
    nd_link y = nd_link x \<and> gn_first y = gn_first x \<and> gn_second y = gn_second x"

definition unlinked :: "graph_node \<Rightarrow> graph_node" where
  "unlinked x = x\<lparr>gn_linkLeft := None, gn_linkRight := None\<rparr>"

lemma unlinked_setLinkLeft [simp]: "unlinked (setLinkLeft n l h q) = unlinked (h q)"
  "unlinked (setLinkRight n l h q) = unlinked (h q)"
  by (simp_all add: unlinked_def setLinkLeft_def setLinkRight_def)

lemma unlinked_facts:
  assumes "unlinked x = unlinked y"
  shows "nd_paradigm x = nd_paradigm y" "nd_nodeType x = nd_nodeType y" "nd_recordType x = nd_recordType y"
    "gn_data x = gn_data y" "nd_link x = nd_link y" "gn_first x = gn_first y" "gn_second x = gn_second y" "nd_time x = nd_time y"
    "nd_streamId x = nd_streamId y"
proof -
  show "nd_paradigm x = nd_paradigm y" "nd_nodeType x = nd_nodeType y" "nd_recordType x = nd_recordType y"
    "gn_data x = gn_data y" "nd_link x = nd_link y" "gn_first x = gn_first y" "gn_second x = gn_second y" "nd_time x = nd_time y"
    "nd_streamId x = nd_streamId y"
    using arg_cong [OF assms, of nd_paradigm] arg_cong [OF assms, of nd_nodeType] arg_cong [OF assms, of nd_recordType]
      arg_cong [OF assms, of gn_data] arg_cong [OF assms, of nd_link] arg_cong [OF assms, of gn_first]
      arg_cong [OF assms, of gn_second] arg_cong [OF assms, of nd_time] arg_cong [OF assms, of nd_streamId]
    by (simp_all add: unlinked_def)
qed

lemma isKernelPending_same: "(\<And>q. unlinked (k q) = unlinked (h q)) \<Longrightarrow> isKernelPending k n = isKernelPending h n"
  using unlinked_facts [of "k _" "h _"]
  by (simp add: isKernelPending_def hasPartner_def isEnter_def split: option.split)

lemma kept_same: "(\<And>q. unlinked (k q) = unlinked (h q)) \<Longrightarrow> kept b k n = kept b h n"
proof -
  assume u: "\<And>q. unlinked (k q) = unlinked (h q)"
  show ?thesis
    using unlinked_facts [OF u [of n]] isKernelPending_same [OF u]
    by (simp add: kept_def isOfld_def isOffloadKernel_def isOffloadEnqueueKernel_def isCUDAEventLaunch_def isCUDA_def
        isLeave_def isOffloadWait_def)
qed

lemma delete_node_spec:
  "delete_node b n (o1, h) = Inr (gone, o2, h') \<Longrightarrow>
   gone = (\<not> kept b h n) \<and> (\<forall>q. unlinked (h' q) = unlinked (h q)) \<and> map_option of_eventQuery o2 = map_option of_eventQuery o1"
  by (auto simp: delete_node_def Let_def kept_def bind_res_Inr removeKernelLaunch_def split: if_splits option.splits)

lemma delete_nodes_spec:
  "delete_nodes b ns (o1, h) = Inr (deleted, o2, h') \<Longrightarrow>
   deleted = filter (\<lambda>n. \<not> kept b h n) ns \<and> (\<forall>q. unlinked (h' q) = unlinked (h q)) \<and>
   map_option of_eventQuery o2 = map_option of_eventQuery o1"
proof (induction ns arbitrary: o1 h deleted)
  case (Cons n ns)
  obtain gone o3 k ds where d: "delete_node b n (o1, h) = Inr (gone, o3, k)" "delete_nodes b ns (o3, k) = Inr (ds, o2, h')"
      "deleted = (if gone then n # ds else ds)"
    using Cons(2) by (auto simp: bind_res_Inr)
  note s = delete_node_spec [OF d(1)]
  then have "kept b k = kept b h"
    by (intro ext kept_same) simp
  then show ?case
    using s Cons(1) [OF d(2)] d(3) by simp
qed simp

section \<open>Clearing a stream\<close>

lemma same_kind_trans: "same_kind x y \<Longrightarrow> same_kind y z \<Longrightarrow> same_kind x z"
  by (auto simp: same_kind_def or.assoc)

lemma same_kind_unlinked: "unlinked y = unlinked x \<Longrightarrow> same_kind x y"
  using unlinked_facts [of y x] by (simp add: same_kind_def)

lemma same_kind_facts:
  assumes "same_kind x y"
  shows "isOfld y = isOfld x" "isOffloadKernel y = isOffloadKernel x" "isOffloadEnqueueKernel y = isOffloadEnqueueKernel x"
    "isOffloadWait y = isOffloadWait x" "isCUDAEventLaunch y = isCUDAEventLaunch x"
proof -
  have p: "\<not> has_flag MISC_PROCESS OFLD_TASK_KERNEL" "\<not> has_flag MISC_PROCESS OFLD_ENQUEUE_KERNEL" "\<not> has_flag MISC_PROCESS OFLD_WAIT"
    "\<not> has_flag MISC_PROCESS OFLD_ENQUEUE_EVT"
    by code_simp+
  show "isOfld y = isOfld x" "isOffloadKernel y = isOffloadKernel x" "isOffloadEnqueueKernel y = isOffloadEnqueueKernel x"
    "isOffloadWait y = isOffloadWait x" "isCUDAEventLaunch y = isCUDAEventLaunch x"
    using assms p by (auto simp: same_kind_def isOfld_def isOffloadKernel_def isOffloadEnqueueKernel_def isOffloadWait_def
        isCUDAEventLaunch_def isCUDA_def)
qed

definition queries :: "casita \<Rightarrow> (u64 \<rightharpoonup> node_ref) option" where
  "queries c = map_option of_eventQuery (ca_offload c)"

lemma nodes_to_delete_spec:
  assumes "nodes_to_delete p (o1, h) = Inr (pending, ns, o2, k)"
  shows "set ns \<subseteq> set (es_nodes (base p)) \<and>
    (\<not> isDeviceStream (base p) \<longrightarrow> pending \<and> set (tl (butlast (es_nodes (base p)))) \<subseteq> set ns) \<and>
    (\<forall>q. unlinked (k q) = unlinked (h q)) \<and> map_option of_eventQuery o2 = map_option of_eventQuery o1"
proof -
  have b: "set (butlast xs) \<subseteq> set xs" "set (tl xs) \<subseteq> set xs" for xs :: "node_ref list"
    by (auto dest: in_set_butlastD) (cases xs; simp)
  have s: "set (tl (butlast xs)) \<subseteq> set xs" "set (tl (butlast xs)) \<subseteq> set (tl xs)" "set (tl (butlast xs)) \<subseteq> set (butlast xs)"
      "set (butlast (butlast xs)) \<subseteq> set xs" for xs :: "node_ref list"
    using b [of "tl xs"] b [of "butlast xs"] b [of xs] by (auto simp: butlast_tl [symmetric])
  have q: "map_option of_eventQuery (map_option (clearKernelEnqueues i) o1) = map_option of_eventQuery o1" for i
    by (cases o1) (simp_all add: clearKernelEnqueues_def split: option.split)
  show ?thesis
    using assms s [of "es_nodes (base p)"] b [of "es_nodes (base p)"] q
    by (auto simp: nodes_to_delete_def Let_def split: if_splits stream_obj.splits)
qed

lemma put_simps [simp]:
  "stream_at q (put_stream p s c) = (if q = p then s else stream_at q c)" "ca_heap (put_stream p s c) = ca_heap c"
  "stream_at q (put_heap h c) = stream_at q c" "ca_heap (put_heap h c) = h"
  "stream_at q (put_offload o1 c) = stream_at q c" "ca_heap (put_offload o1 c) = ca_heap c"
  "queries (put_stream p s c) = queries c" "queries (put_heap h c) = queries c" "queries (c\<lparr>ca_analysis := a\<rparr>) = queries c"
  by (simp_all add: put_stream_def put_heap_def put_offload_def stream_at_def queries_def split: option.split)

lemma delete_stream_nodes_spec:
  assumes "delete_stream_nodes p c = Inr (deleted, c')"
  shows "\<exists>pending ns. deleted = filter (\<lambda>n. \<not> kept pending (ca_heap c) n) ns \<and> set ns \<subseteq> set (es_nodes (base (stream_at p c))) \<and>
    (\<not> isDeviceStream (base (stream_at p c)) \<longrightarrow> pending \<and> set (tl (butlast (es_nodes (base (stream_at p c))))) \<subseteq> set ns) \<and>
    (\<forall>q. unlinked (ca_heap c' q) = unlinked (ca_heap c q)) \<and> (\<forall>r. stream_at r c' = stream_at r c) \<and> queries c' = queries c"
proof (cases "es_nodes (base (stream_at p c)) = []")
  case True
  then have "deleted = [] \<and> c' = c"
    using assms by (simp add: delete_stream_nodes_def)
  then show ?thesis
    using True by (intro exI [of _ True] exI [of _ "[]"]) simp
next
  case False
  obtain pending ns o1 k o2 h where d: "nodes_to_delete (stream_at p c) (an_offload c, ca_heap c) = Inr (pending, ns, o1, k)"
      "delete_nodes pending ns (o1, k) = Inr (deleted, o2, h)" "c' = put_offload o2 (put_heap h c)"
    using assms False by (auto simp: delete_stream_nodes_def bind_res_Inr)
  note n = nodes_to_delete_spec [OF d(1)] and f = delete_nodes_spec [OF d(2)]
  have "kept pending k = kept pending (ca_heap c)"
    using n by (intro ext kept_same) simp
  moreover have "queries c' = queries c"
    using n f d(3) by (auto simp: queries_def put_offload_def put_heap_def an_offload_def split: option.splits if_splits)
  ultimately show ?thesis
    using n f d(3) by (intro exI [of _ pending] exI [of _ ns]) simp
qed

lemma addGraphNode_unlinked:
  assumes "addGraphNode n pm h s = Inr (h', pm', s')"
  shows "unlinked (h' q) = unlinked (h q)"
proof -
  have f: "unlinked (fold (\<lambda>p. setLinkRight p r) us k q) = unlinked (k q)" for r us k
    by (induction us arbitrary: k) simp_all
  obtain m t where t: "add_paradigms h n [0..<NODE_PARADIGM_COUNT] (pm, s\<lparr>es_nodesAdded := True\<rparr>) = Inr (m, t)"
    using assms by (cases "add_paradigms h n [0..<NODE_PARADIGM_COUNT] (pm, s\<lparr>es_nodesAdded := True\<rparr>)")
      (auto simp: addGraphNode_def)
  then show ?thesis
    using assms f unfolding addGraphNode_def
    by (cases "nd_paradigm (h n) = PARADIGM_MPI"; cases "isEnter (h n)")
      (auto simp: Let_def addNodeInternal_def isEnter_def)
qed

lemma obj_addGraphNode_unlinked:
  "obj_addGraphNode n pm h p = Inr (h', pm', p') \<Longrightarrow> unlinked (h' q) = unlinked (h q)"
  by (cases p) (auto simp: bind_res_Inr dest: addGraphNode_unlinked)

lemma restart_stream_spec:
  assumes "restart_stream p c = Inr c'"
  shows "same_kind (ca_heap c q) (ca_heap c' q) \<and> (r \<noteq> p \<longrightarrow> stream_at r c' = stream_at r c) \<and> queries c' = queries c"
proof -
  obtain n where n: "es_lastNode (base (stream_at p c)) = Some n"
    using assms by (auto simp: restart_stream_def split: option.splits)
  let ?h = "node_update n (\<lambda>x. addType MISC_PROCESS (x\<lparr>nd_recordType := RECORD_ATOMIC\<rparr>)) (ca_heap c)"
  obtain h m s where h: "obj_addGraphNode n None ?h (obj_update clearNodes (stream_at p c)) = Inr (h, m, s)"
      "ca_heap c' = h" "r \<noteq> p \<longrightarrow> stream_at r c' = stream_at r c" "queries c' = queries c"
    using assms n by (auto simp: restart_stream_def Let_def bind_res_Inr newEdge_fields stream_at_def put_stream_def put_heap_def
        queries_def)
  have "same_kind (ca_heap c q) (?h q)"
    by (simp add: same_kind_def node_update_def addType_def)
  then show ?thesis
    using h obj_addGraphNode_unlinked [OF h(1), of q] same_kind_trans same_kind_unlinked by blast
qed

lemma clear_stream_spec:
  assumes "clear_stream p c = Inr (deleted, c')"
  shows "\<exists>pending ns. deleted = filter (\<lambda>n. \<not> kept pending (ca_heap c) n) ns \<and> set ns \<subseteq> set (es_nodes (base (stream_at p c))) \<and>
    (\<not> isDeviceStream (base (stream_at p c)) \<longrightarrow> pending \<and> set (tl (butlast (es_nodes (base (stream_at p c))))) \<subseteq> set ns) \<and>
    (\<forall>q. same_kind (ca_heap c q) (ca_heap c' q)) \<and> (\<forall>r. r \<noteq> p \<longrightarrow> stream_at r c' = stream_at r c) \<and> queries c' = queries c"
proof -
  obtain k where k: "delete_stream_nodes p c = Inr (deleted, k)"
      "restart_stream p (put_stream p (obj_reset (stream_at p k)) k) = Inr c' \<or>
       c' = put_stream p (obj_update clearNodes (obj_reset (stream_at p k))) (put_stream p (obj_reset (stream_at p k)) k)"
    using assms by (auto simp: clear_stream_def Let_def bind_res_Inr split: if_splits)
  obtain pending ns where d: "deleted = filter (\<lambda>n. \<not> kept pending (ca_heap c) n) ns" "set ns \<subseteq> set (es_nodes (base (stream_at p c)))"
      "\<not> isDeviceStream (base (stream_at p c)) \<longrightarrow> pending \<and> set (tl (butlast (es_nodes (base (stream_at p c))))) \<subseteq> set ns"
      "\<forall>q. unlinked (ca_heap k q) = unlinked (ca_heap c q)" "\<forall>r. stream_at r k = stream_at r c" "queries k = queries c"
    using delete_stream_nodes_spec [OF k(1)] by metis
  have u: "same_kind (ca_heap c q) (ca_heap k q)" for q
    using d(4) same_kind_unlinked by metis
  have "same_kind (ca_heap c q) (ca_heap c' q) \<and> (r \<noteq> p \<longrightarrow> stream_at r c' = stream_at r c) \<and> queries c' = queries c" for q r
    using k(2)
  proof
    assume "restart_stream p (put_stream p (obj_reset (stream_at p k)) k) = Inr c'"
    from restart_stream_spec [OF this, of q r] show ?thesis
      using u [of q] d(5,6) by (auto intro: same_kind_trans)
  qed (use u d(5,6) in simp)
  then show ?thesis
    using d by (intro exI [of _ pending] exI [of _ ns]) simp
qed

section \<open>The begin of the next interval\<close>

definition launch_node_kind :: "graph_node \<Rightarrow> bool" where
  "launch_node_kind x \<longleftrightarrow> isOffloadEnqueueKernel x \<and> \<not> isOffloadKernel x"

text \<open>A node of an event query: of the offload analysis, and none of the kinds that are kept.\<close>

definition query_node_kind :: "graph_node \<Rightarrow> bool" where
  "query_node_kind x \<longleftrightarrow> isCUDAEventQuery x \<and> \<not> isOffloadKernel x \<and> \<not> isOffloadEnqueueKernel x \<and> \<not> isCUDAEventLaunch x \<and>
    \<not> isOffloadWait x"

lemma kind_same:
  assumes "same_kind x y"
  shows "launch_node_kind y = launch_node_kind x" "query_node_kind x \<Longrightarrow> query_node_kind y"
  using same_kind_facts [OF assms] assms
  by (auto simp: launch_node_kind_def query_node_kind_def isCUDAEventQuery_def isCUDA_def same_kind_def)

lemma clear_streams_launches:
  "distinct ps \<Longrightarrow> clear_streams ps c = Inr (deleted, c') \<Longrightarrow> n \<in> set deleted \<Longrightarrow> launch_node_kind (ca_heap c n) \<Longrightarrow>
   \<exists>p\<in>set ps. isDeviceStream (base (stream_at p c)) \<and> n \<in> set (es_nodes (base (stream_at p c)))"
proof (induction ps arbitrary: c deleted)
  case (Cons p ps)
  obtain d k ds where d: "clear_stream p c = Inr (d, k)" "clear_streams ps k = Inr (ds, c')" "deleted = d @ ds"
    using Cons(3) by (auto simp: bind_res_Inr)
  obtain pending ns where s: "d = filter (\<lambda>n. \<not> kept pending (ca_heap c) n) ns" "set ns \<subseteq> set (es_nodes (base (stream_at p c)))"
      "\<not> isDeviceStream (base (stream_at p c)) \<longrightarrow> pending"
      "\<forall>q. same_kind (ca_heap c q) (ca_heap k q)" "\<forall>r. r \<noteq> p \<longrightarrow> stream_at r k = stream_at r c"
    using clear_stream_spec [OF d(1)] by metis
  show ?case
  proof (cases "n \<in> set d")
    case True
    then have "\<not> kept pending (ca_heap c) n" "n \<in> set (es_nodes (base (stream_at p c)))"
      using s(1,2) by auto
    then show ?thesis
      using s(3) Cons(5) by (auto simp: kept_def launch_node_kind_def isOffloadEnqueueKernel_def)
  next
    case False
    then have "n \<in> set ds"
      using d(3) Cons(4) by simp
    moreover have "launch_node_kind (ca_heap k n)"
      using Cons(5) s(4) kind_same(1) by metis
    ultimately obtain r where "r \<in> set ps" "isDeviceStream (base (stream_at r k))" "n \<in> set (es_nodes (base (stream_at r k)))"
      using Cons(1) [OF _ d(2)] Cons(2) by auto
    then show ?thesis
      using s(5) Cons(2) by (metis distinct.simps(2) list.set_intros(2))
  qed
qed simp

lemma clear_streams_queries: "clear_streams ps c = Inr (deleted, c') \<Longrightarrow> queries c' = queries c"
proof (induction ps arbitrary: c deleted)
  case (Cons p ps)
  then obtain d k ds where d: "clear_stream p c = Inr (d, k)" "clear_streams ps k = Inr (ds, c')"
    by (auto simp: bind_res_Inr)
  then show ?case
    using Cons(1) [OF d(2)] clear_stream_spec [OF d(1)] by auto
qed simp

lemma clear_streams_deletes_query:
  "clear_streams ps c = Inr (deleted, c') \<Longrightarrow> p \<in> set ps \<Longrightarrow> query_node_kind (ca_heap c n) \<Longrightarrow>
   \<not> isDeviceStream (base (stream_at p c)) \<Longrightarrow> n \<in> set (tl (butlast (es_nodes (base (stream_at p c))))) \<Longrightarrow> n \<in> set deleted"
proof (induction ps arbitrary: c deleted)
  case (Cons r ps)
  obtain d k ds where d: "clear_stream r c = Inr (d, k)" "clear_streams ps k = Inr (ds, c')" "deleted = d @ ds"
    using Cons(2) by (auto simp: bind_res_Inr)
  obtain pending ns where s: "d = filter (\<lambda>n. \<not> kept pending (ca_heap c) n) ns"
      "\<not> isDeviceStream (base (stream_at r c)) \<longrightarrow> pending \<and> set (tl (butlast (es_nodes (base (stream_at r c))))) \<subseteq> set ns"
      "\<forall>q. same_kind (ca_heap c q) (ca_heap k q)" "\<forall>q. q \<noteq> r \<longrightarrow> stream_at q k = stream_at q c"
    using clear_stream_spec [OF d(1)] by metis
  show ?case
  proof (cases "p = r")
    case True
    then have "n \<in> set ns"
      using s(2) Cons(5,6) by auto
    moreover have "\<not> kept pending (ca_heap c) n"
      using Cons(4) by (simp add: kept_def query_node_kind_def)
    ultimately show ?thesis
      using s(1) d(3) by simp
  next
    case False
    moreover have "query_node_kind (ca_heap k n)"
      using Cons(4) s(3) kind_same(2) by metis
    ultimately show ?thesis
      using Cons(1) [OF d(2)] Cons(3,5,6) s(4) d(3) by simp
  qed
qed simp

lemma createIntermediateBegin_streams:
  assumes "createIntermediateBegin c = Inr (deleted, c')"
  shows "\<exists>k. clear_streams (sg_allStreams (ge_group (ca_engine c))) k = Inr (deleted, c') \<and> ca_heap k = ca_heap c \<and>
    (\<forall>p. stream_at p k = stream_at p c) \<and> queries k = queries c"
  using assms
  by (cases "ca_offload c")
    (auto simp: createIntermediateBegin_def Let_def reset_paradigms_def stream_at_def queries_def offload_reset_def)

text \<open>C22. The begin of the next interval deletes no kernel launch of a host stream.\<close>
theorem interval_keeps_launches:
  assumes "createIntermediateBegin c = Inr (deleted, c')" "distinct (sg_allStreams (ge_group (ca_engine c)))"
    "launch_node_kind (ca_heap c n)"
    "\<And>p. n \<in> set (es_nodes (base (stream_at p c))) \<Longrightarrow> \<not> isDeviceStream (base (stream_at p c))"
  shows "n \<notin> set deleted"
proof
  assume n: "n \<in> set deleted"
  obtain k where k: "clear_streams (sg_allStreams (ge_group (ca_engine c))) k = Inr (deleted, c')" "ca_heap k = ca_heap c"
      "\<forall>p. stream_at p k = stream_at p c"
    using createIntermediateBegin_streams [OF assms(1)] by metis
  then show False
    using clear_streams_launches [OF assms(2), of k deleted c' n] assms(3,4) n by metis
qed

text \<open>An MPI stream with a query of an event, a launch and a collective.\<close>

definition interval_heap :: heap where
  "interval_heap n = fst (GraphNode_new n 0 (of_nat n) 7 ''node'' (if n = 0 then PARADIGM_ALL else if n = 3 then PARADIGM_MPI else PARADIGM_CUDA)
     (if n = 0 then RECORD_ATOMIC else RECORD_LEAVE)
     (if n = 0 then MISC_PROCESS else if n = 1 then OFLD_QUERY_EVT else if n = 2 then OFLD_ENQUEUE_KERNEL else MPI_COLLECTIVE))"

definition interval_stream :: stream_obj where
  "interval_stream = Mpi_Obj ((MpiStream_new 7 7 ''rank'' demo_comm)\<lparr>es_nodes := [0, 1, 2, 3], es_lastNode := Some 3\<rparr>)"

definition interval_engine :: engine where
  "interval_engine = \<lparr>ge_heap = interval_heap, ge_nextNode = 4, ge_globalNodeId = 4, ge_edges = (\<lambda>_. Edge_new interval_heap 0 0 0 False 0),
     ge_nextEdge = 0, ge_graph = Graph_new False, ge_streams = (\<lambda>_. interval_stream), ge_nextStream = 1,
     ge_group = EventStreamGroup_new\<lparr>sg_streamsMap := [(7, 0)], sg_hostStreams := [0], sg_allStreams := [0]\<rparr>,
     ge_stacks = (\<lambda>_. []), ge_sourceNode = 0, ge_ticksPerSecond = 1000\<rparr>"

definition interval_offload :: offload_state where
  "interval_offload = \<lparr>of_activeTasks = 0, of_idleStart = 0, of_oKernelEnter = None, of_overlapStart = 0, of_delay500us = 0,
     of_pendingKernels = 0, of_eventLaunch = Map.empty, of_eventQuery = [5 \<mapsto> 1], of_streamWait = Map.empty,
     of_eventProcess = Map.empty, of_nullStreamWaits = [], of_launches = []\<rparr>"

definition interval_casita :: casita where
  "interval_casita = (Casita_new demo_options 0 2 9 False interval_engine)\<lparr>ca_offload := Some interval_offload\<rparr>"

lemma interval_casita_ok:
  "sg_allStreams (ge_group (ca_engine interval_casita)) = [0]"
  "es_nodes (base (stream_at p interval_casita)) = [0, 1, 2, 3]"
  "\<not> isDeviceStream (base (stream_at p interval_casita))"
  "launch_node_kind (ca_heap interval_casita 2)" "query_node_kind (ca_heap interval_casita 1)"
  by (code_simp, code_simp, code_simp, code_simp, code_simp)

lemma interval_casita_offload: "\<exists>o1. ca_offload interval_casita = Some o1 \<and> of_eventQuery o1 5 = Some 1"
  by (simp add: interval_casita_def interval_offload_def)

lemma interval_casita_begin: "\<exists>deleted c'. createIntermediateBegin interval_casita = Inr (deleted, c')"
proof -
  have "case createIntermediateBegin interval_casita of Inr x \<Rightarrow> True | _ \<Rightarrow> False"
    by code_simp
  then show ?thesis
    by (auto split: sum.splits)
qed

theorem interval_keeps_launches_witness:
  "\<exists>deleted c'. createIntermediateBegin interval_casita = Inr (deleted, c') \<and> 2 \<notin> set deleted"
proof -
  obtain deleted c' where b: "createIntermediateBegin interval_casita = Inr (deleted, c')"
    using interval_casita_begin by blast
  have "2 \<notin> set deleted"
    using interval_keeps_launches [OF b, of 2] interval_casita_ok by simp
  with b show ?thesis
    by blast
qed

text \<open>C23. The begin of the next interval deletes the last query of a device event, while the offload analysis still
  refers to it: the next query of the event is linked with a deleted node.\<close>
theorem interval_query_dangles:
  assumes "createIntermediateBegin c = Inr (deleted, c')" "ca_offload c = Some o1" "of_eventQuery o1 i = Some n"
    "p \<in> set (sg_allStreams (ge_group (ca_engine c)))" "\<not> isDeviceStream (base (stream_at p c))"
    "n \<in> set (tl (butlast (es_nodes (base (stream_at p c)))))" "query_node_kind (ca_heap c n)"
  shows "n \<in> set deleted \<and> (\<exists>o2. ca_offload c' = Some o2 \<and> of_eventQuery o2 i = Some n)"
proof -
  obtain k where k: "clear_streams (sg_allStreams (ge_group (ca_engine c))) k = Inr (deleted, c')" "ca_heap k = ca_heap c"
      "\<forall>p. stream_at p k = stream_at p c" "queries k = queries c"
    using createIntermediateBegin_streams [OF assms(1)] by metis
  have "n \<in> set deleted"
    using clear_streams_deletes_query [OF k(1) assms(4)] k(2,3) assms(5-7) by simp
  moreover have "queries c' = Some (of_eventQuery o1)"
    using clear_streams_queries [OF k(1)] k(4) assms(2) by (simp add: queries_def)
  ultimately show ?thesis
    using assms(3) by (auto simp: queries_def)
qed

theorem interval_query_dangles_witness:
  "\<exists>deleted c' o2. createIntermediateBegin interval_casita = Inr (deleted, c') \<and> 1 \<in> set deleted \<and>
    ca_offload c' = Some o2 \<and> of_eventQuery o2 5 = Some 1"
proof -
  obtain deleted c' where b: "createIntermediateBegin interval_casita = Inr (deleted, c')"
    using interval_casita_begin by blast
  obtain o1 where o1: "ca_offload interval_casita = Some o1" "of_eventQuery o1 5 = Some 1"
    using interval_casita_offload by blast
  show ?thesis
    using interval_query_dangles [OF b o1, of 0] interval_casita_ok b by auto
qed

end
