(* ===== verification/GroupModel.thy ===== *)
theory GroupModel
  imports IntervalLaws
begin

text \<open>The profile of the regions of a program: the activity groups the trace writer collects
  (\<^verbatim>\<open>backend/include/otf/OTF2ParallelTraceWriter.hpp\<close>) and the two ways in which the first rank adds up the groups
  of all ranks (\<^verbatim>\<open>frontend/Runner.cpp\<close>). What the ranks send is an argument; a C++ \<^verbatim>\<open>double\<close> is an exact rational.\<close>

section \<open>Activity groups\<close>

record activity_group =
  ag_functionId :: u32
  ag_numInstances :: u32
  ag_numUnifyStreams :: u32
  ag_totalDuration :: u64
  ag_totalDurationOnCP :: u64
  ag_waitingTime :: u64
  ag_blame4 :: "blame_reason \<Rightarrow> rat"
  ag_totalBlame :: rat
  ag_blameOnCP :: rat

type_synonym activity_groups = "(u32, activity_group) smap"

text \<open>\<^verbatim>\<open>operator[]\<close> of the map makes a group of zeros.\<close>

definition ActivityGroup_zero :: activity_group where
  "ActivityGroup_zero = \<lparr>ag_functionId = 0, ag_numInstances = 0, ag_numUnifyStreams = 0, ag_totalDuration = 0,
     ag_totalDurationOnCP = 0, ag_waitingTime = 0, ag_blame4 = (\<lambda>_. 0), ag_totalBlame = 0, ag_blameOnCP = 0\<rparr>"

text \<open>The order of the rating: blame on the critical path, time on it, blame, identifier, all descending.\<close>

definition ActivityGroupCompare :: "activity_group \<Rightarrow> activity_group \<Rightarrow> bool" where
  "ActivityGroupCompare g1 g2 \<longleftrightarrow>
    (if ag_blameOnCP g1 = ag_blameOnCP g2 then
       (if ag_totalDurationOnCP g1 = ag_totalDurationOnCP g2 then
          (if ag_totalBlame g1 = ag_totalBlame g2 then ag_functionId g1 > ag_functionId g2
           else ag_totalBlame g1 > ag_totalBlame g2)
        else ag_totalDurationOnCP g1 > ag_totalDurationOnCP g2)
     else ag_blameOnCP g1 > ag_blameOnCP g2)"

section \<open>Adding the groups of a rank\<close>

record merge_state =
  me_groups :: activity_groups
  me_globalBlame :: rat
  me_maxWaitingTime :: u64
  me_minWaitingTime :: u64
  me_maxWtimeRank :: u32
  me_minWtimeRank :: u32

definition add_group :: "activity_group \<Rightarrow> activity_group \<Rightarrow> activity_group" where
  "add_group own g = own\<lparr>ag_numInstances := ag_numInstances own + ag_numInstances g,
     ag_totalBlame := ag_totalBlame own + ag_totalBlame g,
     ag_totalDuration := ag_totalDuration own + ag_totalDuration g,
     ag_totalDurationOnCP := ag_totalDurationOnCP own + ag_totalDurationOnCP g,
     ag_blameOnCP := ag_blameOnCP own + ag_blameOnCP g,
     ag_waitingTime := ag_waitingTime own + ag_waitingTime g,
     ag_blame4 := (\<lambda>r. ag_blame4 own r + ag_blame4 g r),
     ag_numUnifyStreams := ag_numUnifyStreams own + 1\<rparr>"

definition merge_group :: "activity_group \<Rightarrow> activity_groups \<Rightarrow> activity_groups" where
  "merge_group g m = (case map_of m (ag_functionId g) of
      Some own \<Rightarrow> smap_update (ag_functionId g) (add_group own g) m
    | None \<Rightarrow> smap_update (ag_functionId g) g m)"

text \<open>The groups of one rank: the state and the waiting time of the rank.\<close>

fun merge_groups :: "activity_group list \<Rightarrow> activity_groups \<times> rat \<times> u64 \<Rightarrow> activity_groups \<times> rat \<times> u64" where
  "merge_groups [] s = s"
| "merge_groups (g # gs) (m, b, w) = merge_groups gs (merge_group g m, b + ag_totalBlame g, w + ag_waitingTime g)"

text \<open>A rank without groups does not take part in the search for the smallest waiting time.\<close>

definition merge_rank :: "u32 \<Rightarrow> activity_group list \<Rightarrow> merge_state \<Rightarrow> merge_state" where
  "merge_rank rank gs s =
    (if gs = [] then s
     else case merge_groups gs (me_groups s, me_globalBlame s, 0) of (m, b, w) \<Rightarrow>
       (let s = s\<lparr>me_groups := m, me_globalBlame := b\<rparr>;
            s = (if w > me_maxWaitingTime s then s\<lparr>me_maxWaitingTime := w, me_maxWtimeRank := rank\<rparr> else s) in
        if w < me_minWaitingTime s then s\<lparr>me_minWaitingTime := w, me_minWtimeRank := rank\<rparr> else s))"

definition merge_start :: "activity_groups \<Rightarrow> rat \<Rightarrow> merge_state" where
  "merge_start m globalBlame =
    (let w = foldl (\<lambda>t (_, g). t + ag_waitingTime g) 0 m in
     \<lparr>me_groups = m, me_globalBlame = foldl (\<lambda>b (_, g). b + ag_totalBlame g) globalBlame m,
      me_maxWaitingTime = w, me_minWaitingTime = w, me_maxWtimeRank = 0, me_minWtimeRank = 0\<rparr>)"

fun merge_ranks :: "u32 \<Rightarrow> activity_group list list \<Rightarrow> merge_state \<Rightarrow> merge_state" where
  "merge_ranks rank [] s = s"
| "merge_ranks rank (gs # gss) s = merge_ranks (rank + 1) gss (merge_rank rank gs s)"

text \<open>The first rank receives the groups of every other rank one after the other.\<close>

definition mergeActivityGroupsP2P :: "activity_group list list \<Rightarrow> activity_groups \<Rightarrow> rat \<Rightarrow> merge_state" where
  "mergeActivityGroupsP2P others m globalBlame = merge_ranks 1 others (merge_start m globalBlame)"

section \<open>Gathering all groups at once\<close>

text \<open>The size of a group in bytes, with its padding.\<close>

definition sizeof_ActivityGroup :: nat where
  "sizeof_ActivityGroup = 128"

text \<open>The numbers of bytes and the offsets are of type \<^verbatim>\<open>int\<close>.\<close>

definition group_bytes :: "activity_group list \<Rightarrow> u32" where
  "group_bytes gs = of_nat (length gs) * of_nat sizeof_ActivityGroup"

fun group_offsets :: "u32 \<Rightarrow> u32 list \<Rightarrow> u32 list" where
  "group_offsets off [] = []"
| "group_offsets off (b # bs) = off # group_offsets (off + b) bs"

text \<open>\<^verbatim>\<open>MPI_Gatherv\<close> is library code and a parameter: it gets what every rank sends, the numbers of bytes to receive from
  each rank, where to put them, and the size of the allocated buffer, and fills the buffer of the first rank.\<close>

type_synonym recv_buffer = "nat \<Rightarrow> activity_group option"
type_synonym gatherv = "activity_group list list \<Rightarrow> u32 list \<Rightarrow> u32 list \<Rightarrow> u32 \<Rightarrow> recv_buffer"

text \<open>The groups of a rank are read back from the buffer. Reading where nothing was put is undefined, and so is
  an offset that has become negative.\<close>

fun read_groups :: "recv_buffer \<Rightarrow> nat \<Rightarrow> nat \<Rightarrow> activity_group list result" where
  "read_groups buf k 0 = Inr []"
| "read_groups buf k (Suc n) = (case buf k of
      None \<Rightarrow> Inl Out_Of_Bounds
    | Some g \<Rightarrow> bind_res (read_groups buf (Suc k) n) (\<lambda>gs. Inr (g # gs)))"

fun merge_buffer :: "recv_buffer \<Rightarrow> u32 \<Rightarrow> (u32 \<times> u32) list \<Rightarrow> merge_state \<Rightarrow> merge_state result" where
  "merge_buffer buf rank [] s = Inr s"
| "merge_buffer buf rank ((bytes, off) # bs) s =
    (if sint bytes < 0 \<or> sint off < 0 then Inl Out_Of_Bounds
     else
       bind_res (read_groups buf (unat off div sizeof_ActivityGroup) (unat bytes div sizeof_ActivityGroup)) (\<lambda>gs.
       merge_buffer buf (rank + 1) bs (merge_rank rank gs s)))"

text \<open>The buffer is allocated with the end of the last block.\<close>

definition recv_buffer_size :: "u32 list \<Rightarrow> u32 list \<Rightarrow> u32" where
  "recv_buffer_size offs bytes = last offs + last bytes"

definition mergeActivityGroups :: "gatherv \<Rightarrow> activity_group list list \<Rightarrow> activity_groups \<Rightarrow> rat \<Rightarrow> merge_state result" where
  "mergeActivityGroups gatherv others m globalBlame =
    (let all = map snd m # others; bytes = map group_bytes all; offs = group_offsets 0 bytes;
         buf = gatherv all bytes offs (recv_buffer_size offs bytes) in
     merge_buffer buf 1 (zip (tl bytes) (tl offs)) (merge_start m globalBlame))"

section \<open>What MPI promises\<close>

text \<open>The documented behaviour of \<^verbatim>\<open>MPI_Gatherv\<close> for data of one type: when the root expects from every rank as many bytes
  as it sends, when every block begins at the begin of a group and lies inside the buffer, and when no two blocks
  overlap, then the data of every rank are at its place. Nothing is known of any other call.\<close>

definition gatherv_call_ok :: "activity_group list list \<Rightarrow> u32 list \<Rightarrow> u32 list \<Rightarrow> u32 \<Rightarrow> bool" where
  "gatherv_call_ok gss counts displs capacity \<longleftrightarrow>
     length counts = length gss \<and> length displs = length gss \<and>
     (\<forall>r < length gss. \<not> sint (counts ! r) < 0 \<and> \<not> sint (displs ! r) < 0 \<and>
        unat (counts ! r) = length (gss ! r) * sizeof_ActivityGroup \<and> sizeof_ActivityGroup dvd unat (displs ! r) \<and>
        unat (displs ! r) + unat (counts ! r) \<le> unat capacity) \<and>
     (\<forall>r < length gss. \<forall>q < r. unat (displs ! q) + unat (counts ! q) \<le> unat (displs ! r) \<or>
        unat (displs ! r) + unat (counts ! r) \<le> unat (displs ! q))"

definition gatherv_spec :: "gatherv \<Rightarrow> bool" where
  "gatherv_spec gatherv \<longleftrightarrow> (\<forall>gss counts displs capacity. gatherv_call_ok gss counts displs capacity \<longrightarrow>
     (\<forall>r < length gss. \<forall>i < length (gss ! r).
        gatherv gss counts displs capacity (unat (displs ! r) div sizeof_ActivityGroup + i) = Some (gss ! r ! i)))"

section \<open>Both ways agree\<close>

text \<open>The number of bytes of the groups of all ranks.\<close>

fun total_bytes :: "activity_group list list \<Rightarrow> nat" where
  "total_bytes [] = 0"
| "total_bytes (gs # gss) = length gs * sizeof_ActivityGroup + total_bytes gss"

lemma read_groups_put: "(\<And>i. i < length gs \<Longrightarrow> buf (k + i) = Some (gs ! i)) \<Longrightarrow> read_groups buf k (length gs) = Inr gs"
proof (induction gs arbitrary: k)
  case (Cons g gs)
  have "buf k = Some g"
    using Cons(2) [of 0] by simp
  moreover have "read_groups buf (Suc k) (length gs) = Inr gs"
    using Cons(2) [of "Suc _"] by (intro Cons(1)) simp
  ultimately show ?case
    by simp
qed simp

lemma unat_group_bytes: "length gs * sizeof_ActivityGroup < 2 ^ 31 \<Longrightarrow> unat (group_bytes gs) = length gs * sizeof_ActivityGroup"
proof -
  assume "length gs * sizeof_ActivityGroup < 2 ^ 31"
  moreover have "group_bytes gs = of_nat (length gs * sizeof_ActivityGroup)"
    by (simp only: group_bytes_def of_nat_mult)
  ultimately show ?thesis
    by (simp add: unsigned_of_nat take_bit_nat_eq_self del: of_nat_mult)
qed

lemma sint_nonneg: "unat (x :: u32) < 2 ^ 31 \<Longrightarrow> \<not> sint x < 0"
proof -
  assume "unat x < 2 ^ 31"
  then have "int (unat x) < int (2 ^ 31)"
    by (simp only: of_nat_less_iff)
  then have "uint x < 2 ^ 31"
    by simp
  moreover have "- (2 ^ 31) \<le> uint x"
    by (rule order_trans [of _ 0]) simp_all
  ultimately have "sint x = uint x"
    unfolding sint_uint by (intro signed_take_bit_int_eq_self) simp_all
  then show ?thesis
    by simp
qed

text \<open>The groups of consecutive ranks lie one after the other from an index on.\<close>

fun placed :: "recv_buffer \<Rightarrow> nat \<Rightarrow> activity_group list list \<Rightarrow> bool" where
  "placed buf k [] \<longleftrightarrow> True"
| "placed buf k (gs # gss) \<longleftrightarrow> (\<forall>i<length gs. buf (k + i) = Some (gs ! i)) \<and> placed buf (k + length gs) gss"

lemma next_offset:
  assumes "unat off = k * sizeof_ActivityGroup" "k * sizeof_ActivityGroup + total_bytes (gs # gss) < 2 ^ 31"
  shows "unat (off + group_bytes gs) = (k + length gs) * sizeof_ActivityGroup" "unat off div sizeof_ActivityGroup = k"
    "unat (group_bytes gs) div sizeof_ActivityGroup = length gs" "\<not> sint off < 0" "\<not> sint (group_bytes gs) < 0"
proof -
  have b: "unat (group_bytes gs) = length gs * sizeof_ActivityGroup"
    using assms(2) by (simp add: unat_group_bytes)
  then show "unat (off + group_bytes gs) = (k + length gs) * sizeof_ActivityGroup"
    using assms by (simp add: unat_word_ariths add_mult_distrib)
  show "unat off div sizeof_ActivityGroup = k" "unat (group_bytes gs) div sizeof_ActivityGroup = length gs"
    using assms(1) b by (simp_all add: sizeof_ActivityGroup_def)
  show "\<not> sint off < 0" "\<not> sint (group_bytes gs) < 0"
    using assms b by (intro sint_nonneg; simp)+
qed

text \<open>The blocks that the code asks for lie one after the other and fill the buffer.\<close>

lemma group_offsets_length [simp]: "length (group_offsets off bs) = length bs"
  by (induction bs arbitrary: off) simp_all

abbreviation groups_before :: "activity_group list list \<Rightarrow> nat \<Rightarrow> nat" where
  "groups_before gss r \<equiv> sum_list (map length (take r gss))"

lemma total_bytes_sum: "total_bytes gss = sum_list (map length gss) * sizeof_ActivityGroup"
  by (induction gss) (simp_all add: add_mult_distrib)

lemma offset_at:
  "unat off = k * sizeof_ActivityGroup \<Longrightarrow> k * sizeof_ActivityGroup + total_bytes gss < 2 ^ 31 \<Longrightarrow> r < length gss \<Longrightarrow>
   unat (group_offsets off (map group_bytes gss) ! r) = (k + groups_before gss r) * sizeof_ActivityGroup"
proof (induction gss arbitrary: off k r)
  case (Cons gs gss)
  have n: "unat (off + group_bytes gs) = (k + length gs) * sizeof_ActivityGroup"
    by (rule next_offset(1) [OF Cons(2,3)])
  have "(k + length gs) * sizeof_ActivityGroup + total_bytes gss < 2 ^ 31"
    using Cons(3) by (simp add: add_mult_distrib)
  then show ?case
    using Cons(1) [OF n, of "r - 1"] Cons(2,4) by (cases r) (simp_all add: add.assoc)
qed simp

lemma groups_before_mono: "q < r \<Longrightarrow> r \<le> length gss \<Longrightarrow> groups_before gss q + length (gss ! q) \<le> groups_before gss r"
proof (induction r)
  case (Suc r)
  then show ?case
    by (cases "q = r") (simp_all add: take_Suc_conv_app_nth)
qed simp

lemma groups_before_all: "groups_before gss (length gss) = sum_list (map length gss)"
  by simp

lemma gather_call_ok:
  assumes "total_bytes gss < 2 ^ 31" "gss \<noteq> []"
  defines "bytes \<equiv> map group_bytes gss"
  defines "offs \<equiv> group_offsets 0 bytes"
  shows "gatherv_call_ok gss bytes offs (recv_buffer_size offs bytes)"
proof -
  let ?n = "length gss"
  have o: "unat (offs ! r) = groups_before gss r * sizeof_ActivityGroup" if "r < ?n" for r
    using offset_at [of 0 0 gss r] assms(1) that by (simp add: offs_def bytes_def)
  have e: "groups_before gss r + length (gss ! r) \<le> sum_list (map length gss)" if "r < ?n" for r
    using groups_before_mono [of r ?n gss] that by simp
  have lim: "sum_list (map length gss) * sizeof_ActivityGroup < 2 ^ 31"
    using assms(1) by (simp add: total_bytes_sum)
  have fits: "(groups_before gss r + length (gss ! r)) * sizeof_ActivityGroup \<le> sum_list (map length gss) * sizeof_ActivityGroup"
    if "r < ?n" for r
    using e [OF that] by (rule mult_le_mono1)
  have b: "unat (bytes ! r) = length (gss ! r) * sizeof_ActivityGroup" if "r < ?n" for r
    using fits [OF that] lim that by (simp add: bytes_def unat_group_bytes add_mult_distrib)
  have s: "\<not> sint (bytes ! r) < 0" "\<not> sint (offs ! r) < 0" if "r < ?n" for r
    using fits [OF that] lim o [OF that] b [OF that] by (intro sint_nonneg; simp add: add_mult_distrib)+
  have l: "last offs = offs ! (?n - 1)" "last bytes = bytes ! (?n - 1)" "offs \<noteq> []"
    using assms(2) by (simp_all add: last_conv_nth bytes_def offs_def flip: length_greater_0_conv)
  have f: "groups_before gss (?n - 1) + length (gss ! (?n - 1)) = sum_list (map length gss)"
  proof -
    obtain xs x where "gss = xs @ [x]"
      using assms(2) by (cases gss rule: rev_cases) auto
    then show ?thesis
      by simp
  qed
  have c: "unat (recv_buffer_size offs bytes) = sum_list (map length gss) * sizeof_ActivityGroup"
    using o [of "?n - 1"] b [of "?n - 1"] f lim assms(2)
    by (simp add: recv_buffer_size_def l unat_word_ariths add_mult_distrib [symmetric])
  have "unat (offs ! q) + unat (bytes ! q) \<le> unat (offs ! r)" if "q < r" "r < ?n" for q r
    using groups_before_mono [of q r gss] that o b by (simp add: add_mult_distrib [symmetric])
  then show ?thesis
    using o b s c fits by (simp add: gatherv_call_ok_def add_mult_distrib [symmetric] bytes_def offs_def)
qed

lemma placed_at:
  "(\<And>r i. r < length gss \<Longrightarrow> i < length (gss ! r) \<Longrightarrow> buf (k + groups_before gss r + i) = Some (gss ! r ! i)) \<Longrightarrow> placed buf k gss"
proof (induction gss arbitrary: k)
  case (Cons gs gss)
  have "placed buf (k + length gs) gss"
    using Cons(2) [of "Suc _"] by (intro Cons(1)) (simp add: add.assoc)
  then show ?case
    using Cons(2) [of 0] by simp
qed simp

lemma gatherv_places:
  assumes "gatherv_spec gatherv" "total_bytes gss < 2 ^ 31" "gss \<noteq> []"
  defines "bytes \<equiv> map group_bytes gss"
  defines "offs \<equiv> group_offsets 0 bytes"
  shows "placed (gatherv gss bytes offs (recv_buffer_size offs bytes)) 0 gss"
proof (rule placed_at)
  fix r i
  assume "r < length gss" "i < length (gss ! r)"
  moreover have "unat (offs ! r) div sizeof_ActivityGroup = groups_before gss r"
    using offset_at [of 0 0 gss r] assms(2) \<open>r < length gss\<close> by (simp add: offs_def bytes_def sizeof_ActivityGroup_def)
  ultimately show "gatherv gss bytes offs (recv_buffer_size offs bytes) (0 + groups_before gss r + i) = Some (gss ! r ! i)"
    using assms(1) gather_call_ok [OF assms(2,3)] by (fastforce simp: gatherv_spec_def offs_def bytes_def)
qed

lemma merge_buffer_placed:
  "unat off = k * sizeof_ActivityGroup \<Longrightarrow> k * sizeof_ActivityGroup + total_bytes gss < 2 ^ 31 \<Longrightarrow> placed buf k gss \<Longrightarrow>
   merge_buffer buf rank (zip (map group_bytes gss) (group_offsets off (map group_bytes gss))) s = Inr (merge_ranks rank gss s)"
proof (induction gss arbitrary: off k rank s)
  case (Cons gs gss)
  note n = next_offset [OF Cons(2) Cons(3)]
  have "(k + length gs) * sizeof_ActivityGroup + total_bytes gss < 2 ^ 31"
    using Cons(3) by (simp add: add_mult_distrib)
  moreover have "read_groups buf k (length gs) = Inr gs"
    using Cons(4) by (intro read_groups_put) simp
  ultimately show ?case
    using Cons(1) [OF n(1)] Cons(4) n(2-5) by simp
qed simp

lemma merge_gathered:
  assumes "gatherv_spec gatherv" "total_bytes (map snd m # others) < 2 ^ 31"
  shows "mergeActivityGroups gatherv others m globalBlame = Inr (mergeActivityGroupsP2P others m globalBlame)"
proof -
  let ?all = "map snd m # others"
  let ?bytes = "map group_bytes ?all" and ?offs = "group_offsets 0 (map group_bytes ?all)"
  let ?buf = "gatherv ?all ?bytes ?offs (recv_buffer_size ?offs ?bytes)"
  have p: "placed ?buf 0 ?all"
    by (rule gatherv_places [OF assms]) simp
  have n: "unat (0 + group_bytes (map snd m)) = (0 + length (map snd m)) * sizeof_ActivityGroup"
    using assms by (intro next_offset(1) [of 0 0 _ others]) simp_all
  have "merge_buffer ?buf 1 (zip (map group_bytes others) (group_offsets (0 + group_bytes (map snd m)) (map group_bytes others)))
      (merge_start m globalBlame) = Inr (merge_ranks 1 others (merge_start m globalBlame))"
    using assms(2) p by (intro merge_buffer_placed [OF n]) (simp_all add: add_mult_distrib)
  then show ?thesis
    by (simp add: mergeActivityGroups_def mergeActivityGroupsP2P_def Let_def)
qed

text \<open>C17. Receiving the activity groups rank by rank and gathering them in one buffer give the same profile and
  the same extreme ranks, as long as the bytes of all groups can be counted by a signed number of 32 bits: the counts,
  the places and the size of the buffer that the code passes to \<^verbatim>\<open>MPI_Gatherv\<close> are then what MPI requires, and the groups
  are read back from where they were put.\<close>
theorem merge_variants_agree:
  assumes "gatherv_spec gatherv" "total_bytes (map snd m # others) < 2 ^ 31"
  shows "mergeActivityGroups gatherv others m globalBlame = Inr (mergeActivityGroupsP2P others m globalBlame)"
  by (rule merge_gathered [OF assms])

text \<open>A function with the documented behaviour: an index belongs to the rank whose block contains it.\<close>

definition block_start :: "u32 list \<Rightarrow> nat \<Rightarrow> nat" where
  "block_start displs r = unat (displs ! r) div sizeof_ActivityGroup"

definition demo_gatherv :: gatherv where
  "demo_gatherv gss counts displs capacity = (\<lambda>i.
     case List.find (\<lambda>r. block_start displs r \<le> i \<and> i < block_start displs r + length (gss ! r)) [0..<length gss] of
       None \<Rightarrow> None
     | Some r \<Rightarrow> Some (gss ! r ! (i - block_start displs r)))"

lemma blocks_apart:
  assumes "gatherv_call_ok gss counts displs capacity" "q < length gss" "r < length gss" "q \<noteq> r"
  shows "block_start displs q + length (gss ! q) \<le> block_start displs r \<or> block_start displs r + length (gss ! r) \<le> block_start displs q"
proof -
  have d: "unat (displs ! k) = block_start displs k * sizeof_ActivityGroup" "unat (counts ! k) = length (gss ! k) * sizeof_ActivityGroup"
    if "k < length gss" for k
    using assms(1) that by (auto simp: gatherv_call_ok_def block_start_def)
  have a: "\<forall>r < length gss. \<forall>q < r. unat (displs ! q) + unat (counts ! q) \<le> unat (displs ! r) \<or>
      unat (displs ! r) + unat (counts ! r) \<le> unat (displs ! q)"
    using assms(1) unfolding gatherv_call_ok_def by (elim conjE)
  consider "q < r" | "r < q"
    using assms(4) by linarith
  then have "unat (displs ! q) + unat (counts ! q) \<le> unat (displs ! r) \<or> unat (displs ! r) + unat (counts ! r) \<le> unat (displs ! q)"
  proof cases
    case 1
    then show ?thesis
      by (rule a [rule_format, OF assms(3)])
  next
    case 2
    from a [rule_format, OF assms(2) 2] show ?thesis
      by (rule disjE) (erule disjI2, erule disjI1)
  qed
  then show ?thesis
    unfolding d [OF assms(2)] d [OF assms(3)] sizeof_ActivityGroup_def by linarith
qed

lemma find_only:
  assumes "\<And>q. q < n \<Longrightarrow> P q \<Longrightarrow> q = r" "P r" "r < n"
  shows "List.find P [0..<n] = Some r"
proof -
  have "\<not> P j" if "j < r" for j
    using assms(1) [of j] assms(3) that by auto
  then show ?thesis
    using assms(2,3) unfolding find_Some_iff by (intro exI [of _ r]) simp
qed

lemma demo_gatherv_ok: "gatherv_spec demo_gatherv"
proof -
  have "demo_gatherv gss counts displs capacity (block_start displs r + i) = Some (gss ! r ! i)"
    if ok: "gatherv_call_ok gss counts displs capacity" "r < length gss" "i < length (gss ! r)" for gss counts displs capacity r i
  proof -
    let ?P = "\<lambda>q. block_start displs q \<le> block_start displs r + i \<and> block_start displs r + i < block_start displs q + length (gss ! q)"
    have "q = r" if "q < length gss" "?P q" for q
      using blocks_apart [OF ok(1) that(1) ok(2)] that(2) ok(3) by linarith
    moreover have "?P r"
      using ok(3) by simp
    ultimately have "List.find ?P [0..<length gss] = Some r"
      using ok(2) by (rule find_only)
    then show ?thesis
      by (simp add: demo_gatherv_def)
  qed
  then show ?thesis
    by (simp add: gatherv_spec_def block_start_def)
qed

definition demo_group :: "u32 \<Rightarrow> rat \<Rightarrow> u64 \<Rightarrow> activity_group" where
  "demo_group f b w = ActivityGroup_zero\<lparr>ag_functionId := f, ag_numInstances := 1, ag_totalBlame := b, ag_waitingTime := w\<rparr>"

theorem merge_variants_agree_witness:
  "mergeActivityGroups demo_gatherv [[demo_group 3 2 5], [], [demo_group 4 1 7, demo_group 3 1 1]] [(3, demo_group 3 1 0)] 0 =
   Inr (mergeActivityGroupsP2P [[demo_group 3 2 5], [], [demo_group 4 1 7, demo_group 3 1 1]] [(3, demo_group 3 1 0)] 0)"
  by (rule merge_variants_agree [OF demo_gatherv_ok]) (simp add: sizeof_ActivityGroup_def)

end
