(* ===== verification/GroupLaws.thy ===== *)
theory GroupLaws
  imports GroupModel
begin

text \<open>Laws of the profile: a measure of the groups that is added up when two groups are merged has, in the merged
  profile, the sum of its values over the groups of all ranks.\<close>

section \<open>Measures\<close>

definition field_at :: "(activity_group \<Rightarrow> 'a::zero) \<Rightarrow> activity_groups \<Rightarrow> u32 \<Rightarrow> 'a" where
  "field_at f m i = (case map_of m i of None \<Rightarrow> 0 | Some g \<Rightarrow> f g)"

definition field_sum :: "(activity_group \<Rightarrow> 'a::comm_monoid_add) \<Rightarrow> u32 \<Rightarrow> activity_group list \<Rightarrow> 'a" where
  "field_sum f i gs = sum_list (map f (filter (\<lambda>g. ag_functionId g = i) gs))"

locale group_measure =
  fixes f :: "activity_group \<Rightarrow> 'a::comm_monoid_add"
  assumes f_add: "f (add_group a b) = f a + f b"
begin

lemma field_merge_group:
  "smap_inv m \<Longrightarrow> field_at f (merge_group g m) i = field_at f m i + (if ag_functionId g = i then f g else 0)"
  by (auto simp: field_at_def merge_group_def smap_lookup_update f_add split: option.split)

lemma field_merge_groups:
  "smap_inv m \<Longrightarrow> merge_groups gs (m, b, w) = (m', b', w') \<Longrightarrow> field_at f m' i = field_at f m i + field_sum f i gs"
proof (induction gs arbitrary: m b w)
  case (Cons g gs)
  have "smap_inv (merge_group g m)"
    using Cons(2) by (simp add: merge_group_def split: option.split)
  then show ?case
    using Cons(1) [of "merge_group g m"] Cons(3) field_merge_group [OF Cons(2)] by (simp add: field_sum_def add.assoc)
qed (simp add: field_sum_def)

end

lemma merge_group_inv: "smap_inv m \<Longrightarrow> smap_inv (merge_group g m)"
  by (simp add: merge_group_def split: option.split)

lemma merge_groups_sums:
  "merge_groups gs (m, b, w) = (m', b', w') \<Longrightarrow>
   b' = b + sum_list (map ag_totalBlame gs) \<and> w' = w + sum_list (map ag_waitingTime gs) \<and> (smap_inv m \<longrightarrow> smap_inv m')"
proof (induction gs arbitrary: m b w)
  case (Cons g gs)
  have "merge_groups gs (merge_group g m, b + ag_totalBlame g, w + ag_waitingTime g) = (m', b', w')"
    using Cons(2) by simp
  from Cons(1) [OF this] show ?case
    using merge_group_inv [of m g] by (auto simp: add.assoc)
qed simp

lemma merge_rank_facts:
  obtains m b w where "merge_groups gs (me_groups s, me_globalBlame s, 0) = (m, b, w)" "me_groups (merge_rank rank gs s) = m"
    "me_globalBlame (merge_rank rank gs s) = b"
    "me_maxWaitingTime (merge_rank rank gs s) = (if gs = [] then me_maxWaitingTime s else max w (me_maxWaitingTime s))"
    "me_minWaitingTime (merge_rank rank gs s) = (if gs = [] then me_minWaitingTime s else min w (me_minWaitingTime s))"
proof -
  obtain m b w where e: "merge_groups gs (me_groups s, me_globalBlame s, 0) = (m, b, w)"
    by (metis prod_cases3)
  show ?thesis
    using e by (intro that [OF e]) (auto simp: merge_rank_def Let_def max_def min_def)
qed

context group_measure
begin

lemma field_merge_ranks:
  "smap_inv (me_groups s) \<Longrightarrow>
   field_at f (me_groups (merge_ranks rank gss s)) i = field_at f (me_groups s) i + field_sum f i (concat gss)"
proof (induction gss arbitrary: rank s)
  case (Cons gs gss)
  obtain m b w where r: "merge_groups gs (me_groups s, me_globalBlame s, 0) = (m, b, w)" "me_groups (merge_rank rank gs s) = m"
    by (rule merge_rank_facts)
  have "field_at f m i = field_at f (me_groups s) i + field_sum f i gs"
    using field_merge_groups [OF Cons(2) r(1)] .
  moreover have "smap_inv m"
    using merge_groups_sums [OF r(1)] Cons(2) by simp
  ultimately show ?case
    using Cons(1) [of "merge_rank rank gs s"] r(2) by (simp add: field_sum_def add.assoc)
qed (simp add: field_sum_def)

lemma merged_field:
  "smap_inv m \<Longrightarrow>
   field_at f (me_groups (mergeActivityGroupsP2P others m b)) i = field_at f m i + field_sum f i (concat others)"
  by (simp add: mergeActivityGroupsP2P_def merge_start_def Let_def field_merge_ranks)

end

interpretation calls: group_measure ag_numInstances by unfold_locales (simp add: add_group_def)
interpretation blame: group_measure ag_totalBlame by unfold_locales (simp add: add_group_def)
interpretation duration: group_measure ag_totalDuration by unfold_locales (simp add: add_group_def)
interpretation critical: group_measure ag_totalDurationOnCP by unfold_locales (simp add: add_group_def)
interpretation blame_on_path: group_measure ag_blameOnCP by unfold_locales (simp add: add_group_def)
interpretation waiting: group_measure ag_waitingTime by unfold_locales (simp add: add_group_def)
interpretation reason: group_measure "\<lambda>g. ag_blame4 g r" for r by unfold_locales (simp add: add_group_def)

section \<open>The blame of all ranks\<close>

lemma merge_ranks_blame:
  "me_globalBlame (merge_ranks rank gss s) = me_globalBlame s + sum_list (map ag_totalBlame (concat gss))"
proof (induction gss arbitrary: rank s)
  case (Cons gs gss)
  obtain m b w where r: "merge_groups gs (me_groups s, me_globalBlame s, 0) = (m, b, w)" "me_globalBlame (merge_rank rank gs s) = b"
    by (rule merge_rank_facts)
  then show ?case
    using Cons [of "rank + 1" "merge_rank rank gs s"] merge_groups_sums [OF r(1)] by (simp add: add.assoc)
qed simp

lemma start_sum: "foldl (\<lambda>b (_, g). b + f g) (x :: 'a::comm_monoid_add) m = x + sum_list (map (f \<circ> snd) m)"
  by (induction m arbitrary: x) (auto simp: add.assoc)

text \<open>C16. In the profile that the first rank gathers the calls, times and blame of a region are the sums over the groups of
  all ranks, and the global blame is the blame of all groups; \<^verbatim>\<open>MPI_Gatherv\<close> behaves as documented, and the bytes of all
  groups can be counted by a signed number of 32 bits.\<close>
theorem merged_profile_totals:
  assumes "smap_inv m" "gatherv_spec gatherv" "total_bytes (map snd m # others) < 2 ^ 31"
  shows "\<exists>p. mergeActivityGroups gatherv others m globalBlame = Inr p \<and> (let others = concat others in
    field_at ag_numInstances (me_groups p) i = field_at ag_numInstances m i + field_sum ag_numInstances i others \<and>
    field_at ag_totalDuration (me_groups p) i = field_at ag_totalDuration m i + field_sum ag_totalDuration i others \<and>
    field_at ag_totalDurationOnCP (me_groups p) i = field_at ag_totalDurationOnCP m i + field_sum ag_totalDurationOnCP i others \<and>
    field_at ag_waitingTime (me_groups p) i = field_at ag_waitingTime m i + field_sum ag_waitingTime i others \<and>
    field_at ag_totalBlame (me_groups p) i = field_at ag_totalBlame m i + field_sum ag_totalBlame i others \<and>
    field_at ag_blameOnCP (me_groups p) i = field_at ag_blameOnCP m i + field_sum ag_blameOnCP i others \<and>
    field_at (\<lambda>g. ag_blame4 g r) (me_groups p) i =
      field_at (\<lambda>g. ag_blame4 g r) m i + field_sum (\<lambda>g. ag_blame4 g r) i others \<and>
    me_globalBlame p = globalBlame + sum_list (map ag_totalBlame (map snd m @ others)))"
proof -
  have "me_globalBlame (mergeActivityGroupsP2P others m globalBlame) =
      globalBlame + sum_list (map ag_totalBlame (map snd m @ concat others))"
    by (simp add: mergeActivityGroupsP2P_def merge_ranks_blame merge_start_def Let_def start_sum add.assoc comp_def)
  then show ?thesis
    unfolding Let_def merge_gathered [OF assms(2,3)]
    using assms(1) calls.merged_field duration.merged_field critical.merged_field waiting.merged_field blame.merged_field
      blame_on_path.merged_field reason.merged_field by simp
qed

theorem merged_profile_totals_witness:
  "\<exists>p. mergeActivityGroups demo_gatherv [[demo_group 3 2 5], [demo_group 4 1 7, demo_group 3 1 1]] [(3, demo_group 3 1 4)] 0 = Inr p \<and>
     field_at ag_waitingTime (me_groups p) 3 = 10 \<and> field_at ag_waitingTime (me_groups p) 4 = 7"
proof -
  let ?m = "[(3 :: u32, demo_group 3 1 4)]" and ?o = "[[demo_group 3 2 5], [demo_group 4 1 7, demo_group 3 1 1]]"
  have "smap_inv ?m" "total_bytes (map snd ?m # ?o) < 2 ^ 31"
    by (simp_all add: smap_inv_def sizeof_ActivityGroup_def)
  note t = merged_profile_totals [OF this(1) demo_gatherv_ok this(2), of 0]
  obtain p where p: "mergeActivityGroups demo_gatherv ?o ?m 0 = Inr p" "field_at ag_waitingTime (me_groups p) 3 = 10"
    using t [of 3] by (auto simp: Let_def field_at_def field_sum_def demo_group_def)
  moreover have "field_at ag_waitingTime (me_groups p) 4 = 7"
    using t [of 4] p(1) by (auto simp: Let_def field_at_def field_sum_def demo_group_def)
  ultimately show ?thesis
    by blast
qed

section \<open>The ranks of the extreme waiting times\<close>

lemma merge_ranks_extremes:
  "me_minWaitingTime (merge_ranks rank gss s) \<le> me_minWaitingTime s \<and> me_maxWaitingTime s \<le> me_maxWaitingTime (merge_ranks rank gss s) \<and>
   (\<forall>gs\<in>set gss. gs \<noteq> [] \<longrightarrow> me_minWaitingTime (merge_ranks rank gss s) \<le> sum_list (map ag_waitingTime gs) \<and>
      sum_list (map ag_waitingTime gs) \<le> me_maxWaitingTime (merge_ranks rank gss s))"
proof (induction gss arbitrary: rank s)
  case (Cons gs gss)
  obtain m b w where r: "merge_groups gs (me_groups s, me_globalBlame s, 0) = (m, b, w)"
    "me_maxWaitingTime (merge_rank rank gs s) = (if gs = [] then me_maxWaitingTime s else max w (me_maxWaitingTime s))"
    "me_minWaitingTime (merge_rank rank gs s) = (if gs = [] then me_minWaitingTime s else min w (me_minWaitingTime s))"
    by (rule merge_rank_facts)
  have "w = sum_list (map ag_waitingTime gs)"
    using merge_groups_sums [OF r(1)] by simp
  then show ?case
    using Cons [of "rank + 1" "merge_rank rank gs s"] r(2,3) by (cases "gs = []") (auto intro: order_trans)
qed simp

section \<open>The order of the rating\<close>

text \<open>On groups of different regions the comparison is a strict linear order.\<close>

lemma rating_order:
  "\<not> ActivityGroupCompare a a" "ActivityGroupCompare a b \<Longrightarrow> ActivityGroupCompare b c \<Longrightarrow> ActivityGroupCompare a c"
  "ag_functionId a \<noteq> ag_functionId b \<Longrightarrow> ActivityGroupCompare a b \<or> ActivityGroupCompare b a"
  by (auto simp: ActivityGroupCompare_def split: if_splits)

end
