(* ===== verification/RatingModel.thy ===== *)
theory RatingModel
  imports GroupLaws "HOL-Library.Multiset"
begin

text \<open>The rating of the regions (\<^verbatim>\<open>frontend/Runner.cpp\<close>, \<^verbatim>\<open>writeActivityRating\<close>): the groups in the order of the
  rating and the sums over host and device regions, of all regions and of the top ones. The text that is printed
  is left out.\<close>

record add_up_values =
  au_instances :: u32
  au_duration :: u64
  au_durationCP :: u64
  au_blameOnCP :: rat
  au_blame :: rat
  au_count :: u32

definition AddUpValues_zero :: add_up_values where
  "AddUpValues_zero = \<lparr>au_instances = 0, au_duration = 0, au_durationCP = 0, au_blameOnCP = 0, au_blame = 0, au_count = 0\<rparr>"

definition add_up :: "activity_group \<Rightarrow> add_up_values \<Rightarrow> add_up_values" where
  "add_up g s = s\<lparr>au_instances := au_instances s + ag_numInstances g, au_duration := au_duration s + ag_totalDuration g,
     au_durationCP := au_durationCP s + ag_totalDurationOnCP g, au_blame := au_blame s + ag_totalBlame g,
     au_blameOnCP := au_blameOnCP s + ag_blameOnCP g, au_count := au_count s + 1\<rparr>"

text \<open>\<^verbatim>\<open>std::set\<close> keeps the first of two groups that compare equal.\<close>

fun set_insert :: "activity_group \<Rightarrow> activity_group list \<Rightarrow> activity_group list" where
  "set_insert g [] = [g]"
| "set_insert g (x # xs) =
    (if ActivityGroupCompare g x then g # x # xs
     else if ActivityGroupCompare x g then x # set_insert g xs else x # xs)"

definition sorted_groups :: "activity_groups \<Rightarrow> activity_group list" where
  "sorted_groups m = fold set_insert (map snd m) []"

record rating =
  ra_ctr :: nat
  ra_host :: add_up_values
  ra_device :: add_up_values
  ra_topHost :: add_up_values
  ra_topDevice :: add_up_values
  ra_sumWaitingTime :: u64

definition rating_new :: rating where
  "rating_new = \<lparr>ra_ctr = 0, ra_host = AddUpValues_zero, ra_device = AddUpValues_zero, ra_topHost = AddUpValues_zero,
     ra_topDevice = AddUpValues_zero, ra_sumWaitingTime = 0\<rparr>"

text \<open>A top region is printed by its name, whose length is taken.\<close>

definition top_region :: "definitions \<Rightarrow> nat \<Rightarrow> activity_group \<Rightarrow> rating \<Rightarrow> rating result" where
  "top_region d topX g s =
    (if ra_ctr s < topX then
       bind_res (getRegionName (ag_functionId g) d) (\<lambda>name. case name of
           None \<Rightarrow> Inl Null_Dereference
         | Some _ \<Rightarrow> Inr (s\<lparr>ra_ctr := ra_ctr s + 1\<rparr>))
     else Inr s)"

definition count_region :: "bool \<Rightarrow> activity_group \<Rightarrow> rating \<Rightarrow> rating" where
  "count_region isDevice g s =
    (if isDevice then s\<lparr>ra_device := add_up g (ra_device s)\<rparr> else s\<lparr>ra_host := add_up g (ra_host s)\<rparr>)"

definition save_top :: "nat \<Rightarrow> rating \<Rightarrow> rating" where
  "save_top topX s =
    (if ra_ctr s = topX \<and> au_instances (ra_topHost s) = 0
     then s\<lparr>ra_topHost := ra_host s, ra_topDevice := ra_device s\<rparr> else s)"

definition rating_step :: "definitions \<Rightarrow> nat \<Rightarrow> activity_group \<Rightarrow> rating \<Rightarrow> rating result" where
  "rating_step d topX g s =
    bind_res (top_region d topX g s) (\<lambda>s.
    bind_res (isDeviceFunction (ag_functionId g) d) (\<lambda>isDevice.
    let s = save_top topX (count_region isDevice g s) in
    Inr (s\<lparr>ra_sumWaitingTime := ra_sumWaitingTime s + ag_waitingTime g\<rparr>)))"

fun rating_loop :: "definitions \<Rightarrow> nat \<Rightarrow> activity_group list \<Rightarrow> rating \<Rightarrow> rating result" where
  "rating_loop d topX [] s = Inr s"
| "rating_loop d topX (g # gs) s = bind_res (rating_step d topX g s) (rating_loop d topX gs)"

text \<open>Nothing is rated when the critical path has no length, and on other ranks than the first.\<close>

definition writeActivityRating :: "definitions \<Rightarrow> u32 \<Rightarrow> nat \<Rightarrow> u64 \<Rightarrow> activity_groups \<Rightarrow> rating option result" where
  "writeActivityRating d mpiRank topX globalLengthCP m =
    (if mpiRank \<noteq> 0 \<or> globalLengthCP = 0 then Inr None
     else
       (let gs = sorted_groups m; topX = (if length gs < topX then length gs else topX) in
        bind_res (rating_loop d topX gs rating_new) (\<lambda>s. Inr (Some s))))"

section \<open>The order of the rating\<close>

lemma set_insert_new:
  "ag_functionId g \<notin> ag_functionId ` set xs \<Longrightarrow> sorted_wrt ActivityGroupCompare xs \<Longrightarrow>
   sorted_wrt ActivityGroupCompare (set_insert g xs) \<and> mset (set_insert g xs) = add_mset g (mset xs)"
proof (induction xs)
  case (Cons x xs)
  show ?case
  proof (cases "ActivityGroupCompare g x")
    case True
    then show ?thesis
      using Cons(3) by (auto intro: rating_order(2))
  next
    case False
    then have x: "ActivityGroupCompare x g"
      using rating_order(3) [of g x] Cons(2) by auto
    have s: "set (set_insert g xs) = insert g (set xs)"
      using Cons(1) [THEN conjunct2, THEN arg_cong [of _ _ set_mset]] Cons(2,3) by simp
    then show ?thesis
      using False x Cons by auto
  qed
qed simp

lemma fold_set_insert:
  "distinct (map ag_functionId gs) \<Longrightarrow> ag_functionId ` set gs \<inter> ag_functionId ` set xs = {} \<Longrightarrow>
   sorted_wrt ActivityGroupCompare xs \<Longrightarrow>
   sorted_wrt ActivityGroupCompare (fold set_insert gs xs) \<and> mset (fold set_insert gs xs) = mset gs + mset xs"
proof (induction gs arbitrary: xs)
  case (Cons g gs)
  have i: "sorted_wrt ActivityGroupCompare (set_insert g xs) \<and> mset (set_insert g xs) = add_mset g (mset xs)"
    using Cons(3,4) by (intro set_insert_new) auto
  then have "set (set_insert g xs) = insert g (set xs)"
    by (metis set_mset_add_mset_insert set_mset_mset)
  then show ?case
    using Cons(1) [of "set_insert g xs"] Cons(2,3) i by auto
qed simp

text \<open>Every group lies under its own identifier.\<close>

definition groups_ok :: "activity_groups \<Rightarrow> bool" where
  "groups_ok m \<longleftrightarrow> smap_inv m \<and> (\<forall>(k, g)\<in>set m. ag_functionId g = k)"

lemma sorted_groups_facts:
  assumes "groups_ok m"
  shows "sorted_wrt ActivityGroupCompare (sorted_groups m)" "mset (sorted_groups m) = mset (map snd m)"
proof -
  have "map ag_functionId (map snd m) = map fst m"
    using assms by (auto simp: groups_ok_def)
  then have "distinct (map ag_functionId (map snd m))"
    using assms smap_inv_distinct by (simp only: groups_ok_def) blast
  from fold_set_insert [OF this, of "[]"]
  show "sorted_wrt ActivityGroupCompare (sorted_groups m)" "mset (sorted_groups m) = mset (map snd m)"
    by (simp_all add: sorted_groups_def)
qed

section \<open>The sums\<close>

lemma rating_step_sums:
  assumes "rating_step d topX g s = Inr s'"
  shows "au_duration (ra_host s') + au_duration (ra_device s') = au_duration (ra_host s) + au_duration (ra_device s) + ag_totalDuration g"
    "au_blame (ra_host s') + au_blame (ra_device s') = au_blame (ra_host s) + au_blame (ra_device s) + ag_totalBlame g"
    "au_count (ra_host s') + au_count (ra_device s') = au_count (ra_host s) + au_count (ra_device s) + 1"
    "ra_sumWaitingTime s' = ra_sumWaitingTime s + ag_waitingTime g"
proof -
  have "ra_host s' = (if x then ra_host s else add_up g (ra_host s)) \<and> ra_device s' = (if x then add_up g (ra_device s) else ra_device s) \<and>
      ra_sumWaitingTime s' = ra_sumWaitingTime s + ag_waitingTime g"
    if "isDeviceFunction (ag_functionId g) d = Inr x" for x
    using assms that
    by (auto simp: rating_step_def top_region_def count_region_def save_top_def bind_res_Inr Let_def split: if_splits option.splits)
  moreover obtain x where "isDeviceFunction (ag_functionId g) d = Inr x"
    using assms by (auto simp: rating_step_def bind_res_Inr)
  ultimately show "au_duration (ra_host s') + au_duration (ra_device s') = au_duration (ra_host s) + au_duration (ra_device s) + ag_totalDuration g"
    "au_blame (ra_host s') + au_blame (ra_device s') = au_blame (ra_host s) + au_blame (ra_device s) + ag_totalBlame g"
    "au_count (ra_host s') + au_count (ra_device s') = au_count (ra_host s) + au_count (ra_device s) + 1"
    "ra_sumWaitingTime s' = ra_sumWaitingTime s + ag_waitingTime g"
    by (cases x; simp add: add_up_def)+
qed

lemma rating_loop_sums:
  "rating_loop d topX gs s = Inr s' \<Longrightarrow>
   au_duration (ra_host s') + au_duration (ra_device s') =
     au_duration (ra_host s) + au_duration (ra_device s) + sum_list (map ag_totalDuration gs) \<and>
   au_blame (ra_host s') + au_blame (ra_device s') = au_blame (ra_host s) + au_blame (ra_device s) + sum_list (map ag_totalBlame gs) \<and>
   au_count (ra_host s') + au_count (ra_device s') = au_count (ra_host s) + au_count (ra_device s) + of_nat (length gs) \<and>
   ra_sumWaitingTime s' = ra_sumWaitingTime s + sum_list (map ag_waitingTime gs)"
proof (induction gs arbitrary: s)
  case (Cons g gs)
  obtain k where k: "rating_step d topX g s = Inr k" "rating_loop d topX gs k = Inr s'"
    using Cons(2) by (auto simp: bind_res_Inr)
  show ?case
    using rating_step_sums [OF k(1)] Cons(1) [OF k(2)] by (simp add: add.assoc)
qed simp

lemma sum_list_mset: "mset xs = mset ys \<Longrightarrow> sum_list (map f xs) = sum_list (map f ys)" for f :: "'a \<Rightarrow> 'b::comm_monoid_add"
  by (metis mset_map sum_mset_sum_list)

text \<open>The rating lists every region of the profile once, in its order, and the sums for host and device add up
  to the time, the blame and the waiting time of all regions.\<close>
lemma rating_adds_up:
  assumes "groups_ok m" "writeActivityRating d 0 topX len m = Inr (Some s)"
  shows "sorted_wrt ActivityGroupCompare (sorted_groups m) \<and> mset (sorted_groups m) = mset (map snd m) \<and>
    au_duration (ra_host s) + au_duration (ra_device s) = sum_list (map (ag_totalDuration \<circ> snd) m) \<and>
    au_blame (ra_host s) + au_blame (ra_device s) = sum_list (map (ag_totalBlame \<circ> snd) m) \<and>
    au_count (ra_host s) + au_count (ra_device s) = of_nat (length m) \<and>
    ra_sumWaitingTime s = sum_list (map (ag_waitingTime \<circ> snd) m)"
proof -
  note o = sorted_groups_facts [OF assms(1)]
  have l: "length (sorted_groups m) = length m"
    using o(2) by (metis length_map size_mset)
  obtain k where "rating_loop d k (sorted_groups m) rating_new = Inr s"
    using assms(2) by (auto simp: writeActivityRating_def Let_def bind_res_Inr split: if_splits)
  from rating_loop_sums [OF this] show ?thesis
    using o l sum_list_mset [OF o(2), of ag_totalDuration] sum_list_mset [OF o(2), of ag_totalBlame]
      sum_list_mset [OF o(2), of ag_waitingTime]
    by (simp add: rating_new_def AddUpValues_zero_def comp_def)
qed

definition rating_definitions :: definitions where
  "rating_definitions = (OTF2DefinitionHandler_new 0 0)\<lparr>de_regions :=
    [(3, \<lparr>ri_name = Some ''solve'', ri_paradigm = OTF2_PARADIGM_USER, ri_role = OTF2_REGION_ROLE_FUNCTION\<rparr>),
     (4, \<lparr>ri_name = Some ''kernel'', ri_paradigm = OTF2_PARADIGM_CUDA, ri_role = OTF2_REGION_ROLE_FUNCTION\<rparr>),
     (5, \<lparr>ri_name = Some ''copy'', ri_paradigm = OTF2_PARADIGM_CUDA, ri_role = OTF2_REGION_ROLE_FUNCTION\<rparr>)]\<rparr>"

section \<open>The sums of the top regions\<close>

lemma top_loop_device:
  "rating_loop d topX gs s = Inr s' \<Longrightarrow> (\<And>g. g \<in> set gs \<Longrightarrow> isDeviceFunction (ag_functionId g) d = Inr True) \<Longrightarrow>
   ra_host s = AddUpValues_zero \<Longrightarrow> ra_topHost s = AddUpValues_zero \<Longrightarrow> ra_ctr s \<le> topX \<Longrightarrow> topX \<le> ra_ctr s + length gs \<Longrightarrow>
   (ra_ctr s = topX \<and> gs = [] \<longrightarrow> ra_topDevice s = ra_device s) \<Longrightarrow> ra_topDevice s' = ra_device s'"
proof (induction gs arbitrary: s)
  case (Cons g gs)
  obtain k where k: "rating_step d topX g s = Inr k" "rating_loop d topX gs k = Inr s'"
    using Cons(2) by (auto simp: bind_res_Inr)
  have d: "isDeviceFunction (ag_functionId g) d = Inr True"
    using Cons(3) by simp
  obtain t where t: "top_region d topX g s = Inr t"
      "k = (let s = save_top topX (count_region True g t) in s\<lparr>ra_sumWaitingTime := ra_sumWaitingTime s + ag_waitingTime g\<rparr>)"
    using k(1) d by (auto simp: rating_step_def bind_res_Inr Let_def)
  have u: "ra_host t = AddUpValues_zero" "ra_topHost t = AddUpValues_zero"
      "ra_ctr t = (if ra_ctr s < topX then ra_ctr s + 1 else ra_ctr s)"
    using t(1) Cons(4,5) by (auto simp: top_region_def bind_res_Inr split: if_splits option.splits)
  have z: "au_instances AddUpValues_zero = 0"
    by (simp add: AddUpValues_zero_def)
  have f: "ra_host k = AddUpValues_zero" "ra_topHost k = AddUpValues_zero"
      "ra_ctr k = (if ra_ctr s < topX then ra_ctr s + 1 else ra_ctr s)" "ra_ctr k = topX \<longrightarrow> ra_topDevice k = ra_device k"
    using u z by (simp_all add: t(2) save_top_def count_region_def)
  show ?case
    using f Cons(3,6,7) by (intro Cons(1) [OF k(2)]) (auto split: if_splits)
qed simp

text \<open>When all regions are device functions, the sums of the top regions are those of all regions, however few are
  asked for: the flag that they have been saved is the number of calls on the host.\<close>
lemma top_device_regions_sum_all:
  assumes "writeActivityRating d 0 topX len m = Inr (Some s)" "m \<noteq> []"
    "\<And>g. g \<in> set (sorted_groups m) \<Longrightarrow> isDeviceFunction (ag_functionId g) d = Inr True"
  shows "ra_topDevice s = ra_device s"
proof -
  have l: "rating_loop d (if length (sorted_groups m) < topX then length (sorted_groups m) else topX) (sorted_groups m) rating_new = Inr s"
    using assms(1) by (auto simp: writeActivityRating_def Let_def bind_res_Inr split: if_splits)
  have "fold set_insert gs xs = [] \<longleftrightarrow> gs = [] \<and> xs = []" for gs xs
  proof -
    have "set_insert g ys \<noteq> []" for g ys
      by (cases ys) auto
    then show ?thesis
      by (induction gs arbitrary: xs) auto
  qed
  then have "sorted_groups m \<noteq> []"
    using assms(2) by (simp add: sorted_groups_def)
  then show ?thesis
    using assms(3) by (intro top_loop_device [OF l]) (auto simp: rating_new_def)
qed

end
