(* ===== verification/WriterModel.thy ===== *)
theory WriterModel
  imports RatingModel
begin

text \<open>The trace writer (\<^verbatim>\<open>backend/otf/OTF2ParallelTraceWriter.cpp\<close>): for every event of the input trace it finds the
  node, distributes the blame of open edges, collects the activity groups and the idle times of the device, and
  writes the event with its metrics. What is written is a list of records; the calls of the OTF2 library that
  write them, and the copying of other records, are left out.\<close>

section \<open>State\<close>

record stream_status =
  ss_currentNode :: nat
  ss_stream :: "stream_ref option"
  ss_isFilterOn :: bool
  ss_lastWrittenCpValue :: bool
  ss_onCriticalPath :: bool
  ss_activityStack :: "u32 list"
  ss_lastEventTime :: u64
  ss_openEdges :: "edge_ref list"

datatype out_record =
    Out_Critical u64 bool
  | Out_Blame u64 rat
  | Out_Enter u64 u32
  | Out_Leave u64 u32 "rat option"

record writer =
  wr_groups :: activity_groups
  wr_status :: "u64 \<rightharpoonup> stream_status"
  wr_writeToFile :: bool
  wr_firstCall :: bool
  wr_eventWriters :: "u64 set"
  wr_timeConversionFactor :: rat
  wr_deviceIdle :: int
  wr_devIdleRegRef :: u32
  wr_devComputeIdleRegRef :: u32
  wr_deviceRefCount :: int
  wr_lastIdleStart :: u64
  wr_firstOffloadApiEvtTime :: u64
  wr_lastOffloadApiEvtTime :: u64
  wr_deviceComputeRefCount :: int
  wr_lastComputeIdleStart :: u64
  wr_transferStart :: u64
  wr_lastDeviceComTaskEnterTime :: u64
  wr_currentDeviceComTaskH2D :: bool
  wr_previousDeviceComTaskH2D :: bool
  wr_deviceConsecutiveComSDCount :: u64
  wr_deviceConsecutiveComCount :: u64
  wr_out :: "(u64 \<times> out_record) list"

text \<open>The members the constructor does not set are arguments. Opening the output is left out.\<close>

record writer_uninit =
  wu_lastIdleStart :: u64
  wu_lastComputeIdleStart :: u64
  wu_lastDeviceComTaskEnterTime :: u64
  wu_currentDeviceComTaskH2D :: bool
  wu_previousDeviceComTaskH2D :: bool
  wu_deviceConsecutiveComCount :: u64

definition Writer_new :: "writer_uninit \<Rightarrow> bool \<Rightarrow> u64 set \<Rightarrow> int \<Rightarrow> definitions \<Rightarrow> writer" where
  "Writer_new u writeToFile writers deviceIdle d =
    \<lparr>wr_groups = [], wr_status = Map.empty, wr_writeToFile = writeToFile, wr_firstCall = True, wr_eventWriters = writers,
     wr_timeConversionFactor = 1 / of_nat (unat (de_timerResolution d)), wr_deviceIdle = deviceIdle,
     wr_devIdleRegRef = 0, wr_devComputeIdleRegRef = 0, wr_deviceRefCount = - 1, wr_lastIdleStart = wu_lastIdleStart u,
     wr_firstOffloadApiEvtTime = UINT64_MAX, wr_lastOffloadApiEvtTime = 0, wr_deviceComputeRefCount = - 1,
     wr_lastComputeIdleStart = wu_lastComputeIdleStart u, wr_transferStart = 0,
     wr_lastDeviceComTaskEnterTime = wu_lastDeviceComTaskEnterTime u,
     wr_currentDeviceComTaskH2D = wu_currentDeviceComTaskH2D u, wr_previousDeviceComTaskH2D = wu_previousDeviceComTaskH2D u,
     wr_deviceConsecutiveComSDCount = 0, wr_deviceConsecutiveComCount = wu_deviceConsecutiveComCount u, wr_out = []\<rparr>"

text \<open>\<^verbatim>\<open>operator[]\<close> makes a status of zeros.\<close>

definition StreamStatus_zero :: stream_status where
  "StreamStatus_zero = \<lparr>ss_currentNode = 0, ss_stream = None, ss_isFilterOn = False, ss_lastWrittenCpValue = False,
     ss_onCriticalPath = False, ss_activityStack = [], ss_lastEventTime = 0, ss_openEdges = []\<rparr>"

definition status_at :: "u64 \<Rightarrow> writer \<Rightarrow> stream_status" where
  "status_at i w = (case wr_status w i of None \<Rightarrow> StreamStatus_zero | Some s \<Rightarrow> s)"

definition set_status :: "u64 \<Rightarrow> stream_status \<Rightarrow> writer \<Rightarrow> writer" where
  "set_status i s w = w\<lparr>wr_status := (wr_status w)(i \<mapsto> s)\<rparr>"

definition find_status :: "u64 \<Rightarrow> writer \<Rightarrow> stream_status result" where
  "find_status i w = (case wr_status w i of
      None \<Rightarrow> Inl (Assertion_Failed ''Could not find stream status!'') | Some s \<Rightarrow> Inr s)"

definition write_record :: "u64 \<Rightarrow> out_record \<Rightarrow> writer \<Rightarrow> writer result" where
  "write_record i r w =
    (if i \<in> wr_eventWriters w then Inr (w\<lparr>wr_out := wr_out w @ [(i, r)]\<rparr>)
     else Inl (Assertion_Failed ''Could not find OTF2 event writer for location''))"

section \<open>Blame of open edges\<close>

definition event_share :: "rat \<Rightarrow> u64 \<Rightarrow> u64 \<Rightarrow> rat" where
  "event_share b timeDiff eDuration = b * of_nat (unat timeDiff) / of_nat (unat eDuration)"

definition add_reason :: "blame_reason \<Rightarrow> rat \<Rightarrow> blame_map \<Rightarrow> blame_map" where
  "add_reason r v m = (case m r of Some b \<Rightarrow> m(r \<mapsto> b + v) | None \<Rightarrow> m(r \<mapsto> v))"

fun add_edge_blame :: "edge \<Rightarrow> u64 \<Rightarrow> blame_reason list \<Rightarrow> rat \<times> blame_map \<Rightarrow> rat \<times> blame_map" where
  "add_edge_blame e timeDiff [] s = s"
| "add_edge_blame e timeDiff (r # rs) (t, m) = (case e_blame e r of
      None \<Rightarrow> add_edge_blame e timeDiff rs (t, m)
    | Some b \<Rightarrow> (let v = event_share b timeDiff (e_duration e) in add_edge_blame e timeDiff rs (t + v, add_reason r v m)))"

text \<open>An edge that ends at the event is erased and the iterator goes on past the edge after it, which is neither
  blamed nor erased. Going on past the end of the list is undefined.\<close>

definition edge_covers :: "heap \<Rightarrow> edge \<Rightarrow> u64 \<Rightarrow> bool" where
  "edge_covers h e t \<longleftrightarrow> e_duration e > 0 \<and> nd_time (h (e_end e)) \<ge> t \<and> nd_time (h (e_start e)) \<le> t"

fun blame_loop ::
  "heap \<Rightarrow> edge_heap \<Rightarrow> u64 \<Rightarrow> u64 \<Rightarrow> edge_ref list \<Rightarrow> rat \<times> blame_map \<Rightarrow> (edge_ref list \<times> rat \<times> blame_map) result" where
  "blame_loop h E timeDiff eventTime [] s = Inr ([], s)"
| "blame_loop h E timeDiff eventTime (e # es) s =
    (if edge_covers h (E e) eventTime then
       (let s = add_edge_blame (E e) timeDiff all_reasons s in
        if nd_time (h (e_end (E e))) = eventTime then
          (case es of
             [] \<Rightarrow> Inl Out_Of_Bounds
           | f # fs \<Rightarrow> bind_res (blame_loop h E timeDiff eventTime fs s) (\<lambda>(k, s). Inr (f # k, s)))
        else bind_res (blame_loop h E timeDiff eventTime es s) (\<lambda>(k, s). Inr (e # k, s)))
     else blame_loop h E timeDiff eventTime es s)"

record otf2_event =
  ev_time :: u64
  ev_regionRef :: u32
  ev_location :: u64
  ev_type :: record_type

definition computeBlameMap ::
  "heap \<Rightarrow> edge_heap \<Rightarrow> u64 \<Rightarrow> otf2_event \<Rightarrow> stream_status \<Rightarrow> (rat \<times> blame_map \<times> stream_status) result" where
  "computeBlameMap h E timerOffset ev s =
    bind_res (blame_loop h E (ev_time ev - ss_lastEventTime s) (ev_time ev - timerOffset) (ss_openEdges s) (0, Map.empty))
      (\<lambda>(k, total, m). Inr (total, m, s\<lparr>ss_openEdges := k\<rparr>))"

text \<open>An earlier form of this step that counts only the unclassified blame of an edge.\<close>

fun unclassified_loop :: "heap \<Rightarrow> edge_heap \<Rightarrow> u64 \<Rightarrow> u64 \<Rightarrow> edge_ref list \<Rightarrow> rat \<Rightarrow> (edge_ref list \<times> rat) result" where
  "unclassified_loop h E timeDiff eventTime [] b = Inr ([], b)"
| "unclassified_loop h E timeDiff eventTime (e # es) b =
    (if edge_covers h (E e) eventTime then
       (let b = b + event_share (edge_getBlame REASON_UNCLASSIFIED (E e)) timeDiff (e_duration (E e)) in
        if nd_time (h (e_end (E e))) = eventTime then
          (case es of
             [] \<Rightarrow> Inl Out_Of_Bounds
           | f # fs \<Rightarrow> bind_res (unclassified_loop h E timeDiff eventTime fs b) (\<lambda>(k, b). Inr (f # k, b)))
        else bind_res (unclassified_loop h E timeDiff eventTime es b) (\<lambda>(k, b). Inr (e # k, b)))
     else unclassified_loop h E timeDiff eventTime es b)"

definition computeBlame :: "heap \<Rightarrow> edge_heap \<Rightarrow> u64 \<Rightarrow> otf2_event \<Rightarrow> stream_status \<Rightarrow> (rat \<times> stream_status) result" where
  "computeBlame h E timerOffset ev s =
    bind_res (unclassified_loop h E (ev_time ev - ss_lastEventTime s) (ev_time ev - timerOffset) (ss_openEdges s) 0)
      (\<lambda>(k, total). Inr (total, s\<lparr>ss_openEdges := k\<rparr>))"

section \<open>Activity groups\<close>

definition group_at :: "u32 \<Rightarrow> activity_groups \<Rightarrow> activity_group" where
  "group_at i m = (case map_of m i of None \<Rightarrow> ActivityGroup_zero | Some g \<Rightarrow> g)"

definition new_group :: "u32 \<Rightarrow> activity_groups \<Rightarrow> activity_groups" where
  "new_group i m = (if map_of m i = None then smap_update i (ActivityGroup_zero\<lparr>ag_functionId := i\<rparr>) m else m)"

definition count_call :: "otf2_event \<Rightarrow> activity_groups \<Rightarrow> activity_groups" where
  "count_call ev m = (if ev_type ev = RECORD_ENTER then
      (let g = group_at (ev_regionRef ev) m in
       smap_update (ev_regionRef ev) (g\<lparr>ag_numInstances := ag_numInstances g + 1\<rparr>) m)
    else m)"

definition add_activity :: "u64 \<Rightarrow> bool \<Rightarrow> u64 \<Rightarrow> rat \<Rightarrow> (blame_reason \<Rightarrow> rat) \<Rightarrow> activity_group \<Rightarrow> activity_group" where
  "add_activity timeDiff onCP waitingTime blame reasons g =
    (let g = g\<lparr>ag_totalBlame := ag_totalBlame g + blame, ag_blame4 := (\<lambda>r. ag_blame4 g r + reasons r),
              ag_waitingTime := ag_waitingTime g + waitingTime, ag_totalDuration := ag_totalDuration g + timeDiff\<rparr> in
     if onCP then g\<lparr>ag_totalDurationOnCP := ag_totalDurationOnCP g + timeDiff, ag_blameOnCP := ag_blameOnCP g + blame\<rparr>
     else g)"

definition updateActivityGroupMap ::
  "otf2_event \<Rightarrow> bool \<Rightarrow> u64 \<Rightarrow> rat \<Rightarrow> blame_map \<Rightarrow> bool \<Rightarrow> writer \<Rightarrow> writer result" where
  "updateActivityGroupMap ev evtOnCP waitingTime blame blameMap graphNodesAvailable w =
    (let m = count_call ev (new_group (ev_regionRef ev) (wr_groups w)) in
     bind_res (find_status (ev_location ev) w) (\<lambda>s.
     let onCP = (if graphNodesAvailable then evtOnCP else ss_onCriticalPath s) in
     case ss_activityStack s of
       [] \<Rightarrow> Inr (w\<lparr>wr_groups := m\<rparr>)
     | r # rs \<Rightarrow>
         (let timeDiff = ev_time ev - ss_lastEventTime s;
              reasons = (\<lambda>q. case blameMap q of None \<Rightarrow> 0 | Some b \<Rightarrow> b * wr_timeConversionFactor w) in
          Inr (w\<lparr>wr_groups := smap_update r (add_activity timeDiff onCP waitingTime blame reasons (group_at r m)) m\<rparr>))))"

text \<open>The profile without the kinds of blame.\<close>

definition updateActivityGroupMap_total ::
  "otf2_event \<Rightarrow> bool \<Rightarrow> u64 \<Rightarrow> rat \<Rightarrow> bool \<Rightarrow> writer \<Rightarrow> writer result" where
  "updateActivityGroupMap_total ev evtOnCP waitingTime blame graphNodesAvailable w =
    (let m = count_call ev (new_group (ev_regionRef ev) (wr_groups w)) in
     bind_res (find_status (ev_location ev) w) (\<lambda>s.
     let onCP = (if graphNodesAvailable then evtOnCP else ss_onCriticalPath s) in
     case ss_activityStack s of
       [] \<Rightarrow> Inr (w\<lparr>wr_groups := m\<rparr>)
     | r # rs \<Rightarrow>
         (let timeDiff = ev_time ev - ss_lastEventTime s in
          Inr (w\<lparr>wr_groups := smap_update r (add_activity timeDiff onCP waitingTime blame (\<lambda>_. 0) (group_at r m)) m\<rparr>))))"

section \<open>Writing metrics\<close>

definition writeEventsWithWaitingTime :: "otf2_event \<Rightarrow> u64 \<Rightarrow> writer \<Rightarrow> writer result" where
  "writeEventsWithWaitingTime ev waitingTime w =
    (if ev_type ev = RECORD_ENTER then write_record (ev_location ev) (Out_Enter (ev_time ev) (ev_regionRef ev)) w
     else if ev_type ev = RECORD_LEAVE then
       write_record (ev_location ev) (Out_Leave (ev_time ev) (ev_regionRef ev)
         (if waitingTime \<noteq> 0 then Some (of_nat (unat waitingTime) * wr_timeConversionFactor w) else None)) w
     else if ev_location ev \<in> wr_eventWriters w then Inr w
     else Inl (Assertion_Failed ''Could not find OTF2 event writer for location''))"

definition write_critical :: "u64 \<Rightarrow> u64 \<Rightarrow> bool \<Rightarrow> writer \<Rightarrow> writer result" where
  "write_critical location time v w =
    write_record location (Out_Critical time v)
      (set_status location ((status_at location w)\<lparr>ss_lastWrittenCpValue := v\<rparr>) w)"

definition writeCriticalPathMetric :: "otf2_event \<Rightarrow> bool \<Rightarrow> writer \<Rightarrow> writer result" where
  "writeCriticalPathMetric ev graphNodesAvailable w =
    (if ev_location ev \<notin> wr_eventWriters w then Inl (Assertion_Failed ''Could not find OTF2 event writer for location'')
     else
       bind_res (find_status (ev_location ev) w) (\<lambda>s.
       if ev_type ev = RECORD_LEAVE \<and> length (ss_activityStack s) = 1 then
         (if ss_lastWrittenCpValue s then write_critical (ev_location ev) (ev_time ev) False w else Inr w)
       else if graphNodesAvailable then
         (if ss_lastWrittenCpValue s \<noteq> ss_onCriticalPath s
          then write_critical (ev_location ev) (ev_time ev) (ss_onCriticalPath s) w else Inr w)
       else if ss_onCriticalPath s \<and> ev_type ev = RECORD_ENTER \<and> \<not> ss_lastWrittenCpValue s then
         write_critical (ev_location ev) (ev_time ev) True w
       else Inr w))"

definition writeBlameMetric :: "otf2_event \<Rightarrow> rat \<Rightarrow> writer \<Rightarrow> writer result" where
  "writeBlameMetric ev blame w =
    bind_res (find_status (ev_location ev) w) (\<lambda>s.
    let v = (if ev_type ev = RECORD_ENTER \<and> ss_activityStack s = [] then 0 else blame) in
    bind_res (write_record (ev_location ev) (Out_Blame (ev_time ev) v) w) (\<lambda>w.
    if ev_type ev = RECORD_LEAVE \<and> length (ss_activityStack s) = 1 \<and> v \<noteq> 0
    then write_record (ev_location ev) (Out_Blame (ev_time ev) 0) w else Inr w))"

end
