(* ===== verification/WriterEvents.thy ===== *)
theory WriterEvents
  imports WriterModel
begin

text \<open>The events of the trace writer: idle times of the device, the node that belongs to an event, and the streams at
  the begin of an interval (\<^verbatim>\<open>backend/otf/OTF2ParallelTraceWriter.cpp\<close>).\<close>

section \<open>Device tasks\<close>

definition STAT_OFLD_BLOCKING_COM :: nat where [stat_consts]: "STAT_OFLD_BLOCKING_COM = 0"
definition OFLD_STAT_BLOCKING_COM_EXCL_TIME :: nat where [stat_consts]: "OFLD_STAT_BLOCKING_COM_EXCL_TIME = 2"
definition OFLD_STAT_MULTIPLE_COM :: nat where [stat_consts]: "OFLD_STAT_MULTIPLE_COM = 11"
definition OFLD_STAT_MULTIPLE_COM_SD :: nat where [stat_consts]: "OFLD_STAT_MULTIPLE_COM_SD = 13"
definition STAT_OFLD_TOTAL_TRANSFER_TIME :: nat where [stat_consts]: "STAT_OFLD_TOTAL_TRANSFER_TIME = 18"

type_synonym writer_state = "casita \<times> writer"

definition put_stats :: "statistics \<Rightarrow> casita \<Rightarrow> casita" where
  "put_stats st c = c\<lparr>ca_analysis := (ca_analysis c)\<lparr>an_stats := st\<rparr>\<rparr>"

definition count_stat :: "nat \<Rightarrow> u64 \<Rightarrow> casita \<Rightarrow> casita result" where
  "count_stat m t c = bind_res (addStatWithCount m t 1 (an_stats (ca_analysis c))) (\<lambda>st. Inr (put_stats st c))"

definition value_stat :: "nat \<Rightarrow> u64 \<Rightarrow> casita \<Rightarrow> casita result" where
  "value_stat m t c = bind_res (addStatValue m t (an_stats (ca_analysis c))) (\<lambda>st. Inr (put_stats st c))"

text \<open>The options select the regions of an idle device and of a device that does not compute; their records are
  written to the first device stream.\<close>

definition first_device_stream :: "int \<Rightarrow> casita \<Rightarrow> (u64 \<times> casita) result" where
  "first_device_stream deviceId c =
    bind_res (getFirstDeviceStream deviceId (ge_group (ca_engine c))) (\<lambda>(p, g).
      Inr (es_id (base (stream_at p c)), c\<lparr>ca_analysis := (ca_analysis c)\<lparr>an_engine := (ca_engine c)\<lparr>ge_group := g\<rparr>\<rparr>\<rparr>))"

definition write_idle :: "nat \<Rightarrow> int \<Rightarrow> out_record \<Rightarrow> writer_state \<Rightarrow> writer_state result" where
  "write_idle b deviceId r s = (case s of (c, w) \<Rightarrow>
    (if wr_writeToFile w \<and> bit (wr_deviceIdle w) b then
       bind_res (first_device_stream deviceId c) (\<lambda>(i, c). bind_res (write_record i r w) (\<lambda>w. Inr (c, w)))
     else Inr (c, w)))"

definition handleDeviceTaskEnter :: "u64 \<Rightarrow> stream_obj \<Rightarrow> bool \<Rightarrow> bool \<Rightarrow> writer_state \<Rightarrow> writer_state result" where
  "handleDeviceTaskEnter time devStream isCompute isH2D s = (case s of (c, w) \<Rightarrow>
    bind_res
      (if wr_deviceRefCount w = 0 then
         bind_res (value_stat OFLD_STAT_IDLE_TIME (time - wr_lastIdleStart w) c) (\<lambda>c.
         write_idle 0 (obj_deviceId devStream) (Out_Leave time (wr_devIdleRegRef w) None) (c, w\<lparr>wr_deviceRefCount := 1\<rparr>))
       else Inr (c, w\<lparr>wr_deviceRefCount := wr_deviceRefCount w + 1\<rparr>)) (\<lambda>(c, w).
    bind_res
      (if isCompute then
         bind_res
           (if wr_deviceComputeRefCount w = 0 then
              bind_res (value_stat OFLD_STAT_COMPUTE_IDLE_TIME (time - wr_lastComputeIdleStart w) c) (\<lambda>c.
              write_idle 1 (obj_deviceId devStream) (Out_Leave time (wr_devComputeIdleRegRef w) None)
                (c, w\<lparr>wr_deviceComputeRefCount := 1\<rparr>))
            else Inr (c, w\<lparr>wr_deviceComputeRefCount := wr_deviceComputeRefCount w + 1\<rparr>)) (\<lambda>(c, w).
         Inr (c, w\<lparr>wr_deviceConsecutiveComCount := 0, wr_deviceConsecutiveComSDCount := 0\<rparr>))
       else
         (let w = w\<lparr>wr_previousDeviceComTaskH2D := wr_currentDeviceComTaskH2D w, wr_currentDeviceComTaskH2D := isH2D,
                    wr_lastDeviceComTaskEnterTime := time\<rparr> in
          Inr (c, if wr_deviceRefCount w - wr_deviceComputeRefCount w = 1 then w\<lparr>wr_transferStart := time\<rparr> else w)))
      (\<lambda>(c, w). Inr (c, w\<lparr>wr_lastOffloadApiEvtTime := time\<rparr>))))"

definition transfer_leave :: "u64 \<Rightarrow> writer_state \<Rightarrow> writer_state result" where
  "transfer_leave time s = (case s of (c, w) \<Rightarrow>
    bind_res (if wr_deviceRefCount w - wr_deviceComputeRefCount w = 1
              then value_stat STAT_OFLD_TOTAL_TRANSFER_TIME (time - wr_transferStart w) c else Inr c) (\<lambda>c.
    bind_res
      (if wr_currentDeviceComTaskH2D w = wr_previousDeviceComTaskH2D w then
         bind_res (if wr_deviceConsecutiveComSDCount w > 0
                   then count_stat OFLD_STAT_MULTIPLE_COM_SD (time - wr_lastDeviceComTaskEnterTime w) c else Inr c) (\<lambda>c.
         Inr (c, w\<lparr>wr_deviceConsecutiveComSDCount := wr_deviceConsecutiveComSDCount w + 1\<rparr>))
       else Inr (c, w\<lparr>wr_deviceConsecutiveComSDCount := 1\<rparr>)) (\<lambda>(c, w).
    bind_res (if wr_deviceConsecutiveComCount w > 0
              then count_stat OFLD_STAT_MULTIPLE_COM (time - wr_lastDeviceComTaskEnterTime w) c else Inr c) (\<lambda>c.
    Inr (c, w\<lparr>wr_deviceConsecutiveComCount := wr_deviceConsecutiveComCount w + 1\<rparr>)))))"

definition compute_leave :: "u64 \<Rightarrow> stream_obj \<Rightarrow> writer_state \<Rightarrow> writer_state result" where
  "compute_leave time devStream s = (case s of (c, w) \<Rightarrow>
    (let w = w\<lparr>wr_deviceComputeRefCount := wr_deviceComputeRefCount w - 1\<rparr> in
     bind_res
       (if wr_deviceComputeRefCount w = 0 then
          write_idle 1 (obj_deviceId devStream) (Out_Enter time (wr_devComputeIdleRegRef w)) (c, w\<lparr>wr_lastComputeIdleStart := time\<rparr>)
        else Inr (c, w)) (\<lambda>(c, w).
     Inr (c, w\<lparr>wr_deviceConsecutiveComCount := 0, wr_deviceConsecutiveComSDCount := 0\<rparr>))))"

definition handleDeviceTaskLeave :: "u64 \<Rightarrow> stream_obj \<Rightarrow> bool \<Rightarrow> writer_state \<Rightarrow> writer_state result" where
  "handleDeviceTaskLeave time devStream isCompute s =
    bind_res (if isCompute then compute_leave time devStream s else transfer_leave time s) (\<lambda>(c, w).
    let w = w\<lparr>wr_deviceRefCount := wr_deviceRefCount w - 1\<rparr> in
    bind_res
      (if wr_deviceRefCount w = 0 then
         write_idle 0 (obj_deviceId devStream) (Out_Enter time (wr_devIdleRegRef w)) (c, w\<lparr>wr_lastIdleStart := time\<rparr>)
       else Inr (c, w)) (\<lambda>(c, w).
    Inr (c, w\<lparr>wr_lastOffloadApiEvtTime := time\<rparr>)))"

definition handleFinalDeviceIdleLeave :: "writer_state \<Rightarrow> writer_state result" where
  "handleFinalDeviceIdleLeave s = (case s of (c, w) \<Rightarrow>
    (if wr_lastOffloadApiEvtTime w = 0 then Inr (c, w)
     else
       (let t = wr_lastOffloadApiEvtTime w in
        bind_res (value_stat OFLD_STAT_IDLE_TIME (t - wr_lastIdleStart w) c) (\<lambda>c.
        bind_res (value_stat OFLD_STAT_COMPUTE_IDLE_TIME (t - wr_lastComputeIdleStart w) c) (\<lambda>c.
        bind_res (if t > wr_firstOffloadApiEvtTime w
                  then value_stat OFLD_STAT_OFLD_TIME (t - wr_firstOffloadApiEvtTime w) c else Inr c) (\<lambda>c.
        bind_res (first_device_stream (- 1) c) (\<lambda>(i, c).
        let st = status_at i w; w = set_status i st w;
            t = (if t < ss_lastEventTime st then ss_lastEventTime st else t) in
        bind_res (if wr_writeToFile w \<and> bit (wr_deviceIdle w) 0
                  then write_record i (Out_Leave t (wr_devIdleRegRef w) None) w else Inr w) (\<lambda>w.
        bind_res (if wr_writeToFile w \<and> bit (wr_deviceIdle w) 1
                  then write_record i (Out_Leave t (wr_devComputeIdleRegRef w) None) w else Inr w) (\<lambda>w.
        Inr (c, w\<lparr>wr_lastOffloadApiEvtTime := 0\<rparr>))))))))))"

section \<open>The node of an event\<close>

text \<open>The first offload event starts the idle time of the device.\<close>

definition start_idle :: "u64 \<Rightarrow> writer_state \<Rightarrow> writer_state result" where
  "start_idle time s = (case s of (c, w) \<Rightarrow>
    (if wr_deviceRefCount w < 0 then
       (let w = w\<lparr>wr_deviceRefCount := 0, wr_deviceComputeRefCount := 0, wr_lastIdleStart := time, wr_lastComputeIdleStart := time\<rparr> in
        bind_res (write_idle 1 (- 1) (Out_Enter time (wr_devComputeIdleRegRef w)) (c, w)) (\<lambda>s.
        bind_res (write_idle 0 (- 1) (Out_Enter time (wr_devIdleRegRef w)) s) (\<lambda>(c, w).
        Inr (c, w\<lparr>wr_firstOffloadApiEvtTime := time\<rparr>))))
     else Inr (c, w)))"

definition launch_delay :: "graph_node \<Rightarrow> writer_state \<Rightarrow> writer_state result" where
  "launch_delay x s = (case s of (c, w) \<Rightarrow>
    (if wr_deviceComputeRefCount w = 0 \<and> isOffloadEnqueueKernel x then
       (case gn_first x of
          None \<Rightarrow> Inr (c, w)
        | Some enter \<Rightarrow> (case nd_link (ca_heap c enter) of
             None \<Rightarrow> Inr (c, w)
           | Some k \<Rightarrow>
               (let start = nd_time (ca_heap c k) in
                if start > nd_time x
                then bind_res (count_stat OFLD_STAT_KERNEL_START_DELAY (start - nd_time x) c) (\<lambda>c. Inr (c, w))
                else Inr (c, w))))
     else Inr (c, w)))"

definition blocking_transfer :: "u64 \<Rightarrow> u32 \<Rightarrow> graph_node \<Rightarrow> writer_state \<Rightarrow> writer_state result" where
  "blocking_transfer timerOffset functionType x s = (case s of (c, w) \<Rightarrow>
    (if has_flag functionType OFLD_BLOCKING_DATA then
       (case gn_first x of
          None \<Rightarrow> Inl Null_Dereference
        | Some enter \<Rightarrow>
            (let start = nd_time (ca_heap c enter); exclCom = nd_time x - start in
             bind_res (count_stat STAT_OFLD_BLOCKING_COM exclCom c) (\<lambda>c.
             let lastKernelEnd = wr_lastComputeIdleStart w - timerOffset;
                 exclCom = (if lastKernelEnd > start \<and> nd_time x > lastKernelEnd then nd_time x - lastKernelEnd else exclCom) in
             bind_res (value_stat OFLD_STAT_BLOCKING_COM_EXCL_TIME exclCom c) (\<lambda>c. Inr (c, w)))))
     else Inr (c, w)))"

definition offload_event :: "definitions \<Rightarrow> otf2_event \<Rightarrow> region_info \<Rightarrow> u32 \<Rightarrow> graph_node \<Rightarrow> writer_state \<Rightarrow> writer_state result" where
  "offload_event d ev r functionType x s =
    bind_res (start_idle (ev_time ev) s) (\<lambda>(c, w).
    let w = (if ri_role r = OTF2_REGION_ROLE_WRAPPER then w\<lparr>wr_lastOffloadApiEvtTime := ev_time ev\<rparr> else w) in
    if isLeave x then bind_res (launch_delay x (c, w)) (blocking_transfer (de_timerOffset d) functionType x) else Inr (c, w))"

text \<open>A fork or join counts for the region that is active.\<close>

definition fork_event :: "definitions \<Rightarrow> node_ref \<Rightarrow> otf2_event \<Rightarrow> writer_state \<Rightarrow> (otf2_event \<times> writer_state) result" where
  "fork_event d n ev s = (case s of (c, w) \<Rightarrow>
    (if \<not> isOMPForkJoin (ca_heap c n) then Inr (ev, c, w)
     else if ev_regionRef ev \<noteq> de_forkJoin d then Inl (Assertion_Failed ''ForkJoin must have regionRef'')
     else if ev_type ev \<noteq> RECORD_ATOMIC then Inl (Assertion_Failed ''Event has unexpected type'')
     else (case ss_activityStack (status_at (ev_location ev) w) of
         [] \<Rightarrow> Inr (ev, c, w)
       | r # rs \<Rightarrow> Inr (ev\<lparr>ev_regionRef := r\<rparr>, c\<lparr>ca_analysis := update_node n (setFunctionId (ucast r)) (ca_analysis c)\<rparr>, w))))"

definition blamed_edges :: "node_ref \<Rightarrow> casita \<Rightarrow> edge_ref list" where
  "blamed_edges n c = (case getOutEdges n (ge_graph (ca_engine c)) of
      None \<Rightarrow> [] | Some es \<Rightarrow> filter (\<lambda>e. getTotalBlame (ge_edges (ca_engine c) e) > 0) es)"

text \<open>Whether the stream is on the critical path after a node, and whether the event is.\<close>

definition critical_after :: "heap \<Rightarrow> graph_node \<Rightarrow> node_ref option \<Rightarrow> bool \<Rightarrow> (bool \<times> bool) result" where
  "critical_after h x nextNode lastGlobalEvent =
    (let evtOnCP = isOnCriticalPath x;
         streamOnCP = (case nextNode of
             None \<Rightarrow> evtOnCP
           | Some n \<Rightarrow> if \<not> isOnCriticalPath (h n) then False else if isOffloadKernel x then True else evtOnCP) in
     if isLeave x then
       (case gn_first x of
          None \<Rightarrow> Inl Null_Dereference
        | Some enter \<Rightarrow>
            Inr (evtOnCP \<and> isOnCriticalPath (h enter), if isMPIFinalize x then lastGlobalEvent else streamOnCP))
     else Inr (evtOnCP, streamOnCP))"

record event_result =
  er_event :: otf2_event
  er_onCP :: bool
  er_waitingTime :: u64
  er_writeBlame :: bool
  er_next :: nat

definition node_event ::
  "definitions \<Rightarrow> region_info \<Rightarrow> u32 \<Rightarrow> event_stream \<Rightarrow> event_result \<Rightarrow> writer_state \<Rightarrow> (event_result \<times> writer_state) result" where
  "node_event d r functionType b e s = (case s of (c, w) \<Rightarrow>
    (let nodes = es_nodes b; n = nodes ! er_next e; x = ca_heap c n; ev = er_event e in
     bind_res
       (if isOfld x then offload_event d ev r functionType x (c, w)
        else if isMPI x then Inr (c, w\<lparr>wr_deviceConsecutiveComCount := 0, wr_deviceConsecutiveComSDCount := 0\<rparr>)
        else Inr (c, w)) (\<lambda>s.
     if nd_functionId x \<noteq> ucast (ev_regionRef ev) then Inl (Assertion_Failed ''RegionRef does not fit for event'')
     else
       bind_res (fork_event d n ev s) (\<lambda>(ev, c, w).
       let st = status_at (ev_location ev) w;
           es = blamed_edges n c;
           nextNode = (if er_next e + 1 \<noteq> length nodes then Some (nodes ! (er_next e + 1)) else None);
           st = st\<lparr>ss_openEdges := ss_openEdges st @ es\<rparr> in
       bind_res (critical_after (ca_heap c) x nextNode (es_hasLastEvent b)) (\<lambda>(evtOnCP, streamOnCP).
       Inr (e\<lparr>er_event := ev, er_onCP := evtOnCP, er_waitingTime := getWaitingTime x,
              er_writeBlame := er_writeBlame e \<or> es \<noteq> [], er_next := er_next e + 1\<rparr>,
            c, set_status (ev_location ev) (st\<lparr>ss_onCriticalPath := streamOnCP\<rparr>) w))))))"

text \<open>An event without a node: it is on the critical path if the next node is, and, before a leave, the enter of
  that region too.\<close>

definition cpu_event :: "node_ref list \<Rightarrow> event_result \<Rightarrow> writer_state \<Rightarrow> (event_result \<times> writer_state) result" where
  "cpu_event nodes e s = (case s of (c, w) \<Rightarrow>
    (if er_next e = length nodes then Inr (e, c, w)
     else
       (let x = ca_heap c (nodes ! er_next e); i = ev_location (er_event e); st = status_at i w in
        if isLeave x then
          (case gn_first x of
             None \<Rightarrow> Inl Null_Dereference
           | Some enter \<Rightarrow>
               if \<not> isOnCriticalPath (ca_heap c enter) then Inr (e\<lparr>er_onCP := False\<rparr>, c, w)
               else Inr (e\<lparr>er_onCP := isOnCriticalPath x\<rparr>, c,
                         if isOnCriticalPath x then set_status i (st\<lparr>ss_onCriticalPath := True\<rparr>) w else w))
        else Inr (e\<lparr>er_onCP := isOnCriticalPath x\<rparr>, c,
                  if isOnCriticalPath x then set_status i (st\<lparr>ss_onCriticalPath := True\<rparr>) w else w))))"

section \<open>Events\<close>

definition write_event :: "event_result \<Rightarrow> rat \<Rightarrow> bool \<Rightarrow> writer \<Rightarrow> writer result" where
  "write_event e blame graphNodesAvailable w =
    (if \<not> wr_writeToFile w then Inr w
     else
       bind_res (writeCriticalPathMetric (er_event e) graphNodesAvailable w) (\<lambda>w.
       bind_res (if er_writeBlame e then writeBlameMetric (er_event e) blame w else Inr w) (\<lambda>w.
       writeEventsWithWaitingTime (er_event e) (er_waitingTime e) w)))"

text \<open>The stack of active regions. Taking from an empty stack is undefined.\<close>

definition finish_event :: "event_result \<Rightarrow> writer \<Rightarrow> writer result" where
  "finish_event e w =
    (let ev = er_event e; st = (status_at (ev_location ev) w)\<lparr>ss_currentNode := er_next e, ss_lastEventTime := ev_time ev\<rparr> in
     if ev_type ev = RECORD_ENTER then
       Inr (set_status (ev_location ev) (st\<lparr>ss_activityStack := ev_regionRef ev # ss_activityStack st\<rparr>) w)
     else if ev_type ev = RECORD_LEAVE then
       (case ss_activityStack st of
          [] \<Rightarrow> Inl Out_Of_Bounds
        | r # rs \<Rightarrow> Inr (set_status (ev_location ev) (st\<lparr>ss_activityStack := rs\<rparr>) w))
     else Inr (set_status (ev_location ev) st w))"

text \<open>The iterator of a stream that got no nodes in this interval is the one of an earlier interval; reading through
  it is undefined.\<close>

definition trace_event_node ::
  "definitions \<Rightarrow> region_info \<Rightarrow> bool \<times> descriptor \<Rightarrow> event_stream \<Rightarrow> event_result \<Rightarrow> writer_state \<Rightarrow> (event_result \<times> writer_state) result" where
  "trace_event_node d r fd b e s =
    (if er_next e > length (es_nodes b) then Inl Out_Of_Bounds
     else if fst fd then
       (if er_next e = length (es_nodes b) then Inr (e, s) else node_event d r (fd_functionType (snd fd)) b e s)
     else cpu_event (es_nodes b) e s)"

definition processNextEvent :: "definitions \<Rightarrow> otf2_event \<Rightarrow> writer_state \<Rightarrow> writer_state result" where
  "processNextEvent d ev s = (case s of (c, w) \<Rightarrow>
    bind_res (getRegionInfo (ev_regionRef ev) d) (\<lambda>r.
    bind_res (find_status (ev_location ev) w) (\<lambda>st.
    case ss_stream st of
      None \<Rightarrow> Inl Null_Dereference
    | Some q \<Rightarrow>
      bind_res (region_type r (ev_type ev) q c) (\<lambda>fd.
      let p = stream_at q c; b = base p; available = (ss_currentNode st \<noteq> length (es_nodes b)); open_edges = (ss_openEdges st \<noteq> []) in
      bind_res (if open_edges then computeBlameMap (ca_heap c) (ge_edges (ca_engine c)) (de_timerOffset d) ev st
                else Inr (0, Map.empty, st)) (\<lambda>(blame, blameMap, st).
      let e = \<lparr>er_event = ev, er_onCP = False, er_waitingTime = 0, er_writeBlame = open_edges, er_next = ss_currentNode st\<rparr> in
      bind_res (trace_event_node d r fd b e (c, set_status (ev_location ev) st w)) (\<lambda>(e, s).
      bind_res (if isDeviceStream b \<and> ev_type ev = RECORD_ENTER then handleDeviceTaskEnter (ev_time ev) p True False s
                else Inr s) (\<lambda>(c, w).
      let blame = blame * wr_timeConversionFactor w in
      bind_res (write_event e blame available w) (\<lambda>w.
      bind_res (if isDeviceStream b \<and> ev_type ev = RECORD_LEAVE then handleDeviceTaskLeave (ev_time ev) p True (c, w)
                else Inr (c, w)) (\<lambda>(c, w).
      bind_res (updateActivityGroupMap (er_event e) (er_onCP e) (er_waitingTime e) blame blameMap available w) (\<lambda>w.
      bind_res (finish_event e w) (\<lambda>w. Inr (c, w))))))))))))"

text \<open>A filtered region is left out of the output, with everything inside it.\<close>

definition otf2CallbackEnter :: "definitions \<Rightarrow> u64 \<Rightarrow> u64 \<Rightarrow> u32 \<Rightarrow> writer_state \<Rightarrow> writer_state result" where
  "otf2CallbackEnter d location time region s = (case s of (c, w) \<Rightarrow>
    (let st = status_at location w; w = set_status location st w in
     if ss_isFilterOn st then Inr (c, w)
     else if isRegionFiltered region (ca_analysis c) then Inr (c, set_status location (st\<lparr>ss_isFilterOn := True\<rparr>) w)
     else processNextEvent d \<lparr>ev_time = time, ev_regionRef = region, ev_location = location, ev_type = RECORD_ENTER\<rparr> (c, w)))"

definition otf2CallbackLeave :: "definitions \<Rightarrow> u64 \<Rightarrow> u64 \<Rightarrow> u32 \<Rightarrow> writer_state \<Rightarrow> writer_state result" where
  "otf2CallbackLeave d location time region s = (case s of (c, w) \<Rightarrow>
    (let st = status_at location w; w = set_status location st w in
     if isRegionFiltered region (ca_analysis c) then Inr (c, set_status location (st\<lparr>ss_isFilterOn := False\<rparr>) w)
     else if ss_isFilterOn st then Inr (c, w)
     else processNextEvent d \<lparr>ev_time = time, ev_regionRef = region, ev_location = location, ev_type = RECORD_LEAVE\<rparr> (c, w)))"

definition otf2EvtCallbackThreadForkJoin :: "definitions \<Rightarrow> u64 \<Rightarrow> u64 \<Rightarrow> writer_state \<Rightarrow> writer_state result" where
  "otf2EvtCallbackThreadForkJoin d location time s =
    processNextEvent d \<lparr>ev_time = time, ev_regionRef = de_forkJoin d, ev_location = location, ev_type = RECORD_ATOMIC\<rparr> s"

text \<open>The transfers of a device stream are windows of one-sided communication.\<close>

definition transfer_begin :: "bool \<Rightarrow> u64 \<Rightarrow> u64 \<Rightarrow> writer_state \<Rightarrow> writer_state result" where
  "transfer_begin isH2D location time s = (case getStream location (ge_group (ca_engine (fst s))) of
      None \<Rightarrow> Inl Null_Dereference
    | Some p \<Rightarrow> if isDeviceStream (base (stream_at p (fst s)))
        then handleDeviceTaskEnter time (stream_at p (fst s)) False isH2D s else Inr s)"

definition transfer_end :: "u64 \<Rightarrow> u64 \<Rightarrow> writer_state \<Rightarrow> writer_state result" where
  "transfer_end location time s = (case getStream location (ge_group (ca_engine (fst s))) of
      None \<Rightarrow> Inl Null_Dereference
    | Some p \<Rightarrow> if isDeviceStream (base (stream_at p (fst s)))
        then handleDeviceTaskLeave time (stream_at p (fst s)) False s else Inr s)"

definition otf2CallbackComm_RmaWinDestroy :: "u64 \<Rightarrow> u64 \<Rightarrow> writer_state \<Rightarrow> writer_state result" where
  "otf2CallbackComm_RmaWinDestroy location time s = (case s of (c, w) \<Rightarrow>
    bind_res
      (if wr_lastOffloadApiEvtTime w \<noteq> 0 then
         (case wr_status w location of
            None \<Rightarrow> Inl Null_Dereference
          | Some st \<Rightarrow> (case ss_stream st of
                None \<Rightarrow> Inl Null_Dereference
              | Some q \<Rightarrow> if isDeviceStream (base (stream_at q c)) then handleFinalDeviceIdleLeave (c, w) else Inr (c, w)))
       else Inr (c, w)) (\<lambda>(c, w).
    Inr (c, set_status location ((status_at location w)\<lparr>ss_lastEventTime := time\<rparr>) w)))"

definition otf2CallbackComm_ThreadTeamEnd :: "u64 \<Rightarrow> u64 \<Rightarrow> writer_state \<Rightarrow> writer_state" where
  "otf2CallbackComm_ThreadTeamEnd location time s = (case s of (c, w) \<Rightarrow>
    (c, set_status location ((status_at location w)\<lparr>ss_lastEventTime := time\<rparr>) w))"

section \<open>The streams at the begin of an interval\<close>

text \<open>The atomic nodes at the begin of an MPI stream are not written. The loop reads past the nodes when all of them
  are atomic, and it does not end when a record has to be written and the stream has no event writer.\<close>

definition skip_node :: "u64 \<Rightarrow> node_ref \<Rightarrow> node_ref list \<Rightarrow> casita \<Rightarrow> writer \<Rightarrow> writer step" where
  "skip_node i n rest c w =
    bind_fuel
      (if isOnCriticalPath (ca_heap c n) \<and> rest \<noteq> [] \<and> \<not> isOnCriticalPath (ca_heap c (hd rest)) then
         bind_fuel (if \<not> wr_writeToFile w then ret w
                    else if i \<notin> wr_eventWriters w then None
                    else Some (write_record i (Out_Critical (ss_lastEventTime (status_at i w)) False) w)) (\<lambda>w.
         ret (set_status i ((status_at i w)\<lparr>ss_onCriticalPath := False, ss_lastWrittenCpValue := False\<rparr>) w))
       else ret w) (\<lambda>w.
    let st = status_at i w in ret (set_status i (st\<lparr>ss_openEdges := ss_openEdges st @ blamed_edges n c\<rparr>) w))"

fun skip_atomic :: "u64 \<Rightarrow> nat \<Rightarrow> node_ref list \<Rightarrow> casita \<Rightarrow> writer \<Rightarrow> (nat \<times> writer) step" where
  "skip_atomic i k [] c w = fail Out_Of_Bounds"
| "skip_atomic i k (n # ns) c w =
    (if nd_recordType (ca_heap c n) = RECORD_ATOMIC
     then bind_fuel (skip_node i n ns c w) (skip_atomic i (k + 1) ns c) else ret (k, w))"

definition begin_stream :: "stream_ref \<Rightarrow> writer_state \<Rightarrow> writer_state step" where
  "begin_stream p s = (case s of (c, w) \<Rightarrow>
    (let b = base (stream_at p c); i = es_id b;
         w = set_status i ((status_at i w)\<lparr>ss_stream := Some p, ss_openEdges := []\<rparr>) w in
     if es_nodes b = [] then ret (c, w)
     else
       bind_fuel (if isMpiStream b then skip_atomic i 0 (es_nodes b) c w else ret (0, w)) (\<lambda>(k, w).
       let w = set_status i ((status_at i w)\<lparr>ss_currentNode := k\<rparr>) w in
       ret (if wr_firstCall w then
              (update_stream p (\<lambda>b. b\<lparr>es_hasFirstCriticalNode := False\<rparr>) c,
               set_status i ((status_at i w)\<lparr>ss_isFilterOn := False, ss_lastWrittenCpValue := False,
                               ss_onCriticalPath := es_hasFirstCriticalNode b\<rparr>) w)
            else (c, w)))))"

fun begin_streams :: "stream_ref list \<Rightarrow> writer_state \<Rightarrow> writer_state step" where
  "begin_streams [] s = ret s"
| "begin_streams (p # ps) s = bind_fuel (begin_stream p s) (begin_streams ps)"

text \<open>The events of the interval are read after the streams have been prepared.\<close>

definition writeLocations_begin :: "writer_state \<Rightarrow> writer_state step" where
  "writeLocations_begin s =
    bind_fuel (begin_streams (sg_allStreams (ge_group (ca_engine (fst s)))) s) (\<lambda>(c, w). ret (c, w\<lparr>wr_firstCall := False\<rparr>))"

text \<open>The streams that are asked for at the end are those of the statuses, in order of their identifiers.\<close>

fun finalize_statuses :: "u64 list \<Rightarrow> writer_state \<Rightarrow> writer result" where
  "finalize_statuses [] s = Inr (snd s)"
| "finalize_statuses (i # is) (c, w) = (case getStream i (ge_group (ca_engine c)) of
      None \<Rightarrow> Inl Null_Dereference
    | Some p \<Rightarrow>
        if isDeviceStream (base (stream_at p c)) \<or> i \<notin> wr_eventWriters w then finalize_statuses is (c, w)
        else bind_res (write_record i (Out_Blame (ss_lastEventTime (status_at i w)) 0) w) (\<lambda>w. finalize_statuses is (c, w)))"

definition finalizeStreams :: "u64 list \<Rightarrow> writer_state \<Rightarrow> writer_state result" where
  "finalizeStreams locations s =
    bind_res (if wr_writeToFile (snd s) then finalize_statuses locations s else Inr (snd s)) (\<lambda>w.
      handleFinalDeviceIdleLeave (fst s, w))"

end
