(* ===== verification/WriterLaws.thy ===== *)
theory WriterLaws
  imports WriterEvents
begin

text \<open>Laws of the trace writer: the profile holds the exclusive time and the number of calls of every region, the
  values of the critical-path metric alternate, and the blame of open edges is split over the events.\<close>

section \<open>What the parts of an event leave alone\<close>

text \<open>The profile with the stacks and times of the locations, and the critical-path metric.\<close>

definition profile_view :: "writer \<Rightarrow> activity_groups \<times> (u64 \<Rightarrow> u32 list \<times> u64)" where
  "profile_view w = (wr_groups w, \<lambda>i. (ss_activityStack (status_at i w), ss_lastEventTime (status_at i w)))"

fun critical_values :: "u64 \<Rightarrow> (u64 \<times> out_record) list \<Rightarrow> bool list" where
  "critical_values i [] = []"
| "critical_values i ((j, Out_Critical t v) # rs) = (if j = i then v # critical_values i rs else critical_values i rs)"
| "critical_values i ((j, Out_Blame t b) # rs) = critical_values i rs"
| "critical_values i ((j, Out_Enter t r) # rs) = critical_values i rs"
| "critical_values i ((j, Out_Leave t r b) # rs) = critical_values i rs"

definition metric_view :: "writer \<Rightarrow> u64 \<Rightarrow> bool list \<times> bool" where
  "metric_view w = (\<lambda>i. (critical_values i (wr_out w), ss_lastWrittenCpValue (status_at i w)))"

definition writer_frame where
  "writer_frame w = (profile_view w, metric_view w)"

lemma critical_values_append [simp]: "critical_values i (xs @ ys) = critical_values i xs @ critical_values i ys"
  by (induction i xs rule: critical_values.induct) simp_all

lemma status_at_set [simp]: "status_at i (set_status j s w) = (if i = j then s else status_at i w)"
  by (simp add: status_at_def set_status_def)

lemma set_status_fields [simp]:
  "wr_groups (set_status i s w) = wr_groups w" "wr_out (set_status i s w) = wr_out w"
  "wr_eventWriters (set_status i s w) = wr_eventWriters w" "wr_writeToFile (set_status i s w) = wr_writeToFile w"
  "wr_timeConversionFactor (set_status i s w) = wr_timeConversionFactor w"
  "wr_status (set_status i s w) = (wr_status w)(i \<mapsto> s)"
  by (simp_all add: set_status_def)

text \<open>The counters of the device, and the fields of a status that neither view reads.\<close>

lemma writer_frame_device [simp]:
  "writer_frame (w\<lparr>wr_deviceRefCount := k\<rparr>) = writer_frame w" "writer_frame (w\<lparr>wr_deviceComputeRefCount := k\<rparr>) = writer_frame w"
  "writer_frame (w\<lparr>wr_lastIdleStart := t\<rparr>) = writer_frame w" "writer_frame (w\<lparr>wr_lastComputeIdleStart := t\<rparr>) = writer_frame w"
  "writer_frame (w\<lparr>wr_firstOffloadApiEvtTime := t\<rparr>) = writer_frame w" "writer_frame (w\<lparr>wr_lastOffloadApiEvtTime := t\<rparr>) = writer_frame w"
  "writer_frame (w\<lparr>wr_transferStart := t\<rparr>) = writer_frame w" "writer_frame (w\<lparr>wr_lastDeviceComTaskEnterTime := t\<rparr>) = writer_frame w"
  "writer_frame (w\<lparr>wr_currentDeviceComTaskH2D := b\<rparr>) = writer_frame w" "writer_frame (w\<lparr>wr_previousDeviceComTaskH2D := b\<rparr>) = writer_frame w"
  "writer_frame (w\<lparr>wr_deviceConsecutiveComSDCount := t\<rparr>) = writer_frame w" "writer_frame (w\<lparr>wr_deviceConsecutiveComCount := t\<rparr>) = writer_frame w"
  by (simp_all add: writer_frame_def profile_view_def metric_view_def status_at_def)

lemma writer_frame_status:
  "ss_activityStack s = ss_activityStack (status_at i w) \<Longrightarrow> ss_lastEventTime s = ss_lastEventTime (status_at i w) \<Longrightarrow>
   ss_lastWrittenCpValue s = ss_lastWrittenCpValue (status_at i w) \<Longrightarrow> writer_frame (set_status i s w) = writer_frame w"
  by (auto simp: writer_frame_def profile_view_def metric_view_def fun_eq_iff)

lemma write_record_frame:
  "write_record i r w = Inr w' \<Longrightarrow> (\<And>t v. r \<noteq> Out_Critical t v) \<Longrightarrow> writer_frame w' = writer_frame w"
  by (cases r) (auto simp: write_record_def writer_frame_def profile_view_def metric_view_def status_at_def split: if_splits)

lemma write_record_profile: "write_record i r w = Inr w' \<Longrightarrow> profile_view w' = profile_view w"
  by (auto simp: write_record_def profile_view_def status_at_def split: if_splits)

lemma write_idle_frame:
  "write_idle b k (Out_Enter t q) (c, w) = Inr (c', w') \<Longrightarrow> writer_frame w' = writer_frame w"
  "write_idle b k (Out_Leave t q v) (c, w) = Inr (c', w') \<Longrightarrow> writer_frame w' = writer_frame w"
  by (auto simp: write_idle_def bind_res_Inr dest!: write_record_frame split: if_splits)

text \<open>A result whose writer has a given frame, with a rule for every way in which the code composes steps.\<close>

type_synonym frame_value = "(activity_groups \<times> (u64 \<Rightarrow> u32 list \<times> u64)) \<times> (u64 \<Rightarrow> bool list \<times> bool)"

definition has_frame :: "frame_value \<Rightarrow> writer_state result \<Rightarrow> bool" where
  "has_frame F r \<longleftrightarrow> (\<forall>c w. r = Inr (c, w) \<longrightarrow> writer_frame w = F)"

lemma has_frameD: "has_frame F (Inr (c, w)) \<Longrightarrow> writer_frame w = F"
  by (simp add: has_frame_def)

lemma frame_return: "writer_frame w = F \<Longrightarrow> has_frame F (Inr (c, w))"
  by (simp add: has_frame_def)

lemma frame_fail: "has_frame F (Inl e)"
  by (simp add: has_frame_def)

lemma frame_if: "(b \<Longrightarrow> has_frame F r) \<Longrightarrow> (\<not> b \<Longrightarrow> has_frame F q) \<Longrightarrow> has_frame F (if b then r else q)"
  by simp

lemma frame_bind:
  "has_frame F r \<Longrightarrow> (\<And>c w. writer_frame w = F \<Longrightarrow> has_frame F (f c w)) \<Longrightarrow>
   has_frame F (bind_res r (\<lambda>(c, w). f c w))"
  by (cases r) (auto simp: has_frame_def)

lemma frame_bind_state:
  "has_frame F r \<Longrightarrow> (\<And>c w. writer_frame w = F \<Longrightarrow> has_frame F (f (c, w))) \<Longrightarrow> has_frame F (bind_res r f)"
  by (cases r) (auto simp: has_frame_def)

lemma frame_bind_casita: "(\<And>c :: casita. has_frame F (f c)) \<Longrightarrow> has_frame F (bind_res r f)"
  by (cases r) (auto simp: has_frame_def)

lemma frame_idle:
  "writer_frame w = F \<Longrightarrow> has_frame F (write_idle b k (Out_Enter t q) (c, w))"
  "writer_frame w = F \<Longrightarrow> has_frame F (write_idle b k (Out_Leave t q v) (c, w))"
  by (auto simp: has_frame_def dest: write_idle_frame)

lemmas frame_rules = frame_return frame_fail frame_if frame_bind_casita frame_bind frame_idle

lemma device_enter_frame: "writer_frame w = F \<Longrightarrow> has_frame F (handleDeviceTaskEnter t p b h (c, w))"
  unfolding handleDeviceTaskEnter_def Let_def prod.case by (intro frame_rules) simp_all

lemma transfer_leave_frame: "writer_frame w = F \<Longrightarrow> has_frame F (transfer_leave t (c, w))"
  unfolding transfer_leave_def Let_def prod.case by (intro frame_rules) simp_all

lemma compute_leave_frame: "writer_frame w = F \<Longrightarrow> has_frame F (compute_leave t p (c, w))"
  unfolding compute_leave_def Let_def prod.case by (intro frame_rules) simp_all

lemma device_leave_frame: "writer_frame w = F \<Longrightarrow> has_frame F (handleDeviceTaskLeave t p b (c, w))"
  unfolding handleDeviceTaskLeave_def Let_def prod.case
  by (intro frame_rules transfer_leave_frame compute_leave_frame) simp_all

lemma start_idle_frame: "writer_frame w = F \<Longrightarrow> has_frame F (start_idle t (c, w))"
  unfolding start_idle_def Let_def prod.case by (intro frame_rules frame_bind_state) simp_all

lemma launch_delay_frame: "writer_frame w = F \<Longrightarrow> has_frame F (launch_delay x (c, w))"
  unfolding launch_delay_def Let_def prod.case by (auto split: option.split intro!: frame_rules)

lemma blocking_transfer_frame: "writer_frame w = F \<Longrightarrow> has_frame F (blocking_transfer t f x (c, w))"
  unfolding blocking_transfer_def Let_def prod.case by (auto split: option.split intro!: frame_rules)

lemma offload_event_frame: "writer_frame w = F \<Longrightarrow> has_frame F (offload_event d ev r f x (c, w))"
  unfolding offload_event_def Let_def
  by (intro frame_bind start_idle_frame frame_if frame_return frame_bind_state [OF launch_delay_frame] blocking_transfer_frame)
    simp_all

section \<open>The steps of an event\<close>

text \<open>An event keeps its location, its time and its type; only a fork or join gets another region.\<close>

definition same_event :: "otf2_event \<Rightarrow> otf2_event \<Rightarrow> bool" where
  "same_event e ev \<longleftrightarrow> ev_location e = ev_location ev \<and> ev_time e = ev_time ev \<and> ev_type e = ev_type ev \<and>
     (ev_type ev = RECORD_ATOMIC \<or> e = ev)"

lemma same_event_refl [simp]: "same_event ev ev"
  by (simp add: same_event_def)

lemma fork_event_facts: "fork_event d n ev (c, w) = Inr (e, c', w') \<Longrightarrow> w' = w \<and> same_event e ev"
  by (auto simp: fork_event_def same_event_def split: if_splits list.splits)

lemma node_event_facts:
  assumes "node_event d r t b e (c, w) = Inr (e', c', w')"
  shows "writer_frame w' = writer_frame w \<and> same_event (er_event e') (er_event e)"
proof -
  let ?x = "ca_heap c (es_nodes b ! er_next e)"
  obtain c1 w1 ev c2 w2 p q where
    o: "(if isOfld ?x then offload_event d (er_event e) r t ?x (c, w)
         else if isMPI ?x then Inr (c, w\<lparr>wr_deviceConsecutiveComCount := 0, wr_deviceConsecutiveComSDCount := 0\<rparr>)
         else Inr (c, w)) = Inr (c1, w1)"
    and f: "fork_event d (es_nodes b ! er_next e) (er_event e) (c1, w1) = Inr (ev, c2, w2)"
    and w': "w' = set_status (ev_location ev) ((status_at (ev_location ev) w2)\<lparr>ss_openEdges := p, ss_onCriticalPath := q\<rparr>) w2"
    and e': "er_event e' = ev"
    using assms unfolding node_event_def
    by (auto simp: bind_res_Inr Let_def split: if_splits)
  have "has_frame (writer_frame w) (if isOfld ?x then offload_event d (er_event e) r t ?x (c, w)
         else if isMPI ?x then Inr (c, w\<lparr>wr_deviceConsecutiveComCount := 0, wr_deviceConsecutiveComSDCount := 0\<rparr>)
         else Inr (c, w))"
    by (intro frame_if offload_event_frame frame_return) simp_all
  then have "writer_frame w1 = writer_frame w"
    by (simp only: o has_frameD)
  moreover have "writer_frame w' = writer_frame w2"
    unfolding w' by (rule writer_frame_status) simp_all
  ultimately show ?thesis
    using fork_event_facts [OF f] e' by simp
qed

lemma cpu_event_facts:
  assumes "cpu_event ns e (c, w) = Inr (e', c', w')"
  shows "writer_frame w' = writer_frame w \<and> er_event e' = er_event e"
  using assms unfolding cpu_event_def
  by (auto simp: Let_def split: if_splits option.splits intro!: writer_frame_status)

lemma trace_event_node_facts:
  assumes "trace_event_node d r f b e (c, w) = Inr (e', c', w')"
  shows "writer_frame w' = writer_frame w \<and> same_event (er_event e') (er_event e)"
  using assms unfolding trace_event_node_def
  by (auto split: if_splits dest: node_event_facts cpu_event_facts)

lemma writeBlameMetric_frame: "writeBlameMetric ev b w = Inr w' \<Longrightarrow> writer_frame w' = writer_frame w"
  unfolding writeBlameMetric_def
  by (auto simp: bind_res_Inr Let_def dest!: write_record_frame split: if_splits)

lemma writeEventsWithWaitingTime_frame: "writeEventsWithWaitingTime ev t w = Inr w' \<Longrightarrow> writer_frame w' = writer_frame w"
  unfolding writeEventsWithWaitingTime_def by (auto dest!: write_record_frame split: if_splits)

lemma write_event_parts:
  assumes "write_event e b a w = Inr w'"
  obtains v where "v = w \<or> writeCriticalPathMetric (er_event e) a w = Inr v" "writer_frame w' = writer_frame v"
proof -
  have "\<exists>v. (v = w \<or> writeCriticalPathMetric (er_event e) a w = Inr v) \<and> writer_frame w' = writer_frame v"
    using assms unfolding write_event_def
    by (fastforce simp: bind_res_Inr split: if_splits dest!: writeBlameMetric_frame writeEventsWithWaitingTime_frame)
  then show thesis
    using that by blast
qed

lemma write_critical_profile: "write_critical i t v w = Inr w' \<Longrightarrow> profile_view w' = profile_view w"
  unfolding write_critical_def
  by (drule write_record_profile) (auto simp: profile_view_def fun_eq_iff)

lemma writeCriticalPathMetric_profile: "writeCriticalPathMetric ev a w = Inr w' \<Longrightarrow> profile_view w' = profile_view w"
  unfolding writeCriticalPathMetric_def
  by (auto simp: bind_res_Inr dest: write_critical_profile split: if_splits)

lemma write_event_profile: "write_event e b a w = Inr w' \<Longrightarrow> profile_view w' = profile_view w"
  by (erule write_event_parts) (auto simp: writer_frame_def dest: writeCriticalPathMetric_profile)

lemma computeBlameMap_status:
  "computeBlameMap h E t ev s = Inr (b, m, s') \<Longrightarrow> \<exists>k. s' = s\<lparr>ss_openEdges := k\<rparr>"
  by (auto simp: computeBlameMap_def bind_res_Inr)

lemma find_status_at: "find_status i w = Inr s \<Longrightarrow> status_at i w = s"
  by (auto simp: find_status_def status_at_def split: option.splits)

text \<open>An event is written first, then added to the profile, then put on the stack of its location.\<close>

lemma processNextEvent_parts:
  assumes "processNextEvent d ev (c, w) = Inr (c', w')"
  obtains w1 w2 w3 w4 e b m t onCP a where "writer_frame w1 = writer_frame w" "same_event (er_event e) ev"
    "write_event e b a w1 = Inr w2" "writer_frame w3 = writer_frame w2"
    "updateActivityGroupMap (er_event e) onCP t b m a w3 = Inr w4" "finish_event e w4 = Inr w'"
proof -
  obtain r st q fd where r: "getRegionInfo (ev_regionRef ev) d = Inr r" and st: "find_status (ev_location ev) w = Inr st"
    and q: "ss_stream st = Some q" and fd: "region_type r (ev_type ev) q c = Inr fd"
    using assms unfolding processNextEvent_def prod.case by (fastforce simp: bind_res_Inr split: option.splits)
  have p: "processNextEvent d ev (c, w) =
      (let p = stream_at q c; b = base p; available = (ss_currentNode st \<noteq> length (es_nodes b)); open_edges = (ss_openEdges st \<noteq> []) in
      bind_res (if open_edges then computeBlameMap (ca_heap c) (ge_edges (ca_engine c)) (de_timerOffset d) ev st
                else Inr (0, Map.empty, st)) (\<lambda>(blame, blameMap, st).
      let e = \<lparr>er_event = ev, er_onCP = False, er_waitingTime = 0, er_writeBlame = open_edges, er_next = ss_currentNode st\<rparr> in
      bind_res (trace_event_node d r fd b e (c, set_status (ev_location ev) st w)) (\<lambda>(e, s).
      bind_res (if isDeviceStream b \<and> ev_type ev = RECORD_ENTER then handleDeviceTaskEnter (ev_time ev) p True False s
                else Inr s) (\<lambda>(c, w).
      let blame = blame * wr_timeConversionFactor w in
      bind_res (write_event e blame available w) (\<lambda>w.
      bind_res (if isDeviceStream b \<and> ev_type ev = RECORD_LEAVE then handleDeviceTaskLeave (ev_time ev) p True (c, w)
                else Inr (c, w)) (\<lambda>(c, w).
      bind_res (updateActivityGroupMap (er_event e) (er_onCP e) (er_waitingTime e) blame blameMap available w) (\<lambda>w.
      bind_res (finish_event e w) (\<lambda>w. Inr (c, w)))))))))"
    unfolding processNextEvent_def prod.case r bind_res_simps st q option.case fd by (rule refl)
  let ?b = "base (stream_at q c)"
  obtain bl m s1 where s1: "(if ss_openEdges st \<noteq> [] then computeBlameMap (ca_heap c) (ge_edges (ca_engine c)) (de_timerOffset d) ev st
      else Inr (0, Map.empty, st)) = Inr (bl, m, s1)"
    using assms unfolding p Let_def by (auto simp: bind_res_Inr)
  obtain e c1 w0 where e: "trace_event_node d r fd ?b
      \<lparr>er_event = ev, er_onCP = False, er_waitingTime = 0, er_writeBlame = (ss_openEdges st \<noteq> []), er_next = ss_currentNode s1\<rparr>
      (c, set_status (ev_location ev) s1 w) = Inr (e, c1, w0)"
    using assms s1 unfolding p Let_def by (auto simp: bind_res_Inr)
  obtain c2 w1 where w1: "(if isDeviceStream ?b \<and> ev_type ev = RECORD_ENTER
      then handleDeviceTaskEnter (ev_time ev) (stream_at q c) True False (c1, w0) else Inr (c1, w0)) = Inr (c2, w1)"
    using assms s1 e unfolding p Let_def by (auto simp: bind_res_Inr)
  obtain w2 where w2: "write_event e (bl * wr_timeConversionFactor w1) (ss_currentNode st \<noteq> length (es_nodes ?b)) w1 = Inr w2"
    using assms s1 e w1 unfolding p Let_def by (auto simp: bind_res_Inr)
  obtain c3 w3 where w3: "(if isDeviceStream ?b \<and> ev_type ev = RECORD_LEAVE
      then handleDeviceTaskLeave (ev_time ev) (stream_at q c) True (c2, w2) else Inr (c2, w2)) = Inr (c3, w3)"
    using assms s1 e w1 w2 unfolding p Let_def by (auto simp: bind_res_Inr)
  obtain w4 where w4: "updateActivityGroupMap (er_event e) (er_onCP e) (er_waitingTime e) (bl * wr_timeConversionFactor w1) m
      (ss_currentNode st \<noteq> length (es_nodes ?b)) w3 = Inr w4" "finish_event e w4 = Inr w'"
    using assms s1 e w1 w2 w3 unfolding p Let_def by (auto simp: bind_res_Inr)
  have "writer_frame (set_status (ev_location ev) s1 w) = writer_frame w"
  proof (rule writer_frame_status)
    obtain k where "s1 = st\<lparr>ss_openEdges := k\<rparr> \<or> s1 = st"
      using s1 by (auto split: if_splits dest: computeBlameMap_status)
    then show "ss_activityStack s1 = ss_activityStack (status_at (ev_location ev) w)"
      "ss_lastEventTime s1 = ss_lastEventTime (status_at (ev_location ev) w)"
      "ss_lastWrittenCpValue s1 = ss_lastWrittenCpValue (status_at (ev_location ev) w)"
      using find_status_at [OF st] by auto
  qed
  then have f0: "writer_frame w0 = writer_frame w" "same_event (er_event e) ev"
    using trace_event_node_facts [OF e] by simp_all
  have "has_frame (writer_frame w0) (Inr (c2, w1))"
    unfolding w1 [symmetric] by (intro frame_if device_enter_frame frame_return) simp_all
  moreover have "has_frame (writer_frame w2) (Inr (c3, w3))"
    unfolding w3 [symmetric] by (intro frame_if device_leave_frame frame_return) simp_all
  ultimately show ?thesis
    using f0 w2 w4 by (intro that [of w1 e _ _ w2 w3 _ _ _ w4]) (auto dest: has_frameD)
qed

section \<open>The profile\<close>

fun process_events :: "definitions \<Rightarrow> otf2_event list \<Rightarrow> writer_state \<Rightarrow> writer_state result" where
  "process_events d [] s = Inr s"
| "process_events d (ev # evs) s = bind_res (processNextEvent d ev s) (process_events d evs)"

text \<open>What the profile promises, on the stacks of active regions alone: the time between two events of a location
  belongs to the region on top of its stack.\<close>

definition advance :: "otf2_event \<Rightarrow> (u64 \<Rightarrow> u32 list \<times> u64) \<Rightarrow> u64 \<Rightarrow> u32 list \<times> u64" where
  "advance ev \<sigma> = \<sigma>(ev_location ev :=
     (if ev_type ev = RECORD_ENTER then ev_regionRef ev # fst (\<sigma> (ev_location ev))
      else if ev_type ev = RECORD_LEAVE then tl (fst (\<sigma> (ev_location ev)))
      else fst (\<sigma> (ev_location ev)), ev_time ev))"

definition top_time :: "otf2_event \<Rightarrow> (u64 \<Rightarrow> u32 list \<times> u64) \<Rightarrow> u32 \<Rightarrow> u64" where
  "top_time ev \<sigma> r = (case \<sigma> (ev_location ev) of (q # qs, t) \<Rightarrow> if q = r then ev_time ev - t else 0 | _ \<Rightarrow> 0)"

fun exclusive_time :: "(u64 \<Rightarrow> u32 list \<times> u64) \<Rightarrow> otf2_event list \<Rightarrow> u32 \<Rightarrow> u64" where
  "exclusive_time \<sigma> [] r = 0"
| "exclusive_time \<sigma> (ev # evs) r = top_time ev \<sigma> r + exclusive_time (advance ev \<sigma>) evs r"

definition calls :: "u32 \<Rightarrow> otf2_event list \<Rightarrow> nat" where
  "calls r evs = length (filter (\<lambda>ev. ev_type ev = RECORD_ENTER \<and> ev_regionRef ev = r) evs)"

definition locations_of :: "writer \<Rightarrow> u64 \<Rightarrow> u32 list \<times> u64" where
  "locations_of w i = (ss_activityStack (status_at i w), ss_lastEventTime (status_at i w))"

lemma profile_view_eq: "profile_view w = (wr_groups w, locations_of w)"
  by (simp add: profile_view_def locations_of_def fun_eq_iff)

lemma group_at_field: "f (group_at i m) = field_at f m i" if "f ActivityGroup_zero = 0"
  using that by (simp add: group_at_def field_at_def split: option.split)

lemma field_update:
  "smap_inv m \<Longrightarrow> field_at f (smap_update i g m) r = (if r = i then f g else field_at f m r)"
  by (simp add: field_at_def smap_lookup_update)

lemma field_new_group: "smap_inv m \<Longrightarrow> f (ActivityGroup_zero\<lparr>ag_functionId := i\<rparr>) = 0 \<Longrightarrow> field_at f (new_group i m) r = field_at f m r"
  by (auto simp: new_group_def field_update) (auto simp: field_at_def)

lemma new_group_inv: "smap_inv m \<Longrightarrow> smap_inv (new_group i m)"
  by (simp add: new_group_def)

lemma count_call_inv: "smap_inv m \<Longrightarrow> smap_inv (count_call ev m)"
  by (simp add: count_call_def Let_def)

lemma field_count_call:
  "smap_inv m \<Longrightarrow> field_at ag_totalDuration (count_call ev m) r = field_at ag_totalDuration m r"
  "smap_inv m \<Longrightarrow> field_at ag_numInstances (count_call ev m) r =
     field_at ag_numInstances m r + (if ev_type ev = RECORD_ENTER \<and> ev_regionRef ev = r then 1 else 0)"
  by (auto simp: count_call_def Let_def field_update group_at_field ActivityGroup_zero_def)

lemma field_add_activity:
  "ag_totalDuration (add_activity t b wt bl rs g) = ag_totalDuration g + t"
  "ag_numInstances (add_activity t b wt bl rs g) = ag_numInstances g"
  by (simp_all add: add_activity_def Let_def)

lemma updateActivityGroupMap_fields:
  assumes "updateActivityGroupMap ev b wt bl m a w = Inr w'" "smap_inv (wr_groups w)"
  shows "locations_of w' = locations_of w" "metric_view w' = metric_view w" "smap_inv (wr_groups w')"
    "field_at ag_totalDuration (wr_groups w') r = field_at ag_totalDuration (wr_groups w) r + top_time ev (locations_of w) r"
    "field_at ag_numInstances (wr_groups w') r =
       field_at ag_numInstances (wr_groups w) r + (if ev_type ev = RECORD_ENTER \<and> ev_regionRef ev = r then 1 else 0)"
proof -
  let ?m = "count_call ev (new_group (ev_regionRef ev) (wr_groups w))"
  have i: "smap_inv (new_group (ev_regionRef ev) (wr_groups w))" "smap_inv ?m"
    using assms(2) by (simp_all add: new_group_inv count_call_inv)
  have z: "ag_totalDuration (ActivityGroup_zero\<lparr>ag_functionId := k\<rparr>) = 0" "ag_numInstances (ActivityGroup_zero\<lparr>ag_functionId := k\<rparr>) = 0"
    "ag_totalDuration ActivityGroup_zero = 0" "ag_numInstances ActivityGroup_zero = 0" for k
    by (simp_all add: ActivityGroup_zero_def)
  have f: "field_at ag_totalDuration ?m r = field_at ag_totalDuration (wr_groups w) r"
    "field_at ag_numInstances ?m r =
       field_at ag_numInstances (wr_groups w) r + (if ev_type ev = RECORD_ENTER \<and> ev_regionRef ev = r then 1 else 0)" for r
    using i assms(2) z by (simp_all add: field_count_call field_new_group)
  obtain st where st: "find_status (ev_location ev) w = Inr st"
    using assms(1) by (auto simp: updateActivityGroupMap_def Let_def bind_res_Inr)
  then have l: "locations_of w (ev_location ev) = (ss_activityStack st, ss_lastEventTime st)"
    by (simp add: locations_of_def find_status_at)
  have s: "status_at k (w\<lparr>wr_groups := g\<rparr>) = status_at k w" for k g
    by (simp add: status_at_def)
  consider "ss_activityStack st = []" "w' = w\<lparr>wr_groups := ?m\<rparr>"
    | q qs onCP rs where "ss_activityStack st = q # qs" "w' = w\<lparr>wr_groups := smap_update q (add_activity (ev_time ev - ss_lastEventTime st)
        onCP wt bl rs (group_at q ?m)) ?m\<rparr>"
    using assms(1) st by (auto simp: updateActivityGroupMap_def Let_def split: list.splits)
  note c = this
  have v: "locations_of w' = locations_of w \<and> metric_view w' = metric_view w"
    using c by cases (simp_all add: locations_of_def metric_view_def s fun_eq_iff)
  then show "locations_of w' = locations_of w" "metric_view w' = metric_view w"
    by simp_all
  show "smap_inv (wr_groups w')"
    using c i by cases simp_all
  show "field_at ag_totalDuration (wr_groups w') r = field_at ag_totalDuration (wr_groups w) r + top_time ev (locations_of w) r"
    using c by cases (simp_all add: top_time_def l f i field_update field_add_activity group_at_field z)
  show "field_at ag_numInstances (wr_groups w') r =
       field_at ag_numInstances (wr_groups w) r + (if ev_type ev = RECORD_ENTER \<and> ev_regionRef ev = r then 1 else 0)"
    using c by cases (simp_all add: f i field_update field_add_activity group_at_field z)
qed

lemma finish_event_view:
  assumes "finish_event e w = Inr w'"
  shows "locations_of w' = advance (er_event e) (locations_of w)" "metric_view w' = metric_view w" "wr_groups w' = wr_groups w"
  using assms unfolding finish_event_def Let_def
  by (auto simp: locations_of_def advance_def metric_view_def fun_eq_iff split: if_splits list.splits)

lemma same_event_spec:
  "same_event e ev \<Longrightarrow> advance e \<sigma> = advance ev \<sigma>" "same_event e ev \<Longrightarrow> top_time e \<sigma> r = top_time ev \<sigma> r"
  "same_event e ev \<Longrightarrow> ev_type e = RECORD_ENTER \<and> ev_regionRef e = r \<longleftrightarrow> ev_type ev = RECORD_ENTER \<and> ev_regionRef ev = r"
  by (auto simp: same_event_def advance_def) (auto simp: same_event_def top_time_def split: prod.split list.split)

lemma processNextEvent_profile:
  assumes "processNextEvent d ev (c, w) = Inr (c', w')" "smap_inv (wr_groups w)"
  shows "locations_of w' = advance ev (locations_of w) \<and> smap_inv (wr_groups w') \<and>
    field_at ag_totalDuration (wr_groups w') r = field_at ag_totalDuration (wr_groups w) r + top_time ev (locations_of w) r \<and>
    field_at ag_numInstances (wr_groups w') r =
      field_at ag_numInstances (wr_groups w) r + (if ev_type ev = RECORD_ENTER \<and> ev_regionRef ev = r then 1 else 0)"
proof -
  obtain w1 w2 w3 w4 e b m t onCP a where p: "writer_frame w1 = writer_frame w" "same_event (er_event e) ev"
    "write_event e b a w1 = Inr w2" "writer_frame w3 = writer_frame w2"
    "updateActivityGroupMap (er_event e) onCP t b m a w3 = Inr w4" "finish_event e w4 = Inr w'"
    by (rule processNextEvent_parts [OF assms(1)])
  have "profile_view w3 = profile_view w"
    using p(1,4) write_event_profile [OF p(3)] by (simp add: writer_frame_def)
  then have g: "wr_groups w3 = wr_groups w" "locations_of w3 = locations_of w"
    by (simp_all add: profile_view_eq)
  then have "smap_inv (wr_groups w3)"
    using assms(2) by simp
  note u = updateActivityGroupMap_fields(1,3) [OF p(5) this] updateActivityGroupMap_fields(4,5) [OF p(5) this, where r = r]
    finish_event_view [OF p(6)]
  show ?thesis
    using u unfolding g same_event_spec [OF p(2)] by simp
qed

lemma process_events_profile:
  "process_events d evs (c, w) = Inr (c', w') \<Longrightarrow> smap_inv (wr_groups w) \<Longrightarrow>
   field_at ag_totalDuration (wr_groups w') r = field_at ag_totalDuration (wr_groups w) r + exclusive_time (locations_of w) evs r \<and>
   field_at ag_numInstances (wr_groups w') r = field_at ag_numInstances (wr_groups w) r + of_nat (calls r evs)"
proof (induction evs arbitrary: c w)
  case (Cons ev evs)
  obtain c1 w1 where p: "processNextEvent d ev (c, w) = Inr (c1, w1)" "process_events d evs (c1, w1) = Inr (c', w')"
    using Cons(2) by (auto simp: bind_res_Inr)
  note e = processNextEvent_profile [OF p(1) Cons(3), of r]
  show ?case
    using Cons(1) [OF p(2)] e by (simp add: calls_def add.assoc)
qed (simp add: calls_def)

text \<open>C13. The profile refines the stacks of active regions: after any sequence of events the writer has processed, the time
  of a region has grown by the time in which it was on top of the stack of a location, and its calls by its enter
  events (both modulo the size of their counters). Device tasks, blame and the critical path have no part in it.\<close>
theorem profile_exclusive_time:
  assumes "process_events d evs (c, w) = Inr (c', w')" "smap_inv (wr_groups w)"
  shows "field_at ag_totalDuration (wr_groups w') r =
      field_at ag_totalDuration (wr_groups w) r + exclusive_time (locations_of w) evs r \<and>
    field_at ag_numInstances (wr_groups w') r = field_at ag_numInstances (wr_groups w) r + of_nat (calls r evs)"
  using process_events_profile [OF assms] by simp_all

definition demo_writer :: writer where
  "demo_writer = (Writer_new \<lparr>wu_lastIdleStart = 0, wu_lastComputeIdleStart = 0, wu_lastDeviceComTaskEnterTime = 0,
     wu_currentDeviceComTaskH2D = False, wu_previousDeviceComTaskH2D = False, wu_deviceConsecutiveComCount = 0\<rparr>
     True {7} 0 (demo_definitions\<lparr>de_timerResolution := 1\<rparr>))
     \<lparr>wr_status := (\<lambda>i. if i = 7 then Some (StreamStatus_zero\<lparr>ss_stream := Some 0,
       ss_currentNode := length (es_nodes (base (stream_at 0 demo_casita)))\<rparr>) else None)\<rparr>"

definition demo_event :: "record_type \<Rightarrow> u32 \<Rightarrow> u64 \<Rightarrow> otf2_event" where
  "demo_event t r time = \<lparr>ev_time = time, ev_regionRef = r, ev_location = 7, ev_type = t\<rparr>"

definition demo_events :: "otf2_event list" where
  "demo_events = [demo_event RECORD_ENTER 3 5, demo_event RECORD_ENTER 4 10, demo_event RECORD_LEAVE 4 20,
     demo_event RECORD_LEAVE 3 30]"

theorem profile_exclusive_time_witness:
  "\<exists>c w. process_events demo_definitions demo_events (demo_casita, demo_writer) = Inr (c, w) \<and>
     field_at ag_totalDuration (wr_groups w) 3 = 15 \<and> field_at ag_totalDuration (wr_groups w) 4 = 10 \<and>
     field_at ag_numInstances (wr_groups w) 4 = 1"
proof -
  have "case process_events demo_definitions demo_events (demo_casita, demo_writer) of Inr s \<Rightarrow> True | _ \<Rightarrow> False"
    by code_simp
  then obtain c w where p: "process_events demo_definitions demo_events (demo_casita, demo_writer) = Inr (c, w)"
    by (auto split: sum.splits)
  have g: "wr_groups demo_writer = []" "locations_of demo_writer 7 = ([], 0)"
    by (simp_all add: demo_writer_def Writer_new_def locations_of_def status_at_def StreamStatus_zero_def)
  have i: "smap_inv (wr_groups demo_writer)"
    by (simp add: g)
  have "exclusive_time (locations_of demo_writer) demo_events 3 = 15" "exclusive_time (locations_of demo_writer) demo_events 4 = 10"
    "calls 4 demo_events = 1"
    by (simp_all add: demo_events_def demo_event_def top_time_def advance_def g(2) calls_def)
  then show ?thesis
    using profile_exclusive_time [OF p i, of 3] profile_exclusive_time [OF p i, of 4] p by (simp add: g field_at_def)
qed

text \<open>Every group lies under its own identifier, and every active region has a group: no group is made from zeros by the
  access to the top of a stack.\<close>

definition profile_ok :: "writer \<Rightarrow> bool" where
  "profile_ok w \<longleftrightarrow> groups_ok (wr_groups w) \<and> (\<forall>i. \<forall>r \<in> set (fst (locations_of w i)). map_of (wr_groups w) r \<noteq> None)"

lemma groups_ok_lookup: "groups_ok m \<Longrightarrow> map_of m r = Some g \<Longrightarrow> ag_functionId g = r"
  by (auto simp: groups_ok_def dest!: map_of_SomeD)

lemma set_smap_update: "set (smap_update k v m) \<subseteq> insert (k, v) (set m)"
  by (induction k v m rule: smap_update.induct) auto

lemma groups_ok_update: "groups_ok m \<Longrightarrow> ag_functionId g = r \<Longrightarrow> groups_ok (smap_update r g m)"
  using set_smap_update [of r g m] by (auto simp: groups_ok_def)

lemma groups_ok_new: "groups_ok m \<Longrightarrow> groups_ok (new_group r m) \<and> map_of (new_group r m) r \<noteq> None"
  by (auto simp: new_group_def ActivityGroup_zero_def smap_lookup_update groups_ok_def [of m] intro!: groups_ok_update)

lemma add_activity_id: "ag_functionId (add_activity t b wt bl rs g) = ag_functionId g"
  by (simp add: add_activity_def Let_def)

lemma group_at_id: "groups_ok m \<Longrightarrow> map_of m r \<noteq> None \<Longrightarrow> ag_functionId (group_at r m) = r"
  by (auto simp: group_at_def dest: groups_ok_lookup)

lemma groups_ok_count: "groups_ok m \<Longrightarrow> map_of m (ev_regionRef ev) \<noteq> None \<Longrightarrow> groups_ok (count_call ev m)"
  using group_at_id [of m "ev_regionRef ev"] by (auto simp: count_call_def Let_def intro!: groups_ok_update)

lemma update_keys:
  "smap_inv m \<Longrightarrow> map_of (smap_update k g m) r = None \<longleftrightarrow> r \<noteq> k \<and> map_of m r = None"
  by (auto simp: smap_lookup_update)

lemma updateActivityGroupMap_ok:
  assumes "updateActivityGroupMap ev b wt bl m a w = Inr w'" "profile_ok w"
  shows "groups_ok (wr_groups w')" "map_of (wr_groups w') (ev_regionRef ev) \<noteq> None"
    "map_of (wr_groups w) r \<noteq> None \<Longrightarrow> map_of (wr_groups w') r \<noteq> None"
proof -
  let ?n = "new_group (ev_regionRef ev) (wr_groups w)" and ?m = "count_call ev (new_group (ev_regionRef ev) (wr_groups w))"
  have g: "groups_ok (wr_groups w)"
    using assms(2) by (simp add: profile_ok_def)
  have i: "smap_inv (wr_groups w)" "smap_inv ?n" "smap_inv ?m"
    using g by (simp_all add: groups_ok_def new_group_inv count_call_inv)
  have m: "groups_ok ?m" "map_of ?m (ev_regionRef ev) \<noteq> None" "map_of (wr_groups w) q \<noteq> None \<Longrightarrow> map_of ?m q \<noteq> None" for q
    using groups_ok_new [OF g] groups_ok_count [of ?n ev] i
    by (auto simp: count_call_def Let_def new_group_def smap_lookup_update)
  obtain st where st: "find_status (ev_location ev) w = Inr st"
    using assms(1) by (auto simp: updateActivityGroupMap_def Let_def bind_res_Inr)
  have top: "map_of ?m q \<noteq> None" if "ss_activityStack st = q # qs" for q qs
    using assms(2) find_status_at [OF st] that m(3) [of q]
    by (auto simp: profile_ok_def locations_of_def dest!: spec [of _ "ev_location ev"])
  consider "w' = w\<lparr>wr_groups := ?m\<rparr>"
    | q qs onCP rs where "ss_activityStack st = q # qs" "w' = w\<lparr>wr_groups := smap_update q (add_activity (ev_time ev - ss_lastEventTime st)
        onCP wt bl rs (group_at q ?m)) ?m\<rparr>"
    using assms(1) st by (auto simp: updateActivityGroupMap_def Let_def split: list.splits)
  note c = this
  show "groups_ok (wr_groups w')"
    using c by cases (simp_all add: m(1) groups_ok_update add_activity_id group_at_id top)
  show "map_of (wr_groups w') (ev_regionRef ev) \<noteq> None"
    using c by cases (use m(2) in \<open>simp_all add: smap_lookup_update i\<close>)
  show "map_of (wr_groups w) r \<noteq> None \<Longrightarrow> map_of (wr_groups w') r \<noteq> None"
    using c m(3) [of r] by cases (simp_all add: smap_lookup_update i)
qed

lemma processNextEvent_ok:
  assumes "processNextEvent d ev (c, w) = Inr (c', w')" "profile_ok w"
  shows "profile_ok w'"
proof -
  obtain w1 w2 w3 w4 e b m t onCP a where p: "writer_frame w1 = writer_frame w" "same_event (er_event e) ev"
    "write_event e b a w1 = Inr w2" "writer_frame w3 = writer_frame w2"
    "updateActivityGroupMap (er_event e) onCP t b m a w3 = Inr w4" "finish_event e w4 = Inr w'"
    by (rule processNextEvent_parts [OF assms(1)])
  have "profile_view w3 = profile_view w"
    using p(1,4) write_event_profile [OF p(3)] by (simp add: writer_frame_def)
  then have g: "wr_groups w3 = wr_groups w" "locations_of w3 = locations_of w"
    by (simp_all add: profile_view_eq)
  then have ok: "profile_ok w3"
    using assms(2) by (simp add: profile_ok_def)
  then have i: "smap_inv (wr_groups w3)"
    by (simp add: profile_ok_def groups_ok_def)
  note u = updateActivityGroupMap_ok [OF p(5) ok]
  have l: "locations_of w' = advance (er_event e) (locations_of w3)" "wr_groups w' = wr_groups w4"
    using finish_event_view [OF p(6)] updateActivityGroupMap_fields(1) [OF p(5) i] by simp_all
  have "set (fst (locations_of w' i)) \<subseteq> insert (ev_regionRef (er_event e)) (set (fst (locations_of w3 i)))" for i
    unfolding l advance_def by (cases "fst (locations_of w3 i)") auto
  then show ?thesis
    using u ok unfolding profile_ok_def l(2) by blast
qed

text \<open>C14. The profile stays well typed: after any sequence of events every group lies under its own identifier, and every
  region on the stack of a location has a group.\<close>
theorem profile_well_typed:
  assumes "process_events d evs (c, w) = Inr (c', w')" "profile_ok w"
  shows "profile_ok w'"
  using assms
proof (induction evs arbitrary: c w)
  case (Cons ev evs)
  obtain c1 w1 where p: "processNextEvent d ev (c, w) = Inr (c1, w1)" "process_events d evs (c1, w1) = Inr (c', w')"
    using Cons(2) by (auto simp: bind_res_Inr)
  show ?case
    using Cons(1) [OF p(2)] processNextEvent_ok [OF p(1) Cons(3)] by simp
qed simp

theorem profile_well_typed_witness:
  "\<exists>c w. process_events demo_definitions (take 3 demo_events) (demo_casita, demo_writer) = Inr (c, w) \<and> profile_ok w \<and>
     fst (locations_of w 7) = [3]"
proof -
  have "case process_events demo_definitions (take 3 demo_events) (demo_casita, demo_writer) of
      Inr s \<Rightarrow> fst (locations_of (snd s) 7) = [3] | _ \<Rightarrow> False"
    by code_simp
  then obtain c w where p: "process_events demo_definitions (take 3 demo_events) (demo_casita, demo_writer) = Inr (c, w)"
      "fst (locations_of w 7) = [3]"
    by (auto split: sum.splits)
  have "profile_ok demo_writer"
    by (auto simp: profile_ok_def demo_writer_def Writer_new_def groups_ok_def locations_of_def status_at_def StreamStatus_zero_def)
  then show ?thesis
    using profile_well_typed [OF p(1)] p by blast
qed

section \<open>The critical-path metric\<close>

fun alternates :: "bool \<Rightarrow> bool list \<Rightarrow> bool" where
  "alternates b [] \<longleftrightarrow> True"
| "alternates b (v # vs) \<longleftrightarrow> v \<noteq> b \<and> alternates v vs"

lemma alternates_append: "alternates b (vs @ [v]) \<longleftrightarrow> alternates b vs \<and> v \<noteq> last (b # vs)"
  by (induction b vs rule: alternates.induct) auto

text \<open>What has been written for a location, and the value remembered, since the view \<open>v\<close>.\<close>

definition metric_ok :: "bool list \<times> bool \<Rightarrow> u64 \<Rightarrow> writer \<Rightarrow> bool" where
  "metric_ok v i w \<longleftrightarrow> (\<exists>vs. metric_view w i = (fst v @ vs, last (snd v # vs)) \<and> alternates (snd v) vs)"

lemma metric_ok_refl: "metric_ok (metric_view w i) i w"
  unfolding metric_ok_def by (intro exI [of _ "[]"]) simp

lemma write_critical_ok:
  assumes "write_critical i t v w = Inr w'" "ss_lastWrittenCpValue (status_at i w) \<noteq> v" "metric_ok u j w"
  shows "metric_ok u j w'"
proof -
  have e: "metric_view w' k = (if k = i then (critical_values k (wr_out w) @ [v], v) else metric_view w k)" for k
    using assms(1) by (auto simp: write_critical_def write_record_def metric_view_def status_at_def set_status_def split: if_splits)
  obtain vs where vs: "metric_view w j = (fst u @ vs, last (snd u # vs))" "alternates (snd u) vs"
    using assms(3) by (auto simp: metric_ok_def)
  show ?thesis
  proof (cases "j = i")
    case True
    then have "metric_view w' j = (fst u @ vs @ [v], last (snd u # vs @ [v]))" "alternates (snd u) (vs @ [v])"
      using e [of j] vs assms(2) by (simp_all add: metric_view_def alternates_append)
    then show ?thesis
      unfolding metric_ok_def by blast
  next
    case False
    then show ?thesis
      using e [of j] vs unfolding metric_ok_def by auto
  qed
qed

lemma writeCriticalPathMetric_ok: "writeCriticalPathMetric ev a w = Inr w' \<Longrightarrow> metric_ok u j w \<Longrightarrow> metric_ok u j w'"
  unfolding writeCriticalPathMetric_def
  by (auto simp: bind_res_Inr dest!: find_status_at elim: write_critical_ok split: if_splits)

lemma processNextEvent_metric:
  assumes "processNextEvent d ev (c, w) = Inr (c', w')" "smap_inv (wr_groups w)" "metric_ok u j w"
  shows "metric_ok u j w'"
proof -
  obtain w1 w2 w3 w4 e b m t onCP a where p: "writer_frame w1 = writer_frame w" "same_event (er_event e) ev"
    "write_event e b a w1 = Inr w2" "writer_frame w3 = writer_frame w2"
    "updateActivityGroupMap (er_event e) onCP t b m a w3 = Inr w4" "finish_event e w4 = Inr w'"
    by (rule processNextEvent_parts [OF assms(1)])
  obtain v where v: "v = w1 \<or> writeCriticalPathMetric (er_event e) a w1 = Inr v" "writer_frame w2 = writer_frame v"
    by (rule write_event_parts [OF p(3)])
  have "metric_ok u j w1"
    using assms(3) p(1) by (simp add: metric_ok_def writer_frame_def)
  then have "metric_ok u j v"
    using v(1) by (auto dest: writeCriticalPathMetric_ok)
  moreover have "profile_view w3 = profile_view w"
    using p(1,4) write_event_profile [OF p(3)] by (simp add: writer_frame_def)
  then have "smap_inv (wr_groups w3)"
    using assms(2) by (simp add: profile_view_eq)
  ultimately show ?thesis
    using updateActivityGroupMap_fields(2) [OF p(5)] finish_event_view(2) [OF p(6)] p(4) v(2)
    by (simp add: metric_ok_def writer_frame_def)
qed

lemma process_events_metric:
  "process_events d evs (c, w) = Inr (c', w') \<Longrightarrow> smap_inv (wr_groups w) \<Longrightarrow> metric_ok u j w \<Longrightarrow> metric_ok u j w'"
proof (induction evs arbitrary: c w)
  case (Cons ev evs)
  obtain c1 w1 where p: "processNextEvent d ev (c, w) = Inr (c1, w1)" "process_events d evs (c1, w1) = Inr (c', w')"
    using Cons(2) by (auto simp: bind_res_Inr)
  show ?case
    using Cons(1) [OF p(2)] processNextEvent_profile [OF p(1) Cons(3)] processNextEvent_metric [OF p(1) Cons(3,4)] by simp
qed simp

text \<open>C19. The values of the critical-path metric that are written for a location while the events of an interval are
  processed alternate: the first one differs from the value the writer remembers at the begin, every further one from
  the one before, and the writer remembers the last one, whatever the nodes of the stream say. (At the begin of an
  interval \<^verbatim>\<open>writeLocations\<close> writes a zero without this test.)\<close>
theorem critical_metric_alternates:
  assumes "process_events d evs (c, w) = Inr (c', w')" "smap_inv (wr_groups w)"
  shows "\<exists>vs. critical_values i (wr_out w') = critical_values i (wr_out w) @ vs \<and>
    alternates (ss_lastWrittenCpValue (status_at i w)) vs \<and>
    ss_lastWrittenCpValue (status_at i w') = last (ss_lastWrittenCpValue (status_at i w) # vs)"
proof -
  obtain vs where "metric_view w' i = (fst (metric_view w i) @ vs, last (snd (metric_view w i) # vs))" "alternates (snd (metric_view w i)) vs"
    using process_events_metric [OF assms metric_ok_refl, of i] unfolding metric_ok_def by blast
  then show ?thesis
    by (intro exI [of _ vs]) (simp only: metric_view_def fst_conv snd_conv prod.inject simp_thms)
qed

theorem critical_metric_alternates_witness:
  "\<exists>c w. process_events demo_definitions demo_events
      (demo_casita, set_status 7 ((status_at 7 demo_writer)\<lparr>ss_onCriticalPath := True\<rparr>) demo_writer) = Inr (c, w) \<and>
     critical_values 7 (wr_out w) = [True, False] \<and> alternates False (critical_values 7 (wr_out w))"
proof -
  let ?w = "set_status 7 ((status_at 7 demo_writer)\<lparr>ss_onCriticalPath := True\<rparr>) demo_writer"
  have "case process_events demo_definitions demo_events (demo_casita, ?w) of
      Inr s \<Rightarrow> critical_values 7 (wr_out (snd s)) = [True, False] | _ \<Rightarrow> False"
    by code_simp
  then obtain c w where p: "process_events demo_definitions demo_events (demo_casita, ?w) = Inr (c, w)"
      "critical_values 7 (wr_out w) = [True, False]"
    by (auto split: sum.splits)
  have "wr_groups ?w = []" "wr_out ?w = []" "\<not> ss_lastWrittenCpValue (status_at 7 ?w)"
    by (simp_all add: demo_writer_def Writer_new_def status_at_def StreamStatus_zero_def)
  then show ?thesis
    using critical_metric_alternates [OF p(1), where i = 7] p by simp
qed

section \<open>The blame of open edges\<close>

definition blame_at :: "blame_map \<Rightarrow> blame_reason \<Rightarrow> rat" where
  "blame_at m r = (case m r of None \<Rightarrow> 0 | Some b \<Rightarrow> b)"

lemma blame_at_empty [simp]: "blame_at Map.empty r = 0"
  by (simp add: blame_at_def)

lemma blame_at_add_reason: "blame_at (add_reason r v m) q = blame_at m q + (if q = r then v else 0)"
  by (auto simp: add_reason_def blame_at_def split: option.split)

lemma event_share_0 [simp]: "event_share 0 t d = 0"
  by (simp add: event_share_def)

lemma event_share_add: "event_share (a + b) t d = event_share a t d + event_share b t d"
  by (simp add: event_share_def algebra_simps add_divide_distrib)

lemma add_edge_blame_sums:
  "add_edge_blame e \<delta> rs (t, m) = (t', m') \<Longrightarrow> distinct rs \<Longrightarrow>
   blame_at m' q = blame_at m q + (if q \<in> set rs then event_share (edge_getBlame q e) \<delta> (e_duration e) else 0) \<and>
   t' = t + (\<Sum>r\<leftarrow>rs. event_share (edge_getBlame r e) \<delta> (e_duration e))"
proof (induction e \<delta> rs "(t, m)" arbitrary: t m rule: add_edge_blame.induct)
  case (2 e \<delta> r rs t m)
  show ?case
  proof (cases "e_blame e r")
    case None
    then show ?thesis
      using 2(1) [OF None] 2(3,4) by (auto simp: edge_getBlame_def)
  next
    case (Some b)
    let ?v = "event_share b \<delta> (e_duration e)"
    have "edge_getBlame r e = b"
      using Some by (simp add: edge_getBlame_def)
    then show ?thesis
      using 2(2) [OF Some refl] 2(3,4) Some by (auto simp: blame_at_add_reason Let_def)
  qed
qed simp

lemma distinct_all_reasons: "distinct all_reasons"
  using all_reasons_sorted strict_sorted_iff by blast

lemma sum_all_reasons: "(\<Sum>r\<leftarrow>all_reasons. f r) = (\<Sum>r\<in>UNIV. f r)" for f :: "blame_reason \<Rightarrow> rat"
  using sum_list_distinct_conv_sum_set [OF distinct_all_reasons, of f] all_reasons_complete by simp

lemma all_shares: "(\<Sum>r\<leftarrow>all_reasons. event_share (edge_getBlame r e) \<delta> u) = event_share (getTotalBlame e) \<delta> u"
  by (simp add: getTotalBlame_sum all_reasons_def event_share_add)

text \<open>The two forms of the step go through the same edges.\<close>

lemma blame_loop_sums:
  "blame_loop h E \<delta> u es (t, m) = Inr (k, t', m') \<Longrightarrow>
   unclassified_loop h E \<delta> u es (blame_at m REASON_UNCLASSIFIED) = Inr (k, blame_at m' REASON_UNCLASSIFIED) \<and>
   t' - t = (\<Sum>r\<in>UNIV. blame_at m' r - blame_at m r)"
proof (induction h E \<delta> u es "(t, m)" arbitrary: t m k rule: blame_loop.induct)
  case (2 h E \<delta> u e es t m)
  show ?case
  proof (cases "edge_covers h (E e) u")
    case False
    then show ?thesis
      using 2(3) [OF False] 2(4) by simp
  next
    case True
    obtain t1 m1 where s1: "add_edge_blame (E e) \<delta> all_reasons (t, m) = (t1, m1)"
      by fastforce
    have a: "blame_at m1 q = blame_at m q + event_share (edge_getBlame q (E e)) \<delta> (e_duration (E e))"
      "t1 = t + (\<Sum>r\<in>UNIV. event_share (edge_getBlame r (E e)) \<delta> (e_duration (E e)))" for q
      using add_edge_blame_sums [OF s1 distinct_all_reasons] by (simp_all add: all_reasons_complete sum_all_reasons)
    have b: "t1 - t = (\<Sum>r\<in>UNIV. blame_at m1 r - blame_at m r)"
      by (simp add: a)
    show ?thesis
    proof (cases "nd_time (h (e_end (E e))) = u")
      case fin: True
      obtain f fs k1 where f: "es = f # fs" "blame_loop h E \<delta> u fs (t1, m1) = Inr (k1, t', m')" "k = f # k1"
        using 2(4) True fin s1 by (auto simp: bind_res_Inr split: list.splits)
      show ?thesis
        using 2(1) [OF True s1 [symmetric] fin f(1) f(2)] True fin f s1 b a(1) by (simp add: sum_subtractf sum.distrib)
    next
      case False
      obtain k1 where k1: "blame_loop h E \<delta> u es (t1, m1) = Inr (k1, t', m')" "k = e # k1"
        using 2(4) True False s1 by (auto simp: bind_res_Inr)
      show ?thesis
        using 2(2) [OF True s1 [symmetric] False k1(1)] True False k1 s1 b a(1) by (simp add: sum_subtractf sum.distrib)
    qed
  qed
qed simp

lemma bind_res_pair_fails: "bind_res r (\<lambda>(k, s). Inr (g k s)) = Inl x \<longleftrightarrow> r = Inl x"
  by (cases r) auto

lemma blame_loop_fails:
  "blame_loop h E \<delta> u es s = Inl x \<longleftrightarrow> unclassified_loop h E \<delta> u es b = Inl x"
proof (induction h E \<delta> u es s arbitrary: b rule: blame_loop.induct)
  case (2 h E \<delta> u e es s)
  show ?case
  proof (cases "edge_covers h (E e) u")
    case True
    obtain t1 m1 where s1: "add_edge_blame (E e) \<delta> all_reasons s = (t1, m1)"
      by fastforce
    show ?thesis
      using 2(1) [OF True refl] 2(2) [OF True refl] True s1
      by (cases "nd_time (h (e_end (E e))) = u") (auto simp: bind_res_pair_fails Let_def split: list.split)
  qed (use 2(3) in simp)
qed simp

text \<open>The blame an event gets is the sum of the blame of the single reasons, and the earlier form of the step
  returns the part of it that has no reason, or fails in the same way.\<close>
lemma computeBlame_unclassified:
  "computeBlame h E off ev s =
    (case computeBlameMap h E off ev s of Inl x \<Rightarrow> Inl x | Inr (b, m, s') \<Rightarrow> Inr (blame_at m REASON_UNCLASSIFIED, s')) \<and>
   (case computeBlameMap h E off ev s of Inl x \<Rightarrow> True | Inr (b, m, s') \<Rightarrow> b = (\<Sum>r\<in>UNIV. blame_at m r))"
proof -
  let ?u = "ev_time ev - off" and ?t = "ev_time ev - ss_lastEventTime s"
  show ?thesis
  proof (cases "blame_loop h E ?t ?u (ss_openEdges s) (0, Map.empty)")
    case (Inl x)
    moreover have "unclassified_loop h E ?t ?u (ss_openEdges s) 0 = Inl x"
      using Inl blame_loop_fails by blast
    ultimately show ?thesis
      by (simp add: computeBlame_def computeBlameMap_def)
  next
    case (Inr p)
    obtain k b m where p: "blame_loop h E ?t ?u (ss_openEdges s) (0, Map.empty) = Inr (k, b, m)"
      using Inr by (cases p) auto
    show ?thesis
      using blame_loop_sums [OF p] p by (simp add: computeBlame_def computeBlameMap_def)
  qed
qed

text \<open>An edge of which the event is the end is erased, and the list may end there.\<close>

definition edge_ends :: "heap \<Rightarrow> edge \<Rightarrow> u64 \<Rightarrow> bool" where
  "edge_ends h e t \<longleftrightarrow> edge_covers h e t \<and> nd_time (h (e_end e)) = t"

lemma blame_loop_last:
  "edge_ends h (E e) u \<Longrightarrow> (\<And>f. f \<in> set es \<Longrightarrow> \<not> edge_ends h (E f) u) \<Longrightarrow> blame_loop h E \<delta> u (es @ [e]) s = Inl Out_Of_Bounds"
  by (induction es arbitrary: s) (auto simp: edge_ends_def Let_def split: list.splits)

text \<open>C20. When the last open edge of a location, and no other one, ends at an event, the step erases it and goes on past
  the end of the list. This is the common case of one open edge that ends at the next node of the stream.\<close>
theorem finished_last_edge_undefined:
  assumes "ss_openEdges s = es @ [e]" "edge_ends h (E e) (ev_time ev - off)"
    "\<And>f. f \<in> set es \<Longrightarrow> \<not> edge_ends h (E f) (ev_time ev - off)"
  shows "computeBlameMap h E off ev s = Inl Out_Of_Bounds"
  using blame_loop_last [of h E e "ev_time ev - off" es] assms(2,3) by (simp add: computeBlameMap_def assms(1))

definition demo_nodes :: heap where
  "demo_nodes n = (if n = 0 then demo_region RECORD_LEAVE 10 else demo_region RECORD_ENTER 20)"

definition demo_open_edge :: edge where
  "demo_open_edge = edge_addBlame 5 REASON_UNCLASSIFIED (Edge_new demo_nodes 0 1 10 False PARADIGM_MPI)"

lemma demo_open_edge_facts:
  "e_duration demo_open_edge = 10" "e_start demo_open_edge = 0" "e_end demo_open_edge = 1" "nd_time (demo_nodes 0) = 10"
  "nd_time (demo_nodes (Suc 0)) = 20" "getTotalBlame demo_open_edge = 5"
  by code_simp+

theorem finished_last_edge_undefined_witness:
  "computeBlameMap demo_nodes (\<lambda>_. demo_open_edge) 0 (demo_event RECORD_ENTER 4 20)
     (StreamStatus_zero\<lparr>ss_openEdges := [0]\<rparr>) = Inl Out_Of_Bounds"
  by (rule finished_last_edge_undefined [where es = "[]" and e = 0])
    (simp_all add: edge_ends_def edge_covers_def demo_open_edge_facts demo_event_def)

text \<open>The events of a location while its open edges last.\<close>

fun blame_events ::
  "heap \<Rightarrow> edge_heap \<Rightarrow> u64 \<Rightarrow> otf2_event list \<Rightarrow> stream_status \<Rightarrow> (rat \<times> stream_status) result" where
  "blame_events h E off [] s = Inr (0, s)"
| "blame_events h E off (ev # evs) s = bind_res (computeBlameMap h E off ev s) (\<lambda>(b, m, s).
     bind_res (blame_events h E off evs (s\<lparr>ss_lastEventTime := ev_time ev\<rparr>)) (\<lambda>(t, s). Inr (b + t, s)))"

definition edge_open :: "heap \<Rightarrow> edge \<Rightarrow> u64 \<Rightarrow> bool" where
  "edge_open h e t \<longleftrightarrow> e_duration e > 0 \<and> nd_time (h (e_start e)) \<le> t \<and> t < nd_time (h (e_end e))"

definition blame_rate :: "edge_heap \<Rightarrow> edge_ref list \<Rightarrow> rat" where
  "blame_rate E es = (\<Sum>e\<leftarrow>es. getTotalBlame (E e) / of_nat (unat (e_duration (E e))))"

lemma event_share_rate: "event_share b t d = b / of_nat (unat d) * of_nat (unat t)"
  by (simp add: event_share_def)

lemma blame_loop_open:
  "(\<And>e. e \<in> set es \<Longrightarrow> edge_open h (E e) u) \<Longrightarrow>
   \<exists>m'. blame_loop h E \<delta> u es (t, m) = Inr (es, t + blame_rate E es * of_nat (unat \<delta>), m')"
proof (induction es arbitrary: t m)
  case (Cons e es)
  obtain t1 m1 where s1: "add_edge_blame (E e) \<delta> all_reasons (t, m) = (t1, m1)"
    by fastforce
  have t1: "t1 = t + event_share (getTotalBlame (E e)) \<delta> (e_duration (E e))"
    using add_edge_blame_sums [OF s1 distinct_all_reasons] by (simp add: all_shares)
  have c: "edge_covers h (E e) u" "nd_time (h (e_end (E e))) \<noteq> u"
    using Cons(2) [of e] by (auto simp: edge_open_def edge_covers_def)
  show ?case
    using Cons(1) [of t1 m1] Cons(2) c s1 t1 by (auto simp: blame_rate_def event_share_rate algebra_simps)
qed (simp add: blame_rate_def)

lemma computeBlameMap_open:
  assumes "\<And>e. e \<in> set (ss_openEdges s) \<Longrightarrow> edge_open h (E e) (ev_time ev - off)" "ss_lastEventTime s \<le> ev_time ev"
  shows "\<exists>m. computeBlameMap h E off ev s = Inr
    (blame_rate E (ss_openEdges s) * (of_nat (unat (ev_time ev)) - of_nat (unat (ss_lastEventTime s))), m, s)"
proof -
  have "unat (ev_time ev - ss_lastEventTime s) = unat (ev_time ev) - unat (ss_lastEventTime s)"
    "unat (ss_lastEventTime s) \<le> unat (ev_time ev)"
    using assms(2) by (simp_all add: unat_sub word_le_nat_alt)
  then show ?thesis
    using blame_loop_open [of "ss_openEdges s" h E "ev_time ev - off" "ev_time ev - ss_lastEventTime s" 0 Map.empty] assms(1)
    by (auto simp: computeBlameMap_def of_nat_diff)
qed

text \<open>C18. While the open edges of a location last, its events share their blame in proportion to the time: together the
  events get the blame of the edges times the time that has passed, over the duration of the edge.\<close>
theorem open_blame_by_time:
  assumes "sorted_wrt (\<le>) (ss_lastEventTime s # map ev_time evs)"
    "\<And>e ev. e \<in> set (ss_openEdges s) \<Longrightarrow> ev \<in> set evs \<Longrightarrow> edge_open h (E e) (ev_time ev - off)"
  shows "\<exists>s'. blame_events h E off evs s = Inr (blame_rate E (ss_openEdges s) *
      (of_nat (unat (last (ss_lastEventTime s # map ev_time evs))) - of_nat (unat (ss_lastEventTime s))), s')"
  using assms
proof (induction evs arbitrary: s)
  case (Cons ev evs)
  let ?s = "s\<lparr>ss_lastEventTime := ev_time ev\<rparr>"
  obtain m where m: "computeBlameMap h E off ev s = Inr
    (blame_rate E (ss_openEdges s) * (of_nat (unat (ev_time ev)) - of_nat (unat (ss_lastEventTime s))), m, s)"
    using computeBlameMap_open [of s h E ev off] Cons(2,3) by auto
  have "\<exists>s'. blame_events h E off evs ?s = Inr (blame_rate E (ss_openEdges ?s) *
      (of_nat (unat (last (ss_lastEventTime ?s # map ev_time evs))) - of_nat (unat (ss_lastEventTime ?s))), s')"
    using Cons(2,3) by (intro Cons(1)) auto
  then show ?case
    using m by (auto simp: algebra_simps)
qed simp

theorem open_blame_by_time_witness:
  "\<exists>s. blame_events demo_nodes (\<lambda>_. demo_open_edge) 0 [demo_event RECORD_ENTER 4 12, demo_event RECORD_LEAVE 4 18]
     (StreamStatus_zero\<lparr>ss_openEdges := [0], ss_lastEventTime := 10\<rparr>) = Inr (4, s)"
proof -
  let ?s = "StreamStatus_zero\<lparr>ss_openEdges := [0], ss_lastEventTime := 10\<rparr>"
  let ?evs = "[demo_event RECORD_ENTER 4 12, demo_event RECORD_LEAVE 4 18]"
  have "edge_open demo_nodes demo_open_edge (ev_time ev - 0)" if "ev \<in> set ?evs" for ev
    using that by (auto simp: edge_open_def demo_open_edge_facts demo_event_def)
  then have "\<exists>s'. blame_events demo_nodes (\<lambda>_. demo_open_edge) 0 ?evs ?s = Inr (blame_rate (\<lambda>_. demo_open_edge) (ss_openEdges ?s) *
      (of_nat (unat (last (ss_lastEventTime ?s # map ev_time ?evs))) - of_nat (unat (ss_lastEventTime ?s))), s')"
    by (intro open_blame_by_time) (auto simp: demo_event_def)
  moreover have "blame_rate (\<lambda>_. demo_open_edge) (ss_openEdges ?s) *
      (of_nat (unat (last (ss_lastEventTime ?s # map ev_time ?evs))) - of_nat (unat (ss_lastEventTime ?s))) = 4"
    by (simp add: blame_rate_def demo_open_edge_facts demo_event_def)
  ultimately show ?thesis
    by (simp only: )
qed

end
