(* ===== verification/IdleLaws.thy ===== *)
theory IdleLaws
  imports WriterLaws
begin

text \<open>The idle times of a device: the counters of active tasks that the writer keeps (\<^verbatim>\<open>handleDeviceTaskEnter\<close> and
  \<^verbatim>\<open>handleDeviceTaskLeave\<close>) sum up the gaps in which no task is active.\<close>

section \<open>Postconditions\<close>

definition post :: "(casita \<Rightarrow> writer \<Rightarrow> bool) \<Rightarrow> writer_state result \<Rightarrow> bool" where
  "post Q r \<longleftrightarrow> (\<forall>c w. r = Inr (c, w) \<longrightarrow> Q c w)"

lemma postD: "post Q r \<Longrightarrow> r = Inr (c, w) \<Longrightarrow> Q c w"
  by (simp add: post_def)

lemma post_return: "Q c w \<Longrightarrow> post Q (Inr (c, w))"
  by (simp add: post_def)

lemma post_if: "(b \<Longrightarrow> post Q r) \<Longrightarrow> (\<not> b \<Longrightarrow> post Q s) \<Longrightarrow> post Q (if b then r else s)"
  by simp

lemma post_bind: "post (\<lambda>c w. post Q (f c w)) r \<Longrightarrow> post Q (bind_res r (\<lambda>(c, w). f c w))"
  by (cases r) (auto simp: post_def)

lemma post_mono: "post P r \<Longrightarrow> (\<And>c w. P c w \<Longrightarrow> Q c w) \<Longrightarrow> post Q r"
  by (auto simp: post_def)

text \<open>The statistics, and what the writer knows of the tasks.\<close>

definition stat_at :: "nat \<Rightarrow> casita \<Rightarrow> u64" where
  "stat_at m c = st_stats (an_stats (ca_analysis c)) m"

definition tasks_of :: "writer \<Rightarrow> (int \<times> u64) \<times> int \<times> u64" where
  "tasks_of w = ((wr_deviceRefCount w, wr_lastIdleStart w), wr_deviceComputeRefCount w, wr_lastComputeIdleStart w)"

lemma value_stat_at: "value_stat m t c = Inr c' \<Longrightarrow> stat_at k c' = (if k = m then stat_at k c + t else stat_at k c)"
  by (auto simp: value_stat_def addStatValue_def put_stats_def stat_at_def split: if_splits)

lemma value_stat_other: "value_stat m t c = Inr c' \<Longrightarrow> k \<noteq> m \<Longrightarrow> stat_at k c' = stat_at k c"
  by (simp add: value_stat_at)

lemma count_stat_at: "count_stat m t c = Inr c' \<Longrightarrow> k \<noteq> m \<Longrightarrow> k \<noteq> m + 1 \<Longrightarrow> stat_at k c' = stat_at k c"
  by (auto simp: count_stat_def addStatWithCount_def put_stats_def stat_at_def Let_def split: if_splits)

lemma post_casita: "(\<And>c'. r = Inr c' \<Longrightarrow> post Q (f c')) \<Longrightarrow> post Q (bind_res r f)" for r :: "casita result"
  by (cases r) (auto simp: post_def)

lemma post_value:
  "(\<And>c'. (\<And>k. stat_at k c' = (if k = m then stat_at k c + t else stat_at k c)) \<Longrightarrow> post Q (f c')) \<Longrightarrow>
   post Q (bind_res (value_stat m t c) f)"
  by (rule post_casita) (auto dest: value_stat_at)

lemma first_device_stats: "first_device_stream k c = Inr (i, c') \<Longrightarrow> stat_at m c' = stat_at m c"
  by (auto simp: first_device_stream_def bind_res_Inr stat_at_def)

lemma write_record_tasks: "write_record i r w = Inr w' \<Longrightarrow> tasks_of w' = tasks_of w"
  by (auto simp: write_record_def tasks_of_def split: if_splits)

lemma post_idle:
  "(\<And>c' w'. (\<And>k. stat_at k c' = stat_at k c) \<Longrightarrow> tasks_of w' = tasks_of w \<Longrightarrow> Q c' w') \<Longrightarrow> post Q (write_idle b k r (c, w))"
  by (auto simp: post_def write_idle_def bind_res_Inr dest: first_device_stats write_record_tasks split: if_splits)

section \<open>The gaps between tasks\<close>

text \<open>A task event is an enter or a leave, of a kernel or of a transfer, with its time. The idle time is the sum of the
  gaps between neighbouring events in which no task is active.\<close>

record task_event =
  te_enter :: bool
  te_compute :: bool
  te_time :: u64

fun idle_gaps :: "int \<Rightarrow> u64 \<Rightarrow> task_event list \<Rightarrow> u64" where
  "idle_gaps n p [] = 0"
| "idle_gaps n p (e # es) = (if n = 0 then te_time e - p else 0) + idle_gaps (if te_enter e then n + 1 else n - 1) (te_time e) es"

fun well_ordered :: "int \<Rightarrow> task_event list \<Rightarrow> bool" where
  "well_ordered n [] \<longleftrightarrow> 0 \<le> n"
| "well_ordered n (e # es) \<longleftrightarrow> 0 \<le> n \<and> well_ordered (if te_enter e then n + 1 else n - 1) es"

fun task_events :: "stream_obj \<Rightarrow> task_event list \<Rightarrow> writer_state \<Rightarrow> writer_state result" where
  "task_events p [] s = Inr s"
| "task_events p (e # es) s =
    bind_res (if te_enter e then handleDeviceTaskEnter (te_time e) p (te_compute e) False s
              else handleDeviceTaskLeave (te_time e) p (te_compute e) s) (task_events p es)"

text \<open>What one event does to a counter: the time, the number of active tasks and the begin of the gap.\<close>

definition idle_step :: "task_event \<Rightarrow> u64 \<times> int \<times> u64 \<Rightarrow> u64 \<times> int \<times> u64" where
  "idle_step e s = (case s of (x, n, p) \<Rightarrow>
    if te_enter e then (x + (if n = 0 then te_time e - p else 0), n + 1, p) else (x, n - 1, if n = 1 then te_time e else p))"

lemma well_ordered_nonneg: "well_ordered n es \<Longrightarrow> 0 \<le> n"
  by (cases es) auto

lemma idle_steps_gaps:
  "well_ordered n es \<Longrightarrow> (n = 0 \<Longrightarrow> p = q) \<Longrightarrow> fst (fold idle_step es (x, n, p)) = x + idle_gaps n q es"
proof (induction es arbitrary: x n p q)
  case (Cons e es)
  have w: "well_ordered (if te_enter e then n + 1 else n - 1) es" "0 \<le> n"
    using Cons(2) by simp_all
  then show ?case
    using Cons(1) [of "n + 1" p "te_time e" "x + (if n = 0 then te_time e - p else 0)"] Cons(3)
      Cons(1) [of "n - 1" "if n = 1 then te_time e else p" "te_time e" x] well_ordered_nonneg [OF w(1)]
    by (cases "te_enter e") (auto simp: idle_step_def)
qed simp

definition device_counter :: "writer_state \<Rightarrow> u64 \<times> int \<times> u64" where
  "device_counter s = (stat_at OFLD_STAT_IDLE_TIME (fst s), wr_deviceRefCount (snd s), wr_lastIdleStart (snd s))"

definition compute_counter :: "writer_state \<Rightarrow> u64 \<times> int \<times> u64" where
  "compute_counter s = (stat_at OFLD_STAT_COMPUTE_IDLE_TIME (fst s), wr_deviceComputeRefCount (snd s), wr_lastComputeIdleStart (snd s))"

lemma device_enter_post:
  "post (\<lambda>c' w'. device_counter (c', w') = idle_step \<lparr>te_enter = True, te_compute = b, te_time = t\<rparr> (device_counter (c, w)) \<and>
     compute_counter (c', w') = (if b then idle_step \<lparr>te_enter = True, te_compute = b, te_time = t\<rparr> else id) (compute_counter (c, w)))
   (handleDeviceTaskEnter t p b h (c, w))"
  unfolding handleDeviceTaskEnter_def Let_def prod.case
  by (intro post_bind post_if post_value post_idle post_return)
    (simp_all add: device_counter_def compute_counter_def idle_step_def tasks_of_def stat_consts)

lemma compute_leave_post:
  "post (\<lambda>c' w'. tasks_of w' = ((wr_deviceRefCount w, wr_lastIdleStart w), wr_deviceComputeRefCount w - 1,
        if wr_deviceComputeRefCount w = 1 then t else wr_lastComputeIdleStart w) \<and>
     (\<forall>k. stat_at k c' = stat_at k c)) (compute_leave t p (c, w))"
  unfolding compute_leave_def Let_def prod.case
  by (intro post_bind post_if post_idle post_return) (simp_all add: tasks_of_def)

definition transfer_stats :: "nat set" where
  "transfer_stats = {STAT_OFLD_TOTAL_TRANSFER_TIME, OFLD_STAT_MULTIPLE_COM, OFLD_STAT_MULTIPLE_COM + 1,
     OFLD_STAT_MULTIPLE_COM_SD, OFLD_STAT_MULTIPLE_COM_SD + 1}"

lemma transfer_leave_post:
  "post (\<lambda>c' w'. tasks_of w' = tasks_of w \<and> (\<forall>k. k \<notin> transfer_stats \<longrightarrow> stat_at k c' = stat_at k c)) (transfer_leave t (c, w))"
  unfolding transfer_leave_def Let_def prod.case
  by (intro post_bind post_if post_casita post_return)
    (auto simp: tasks_of_def transfer_stats_def dest!: value_stat_other count_stat_at split: if_splits)

lemma post_then: "post P r \<Longrightarrow> (\<And>c w. P c w \<Longrightarrow> post Q (f c w)) \<Longrightarrow> post Q (bind_res r (\<lambda>(c, w). f c w))"
  by (cases r) (auto simp: post_def)

definition task :: "bool \<Rightarrow> bool \<Rightarrow> u64 \<Rightarrow> task_event" where
  "task e b t = \<lparr>te_enter = e, te_compute = b, te_time = t\<rparr>"

lemma device_enter_counters:
  "post (\<lambda>c' w'. device_counter (c', w') = idle_step (task True b t) (device_counter (c, w)) \<and>
     compute_counter (c', w') = (if b then idle_step (task True b t) (compute_counter (c, w)) else compute_counter (c, w)))
   (handleDeviceTaskEnter t p b h (c, w))"
  using device_enter_post by (auto simp: task_def post_def)

lemma finish_leave_counters:
  assumes "\<And>k. k \<in> {OFLD_STAT_IDLE_TIME, OFLD_STAT_COMPUTE_IDLE_TIME} \<Longrightarrow> stat_at k c1 = stat_at k c"
    "tasks_of w1 = ((wr_deviceRefCount w, wr_lastIdleStart w), q)"
  shows "post (\<lambda>c' w'. device_counter (c', w') = idle_step (task False b t) (device_counter (c, w)) \<and>
     compute_counter (c', w') = (stat_at OFLD_STAT_COMPUTE_IDLE_TIME c, q))
   (let w = w1\<lparr>wr_deviceRefCount := wr_deviceRefCount w1 - 1\<rparr> in
    bind_res
      (if wr_deviceRefCount w = 0 then
         write_idle 0 (obj_deviceId p) (Out_Enter t (wr_devIdleRegRef w)) (c1, w\<lparr>wr_lastIdleStart := t\<rparr>)
       else Inr (c1, w)) (\<lambda>(c, w).
    Inr (c, w\<lparr>wr_lastOffloadApiEvtTime := t\<rparr>)))"
  unfolding Let_def
  by (intro post_bind post_if post_idle post_return)
    (use assms in \<open>auto simp: device_counter_def compute_counter_def idle_step_def task_def tasks_of_def\<close>)

lemma device_leave_counters:
  "post (\<lambda>c' w'. device_counter (c', w') = idle_step (task False b t) (device_counter (c, w)) \<and>
     compute_counter (c', w') = (if b then idle_step (task False b t) (compute_counter (c, w)) else compute_counter (c, w)))
   (handleDeviceTaskLeave t p b (c, w))"
proof (cases b)
  case True
  show ?thesis
    unfolding handleDeviceTaskLeave_def if_P [OF True]
    by (rule post_then [OF compute_leave_post], rule post_mono [OF finish_leave_counters])
      (auto simp: compute_counter_def idle_step_def task_def)
next
  case False
  have "{OFLD_STAT_IDLE_TIME, OFLD_STAT_COMPUTE_IDLE_TIME} \<inter> transfer_stats = {}"
    by (simp add: transfer_stats_def stat_consts)
  then show ?thesis
    unfolding handleDeviceTaskLeave_def if_not_P [OF False]
    by (intro post_then [OF transfer_leave_post], intro post_mono [OF finish_leave_counters [where c = c and w = w and b = b]])
      (auto simp: compute_counter_def tasks_of_def)
qed

lemma task_events_counters:
  "task_events p es (c, w) = Inr (c', w') \<Longrightarrow>
   device_counter (c', w') = fold idle_step es (device_counter (c, w)) \<and>
   compute_counter (c', w') = fold idle_step (filter te_compute es) (compute_counter (c, w))"
proof (induction es arbitrary: c w)
  case (Cons e es)
  obtain c1 w1 where p: "(if te_enter e then handleDeviceTaskEnter (te_time e) p (te_compute e) False (c, w)
      else handleDeviceTaskLeave (te_time e) p (te_compute e) (c, w)) = Inr (c1, w1)" "task_events p es (c1, w1) = Inr (c', w')"
    using Cons(2) by (auto simp: bind_res_Inr)
  have e: "task (te_enter e) (te_compute e) (te_time e) = e"
    by (simp add: task_def)
  have "device_counter (c1, w1) = idle_step e (device_counter (c, w)) \<and>
     compute_counter (c1, w1) = (if te_compute e then idle_step e (compute_counter (c, w)) else compute_counter (c, w))"
    using p(1) postD [OF device_enter_counters, of "te_time e" p "te_compute e" False c w c1 w1]
      postD [OF device_leave_counters, of "te_time e" p "te_compute e" c w c1 w1] e
    by (cases "te_enter e") auto
  then show ?case
    using Cons(1) [OF p(2)] by simp
qed simp

text \<open>C15. The idle times of a device refine the gaps between its tasks: after any well-ordered sequence of begins and ends
  of kernels and transfers, the idle time has grown by the time in which no task was active, and the compute idle
  time by the time in which no kernel was.\<close>
theorem idle_time_gaps:
  assumes "task_events p es (c, w) = Inr (c', w')"
    "well_ordered (wr_deviceRefCount w) es" "well_ordered (wr_deviceComputeRefCount w) (filter te_compute es)"
    "wr_deviceRefCount w = 0 \<longrightarrow> wr_lastIdleStart w = t" "wr_deviceComputeRefCount w = 0 \<longrightarrow> wr_lastComputeIdleStart w = t"
  shows "stat_at OFLD_STAT_IDLE_TIME c' = stat_at OFLD_STAT_IDLE_TIME c + idle_gaps (wr_deviceRefCount w) t es \<and>
    stat_at OFLD_STAT_COMPUTE_IDLE_TIME c' =
      stat_at OFLD_STAT_COMPUTE_IDLE_TIME c + idle_gaps (wr_deviceComputeRefCount w) t (filter te_compute es)"
proof -
  note s = task_events_counters [OF assms(1)]
  have "stat_at OFLD_STAT_IDLE_TIME c' = fst (fold idle_step es (device_counter (c, w)))"
    "stat_at OFLD_STAT_COMPUTE_IDLE_TIME c' = fst (fold idle_step (filter te_compute es) (compute_counter (c, w)))"
    using s by (metis device_counter_def compute_counter_def fst_conv)+
  then show ?thesis
    using idle_steps_gaps [OF assms(2)] idle_steps_gaps [OF assms(3)] assms(4,5)
    by (simp add: device_counter_def compute_counter_def)
qed

theorem idle_time_gaps_witness:
  "\<exists>c w. task_events (Host_Obj (EventStream_new 0 0 [] ES_MPI))
      [task True True 10, task True False 12, task False True 15, task False False 20, task True True 26]
      (demo_casita, demo_writer\<lparr>wr_deviceRefCount := 0, wr_deviceComputeRefCount := 0\<rparr>) = Inr (c, w) \<and>
    stat_at OFLD_STAT_IDLE_TIME c = 16 \<and> stat_at OFLD_STAT_COMPUTE_IDLE_TIME c = 21"
proof -
  let ?p = "Host_Obj (EventStream_new 0 0 [] ES_MPI)"
  let ?es = "[task True True 10, task True False 12, task False True 15, task False False 20, task True True 26]"
  let ?w = "demo_writer\<lparr>wr_deviceRefCount := 0, wr_deviceComputeRefCount := 0\<rparr>"
  have "case task_events ?p ?es (demo_casita, ?w) of Inr s \<Rightarrow> True | _ \<Rightarrow> False"
    by code_simp
  then obtain c w where p: "task_events ?p ?es (demo_casita, ?w) = Inr (c, w)"
    by (auto split: sum.splits)
  have "stat_at OFLD_STAT_IDLE_TIME demo_casita = 0" "stat_at OFLD_STAT_COMPUTE_IDLE_TIME demo_casita = 0"
    "wr_lastIdleStart ?w = 0" "wr_lastComputeIdleStart ?w = 0"
    by code_simp+
  then show ?thesis
    using idle_time_gaps [OF p, of 0] p by (simp add: task_def)
qed

end
