(* ===== verification/RunnerModel.thy ===== *)
theory RunnerModel
  imports IdleLaws
begin

text \<open>The run of the program (\<^verbatim>\<open>frontend/Runner.cpp\<close>): the analyses that are set up, the decision of all ranks to
  begin an interval, the statistics of all ranks, and the critical path outside the exchange between the ranks. A
  collective call of MPI is a function of the values of all ranks, in the order of the ranks.\<close>

section \<open>State\<close>

record runner =
  ru_casita :: casita
  ru_cpStart :: "u64 \<times> u64"
  ru_cpEnd :: "u64 \<times> u64"
  ru_globalLengthCP :: u64
  ru_totalEventsRead :: u64

text \<open>Start and end of the critical path are initialised only with the option to merge activities.\<close>

definition Runner_new :: "bool \<Rightarrow> u64 \<times> u64 \<Rightarrow> u64 \<times> u64 \<Rightarrow> casita \<Rightarrow> runner" where
  "Runner_new mergeActivities start0 end0 c = \<lparr>ru_casita = c,
     ru_cpStart = (if mergeActivities then (UINT64_MAX, UINT64_MAX) else start0),
     ru_cpEnd = (if mergeActivities then (UINT64_MAX, 0) else end0),
     ru_globalLengthCP = 0, ru_totalEventsRead = 0\<rparr>"

definition set_ignoreOffload :: "casita_options \<Rightarrow> casita_options" where
  "set_ignoreOffload o1 = o1\<lparr>co_names := (co_names o1)\<lparr>no_ignoreOffload := True\<rparr>\<rparr>"

definition register_analyses :: "8 word \<Rightarrow> u64 \<Rightarrow> u64 \<Rightarrow> casita \<Rightarrow> casita" where
  "register_analyses activeTasks idleStart delay c =
    (let a = ca_analysis c;
         c = (if (haveParadigm PARADIGM_CUDA a \<or> haveParadigm PARADIGM_OCL a) \<and> \<not> no_ignoreOffload (co_names (ca_options c))
              then add_offload_analysis activeTasks idleStart delay c
              else c\<lparr>ca_options := set_ignoreOffload (ca_options c)\<rparr>);
         c = (if haveParadigm PARADIGM_OMP a then add_omp_analysis c else c)
     in c\<lparr>ca_analysis := (ca_analysis c)\<lparr>an_mpi := createMPICommunicatorsFromMap (an_mpi (ca_analysis c))\<rparr>\<rparr>)"

section \<open>The begin of an interval\<close>

record interval_state =
  iv_node_id :: u64
  iv_intervals :: u32

text \<open>The number of nodes since the last interval, and the number of the last node; inside an OpenMP region or with
  pending kernels the largest number says that no interval can begin.\<close>

definition region_pending :: "casita \<Rightarrow> bool" where
  "region_pending c \<longleftrightarrow> (case ca_omp c of None \<Rightarrow> False | Some o1 \<Rightarrow> os_nestingLevel o1 > 0) \<or>
     (case ca_offload c of None \<Rightarrow> False | Some o1 \<Rightarrow> of_pendingKernels o1 > 0)"

definition pending_nodes :: "u64 \<Rightarrow> casita \<Rightarrow> (u64 \<times> u64) result" where
  "pending_nodes interval_node_id c =
    (if region_pending c then Inr (UINT64_MAX, 0)
     else (case g_nodes (ge_graph (ca_engine c)) of
         [] \<Rightarrow> Inl Out_Of_Bounds
       | n # ns \<Rightarrow> (let l = nd_id (ca_heap c (last (n # ns))) in Inr (l - interval_node_id, l))))"

definition MPI_Allreduce_max :: "u64 list \<Rightarrow> u64" where
  "MPI_Allreduce_max xs = fold max xs 0"

definition interval_decision :: "u32 \<Rightarrow> u64 list \<Rightarrow> u64 \<Rightarrow> interval_state \<Rightarrow> bool \<times> interval_state" where
  "interval_decision analysisInterval pending last_node_id s =
    (let maxNodes = MPI_Allreduce_max pending in
     if ucast analysisInterval < maxNodes \<and> maxNodes \<noteq> UINT64_MAX
     then (True, \<lparr>iv_node_id = last_node_id, iv_intervals = iv_intervals s + 1\<rparr>) else (False, s))"

text \<open>The decision of all ranks.\<close>

fun all_pending :: "(casita \<times> interval_state) list \<Rightarrow> (u64 \<times> u64) list result" where
  "all_pending [] = Inr []"
| "all_pending ((c, s) # rs) = bind_res (pending_nodes (iv_node_id s) c) (\<lambda>p. bind_res (all_pending rs) (\<lambda>ps. Inr (p # ps)))"

definition decide_all :: "u32 \<Rightarrow> (casita \<times> interval_state) list \<Rightarrow> (bool \<times> interval_state) list result" where
  "decide_all analysisInterval rs = bind_res (all_pending rs) (\<lambda>ps.
    Inr (map2 (\<lambda>(c, s) p. interval_decision analysisInterval (map fst ps) (snd p) s) rs ps))"

section \<open>Statistics of all ranks\<close>

definition MPI_Reduce_sum :: "('k \<Rightarrow> u64) list \<Rightarrow> 'k \<Rightarrow> u64" where
  "MPI_Reduce_sum fs k = sum_list (map (\<lambda>f. f k) fs)"

text \<open>The first rank gets the sums; the arrays of the other ranks stay.\<close>

definition mergeStatistics :: "statistics list \<Rightarrow> statistics list" where
  "mergeStatistics ss = (case ss of
      [] \<Rightarrow> []
    | s # rest \<Rightarrow> setActivityCounts (MPI_Reduce_sum (map st_activity ss)) (setAllStats (MPI_Reduce_sum (map st_stats ss)) s) # rest)"

text \<open>The counts of a process at the end of its trace.\<close>

definition final_counts :: "runner \<Rightarrow> runner" where
  "final_counts r =
    (let c = ru_casita r; g = ge_group (ca_engine c); st = an_stats (ca_analysis c);
         st = setActivityCount STAT_TOTAL_TRACE_EVENTS (ru_totalEventsRead r) st;
         st = setActivityCount STAT_HOST_STREAMS (of_nat (length (sg_hostStreams g))) st;
         st = setActivityCount STAT_DEVICE_NUM (of_nat (getNumDevices g)) st
     in r\<lparr>ru_casita := put_stats st c\<rparr>)"

section \<open>Begin and end of the critical path\<close>

definition local_first :: "runner \<Rightarrow> u64 \<times> u64" where
  "local_first r =
    (if fst (ru_cpStart r) \<noteq> UINT64_MAX then
       (case getStream (fst (ru_cpStart r)) (ge_group (ca_engine (ru_casita r))) of
          None \<Rightarrow> (UINT64_MAX, UINT64_MAX)
        | Some p \<Rightarrow> (snd (ru_cpStart r), fst (es_period (base (stream_at p (ru_casita r))))))
     else (UINT64_MAX, UINT64_MAX))"

text \<open>A rank begins with its own times and takes over those of a rank with an earlier critical node.\<close>

definition global_first :: "u64 \<times> u64 \<Rightarrow> (u64 \<times> u64) list \<Rightarrow> u64 \<times> u64" where
  "global_first own firsts = fold (\<lambda>f g. if fst f < fst g then f else g) firsts own"

definition findCriticalPathStart :: "(u64 \<times> u64) list \<Rightarrow> runner \<Rightarrow> runner" where
  "findCriticalPathStart firsts r =
    (let own = local_first r; g = (if length firsts > 1 then global_first own firsts else own) in
     case (if fst own = fst g then getStream (fst (ru_cpStart r)) (ge_group (ca_engine (ru_casita r))) else None) of
       Some p \<Rightarrow> r\<lparr>ru_casita := update_stream p (\<lambda>b. b\<lparr>es_hasFirstCriticalNode := True\<rparr>) (ru_casita r),
                   ru_cpStart := (fst (ru_cpStart r), snd g)\<rparr>
     | None \<Rightarrow> r\<lparr>ru_cpStart := (UINT64_MAX, snd g)\<rparr>)"

definition local_last :: "runner \<Rightarrow> stream_ref option \<times> u64" where
  "local_last r = getLastLeaveEvent (ca_analysis (ru_casita r))"

definition findCriticalPathEnd :: "u64 list \<Rightarrow> runner \<Rightarrow> runner result" where
  "findCriticalPathEnd lasts r =
    (let own = snd (local_last r);
         g = (if length lasts > 1 then fold (\<lambda>t g. if t > g then t else g) lasts own else own) in
     if own = g then
       (case fst (local_last r) of
          None \<Rightarrow> Inl Null_Dereference
        | Some p \<Rightarrow> Inr (r\<lparr>ru_casita := update_stream p (\<lambda>b. b\<lparr>es_hasLastEvent := True\<rparr>) (ru_casita r),
                           ru_cpEnd := (es_id (base (stream_at p (ru_casita r))), g)\<rparr>))
     else Inr (r\<lparr>ru_cpEnd := (UINT64_MAX, g)\<rparr>))"

text \<open>Both, for all ranks.\<close>

definition start_all :: "runner list \<Rightarrow> runner list" where
  "start_all rs = map (findCriticalPathStart (map local_first rs)) rs"

definition end_all :: "runner list \<Rightarrow> runner result list" where
  "end_all rs = map (findCriticalPathEnd (map (snd \<circ> local_last) rs)) rs"

section \<open>The critical path between two nodes of a process\<close>

definition getCriticalPathIntern :: "nat \<Rightarrow> u32 \<Rightarrow> node_ref option \<Rightarrow> node_ref option \<Rightarrow> casita \<Rightarrow> node_ref list step" where
  "getCriticalPathIntern fuel cpaLoopCheck start end c =
    (case (start, end) of
       (Some s, Some t) \<Rightarrow> getCriticalPath fuel (ca_heap c) (ge_edges (ca_engine c)) (ge_graph (ca_engine c)) cpaLoopCheck s t
     | _ \<Rightarrow> fail (Assertion_Failed ''Cannot determine internal critical path''))"

record critical_section =
  cs_startNode :: node_ref
  cs_endNode :: node_ref

definition with_leave :: "casita \<Rightarrow> node_ref \<Rightarrow> node_ref list step" where
  "with_leave c n = (if isEnter (ca_heap c n) then deref (getPartner (ca_heap c n)) (\<lambda>l. ret [n, l]) else ret [n])"

text \<open>A section leads from the leave of an MPI region to the enter of another one; the nodes of the process between
  the two are those of the path between their local neighbours. Its nodes are added to the critical ones. (A leave that is
  missing fails here; the code adds the null pointer and fails when the nodes get their counters.)\<close>

definition getCriticalLocalNodes :: "nat \<Rightarrow> u32 \<Rightarrow> casita \<Rightarrow> critical_section \<Rightarrow> node_ref list \<Rightarrow> node_ref list step" where
  "getCriticalLocalNodes fuel cpaLoopCheck c section criticalNodes =
    (let h = ca_heap c in
     bind_fuel (if isEnter (h (cs_startNode section)) then deref (getPartner (h (cs_startNode section))) ret
                else ret (cs_startNode section)) (\<lambda>startNode.
     bind_fuel (if isLeave (h (cs_endNode section)) then deref (getPartner (h (cs_endNode section))) ret
                else ret (cs_endNode section)) (\<lambda>endNode.
     bind_fuel (with_leave c endNode) (\<lambda>endNodes.
     case (gn_linkRight (h startNode), gn_linkLeft (h endNode)) of
       (Some startLocal, Some endLocal) \<Rightarrow>
         if nd_time (h startLocal) \<ge> nd_time (h endLocal) then ret (criticalNodes @ startNode # endNodes)
         else
           bind_fuel (getCriticalPathIntern fuel cpaLoopCheck (Some startLocal) (Some endLocal) c) (\<lambda>path.
           ret (criticalNodes @ startNode # path @ endNodes))
     | _ \<Rightarrow> ret (criticalNodes @ startNode # endNodes)))))"

fun processSectionsParallel ::
  "nat \<Rightarrow> u32 \<Rightarrow> casita \<Rightarrow> critical_section list \<Rightarrow> node_ref list \<Rightarrow> node_ref list step" where
  "processSectionsParallel fuel cpaLoopCheck c [] criticalNodes = ret criticalNodes"
| "processSectionsParallel fuel cpaLoopCheck c (section # sections) criticalNodes =
    bind_fuel (getCriticalLocalNodes fuel cpaLoopCheck c section criticalNodes)
      (processSectionsParallel fuel cpaLoopCheck c sections)"

section \<open>Computing the critical path\<close>

text \<open>The path after the last MPI node, on the process where the trace ends.\<close>

definition last_section :: "nat \<Rightarrow> u32 \<Rightarrow> bool \<Rightarrow> runner \<Rightarrow> node_ref list step" where
  "last_section fuel cpaLoopCheck lastInterval r =
    (let c = ru_casita r; h = ca_heap c in
     if lastInterval \<and> fst (ru_cpEnd r) \<noteq> UINT64_MAX then
       (case (getLastGraphNode PARADIGM_MPI (ca_engine c), getLastGraphNode PARADIGM_COMPUTE_LOCAL (ca_engine c)) of
          (Some startNode, Some endNode) \<Rightarrow>
            if startNode \<noteq> endNode \<and> compareLess (h startNode) (h endNode)
            then getCriticalPathIntern fuel cpaLoopCheck (Some startNode) (Some endNode) c else ret []
        | _ \<Rightarrow> ret [])
     else ret [])"

definition single_process :: "nat \<Rightarrow> u32 \<Rightarrow> casita \<Rightarrow> node_ref list step" where
  "single_process fuel cpaLoopCheck c =
    getCriticalPathIntern fuel cpaLoopCheck (Some (ge_sourceNode (ca_engine c)))
      (getLastGraphNode PARADIGM_COMPUTE_LOCAL (ca_engine c)) c"

text \<open>The critical nodes get their counter; their enter nodes give the first and the last critical time.\<close>

definition mark_critical :: "bool \<Rightarrow> node_ref \<Rightarrow> runner \<Rightarrow> runner" where
  "mark_critical mergeActivities n r =
    (let r = r\<lparr>ru_casita := (ru_casita r)\<lparr>ca_analysis := update_node n (setCounter CRITICAL_PATH 1) (ca_analysis (ru_casita r))\<rparr>\<rparr>;
         x = ca_heap (ru_casita r) n; t = nd_time x in
     if isLeave x \<or> \<not> mergeActivities \<or> t = 0 then r
     else
       (let r = (if t < snd (ru_cpStart r) then r\<lparr>ru_cpStart := (nd_streamId x, t)\<rparr> else r) in
        if snd (ru_cpEnd r) < t then r\<lparr>ru_cpEnd := (nd_streamId x, t)\<rparr> else r))"

definition mark_all :: "bool \<Rightarrow> node_ref list \<Rightarrow> runner \<Rightarrow> runner" where
  "mark_all mergeActivities ns r = fold (mark_critical mergeActivities) ns r"

definition set_length :: "runner \<Rightarrow> runner" where
  "set_length r = r\<lparr>ru_globalLengthCP := snd (ru_cpEnd r) - snd (ru_cpStart r)\<rparr>"

text \<open>A single process.\<close>

definition computeCriticalPath_single :: "nat \<Rightarrow> u32 \<Rightarrow> bool \<Rightarrow> bool \<Rightarrow> bool \<Rightarrow> runner \<Rightarrow> runner step" where
  "computeCriticalPath_single fuel cpaLoopCheck mergeActivities firstInterval lastInterval r =
    bind_fuel (if lastInterval then Some (findCriticalPathEnd [snd (local_last r)] r) else ret r) (\<lambda>r.
    bind_fuel (single_process fuel cpaLoopCheck (ru_casita r)) (\<lambda>ns.
    let r = mark_all mergeActivities ns r;
        r = (if firstInterval then findCriticalPathStart [local_first r] r else r)
    in ret (if lastInterval then set_length r else r)))"

text \<open>Not used: the rank whose last MPI region begins last.\<close>

definition last_mpi_time :: "casita \<Rightarrow> (node_ref \<times> u64) result" where
  "last_mpi_time c = (case getLastGraphNode PARADIGM_MPI (ca_engine c) of
      None \<Rightarrow> Inl Null_Dereference
    | Some n \<Rightarrow> Inr (n, case gn_first (ca_heap c n) of None \<Rightarrow> 0 | Some e \<Rightarrow> nd_time (ca_heap c e)))"

definition findLastMpiNode :: "u64 list \<Rightarrow> nat \<Rightarrow> casita \<Rightarrow> (node_ref \<times> nat) result" where
  "findLastMpiNode nodeTimes mpiRank c = bind_res (last_mpi_time c) (\<lambda>(n, t).
    Inr (n, snd (fold (\<lambda>(i, x) (t, k). if x \<ge> t then (x, i) else (t, k)) (zip [0..<length nodeTimes] nodeTimes) (t, mpiRank))))"

end
