(* ===== verification/RunnerLaws.thy ===== *)
theory RunnerLaws
  imports RunnerModel
begin

text \<open>Laws of the run of all ranks: an interval begins on all ranks or on none, the order in which critical sections
  are processed does not matter, and the ranks agree on the begin of the critical path when it is unique.\<close>

section \<open>The begin of an interval\<close>

lemma Allreduce_max_ge: "x \<in> set xs \<Longrightarrow> x \<le> MPI_Allreduce_max xs"
  unfolding MPI_Allreduce_max_def Max.set_eq_fold [symmetric] by (simp add: Max_ge)

lemma all_pending_in:
  "all_pending rs = Inr ps \<Longrightarrow> (c, s) \<in> set rs \<Longrightarrow> \<exists>p \<in> set ps. pending_nodes (iv_node_id s) c = Inr p"
  by (induction rs arbitrary: ps rule: all_pending.induct) (auto simp: bind_res_Inr)

lemma pending_region: "pending_nodes i c = Inr p \<Longrightarrow> region_pending c \<Longrightarrow> fst p = UINT64_MAX"
  by (auto simp: pending_nodes_def)

lemma max_is_UINT64_MAX: "UINT64_MAX \<in> set xs \<Longrightarrow> MPI_Allreduce_max xs = UINT64_MAX"
  using Allreduce_max_ge [of UINT64_MAX xs] word_order.extremum_unique by auto

text \<open>C11. The ranks decide alike on the begin of an interval, and while one of them is inside an OpenMP region or has
  pending kernels, none begins.\<close>
theorem interval_begins_together:
  assumes "decide_all k rs = Inr ds" "d \<in> set ds" "e \<in> set ds"
  shows "fst d = fst e \<and> (fst d \<longrightarrow> (\<forall>(c, s) \<in> set rs. \<not> region_pending c))"
proof -
  obtain ps where ps: "all_pending rs = Inr ps"
    and ds: "ds = map2 (\<lambda>(c, s) p. interval_decision k (map fst ps) (snd p) s) rs ps"
    using assms(1) by (auto simp: decide_all_def bind_res_Inr)
  let ?m = "MPI_Allreduce_max (map fst ps)"
  have d: "fst x \<longleftrightarrow> ucast k < ?m \<and> ?m \<noteq> UINT64_MAX" if "x \<in> set ds" for x
    using that by (auto simp: ds interval_decision_def Let_def split: if_splits)
  have "?m = UINT64_MAX" if cs: "(c, s) \<in> set rs" "region_pending c" for c s
  proof -
    obtain p where "p \<in> set ps" "pending_nodes (iv_node_id s) c = Inr p"
      using all_pending_in [OF ps cs(1)] by blast
    then have "fst p = UINT64_MAX" "p \<in> set ps"
      using pending_region cs(2) by blast+
    then have "UINT64_MAX \<in> set (map fst ps)"
      by (metis image_eqI set_map)
    then show ?thesis
      by (rule max_is_UINT64_MAX)
  qed
  then show ?thesis
    using d assms(2,3) by auto
qed

definition demo_omp_region :: casita where
  "demo_omp_region = demo_casita\<lparr>ca_omp := Some (AnalysisParadigmOMP_new\<lparr>os_nestingLevel := 1\<rparr>)\<rparr>"

definition demo_interval :: interval_state where
  "demo_interval = \<lparr>iv_node_id = - 5, iv_intervals = 0\<rparr>"

theorem interval_begins_together_witness:
  "(\<exists>ds. decide_all 2 [(demo_casita, demo_interval), (demo_casita, demo_interval)] = Inr ds \<and> map fst ds = [True, True]) \<and>
   \<not> region_pending demo_casita \<and>
   (\<exists>ds. decide_all 2 [(demo_casita, demo_interval), (demo_omp_region, demo_interval)] = Inr ds \<and> \<not> fst (hd ds))"
proof -
  have "case decide_all 2 [(demo_casita, demo_interval), (demo_casita, demo_interval)] of Inr ds \<Rightarrow> map fst ds = [True, True] | _ \<Rightarrow> False"
    "case decide_all 2 [(demo_casita, demo_interval), (demo_omp_region, demo_interval)] of Inr ds \<Rightarrow> ds \<noteq> [] | _ \<Rightarrow> False"
    "region_pending demo_omp_region"
    by code_simp+
  then obtain ds es where d: "decide_all 2 [(demo_casita, demo_interval), (demo_casita, demo_interval)] = Inr ds" "map fst ds = [True, True]"
    and e: "decide_all 2 [(demo_casita, demo_interval), (demo_omp_region, demo_interval)] = Inr es" "es \<noteq> []"
    and r: "region_pending demo_omp_region"
    by (auto split: sum.splits)
  have "hd ds \<in> set ds" "fst (hd ds)"
    using d(2) by auto
  from interval_begins_together [OF d(1) this(1) this(1)] this(2) have "\<not> region_pending demo_casita"
    by auto
  note c = this
  have f: "\<not> fst (hd es)"
    using interval_begins_together [OF e(1), of "hd es" "hd es"] e(2) r by auto
  show ?thesis
    by (intro conjI exI [of _ ds] exI [of _ es] d e(1) c f)
qed

section \<open>Critical nodes\<close>

text \<open>The time of a critical node that counts for the begin and the end of the path.\<close>

definition critical_time :: "bool \<Rightarrow> heap \<Rightarrow> node_ref \<Rightarrow> u64 option" where
  "critical_time mergeActivities h n =
    (if isLeave (h n) \<or> \<not> mergeActivities \<or> nd_time (h n) = 0 then None else Some (nd_time (h n)))"

definition critical_times :: "bool \<Rightarrow> heap \<Rightarrow> node_ref list \<Rightarrow> u64 list" where
  "critical_times m h ns = List.map_filter (critical_time m h) ns"

lemma setCounter_facts [simp]:
  "isLeave (setCounter q v x) = isLeave x" "nd_time (setCounter q v x) = nd_time x" "nd_streamId (setCounter q v x) = nd_streamId x"
  by (simp_all add: setCounter_def isLeave_def)

lemma critical_time_counter: "critical_time m (h(n := setCounter q v (h n))) k = critical_time m h k"
  by (simp add: critical_time_def)

definition count_node :: "node_ref \<Rightarrow> casita \<Rightarrow> casita" where
  "count_node n c = c\<lparr>ca_analysis := update_node n (setCounter CRITICAL_PATH 1) (ca_analysis c)\<rparr>"

lemma count_node_heap: "ca_heap (count_node n c) = (ca_heap c)(n := setCounter CRITICAL_PATH 1 (ca_heap c n))"
  by (simp add: count_node_def update_node_def node_update_def)

lemma count_node_commute: "count_node n \<circ> count_node k = count_node k \<circ> count_node n"
proof
  fix c :: casita
  show "(count_node n \<circ> count_node k) c = (count_node k \<circ> count_node n) c"
    by (cases "n = k") (simp_all add: count_node_def update_node_def node_update_def fun_upd_twist)
qed

lemma mark_critical_facts:
  "ru_casita (mark_critical m n r) = count_node n (ru_casita r)"
  "snd (ru_cpStart (mark_critical m n r)) =
     (case critical_time m (ca_heap (ru_casita r)) n of None \<Rightarrow> snd (ru_cpStart r) | Some t \<Rightarrow> min t (snd (ru_cpStart r)))"
  "snd (ru_cpEnd (mark_critical m n r)) =
     (case critical_time m (ca_heap (ru_casita r)) n of None \<Rightarrow> snd (ru_cpEnd r) | Some t \<Rightarrow> max t (snd (ru_cpEnd r)))"
  by (auto simp: mark_critical_def Let_def count_node_def [symmetric] count_node_heap critical_time_def min_def max_def)

lemma critical_times_count: "critical_times m (ca_heap (count_node n c)) ns = critical_times m (ca_heap c) ns"
  unfolding critical_times_def count_node_heap critical_time_counter by (rule refl)

lemma critical_times_simps [simp]:
  "critical_times m h [] = []"
  "critical_times m h (n # ns) = (case critical_time m h n of None \<Rightarrow> critical_times m h ns | Some t \<Rightarrow> t # critical_times m h ns)"
  by (simp_all add: critical_times_def List.map_filter_simps split: option.split)

lemma mark_all_facts:
  "ru_casita (mark_all m ns r) = fold count_node ns (ru_casita r) \<and>
   snd (ru_cpStart (mark_all m ns r)) = fold min (critical_times m (ca_heap (ru_casita r)) ns) (snd (ru_cpStart r)) \<and>
   snd (ru_cpEnd (mark_all m ns r)) = fold max (critical_times m (ca_heap (ru_casita r)) ns) (snd (ru_cpEnd r))"
proof (induction ns arbitrary: r)
  case (Cons n ns)
  show ?case
    using Cons [of "mark_critical m n r"]
    by (simp add: mark_all_def mark_critical_facts critical_times_count split: option.split)
qed (simp add: mark_all_def)

lemma critical_times_mset: "mset ns = mset ms \<Longrightarrow> mset (critical_times m h ns) = mset (critical_times m h ms)"
  by (simp add: critical_times_def map_filter_def mset_filter)

lemma mark_all_order:
  assumes "mset ns = mset ms"
  shows "ru_casita (mark_all m ns r) = ru_casita (mark_all m ms r) \<and>
    snd (ru_cpStart (mark_all m ns r)) = snd (ru_cpStart (mark_all m ms r)) \<and>
    snd (ru_cpEnd (mark_all m ns r)) = snd (ru_cpEnd (mark_all m ms r))"
proof -
  have c: "fold count_node ns = fold count_node ms"
    using assms by (intro fold_multiset_equiv count_node_commute) simp_all
  have "fold min (critical_times m h ns) = fold min (critical_times m h ms)"
    "fold max (critical_times m h ns) = fold max (critical_times m h ms)" for h
    using critical_times_mset [OF assms, of m h]
    by (intro fold_multiset_equiv; simp add: fun_eq_iff ac_simps min.left_commute max.left_commute)+
  then show ?thesis
    using c by (simp add: mark_all_facts)
qed

section \<open>Sections\<close>

text \<open>The nodes of a section do not depend on those found before.\<close>

lemma bind_fuel_assoc: "bind_fuel (bind_fuel r f) g = bind_fuel r (\<lambda>x. bind_fuel (f x) g)"
  by (simp add: bind_fuel_def split: option.split sum.split)

lemma section_bind:
  "getCriticalLocalNodes fuel k c s xs = bind_fuel (getCriticalLocalNodes fuel k c s []) (\<lambda>zs. ret (xs @ zs))"
  unfolding getCriticalLocalNodes_def Let_def bind_fuel_assoc
  by (intro arg_cong2 [where f = bind_fuel] ext refl) (simp add: bind_fuel_assoc split: option.split)

lemma section_append:
  "getCriticalLocalNodes fuel k c s xs = ret ys \<longleftrightarrow> (\<exists>zs. getCriticalLocalNodes fuel k c s [] = ret zs \<and> ys = xs @ zs)"
  by (subst section_bind) (auto simp: ret_bind ret_inject)

lemma sections_nodes:
  "processSectionsParallel fuel k c ss xs = ret ys \<longleftrightarrow>
   (\<exists>zss. list_all2 (\<lambda>s zs. getCriticalLocalNodes fuel k c s [] = ret zs) ss zss \<and> ys = xs @ concat zss)"
proof (induction ss arbitrary: xs ys)
  case (Cons s ss)
  show ?case
    by (simp add: ret_bind section_append [of _ _ _ _ xs] Cons list_all2_Cons1) (metis append_assoc concat.simps(2))
qed (auto simp: ret_inject)

lemma sections_permute:
  assumes "mset ss = mset ts" "list_all2 (\<lambda>s zs. f s = ret zs) ss zss"
  shows "\<exists>uss. list_all2 (\<lambda>s zs. f s = ret zs) ts uss \<and> mset (concat uss) = mset (concat zss)"
proof -
  define g where "g s = (case f s of Some (Inr zs) \<Rightarrow> zs | _ \<Rightarrow> [])" for s
  have z: "zss = map g ss \<and> (\<forall>s \<in> set ss. f s = ret (g s))"
    using assms(2) by (induction ss zss rule: list_all2_induct) (auto simp: g_def ret_def)
  have "list_all2 (\<lambda>s zs. f s = ret zs) ts (map g ts)"
    using z mset_eq_setD [OF assms(1)] by (simp add: list_all2_conv_all_nth)
  moreover have "mset (concat (map g ts)) = mset (concat (map g ss))"
    using arg_cong [OF assms(1), of "\<lambda>M. \<Sum>\<^sub># (image_mset (\<lambda>s. mset (g s)) M)"]
    by (simp add: mset_concat comp_def sum_mset_sum_list [symmetric])
  ultimately show ?thesis
    using z by blast
qed


definition demo_runner :: "u64 \<Rightarrow> u64 \<Rightarrow> runner" where
  "demo_runner t first = (Runner_new True (0, 0) (0, 0) (update_stream 0 (\<lambda>b. b\<lparr>es_period := (first, 90)\<rparr>) demo_casita))
     \<lparr>ru_cpStart := (7, t)\<rparr>"

definition demo_section :: "node_ref \<Rightarrow> node_ref \<Rightarrow> critical_section" where
  "demo_section s t = \<lparr>cs_startNode = s, cs_endNode = t\<rparr>"


section \<open>The begin of the critical path\<close>

lemma global_first_own: "(\<And>f. f \<in> set firsts \<Longrightarrow> fst own \<le> fst f) \<Longrightarrow> global_first own firsts = own"
  unfolding global_first_def by (induction firsts) (auto simp: not_less[symmetric])

lemma global_first_unique:
  "(\<And>g. g \<in> set firsts \<Longrightarrow> g = f \<or> fst f < fst g) \<Longrightarrow> own = f \<or> fst f < fst own \<and> f \<in> set firsts \<Longrightarrow> global_first own firsts = f"
proof (induction firsts arbitrary: own)
  case (Cons g firsts)
  have g: "g = f \<or> fst f < fst g"
    using Cons(2) by simp
  have "global_first (if fst g < fst own then g else own) firsts = f"
  proof (rule Cons(1))
    show "(if fst g < fst own then g else own) = f \<or>
        fst f < fst (if fst g < fst own then g else own) \<and> f \<in> set firsts"
      using g Cons(3) by (cases "fst g < fst own") (auto dest: order.strict_trans)
  qed (use Cons(2) in simp)
  then show ?case
    by (simp add: global_first_def)
qed (simp add: global_first_def)

lemma start_time: "snd (ru_cpStart (findCriticalPathStart firsts r)) =
    snd (if length firsts > 1 then global_first (local_first r) firsts else local_first r)"
  by (simp add: findCriticalPathStart_def Let_def split: option.split)

lemma start_stream: "fst (ru_cpStart (findCriticalPathStart firsts r)) =
    (if fst (local_first r) = fst (if length firsts > 1 then global_first (local_first r) firsts else local_first r) \<and>
        getStream (fst (ru_cpStart r)) (ge_group (ca_engine (ru_casita r))) \<noteq> None then fst (ru_cpStart r) else UINT64_MAX)"
  by (auto simp: findCriticalPathStart_def Let_def split: option.split)

text \<open>Ranks whose first critical nodes have the same time take the first event of their own stream as the begin.\<close>

lemma start_tie:
  assumes "j < length rs" "\<And>r. r \<in> set rs \<Longrightarrow> fst (local_first (rs ! j)) \<le> fst (local_first r)"
  shows "snd (ru_cpStart (start_all rs ! j)) = snd (local_first (rs ! j))"
proof -
  have "global_first (local_first (rs ! j)) (map local_first rs) = local_first (rs ! j)"
    by (rule global_first_own) (use assms(2) in auto)
  then show ?thesis
    using assms(1) by (simp add: start_all_def start_time)
qed

text \<open>When the first critical node of one rank is earlier than those of all others, every rank takes the first event of
  its stream as the begin of the critical path, and only this rank keeps a stream on which the path begins.\<close>
lemma start_ranks_agree:
  assumes "i < length rs" "length rs > 1"
    "\<And>j. j < length rs \<Longrightarrow> j \<noteq> i \<Longrightarrow> fst (local_first (rs ! i)) < fst (local_first (rs ! j))"
    "j < length rs"
  shows "snd (ru_cpStart (start_all rs ! j)) = snd (local_first (rs ! i)) \<and>
    (fst (ru_cpStart (start_all rs ! j)) \<noteq> UINT64_MAX \<longrightarrow> j = i)"
proof -
  let ?f = "map local_first rs"
  have "global_first (local_first (rs ! j)) ?f = local_first (rs ! i)"
  proof (rule global_first_unique)
    show "g = local_first (rs ! i) \<or> fst (local_first (rs ! i)) < fst g" if g: "g \<in> set ?f" for g
    proof -
      obtain k where "k < length rs" "g = local_first (rs ! k)"
        using g by (auto simp: in_set_conv_nth)
      then show ?thesis
        using assms(3) [of k] by (cases "k = i") simp_all
    qed
    show "local_first (rs ! j) = local_first (rs ! i) \<or>
        fst (local_first (rs ! i)) < fst (local_first (rs ! j)) \<and> local_first (rs ! i) \<in> set ?f"
      using assms by (cases "j = i") auto
  qed
  moreover have "fst (local_first (rs ! j)) \<noteq> fst (local_first (rs ! i))" if "j \<noteq> i"
    using assms(3) [OF assms(4) that] by simp
  ultimately show ?thesis
    using assms(2,4) by (auto simp: start_all_def start_time start_stream)
qed

lemma start_tie_disagrees:
  "map (snd \<circ> ru_cpStart) (start_all [demo_runner 5 4, demo_runner 5 3]) = [4, 3]"
proof -
  have f: "local_first (demo_runner 5 4) = (5, 4)" "local_first (demo_runner 5 3) = (5, 3)"
    by code_simp+
  let ?rs = "[demo_runner 5 4, demo_runner 5 3]"
  have m: "fst (local_first (?rs ! j)) \<le> fst (local_first r)" if "r \<in> set ?rs" "j < 2" for r j
    using that f by (auto simp: less_2_cases_iff)
  have "snd (ru_cpStart (start_all ?rs ! 0)) = snd (local_first (?rs ! 0))" "snd (ru_cpStart (start_all ?rs ! 1)) = snd (local_first (?rs ! 1))"
    by (rule start_tie, simp, rule m, simp, simp)+
  then show ?thesis
    using f by (simp add: start_all_def)
qed

section \<open>Statistics\<close>

text \<open>The reduction gives the first rank what adding the arrays of the other ranks one by one would.\<close>

lemma addAllStats_sum:
  "st_stats (fold addAllStats bs s) i = (if i < STAT_NUMBER then st_stats s i + sum_list (map (\<lambda>b. b i) bs) else st_stats s i)"
  by (induction bs arbitrary: s) (simp_all add: addAllStats_def add.assoc)

lemma mergeStatistics_adds:
  "st_stats (hd (mergeStatistics (s # ss))) = st_stats (fold (addAllStats \<circ> st_stats) ss s)"
  using addAllStats_sum [of "map st_stats ss" s]
  by (simp add: mergeStatistics_def MPI_Reduce_sum_def setAllStats_def setActivityCounts_def fun_eq_iff fold_map comp_def)

end
