(* ===== verification/ReplayModel.thy ===== *)
theory ReplayModel
  imports RunnerLaws
begin

text \<open>The reverse replay of MPI (\<^verbatim>\<open>Runner::detectCriticalPathMPIP2P\<close>): one rank, the master, follows the critical path
  backwards through its MPI nodes; where a wait state leads to another rank it sends a message and that rank goes on as
  the master. At the first node of an interval the master tells all other ranks to stop. A rank that waits for a
  message computes its critical sections meanwhile. The messages of a rank to another arrive in their order; a send
  does not wait for its receive.\<close>

section \<open>State\<close>

record cpa_message =
  cm_nodeID :: u64
  cm_kind :: u64
  cm_blame :: u64

definition NO_MSG :: u64 where "NO_MSG = 0"
definition PATH_FOUND_MSG :: u64 where "PATH_FOUND_MSG = 1"

text \<open>The node before the current one, which is only used for output, is left out.\<close>

record replay_rank =
  re_rank :: u32
  re_casita :: casita
  re_mpiGraph :: graph
  re_current :: "node_ref option"
  re_sectionEnd :: "node_ref option"
  re_master :: bool
  re_done :: bool
  re_sections :: "critical_section list"
  re_critical :: "node_ref list"

definition edge_from :: "node_ref option \<Rightarrow> node_ref \<Rightarrow> casita \<Rightarrow> edge_ref option" where
  "edge_from source target c = (case source of None \<Rightarrow> None | Some s \<Rightarrow> getEdge s target (ca_engine c))"

text \<open>A rank whose last MPI edge is not blocking begins as the master. The code assumes that the last MPI node belongs to a
  collective, whose rule has made the edges of all ranks blocking but that of the last one to enter.\<close>

definition replay_init :: "u32 \<Rightarrow> casita \<Rightarrow> node_ref list \<Rightarrow> replay_rank result" where
  "replay_init rank c criticalNodes = (case getLastGraphNode PARADIGM_MPI (ca_engine c) of
      None \<Rightarrow> Inl Null_Dereference
    | Some n \<Rightarrow>
        (let isMaster = (isLeave (ca_heap c n) \<and> (case edge_from (gn_first (ca_heap c n)) n c of
               None \<Rightarrow> False | Some e \<Rightarrow> \<not> e_blocking (ge_edges (ca_engine c) e))) in
         Inr \<lparr>re_rank = rank, re_casita = c,
              re_mpiGraph = getSubGraph (ca_heap c) (ge_edges (ca_engine c)) PARADIGM_MPI (ge_graph (ca_engine c)),
              re_current = Some n, re_sectionEnd = (if isMaster then Some n else None), re_master = isMaster, re_done = False,
              re_sections = [], re_critical = criticalNodes\<rparr>))"

section \<open>The master\<close>

definition set_critical :: "node_ref \<Rightarrow> replay_rank \<Rightarrow> replay_rank" where
  "set_critical n r = r\<lparr>re_casita := count_node n (re_casita r)\<rparr>"

text \<open>Without a current node or an edge of the activity the master goes to the first MPI node.\<close>

definition abort_replay :: "replay_rank \<Rightarrow> replay_rank result" where
  "abort_replay r = bind_res (getFirstTimedGraphNode PARADIGM_MPI (ca_engine (re_casita r))) (\<lambda>n. Inr (r\<lparr>re_current := n\<rparr>))"

definition push_section :: "node_ref \<Rightarrow> replay_rank \<Rightarrow> replay_rank" where
  "push_section n r = (case re_sectionEnd r of
      None \<Rightarrow> r
    | Some e \<Rightarrow> if n \<noteq> e then r\<lparr>re_sections := re_sections r @ [\<lparr>cs_startNode = n, cs_endNode = e\<rparr>]\<rparr> else r)"

definition has_section :: "node_ref \<Rightarrow> replay_rank \<Rightarrow> bool" where
  "has_section n r \<longleftrightarrow> (case re_sectionEnd r of None \<Rightarrow> False | Some e \<Rightarrow> n \<noteq> e)"

text \<open>The remote node of a leave, or else of its enter.\<close>

definition remote_info :: "node_ref \<Rightarrow> casita \<Rightarrow> remote_node option" where
  "remote_info n c = (case getRemoteNodeInfo n (an_mpi (ca_analysis c)) of
      (Some p, True) \<Rightarrow> Some p
    | _ \<Rightarrow> (case gn_first (ca_heap c n) of
         None \<Rightarrow> None
       | Some e \<Rightarrow> (case getRemoteNodeInfo e (an_mpi (ca_analysis c)) of (Some p, True) \<Rightarrow> Some p | _ \<Rightarrow> None)))"

definition forget_remote :: "node_ref \<Rightarrow> casita \<Rightarrow> casita" where
  "forget_remote n c = c\<lparr>ca_analysis := (ca_analysis c)\<lparr>an_mpi := removeRemoteNode n (an_mpi (ca_analysis c))\<rparr>\<rparr>"

definition go_to :: "node_ref \<Rightarrow> node_ref \<Rightarrow> replay_rank \<Rightarrow> replay_rank" where
  "go_to n next r = (set_critical n r)\<lparr>re_current := Some next\<rparr>"

type_synonym sends = "(u32 \<times> cpa_message) list"

definition master_leave :: "node_ref \<Rightarrow> replay_rank \<Rightarrow> (replay_rank \<times> sends) result" where
  "master_leave n r = (let c = re_casita r; x = ca_heap c n in
    case edge_from (gn_first x) n c of
      None \<Rightarrow> bind_res (abort_replay r) (\<lambda>r. Inr (r, []))
    | Some e \<Rightarrow>
        if e_blocking (ge_edges (ca_engine c) e) then
          (let r = (if has_section n r then set_critical n (push_section n r) else r) in
           case remote_info n c of
             None \<Rightarrow> Inr (go_to n (e_start (ge_edges (ca_engine c) e)) r, [])
           | Some p \<Rightarrow>
               bind_res (getMPIRank (rn_streamID p) (an_mpi (ca_analysis c))) (\<lambda>partner.
               Inr (r\<lparr>re_casita := forget_remote n (re_casita r), re_master := False, re_sectionEnd := None\<rparr>,
                    [(partner, \<lparr>cm_nodeID = rn_nodeID p, cm_kind = NO_MSG,
                       cm_blame = (if isMPIWait x \<or> isMPIWaitall x then getWaitingTime x else 0)\<rparr>)])))
        else Inr (go_to n (e_start (ge_edges (ca_engine c) e)) r, []))"

fun partner_ranks :: "u32 list \<Rightarrow> mpi_analysis \<Rightarrow> u32 list result" where
  "partner_ranks [] m = Inr []"
| "partner_ranks (p # ps) m = bind_res (getMPIRank (ucast p) m) (\<lambda>r. bind_res (partner_ranks ps m) (\<lambda>rs. Inr (r # rs)))"

text \<open>At \<^verbatim>\<open>MPI_Init\<close> or at the begin of an interval the path is found. The last number of the message is left from an
  earlier one and not read.\<close>

definition master_found :: "node_ref \<Rightarrow> replay_rank \<Rightarrow> (replay_rank \<times> sends) result" where
  "master_found n r =
    (let c = re_casita r;
         r = (if has_section n r then push_section n r
              else if isMPIInit (ca_heap c n) then r\<lparr>re_critical := re_critical r @ [n]\<rparr> else r) in
     bind_res (getMPICommGroup 0 (an_mpi (ca_analysis c))) (\<lambda>g.
     bind_res (partner_ranks (cg_procs g) (an_mpi (ca_analysis c))) (\<lambda>ps.
     Inr ((set_critical n r)\<lparr>re_done := True\<rparr>,
          map (\<lambda>p. (p, \<lparr>cm_nodeID = 0, cm_kind = PATH_FOUND_MSG, cm_blame = 0\<rparr>)) (filter (\<lambda>p. p \<noteq> re_rank r) ps)))))"

definition master_enter :: "node_ref \<Rightarrow> replay_rank \<Rightarrow> (replay_rank \<times> sends) result" where
  "master_enter n r = (let c = re_casita r; E = ge_edges (ca_engine c) in
    if isMPIInit (ca_heap c n) \<or> isAtomic (ca_heap c n) then master_found n r
    else
      bind_res (getInEdges n (re_mpiGraph r)) (\<lambda>es.
      case List.find (\<lambda>e. isIntraStreamEdge (ca_heap c) (E e)) es of
        None \<Rightarrow> Inl (Runtime_Error ''No ingoing intra-stream edge for node'')
      | Some e \<Rightarrow> Inr (go_to n (e_start (E e)) r, [])))"

definition master_step :: "replay_rank \<Rightarrow> (replay_rank \<times> sends) result" where
  "master_step r = (case re_current r of
      None \<Rightarrow> bind_res (abort_replay r) (\<lambda>r. Inr (r, []))
    | Some n \<Rightarrow> if isLeave (ca_heap (re_casita r) n) then master_leave n r else master_enter n r)"

section \<open>A slave\<close>

text \<open>While it waits, a slave computes its last section.\<close>

definition slave_section :: "nat \<Rightarrow> u32 \<Rightarrow> replay_rank \<Rightarrow> replay_rank step" where
  "slave_section fuel cpaLoopCheck r =
    bind_fuel (getCriticalLocalNodes fuel cpaLoopCheck (re_casita r) (last (re_sections r)) (re_critical r)) (\<lambda>ns.
      ret (r\<lparr>re_sections := butlast (re_sections r), re_critical := ns\<rparr>))"

text \<open>The node of a message is searched by its number, first in halves and then from the front. The code warns when it
  is not found and then uses the null pointer.\<close>

definition find_continuation :: "u64 \<Rightarrow> heap \<Rightarrow> node_ref list \<Rightarrow> node_ref option result" where
  "find_continuation nodeId h ns = bind_res (findNodeId h nodeId ns) (\<lambda>p.
    case p of
      Some n \<Rightarrow> Inr (if nd_id (h n) = nodeId then Some n else List.find (\<lambda>n. nd_id (h n) = nodeId) ns)
    | None \<Rightarrow> Inr (List.find (\<lambda>n. nd_id (h n) = nodeId) ns))"

definition slave_receive :: "cpa_message \<Rightarrow> replay_rank \<Rightarrow> replay_rank result" where
  "slave_receive m r =
    (if cm_kind m = PATH_FOUND_MSG then Inr (r\<lparr>re_done := True\<rparr>)
     else
       bind_res (find_continuation (cm_nodeID m) (ca_heap (re_casita r)) (g_nodes (re_mpiGraph r))) (\<lambda>p.
       case p of
         None \<Rightarrow> Inl Null_Dereference
       | Some n \<Rightarrow> (case gn_second (ca_heap (re_casita r) n) of
            None \<Rightarrow> Inl Null_Dereference
          | Some l \<Rightarrow> Inr ((set_critical l r)\<lparr>re_master := True, re_current := gn_first (ca_heap (re_casita r) l),
                             re_sectionEnd := Some l\<rparr>))))"

section \<open>All ranks\<close>

text \<open>A message in flight has its sender and its receiver.\<close>

record replay_system =
  rs_ranks :: "replay_rank list"
  rs_net :: "(nat \<times> nat \<times> cpa_message) list"

text \<open>All ranks begin, each with its own graph and the critical nodes of its last section; no message is under way.\<close>

fun start_ranks :: "u32 \<Rightarrow> (casita \<times> node_ref list) list \<Rightarrow> replay_rank list result" where
  "start_ranks i [] = Inr []"
| "start_ranks i ((c, ns) # cs) = bind_res (replay_init i c ns) (\<lambda>r. bind_res (start_ranks (i + 1) cs) (\<lambda>rs. Inr (r # rs)))"

definition start_replay :: "(casita \<times> node_ref list) list \<Rightarrow> replay_system result" where
  "start_replay cs = bind_res (start_ranks 0 cs) (\<lambda>rs. Inr \<lparr>rs_ranks = rs, rs_net = []\<rparr>)"

inductive replay_step :: "nat \<Rightarrow> u32 \<Rightarrow> replay_system \<Rightarrow> replay_system \<Rightarrow> bool" for fuel cpaLoopCheck where
  master: "\<lbrakk>i < length (rs_ranks S); r = rs_ranks S ! i; re_master r; \<not> re_done r; master_step r = Inr (r', ms)\<rbrakk> \<Longrightarrow>
    replay_step fuel cpaLoopCheck S
      (S\<lparr>rs_ranks := (rs_ranks S)[i := r'], rs_net := rs_net S @ map (\<lambda>(p, m). (i, unat p, m)) ms\<rparr>)"
| work: "\<lbrakk>i < length (rs_ranks S); r = rs_ranks S ! i; \<not> re_master r; \<not> re_done r; re_sections r \<noteq> [];
    slave_section fuel cpaLoopCheck r = ret r'\<rbrakk> \<Longrightarrow>
    replay_step fuel cpaLoopCheck S (S\<lparr>rs_ranks := (rs_ranks S)[i := r']\<rparr>)"
| receive: "\<lbrakk>i < length (rs_ranks S); r = rs_ranks S ! i; \<not> re_master r; \<not> re_done r;
    rs_net S = xs @ (s, i, m) # ys; \<And>m'. (s, i, m') \<notin> set xs; slave_receive m r = Inr r'\<rbrakk> \<Longrightarrow>
    replay_step fuel cpaLoopCheck S (S\<lparr>rs_ranks := (rs_ranks S)[i := r'], rs_net := xs @ ys\<rparr>)"

inductive_cases replay_stepE: "replay_step fuel cpaLoopCheck S S'"

inductive replay_reachable :: "nat \<Rightarrow> u32 \<Rightarrow> replay_system \<Rightarrow> replay_system \<Rightarrow> bool" for fuel cpaLoopCheck S0 where
  start: "replay_reachable fuel cpaLoopCheck S0 S0"
| step: "replay_reachable fuel cpaLoopCheck S0 S \<Longrightarrow> replay_step fuel cpaLoopCheck S S' \<Longrightarrow> replay_reachable fuel cpaLoopCheck S0 S'"

section \<open>The critical path of several ranks\<close>

text \<open>What a rank does before the replay, after it, and when it knows the first critical times of all ranks.\<close>

definition before_replay :: "nat \<Rightarrow> u32 \<Rightarrow> bool \<Rightarrow> u64 list \<Rightarrow> u32 \<Rightarrow> runner \<Rightarrow> (runner \<times> replay_rank) step" where
  "before_replay fuel cpaLoopCheck lastInterval lasts rank r =
    bind_fuel (if lastInterval then Some (findCriticalPathEnd lasts r) else ret r) (\<lambda>r.
    bind_fuel (last_section fuel cpaLoopCheck lastInterval r) (\<lambda>ns.
    bind_fuel (Some (replay_init rank (ru_casita r) ns)) (\<lambda>q. ret (r, q))))"

definition after_replay :: "nat \<Rightarrow> u32 \<Rightarrow> bool \<Rightarrow> replay_rank \<Rightarrow> runner \<Rightarrow> runner step" where
  "after_replay fuel cpaLoopCheck mergeActivities q r =
    bind_fuel (processSectionsParallel fuel cpaLoopCheck (re_casita q) (re_sections q) (re_critical q)) (\<lambda>ns.
      ret (mark_all mergeActivities ns (r\<lparr>ru_casita := re_casita q\<rparr>)))"

definition finish_path :: "bool \<Rightarrow> bool \<Rightarrow> (u64 \<times> u64) list \<Rightarrow> runner \<Rightarrow> runner" where
  "finish_path firstInterval lastInterval firsts r =
    (let r = (if firstInterval then findCriticalPathStart firsts r else r) in if lastInterval then set_length r else r)"

end
