(* ===== verification/ReplayLaws.thy ===== *)
theory ReplayLaws
  imports ReplayModel
begin

text \<open>Laws of the reverse replay: there is always one master or one message that makes one, until the path is found;
  the ranks never wait for each other for ever; once the path is found all of them stop.\<close>

section \<open>Counting\<close>

lemma length_filter_update:
  "i < length xs \<Longrightarrow> length (filter P (xs[i := y])) + (if P (xs ! i) then 1 else 0) =
    length (filter P xs) + (if P y then 1 else (0 :: nat))"
proof (induction xs arbitrary: i)
  case (Cons x xs)
  then show ?case
    by (cases i) auto
qed simp

lemma size_filter: "size (filter_mset P (mset xs)) = length (filter P xs)"
  by (metis mset_filter size_mset)

definition active :: "replay_rank \<Rightarrow> bool" where
  "active r \<longleftrightarrow> re_master r \<and> \<not> re_done r"

definition is_stop :: "nat \<times> nat \<times> cpa_message \<Rightarrow> bool" where
  "is_stop p \<longleftrightarrow> cm_kind (snd (snd p)) = PATH_FOUND_MSG"

definition stop_for :: "nat \<Rightarrow> nat \<times> nat \<times> cpa_message \<Rightarrow> bool" where
  "stop_for i p \<longleftrightarrow> is_stop p \<and> fst (snd p) = i"

definition masters :: "replay_system \<Rightarrow> nat" where
  "masters S = length (filter active (rs_ranks S))"

definition calls_in_flight :: "replay_system \<Rightarrow> nat" where
  "calls_in_flight S = length (filter (\<lambda>p. \<not> is_stop p) (rs_net S))"

definition stops :: "nat \<Rightarrow> replay_system \<Rightarrow> nat" where
  "stops i S = length (filter (stop_for i) (rs_net S))"

section \<open>The world of the ranks\<close>

text \<open>The group 0 of a rank has every rank once, and no stream belongs to a rank that is not there.\<close>

definition world_ok :: "nat \<Rightarrow> mpi_analysis \<Rightarrow> bool" where
  "world_ok n m \<longleftrightarrow> (\<exists>g ps. getMPICommGroup 0 m = Inr g \<and> partner_ranks (cg_procs g) m = Inr ps \<and>
      mset ps = mset (map of_nat [0..<n])) \<and> (\<forall>s r. getMPIRank s m = Inr r \<longrightarrow> unat r < n)"

definition rank_world :: "replay_rank \<Rightarrow> mpi_analysis" where
  "rank_world r = an_mpi (ca_analysis (re_casita r))"

definition same_world :: "mpi_analysis \<Rightarrow> mpi_analysis \<Rightarrow> bool" where
  "same_world m k \<longleftrightarrow> ma_commGroups m = ma_commGroups k \<and> ma_streamIdRankMap m = ma_streamIdRankMap k"

lemma same_world_rank: "same_world m k \<Longrightarrow> getMPIRank s m = getMPIRank s k"
  by (simp add: same_world_def getMPIRank_def)

lemma same_world_partners: "same_world m k \<Longrightarrow> partner_ranks ps m = partner_ranks ps k"
  by (induction ps) (simp_all add: same_world_rank)

lemma same_world_ok: "same_world m k \<Longrightarrow> world_ok n m = world_ok n k"
  using same_world_partners [of m k] same_world_rank [of m k]
  by (auto simp: world_ok_def getMPICommGroup_def same_world_def)

definition ranks_ok :: "replay_system \<Rightarrow> bool" where
  "ranks_ok S \<longleftrightarrow> length (rs_ranks S) < 2 ^ 32 \<and> (\<forall>i < length (rs_ranks S). unat (re_rank (rs_ranks S ! i)) = i \<and>
     world_ok (length (rs_ranks S)) (rank_world (rs_ranks S ! i)))"

text \<open>What a step leaves alone.\<close>

definition keeps_rank :: "replay_rank \<Rightarrow> replay_rank \<Rightarrow> bool" where
  "keeps_rank r r' \<longleftrightarrow> re_rank r' = re_rank r \<and> same_world (rank_world r') (rank_world r)"

lemma keeps_rank_refl [simp]: "keeps_rank r r"
  by (simp add: keeps_rank_def same_world_def)

lemma keeps_rank_fields [simp]:
  "keeps_rank r (r'\<lparr>re_current := p\<rparr>) = keeps_rank r r'" "keeps_rank r (r'\<lparr>re_sectionEnd := p\<rparr>) = keeps_rank r r'"
  "keeps_rank r (r'\<lparr>re_master := b\<rparr>) = keeps_rank r r'" "keeps_rank r (r'\<lparr>re_done := b\<rparr>) = keeps_rank r r'"
  "keeps_rank r (r'\<lparr>re_sections := ss\<rparr>) = keeps_rank r r'" "keeps_rank r (r'\<lparr>re_critical := ns\<rparr>) = keeps_rank r r'"
  by (simp_all add: keeps_rank_def rank_world_def)

lemma keeps_rank_critical [simp]: "keeps_rank r (set_critical n r') = keeps_rank r r'"
  by (simp add: keeps_rank_def rank_world_def set_critical_def count_node_def update_node_def)

lemma keeps_rank_forget [simp]: "keeps_rank r (r'\<lparr>re_casita := forget_remote n (re_casita r')\<rparr>) = keeps_rank r r'"
  by (simp add: keeps_rank_def rank_world_def forget_remote_def removeRemoteNode_def same_world_def)

lemma keeps_rank_section [simp]: "keeps_rank r (push_section n r') = keeps_rank r r'"
  by (simp add: push_section_def split: option.split)

lemma rank_flags [simp]:
  "re_master (set_critical n r) = re_master r" "re_done (set_critical n r) = re_done r" "re_rank (set_critical n r) = re_rank r"
  "re_master (push_section n r) = re_master r" "re_done (push_section n r) = re_done r" "re_rank (push_section n r) = re_rank r"
  "re_sections (set_critical n r) = re_sections r"
  by (simp_all add: set_critical_def push_section_def split: option.split)

lemma abort_facts: "abort_replay r = Inr r' \<Longrightarrow> re_master r' = re_master r \<and> re_done r' = re_done r \<and> keeps_rank r r'"
  by (auto simp: abort_replay_def bind_res_Inr)

text \<open>A master goes on, or calls one rank and becomes a slave, or stops and tells all others.\<close>

definition master_outcome :: "replay_rank \<Rightarrow> replay_rank \<Rightarrow> sends \<Rightarrow> bool" where
  "master_outcome r r' ms \<longleftrightarrow>
     ms = [] \<and> re_master r' \<and> \<not> re_done r' \<or>
     (\<exists>d m s. ms = [(d, m)] \<and> cm_kind m = NO_MSG \<and> getMPIRank s (rank_world r) = Inr d \<and> \<not> re_master r' \<and> \<not> re_done r') \<or>
     (\<exists>g ps k. getMPICommGroup 0 (rank_world r) = Inr g \<and> partner_ranks (cg_procs g) (rank_world r) = Inr ps \<and>
        cm_kind k = PATH_FOUND_MSG \<and> ms = map (\<lambda>p. (p, k)) (filter (\<lambda>p. p \<noteq> re_rank r) ps) \<and> re_done r')"

lemma master_leave_facts:
  "master_leave n r = Inr (r', ms) \<Longrightarrow> re_master r \<Longrightarrow> \<not> re_done r \<Longrightarrow> keeps_rank r r' \<and> master_outcome r r' ms"
  unfolding master_leave_def Let_def go_to_def
  by (auto simp: bind_res_Inr master_outcome_def rank_world_def dest!: abort_facts split: option.splits if_splits)

lemma master_found_facts:
  assumes "master_found n r = Inr (r', ms)"
  shows "keeps_rank r r' \<and> master_outcome r r' ms"
proof -
  let ?k = "\<lparr>cm_nodeID = 0, cm_kind = PATH_FOUND_MSG, cm_blame = 0\<rparr>"
  obtain g ps where g: "getMPICommGroup 0 (rank_world r) = Inr g" "partner_ranks (cg_procs g) (rank_world r) = Inr ps"
    and ms: "ms = map (\<lambda>p. (p, ?k)) (filter (\<lambda>p. p \<noteq> re_rank r) ps)" and r: "keeps_rank r r'" "re_done r'"
    using assms by (auto simp: master_found_def Let_def bind_res_Inr rank_world_def split: if_splits)
  show ?thesis
    unfolding master_outcome_def using g ms r by (intro conjI disjI2 exI [of _ g] exI [of _ ps] exI [of _ ?k]) auto
qed

lemma master_step_facts:
  assumes "master_step r = Inr (r', ms)" "re_master r" "\<not> re_done r"
  shows "keeps_rank r r' \<and> master_outcome r r' ms"
proof (cases "re_current r")
  case None
  then show ?thesis
    using assms by (auto simp: master_step_def bind_res_Inr master_outcome_def dest!: abort_facts)
next
  case (Some n)
  show ?thesis
  proof (cases "isLeave (ca_heap (re_casita r) n)")
    case True
    then show ?thesis
      using assms Some master_leave_facts by (simp add: master_step_def)
  next
    case False
    then have "master_enter n r = Inr (r', ms)"
      using assms(1) Some by (simp add: master_step_def)
    then show ?thesis
      using assms(2,3) master_found_facts [of n r r' ms]
      by (auto simp: master_enter_def Let_def bind_res_Inr go_to_def master_outcome_def split: if_splits option.splits)
  qed
qed

lemma slave_section_facts:
  "slave_section fuel k r = ret r' \<Longrightarrow> keeps_rank r r' \<and> re_master r' = re_master r \<and> re_done r' = re_done r \<and>
    re_sections r' = butlast (re_sections r)"
  by (auto simp: slave_section_def ret_bind ret_inject)

lemma slave_receive_facts:
  assumes "slave_receive m r = Inr r'"
  shows "keeps_rank r r' \<and>
    (if cm_kind m = PATH_FOUND_MSG then re_done r' \<and> re_sections r' = re_sections r else re_master r' \<and> re_done r' = re_done r)"
proof (cases "cm_kind m = PATH_FOUND_MSG")
  case True
  then show ?thesis
    using assms by (auto simp: slave_receive_def)
next
  case False
  obtain l p where "r' = (set_critical l r)\<lparr>re_master := True, re_current := p, re_sectionEnd := Some l\<rparr>"
    using assms False by (auto simp: slave_receive_def bind_res_def split: sum.splits option.splits)
  then show ?thesis
    using False by simp
qed

section \<open>One master\<close>

text \<open>Until the path is found there is one master or one call under way, and no rank has stopped; afterwards there is
  neither, and every rank that has not stopped has one message to do so.\<close>

definition searching :: "replay_system \<Rightarrow> bool" where
  "searching S \<longleftrightarrow> masters S + calls_in_flight S = 1 \<and> (\<forall>r \<in> set (rs_ranks S). \<not> re_done r) \<and>
     (\<forall>p \<in> set (rs_net S). \<not> is_stop p \<and> fst (snd p) < length (rs_ranks S))"

definition path_found :: "replay_system \<Rightarrow> bool" where
  "path_found S \<longleftrightarrow> masters S + calls_in_flight S = 0 \<and> (\<exists>r \<in> set (rs_ranks S). re_done r) \<and>
     (\<forall>i < length (rs_ranks S). stops i S = (if re_done (rs_ranks S ! i) then 0 else 1))"

definition replay_inv :: "replay_system \<Rightarrow> bool" where
  "replay_inv S \<longleftrightarrow> ranks_ok S \<and> (searching S \<or> path_found S)"

lemma ranks_ok_update:
  assumes "ranks_ok S" "i < length (rs_ranks S)" "keeps_rank (rs_ranks S ! i) r'"
  shows "ranks_ok (S\<lparr>rs_ranks := (rs_ranks S)[i := r'], rs_net := N\<rparr>)"
proof -
  have "unat (re_rank r') = i" "world_ok (length (rs_ranks S)) (rank_world r')"
    using assms same_world_ok [of "rank_world r'" "rank_world (rs_ranks S ! i)"] by (auto simp: ranks_ok_def keeps_rank_def)
  then have "unat (re_rank ((rs_ranks S)[i := r'] ! j)) = j \<and> world_ok (length (rs_ranks S)) (rank_world ((rs_ranks S)[i := r'] ! j))"
    if "j < length (rs_ranks S)" for j
    using assms(1) that by (cases "j = i") (simp_all add: ranks_ok_def)
  then show ?thesis
    using assms(1) by (simp add: ranks_ok_def)
qed

lemma masters_update:
  "i < length (rs_ranks S) \<Longrightarrow> masters (S\<lparr>rs_ranks := (rs_ranks S)[i := r], rs_net := N\<rparr>) + (if active (rs_ranks S ! i) then 1 else 0) =
    masters S + (if active r then 1 else 0)"
  by (simp add: masters_def length_filter_update)

lemma calls_simps [simp]:
  "calls_in_flight (S\<lparr>rs_ranks := R, rs_net := N\<rparr>) = length (filter (\<lambda>p. \<not> is_stop p) N)"
  "stops i (S\<lparr>rs_ranks := R, rs_net := N\<rparr>) = length (filter (stop_for i) N)"
  by (simp_all add: calls_in_flight_def stops_def)

lemma no_calls: "calls_in_flight S = 0 \<longleftrightarrow> (\<forall>p \<in> set (rs_net S). is_stop p)"
  by (simp add: calls_in_flight_def filter_empty_conv)

lemma no_masters: "masters S = 0 \<longleftrightarrow> (\<forall>r \<in> set (rs_ranks S). \<not> active r)"
  by (simp add: masters_def filter_empty_conv)

lemma masters_pos: "i < length (rs_ranks S) \<Longrightarrow> active (rs_ranks S ! i) \<Longrightarrow> 0 < masters S"
  using no_masters [of S] nth_mem [of i "rs_ranks S"] by fastforce

text \<open>The stops that the finder sends reach every other rank once.\<close>

lemma stops_sent:
  assumes "mset ps = mset (map of_nat [0..<n])" "n < 2 ^ 32" "unat me = i" "i < n" "j < n" "cm_kind k = PATH_FOUND_MSG"
  shows "length (filter (stop_for j) (map (\<lambda>(p, m). (i, unat p, m)) (map (\<lambda>p. (p, k)) (filter (\<lambda>p. p \<noteq> me) (ps :: u32 list))))) =
    (if j = i then 0 else 1)"
proof -
  have u: "unat (of_nat q :: u32) = q" if "q < n" for q
    using that assms(2) by (simp add: unat_of_nat)
  have "length (filter (stop_for j) (map (\<lambda>(p, m). (i, unat p, m)) (map (\<lambda>p. (p, k)) (filter (\<lambda>p. p \<noteq> me) ps)))) =
      size (filter_mset (\<lambda>p. p \<noteq> me \<and> unat p = j) (mset ps))"
    by (simp add: size_filter filter_map comp_def stop_for_def is_stop_def assms(6) conj_commute)
  also have "\<dots> = length (filter (\<lambda>q. of_nat q \<noteq> me \<and> unat (of_nat q :: u32) = j) [0..<n])"
    unfolding assms(1) size_filter by (simp add: filter_map comp_def)
  also have "filter (\<lambda>q. of_nat q \<noteq> me \<and> unat (of_nat q :: u32) = j) [0..<n] = filter (\<lambda>q. q = j \<and> j \<noteq> i) [0..<n]"
    using u assms(3,4) by (intro filter_cong refl) auto
  also have "length \<dots> = (if j = i then 0 else 1)"
    using assms(5) by (auto simp: distinct_length_filter)
  finally show ?thesis .
qed

lemma set_update_done:
  "\<forall>r \<in> set xs. \<not> re_done r \<Longrightarrow> \<not> re_done r' \<Longrightarrow> \<forall>r \<in> set (xs[i := r']). \<not> re_done r"
  using set_update_subset_insert [of xs i r'] by blast

lemma master_inv:
  assumes "replay_inv S" "i < length (rs_ranks S)" "active (rs_ranks S ! i)" "master_step (rs_ranks S ! i) = Inr (r', ms)"
  shows "replay_inv (S\<lparr>rs_ranks := (rs_ranks S)[i := r'], rs_net := rs_net S @ map (\<lambda>(p, m). (i, unat p, m)) ms\<rparr>)"
    (is "replay_inv ?S")
proof -
  let ?r = "rs_ranks S ! i" and ?n = "length (rs_ranks S)"
  have pos: "0 < masters S"
    using masters_pos assms(2,3) .
  then have s: "masters S = 1" "calls_in_flight S = 0" "\<forall>r \<in> set (rs_ranks S). \<not> re_done r" "rs_net S = []"
  proof -
    show s: "masters S = 1" "calls_in_flight S = 0" "\<forall>r \<in> set (rs_ranks S). \<not> re_done r"
      using assms(1) pos by (auto simp: replay_inv_def searching_def path_found_def)
    have "p \<notin> set (rs_net S)" for p
      using assms(1) pos s(2) no_calls [of S] by (cases p) (auto simp: replay_inv_def searching_def path_found_def)
    then show "rs_net S = []"
      by (cases "rs_net S") auto
  qed
  have ok: "ranks_ok S" "unat (re_rank ?r) = i" "world_ok ?n (rank_world ?r)" "?n < 2 ^ 32"
    using assms(1,2) by (auto simp: replay_inv_def ranks_ok_def)
  have k: "keeps_rank ?r r'" "master_outcome ?r r' ms"
    using master_step_facts [OF assms(4)] assms(3) by (auto simp: active_def)
  have "ranks_ok ?S"
    by (rule ranks_ok_update [OF ok(1) assms(2) k(1)])
  have m: "masters ?S + 1 = 1 + (if active r' then 1 else 0)"
    using masters_update [OF assms(2), where r = r' and N = "rs_net S @ map (\<lambda>(p, m). (i, unat p, m)) ms"] assms(3) s(1) by simp
  consider "ms = []" "re_master r'" "\<not> re_done r'"
    | d k t where "ms = [(d, k)]" "cm_kind k = NO_MSG" "getMPIRank t (rank_world ?r) = Inr d" "\<not> re_master r'" "\<not> re_done r'"
    | g ps k where "getMPICommGroup 0 (rank_world ?r) = Inr g" "partner_ranks (cg_procs g) (rank_world ?r) = Inr ps"
        "cm_kind k = PATH_FOUND_MSG" "ms = map (\<lambda>p. (p, k)) (filter (\<lambda>p. p \<noteq> re_rank ?r) ps)" "re_done r'"
    using k(2) unfolding master_outcome_def by blast
  then have "searching ?S \<or> path_found ?S"
  proof cases
    case 1
    then show ?thesis
      using m s set_update_done [OF s(3)] by (simp add: searching_def active_def)
  next
    case 2
    then have "unat d < ?n"
      using ok(3) by (auto simp: world_ok_def)
    then show ?thesis
      using 2 m s set_update_done [OF s(3)] by (simp add: searching_def active_def is_stop_def NO_MSG_def PATH_FOUND_MSG_def)
  next
    case 3
    have ps: "mset ps = mset (map of_nat [0..<?n])"
      using ok(3) 3(1,2) by (auto simp: world_ok_def)
    have "stops j ?S = (if re_done (rs_ranks ?S ! j) then 0 else 1)" if "j < ?n" for j
      using stops_sent [OF ps ok(4,2) assms(2) that 3(3)] s(3,4) 3(4,5) that
      by (cases "j = i") (simp_all only: calls_simps append_Nil list_update_length, simp_all)
    moreover have "calls_in_flight ?S = 0"
      using 3(3,4) s(4) by (auto simp: no_calls is_stop_def)
    moreover have "\<exists>r \<in> set (rs_ranks ?S). re_done r"
      using set_update_memI [OF assms(2), of r'] 3(5) by auto
    ultimately show ?thesis
      using m 3(5) by (simp add: path_found_def active_def)
  qed
  then show ?thesis
    using \<open>ranks_ok ?S\<close> by (simp add: replay_inv_def)
qed

lemma receive_inv:
  assumes "replay_inv S" "i < length (rs_ranks S)" "\<not> re_master (rs_ranks S ! i)" "\<not> re_done (rs_ranks S ! i)"
    "rs_net S = xs @ (s, i, m) # ys" "slave_receive m (rs_ranks S ! i) = Inr r'"
  shows "replay_inv (S\<lparr>rs_ranks := (rs_ranks S)[i := r'], rs_net := xs @ ys\<rparr>) \<and>
    (path_found S \<longrightarrow> path_found (S\<lparr>rs_ranks := (rs_ranks S)[i := r'], rs_net := xs @ ys\<rparr>))"
    (is "replay_inv ?S \<and> (_ \<longrightarrow> path_found ?S)")
proof -
  have k: "keeps_rank (rs_ranks S ! i) r'" "if cm_kind m = PATH_FOUND_MSG then re_done r' else re_master r' \<and> \<not> re_done r'"
    using slave_receive_facts [OF assms(6)] assms(4) by (auto split: if_splits)
  have m: "masters ?S = masters S + (if active r' then 1 else 0)"
    using masters_update [OF assms(2), where r = r' and N = "xs @ ys"] assms(3) by (simp add: active_def)
  have c: "calls_in_flight S = calls_in_flight ?S + (if cm_kind m = PATH_FOUND_MSG then 0 else 1)"
    by (simp add: calls_in_flight_def assms(5) is_stop_def)
  have t: "stops j S = stops j ?S + (if cm_kind m = PATH_FOUND_MSG \<and> j = i then 1 else 0)" for j
    by (auto simp: stops_def assms(5) stop_for_def is_stop_def)
  have "searching ?S" if "searching S"
  proof -
    have "cm_kind m \<noteq> PATH_FOUND_MSG"
      using that by (auto simp: searching_def assms(5) is_stop_def)
    then show ?thesis
      using that k(2) m c set_update_done [of "rs_ranks S" r' i] by (auto simp: searching_def active_def assms(5))
  qed
  moreover have "path_found ?S" if f: "path_found S"
  proof -
    have p: "cm_kind m = PATH_FOUND_MSG"
      using c f by (auto simp: path_found_def split: if_splits)
    have "stops j ?S = (if re_done (rs_ranks ?S ! j) then 0 else 1)" if "j < length (rs_ranks S)" for j
      using f t [of j] that p k(2) assms(2,4) by (cases "j = i") (auto simp: path_found_def)
    moreover have "\<exists>r \<in> set (rs_ranks ?S). re_done r"
      using set_update_memI [OF assms(2), of r'] k(2) p by auto
    ultimately show ?thesis
      using f m c k(2) p by (simp add: path_found_def active_def)
  qed
  ultimately show ?thesis
    using ranks_ok_update [OF _ assms(2) k(1)] assms(1) by (auto simp: replay_inv_def)
qed

lemma work_inv:
  assumes "replay_inv S" "i < length (rs_ranks S)" "\<not> re_master (rs_ranks S ! i)"
    "slave_section fuel k (rs_ranks S ! i) = ret r'"
  shows "replay_inv (S\<lparr>rs_ranks := (rs_ranks S)[i := r']\<rparr>) \<and>
    (path_found S \<longrightarrow> path_found (S\<lparr>rs_ranks := (rs_ranks S)[i := r']\<rparr>))"
proof -
  let ?T = "S\<lparr>rs_ranks := (rs_ranks S)[i := r'], rs_net := rs_net S\<rparr>"
  have f: "keeps_rank (rs_ranks S ! i) r'" "re_master r' = re_master (rs_ranks S ! i)" "re_done r' = re_done (rs_ranks S ! i)"
    using slave_section_facts [OF assms(4)] by simp_all
  have m: "masters ?T = masters S"
    using masters_update [OF assms(2), where r = r' and N = "rs_net S"] assms(3) f(2) by (simp add: active_def)
  have d: "re_done (rs_ranks ?T ! j) = re_done (rs_ranks S ! j)" for j
    using assms(2) f(3) by (cases "j = i") simp_all
  have "searching S \<Longrightarrow> searching ?T"
    using m d by (auto simp: searching_def calls_in_flight_def all_set_conv_all_nth)
  moreover have "path_found ?T" if found: "path_found S"
  proof -
    obtain j where "j < length (rs_ranks S)" "re_done (rs_ranks S ! j)"
      using found unfolding path_found_def Bex_def in_set_conv_nth by blast
    then have "\<exists>r \<in> set (rs_ranks ?T). re_done r"
      using d [of j] nth_mem [of j "rs_ranks ?T"] by auto
    then show ?thesis
      using found m d by (simp add: path_found_def calls_in_flight_def stops_def)
  qed
  moreover have "ranks_ok ?T"
    using ranks_ok_update [OF _ assms(2) f(1), of "rs_net S"] assms(1) unfolding replay_inv_def by blast
  ultimately have "replay_inv ?T \<and> (path_found S \<longrightarrow> path_found ?T)"
    using assms(1) unfolding replay_inv_def by blast
  then show ?thesis
    by simp
qed

lemma replay_step_inv: "replay_step fuel k S S' \<Longrightarrow> replay_inv S \<Longrightarrow> replay_inv S'"
  by (erule replay_stepE) (auto simp: active_def dest: master_inv receive_inv work_inv)

lemma replay_reachable_inv: "replay_reachable fuel k S0 S \<Longrightarrow> replay_inv S0 \<Longrightarrow> replay_inv S"
  by (induction rule: replay_reachable.induct) (auto intro: replay_step_inv)

section \<open>The start\<close>

text \<open>Every rank begins from its own graph (\<^verbatim>\<open>replay_init\<close>), knows all ranks, and the last MPI edge of exactly one of
  them is not blocking. The code assumes this of the last collective; \<^verbatim>\<open>no_master_no_step\<close> shows what happens when no
  edge is free.\<close>

definition one_starts :: "(casita \<times> node_ref list) list \<Rightarrow> replay_system \<Rightarrow> bool" where
  "one_starts cs S \<longleftrightarrow> start_replay cs = Inr S \<and> length cs < 2 ^ 32 \<and>
     (\<forall>(c, ns) \<in> set cs. world_ok (length cs) (an_mpi (ca_analysis c))) \<and> length (filter re_master (rs_ranks S)) = 1"

lemma replay_init_facts:
  "replay_init i c ns = Inr r \<Longrightarrow> re_rank r = i \<and> rank_world r = an_mpi (ca_analysis c) \<and> \<not> re_done r \<and> re_sections r = []"
  by (cases "getLastGraphNode PARADIGM_MPI (ca_engine c)") (auto simp: replay_init_def Let_def rank_world_def)

lemma start_ranks_facts:
  "start_ranks i cs = Inr rs \<Longrightarrow> length rs = length cs \<and> (\<forall>j < length cs. re_rank (rs ! j) = i + of_nat j \<and>
     rank_world (rs ! j) = an_mpi (ca_analysis (fst (cs ! j))) \<and> \<not> re_done (rs ! j))"
proof (induction i cs arbitrary: rs rule: start_ranks.induct)
  case (2 i c ns cs)
  obtain r rs' where r: "rs = r # rs'" "replay_init i c ns = Inr r" "start_ranks (i + 1) cs = Inr rs'"
    using 2(2) by (auto simp: bind_res_Inr)
  show ?case
    using 2(1) [OF r(3)] replay_init_facts [OF r(2)] r(1) by (auto simp: nth_Cons split: nat.split)
qed simp

lemma replay_start_inv:
  assumes "one_starts cs S"
  shows "replay_inv S"
proof -
  obtain rs where rs: "S = \<lparr>rs_ranks = rs, rs_net = []\<rparr>" "start_ranks 0 cs = Inr rs"
    using assms by (auto simp: one_starts_def start_replay_def bind_res_Inr)
  have f: "length rs = length cs" "re_rank (rs ! j) = of_nat j" "rank_world (rs ! j) = an_mpi (ca_analysis (fst (cs ! j)))"
    "\<not> re_done (rs ! j)" if "j < length cs" for j
    using start_ranks_facts [OF rs(2)] that by auto
  have l: "length rs = length cs"
    using start_ranks_facts [OF rs(2)] by simp
  have w: "world_ok (length cs) (an_mpi (ca_analysis (fst (cs ! j))))" if "j < length cs" for j
    using assms nth_mem [OF that] by (auto simp: one_starts_def split_beta)
  have d: "\<forall>r \<in> set rs. \<not> re_done r"
    using f l by (auto simp: in_set_conv_nth)
  then have "filter active rs = filter re_master rs"
    by (intro filter_cong refl) (simp add: active_def)
  then have "searching S"
    using assms rs(1) d by (simp add: searching_def masters_def calls_in_flight_def one_starts_def)
  moreover have "ranks_ok S"
    using assms rs(1) f w l by (auto simp: ranks_ok_def one_starts_def unat_of_nat)
  ultimately show ?thesis
    by (simp add: replay_inv_def)
qed

lemma started_inv: "one_starts cs S0 \<Longrightarrow> replay_reachable fuel k S0 S \<Longrightarrow> replay_inv S"
  using replay_reachable_inv replay_start_inv by blast

text \<open>C9. When the replay starts with one rank whose last MPI edge is not blocking, then in every later state there is exactly
  one master or one call on its way to a rank that becomes the master, until a rank has stopped; from then on there is
  neither. Two ranks never follow the critical path at the same time, and the path is never lost.\<close>
theorem one_master:
  assumes "one_starts cs S0" "replay_reachable fuel k S0 S"
  shows "masters S + calls_in_flight S = (if \<exists>r \<in> set (rs_ranks S). re_done r then 0 else 1)"
  using started_inv [OF assms] by (auto simp: replay_inv_def searching_def path_found_def)

section \<open>No deadlock\<close>

text \<open>A rank fails when it throws or uses a null pointer.\<close>

definition rank_fails :: "replay_system \<Rightarrow> nat \<Rightarrow> bool" where
  "rank_fails S i \<longleftrightarrow> (let r = rs_ranks S ! i in
     active r \<and> (\<exists>e. master_step r = Inl e) \<or>
     \<not> re_master r \<and> \<not> re_done r \<and> (\<exists>xs s m ys e. rs_net S = xs @ (s, i, m) # ys \<and> (\<forall>m'. (s, i, m') \<notin> set xs) \<and>
        slave_receive m r = Inl e))"

lemma master_moves:
  assumes "i < length (rs_ranks S)" "active (rs_ranks S ! i)"
  shows "(\<exists>S'. replay_step fuel k S S') \<or> rank_fails S i"
proof (cases "master_step (rs_ranks S ! i)")
  case (Inl e)
  then show ?thesis
    using assms(2) by (auto simp: rank_fails_def Let_def)
next
  case (Inr p)
  then show ?thesis
    using replay_step.master [OF assms(1) refl] assms(2) by (cases p) (auto simp: active_def)
qed

lemma slave_moves:
  assumes "i < length (rs_ranks S)" "\<not> re_master (rs_ranks S ! i)" "\<not> re_done (rs_ranks S ! i)" "(s, i, m) \<in> set (rs_net S)"
  shows "(\<exists>S'. replay_step fuel k S S') \<or> rank_fails S i"
proof -
  obtain xs p ys where x: "rs_net S = xs @ p # ys" "fst p = s \<and> fst (snd p) = i" "\<forall>q \<in> set xs. \<not> (fst q = s \<and> fst (snd q) = i)"
    using split_list_first_prop [of "rs_net S" "\<lambda>p. fst p = s \<and> fst (snd p) = i"] assms(4) by fastforce
  then obtain m' where m: "p = (s, i, m')"
    by (cases p) auto
  have f: "(s, i, m) \<notin> set xs" for m
    using x(3) by fastforce
  show ?thesis
  proof (cases "slave_receive m' (rs_ranks S ! i)")
    case (Inl e)
    then show ?thesis
      using assms(2,3) x(1) m f unfolding rank_fails_def Let_def by blast
  next
    case (Inr r')
    then show ?thesis
      using replay_step.receive [OF assms(1) refl assms(2,3) x(1) [unfolded m] f Inr] by blast
  qed
qed

lemma stop_message: "stops i S \<noteq> 0 \<Longrightarrow> \<exists>s m. (s, i, m) \<in> set (rs_net S) \<and> cm_kind m = PATH_FOUND_MSG"
  by (fastforce simp: stops_def filter_empty_conv stop_for_def is_stop_def)

text \<open>C8. The replay has no deadlock when it starts with one rank whose last MPI edge is not blocking: as long as a rank has
  not stopped, some rank makes a step, or fails with an error of its own. The ranks are then never all waiting for
  messages, in whatever order the messages arrive and the slaves compute their sections.\<close>
theorem replay_never_deadlocks:
  assumes "one_starts cs S0" "replay_reachable fuel k S0 S" "r \<in> set (rs_ranks S)" "\<not> re_done r"
  shows "(\<exists>S'. replay_step fuel k S S') \<or> (\<exists>i < length (rs_ranks S). rank_fails S i)"
proof -
  have inv: "replay_inv S"
    by (rule started_inv [OF assms(1,2)])
  obtain j where j: "j < length (rs_ranks S)" "\<not> re_done (rs_ranks S ! j)"
    using assms(3,4) by (auto simp: in_set_conv_nth)
  show ?thesis
  proof (cases "masters S = 0")
    case False
    then obtain i where "i < length (rs_ranks S)" "active (rs_ranks S ! i)"
      by (auto simp: no_masters in_set_conv_nth)
    then show ?thesis
      using master_moves by blast
  next
    case True
    then have slave: "\<not> re_master (rs_ranks S ! i)" if "i < length (rs_ranks S)" "\<not> re_done (rs_ranks S ! i)" for i
      using that by (auto simp: no_masters active_def)
    show ?thesis
    proof (cases "searching S")
      case found: True
      then have "rs_net S \<noteq> []"
        using True by (auto simp: searching_def calls_in_flight_def)
      then obtain s i m where m: "(s, i, m) \<in> set (rs_net S)"
        by (cases "rs_net S") auto
      then have "i < length (rs_ranks S)" "\<not> re_done (rs_ranks S ! i)"
        using found by (auto simp: searching_def)
      then show ?thesis
        using slave_moves [OF _ slave _ m] by blast
    next
      case False
      then have "stops j S \<noteq> 0"
        using inv j by (simp add: replay_inv_def path_found_def)
      then show ?thesis
        using stop_message [of j S] slave_moves [OF j(1) slave [OF j] j(2)] j(1) by blast
    qed
  qed
qed

section \<open>The end of the replay\<close>

definition rank_work :: "replay_rank \<Rightarrow> nat" where
  "rank_work r = (if re_done r then 0 else 1 + length (re_sections r))"

definition remaining :: "replay_system \<Rightarrow> nat" where
  "remaining S = sum_list (map rank_work (rs_ranks S))"

lemma sum_list_update:
  "i < length xs \<Longrightarrow> sum_list (map f (xs[i := y])) + f (xs ! i) = sum_list (map f xs) + (f y :: nat)"
proof (induction xs arbitrary: i)
  case (Cons x xs)
  then show ?case
    by (cases i) (auto simp: add.assoc add.left_commute)
qed simp

lemma remaining_less:
  assumes "i < length (rs_ranks S)" "rank_work r' < rank_work (rs_ranks S ! i)" "rs_ranks S' = (rs_ranks S)[i := r']"
  shows "remaining S' < remaining S"
  using sum_list_update [OF assms(1), of rank_work r'] assms(2,3) by (simp add: remaining_def)

lemma path_found_step:
  assumes "replay_step fuel k S S'" "replay_inv S" "path_found S"
  shows "path_found S' \<and> remaining S' < remaining S"
  using assms(1)
proof (cases rule: replay_step.cases)
  case (master i r r' ms)
  then have "0 < masters S"
    using masters_pos [of i S] by (simp add: active_def)
  then show ?thesis
    using assms(3) by (simp add: path_found_def)
next
  case (work i r r')
  have f: "re_done r' = re_done r" "re_sections r' = butlast (re_sections r)"
    using slave_section_facts [OF work(7)] by simp_all
  have "rank_work r' < rank_work (rs_ranks S ! i)"
    using work(3,5,6) f by (cases "re_sections r" rule: rev_cases) (auto simp: rank_work_def)
  then show ?thesis
    using work_inv [OF assms(2) work(2)] remaining_less [OF work(2)] work assms(3) by auto
next
  case (receive i r xs s m ys r')
  have "calls_in_flight S = 0"
    using assms(3) by (simp add: path_found_def)
  then have "is_stop (s, i, m)"
    using receive(6) by (auto simp: no_calls)
  then have "re_done r'"
    using slave_receive_facts [OF receive(8)] by (simp add: is_stop_def)
  then have "rank_work r' < rank_work (rs_ranks S ! i)"
    using receive(3,5) by (simp add: rank_work_def)
  then show ?thesis
    using receive_inv [OF assms(2) receive(2)] remaining_less [OF receive(2)] receive assms(3) by auto
qed

lemma stopped_found: "replay_inv S \<Longrightarrow> q \<in> set (rs_ranks S) \<Longrightarrow> re_done q \<Longrightarrow> path_found S"
  by (auto simp: replay_inv_def searching_def)

lemma found_moves:
  assumes "path_found S" "r \<in> set (rs_ranks S)" "\<not> re_done r"
  shows "\<exists>S'. replay_step fuel k S S'"
proof -
  obtain i where i: "i < length (rs_ranks S)" "\<not> re_done (rs_ranks S ! i)"
    using assms(2,3) by (auto simp: in_set_conv_nth)
  have m: "\<not> re_master (rs_ranks S ! i)"
    using assms(1) i masters_pos [OF i(1)] by (auto simp: path_found_def active_def)
  obtain s q where q: "(s, i, q) \<in> set (rs_net S)"
    using stop_message [of i S] assms(1) i by (auto simp: path_found_def)
  have "\<not> rank_fails S i"
  proof
    assume "rank_fails S i"
    then obtain xs s m ys e where x: "rs_net S = xs @ (s, i, m) # ys" "slave_receive m (rs_ranks S ! i) = Inl e"
      using m by (auto simp: rank_fails_def Let_def active_def)
    have "is_stop (s, i, m)"
      using assms(1) x(1) no_calls [of S] by (simp add: path_found_def)
    then show False
      using x(2) by (simp add: slave_receive_def is_stop_def)
  qed
  then show ?thesis
    using slave_moves [OF i(1) m i(2) q] by blast
qed


text \<open>When the last MPI edge of every rank is blocking, no rank begins as the master, and none ever makes a step.\<close>

lemma no_master_no_step:
  assumes "\<And>r. r \<in> set (rs_ranks S) \<Longrightarrow> \<exists>i c ns. replay_init i c ns = Inr r \<and> \<not> re_master r" "rs_net S = []"
  shows "\<not> replay_step fuel k S S'"
proof
  assume "replay_step fuel k S S'"
  moreover have "\<not> re_master r \<and> re_sections r = []" if "r \<in> set (rs_ranks S)" for r
    using assms(1) [OF that] replay_init_facts by blast
  ultimately show False
    using assms(2) by (elim replay_stepE) auto
qed

section \<open>Two ranks\<close>

definition demo_world :: mpi_analysis where
  "demo_world = (MPIAnalysis_new 0 2)\<lparr>ma_commGroups := [(0, \<lparr>cg_comm = MPI_COMM_SELF, cg_procs = [10, 11]\<rparr>)],
     ma_streamIdRankMap := (\<lambda>k. if k = 10 then Some 0 else if k = 11 then Some 1 else None)\<rparr>"

definition init_node :: "node_ref \<Rightarrow> graph_node" where
  "init_node n = (fst (GraphNode_new n (of_nat n) (10 * of_nat n) 7 ''MPI_Init'' PARADIGM_MPI
     (if n = 1 then RECORD_ENTER else RECORD_LEAVE) (MPI_COLLECTIVE OR MPI_INIT)))\<lparr>gn_first := Some 1, gn_second := Some 2\<rparr>"

definition init_edge :: "bool \<Rightarrow> edge_ref \<Rightarrow> edge" where
  "init_edge blocking e = Edge_new init_node 1 2 10 blocking PARADIGM_MPI"

text \<open>A rank whose only MPI region is \<^verbatim>\<open>MPI_Init\<close>.\<close>

definition init_casita :: "bool \<Rightarrow> casita" where
  "init_casita blocking = demo_casita\<lparr>ca_analysis := (ca_analysis demo_casita)\<lparr>an_mpi := demo_world,
     an_engine := empty_engine\<lparr>ge_heap := init_node, ge_edges := init_edge blocking, ge_nextEdge := 1,
       ge_graph := addEdge (init_edge blocking) 0 ((Graph_new False)\<lparr>g_nodes := [1, 2]\<rparr>),
       ge_streams := (\<lambda>_. Host_Obj ((EventStream_new 7 0 ''rank'' ES_MPI)\<lparr>es_nodes := [1, 2],
         es_lastNodes := replicate NODE_PARADIGM_COUNT (Some 2)\<rparr>)),
       ge_group := EventStreamGroup_new\<lparr>sg_hostStreams := [0], sg_allStreams := [0], sg_streamsMap := [(7, 0)]\<rparr>\<rparr>\<rparr>\<rparr>"

text \<open>The second rank waited for the first one, so that its edge is blocking.\<close>

definition demo_ranks :: "(casita \<times> node_ref list) list" where
  "demo_ranks = [(init_casita False, []), (init_casita True, [])]"

lemma demo_world_ok: "world_ok 2 demo_world"
proof -
  have "getMPICommGroup 0 demo_world = Inr \<lparr>cg_comm = MPI_COMM_SELF, cg_procs = [10, 11]\<rparr>"
    "partner_ranks [10, 11] demo_world = Inr [0, 1]"
    by code_simp+
  moreover have "unat r < 2" if "getMPIRank s demo_world = Inr r" for s r
    using that by (auto simp: getMPIRank_def demo_world_def split: if_splits)
  ultimately show ?thesis
    unfolding world_ok_def by (intro conjI exI [of _ "\<lparr>cg_comm = MPI_COMM_SELF, cg_procs = [10, 11]\<rparr>"] exI [of _ "[0, 1]"])
      (auto simp: upt_rec)
qed

text \<open>The first rank goes from the leave to the enter of \<^verbatim>\<open>MPI_Init\<close> and tells the second one to stop.\<close>

lemma demo_ranks_run:
  "case start_replay demo_ranks of Inr S \<Rightarrow> (case rs_ranks S of [a, b] \<Rightarrow>
       re_master a \<and> \<not> re_done a \<and> \<not> re_master b \<and> \<not> re_done b \<and>
       (case master_step a of Inr (a1, ms1) \<Rightarrow> ms1 = [] \<and> re_master a1 \<and> \<not> re_done a1 \<and>
         (case master_step a1 of Inr (a2, ms2) \<Rightarrow> map fst ms2 = [1] \<and> re_done a2 | _ \<Rightarrow> False) | _ \<Rightarrow> False) | _ \<Rightarrow> False)
   | _ \<Rightarrow> False"
  by code_simp

lemma demo_replay_run:
  obtains S0 a b m where "one_starts demo_ranks S0" "replay_reachable fuel k S0 \<lparr>rs_ranks = [a, b], rs_net = [(0, 1, m)]\<rparr>"
    "re_done a" "\<not> re_done b"
proof -
  obtain S0 a b a1 a2 m where s: "start_replay demo_ranks = Inr S0" "rs_ranks S0 = [a, b]" "re_master a" "\<not> re_done a"
      "\<not> re_master b" "\<not> re_done b"
    and a: "master_step a = Inr (a1, [])" "re_master a1" "\<not> re_done a1" "master_step a1 = Inr (a2, [(1, m)])" "re_done a2"
    using demo_ranks_run by (auto split: sum.splits list.splits prod.splits)
  have n: "rs_net S0 = []"
    using s(1) by (auto simp: start_replay_def bind_res_Inr)
  have "world_ok 2 (an_mpi (ca_analysis (init_casita blocking)))" for blocking
    by (simp add: init_casita_def demo_world_ok)
  from this [unfolded numeral_2_eq_2] have start: "one_starts demo_ranks S0"
    using s by (simp add: one_starts_def demo_ranks_def)
  let ?S0 = "\<lparr>rs_ranks = [a, b], rs_net = []\<rparr>" and ?S1 = "\<lparr>rs_ranks = [a1, b], rs_net = []\<rparr>"
  have "S0 = ?S0"
    using s(2) n by simp
  have "replay_step fuel k ?S0 (?S0\<lparr>rs_ranks := (rs_ranks ?S0)[0 := a1],
      rs_net := rs_net ?S0 @ map (\<lambda>(p, m). (0, unat p, m)) ([] :: sends)\<rparr>)"
    by (rule replay_step.master [OF _ refl]) (simp_all add: s a)
  then have "replay_step fuel k S0 ?S1"
    unfolding \<open>S0 = ?S0\<close> by simp
  moreover have "replay_step fuel k ?S1 (?S1\<lparr>rs_ranks := (rs_ranks ?S1)[0 := a2],
      rs_net := rs_net ?S1 @ map (\<lambda>(p, m). (0, unat p, m)) [(1 :: u32, m)]\<rparr>)"
    by (rule replay_step.master [OF _ refl]) (simp_all add: a)
  then have "replay_step fuel k ?S1 \<lparr>rs_ranks = [a2, b], rs_net = [(0, 1, m)]\<rparr>"
    by simp
  ultimately show ?thesis
    using that [OF start _ a(5) s(6)] by (meson replay_reachable.intros)
qed

theorem one_master_witness:
  "\<exists>S0 S. start_replay demo_ranks = Inr S0 \<and> replay_reachable 0 0 S0 S \<and> (\<exists>r \<in> set (rs_ranks S). re_done r) \<and>
     masters S0 + calls_in_flight S0 = 1 \<and> masters S + calls_in_flight S = 0"
proof -
  obtain S0 a b m where s: "one_starts demo_ranks S0" "replay_reachable 0 0 S0 \<lparr>rs_ranks = [a, b], rs_net = [(0, 1, m)]\<rparr>"
      (is "replay_reachable _ _ _ ?S") "re_done a"
    by (rule demo_replay_run)
  have d: "\<not> (\<exists>r \<in> set (rs_ranks S0). re_done r)"
    using s(1) start_ranks_facts by (fastforce simp: one_starts_def start_replay_def bind_res_Inr in_set_conv_nth)
  from one_master [OF s(1) s(2)] one_master [OF s(1) replay_reachable.start [of 0 0]] s d show ?thesis
    by (intro exI [of _ S0] exI [of _ ?S]) (auto simp: one_starts_def)
qed

theorem replay_never_deadlocks_witness:
  "\<exists>S0 S. start_replay demo_ranks = Inr S0 \<and> replay_reachable 0 0 S0 S \<and> (\<exists>r \<in> set (rs_ranks S). \<not> re_done r) \<and>
     ((\<exists>S'. replay_step 0 0 S S') \<or> (\<exists>i < length (rs_ranks S). rank_fails S i))"
proof -
  obtain S0 a b m where s: "one_starts demo_ranks S0" "replay_reachable 0 0 S0 \<lparr>rs_ranks = [a, b], rs_net = [(0, 1, m)]\<rparr>"
      (is "replay_reachable _ _ _ ?S") "\<not> re_done b"
    by (rule demo_replay_run)
  have b: "b \<in> set (rs_ranks ?S)"
    by simp
  from replay_never_deadlocks [OF s(1,2) b s(3)] s b show ?thesis
    unfolding one_starts_def by blast
qed


end
