(* ===== verification/ParserModel.thy ===== *)
theory ParserModel
  imports CasitaModel
begin

text \<open>The command line (\<^verbatim>\<open>frontend/Parser.cpp\<close>). The arguments after the name of the program are a list of strings. What
  \<^verbatim>\<open>access\<close> says of a file is the parameter \<^verbatim>\<open>file_exists\<close>, and the commands given to the shell are kept in order. Messages
  are left out.\<close>

section \<open>Options\<close>

record program_options =
  po_inFileName :: string
  po_createTraceFile :: bool
  po_outFileName :: string
  po_replaceCASITAoutput :: bool
  po_createRatingCSV :: bool
  po_topX :: u64
  po_predictionFilter :: string
  po_deviceIdle :: int
  po_linkKernels :: int
  po_nullStream :: int
  po_printCriticalPath :: bool
  po_cpaLoopCheck :: u32
  po_mergeActivities :: bool
  po_noErrors :: bool
  po_ignoreAsyncMpi :: bool
  po_ignoreOffload :: bool
  po_ignoreCUDAevents :: bool
  po_blame4deviceIdle :: bool
  po_propagateBlame :: bool
  po_extendedBlame :: bool
  po_analysisInterval :: u32
  po_verbose :: int
  po_eventsProcessed :: int

text \<open>The name of the output file has no default of its own.\<close>

definition setDefaultValues :: "program_options \<Rightarrow> program_options" where
  "setDefaultValues o1 = o1\<lparr>po_createTraceFile := False, po_eventsProcessed := 0, po_inFileName := [],
     po_mergeActivities := True, po_noErrors := False, po_analysisInterval := 64,
     po_replaceCASITAoutput := False, po_printCriticalPath := False, po_cpaLoopCheck := 0, po_verbose := 0,
     po_topX := 20, po_predictionFilter := [], po_deviceIdle := 1, po_linkKernels := 0, po_nullStream := - 1,
     po_ignoreAsyncMpi := False, po_ignoreOffload := False, po_ignoreCUDAevents := False,
     po_blame4deviceIdle := False, po_propagateBlame := False, po_extendedBlame := False,
     po_createRatingCSV := True\<rparr>"

section \<open>Searching in strings\<close>

text \<open>Where the result of \<^verbatim>\<open>find\<close> is compared with \<^verbatim>\<open>npos\<close> it is \<^const>\<open>contains\<close>. The other searches give a position.\<close>

fun find_last_of :: "char \<Rightarrow> string \<Rightarrow> nat option" where
  "find_last_of c [] = None"
| "find_last_of c (x # xs) = (case find_last_of c xs of Some i \<Rightarrow> Some (Suc i) | None \<Rightarrow> if x = c then Some 0 else None)"

fun rfind :: "string \<Rightarrow> string \<Rightarrow> nat option" where
  "rfind p [] = (if p = [] then Some 0 else None)"
| "rfind p (x # xs) = (case rfind p xs of Some i \<Rightarrow> Some (Suc i) | None \<Rightarrow> if take (length p) (x # xs) = p then Some 0 else None)"

function find_char :: "char \<Rightarrow> string \<Rightarrow> nat \<Rightarrow> nat option" where
  "find_char c xs start = (if start < length xs then if xs ! start = c then Some start else find_char c xs (Suc start)
     else None)"
  by pat_completeness auto
termination
  by (relation "measure (\<lambda>(_, xs, start). length xs - start)") auto

declare find_char.simps [simp del]

definition replaceSubstr :: "string \<Rightarrow> string \<Rightarrow> string \<Rightarrow> string \<times> bool" where
  "replaceSubstr str from to = (case rfind from str of
       None \<Rightarrow> (str, False)
     | Some p \<Rightarrow> (take p str @ to @ drop (p + length from) str, True))"

definition endsWith :: "string \<Rightarrow> string \<Rightarrow> bool" where
  "endsWith str ext \<longleftrightarrow> (if length str \<ge> length ext then drop (length str - length ext) str = ext else False)"

text \<open>Extraction of an \<^verbatim>\<open>int\<close> from a stream fails without digits and outside its range.\<close>

definition starts_number :: "string \<Rightarrow> bool" where
  "starts_number s \<longleftrightarrow> (case dropWhile is_space s of [] \<Rightarrow> False
     | c # cs \<Rightarrow> if c = CHR ''-'' \<or> c = CHR ''+'' then cs \<noteq> [] \<and> is_digit (hd cs) else is_digit c)"

definition from_string :: "string \<Rightarrow> int option" where
  "from_string s = (if starts_number s \<and> - (2 ^ 31) \<le> atoi s \<and> atoi s < 2 ^ 31 then Some (atoi s) else None)"

section \<open>Arguments\<close>

text \<open>An option gives new options and the arguments that are left, or ends the processing.\<close>

datatype option_step = Go program_options "string list" | Stop program_options

text \<open>\<^verbatim>\<open>++i < argc && argv[i][0] != '-'\<close>: the next argument counts as read in either case; an empty argument does not
  begin with a dash.\<close>

definition dashed :: "string \<Rightarrow> bool" where
  "dashed s \<longleftrightarrow> s \<noteq> [] \<and> hd s = CHR ''-''"

definition take_value :: "(string \<Rightarrow> program_options \<Rightarrow> program_options) \<Rightarrow> program_options \<Rightarrow> string list \<Rightarrow> option_step" where
  "take_value f o1 rest = (case rest of [] \<Rightarrow> Go o1 []
     | v # rest' \<Rightarrow> if \<not> dashed v then Go (f v o1) rest' else Go o1 rest')"

abbreviation after_prefix :: "string \<Rightarrow> string \<Rightarrow> string" where
  "after_prefix p s \<equiv> drop (length p) s"

text \<open>The options from \<^verbatim>\<open>-p\<close> on.\<close>

definition parse_flag :: "string \<Rightarrow> string list \<Rightarrow> program_options \<Rightarrow> option_step" where
  "parse_flag opt rest o1 =
    (if opt = ''-p'' \<or> contains ''--path'' opt then Go (o1\<lparr>po_printCriticalPath := True\<rparr>) rest
     else if contains ''--force-cp-check='' opt then
       Go (o1\<lparr>po_cpaLoopCheck := word_of_int (atoi (after_prefix ''--force-cp-check='' opt))\<rparr>) rest
     else if contains ''--force-cp-check'' opt then
       (case rest of [] \<Rightarrow> Go (o1\<lparr>po_cpaLoopCheck := 10\<rparr>) rest
        | v # rest' \<Rightarrow> if \<not> dashed v then Go (o1\<lparr>po_cpaLoopCheck := word_of_int (atoi v)\<rparr>) rest'
            else Go (o1\<lparr>po_cpaLoopCheck := 10\<rparr>) rest)
     else if contains ''--no-errors='' opt then Go (o1\<lparr>po_noErrors := True\<rparr>) rest
     else if contains ''--ignore-impi'' opt then Go (o1\<lparr>po_ignoreAsyncMpi := True\<rparr>) rest
     else if contains ''--ignore-offloading'' opt then Go (o1\<lparr>po_ignoreOffload := True\<rparr>) rest
     else if contains ''--ignore-cuda-events'' opt then Go (o1\<lparr>po_ignoreCUDAevents := True\<rparr>) rest
     else if contains ''--blame4device-idle'' opt then Go (o1\<lparr>po_blame4deviceIdle := True\<rparr>) rest
     else if contains ''--propagate-blame'' opt then Go (o1\<lparr>po_propagateBlame := True\<rparr>) rest
     else if opt = ''-e'' \<or> contains ''--extended-blame'' opt then Go (o1\<lparr>po_extendedBlame := True\<rparr>) rest
     else if opt = ''-l'' then Go (o1\<lparr>po_linkKernels := 1\<rparr>) rest
     else if contains ''--link-kernels='' opt then
       Go (o1\<lparr>po_linkKernels := atoi (after_prefix ''--link-kernels='' opt)\<rparr>) rest
     else if contains ''--nullstream='' opt then
       Go (o1\<lparr>po_nullStream := atoi (after_prefix ''--nullstream='' opt)\<rparr>) rest
     else if opt = ''-c'' then take_value (\<lambda>v. po_analysisInterval_update (\<lambda>_. word_of_int (atoi v))) o1 rest
     else if contains ''--interval-analysis='' opt then
       Go (o1\<lparr>po_analysisInterval := word_of_int (atoi (after_prefix ''--interval-analysis='' opt))\<rparr>) rest
     else Stop o1)"

definition parse_option :: "bool \<Rightarrow> string \<Rightarrow> string list \<Rightarrow> program_options \<Rightarrow> option_step" where
  "parse_option first opt rest o1 =
    (if first \<and> \<not> dashed opt then Go (o1\<lparr>po_inFileName := opt\<rparr>) rest
     else if opt = ''-i'' \<or> opt = ''--input'' then take_value (\<lambda>v. po_inFileName_update (\<lambda>_. v)) o1 rest
     else if contains ''--input='' opt then Go (o1\<lparr>po_inFileName := after_prefix ''--input='' opt\<rparr>) rest
     else if opt = ''-o'' \<or> opt = ''--output'' then
       (case rest of [] \<Rightarrow> Go (o1\<lparr>po_createTraceFile := True\<rparr>) rest
        | v # rest' \<Rightarrow> if \<not> dashed v then Go (o1\<lparr>po_outFileName := v, po_createTraceFile := True\<rparr>) rest'
            else Go (o1\<lparr>po_createTraceFile := True\<rparr>) rest)
     else if contains ''--output='' opt then
       Go (o1\<lparr>po_outFileName := after_prefix ''--output='' opt, po_createTraceFile := True\<rparr>) rest
     else if opt = ''-r'' \<or> contains ''--replace'' opt then Go (o1\<lparr>po_replaceCASITAoutput := True\<rparr>) rest
     else if opt = ''-h'' \<or> contains ''--help'' opt then Stop o1
     else if opt = ''-v'' \<or> opt = ''--verbose'' then
       (case rest of [] \<Rightarrow> Go o1 []
        | v # rest' \<Rightarrow> if \<not> dashed v then (case from_string v of Some n \<Rightarrow> Go (o1\<lparr>po_verbose := n\<rparr>) rest' | None \<Rightarrow> Go o1 rest)
            else Go o1 rest')
     else if contains ''--verbose='' opt then
       (case from_string (drop 10 opt) of Some n \<Rightarrow> Go (o1\<lparr>po_verbose := n\<rparr>) rest | None \<Rightarrow> Go o1 rest)
     else if contains ''--no-csv'' opt then Go (o1\<lparr>po_createRatingCSV := False\<rparr>) rest
     else if opt = ''-t'' \<or> opt = ''--top'' then take_value (\<lambda>v. po_topX_update (\<lambda>_. word_of_int (atoi v))) o1 rest
     else if contains ''--top='' opt then Go (o1\<lparr>po_topX := word_of_int (atoi (after_prefix ''--top='' opt))\<rparr>) rest
     else if opt = ''-f'' then take_value (\<lambda>v. po_predictionFilter_update (\<lambda>_. v)) o1 rest
     else if contains ''--filter='' opt then Go (o1\<lparr>po_predictionFilter := after_prefix ''--filter='' opt\<rparr>) rest
     else if contains ''--idle='' opt then Go (o1\<lparr>po_deviceIdle := atoi (after_prefix ''--idle='' opt)\<rparr>) rest
     else parse_flag opt rest o1)"

text \<open>Every step reads an argument, so the loop ends.\<close>

definition not_longer :: "nat \<Rightarrow> option_step \<Rightarrow> bool" where
  "not_longer n s \<longleftrightarrow> (case s of Go _ rest \<Rightarrow> length rest \<le> n | Stop _ \<Rightarrow> True)"

lemma not_longer_simps [simp]: "not_longer n (Go o1 rest) \<longleftrightarrow> length rest \<le> n" "not_longer n (Stop o1)"
  by (simp_all add: not_longer_def)

lemma not_longer_if: "not_longer n s \<Longrightarrow> not_longer n t \<Longrightarrow> not_longer n (if b then s else t)"
  by simp

lemma not_longer_list:
  "not_longer n s \<Longrightarrow> (\<And>v rest'. rest = v # rest' \<Longrightarrow> not_longer n (t v rest')) \<Longrightarrow>
   not_longer n (case rest of [] \<Rightarrow> s | v # rest' \<Rightarrow> t v rest')"
  by (cases rest) simp_all

lemma not_longer_option:
  "not_longer n s \<Longrightarrow> (\<And>v. not_longer n (t v)) \<Longrightarrow> not_longer n (case x of None \<Rightarrow> s | Some v \<Rightarrow> t v)"
  by (cases x) simp_all

lemmas not_longer_intros = not_longer_if not_longer_list not_longer_option

lemma parse_option_not_longer: "not_longer (length rest) (parse_option first opt rest o1)"
  unfolding parse_option_def parse_flag_def take_value_def
  by (intro not_longer_intros) simp_all

lemma parse_option_shorter: "parse_option first opt rest o1 = Go o2 rest' \<Longrightarrow> length rest' \<le> length rest"
  using parse_option_not_longer [of rest first opt o1] by simp

function (sequential) parse_args :: "bool \<Rightarrow> string list \<Rightarrow> program_options \<Rightarrow> bool \<times> program_options" where
  "parse_args first [] o1 = (True, o1)"
| "parse_args first (opt # rest) o1 = (case parse_option first opt rest o1 of
       Stop o2 \<Rightarrow> (False, o2)
     | Go o2 rest' \<Rightarrow> parse_args False rest' o2)"
  by pat_completeness auto
termination
  by (relation "measure (\<lambda>(_, args, _). length args)") (auto dest: parse_option_shorter simp: less_Suc_eq_le)

definition processArgs :: "string list \<Rightarrow> program_options \<Rightarrow> (bool \<times> program_options) result" where
  "processArgs args o1 = (case parse_args True args o1 of
       (False, o2) \<Rightarrow> Inr (False, o2)
     | (True, o2) \<Rightarrow>
         if po_inFileName o2 = [] then Inr (False, o2)
         else if \<not> contains ''.otf2'' (po_inFileName o2) then Inl (Runtime_Error ''No OTF2 input file specified'')
         else Inr (True, o2))"

section \<open>Output files\<close>

record parser_state =
  ps_options :: program_options
  ps_pathToFile :: string
  ps_outArchiveName :: string
  ps_predictionFilter :: "string list"
  ps_commands :: "string list"

definition getRatingFileName :: "parser_state \<Rightarrow> string" where
  "getRatingFileName p = ps_pathToFile p @ ''/'' @ ps_outArchiveName p @ ''_rating.csv''"

definition getSummaryFileName :: "parser_state \<Rightarrow> string" where
  "getSummaryFileName p = ps_pathToFile p @ ''/'' @ ps_outArchiveName p @ ''_summary.txt''"

definition out_file_name :: "program_options \<Rightarrow> string" where
  "out_file_name o1 =
    (let out = (if po_outFileName o1 = po_inFileName o1 then ''casita.otf2'' else po_outFileName o1)
     in if out = [] then (case replaceSubstr (po_inFileName o1) ''traces'' ''casita'' of
          (s, True) \<Rightarrow> s | (_, False) \<Rightarrow> ''casita.otf2'')
        else out)"

definition setOutputDirAndFile :: "parser_state \<Rightarrow> parser_state" where
  "setOutputDirAndFile p =
    (let out = out_file_name (ps_options p);
         (path, archive) = (case find_last_of CHR ''/'' out of
             None \<Rightarrow> (ps_pathToFile p, out)
           | Some k \<Rightarrow> (take k out, drop (k + 1) out));
         archive = (case find_last_of CHR ''.'' archive of None \<Rightarrow> archive | Some k \<Rightarrow> take k archive)
     in p\<lparr>ps_options := (ps_options p)\<lparr>po_outFileName := out\<rparr>, ps_pathToFile := path, ps_outArchiveName := archive\<rparr>)"

text \<open>The search for a number that is not in use; it need not end.\<close>

definition archive_taken :: "(string \<Rightarrow> bool) \<Rightarrow> string \<Rightarrow> bool" where
  "archive_taken file_exists a \<longleftrightarrow> file_exists (a @ ''.otf2'') \<or> file_exists a"

partial_function (option) unique_number :: "(string \<Rightarrow> bool) \<Rightarrow> string \<Rightarrow> nat \<Rightarrow> nat option" where
  "unique_number file_exists dir n =
    (if archive_taken file_exists (dir @ dec_string n) then unique_number file_exists dir (n + 1) else Some n)"

definition trace_dir :: "parser_state \<Rightarrow> string" where
  "trace_dir p = (if ps_pathToFile p = [] then [] else ps_pathToFile p @ ''/'') @ ps_outArchiveName p"

definition run_command :: "string \<Rightarrow> parser_state \<Rightarrow> parser_state" where
  "run_command cmd p = p\<lparr>ps_commands := ps_commands p @ [cmd]\<rparr>"

definition prepare_output :: "(string \<Rightarrow> bool) \<Rightarrow> parser_state \<Rightarrow> parser_state option" where
  "prepare_output file_exists p0 =
    (let p = setOutputDirAndFile p0; dir = trace_dir p;
         r = (if archive_taken file_exists dir then
                if po_replaceCASITAoutput (ps_options p) then Some (run_command (''rm -rf '' @ dir @ ''*'') p)
                else (case unique_number file_exists (dir @ ''_'') 2 of None \<Rightarrow> None
                  | Some n \<Rightarrow> Some (p\<lparr>ps_outArchiveName := ps_outArchiveName p @ ''_'' @ dec_string n\<rparr>))
              else if ps_pathToFile p \<noteq> [] then Some (run_command (''mkdir -p '' @ ps_pathToFile p) p)
              else Some p)
     in map_option (\<lambda>p. if ps_pathToFile p = [] then p\<lparr>ps_pathToFile := ''.''\<rparr> else p) r)"

section \<open>Filter\<close>

lemma find_char_bounds: "find_char c xs start = Some e \<Longrightarrow> start \<le> e \<and> e < length xs \<and> xs ! e = c"
  by (induction c xs start rule: find_char.induct) (subst (asm) (2) find_char.simps, force split: if_splits)

text \<open>The regions of the filter, from a position on. After the loop the end is \<^verbatim>\<open>npos\<close>, so the rest is always a
  region.\<close>

function split_regions :: "string \<Rightarrow> nat \<Rightarrow> string list" where
  "split_regions s start = (case find_char CHR '';'' s start of
       None \<Rightarrow> [drop start s]
     | Some e \<Rightarrow> (if e \<noteq> start then [take (e - start) (drop start s)] else []) @ split_regions s (e + 1))"
  by pat_completeness auto

termination
  by (relation "measure (\<lambda>(s, start). Suc (length s) - start)") (auto dest!: find_char_bounds)

declare split_regions.simps [simp del]

definition parser_init :: "(string \<Rightarrow> bool) \<Rightarrow> string list \<Rightarrow> parser_state \<Rightarrow> (bool \<times> parser_state) result option" where
  "parser_init file_exists args p =
    (case processArgs args (setDefaultValues (ps_options p)) of
       Inl e \<Rightarrow> Some (Inl e)
     | Inr (False, o1) \<Rightarrow> Some (Inr (False, p\<lparr>ps_options := o1\<rparr>))
     | Inr (True, o1) \<Rightarrow>
         (case (if po_createTraceFile o1 \<or> po_createRatingCSV o1 then prepare_output file_exists (p\<lparr>ps_options := o1\<rparr>)
                else Some (p\<lparr>ps_options := o1\<rparr>)) of
            None \<Rightarrow> None
          | Some p \<Rightarrow> Some (Inr (True, if po_predictionFilter o1 = [] then p
              else p\<lparr>ps_predictionFilter := ps_predictionFilter p @ split_regions (po_predictionFilter o1) 0\<rparr>))))"

text \<open>The parser before the call: all members empty.\<close>

definition Parser_new :: "program_options \<Rightarrow> parser_state" where
  "Parser_new o1 = \<lparr>ps_options = o1, ps_pathToFile = [], ps_outArchiveName = [], ps_predictionFilter = [], ps_commands = []\<rparr>"

end
