(* ===== verification/ParserLaws.thy ===== *)
theory ParserLaws
  imports ParserModel RegionLaws
begin

text \<open>Laws of the command line: a printed set of options is read back, the filter is read back, the search for the
  name of the output ends, and the output is a new archive unless replacing was asked for.\<close>

section \<open>Options that are printed\<close>

definition plain :: "string \<Rightarrow> bool" where
  "plain s \<longleftrightarrow> \<not> contains ''--'' s"

lemma contains_trans: "contains (c # d # p) s \<Longrightarrow> contains [c, d] s"
proof (induction "c # d # p" s rule: contains.induct)
  case (2 x xs)
  then show ?case
    by (cases xs) auto
qed simp

lemma plain_contains [simp]: "plain s \<Longrightarrow> \<not> contains (CHR ''-'' # CHR ''-'' # p) s"
  using contains_trans by (auto simp: plain_def)

definition int_string :: "int \<Rightarrow> string" where
  "int_string n = (if n < 0 then ''-'' @ dec_string (nat (- n)) else dec_string (nat n))"

lemma dec_string_Cons: "\<exists>c cs. dec_string n = c # cs \<and> is_digit c"
  using dec_string_digits [of _ n] dec_string_nonempty [of n] by (metis list.exhaust list.set_intros(1))

lemma digit_facts: "is_digit c \<Longrightarrow> c \<noteq> CHR ''-'' \<and> c \<noteq> CHR ''+'' \<and> \<not> is_space c"
  by (auto simp: is_digit_def is_space_def)

lemma atoi_int_string: "atoi (int_string n) = n"
proof -
  obtain c cs where "dec_string (nat \<bar>n\<bar>) = c # cs" "is_digit c"
    using dec_string_Cons by blast
  then show ?thesis
    using atoi_digits_dec [of "nat \<bar>n\<bar>"] digit_facts [of c]
    by (auto simp: atoi_def int_string_def is_space_def)
qed

lemma starts_int_string: "starts_number (int_string n)"
proof -
  obtain c cs where "dec_string (nat \<bar>n\<bar>) = c # cs" "is_digit c"
    using dec_string_Cons by blast
  then show ?thesis
    using digit_facts [of c] by (auto simp: starts_number_def int_string_def is_space_def)
qed

lemma plain_digits: "(\<And>c. c \<in> set s \<Longrightarrow> is_digit c) \<Longrightarrow> \<not> contains ''--'' (x # s)"
proof (induction s arbitrary: x)
  case (Cons c cs)
  then show ?case
    using digit_facts [of c] by (auto simp del: contains.simps simp: contains.simps(2) [of _ x "c # cs"])
qed simp

lemma plain_int_string: "plain (int_string n)"
  using plain_digits [of "dec_string (nat (- n))"] plain_digits [of "dec_string (nat n)" "CHR ''0''"] dec_string_digits
  by (auto simp: plain_def int_string_def)

text \<open>An argument of a prefix and a value.\<close>

definition arg :: "string \<Rightarrow> string \<Rightarrow> string" where
  "arg p v = p @ v"

lemma parse_args_step:
  "parse_option first opt rest o1 = Go o2 rest \<Longrightarrow> parse_args first (opt # rest) o1 = parse_args False rest o2"
  by simp

lemmas arg_defs = arg_def parse_option_def parse_flag_def dashed_def

lemma parse_arg_input:
  "plain s \<Longrightarrow> parse_args first (arg ''--input='' s # rest) o1 = parse_args False rest (o1\<lparr>po_inFileName := s\<rparr>)"
  by (rule parse_args_step) (simp add: arg_defs)

lemma parse_arg_output:
  "plain s \<Longrightarrow> parse_args False (arg ''--output='' s # rest) o1 =
     parse_args False rest (o1\<lparr>po_outFileName := s, po_createTraceFile := True\<rparr>)"
  by (rule parse_args_step) (simp add: arg_defs)

lemma parse_arg_filter:
  "plain s \<Longrightarrow> parse_args False (arg ''--filter='' s # rest) o1 = parse_args False rest (o1\<lparr>po_predictionFilter := s\<rparr>)"
  by (rule parse_args_step) (simp add: arg_defs)

lemma parse_arg_verbose:
  "- (2 ^ 31) \<le> n \<Longrightarrow> n < 2 ^ 31 \<Longrightarrow> parse_args False (arg ''--verbose='' (int_string n) # rest) o1 =
     parse_args False rest (o1\<lparr>po_verbose := n\<rparr>)"
  by (rule parse_args_step) (simp add: arg_defs plain_int_string from_string_def starts_int_string atoi_int_string)

lemma parse_arg_numbers:
  "parse_args False (arg ''--top='' (int_string n) # rest) o1 = parse_args False rest (o1\<lparr>po_topX := word_of_int n\<rparr>)"
  "parse_args False (arg ''--idle='' (int_string n) # rest) o1 = parse_args False rest (o1\<lparr>po_deviceIdle := n\<rparr>)"
  "parse_args False (arg ''--force-cp-check='' (int_string n) # rest) o1 =
     parse_args False rest (o1\<lparr>po_cpaLoopCheck := word_of_int n\<rparr>)"
  "parse_args False (arg ''--link-kernels='' (int_string n) # rest) o1 = parse_args False rest (o1\<lparr>po_linkKernels := n\<rparr>)"
  "parse_args False (arg ''--nullstream='' (int_string n) # rest) o1 = parse_args False rest (o1\<lparr>po_nullStream := n\<rparr>)"
  "parse_args False (arg ''--interval-analysis='' (int_string n) # rest) o1 =
     parse_args False rest (o1\<lparr>po_analysisInterval := word_of_int n\<rparr>)"
  by (rule parse_args_step; simp add: arg_defs plain_int_string atoi_int_string)+

definition flag :: "bool \<Rightarrow> string \<Rightarrow> string list" where
  "flag b s = (if b then [s] else [])"

lemma parse_flags:
  "parse_args False (flag b ''--replace'' @ rest) o1 =
     parse_args False rest (o1\<lparr>po_replaceCASITAoutput := b \<or> po_replaceCASITAoutput o1\<rparr>)"
  "parse_args False (flag b ''--no-csv'' @ rest) o1 =
     parse_args False rest (o1\<lparr>po_createRatingCSV := \<not> b \<and> po_createRatingCSV o1\<rparr>)"
  "parse_args False (flag b ''--path'' @ rest) o1 =
     parse_args False rest (o1\<lparr>po_printCriticalPath := b \<or> po_printCriticalPath o1\<rparr>)"
  "parse_args False (flag b ''--no-errors='' @ rest) o1 =
     parse_args False rest (o1\<lparr>po_noErrors := b \<or> po_noErrors o1\<rparr>)"
  "parse_args False (flag b ''--ignore-impi'' @ rest) o1 =
     parse_args False rest (o1\<lparr>po_ignoreAsyncMpi := b \<or> po_ignoreAsyncMpi o1\<rparr>)"
  "parse_args False (flag b ''--ignore-offloading'' @ rest) o1 =
     parse_args False rest (o1\<lparr>po_ignoreOffload := b \<or> po_ignoreOffload o1\<rparr>)"
  "parse_args False (flag b ''--ignore-cuda-events'' @ rest) o1 =
     parse_args False rest (o1\<lparr>po_ignoreCUDAevents := b \<or> po_ignoreCUDAevents o1\<rparr>)"
  "parse_args False (flag b ''--blame4device-idle'' @ rest) o1 =
     parse_args False rest (o1\<lparr>po_blame4deviceIdle := b \<or> po_blame4deviceIdle o1\<rparr>)"
  "parse_args False (flag b ''--propagate-blame'' @ rest) o1 =
     parse_args False rest (o1\<lparr>po_propagateBlame := b \<or> po_propagateBlame o1\<rparr>)"
  "parse_args False (flag b ''--extended-blame'' @ rest) o1 =
     parse_args False rest (o1\<lparr>po_extendedBlame := b \<or> po_extendedBlame o1\<rparr>)"
  by (cases b; simp add: flag_def arg_defs)+

definition options_args :: "program_options \<Rightarrow> string list" where
  "options_args o1 =
     arg ''--input='' (po_inFileName o1) # flag (po_createTraceFile o1) (arg ''--output='' (po_outFileName o1)) @
     flag (po_replaceCASITAoutput o1) ''--replace'' @ flag (\<not> po_createRatingCSV o1) ''--no-csv'' @
     arg ''--top='' (int_string (uint (po_topX o1))) # arg ''--filter='' (po_predictionFilter o1) #
     arg ''--idle='' (int_string (po_deviceIdle o1)) # arg ''--link-kernels='' (int_string (po_linkKernels o1)) #
     arg ''--nullstream='' (int_string (po_nullStream o1)) # flag (po_printCriticalPath o1) ''--path'' @
     arg ''--force-cp-check='' (int_string (uint (po_cpaLoopCheck o1))) # flag (po_noErrors o1) ''--no-errors='' @
     flag (po_ignoreAsyncMpi o1) ''--ignore-impi'' @ flag (po_ignoreOffload o1) ''--ignore-offloading'' @
     flag (po_ignoreCUDAevents o1) ''--ignore-cuda-events'' @ flag (po_blame4deviceIdle o1) ''--blame4device-idle'' @
     flag (po_propagateBlame o1) ''--propagate-blame'' @ flag (po_extendedBlame o1) ''--extended-blame'' @
     [arg ''--interval-analysis='' (int_string (uint (po_analysisInterval o1))), arg ''--verbose='' (int_string (po_verbose o1))]"

text \<open>The options that arguments can set: merging of activities is always on, and the numbers fit the type that
  \<^verbatim>\<open>atoi\<close> returns.\<close>

definition int_range :: "int \<Rightarrow> bool" where
  "int_range n \<longleftrightarrow> - (2 ^ 31) \<le> n \<and> n < 2 ^ 31"

definition printable_options :: "program_options \<Rightarrow> bool" where
  "printable_options o1 \<longleftrightarrow> plain (po_inFileName o1) \<and> plain (po_outFileName o1) \<and> plain (po_predictionFilter o1) \<and>
     contains ''.otf2'' (po_inFileName o1) \<and> (po_createTraceFile o1 \<or> po_outFileName o1 = []) \<and>
     po_mergeActivities o1 \<and> po_eventsProcessed o1 = 0 \<and> list_all int_range [uint (po_topX o1), po_deviceIdle o1,
       po_linkKernels o1, po_nullStream o1, uint (po_cpaLoopCheck o1), uint (po_analysisInterval o1), po_verbose o1]"

lemma parse_flag_output:
  "plain s \<Longrightarrow> parse_args False (flag b (arg ''--output='' s) @ rest) o1 = parse_args False rest
     (if b then o1\<lparr>po_outFileName := s, po_createTraceFile := True\<rparr> else o1)"
  by (simp add: flag_def parse_arg_output del: parse_args.simps)

text \<open>C26. The options of a run, printed as arguments, are read back: on a parser that has not been used,
  \<^verbatim>\<open>processArgs\<close> succeeds on them and gives exactly these options.\<close>

theorem options_roundtrip:
  assumes "printable_options o1" "po_outFileName o0 = []"
  shows "processArgs (options_args o1) (setDefaultValues o0) = Inr (True, o1)"
proof -
  have "parse_args True (options_args o1) (setDefaultValues o0) = (True, o1)"
    using assms unfolding options_args_def printable_options_def int_range_def
    by (cases o1; cases o0) (auto simp: parse_arg_input parse_flag_output parse_arg_filter parse_arg_verbose parse_arg_numbers
        parse_flags setDefaultValues_def simp del: parse_args.simps(2))
  then show ?thesis
    using assms by (auto simp: processArgs_def printable_options_def)
qed

definition demo_program_options :: program_options where
  "demo_program_options = (setDefaultValues undefined)\<lparr>po_inFileName := ''a/traces.otf2'', po_outFileName := ''out.otf2'',
     po_createTraceFile := True, po_printCriticalPath := True, po_linkKernels := 2, po_nullStream := - 1\<rparr>"

theorem options_roundtrip_witness:
  "processArgs (options_args demo_program_options) (setDefaultValues (demo_program_options\<lparr>po_outFileName := []\<rparr>)) =
     Inr (True, demo_program_options)"
  by (rule options_roundtrip)
    (simp_all add: printable_options_def demo_program_options_def setDefaultValues_def plain_def int_range_def)

section \<open>The filter\<close>

text \<open>The regions joined by semicolons.\<close>

fun join_regions :: "string list \<Rightarrow> string" where
  "join_regions [] = []"
| "join_regions [r] = r"
| "join_regions (r # rs) = r @ CHR '';'' # join_regions rs"

lemma find_char_skip:
  "c \<notin> set r \<Longrightarrow> find_char c (us @ r @ c # t) (length us) = Some (length us + length r)"
proof (induction r arbitrary: us)
  case Nil
  then show ?case
    by (simp add: find_char.simps)
next
  case (Cons x r)
  then show ?case
    using Cons.IH [of "us @ [x]"] by (subst find_char.simps) (auto simp: nth_append)
qed

lemma find_char_none: "c \<notin> set r \<Longrightarrow> find_char c (us @ r) (length us) = None"
proof (induction r arbitrary: us)
  case Nil
  then show ?case
    by (simp add: find_char.simps)
next
  case (Cons x r)
  then show ?case
    using Cons.IH [of "us @ [x]"] by (subst find_char.simps) (auto simp: nth_append)
qed

lemma split_regions_join:
  "rs \<noteq> [] \<Longrightarrow> (\<And>r. r \<in> set rs \<Longrightarrow> r \<noteq> [] \<and> CHR '';'' \<notin> set r) \<Longrightarrow>
   split_regions (us @ join_regions rs) (length us) = rs"
proof (induction rs arbitrary: us rule: join_regions.induct)
  case (2 r)
  then show ?case
    by (subst split_regions.simps) (simp add: find_char_none)
next
  case (3 r r' rs)
  have "CHR '';'' \<notin> set r" "r \<noteq> []"
    using "3.prems"(2) [of r] by simp_all
  moreover have "split_regions (us @ r @ CHR '';'' # join_regions (r' # rs)) (Suc (length us + length r)) = r' # rs"
    using "3.IH" [of "us @ r @ [CHR '';'']"] "3.prems"(2) by simp
  ultimately show ?case
    by (subst split_regions.simps) (simp add: find_char_skip)
qed simp

text \<open>A list that ends in a semicolon has an empty region at its end.\<close>

lemma split_regions_trailing: "split_regions (''work;'') 0 = [''work'', []]"
  by (simp add: split_regions.simps find_char.simps)

section \<open>The output\<close>

lemma unique_number_least:
  assumes "n \<le> k" "\<not> archive_taken fe (dir @ dec_string k)"
    "\<And>m. n \<le> m \<Longrightarrow> m < k \<Longrightarrow> archive_taken fe (dir @ dec_string m)"
  shows "unique_number fe dir n = Some k"
  using assms
proof (induction "k - n" arbitrary: n)
  case 0
  then show ?case
    by (simp add: unique_number.simps)
next
  case (Suc x)
  then have "archive_taken fe (dir @ dec_string n)" "unique_number fe dir (n + 1) = Some k"
    by simp_all
  then show ?case
    by (subst unique_number.simps) simp
qed

lemma finitely_many_taken:
  assumes "finite {f. fe f}"
  shows "finite {m. archive_taken fe (dir @ dec_string m)}"
proof -
  have "{m. archive_taken fe (dir @ dec_string m)} \<subseteq>
      (\<lambda>m. dir @ dec_string m @ ''.otf2'') -` {f. fe f} \<union> (\<lambda>m. dir @ dec_string m) -` {f. fe f}"
    by (auto simp: archive_taken_def)
  moreover have "inj (\<lambda>m. dir @ dec_string m @ ''.otf2'')" "inj (\<lambda>m. dir @ dec_string m)"
    by (auto simp: inj_def dest: dec_string_inj)
  ultimately show ?thesis
    using assms by (meson finite_UnI finite_subset finite_vimageI)
qed

text \<open>With finitely many files the search for a free number ends, and it finds the least one.\<close>

lemma unique_number_returns:
  assumes "finite {f. fe f}"
  shows "\<exists>k\<ge>n. unique_number fe dir n = Some k \<and> \<not> archive_taken fe (dir @ dec_string k) \<and>
     (\<forall>m. n \<le> m \<and> m < k \<longrightarrow> archive_taken fe (dir @ dec_string m))"
proof -
  obtain b where b: "\<And>m. archive_taken fe (dir @ dec_string m) \<Longrightarrow> m < b"
    using finitely_many_taken [OF assms] by (metis finite_nat_set_iff_bounded mem_Collect_eq)
  have "\<exists>k. n \<le> k \<and> \<not> archive_taken fe (dir @ dec_string k)"
    by (intro exI [of _ "max n b"]) (use b [of "max n b"] in auto)
  then obtain k where k: "n \<le> k" "\<not> archive_taken fe (dir @ dec_string k)"
      "\<forall>m<k. \<not> (n \<le> m \<and> \<not> archive_taken fe (dir @ dec_string m))"
    using exists_least_iff [of "\<lambda>k. n \<le> k \<and> \<not> archive_taken fe (dir @ dec_string k)"] by auto
  then have "unique_number fe dir n = Some k"
    by (intro unique_number_least) auto
  with k show ?thesis
    by auto
qed

text \<open>The name of a file in the current directory may be written with the directory. Of the empty name nothing is known:
  no file has it, but the current directory itself exists.\<close>

definition current_dir :: "(string \<Rightarrow> bool) \<Rightarrow> bool" where
  "current_dir fe \<longleftrightarrow> (\<forall>f. f \<noteq> [] \<longrightarrow> CHR ''/'' \<notin> set f \<longrightarrow> fe (''./'' @ f) = fe f)"

definition archive_path :: "parser_state \<Rightarrow> string" where
  "archive_path p = ps_pathToFile p @ ''/'' @ ps_outArchiveName p"

lemma setOutput_fields:
  "ps_commands (setOutputDirAndFile p) = ps_commands p"
  "po_replaceCASITAoutput (ps_options (setOutputDirAndFile p)) = po_replaceCASITAoutput (ps_options p)"
  by (simp_all add: setOutputDirAndFile_def Let_def split: option.split prod.split)

lemma current_dir_exists:
  "current_dir fe \<Longrightarrow> CHR ''/'' \<notin> set a \<Longrightarrow> fe (CHR ''.'' # CHR ''/'' # a @ ''.otf2'') = fe (a @ ''.otf2'')"
  "current_dir fe \<Longrightarrow> CHR ''/'' \<notin> set a \<Longrightarrow> a \<noteq> [] \<Longrightarrow> fe (CHR ''.'' # CHR ''/'' # a) = fe a"
  by (simp_all add: current_dir_def)

lemma after_last: "case find_last_of c s of None \<Rightarrow> c \<notin> set s | Some k \<Rightarrow> c \<notin> set (drop (Suc k) s)"
  by (induction s) (auto split: option.splits)

lemma archive_name_plain: "CHR ''/'' \<notin> set (ps_outArchiveName (setOutputDirAndFile p))"
  using after_last [of "CHR ''/''" "out_file_name (ps_options p)"]
  by (auto simp: setOutputDirAndFile_def Let_def split: option.splits prod.splits dest: in_set_takeD)

lemma dec_string_plain: "CHR ''/'' \<notin> set (dec_string n)"
  using dec_string_digits [of "CHR ''/''" n] by (auto simp: is_digit_def)

lemma prepare_output_new:
  assumes "finite {f. fe f}" "current_dir fe" "\<not> po_replaceCASITAoutput (ps_options p)"
  shows "\<exists>p'. prepare_output fe p = Some p' \<and> \<not> fe (archive_path p' @ ''.otf2'') \<and>
     (ps_outArchiveName p' \<noteq> [] \<longrightarrow> \<not> fe (archive_path p')) \<and>
     (ps_commands p' = ps_commands p \<or> ps_commands p' = ps_commands p @ [''mkdir -p '' @ ps_pathToFile p'])"
proof -
  let ?p = "setOutputDirAndFile p"
  obtain k where "unique_number fe (trace_dir ?p @ ''_'') 2 = Some k"
      "\<not> archive_taken fe ((trace_dir ?p @ ''_'') @ dec_string k)"
    using unique_number_returns [OF assms(1)] by blast
  then show ?thesis
    using assms(2,3) by (cases "archive_taken fe (trace_dir ?p)")
      (auto simp: prepare_output_def Let_def setOutput_fields archive_path_def trace_dir_def run_command_def
        archive_taken_def current_dir_exists archive_name_plain dec_string_plain)
qed

text \<open>C25. Without the option to replace, no file is removed and none is overwritten: if finitely many names exist (the
  system limits their length), \<^verbatim>\<open>init\<close> returns, the file of the archive that it has chosen does not exist, nor does the
  directory of the archive, unless the name of the archive is empty; and the shell has got no command but the one that
  makes the directory of the output. What \<^verbatim>\<open>access\<close> says of a name is a parameter.\<close>

theorem output_is_new:
  assumes "finite {f. fe f}" "current_dir fe"
    and "processArgs args (setDefaultValues (ps_options p)) = Inr (True, o1)"
    and "\<not> po_replaceCASITAoutput o1" "po_createTraceFile o1 \<or> po_createRatingCSV o1"
  shows "\<exists>p'. parser_init fe args p = Some (Inr (True, p')) \<and> \<not> fe (archive_path p' @ ''.otf2'') \<and>
     (ps_outArchiveName p' \<noteq> [] \<longrightarrow> \<not> fe (archive_path p')) \<and>
     (ps_commands p' = ps_commands p \<or> ps_commands p' = ps_commands p @ [''mkdir -p '' @ ps_pathToFile p'])"
proof -
  obtain p' where "prepare_output fe (p\<lparr>ps_options := o1\<rparr>) = Some p'" "\<not> fe (archive_path p' @ ''.otf2'')"
      "ps_outArchiveName p' \<noteq> [] \<longrightarrow> \<not> fe (archive_path p')"
      "ps_commands p' = ps_commands p \<or> ps_commands p' = ps_commands p @ [''mkdir -p '' @ ps_pathToFile p']"
    using prepare_output_new [OF assms(1,2), of "p\<lparr>ps_options := o1\<rparr>"] assms(4) by auto
  then show ?thesis
    using assms(3,5) by (auto simp: parser_init_def archive_path_def)
qed

text \<open>With an output that consists of the extension only, the name of the archive is empty, and its directory is the
  current one, which exists.\<close>

lemma empty_archive_name:
  assumes "\<not> fe ''.otf2''" "\<not> fe []"
  shows "\<exists>p'. parser_init fe [''traces.otf2'', ''-o'', ''.otf2''] (Parser_new o1) = Some (Inr (True, p')) \<and>
     ps_outArchiveName p' = [] \<and> archive_path p' = ''./''"
  using assms by (simp add: parser_init_def processArgs_def arg_defs prepare_output_def setOutputDirAndFile_def out_file_name_def
      Let_def trace_dir_def archive_taken_def archive_path_def setDefaultValues_def Parser_new_def)

definition demo_files :: "string \<Rightarrow> bool" where
  "demo_files f \<longleftrightarrow> f = ''./'' \<or> (if take 2 f = ''./'' then drop 2 f else f) \<in> {''traces.otf2'', ''casita.otf2''}"

lemma finite_with_prefix:
  assumes "finite N"
  shows "finite {f. (if take n f = q then drop n f else f) \<in> N}"
proof (rule finite_subset)
  show "{f. (if take n f = q then drop n f else f) \<in> N} \<subseteq> N \<union> (@) q ` N"
    by (auto split: if_splits) (metis append_take_drop_id image_eqI)
qed (use assms in simp)

lemma demo_files_facts: "finite {f. demo_files f}" "current_dir demo_files"
proof -
  have "finite {f. (if take 2 f = ''./'' then drop 2 f else f) \<in> {''traces.otf2'', ''casita.otf2''}}"
    by (rule finite_with_prefix) (simp only: finite_insert finite.emptyI)
  then show "finite {f. demo_files f}"
    unfolding demo_files_def Collect_disj_eq by simp
  have "take 2 f \<noteq> [c, CHR ''/'']" if "CHR ''/'' \<notin> set f" for f c
    using that by (cases f rule: list.exhaust; cases "tl f") auto
  then show "current_dir demo_files"
    by (auto simp: current_dir_def demo_files_def)
qed

lemma demo_args: "processArgs [''traces.otf2''] (setDefaultValues o1) =
    Inr (True, (setDefaultValues o1)\<lparr>po_inFileName := ''traces.otf2''\<rparr>)"
  by (simp add: processArgs_def arg_defs)

lemma defaults [simp]:
  "po_inFileName (setDefaultValues o1) = []" "po_predictionFilter (setDefaultValues o1) = []"
  "po_createTraceFile (setDefaultValues o1) = False" "po_createRatingCSV (setDefaultValues o1) = True"
  "po_replaceCASITAoutput (setDefaultValues o1) = False" "po_outFileName (setDefaultValues o1) = po_outFileName o1"
  by (simp_all add: setDefaultValues_def)

lemma Parser_new_fields [simp]:
  "ps_options (Parser_new o1) = o1" "ps_pathToFile (Parser_new o1) = []" "ps_commands (Parser_new o1) = []"
  by (simp_all add: Parser_new_def)

theorem output_is_new_witness:
  "\<exists>p'. parser_init demo_files [''traces.otf2''] (Parser_new demo_program_options) = Some (Inr (True, p')) \<and>
     \<not> demo_files (archive_path p' @ ''.otf2'') \<and> (ps_outArchiveName p' \<noteq> [] \<longrightarrow> \<not> demo_files (archive_path p')) \<and>
     (ps_commands p' = ps_commands (Parser_new demo_program_options) \<or>
     ps_commands p' = ps_commands (Parser_new demo_program_options) @ [''mkdir -p '' @ ps_pathToFile p'])"
  by (rule output_is_new [OF demo_files_facts demo_args]) simp_all

lemma no_last_of: "c \<notin> set s \<Longrightarrow> find_last_of c s = None"
  by (induction s) auto

lemma contains_append: "contains p (s @ p)"
  by (induction s) (cases p, auto)

text \<open>C27. With the option to replace the input trace can be removed: the names of input and output are compared as
  they are given, so an output without the extension passes the comparison, and the files that begin with the name of
  its archive are removed, the input among them.\<close>

theorem replace_removes_input:
  assumes "x \<noteq> []" "\<not> dashed x" "CHR ''/'' \<notin> set x" "CHR ''.'' \<notin> set x" "fe (x @ ''.otf2'')"
  shows "\<exists>p'. parser_init fe [x @ ''.otf2'', ''-o'', x, ''-r''] (Parser_new o1) = Some (Inr (True, p')) \<and>
     po_inFileName (ps_options p') = x @ ''.otf2'' \<and> ps_commands p' = [''rm -rf '' @ x @ ''*'']"
proof -
  have args: "processArgs [x @ ''.otf2'', ''-o'', x, ''-r''] (setDefaultValues o1) = Inr (True, (setDefaultValues o1)
      \<lparr>po_inFileName := x @ ''.otf2'', po_outFileName := x, po_createTraceFile := True, po_replaceCASITAoutput := True\<rparr>)"
    using assms contains_append [of "''.otf2''" x] by (simp add: processArgs_def arg_defs hd_append)
  show ?thesis
    using assms by (simp add: parser_init_def args prepare_output_def setOutputDirAndFile_def out_file_name_def
        Let_def no_last_of trace_dir_def archive_taken_def run_command_def)
qed

theorem replace_removes_input_witness:
  "\<exists>p'. parser_init demo_files [''traces'' @ ''.otf2'', ''-o'', ''traces'', ''-r''] (Parser_new demo_program_options) =
     Some (Inr (True, p')) \<and> po_inFileName (ps_options p') = ''traces'' @ ''.otf2'' \<and>
     ps_commands p' = [''rm -rf '' @ ''traces'' @ ''*'']"
  by (rule replace_removes_input) (simp_all add: dashed_def demo_files_def)

text \<open>The default name replaces an input of that name as well, since it is chosen after the comparison.\<close>

lemma default_name_removes_input:
  "fe ''casita.otf2'' \<Longrightarrow> \<exists>p'. parser_init fe [''casita.otf2'', ''-r''] (Parser_new (o1\<lparr>po_outFileName := []\<rparr>)) =
     Some (Inr (True, p')) \<and> ps_commands p' = [''rm -rf casita*'']"
  by (simp add: parser_init_def processArgs_def arg_defs prepare_output_def setOutputDirAndFile_def out_file_name_def
      Let_def replaceSubstr_def trace_dir_def archive_taken_def run_command_def)

text \<open>An output in the root directory is written to the current directory.\<close>

lemma root_output_relative:
  "setOutputDirAndFile (Parser_new (o1\<lparr>po_inFileName := ''t.otf2'', po_outFileName := ''/out.otf2''\<rparr>)) =
     (Parser_new (o1\<lparr>po_inFileName := ''t.otf2'', po_outFileName := ''/out.otf2''\<rparr>))\<lparr>ps_outArchiveName := ''out''\<rparr>"
  by (simp add: setOutputDirAndFile_def Parser_new_def out_file_name_def)

text \<open>Without a trace and a rating the summary is written to the root directory.\<close>

lemma summary_without_output:
  assumes "processArgs args (setDefaultValues o0) = Inr (True, o1)" "\<not> po_createTraceFile o1" "\<not> po_createRatingCSV o1"
  shows "\<exists>p. parser_init fe args (Parser_new o0) = Some (Inr (True, p)) \<and> getSummaryFileName p = ''/_summary.txt''"
  using assms by (simp add: parser_init_def Parser_new_def getSummaryFileName_def)

text \<open>A value that begins with a dash is lost with its option, for a number or an input file.\<close>

lemma option_swallows_next:
  "parse_args False [''-t'', ''-p''] o1 = (True, o1)" "parse_args False [''-c'', ''-e''] o1 = (True, o1)"
  by (simp_all add: arg_defs take_value_def)

text \<open>The option of the help text without an equals sign is not known.\<close>

lemma no_errors_unknown: "parse_args False [''--no-errors''] o1 = (False, o1)"
  by (simp add: arg_defs)

lemma link_kernels_unknown: "parse_args False [''--link-kernels''] o1 = (False, o1)"
  by (simp add: arg_defs)

end
