(* ===== verification/ReaderModel.thy ===== *)
theory ReaderModel
  imports CallbackModel
begin

text \<open>The reader of the trace (\<^verbatim>\<open>backend/otf/OTF2TraceReader.cpp\<close>): its callbacks keep the maps of ranks, groups and
  locations and hand on to the callbacks of the analysis (\<^verbatim>\<open>CallbackModel\<close>, as \<^verbatim>\<open>Runner::prepareAnalysis\<close> sets them). A
  trace is the list of its definition records and the list of its event records, for which the OTF2 library invokes
  the registered callbacks in order; opening and closing the archive is left out.\<close>

section \<open>State\<close>

text \<open>Of the paradigms and kinds of a group the code asks for these only.\<close>

record otf2_group =
  og_mpiGroup :: bool
  og_commLocations :: bool
  og_members :: "u32 list"

record trace_reader =
  tr_mpiRank :: u32
  tr_mpiSize :: u32
  tr_definitions :: definitions
  tr_rankStreamMap :: "(u32, u64) smap"
  tr_groupMap :: "(u32, otf2_group) smap"
  tr_locationStringRefMap :: "(u64, u32) smap"
  tr_sysNodeStringRefMap :: "(u32, u32) smap"
  tr_locationGrpSysNodeRefMap :: "(u32, u32) smap"
  tr_nameKeysMap :: "(string \<times> u32) list"
  tr_metric :: analysis_metric
  tr_casita :: casita

definition OTF2TraceReader_new :: "u32 \<Rightarrow> u32 \<Rightarrow> definitions \<Rightarrow> analysis_metric \<Rightarrow> casita \<Rightarrow> trace_reader" where
  "OTF2TraceReader_new mpiRank mpiSize d m c = \<lparr>tr_mpiRank = mpiRank, tr_mpiSize = mpiSize, tr_definitions = d,
     tr_rankStreamMap = [], tr_groupMap = [], tr_locationStringRefMap = [], tr_sysNodeStringRefMap = [],
     tr_locationGrpSysNodeRefMap = [], tr_nameKeysMap = [], tr_metric = m, tr_casita = c\<rparr>"

text \<open>\<^verbatim>\<open>map[key]\<close> makes an entry with zero when there is none.\<close>

definition smap_at :: "'k::linorder \<Rightarrow> ('k, 'v::zero) smap \<Rightarrow> 'v \<times> ('k, 'v) smap" where
  "smap_at k m = (case map_of m k of Some v \<Rightarrow> (v, m) | None \<Rightarrow> (0, smap_update k 0 m))"

section \<open>Definitions\<close>

datatype definition_record =
    Def_Attribute u32 u32
  | Def_String u32 string
  | Def_ClockProperties u64 u64 u64
  | Def_Location u64 u32 location_type u32
  | Def_LocationProperty u64 u32 u32
  | Def_LocationGroup u32 bool u32
  | Def_SystemTreeNode u32 u32
  | Def_Group u32 bool bool "u64 list"
  | Def_Comm u32 u32
  | Def_Region u32 u32 region_role otf2_paradigm

definition def_ClockProperties :: "u64 \<Rightarrow> u64 \<Rightarrow> u64 \<Rightarrow> trace_reader \<Rightarrow> trace_reader" where
  "def_ClockProperties timerResolution globalOffset traceLength r = r\<lparr>tr_definitions :=
     setTraceLength traceLength (setTimerOffset globalOffset (setTimerResolution timerResolution (tr_definitions r)))\<rparr>"

text \<open>The names of the nodes, used for the output of statistics.\<close>

definition location_node :: "u64 \<Rightarrow> u32 \<Rightarrow> trace_reader \<Rightarrow> trace_reader" where
  "location_node self locationGroup r =
    (case smap_at locationGroup (tr_locationGrpSysNodeRefMap r) of (nodeRef, groups) \<Rightarrow>
     case smap_at nodeRef (tr_sysNodeStringRefMap r) of (nodeStringRef, nodes) \<Rightarrow>
     let r = r\<lparr>tr_locationGrpSysNodeRefMap := groups, tr_sysNodeStringRefMap := nodes\<rparr>
     in case def_getName nodeStringRef (tr_definitions r) of
          None \<Rightarrow> r
        | Some nodeName \<Rightarrow> if tr_mpiRank r = 0 \<and> self = ucast locationGroup
            then r\<lparr>tr_definitions := addLocationInfo self nodeName (tr_definitions r)\<rparr> else r)"

definition def_Location ::
  "blocking_comm \<Rightarrow> u64 \<Rightarrow> u32 \<Rightarrow> location_type \<Rightarrow> u32 \<Rightarrow> trace_reader \<Rightarrow> trace_reader result" where
  "def_Location uninit self name locationType locationGroup r =
    (let r = location_node self locationGroup r;
         r = r\<lparr>tr_casita := handleProcessMPIMapping self locationGroup (tr_casita r)\<rparr>
     in if tr_mpiRank r = locationGroup then
          (let r = r\<lparr>tr_locationStringRefMap := smap_update self name (tr_locationStringRefMap r)\<rparr> in
           case def_getName name (tr_definitions r) of
             None \<Rightarrow> Inl Null_Dereference
           | Some s \<Rightarrow> bind_res (handleDefProcess uninit self (ucast locationGroup) s locationType (tr_casita r))
               (\<lambda>c. Inr (r\<lparr>tr_casita := c\<rparr>)))
        else Inr r)"

definition def_LocationProperty :: "u64 \<Rightarrow> u32 \<Rightarrow> u32 \<Rightarrow> trace_reader \<Rightarrow> trace_reader result" where
  "def_LocationProperty location name value r =
    (case def_getName name (tr_definitions r) of
       None \<Rightarrow> Inr r
     | Some s \<Rightarrow>
         if map_of (tr_locationStringRefMap r) location \<noteq> None
         then bind_res (handleLocationProperty (tr_definitions r) location s value (tr_casita r))
                (\<lambda>c. Inr (r\<lparr>tr_casita := c\<rparr>))
         else Inr r)"

definition def_LocationGroup :: "u32 \<Rightarrow> bool \<Rightarrow> u32 \<Rightarrow> trace_reader \<Rightarrow> trace_reader" where
  "def_LocationGroup self processGroup systemTreeParent r =
    (if processGroup then r\<lparr>tr_locationGrpSysNodeRefMap := smap_update self systemTreeParent (tr_locationGrpSysNodeRefMap r)\<rparr>
     else r)"

definition def_SystemTreeNode :: "u32 \<Rightarrow> u32 \<Rightarrow> trace_reader \<Rightarrow> trace_reader" where
  "def_SystemTreeNode self name r =
    (if haveStringRef name (tr_definitions r)
     then r\<lparr>tr_sysNodeStringRefMap := smap_update self name (tr_sysNodeStringRefMap r)\<rparr> else r)"

text \<open>The members are kept with 32 bits; the group of all locations also gives the streams of the ranks.\<close>

definition rank_streams :: "u64 list \<Rightarrow> (u32, u64) smap \<Rightarrow> (u32, u64) smap" where
  "rank_streams members m = fold (\<lambda>(i, s). smap_update (word_of_nat i) s) (enumerate 0 members) m"

definition def_Group :: "u32 \<Rightarrow> bool \<Rightarrow> bool \<Rightarrow> u64 list \<Rightarrow> trace_reader \<Rightarrow> trace_reader result" where
  "def_Group self mpiGroup commLocations members r =
    (if \<not> mpiGroup then Inr r
     else
       (let g = \<lparr>og_mpiGroup = mpiGroup, og_commLocations = commLocations, og_members = map ucast members\<rparr>;
            r = r\<lparr>tr_groupMap := smap_update self g (tr_groupMap r)\<rparr>
        in if \<not> commLocations then Inr r
           else if length members \<le> unat (tr_mpiRank r)
           then Inl (Runtime_Error ''Process group MPI_COMM_WORLD has no process for this MPI rank'')
           else Inr (r\<lparr>tr_rankStreamMap := rank_streams members (tr_rankStreamMap r),
                       tr_casita := handleMPICommGroup 0 (og_members g) (tr_casita r)\<rparr>)))"

definition def_Comm :: "u32 \<Rightarrow> u32 \<Rightarrow> trace_reader \<Rightarrow> trace_reader" where
  "def_Comm self groupRef r =
    (case map_of (tr_groupMap r) groupRef of
       None \<Rightarrow> r
     | Some g \<Rightarrow>
         if og_mpiGroup g then
           if self = 0 \<and> length (og_members g) \<noteq> unat (tr_mpiSize r) then r
           else r\<lparr>tr_casita := handleMPICommGroup self (og_members g) (tr_casita r)\<rparr>
         else r)"

definition def_Region :: "u32 \<Rightarrow> u32 \<Rightarrow> region_role \<Rightarrow> otf2_paradigm \<Rightarrow> trace_reader \<Rightarrow> trace_reader result" where
  "def_Region self name regionRole paradigm r =
    (let r = r\<lparr>tr_definitions := addRegion self paradigm regionRole name (tr_definitions r)\<rparr> in
     bind_res (getRegionName self (tr_definitions r)) (\<lambda>s.
     case s of None \<Rightarrow> Inl Null_Dereference
     | Some s \<Rightarrow> Inr (r\<lparr>tr_casita := handleDefRegion self s paradigm (tr_casita r)\<rparr>)))"

definition def_Attribute :: "u32 \<Rightarrow> u32 \<Rightarrow> trace_reader \<Rightarrow> trace_reader result" where
  "def_Attribute self name r =
    (case def_getName name (tr_definitions r) of
       None \<Rightarrow> Inl Null_Dereference
     | Some s \<Rightarrow>
         (case handleDefAttribute self s (tr_metric r, tr_casita r) of (m, c) \<Rightarrow>
          Inr (r\<lparr>tr_nameKeysMap := tr_nameKeysMap r @ [(s, self)], tr_metric := m, tr_casita := c\<rparr>)))"

text \<open>The callbacks of location groups and system tree nodes are registered on the first rank only.\<close>

fun read_definition :: "blocking_comm \<Rightarrow> definition_record \<Rightarrow> trace_reader \<Rightarrow> trace_reader result" where
  "read_definition u (Def_Attribute self name) r = def_Attribute self name r"
| "read_definition u (Def_String self name) r = Inr (r\<lparr>tr_definitions := storeString self name (tr_definitions r)\<rparr>)"
| "read_definition u (Def_ClockProperties resolution offset len) r = Inr (def_ClockProperties resolution offset len r)"
| "read_definition u (Def_Location self name t g) r = def_Location u self name t g r"
| "read_definition u (Def_LocationProperty l name value) r = def_LocationProperty l name value r"
| "read_definition u (Def_LocationGroup self processGroup parent) r =
    Inr (if tr_mpiRank r = 0 then def_LocationGroup self processGroup parent r else r)"
| "read_definition u (Def_SystemTreeNode self name) r =
    Inr (if tr_mpiRank r = 0 then def_SystemTreeNode self name r else r)"
| "read_definition u (Def_Group self mpiGroup locations members) r = def_Group self mpiGroup locations members r"
| "read_definition u (Def_Comm self groupRef) r = Inr (def_Comm self groupRef r)"
| "read_definition u (Def_Region self name role paradigm) r = def_Region self name role paradigm r"

fun read_all_definitions :: "blocking_comm \<Rightarrow> definition_record list \<Rightarrow> trace_reader \<Rightarrow> trace_reader result" where
  "read_all_definitions u [] r = Inr r"
| "read_all_definitions u (d # ds) r = bind_res (read_definition u d r) (read_all_definitions u ds)"

definition readDefinitions :: "blocking_comm \<Rightarrow> definition_record list \<Rightarrow> trace_reader \<Rightarrow> (bool \<times> trace_reader) result" where
  "readDefinitions u ds r = bind_res (read_all_definitions u ds r) (\<lambda>r.
     let n = length (tr_rankStreamMap r) in
     if n = 0 \<and> tr_mpiSize r > 1 \<or> n \<noteq> 0 \<and> unat (tr_mpiSize r) \<noteq> n then Inr (False, r)
     else Inr (True, r\<lparr>tr_definitions := setInternalRegions (tr_definitions r)\<rparr>))"

definition getKeys :: "string \<Rightarrow> trace_reader \<Rightarrow> u32 list" where
  "getKeys keyName r = map snd (filter (\<lambda>(s, _). s = keyName) (tr_nameKeysMap r))"

definition getFirstKey :: "string \<Rightarrow> trace_reader \<Rightarrow> int" where
  "getFirstKey keyName r = (case getKeys keyName r of [] \<Rightarrow> - 1 | k # _ \<Rightarrow> sint k)"

section \<open>Events\<close>

text \<open>The operations of a collective: those with a root, and the others.\<close>

datatype collective_op = OP_BCAST | OP_GATHER | OP_GATHERV | OP_REDUCE | OP_SCATTER | OP_SCATTERV | OP_OTHER

datatype event_record =
    Ev_Enter u64 u64 attributes u32
  | Ev_Leave u64 u64 attributes u32
  | Ev_MpiCollectiveEnd u64 collective_op u32 u32
  | Ev_MpiRecv u64 u32 u32 u32
  | Ev_MpiSend u64 u32 u32 u32
  | Ev_MpiISend u64 u32 u32 u32 u64
  | Ev_MpiISendComplete u64 u64
  | Ev_MpiIRecvRequest u64 u64
  | Ev_MpiIRecv u64 u32 u32 u32 u64
  | Ev_ThreadFork u64 u64 attributes u32
  | Ev_ThreadJoin u64 u64 attributes
  | Ev_RmaWinDestroy u64 u64

definition with_casita :: "trace_reader \<Rightarrow> casita step \<Rightarrow> trace_reader step" where
  "with_casita r s = bind_fuel s (\<lambda>c. ret (r\<lparr>tr_casita := c\<rparr>))"

definition event_time :: "u64 \<Rightarrow> trace_reader \<Rightarrow> u64" where
  "event_time time r = time - de_timerOffset (tr_definitions r)"

definition reader_CallbackEnter :: "u64 \<Rightarrow> u64 \<Rightarrow> attributes \<Rightarrow> u32 \<Rightarrow> trace_reader \<Rightarrow> trace_reader step" where
  "reader_CallbackEnter location time kv region r =
    with_casita r (handleEnter (tr_definitions r) (event_time time r) region location kv (tr_casita r))"

definition reader_CallbackLeave :: "nat \<Rightarrow> u64 \<Rightarrow> u64 \<Rightarrow> attributes \<Rightarrow> u32 \<Rightarrow> trace_reader \<Rightarrow> (bool \<times> trace_reader) step" where
  "reader_CallbackLeave fuel location time kv region r =
    bind_fuel (handleLeave fuel (tr_definitions r) (event_time time r) region location kv (tr_casita r))
      (\<lambda>(interrupt, c). ret (interrupt, r\<lparr>tr_casita := c\<rparr>))"

definition collective_type :: "collective_op \<Rightarrow> io_mpi_type" where
  "collective_type op = (if op = OP_OTHER then IO_MPI_COLLECTIVE else IO_MPI_ONEANDALL)"

text \<open>The stream of the root is handed on in an argument of 32 bits.\<close>

definition otf2Callback_MpiCollectiveEnd ::
  "u64 \<Rightarrow> collective_op \<Rightarrow> u32 \<Rightarrow> u32 \<Rightarrow> trace_reader \<Rightarrow> trace_reader step" where
  "otf2Callback_MpiCollectiveEnd location op communicator rootRank r =
    bind_fuel (Some (if collective_type op = IO_MPI_ONEANDALL then
        (case map_of (tr_rankStreamMap r) rootRank of
           None \<Rightarrow> Inl (Runtime_Error ''Could not find stream ID for root rank'')
         | Some s \<Rightarrow> Inr s)
      else Inr UINT64_MAX)) (\<lambda>rootStreamId.
    with_casita r (handleMPIComm (collective_type op) location communicator (ucast rootStreamId) 0 (tr_casita r)))"

definition ThreadFork :: "u64 \<Rightarrow> u64 \<Rightarrow> attributes \<Rightarrow> u32 \<Rightarrow> trace_reader \<Rightarrow> trace_reader step" where
  "ThreadFork location time kv requestedThreads r =
    bind_fuel (reader_CallbackEnter location time kv (de_forkJoin (tr_definitions r)) r) (\<lambda>r.
    with_casita r (handleThreadFork location requestedThreads (tr_casita r)))"

definition never_stops :: "trace_reader step \<Rightarrow> (bool \<times> trace_reader) step" where
  "never_stops s = bind_fuel s (\<lambda>r. ret (False, r))"

fun read_event :: "nat \<Rightarrow> event_record \<Rightarrow> trace_reader \<Rightarrow> (bool \<times> trace_reader) step" where
  "read_event fuel (Ev_Enter l t kv region) r = never_stops (reader_CallbackEnter l t kv region r)"
| "read_event fuel (Ev_Leave l t kv region) r = reader_CallbackLeave fuel l t kv region r"
| "read_event fuel (Ev_MpiCollectiveEnd l op comm rootRank) r = never_stops (otf2Callback_MpiCollectiveEnd l op comm rootRank r)"
| "read_event fuel (Ev_MpiRecv l sender comm tag) r =
    never_stops (with_casita r (handleMPIComm IO_MPI_RECV l sender comm tag (tr_casita r)))"
| "read_event fuel (Ev_MpiSend l receiver comm tag) r =
    never_stops (with_casita r (handleMPIComm IO_MPI_SEND l receiver comm tag (tr_casita r)))"
| "read_event fuel (Ev_MpiISend l receiver comm tag request) r =
    never_stops (with_casita r (cb_handleMPIIsend l (ucast receiver) comm tag request (tr_casita r)))"
| "read_event fuel (Ev_MpiISendComplete l request) r =
    never_stops (with_casita r (cb_handleMPIIsendComplete l request (tr_casita r)))"
| "read_event fuel (Ev_MpiIRecvRequest l request) r =
    never_stops (with_casita r (cb_handleMPIIrecvRequest l request (tr_casita r)))"
| "read_event fuel (Ev_MpiIRecv l sender comm tag request) r =
    never_stops (with_casita r (cb_handleMPIIrecv l (ucast sender) comm tag request (tr_casita r)))"
| "read_event fuel (Ev_ThreadFork l t kv threads) r = never_stops (ThreadFork l t kv threads r)"
| "read_event fuel (Ev_ThreadJoin l t kv) r = reader_CallbackLeave fuel l t kv (de_forkJoin (tr_definitions r)) r"
| "read_event fuel (Ev_RmaWinDestroy l t) r =
    never_stops (with_casita r (handleRmaWinDestroy (event_time t r) l (tr_casita r)))"

text \<open>The callbacks that \<^verbatim>\<open>setupEventReader\<close> registers. Events without a callback, and those of locations that are not
  selected, are passed over.\<close>

fun callback_registered :: "bool \<Rightarrow> u32 \<Rightarrow> event_record \<Rightarrow> bool" where
  "callback_registered ignoreAsyncMPI mpiSize (Ev_MpiCollectiveEnd _ _ _ _) \<longleftrightarrow> mpiSize > 1"
| "callback_registered ignoreAsyncMPI mpiSize (Ev_MpiRecv _ _ _ _) \<longleftrightarrow> mpiSize > 1"
| "callback_registered ignoreAsyncMPI mpiSize (Ev_MpiSend _ _ _ _) \<longleftrightarrow> mpiSize > 1"
| "callback_registered ignoreAsyncMPI mpiSize (Ev_MpiISend _ _ _ _ _) \<longleftrightarrow> \<not> ignoreAsyncMPI"
| "callback_registered ignoreAsyncMPI mpiSize (Ev_MpiISendComplete _ _) \<longleftrightarrow> \<not> ignoreAsyncMPI"
| "callback_registered ignoreAsyncMPI mpiSize (Ev_MpiIRecvRequest _ _) \<longleftrightarrow> \<not> ignoreAsyncMPI"
| "callback_registered ignoreAsyncMPI mpiSize (Ev_MpiIRecv _ _ _ _ _) \<longleftrightarrow> \<not> ignoreAsyncMPI"
| "callback_registered ignoreAsyncMPI mpiSize _ \<longleftrightarrow> True"

fun event_location :: "event_record \<Rightarrow> u64" where
  "event_location (Ev_Enter l _ _ _) = l"
| "event_location (Ev_Leave l _ _ _) = l"
| "event_location (Ev_MpiCollectiveEnd l _ _ _) = l"
| "event_location (Ev_MpiRecv l _ _ _) = l"
| "event_location (Ev_MpiSend l _ _ _) = l"
| "event_location (Ev_MpiISend l _ _ _ _) = l"
| "event_location (Ev_MpiISendComplete l _) = l"
| "event_location (Ev_MpiIRecvRequest l _) = l"
| "event_location (Ev_MpiIRecv l _ _ _ _) = l"
| "event_location (Ev_ThreadFork l _ _ _) = l"
| "event_location (Ev_ThreadJoin l _ _) = l"
| "event_location (Ev_RmaWinDestroy l _) = l"

definition setupEventReader :: "bool \<Rightarrow> event_record list \<Rightarrow> trace_reader \<Rightarrow> event_record list" where
  "setupEventReader ignoreAsyncMPI es r = filter (\<lambda>e. map_of (tr_locationStringRefMap r) (event_location e) \<noteq> None \<and>
     callback_registered ignoreAsyncMPI (tr_mpiSize r) e) es"

text \<open>The events are read by \<^verbatim>\<open>OTF2_Reader_ReadAllGlobalEvents\<close>, library code and a parameter, which calls the callbacks. The
  result says whether events may be left.\<close>

datatype otf2_error_code = OTF2_SUCCESS | OTF2_ERROR_INTERRUPTED_BY_CALLBACK | OTF2_OTHER_ERROR

definition readEvents :: "(trace_reader \<Rightarrow> (otf2_error_code \<times> trace_reader) step) \<Rightarrow> trace_reader \<Rightarrow> (bool \<times> trace_reader) step" where
  "readEvents readAllGlobalEvents r = bind_fuel (readAllGlobalEvents r) (\<lambda>(otf2_error, r).
     if otf2_error \<noteq> OTF2_SUCCESS then
       (if otf2_error = OTF2_ERROR_INTERRUPTED_BY_CALLBACK then ret (True, r)
        else fail (Runtime_Error ''Failed to read OTF2 events''))
     else ret (False, r))"

end
