(* ===== verification/ReaderLaws.thy ===== *)
theory ReaderLaws
  imports ReaderModel CallbackLaws
begin

text \<open>Laws of the trace reader: every rank has a stream after the definitions are read, and the callbacks interrupt reading
  exactly at the collectives of all processes.\<close>

section \<open>The streams of the ranks\<close>

text \<open>The ranks that have a stream are always the first ones.\<close>

definition rank_map_ok :: "(u32, u64) smap \<Rightarrow> bool" where
  "rank_map_ok m \<longleftrightarrow> smap_inv m \<and> (\<forall>k\<in>fst ` set m. \<forall>j<k. j \<in> fst ` set m)"

lemma rank_streams_Cons: "rank_streams (xs @ [x]) m = smap_update (word_of_nat (length xs)) x (rank_streams xs m)"
  by (simp add: rank_streams_def enumerate_append_eq)

lemma rank_streams_keys:
  "smap_inv m \<Longrightarrow> smap_inv (rank_streams xs m) \<and> fst ` set (rank_streams xs m) = fst ` set m \<union> word_of_nat ` {..<length xs}"
  by (induction xs rule: rev_induct)
    (auto simp: rank_streams_Cons smap_update_fst lessThan_Suc rank_streams_def [of "[]"])

lemma word_below: "j < word_of_nat n \<Longrightarrow> j \<in> word_of_nat ` {..<n}" for j :: u32
proof -
  assume "j < word_of_nat n"
  then have "unat j < n mod 2 ^ 32"
    by (simp add: word_less_nat_alt unat_of_nat)
  then have "unat j < n"
    by (meson less_le_trans mod_less_eq_dividend)
  then show ?thesis
    by (intro image_eqI [of _ _ "unat j"]) simp_all
qed

lemma rank_streams_ok:
  assumes "rank_map_ok m"
  shows "rank_map_ok (rank_streams xs m)"
proof -
  let ?A = "fst ` set m" and ?B = "(word_of_nat :: nat \<Rightarrow> u32) ` {..<length xs}"
  have B: "j \<in> ?B" if "k \<in> ?B" "j < k" for j k
  proof -
    from \<open>k \<in> ?B\<close> obtain i where i: "i < length xs" "k = word_of_nat i"
      by blast
    then have "j \<in> word_of_nat ` {..<i}"
      using \<open>j < k\<close> by (intro word_below) simp
    then show ?thesis
      by (rule subsetD [OF image_mono, rotated]) (use i in auto)
  qed
  have A: "j \<in> ?A" if "k \<in> ?A" "j < k" for j k
    using assms that unfolding rank_map_ok_def by blast
  have "\<forall>k\<in>?A \<union> ?B. \<forall>j<k. j \<in> ?A \<union> ?B"
    using A B by (meson UnE UnI1 UnI2)
  moreover have "smap_inv (rank_streams xs m)" "fst ` set (rank_streams xs m) = ?A \<union> ?B"
    using assms rank_streams_keys [of m xs] by (simp_all only: rank_map_ok_def)
  ultimately show ?thesis
    unfolding rank_map_ok_def by simp
qed

definition same_ranks :: "trace_reader \<Rightarrow> trace_reader \<Rightarrow> bool" where
  "same_ranks r r' \<longleftrightarrow> tr_rankStreamMap r' = tr_rankStreamMap r \<and> tr_mpiSize r' = tr_mpiSize r"

lemma location_node_ranks: "same_ranks r (location_node l g r)"
  by (simp add: location_node_def same_ranks_def Let_def split: prod.split option.split)

lemma def_Location_ranks: "def_Location u l n t g r = Inr r' \<Longrightarrow> same_ranks r r'"
  using location_node_ranks [of r l g]
  by (auto simp: def_Location_def Let_def same_ranks_def bind_res_Inr split: if_splits option.splits)

lemma simple_definitions_ranks:
  "def_Attribute i n r = Inr r' \<Longrightarrow> same_ranks r r'"
  "def_LocationProperty l n v r = Inr r' \<Longrightarrow> same_ranks r r'"
  "def_Region i n role p r = Inr r' \<Longrightarrow> same_ranks r r'"
  by (auto simp: def_Attribute_def def_LocationProperty_def def_Region_def same_ranks_def bind_res_Inr Let_def
      split: if_splits option.splits prod.splits)

lemma plain_definitions_ranks:
  "same_ranks r (def_ClockProperties res off len r)" "same_ranks r (def_LocationGroup i b n r)"
  "same_ranks r (def_SystemTreeNode i n r)" "same_ranks r (def_Comm i g r)" "same_ranks r r"
  "same_ranks r (r\<lparr>tr_definitions := ds\<rparr>)"
  by (simp_all add: def_ClockProperties_def def_LocationGroup_def def_SystemTreeNode_def def_Comm_def same_ranks_def
      split: option.split)

lemma def_Group_ranks:
  "def_Group i b l ms r = Inr r' \<Longrightarrow> rank_map_ok (tr_rankStreamMap r) \<Longrightarrow>
   rank_map_ok (tr_rankStreamMap r') \<and> tr_mpiSize r' = tr_mpiSize r"
  by (auto simp: def_Group_def Let_def rank_streams_ok split: if_splits)

lemma read_definition_ranks:
  assumes "read_definition u d r = Inr r'" "rank_map_ok (tr_rankStreamMap r)"
  shows "rank_map_ok (tr_rankStreamMap r') \<and> tr_mpiSize r' = tr_mpiSize r"
proof -
  consider "same_ranks r r'" | "\<exists>i b l ms. def_Group i b l ms r = Inr r'"
    using assms(1) by (cases d)
      (auto dest: def_Location_ranks simple_definitions_ranks simp: plain_definitions_ranks split: if_splits)
  then show ?thesis
    using assms(2) by cases (auto simp: same_ranks_def dest: def_Group_ranks)
qed

lemma read_all_definitions_ranks:
  assumes "read_all_definitions u ds r = Inr r'" "rank_map_ok (tr_rankStreamMap r)"
  shows "rank_map_ok (tr_rankStreamMap r') \<and> tr_mpiSize r' = tr_mpiSize r"
  using assms
  by (induction ds arbitrary: r) (auto simp: bind_res_Inr dest!: read_definition_ranks)

lemma initial_segment:
  fixes S :: "nat set"
  assumes "finite S" "\<And>k j. k \<in> S \<Longrightarrow> j < k \<Longrightarrow> j \<in> S"
  shows "S = {..<card S}"
proof (cases "S = {}")
  case False
  then have "k \<in> S \<longleftrightarrow> k \<le> Max S" for k
    using assms(2) [of "Max S" k] Max_ge [OF assms(1), of k] Max_in [OF assms(1)] by (auto simp: le_less)
  then have "S = {..Max S}"
    by auto
  then show ?thesis
    by (metis card_atMost lessThan_Suc_atMost)
qed simp

lemma rank_map_keys:
  assumes "rank_map_ok m"
  shows "fst ` set m = {k. unat k < length m}"
proof -
  let ?S = "unat ` fst ` set m"
  have inj: "inj_on (unat :: u32 \<Rightarrow> nat) A" for A
    by (meson inj_onI unsigned_word_eqI)
  have "card ?S = card (fst ` set m)"
    by (rule card_image [OF inj])
  also have "\<dots> = length m"
    using assms distinct_card [of "map fst m"] by (simp add: rank_map_ok_def smap_inv_distinct)
  finally have "card ?S = length m" .
  moreover have "j \<in> ?S" if "k \<in> ?S" "j < k" for k j
  proof -
    from \<open>k \<in> ?S\<close> obtain w where w: "w \<in> fst ` set m" "k = unat w"
      by blast
    with \<open>j < k\<close> have j: "unat (word_of_nat j :: u32) = j"
      using unsigned_less [of w, where ?'a = nat] by (simp add: unat_of_nat)
    then have "(word_of_nat j :: u32) < w"
      using w \<open>j < k\<close> by (simp add: word_less_nat_alt)
    then show ?thesis
      using assms w(1) j by (metis image_eqI rank_map_ok_def)
  qed
  ultimately have "?S = {..<length m}"
    using initial_segment [of ?S] by simp
  then have "k \<in> fst ` set m \<longleftrightarrow> unat k < length m" for k
    using inj_image_mem_iff [OF inj, of k "fst ` set m"] by simp
  then show ?thesis
    by auto
qed


text \<open>C28. When the definitions of a trace of several processes have been read, the ranks that have a stream are exactly
  those of the run, so the stream of every root of a collective is found; otherwise reading is refused.\<close>

theorem every_rank_has_stream:
  assumes "readDefinitions u ds (OTF2TraceReader_new mpiRank mpiSize d m c) = Inr (True, r)" "mpiSize > 1"
  shows "fst ` set (tr_rankStreamMap r) = {k. k < mpiSize} \<and> tr_mpiSize r = mpiSize"
proof -
  obtain r1 where r1: "read_all_definitions u ds (OTF2TraceReader_new mpiRank mpiSize d m c) = Inr r1"
      "tr_rankStreamMap r = tr_rankStreamMap r1" "tr_mpiSize r = tr_mpiSize r1"
      "unat (tr_mpiSize r1) = length (tr_rankStreamMap r1) \<or> \<not> tr_mpiSize r1 > 1"
    using assms(1) by (auto simp: readDefinitions_def bind_res_Inr Let_def split: if_splits)
  have "rank_map_ok (tr_rankStreamMap r1)" "tr_mpiSize r1 = mpiSize"
    using read_all_definitions_ranks [OF r1(1)] by (simp_all add: OTF2TraceReader_new_def rank_map_ok_def smap_inv_def)
  then show ?thesis
    using rank_map_keys [of "tr_rankStreamMap r1"] r1 assms(2) by (auto simp: word_less_nat_alt)
qed

section \<open>Interrupts\<close>

text \<open>No callback but that of a leave changes the number of global collectives.\<close>

definition counted :: "bool \<Rightarrow> casita \<Rightarrow> casita \<Rightarrow> bool" where
  "counted b c c' \<longleftrightarrow> ca_globalCollectives c' = ca_globalCollectives c + (if b then 1 else 0)"

named_theorems counts

lemma all_ranks_flag: "has_flag MPI_ALLRANKS MPI_ALLRANKS" "\<not> has_flag MPI_ALLRANKS MPI_INIT" "\<not> has_flag MPI_ALLRANKS MPI_FINALIZE"
  by code_simp+

lemma counted_steps [counts]:
  "on_analysis f c = ret c' \<Longrightarrow> counted False c c'" "with_mpi f c = ret c' \<Longrightarrow> counted False c c'"
  "with_omp g c = ret c' \<Longrightarrow> counted False c c'" "with_offload h c = ret c' \<Longrightarrow> counted False c c'"
  by (auto simp: counted_def on_analysis_def with_mpi_def with_omp_def with_offload_def ret_bind split: option.splits if_splits)

lemma counted_same [simp]: "counted False c c" "counted b (update_stream p f c) c' = counted b c c'"
  "counted b c (update_stream p f c') = counted b c c'" "counted b c (put_heap x c') = counted b c c'"
  by (simp_all add: counted_def update_stream_def put_stream_def put_heap_def)

lemma counted_handlers [counts]:
  "handleKeyValuesEnter kv n c = ret c' \<Longrightarrow> counted False c c'" "handlePostEnter n c = ret c' \<Longrightarrow> counted False c c'"
  "handleKeyValuesLeave kv n m c = ret c' \<Longrightarrow> counted False c c'" "handlePostLeave fuel n c = ret c' \<Longrightarrow> counted False c c'"
  by (auto simp: handleKeyValuesEnter_def handlePostEnter_def handleKeyValuesLeave_def handlePostLeave_def Let_def deref_ret
      split: if_splits dest: counts)

lemma counted_node [counts]: "add_region_node t e fr p nm fd f c = ret (n, c') \<Longrightarrow> counted False c c'"
  by (auto simp: add_region_node_def Let_def ret_def bind_res_Inr counted_def split: if_splits)

lemma counted_collective:
  assumes "global_collective n c = ret (b, c')"
  shows "counted b c c' \<and> (b \<longrightarrow> ma_mpiSize (an_mpi (ca_analysis c')) > 1 \<and> co_analysisInterval (ca_options c') \<noteq> 0 \<and>
    isMPICollective (ca_heap c' n) \<and> isMPIallRanks (ca_heap c' n) \<and> \<not> isMPIInit (ca_heap c' n) \<and> \<not> isMPIFinalize (ca_heap c' n))"
  using assms
  by (auto simp: global_collective_def Let_def ret_bind ret_inject counted_def update_node_def node_update_def addType_def
      isMPICollective_def isMPIallRanks_def isMPIInit_def isMPIFinalize_def isMPI_def all_ranks_flag split: if_splits)

lemma counted_trans: "counted False c d \<Longrightarrow> counted b d e \<Longrightarrow> counted b c e"
  by (simp add: counted_def)


lemma counted_enter: "handleEnter d t f i kv c = ret c' \<Longrightarrow> counted False c c'"
  unfolding handleEnter_def with_location_def Let_def
  by (auto simp: ret_bind ret_inject deref_ret split: option.splits if_splits
      dest!: counts dest: counted_trans)

text \<open>An interrupt tells of a collective of all processes.\<close>

definition at_collective :: "casita \<Rightarrow> bool" where
  "at_collective c \<longleftrightarrow> ma_mpiSize (an_mpi (ca_analysis c)) > 1 \<and> co_analysisInterval (ca_options c) \<noteq> 0 \<and>
    (\<exists>n. isMPICollective (ca_heap c n) \<and> isMPIallRanks (ca_heap c n) \<and> \<not> isMPIInit (ca_heap c n) \<and> \<not> isMPIFinalize (ca_heap c n))"

lemma counted_leave:
  assumes "handleLeave fuel d t f i kv c = ret (b, c')"
  shows "counted b c c' \<and> (b \<longrightarrow> at_collective c')"
proof -
  obtain p r where p: "getStream i (ge_group (ca_engine c)) = Some p" "getRegionInfo f d = Inr r"
    using assms by (cases "getRegionInfo f d") (auto simp: handleLeave_def with_location_def ret_def fail_def split: option.splits)
  define c0 where "c0 = update_stream p (period_second t) c"
  define c1 where "c1 = (if isRegionFiltered f (ca_analysis c0) then update_stream p (setFilter False t) c0 else c0)"
  have same: "counted b c x \<longleftrightarrow> counted b c1 x" for b x
    by (simp add: c1_def c0_def)
  have h: "(if es_isFiltering (base (stream_at p c1)) then ret (False, c1) else
      bind_fuel (Some (region_type r RECORD_LEAVE p c1)) (\<lambda>(generateNode, fd).
        if \<not> generateNode then ret (False, c1)
        else case leave_event kv fd of
          None \<Rightarrow> ret (False, c1)
        | Some (eventId, fResult) \<Rightarrow> deref (ri_name r) (\<lambda>name.
            bind_fuel (add_region_node t eventId fResult p name fd f c1) (\<lambda>(n, c).
            bind_fuel (handleKeyValuesLeave kv n (gn_first (ca_heap c n)) c) (\<lambda>c.
            bind_fuel (handlePostLeave fuel n c) (global_collective n)))))) = ret (b, c')"
    using assms by (simp only: handleLeave_def with_location_def p Let_def option.case bind_fuel_Some sum.case c1_def c0_def)
  show ?thesis
  proof (cases "b = False \<and> c' = c1")
    case True
    then show ?thesis
      by (simp add: same)
  next
    case False
    then obtain fd e fr name n c2 c3 c4 where n: "leave_event kv fd = Some (e, fr)"
        "add_region_node t e fr p name fd f c1 = ret (n, c2)"
        "handleKeyValuesLeave kv n (gn_first (ca_heap c2 n)) c2 = ret c3" "handlePostLeave fuel n c3 = ret c4"
        "global_collective n c4 = ret (b, c')"
      using h by (auto simp: ret_bind ret_inject deref_ret split: if_splits option.splits)
    have "counted False c1 c4"
      by (rule counted_trans [OF counted_node [OF n(2)] counted_trans [OF counted_handlers(3) [OF n(3)] counted_handlers(4) [OF n(4)]]])
    then show ?thesis
      using counted_collective [OF n(5)] counted_trans unfolding same at_collective_def by blast
  qed
qed

lemma counted_comm [counts]:
  "handleMPIComm ty l q k tag c = ret c' \<Longrightarrow> counted False c c'" "cb_handleMPIIsend l u k tag rq c = ret c' \<Longrightarrow> counted False c c'"
  "cb_handleMPIIsendComplete l rq c = ret c' \<Longrightarrow> counted False c c'" "cb_handleMPIIrecvRequest l rq c = ret c' \<Longrightarrow> counted False c c'"
  "cb_handleMPIIrecv l u k tag rq c = ret c' \<Longrightarrow> counted False c c'"
  by (auto simp: handleMPIComm_def cb_handleMPIIsend_def cb_handleMPIIsendComplete_def cb_handleMPIIrecvRequest_def
      cb_handleMPIIrecv_def on_mpi_stream_def dest: counts)

lemma counted_threads [counts]:
  "handleThreadFork l n c = ret c' \<Longrightarrow> counted False c c'" "handleRmaWinDestroy t l c = ret c' \<Longrightarrow> counted False c c'"
  by (auto simp: handleThreadFork_def handleRmaWinDestroy_def with_location_def Let_def ret_inject split: option.splits if_splits)

text \<open>Reading is interrupted exactly when the number of global collectives grows, by one each time, and only by the end
  of a region, at a collective of all of several processes while the analysis runs in intervals.\<close>

lemma interrupt_counted:
  assumes "read_event fuel e r = ret (interrupt, r')"
  shows "counted interrupt (tr_casita r) (tr_casita r') \<and> (interrupt \<longrightarrow> at_collective (tr_casita r'))"
  using assms
  by (cases e) (auto simp: never_stops_def ret_bind ret_inject reader_CallbackEnter_def reader_CallbackLeave_def ThreadFork_def
        otf2Callback_MpiCollectiveEnd_def with_casita_def dest: counts counted_enter counted_leave
      intro: counted_trans [OF counted_enter counted_threads(1)])

section \<open>A trace of two processes\<close>

text \<open>Two processes with a stream each.\<close>

definition demo_definition_records :: "definition_record list" where
  "demo_definition_records = [Def_ClockProperties 1000 100 50, Def_String 1 ''Master thread'', Def_String 2 ''MPI_Barrier'',
     Def_Group 0 True True [7, 9], Def_Location 7 1 OTF2_LOCATION_TYPE_CPU_THREAD 0,
     Def_Location 9 1 OTF2_LOCATION_TYPE_CPU_THREAD 1, Def_Group 1 True False [0, 1], Def_Comm 0 1,
     Def_Region 4 2 OTF2_REGION_ROLE_OTHER OTF2_PARADIGM_OTHER]"

theorem every_rank_has_stream_witness:
  "\<exists>r. readDefinitions demo_comm demo_definition_records (OTF2TraceReader_new 0 2 (OTF2DefinitionHandler_new 0 0)
       AnalysisMetric_init (Casita_new demo_options 0 2 9 False empty_engine)) = Inr (True, r) \<and>
     fst ` set (tr_rankStreamMap r) = {k. k < 2} \<and> tr_mpiSize r = 2"
proof -
  let ?r = "readDefinitions demo_comm demo_definition_records (OTF2TraceReader_new 0 2 (OTF2DefinitionHandler_new 0 0)
       AnalysisMetric_init (Casita_new demo_options 0 2 9 False empty_engine))"
  have "case ?r of Inr (True, r) \<Rightarrow> True | _ \<Rightarrow> False"
    by code_simp
  then obtain r where "?r = Inr (True, r)"
    by (auto split: sum.splits prod.splits bool.splits)
  with every_rank_has_stream [OF this] show ?thesis
    by simp
qed

text \<open>Too few or too many ranks are refused.\<close>

lemma wrong_number_of_ranks:
  "\<exists>r. readDefinitions u [Def_Group 0 True True [7, 9]] (OTF2TraceReader_new 0 3 d m c) = Inr (False, r)"
  by (simp add: readDefinitions_def def_Group_def OTF2TraceReader_new_def rank_streams_def Let_def)

end
