(* ===== verification/Spec2Isabelle.thy ===== *)
theory Spec2Isabelle
  imports ReplayLaws ParserLaws ReaderLaws
begin

text \<open>CASITA analyses a parallel program after its run: it reads the events of a trace (MPI, OpenMP, CUDA and
  OpenCL), builds a graph of the enter and leave nodes of the regions, finds wait states and their causes,
  and computes a critical path. This library models the program in the order in which the code is layered.

  \<^bold>\<open>Parts and theories.\<close> The paths are below \<^verbatim>\<open>src/src\<close>.

  \<^item> \<^verbatim>\<open>Prelude\<close>: machine words, flag tests, errors as values, steps that may not return, decimal output.
  \<^item> \<^verbatim>\<open>MetricModel\<close> (\<^verbatim>\<open>backend/include/AnalysisMetric.hpp\<close>), \<^verbatim>\<open>NodeModel\<close> and \<^verbatim>\<open>NodeOrder\<close>
    (\<^verbatim>\<open>graph/Node.hpp\<close>), \<^verbatim>\<open>GraphNodeModel\<close> and \<^verbatim>\<open>NodeSearch\<close> (\<^verbatim>\<open>graph/GraphNode.hpp\<close>): metrics, the node
    record with its predicates and its order, partners, links, and the searches in a vector of nodes.
  \<^item> \<^verbatim>\<open>EdgeModel\<close> (\<^verbatim>\<open>graph/Edge.hpp\<close>), \<^verbatim>\<open>GraphModel\<close>, \<^verbatim>\<open>GraphLaws\<close> and \<^verbatim>\<open>CriticalPath\<close> (\<^verbatim>\<open>Graph.cpp\<close>): edges
    with weight and blame, the in and out lists of a graph, sub graphs, the critical path.
  \<^item> \<^verbatim>\<open>StreamModel\<close>, \<^verbatim>\<open>StreamLaws\<close>, \<^verbatim>\<open>StreamWalks\<close> (\<^verbatim>\<open>EventStream.cpp\<close>): the sorted nodes of a stream, the
    first and last node of every paradigm, walks; \<^verbatim>\<open>MpiStreamModel\<close>, \<^verbatim>\<open>MpiStreamLaws\<close> (\<^verbatim>\<open>MpiStream.cpp\<close>): the
    records of non-blocking communication; \<^verbatim>\<open>DeviceStreamModel\<close> (\<^verbatim>\<open>DeviceStream.cpp\<close>): pending kernels.
  \<^item> \<^verbatim>\<open>SortedMap\<close>: \<^verbatim>\<open>std::map\<close> in the order of its keys; \<^verbatim>\<open>StreamGroupModel\<close> (\<^verbatim>\<open>EventStreamGroup.cpp\<close>): the
    registry of the streams.
  \<^item> \<^verbatim>\<open>GraphEngineModel\<close>, \<^verbatim>\<open>EngineLaws\<close>, \<^verbatim>\<open>RegionLaws\<close> (\<^verbatim>\<open>GraphEngine.cpp\<close>): the state that owns nodes, edges,
    streams and the stacks of open regions, and the insertion of a node into stream and graph.
  \<^item> \<^verbatim>\<open>StatisticsModel\<close> (\<^verbatim>\<open>Statistics.cpp\<close>), \<^verbatim>\<open>MpiAnalysisModel\<close> (\<^verbatim>\<open>MPIAnalysis.cpp\<close>), \<^verbatim>\<open>BlameModel\<close> and
    \<^verbatim>\<open>BlameLaws\<close> (\<^verbatim>\<open>BlameDistribution.hpp\<close> with the stream walk callbacks), \<^verbatim>\<open>AnalysisModel\<close>
    (\<^verbatim>\<open>AnalysisEngine.cpp\<close>): the state of the analysis and the steps that all rules use.
  \<^item> \<^verbatim>\<open>MpiRules\<close>, \<^verbatim>\<open>MpiRuleLaws\<close>, \<^verbatim>\<open>MpiWaitRules\<close>, \<^verbatim>\<open>MpiWaitLaws\<close> (\<^verbatim>\<open>analysis/include/mpi\<close> and
    \<^verbatim>\<open>AnalysisParadigmMPI.cpp\<close>): the rules of MPI.
  \<^item> \<^verbatim>\<open>OmpModel\<close>, \<^verbatim>\<open>OmpRules\<close>, \<^verbatim>\<open>OmptModel\<close>, \<^verbatim>\<open>OmpLaws\<close>, \<^verbatim>\<open>OmptLaws\<close> (\<^verbatim>\<open>analysis/include/omp\<close> and
    \<^verbatim>\<open>AnalysisParadigmOMP.cpp\<close>): the rules of OpenMP, with OMPT and without.
  \<^item> \<^verbatim>\<open>OffloadModel\<close>, \<^verbatim>\<open>OffloadRules\<close>, \<^verbatim>\<open>OffloadEventRules\<close> (\<^verbatim>\<open>AnalysisParadigmOffload.cpp\<close> and
    \<^verbatim>\<open>analysis/include/offload\<close>): the kernel launches and device events, and the rules of CUDA and OpenCL; their laws
    are in \<^verbatim>\<open>OffloadLaws\<close>, \<^verbatim>\<open>OffloadSyncLaws\<close> and \<^verbatim>\<open>OffloadEventLaws\<close>.
  \<^item> \<^verbatim>\<open>FunctionTable\<close> (\<^verbatim>\<open>backend/include/FunctionTable.hpp\<close>): the kind of a region by its name.
    \<^verbatim>\<open>CasitaModel\<close> (\<^verbatim>\<open>AnalysisEngine.cpp\<close>): the whole analysis of a process, with the dispatch of nodes to the
    paradigms and the begin of the next interval. \<^verbatim>\<open>DefinitionModel\<close> (\<^verbatim>\<open>otf/OTF2DefinitionHandler.cpp\<close>) and
    \<^verbatim>\<open>CallbackModel\<close> (\<^verbatim>\<open>CallbackHandler.cpp\<close>): the definitions and events of the trace. \<^verbatim>\<open>FrameLaws\<close>,
    \<^verbatim>\<open>CallbackLaws\<close>, \<^verbatim>\<open>FilterLaws\<close> and \<^verbatim>\<open>IntervalLaws\<close>: what reading events keeps, nested and filtered regions,
    the begin of an interval.
  \<^item> \<^verbatim>\<open>GroupModel\<close>, \<^verbatim>\<open>GroupLaws\<close> and \<^verbatim>\<open>RatingModel\<close> (\<^verbatim>\<open>frontend/Runner.cpp\<close>): the profile of the regions, merged over
    all ranks and rated.
  \<^item> \<^verbatim>\<open>WriterModel\<close>, \<^verbatim>\<open>WriterEvents\<close> (\<^verbatim>\<open>otf/OTF2ParallelTraceWriter.cpp\<close>): the second pass over the events, which
    collects the profile and writes the metrics, with \<^verbatim>\<open>WriterLaws\<close> and \<^verbatim>\<open>IdleLaws\<close>.
  \<^item> \<^verbatim>\<open>RunnerModel\<close>, \<^verbatim>\<open>RunnerLaws\<close> (\<^verbatim>\<open>frontend/Runner.cpp\<close>): the run of all ranks, with the begin of
    intervals, the statistics, and begin, sections and end of the critical path; \<^verbatim>\<open>ReplayModel\<close>,
    \<^verbatim>\<open>ReplayLaws\<close>: the replay between the ranks (\<^verbatim>\<open>detectCriticalPathMPIP2P\<close>), a step relation on the states
    of all ranks and the messages in flight.
  \<^item> \<^verbatim>\<open>ReaderModel\<close>, \<^verbatim>\<open>ReaderLaws\<close> (\<^verbatim>\<open>otf/OTF2TraceReader.cpp\<close>): the callbacks for the records of a trace, as
    they are registered, and when they interrupt reading.
  \<^item> \<^verbatim>\<open>ParserModel\<close>, \<^verbatim>\<open>ParserLaws\<close> (\<^verbatim>\<open>frontend/Parser.cpp\<close>): the options of the command line and the names of the output files.

  \<^bold>\<open>State.\<close> A pointer to a node, an edge or a stream is a number, and a heap maps it to its record; a null
  pointer is \<^term>\<open>None\<close>. The record \<^typ>\<open>engine\<close> holds the heaps with the next free numbers, the record
  \<^typ>\<open>analysis\<close> the engine with the data of the analysis, and a rule maps a state to a state. Integers are
  words of their width. A C++ \<^verbatim>\<open>double\<close> that holds blame is an exact rational: its
  rounding is left out, and blame over an interval of length zero, which the code divides to an infinity or a
  NaN, is an error value.

  \<^bold>\<open>Errors and loops.\<close> An exception, a failed assertion and undefined behaviour (reading null, reading past a
  vector, using an erased iterator) are values of \<^typ>\<open>error\<close>. A step of type \<^typ>\<open>'a step\<close> is \<^term>\<open>None\<close> when
  the code does not return. A loop with no bound in the code is a \<^verbatim>\<open>partial_function\<close>; \<^verbatim>\<open>distributeBlame\<close> and the
  critical path take fuel: without propagation one unit is enough for the first, and more units than nodes for
  the second, as their theorems show. Reading a tree of regions takes the fuel of the steps it calls.

  \<^bold>\<open>What the lemmas show.\<close> The graph: edge lists stay consistent and a critical path leads forward in time. The
  streams: nodes stay sorted, slots and walks find the right nodes, pending requests are released. The engine:
  a new node is linked into its stream and its region. The rules: the waiting time that is recorded at one side
  is blamed at the other side (\<^verbatim>\<open>send_recv_balance\<close>, \<^verbatim>\<open>collective_balance\<close>, \<^verbatim>\<open>omp_barrier_balance\<close>), and the
  blame that is distributed is the blame on the edges afterwards (\<^verbatim>\<open>distributeBlame_conserves\<close>). The trace: nested
  regions close, filtered regions are hidden, an interval keeps the launches it needs, every rank has a stream, and a
  callback interrupts reading only at a collective of all ranks, each of which is counted once. The profile: the time of a
  region is its exclusive time, and the profile of all ranks is their sum, in whichever way it is gathered. The
  ranks: intervals begin on all ranks or none; a replay that starts with exactly one rank whose last MPI edge is not
  blocking, as the code assumes after a collective, has one master at a time, no deadlock, and an end. The
  command line: printed options are read back, and without the option to replace nothing is removed and the file of the archive is new.
  Several theorems state what the code does where a comment promises something else.

  \<^bold>\<open>Parameters.\<close> Library code that the program calls is an argument of the definitions that use it:
  \<^verbatim>\<open>MPI_Gatherv\<close> of \<^verbatim>\<open>mergeActivityGroups\<close>, with its documented behaviour as the hypothesis \<^verbatim>\<open>gatherv_spec\<close> (for a call
  whose counts, places and buffer size are right, which the theorems show of the code's call);
  \<^verbatim>\<open>access\<close> of the command line, with \<^verbatim>\<open>current_dir\<close>; \<^verbatim>\<open>OTF2_Reader_ReadAllGlobalEvents\<close> of \<^verbatim>\<open>readEvents\<close>, of which
  nothing is assumed; what the other ranks have sent, for the rules and the statistics. The maximum that
  \<^verbatim>\<open>MPI_Allreduce\<close> gives to all ranks is the maximum of a list.

  \<^bold>\<open>Conventions.\<close> \<^verbatim>\<open>std::sort\<close> is an insertion sort; rules of equal priority keep the order of their registration. A
  message of MPI, the result of an MPI call and an attribute of an OTF2 event are arguments. Output to the
  console is left out. Members that the code leaves uninitialised are arguments of the constructor.

  \<^bold>\<open>Not modelled.\<close> The OTF2 library itself (the callbacks and their registration are modelled, not the loop that
  invokes them; opening, writing and closing archives is left out), the copying of records
  that the program does not change, MPI transport, the text of the summary, and
  rules that no paradigm registers.\<close>

end
